(* ===== verification/Go_Prelude.thy ===== *)
theory Go_Prelude
  imports Main "HOL-Library.AList" "HOL-Library.Word"
begin

text \<open>
  The part of the Go language and of its standard library that the modelled packages use:
  maps, the fixed-width \<open>int\<close> and \<open>uint\<close>, \<open>strconv.Itoa\<close> and \<open>strconv.Atoi\<close>, slices with
  the distinction between nil and empty, and calls that may panic.

  A Go map is an association list. The interface locale \<open>go_map\<close> states what the language
  promises of a map; the components use the laws of its interpretation \<open>gm\<close>. A \<open>range\<close> loop
  over a map visits the entries in the order of the list: Go leaves that order open, and since
  the statements about loops hold for every list they hold for every order.
\<close>

section \<open>Collections of rewrite rules\<close>

named_theorems go_simps \<open>rewrite rules of the Go library model\<close>
named_theorems nef_defs \<open>definitions of the NEF handlers, unfolded by component proofs\<close>

section \<open>Maps\<close>

type_synonym ('k, 'v) gomap = "('k \<times> 'v) list"

definition gm_get :: "('k, 'v) gomap \<Rightarrow> 'k \<Rightarrow> 'v option" where
  "gm_get m k = map_of m k"

definition gm_put :: "'k \<Rightarrow> 'v \<Rightarrow> ('k, 'v) gomap \<Rightarrow> ('k, 'v) gomap" where
  "gm_put k v m = AList.update k v m"

definition gm_del :: "'k \<Rightarrow> ('k, 'v) gomap \<Rightarrow> ('k, 'v) gomap" where
  "gm_del k m = AList.delete k m"

definition gm_len :: "('k, 'v) gomap \<Rightarrow> nat" where
  "gm_len m = length m"

text \<open>A list stands for a map when it holds every key once.\<close>

definition gm_ok :: "('k, 'v) gomap \<Rightarrow> bool" where
  "gm_ok m \<longleftrightarrow> distinct (map fst m)"

locale go_map =
  fixes mt :: "'m"
    and get :: "'m \<Rightarrow> 'k \<Rightarrow> 'v option"
    and put :: "'k \<Rightarrow> 'v \<Rightarrow> 'm \<Rightarrow> 'm"
    and del :: "'k \<Rightarrow> 'm \<Rightarrow> 'm"
    and len :: "'m \<Rightarrow> nat"
    and ok :: "'m \<Rightarrow> bool"
  assumes get_mt: "get mt k = None"
    and get_put: "get (put k v m) k' = (if k' = k then Some v else get m k')"
    and get_del: "get (del k m) k' = (if k' = k then None else get m k')"
    and ok_mt: "ok mt"
    and ok_put: "ok m \<Longrightarrow> ok (put k v m)"
    and ok_del: "ok m \<Longrightarrow> ok (del k m)"
    and finite_get: "finite (dom (get m))"
    and len_card: "ok m \<Longrightarrow> len m = card (dom (get m))"
begin

lemma dom_put: "dom (get (put k v m)) = insert k (dom (get m))"
  by (auto simp: get_put dom_def)

lemma dom_del: "dom (get (del k m)) = dom (get m) - {k}"
  by (auto simp: get_del dom_def)

lemma len_put_new:
  assumes "ok m" and "get m k = None"
  shows "len (put k v m) = Suc (len m)"
  using assms finite_get [of m] by (simp add: len_card ok_put dom_put domIff card_insert_disjoint)

lemma len_put_old:
  assumes "ok m" and "get m k = Some w"
  shows "len (put k v m) = len m"
  using assms by (simp add: len_card ok_put dom_put insert_absorb domI)

lemma len_put_le: "ok m \<Longrightarrow> len (put k v m) \<le> Suc (len m)"
  using len_put_new len_put_old by (cases "get m k") fastforce+

lemma len_del:
  assumes "ok m" and "get m k = Some v"
  shows "Suc (len (del k m)) = len m"
proof -
  have "k \<in> dom (get m)" using assms(2) by blast
  then have "Suc (card (dom (get m) - {k})) = card (dom (get m))"
    by (rule card_Suc_Diff1 [OF finite_get])
  with assms show ?thesis by (simp add: len_card ok_del dom_del)
qed

lemma len_del_le: "ok m \<Longrightarrow> len (del k m) \<le> len m"
  using finite_get [of m] by (simp add: len_card ok_del dom_del card_Diff1_le)

lemma len_mt: "len mt = 0"
proof -
  have "dom (get mt) = {}" by (auto simp: get_mt)
  then show ?thesis by (simp add: len_card ok_mt)
qed

lemma len_0_iff: "ok m \<Longrightarrow> len m = 0 \<longleftrightarrow> (\<forall>k. get m k = None)"
  using finite_get [of m] by (auto simp: len_card domIff)

end

lemma dom_gm_get: "dom (gm_get m) = set (map fst m)"
proof -
  have "gm_get m = map_of m" by (simp add: gm_get_def fun_eq_iff)
  then show ?thesis by (simp add: dom_map_of_conv_image_fst)
qed

interpretation gm: go_map "[]" gm_get gm_put gm_del gm_len gm_ok
proof unfold_locales
  fix m :: "('a, 'b) gomap" and k k' :: 'a and v :: 'b
  show "gm_get [] k = (None :: 'b option)"
    by (simp add: gm_get_def)
  show "gm_get (gm_put k v m) k' = (if k' = k then Some v else gm_get m k')"
    by (simp add: gm_get_def gm_put_def update_conv')
  show "gm_get (gm_del k m) k' = (if k' = k then None else gm_get m k')"
    by (simp add: gm_get_def gm_del_def delete_conv')
  show "gm_ok ([] :: ('a, 'b) gomap)"
    by (simp add: gm_ok_def)
  show "gm_ok (gm_put k v m)" if "gm_ok m"
    using that by (simp add: gm_ok_def gm_put_def distinct_update)
  show "gm_ok (gm_del k m)" if "gm_ok m"
    using that by (simp add: gm_ok_def gm_del_def distinct_delete)
  show "finite (dom (gm_get m))"
    by (simp add: dom_gm_get)
  show "gm_len m = card (dom (gm_get m))" if "gm_ok m"
    using that by (simp only: dom_gm_get gm_ok_def gm_len_def)
      (metis distinct_card length_map)
qed

lemmas gm_laws [simp] = gm.get_mt gm.get_put gm.get_del gm.ok_mt gm.ok_put gm.ok_del

lemma gm_get_mem: "gm_get m k = Some v \<Longrightarrow> (k, v) \<in> set m"
  by (simp add: gm_get_def map_of_SomeD)

lemma gm_mem_get: "gm_ok m \<Longrightarrow> (k, v) \<in> set m \<longleftrightarrow> gm_get m k = Some v"
  by (simp add: gm_ok_def gm_get_def)

lemma gm_get_Cons [simp]: "gm_get ((k, v) # m) k' = (if k' = k then Some v else gm_get m k')"
  by (simp add: gm_get_def)

lemma gm_ok_Cons [simp]: "gm_ok ((k, v) # m) \<longleftrightarrow> gm_get m k = None \<and> gm_ok m"
  by (auto simp: gm_ok_def gm_get_def map_of_eq_None_iff)

lemma gm_put_same [simp]: "gm_put k v (gm_put k w m) = gm_put k v m"
  by (simp add: gm_put_def)

lemma gm_len_simps [simp]: "gm_len [] = 0" "gm_len (x # m) = Suc (gm_len m)"
  by (simp_all add: gm_len_def)

lemma gm_put_simps [simp]:
  "gm_put k v [] = [(k, v)]"
  "gm_put k v ((k', w) # m) = (if k' = k then (k, v) # m else (k', w) # gm_put k v m)"
  by (auto simp: gm_put_def)

lemma gm_del_simps [simp]:
  "gm_del k [] = []"
  "gm_del k ((k', w) # m) = (if k' = k then gm_del k m else (k', w) # gm_del k m)"
  by (auto simp: gm_del_def)

lemma gm_put_id: "gm_get m k = Some v \<Longrightarrow> gm_put k v m = m"
  by (induction m) (auto split: if_splits)

lemma gm_del_absent: "gm_get m k = None \<Longrightarrow> gm_del k m = m"
  by (induction m) (auto split: if_splits)

lemma gm_del_put: "gm_del k (gm_put k v m) = gm_del k m"
  by (induction m) auto

text \<open>Updating every entry of a map, as a \<open>range\<close> loop that writes each key back does.\<close>

lemma gm_get_map_ran [simp]: "gm_get (map_ran f m) k = map_option (f k) (gm_get m k)"
  by (induction m) (auto simp: gm_get_def map_ran_def)

lemma gm_ok_map_ran [simp]: "gm_ok (map_ran f m) = gm_ok m"
  by (simp add: gm_ok_def)

lemma gm_len_map_ran [simp]: "gm_len (map_ran f m) = gm_len m"
  by (simp add: gm_len_def)

end
