(* ===== verification/Go_Strconv.thy ===== *)
theory Go_Strconv
  imports Go_Prelude
begin

text \<open>
  Go's \<open>int\<close> and \<open>uint\<close> on the 64-bit targets of the program, \<open>strconv.Itoa\<close> and
  \<open>strconv.Atoi\<close>. Counters are 64-bit words, so \<open>n++\<close> wraps around; an \<open>int\<close> is read with
  \<open>sint\<close>. The two lemmas the components rest on are the round trip \<open>Atoi_Itoa\<close> and
  \<open>Itoa_offset_inj\<close>: the decimal names drawn from a counter are pairwise different for
  \<open>2 ^ 64\<close> draws, wherever the counter starts.
\<close>

type_synonym goint = "64 word"

definition dec_digit :: "nat \<Rightarrow> char" where
  "dec_digit n = char_of (48 + n)"

fun dec_digits :: "nat \<Rightarrow> string" where
  "dec_digits n = (if n < 10 then [dec_digit n] else dec_digits (n div 10) @ [dec_digit (n mod 10)])"

declare dec_digits.simps [simp del]

definition Itoa :: "goint \<Rightarrow> string" where
  "Itoa w = (let i = sint w in
     if i < 0 then CHR ''-'' # dec_digits (nat (- i)) else dec_digits (nat i))"

definition is_dec :: "char \<Rightarrow> bool" where
  "is_dec c \<longleftrightarrow> 48 \<le> (of_char c :: nat) \<and> (of_char c :: nat) < 58"

fun parse_dec :: "string \<Rightarrow> nat \<Rightarrow> nat option" where
  "parse_dec [] acc = Some acc"
| "parse_dec (c # cs) acc = (if is_dec c then parse_dec cs (10 * acc + (of_char c - 48)) else None)"

definition maxInt :: int where "maxInt = 2 ^ 63 - 1"

definition minInt :: int where "minInt = - (2 ^ 63)"

text \<open>
  \<open>Atoi s\<close> is the pair of the returned number and of whether an error is returned with it:
  0 for a syntax error, the nearest \<open>int\<close> for a number out of range.
\<close>

definition Atoi :: "string \<Rightarrow> goint \<times> bool" where
  "Atoi s =
     (let neg = (s \<noteq> [] \<and> hd s = CHR ''-'');
          ds = (if s \<noteq> [] \<and> (hd s = CHR ''-'' \<or> hd s = CHR ''+'') then tl s else s)
      in if ds = [] then (0, True)
         else case parse_dec ds 0 of
           None \<Rightarrow> (0, True)
         | Some n \<Rightarrow>
             (let i = (if neg then - int n else int n)
              in if i > maxInt then (of_int maxInt, True)
                 else if i < minInt then (of_int minInt, True)
                 else (of_int i, False)))"

subsection \<open>The round trip\<close>

lemma of_char_dec_digit: "n < 10 \<Longrightarrow> of_char (dec_digit n) = 48 + n"
  by (simp add: dec_digit_def)

lemma is_dec_dec_digit: "n < 10 \<Longrightarrow> is_dec (dec_digit n)"
  by (simp add: is_dec_def of_char_dec_digit)

lemma parse_dec_append:
  "parse_dec (xs @ ys) acc = Option.bind (parse_dec xs acc) (parse_dec ys)"
  by (induction xs arbitrary: acc) auto

lemma parse_dec_digits: "parse_dec (dec_digits n) 0 = Some n"
proof (induction n rule: dec_digits.induct)
  case (1 n)
  show ?case
  proof (cases "n < 10")
    case True
    then show ?thesis
      by (subst dec_digits.simps) (simp add: is_dec_dec_digit of_char_dec_digit)
  next
    case False
    with "1.IH" have "parse_dec (dec_digits (n div 10)) 0 = Some (n div 10)" by simp
    with False show ?thesis
      by (subst dec_digits.simps)
        (simp add: parse_dec_append is_dec_dec_digit of_char_dec_digit)
  qed
qed

lemma dec_digits_all_dec: "c \<in> set (dec_digits n) \<Longrightarrow> is_dec c"
proof (induction n rule: dec_digits.induct)
  case (1 n)
  show ?case
  proof (cases "n < 10")
    case True
    with "1.prems" show ?thesis
      by (subst (asm) dec_digits.simps) (simp add: is_dec_dec_digit)
  next
    case False
    with "1.prems" have "c \<in> set (dec_digits (n div 10)) \<or> c = dec_digit (n mod 10)"
      by (subst (asm) dec_digits.simps) auto
    with "1.IH" [OF False] show ?thesis by (auto simp: is_dec_dec_digit)
  qed
qed

lemma dec_digits_nonempty [simp]: "dec_digits n \<noteq> []"
  by (subst dec_digits.simps) simp

lemma dec_digits_hd: "hd (dec_digits n) \<noteq> CHR ''-''" "hd (dec_digits n) \<noteq> CHR ''+''"
proof -
  have "is_dec (hd (dec_digits n))" by (rule dec_digits_all_dec [OF hd_in_set]) simp
  then show "hd (dec_digits n) \<noteq> CHR ''-''" "hd (dec_digits n) \<noteq> CHR ''+''"
    by (auto simp: is_dec_def)
qed

lemma Itoa_nonempty [simp]: "Itoa w \<noteq> []"
  by (simp add: Itoa_def Let_def)

lemma sint_goint_bounds: "minInt \<le> sint (w :: goint)" "sint (w :: goint) \<le> maxInt"
  using sint_lt [of w] sint_ge [of w] by (simp_all add: minInt_def maxInt_def)

theorem Atoi_Itoa: "Atoi (Itoa w) = (w, False)"
proof (cases "sint w < 0")
  case True
  then have "Itoa w = CHR ''-'' # dec_digits (nat (- sint w))"
    by (simp add: Itoa_def Let_def)
  moreover have "- int (nat (- sint w)) = sint w" using True by simp
  ultimately show ?thesis
    using sint_goint_bounds [of w] by (simp add: Atoi_def Let_def parse_dec_digits)
next
  case False
  then have "Itoa w = dec_digits (nat (sint w))"
    by (simp add: Itoa_def Let_def)
  moreover have "int (nat (sint w)) = sint w" using False by simp
  ultimately show ?thesis
    using sint_goint_bounds [of w] dec_digits_hd [of "nat (sint w)"]
    by (simp add: Atoi_def Let_def parse_dec_digits)
qed

lemma Itoa_inj [simp]: "Itoa v = Itoa w \<longleftrightarrow> v = w"
  by (metis Atoi_Itoa prod.inject)

subsection \<open>Names drawn from a counter\<close>

lemma of_nat_goint_inj:
  assumes "i < 2 ^ 64" and "j < 2 ^ 64" and "(of_nat i :: goint) = of_nat j"
  shows "i = j"
proof -
  have "unat (of_nat i :: goint) = i" and "unat (of_nat j :: goint) = j"
    using assms(1,2) by (simp_all add: unat_of_nat take_bit_nat_eq_self)
  with assms(3) show ?thesis by metis
qed

lemma Itoa_offset_inj:
  "i < 2 ^ 64 \<Longrightarrow> j < 2 ^ 64 \<Longrightarrow> Itoa (c + of_nat i) = Itoa (c + of_nat j) \<longleftrightarrow> i = j"
  using of_nat_goint_inj by auto

text \<open>
  \<open>drawn c n s\<close>: the string \<open>s\<close> is one of the first \<open>n\<close> names drawn from a counter that
  started at \<open>c\<close>. The counter then stands at \<open>c + of_nat n\<close>.
\<close>

definition drawn :: "goint \<Rightarrow> nat \<Rightarrow> string \<Rightarrow> bool" where
  "drawn c n s \<longleftrightarrow> (\<exists>i<n. s = Itoa (c + of_nat i))"

lemma drawn_Suc: "drawn c n s \<Longrightarrow> drawn c (Suc n) s"
  unfolding drawn_def by (blast intro: less_SucI)

lemma drawn_new: "drawn c (Suc n) (Itoa (c + of_nat n))"
  unfolding drawn_def by blast

lemma drawn_fresh:
  assumes n: "n < 2 ^ 64"
  shows "\<not> drawn c n (Itoa (c + of_nat n))"
proof
  assume "drawn c n (Itoa (c + of_nat n))"
  then obtain i where "i < n" and eq: "Itoa (c + of_nat n) = Itoa (c + of_nat i)"
    unfolding drawn_def by blast
  from \<open>i < n\<close> n have "i < 2 ^ 64" by (rule less_trans)
  with n eq have "n = i" by (simp only: Itoa_offset_inj)
  with \<open>i < n\<close> show False by simp
qed

lemma drawn_0 [simp]: "\<not> drawn c 0 s"
  by (simp add: drawn_def)

lemma drawn_nonempty: "drawn c n s \<Longrightarrow> s \<noteq> []"
  by (auto simp: drawn_def)

end
