(* ===== verification/Go_Http.thy ===== *)
theory Go_Http
  imports Go_Strconv
begin

text \<open>
  Calls that may panic, slices, decoded JSON of no static type, and the part of \<open>net/http\<close> a
  handler sees: the request body and the \<open>ResponseWriter\<close>.

  The writer keeps the documented order of effects: \<open>WriteHeader\<close> sends the status line with the
  headers set so far, a second \<open>WriteHeader\<close> is ignored, a \<open>Header().Set\<close> after the headers are
  sent changes nothing that is sent, and a \<open>Write\<close> before any \<open>WriteHeader\<close> sends status 200.
\<close>

section \<open>Calls\<close>

text \<open>
  The outcome of a call in a state: it returns a value, or it panics. \<open>net/http\<close> recovers the panic
  of a handler, so the state reached at the panic is the one the next request sees.
\<close>

datatype ('s, 'a) go = Ret 's 'a | Panic 's

fun go_state :: "('s, 'a) go \<Rightarrow> 's" where
  "go_state (Ret s a) = s"
| "go_state (Panic s) = s"

fun go_bind :: "('s, 'a) go \<Rightarrow> ('s \<Rightarrow> 'a \<Rightarrow> ('s, 'b) go) \<Rightarrow> ('s, 'b) go" where
  "go_bind (Ret s a) f = f s a"
| "go_bind (Panic s) f = Panic s"

lemma go_bind_Ret_iff:
  "go_bind m f = Ret t b \<longleftrightarrow> (\<exists>s a. m = Ret s a \<and> f s a = Ret t b)"
  by (cases m) auto

lemma go_bind_Panic_iff:
  "go_bind m f = Panic t \<longleftrightarrow> m = Panic t \<or> (\<exists>s a. m = Ret s a \<and> f s a = Panic t)"
  by (cases m) auto

text \<open>A predicate on states that every outcome keeps.\<close>

lemma go_bind_state:
  assumes "\<And>s. m = Panic s \<Longrightarrow> P s"
    and "\<And>s a. m = Ret s a \<Longrightarrow> P (go_state (f s a))"
  shows "P (go_state (go_bind m f))"
  using assms by (cases m) auto

lemma go_state_bind: "(\<And>s a. go_state (f s a) = s) \<Longrightarrow> go_state (go_bind m f) = go_state m"
  by (cases m) auto

type_synonym goerr = "string option"

section \<open>Slices and untyped JSON\<close>

text \<open>\<open>None\<close> is the nil slice; \<open>len\<close> of it is 0 and \<open>append\<close> to it allocates.\<close>

type_synonym 'a slice = "'a list option"

definition elems :: "'a slice \<Rightarrow> 'a list" where
  "elems s = (case s of None \<Rightarrow> [] | Some xs \<Rightarrow> xs)"

definition slice_append :: "'a slice \<Rightarrow> 'a \<Rightarrow> 'a slice" where
  "slice_append s x = Some (elems s @ [x])"

lemma elems_simps [simp]: "elems None = []" "elems (Some xs) = xs"
  by (simp_all add: elems_def)

lemma elems_append [simp]: "elems (slice_append s x) = elems s @ [x]"
  by (simp add: slice_append_def)

text \<open>
  A value of type \<open>interface{}\<close> as the JSON decoder makes it. \<open>GoOther\<close> stands for nil, numbers,
  booleans and arrays, on which the type assertions of the code panic.
\<close>

datatype goany = GoStr string | GoMap "(string, goany) gomap" | GoOther

text \<open>\<open>v.(map[string]interface{})\<close> and \<open>m[k].(string)\<close>; \<open>None\<close> is the panic.\<close>

fun assert_map :: "goany \<Rightarrow> (string, goany) gomap option" where
  "assert_map (GoMap m) = Some m"
| "assert_map _ = None"

definition assert_str :: "(string, goany) gomap \<Rightarrow> string \<Rightarrow> string option" where
  "assert_str m k = (case gm_get m k of Some (GoStr s) \<Rightarrow> Some s | _ \<Rightarrow> None)"

section \<open>The response writer\<close>

record 'b response_writer =
  rw_header :: "(string, string) gomap"
  rw_status :: "int option"
  rw_sent :: "(string, string) gomap"
  rw_body :: "'b list"

definition rw_new :: "'b response_writer" where
  "rw_new = \<lparr>rw_header = [], rw_status = None, rw_sent = [], rw_body = []\<rparr>"

definition rwSet :: "string \<Rightarrow> string \<Rightarrow> 'b response_writer \<Rightarrow> 'b response_writer" where
  "rwSet k v w = w\<lparr>rw_header := gm_put k v (rw_header w)\<rparr>"

definition rwWriteHeader :: "int \<Rightarrow> 'b response_writer \<Rightarrow> 'b response_writer" where
  "rwWriteHeader code w =
     (case rw_status w of
        None \<Rightarrow> w\<lparr>rw_status := Some code, rw_sent := rw_header w\<rparr>
      | Some _ \<Rightarrow> w)"

definition rwWrite :: "'b \<Rightarrow> 'b response_writer \<Rightarrow> 'b response_writer" where
  "rwWrite b w = (let w1 = rwWriteHeader 200 w in w1\<lparr>rw_body := rw_body w1 @ [b]\<rparr>)"

text \<open>The request body: it cannot be read, it is not JSON of the wanted type, or it is decoded.\<close>

datatype 'a rbody = ReadErr | UnmarshalErr | Decoded 'a

definition rbody_all :: "('a \<Rightarrow> bool) \<Rightarrow> 'a rbody \<Rightarrow> bool" where
  "rbody_all P b = (case b of Decoded x \<Rightarrow> P x | _ \<Rightarrow> True)"

definition jsonCT :: string where
  "jsonCT = ''application/json; charset=UTF-8''"

lemmas rw_defs = rw_new_def rwSet_def rwWriteHeader_def rwWrite_def Let_def

text \<open>What a client receives: the status, the sent headers and the body.\<close>

lemma rw_status_WriteHeader [simp]:
  "rw_status w = None \<Longrightarrow> rw_status (rwWriteHeader c w) = Some c"
  "rw_status w = Some d \<Longrightarrow> rwWriteHeader c w = w"
  by (simp_all add: rwWriteHeader_def)

lemma rw_set_sel [simp]:
  "rw_status (rwSet k v w) = rw_status w"
  "rw_sent (rwSet k v w) = rw_sent w"
  "rw_body (rwSet k v w) = rw_body w"
  "rw_header (rwSet k v w) = gm_put k v (rw_header w)"
  by (simp_all add: rwSet_def)

lemma rw_write_sel [simp]:
  "rw_status w = Some c \<Longrightarrow> rw_status (rwWrite b w) = Some c"
  "rw_status w = None \<Longrightarrow> rw_status (rwWrite b w) = Some 200"
  "rw_status w = Some c \<Longrightarrow> rw_sent (rwWrite b w) = rw_sent w"
  "rw_body (rwWrite b w) = rw_body w @ [b]"
  by (auto simp: rwWrite_def rwWriteHeader_def Let_def split: option.splits)

lemma rw_writeheader_sel [simp]:
  "rw_status w = None \<Longrightarrow> rw_sent (rwWriteHeader c w) = rw_header w"
  "rw_body (rwWriteHeader c w) = rw_body w"
  "rw_header (rwWriteHeader c w) = rw_header w"
  by (auto simp: rwWriteHeader_def split: option.splits)

lemma rw_new_sel [simp]:
  "rw_header rw_new = []" "rw_status rw_new = None" "rw_sent rw_new = []" "rw_body rw_new = []"
  by (simp_all add: rw_new_def)

end
