(* ===== verification/Nef_Model.thy ===== *)
theory Nef_Model
  imports Go_Http
begin

text \<open>
  The data types of the NEF (\<open>src/epcforedge/ngc/pkg/nef/model_nef_*.go\<close>): what an application
  function (AF) sends, what the NEF sends to the PCF and to the UDR, and what the SMF notifies.
  A struct is a record with the source's field names behind a short prefix; the string types of
  the source (\<open>URI\<close>, \<open>Link\<close>, \<open>Dnn\<close>, \<open>Gpsi\<close>, \<open>Ipv4Addr\<close>, ...) are \<open>string\<close>; a slice that the code
  compares with nil is a \<open>slice\<close>, any other a list.
\<close>

section \<open>Common types (model\_nef\_common.go)\<close>

record FlowInfo =
  fi_FlowID :: "32 word"
  fi_FlowDescriptions :: "string list"

record RouteInformation =
  ri_Ipv4Addr :: string
  ri_Ipv6Addr :: string
  ri_PortNumber :: "32 word"

record RouteToLocation =
  rl_Dnai :: string
  rl_RouteInfo :: RouteInformation
  rl_RouteProfID :: string

record Snssai =
  sn_Sst :: "8 word"
  sn_Sd :: string

record WebsockNotifConfig =
  wn_WebsocketURI :: string
  wn_RequestWebsocketURI :: bool

record InvalidParam =
  ip_Param :: string
  ip_Reason :: string

record ProblemDetails =
  pd_Type :: string
  pd_Title :: string
  pd_Detail :: string
  pd_Instance :: string
  pd_Cause :: string
  pd_InvalidParams :: "InvalidParam list"
  pd_Status :: "32 word"

record PlmnID =
  pl_Mcc :: string
  pl_Mnc :: string

record Tai =
  tai_PlmnID :: PlmnID
  tai_Tac :: string

record Ecgi =
  ec_EutraCellID :: string
  ec_PlmnID :: PlmnID

record Ncgi =
  nc_NrCellID :: string
  nc_PlmnID :: PlmnID

record GNbID =
  gnb_BitLength :: "8 word"
  gnb_GNBValue :: string

record GlobalRanNodeID =
  gr_PlmnID :: PlmnID
  gr_N3IwfID :: string
  gr_GNbID :: GNbID
  gr_NgeNbID :: string

record PresenceInfo =
  pi_PraID :: string
  pi_PresenceState :: string
  pi_EcgiList :: "Ecgi list"
  pi_NcgiList :: "Ncgi list"
  pi_GlobalRanNodeIDList :: "GlobalRanNodeID list"

record SpatialValidity =
  sv_PresenceInfoList :: PresenceInfo

record TemporalValidity =
  tv_StartTime :: string
  tv_StopTime :: string

record EthFlowDescription =
  ef_DestMacAddr :: string
  ef_EthType :: string
  ef_FDesc :: string
  ef_FDir :: string
  ef_SourceMacAddr :: string
  ef_VlanTags :: "string list"

section \<open>Traffic influence (model\_nef\_af\_tif.go)\<close>

record TrafficInfluSub =
  ti_AfServiceID :: string
  ti_AfAppID :: string
  ti_AfTransID :: string
  ti_Dnn :: string
  ti_Snssai :: Snssai
  ti_ExternalGroupID :: string
  ti_SubscribedEvents :: "string list"
  ti_Gpsi :: string
  ti_Ipv4Addr :: string
  ti_Ipv6Addr :: string
  ti_MacAddr :: string
  ti_DnaiChgType :: string
  ti_NotificationDestination :: string
  ti_WebsockNotifConfig :: WebsockNotifConfig
  ti_Self :: string
  ti_TrafficFilters :: "FlowInfo slice"
  ti_EthTrafficFilters :: "EthFlowDescription slice"
  ti_TrafficRoutes :: "RouteToLocation slice"
  ti_TempValidities :: "TemporalValidity slice"
  ti_ValidGeoZoneIDs :: "string slice"
  ti_SuppFeat :: string
  ti_AppReloInd :: bool
  ti_AnyUeInd :: bool
  ti_RequestTestNotification :: bool

record TrafficInfluSubPatch =
  tp_AppReloInd :: bool
  tp_TrafficFilters :: "FlowInfo slice"
  tp_EthTrafficFilters :: "EthFlowDescription slice"
  tp_TrafficRoutes :: "RouteToLocation slice"
  tp_TempValidities :: "TemporalValidity slice"
  tp_ValidGeoZoneIDs :: "string slice"

record EventNotification =
  ev_AfTransID :: string
  ev_DnaiChgType :: string
  ev_SourceTrafficRoute :: RouteToLocation
  ev_SubscribedEvent :: string
  ev_TargetTrafficRoute :: RouteToLocation
  ev_Gpsi :: string
  ev_SrcUeIpv4Addr :: string
  ev_SrcUeIpv6Prefix :: string
  ev_TgtUeIpv4Addr :: string
  ev_TgtUeIpv6Prefix :: string
  ev_UeMac :: string

section \<open>PFD management (model\_nef\_af\_pfd.go)\<close>

record Pfd =
  pfd_PfdID :: string
  pfd_FlowDescriptions :: "string list"
  pfd_Urls :: "string list"
  pfd_DomainNames :: "string list"

record PfdData =
  pdt_ExternalAppID :: string
  pdt_Self :: string
  pdt_Pfds :: "(string, Pfd) gomap"
  pdt_AllowedDelay :: "64 word option"
  pdt_CachingTime :: "64 word option"

record PfdReport =
  rep_ExternalAppIds :: "string list"
  rep_FailureCode :: string
  rep_CachingTime :: "64 word option"

record PfdManagement =
  pm_Self :: string
  pm_SuppFeat :: "string option"
  pm_PfdDatas :: "(string, PfdData) gomap"
  pm_PfdReports :: "(string, PfdReport) gomap"

section \<open>Policy authorization towards the PCF (model\_nef\_pcf\_pa.go)\<close>

record UpPathChgEvent =
  up_NotificationURI :: string
  up_NotifCorreID :: string
  up_DnaiChgType :: string

record AfRoutingRequirement =
  rr_RouteToLocs :: "RouteToLocation list"
  rr_SpVal :: SpatialValidity
  rr_TempVals :: "TemporalValidity list"
  rr_UpPathChgSub :: UpPathChgEvent
  rr_AppReloc :: bool
  rr_AddrPreserInd :: bool

record AppSessionContextReqData =
  rq_AfAppID :: string
  rq_AfRoutReq :: AfRoutingRequirement
  rq_Dnn :: string
  rq_SliceInfo :: Snssai
  rq_Supi :: string
  rq_Gpsi :: string
  rq_SuppFeat :: string
  rq_UeIpv4 :: string
  rq_UeIpv6 :: string
  rq_UeMac :: string

record AppSessionContext =
  asc_AscReqData :: AppSessionContextReqData

record AppSessionContextUpdateData =
  ascu_AfAppID :: string
  ascu_AfRoutReq :: AfRoutingRequirement

section \<open>Influence and PFD data in the UDR (model\_nef\_udr\_id.go, model\_nef\_udr\_pfd.go)\<close>

record NetworkAreaInfo =
  na_Ecgis :: "Ecgi list"
  na_Ncgis :: "Ncgi list"
  na_GRanNodeIds :: "GlobalRanNodeID list"
  na_Tais :: "Tai list"

record TrafficInfluData =
  tid_UpPathChgNotifURI :: string
  tid_AppReloInd :: bool
  tid_AfAppID :: string
  tid_Dnn :: string
  tid_EthTrafficFilters :: "EthFlowDescription list"
  tid_Snssai :: Snssai
  tid_InterGroupID :: string
  tid_Supi :: string
  tid_TrafficFilters :: "FlowInfo list"
  tid_TrafficRoutes :: "RouteToLocation list"
  tid_ValidEndTime :: string
  tid_ValidStartTime :: string
  tid_NwAreaInfo :: NetworkAreaInfo
  tid_UpPathChgNotifCorreID :: string

record TrafficInfluDataPatch =
  tidp_UpPathChgNotifCorreID :: string
  tidp_AppReloInd :: bool
  tidp_Dnn :: string
  tidp_Snssai :: Snssai
  tidp_InternalGroupID :: string
  tidp_EthTrafficFilters :: "EthFlowDescription list"
  tidp_Supi :: string
  tidp_TrafficFilters :: "FlowInfo list"
  tidp_TrafficRoutes :: "RouteToLocation list"
  tidp_ValidEndTime :: string
  tidp_ValidStartTime :: string
  tidp_NwAreaInfo :: NetworkAreaInfo
  tidp_UpPathChgNotifURI :: string

record PfdContent =
  pc_PfdID :: string
  pc_FlowDescriptions :: "string list"
  pc_Urls :: "string list"
  pc_DomainNames :: "string list"

record PfdDataForApp =
  pda_AppID :: string
  pda_Pfds :: "PfdContent list"
  pda_CachingTime :: "string option"

section \<open>Notifications from the SMF (model\_nef\_smf.go)\<close>

record NsmEventNotification =
  nsm_Event :: string
  nsm_TimeStamp :: string
  nsm_Supi :: string
  nsm_Gpsi :: string
  nsm_SourceDnai :: string
  nsm_TargetDnai :: string
  nsm_DnaiChgType :: string
  nsm_SourceUeIpv4Addr :: string
  nsm_SourceUeIpv6Prefix :: string
  nsm_TargetUeIpv4Addr :: string
  nsm_TargetUeIpv6Prefix :: string
  nsm_SourceTraRouting :: RouteToLocation
  nsm_TargetTraRouting :: RouteToLocation
  nsm_UeMac :: string
  nsm_AdIpv4Addr :: string
  nsm_AdIpv6Prefix :: string
  nsm_ReIpv4Addr :: string
  nsm_ReIpv6Prefix :: string
  nsm_PlmnID :: PlmnID
  nsm_AccType :: string
  nsm_PduSeID :: "8 word"

record NsmfEventExposureNotification =
  smf_NotifID :: string
  smf_EventNotifs :: "NsmEventNotification list"

section \<open>Zero values\<close>

text \<open>The composite literals \<open>T{}\<close> of the source.\<close>

definition pd_zero :: ProblemDetails where
  "pd_zero = \<lparr>pd_Type = [], pd_Title = [], pd_Detail = [], pd_Instance = [], pd_Cause = [],
     pd_InvalidParams = [], pd_Status = 0\<rparr>"

definition snssai_zero :: Snssai where
  "snssai_zero = \<lparr>sn_Sst = 0, sn_Sd = []\<rparr>"

definition route_zero :: RouteToLocation where
  "route_zero = \<lparr>rl_Dnai = [], rl_RouteInfo = \<lparr>ri_Ipv4Addr = [], ri_Ipv6Addr = [], ri_PortNumber = 0\<rparr>,
     rl_RouteProfID = []\<rparr>"

definition ti_zero :: TrafficInfluSub where
  "ti_zero = \<lparr>ti_AfServiceID = [], ti_AfAppID = [], ti_AfTransID = [], ti_Dnn = [],
     ti_Snssai = snssai_zero, ti_ExternalGroupID = [], ti_SubscribedEvents = [], ti_Gpsi = [],
     ti_Ipv4Addr = [], ti_Ipv6Addr = [], ti_MacAddr = [], ti_DnaiChgType = [],
     ti_NotificationDestination = [],
     ti_WebsockNotifConfig = \<lparr>wn_WebsocketURI = [], wn_RequestWebsocketURI = False\<rparr>,
     ti_Self = [], ti_TrafficFilters = None, ti_EthTrafficFilters = None, ti_TrafficRoutes = None,
     ti_TempValidities = None, ti_ValidGeoZoneIDs = None, ti_SuppFeat = [], ti_AppReloInd = False,
     ti_AnyUeInd = False, ti_RequestTestNotification = False\<rparr>"

definition na_zero :: NetworkAreaInfo where
  "na_zero = \<lparr>na_Ecgis = [], na_Ncgis = [], na_GRanNodeIds = [], na_Tais = []\<rparr>"

definition pdt_zero :: PfdData where
  "pdt_zero = \<lparr>pdt_ExternalAppID = [], pdt_Self = [], pdt_Pfds = [], pdt_AllowedDelay = None,
     pdt_CachingTime = None\<rparr>"

definition pm_zero :: PfdManagement where
  "pm_zero = \<lparr>pm_Self = [], pm_SuppFeat = None, pm_PfdDatas = [], pm_PfdReports = []\<rparr>"

definition rep_zero :: PfdReport where
  "rep_zero = \<lparr>rep_ExternalAppIds = [], rep_FailureCode = [], rep_CachingTime = None\<rparr>"

end
