(* ===== verification/Nef_Southbound.thy ===== *)
theory Nef_Southbound
  imports Nef_Model
begin

text \<open>
  The southbound interfaces of the NEF and the clients it creates for them: the PCF policy
  authorization (\<open>nef_pcf_pa_sb_api.go\<close>, \<open>nef_pcf_pa_client.go\<close>), the UDR influence data
  (\<open>nef_udr_id_sb_api.go\<close>, \<open>nef_udr_id_client.go\<close>) and the UDR PFD data
  (\<open>nef_udr_pfd_sb_api.go\<close>, \<open>nef_udr_pfd_client.go\<close>). Each Go interface is a locale with the
  behaviour its comments promise; each client is interpreted as one.
\<close>

section \<open>PCF policy authorization\<close>

type_synonym AppSessionID = string

record PcfPolicyResponse =
  pr_ResponseCode :: "16 word"
  pr_Asc :: "AppSessionContext option"
  pr_Pd :: "ProblemDetails option"

definition pr_zero :: PcfPolicyResponse where
  "pr_zero = \<lparr>pr_ResponseCode = 0, pr_Asc = None, pr_Pd = None\<rparr>"

record PcfClientStub =
  pcf_name :: string
  initialID :: goint
  paDb :: "(goint, AppSessionContext) gomap"

text \<open>\<open>rand.Intn(10000)\<close> is the argument \<open>r\<close>.\<close>

definition NewPCFClient :: "goint \<Rightarrow> PcfClientStub" where
  "NewPCFClient r = \<lparr>pcf_name = ''PCF Stub'', initialID = r, paDb = []\<rparr>"

text \<open>The loop of \<open>genAppSessionID\<close> with \<open>n\<close> iterations left.\<close>

fun genAppSessionID_loop :: "nat \<Rightarrow> (goint, AppSessionContext) gomap \<Rightarrow> goint \<Rightarrow> goint" where
  "genAppSessionID_loop 0 db sessid = sessid"
| "genAppSessionID_loop (Suc n) db sessid =
     (if gm_get db sessid = None then sessid else genAppSessionID_loop n db (sessid + 1))"

definition genAppSessionID :: "PcfClientStub \<Rightarrow> goint" where
  "genAppSessionID pcf = genAppSessionID_loop (gm_len (paDb pcf)) (paDb pcf) (initialID pcf)"

definition PolicyAuthorizationCreate ::
  "PcfClientStub \<Rightarrow> AppSessionContext \<Rightarrow> PcfClientStub \<times> AppSessionID \<times> PcfPolicyResponse \<times> goerr" where
  "PolicyAuthorizationCreate pcf body =
     (let sessid = genAppSessionID pcf
      in (pcf\<lparr>paDb := gm_put sessid body (paDb pcf)\<rparr>, Itoa sessid,
          \<lparr>pr_ResponseCode = 201, pr_Asc = Some body, pr_Pd = None\<rparr>, None))"

definition PolicyAuthorizationUpdate ::
  "PcfClientStub \<Rightarrow> AppSessionContextUpdateData \<Rightarrow> AppSessionID \<Rightarrow>
   PcfClientStub \<times> PcfPolicyResponse \<times> goerr" where
  "PolicyAuthorizationUpdate pcf body appSessionID =
     (let sessid = fst (Atoi appSessionID)
      in case gm_get (paDb pcf) sessid of
           None \<Rightarrow> (pcf, pr_zero\<lparr>pr_ResponseCode := 404\<rparr>, None)
         | Some asc \<Rightarrow>
             (let asc' = asc\<lparr>asc_AscReqData := (asc_AscReqData asc)
                    \<lparr>rq_AfAppID := ascu_AfAppID body, rq_AfRoutReq := ascu_AfRoutReq body\<rparr>\<rparr>
              in (pcf\<lparr>paDb := gm_put sessid asc' (paDb pcf)\<rparr>,
                  pr_zero\<lparr>pr_ResponseCode := 204, pr_Asc := Some asc'\<rparr>, None)))"

definition PolicyAuthorizationDelete ::
  "PcfClientStub \<Rightarrow> AppSessionID \<Rightarrow> PcfClientStub \<times> PcfPolicyResponse \<times> goerr" where
  "PolicyAuthorizationDelete pcf appSessionID =
     (let sessid = fst (Atoi appSessionID)
      in case gm_get (paDb pcf) sessid of
           None \<Rightarrow> (pcf, pr_zero\<lparr>pr_ResponseCode := 404\<rparr>, None)
         | Some _ \<Rightarrow> (pcf\<lparr>paDb := gm_del sessid (paDb pcf)\<rparr>, pr_zero\<lparr>pr_ResponseCode := 204\<rparr>, None))"

definition PolicyAuthorizationGet ::
  "PcfClientStub \<Rightarrow> AppSessionID \<Rightarrow> PcfPolicyResponse \<times> goerr" where
  "PolicyAuthorizationGet pcf appSessionID =
     (case gm_get (paDb pcf) (fst (Atoi appSessionID)) of
        None \<Rightarrow> (pr_zero\<lparr>pr_ResponseCode := 404\<rparr>, None)
      | Some asc \<Rightarrow> (pr_zero\<lparr>pr_ResponseCode := 200, pr_Asc := Some asc\<rparr>, None))"

section \<open>UDR influence data\<close>

type_synonym InfluenceID = string

record UdrInfluenceResponse =
  ur_ResponseCode :: "16 word"
  ur_Tid :: "TrafficInfluData option"
  ur_Pd :: "ProblemDetails option"

definition ur_zero :: UdrInfluenceResponse where
  "ur_zero = \<lparr>ur_ResponseCode = 0, ur_Tid = None, ur_Pd = None\<rparr>"

record UdrClientStub =
  udr_name :: string
  tidDb :: "(InfluenceID, TrafficInfluData) gomap"

definition NewUDRClient :: UdrClientStub where
  "NewUDRClient = \<lparr>udr_name = ''UDR Stub'', tidDb = []\<rparr>"

definition UdrInfluenceDataCreate ::
  "UdrClientStub \<Rightarrow> TrafficInfluData \<Rightarrow> InfluenceID \<Rightarrow> UdrClientStub \<times> UdrInfluenceResponse \<times> goerr" where
  "UdrInfluenceDataCreate udr body iid =
     (udr\<lparr>tidDb := gm_put iid body (tidDb udr)\<rparr>,
      \<lparr>ur_ResponseCode = (if gm_get (tidDb udr) iid = None then 201 else 200),
       ur_Tid = Some body, ur_Pd = None\<rparr>, None)"

definition updateTidWithTidPatch :: "TrafficInfluData \<Rightarrow> TrafficInfluDataPatch \<Rightarrow> TrafficInfluData" where
  "updateTidWithTidPatch tid body = tid
     \<lparr>tid_UpPathChgNotifCorreID :=
        (if tidp_UpPathChgNotifCorreID body \<noteq> [] then tidp_UpPathChgNotifCorreID body
         else tid_UpPathChgNotifCorreID tid),
      tid_AppReloInd := tidp_AppReloInd body,
      tid_Dnn := (if tidp_Dnn body \<noteq> [] then tidp_Dnn body else tid_Dnn tid),
      tid_Snssai := (if sn_Sd (tidp_Snssai body) \<noteq> [] then tidp_Snssai body else tid_Snssai tid),
      tid_InterGroupID :=
        (if tidp_InternalGroupID body \<noteq> [] then tidp_InternalGroupID body else tid_InterGroupID tid),
      tid_EthTrafficFilters :=
        (if length (tidp_EthTrafficFilters body) > 0 then tidp_EthTrafficFilters body
         else tid_EthTrafficFilters tid),
      tid_Supi := (if tidp_Supi body \<noteq> [] then tidp_Supi body else tid_Supi tid),
      tid_TrafficFilters :=
        (if length (tidp_TrafficFilters body) > 0 then tidp_TrafficFilters body
         else tid_TrafficFilters tid),
      tid_TrafficRoutes :=
        (if length (tidp_TrafficRoutes body) > 0 then tidp_TrafficRoutes body
         else tid_TrafficRoutes tid),
      tid_ValidEndTime :=
        (if tidp_ValidEndTime body \<noteq> [] then tidp_ValidEndTime body else tid_ValidEndTime tid),
      tid_ValidStartTime :=
        (if tidp_ValidStartTime body \<noteq> [] then tidp_ValidStartTime body else tid_ValidStartTime tid),
      tid_NwAreaInfo := tidp_NwAreaInfo body,
      tid_UpPathChgNotifURI :=
        (if tidp_UpPathChgNotifURI body \<noteq> [] then tidp_UpPathChgNotifURI body
         else tid_UpPathChgNotifURI tid)\<rparr>"

definition UdrInfluenceDataUpdate ::
  "UdrClientStub \<Rightarrow> TrafficInfluDataPatch \<Rightarrow> InfluenceID \<Rightarrow>
   UdrClientStub \<times> UdrInfluenceResponse \<times> goerr" where
  "UdrInfluenceDataUpdate udr body iid =
     (case gm_get (tidDb udr) iid of
        None \<Rightarrow> (udr, ur_zero\<lparr>ur_ResponseCode := 404\<rparr>, None)
      | Some tid \<Rightarrow>
          (let tid' = updateTidWithTidPatch tid body
           in (udr\<lparr>tidDb := gm_put iid tid' (tidDb udr)\<rparr>,
               ur_zero\<lparr>ur_ResponseCode := 204, ur_Tid := Some tid'\<rparr>, None)))"

definition UdrInfluenceDataDelete ::
  "UdrClientStub \<Rightarrow> InfluenceID \<Rightarrow> UdrClientStub \<times> UdrInfluenceResponse \<times> goerr" where
  "UdrInfluenceDataDelete udr iid =
     (case gm_get (tidDb udr) iid of
        None \<Rightarrow> (udr, ur_zero\<lparr>ur_ResponseCode := 404\<rparr>, None)
      | Some _ \<Rightarrow> (udr\<lparr>tidDb := gm_del iid (tidDb udr)\<rparr>, ur_zero\<lparr>ur_ResponseCode := 204\<rparr>, None))"

definition UdrInfluenceDataGet :: "UdrClientStub \<Rightarrow> UdrInfluenceResponse \<times> goerr" where
  "UdrInfluenceDataGet udr = (ur_zero, None)"

section \<open>UDR PFD data\<close>

record UdrPfdResponse =
  upr_ResponseCode :: "16 word"
  upr_AppPfd :: "PfdDataForApp option"
  upr_Pd :: "ProblemDetails option"

definition upr_zero :: UdrPfdResponse where
  "upr_zero = \<lparr>upr_ResponseCode = 0, upr_AppPfd = None, upr_Pd = None\<rparr>"

record UdrPfdClientStub =
  udrpfd_name :: string
  appPfd :: "(string, PfdDataForApp) gomap"

definition NewUDRPfdClient :: UdrPfdClientStub where
  "NewUDRPfdClient = \<lparr>udrpfd_name = ''UDR Pfd Stub'', appPfd = []\<rparr>"

text \<open>The argument \<open>TestClient\<close> is the package variable of that name, false outside the tests.\<close>

definition UdrPfdDataCreate ::
  "bool \<Rightarrow> UdrPfdClientStub \<Rightarrow> PfdDataForApp \<Rightarrow> UdrPfdClientStub \<times> UdrPfdResponse \<times> goerr" where
  "UdrPfdDataCreate TestClient udr body =
     (let udr' = udr\<lparr>appPfd := gm_put (pda_AppID body) body (appPfd udr)\<rparr>
      in if TestClient then (udr', upr_zero\<lparr>upr_ResponseCode := 400\<rparr>, Some ''Error in UDR SB PUT'')
         else (udr', upr_zero, None))"

definition UdrPfdDataGet ::
  "bool \<Rightarrow> UdrPfdClientStub \<Rightarrow> string \<Rightarrow> UdrPfdResponse \<times> goerr" where
  "UdrPfdDataGet TestClient udr appID =
     (let rsp = upr_zero\<lparr>upr_AppPfd := gm_get (appPfd udr) appID\<rparr>
      in if TestClient then (rsp\<lparr>upr_ResponseCode := 404\<rparr>, Some ''Error in UDR SB GET'')
         else (rsp, None))"

definition UdrPfdDataDelete ::
  "bool \<Rightarrow> UdrPfdClientStub \<Rightarrow> string \<Rightarrow> UdrPfdClientStub \<times> UdrPfdResponse \<times> goerr" where
  "UdrPfdDataDelete TestClient udr appID =
     (let udr' = udr\<lparr>appPfd := gm_del appID (appPfd udr)\<rparr>
      in if TestClient then (udr', upr_zero\<lparr>upr_ResponseCode := 400\<rparr>, Some ''Error in UDR SB DELETE'')
         else (udr', upr_zero, None))"

lemmas sb_stub_defs = PolicyAuthorizationCreate_def PolicyAuthorizationUpdate_def
  PolicyAuthorizationDelete_def PolicyAuthorizationGet_def UdrInfluenceDataCreate_def
  UdrInfluenceDataUpdate_def UdrInfluenceDataDelete_def UdrInfluenceDataGet_def
  UdrPfdDataCreate_def UdrPfdDataGet_def UdrPfdDataDelete_def pr_zero_def ur_zero_def upr_zero_def
  Let_def

section \<open>Session identifiers of the PCF client\<close>

lemma genAppSessionID_loop_cases:
  "\<exists>k\<le>n. genAppSessionID_loop n db s = s + of_nat k \<and>
     (\<forall>i<k. gm_get db (s + of_nat i) \<noteq> None) \<and> (k = n \<or> gm_get db (s + of_nat k) = None)"
proof (induction n arbitrary: s)
  case 0
  show ?case by simp
next
  case (Suc n)
  show ?case
  proof (cases "gm_get db s = None")
    case True
    then show ?thesis by (intro exI [of _ 0]) simp
  next
    case False
    from Suc.IH [of "s + 1"] obtain k where k: "k \<le> n"
      "genAppSessionID_loop n db (s + 1) = s + 1 + of_nat k"
      "\<forall>i<k. gm_get db (s + 1 + of_nat i) \<noteq> None"
      "k = n \<or> gm_get db (s + 1 + of_nat k) = None" by blast
    have "\<forall>i<Suc k. gm_get db (s + of_nat i) \<noteq> None"
    proof (intro allI impI)
      fix i assume "i < Suc k"
      then show "gm_get db (s + of_nat i) \<noteq> None"
        using False k(3) by (cases i) (auto simp: add.assoc)
    qed
    with False k show ?thesis by (intro exI [of _ "Suc k"]) (auto simp: add.assoc)
  qed
qed

lemma genAppSessionID_fresh:
  assumes ok: "gm_ok (paDb pcf)" and room: "gm_len (paDb pcf) < 2 ^ 64"
  shows "gm_get (paDb pcf) (genAppSessionID pcf) = None"
proof (rule ccontr)
  assume used: "gm_get (paDb pcf) (genAppSessionID pcf) \<noteq> None"
  define n where "n = gm_len (paDb pcf)"
  define s where "s = initialID pcf"
  obtain k where k: "genAppSessionID pcf = s + of_nat k"
    "\<forall>i<k. gm_get (paDb pcf) (s + of_nat i) \<noteq> None"
    "k = n \<or> gm_get (paDb pcf) (s + of_nat k) = None"
    using genAppSessionID_loop_cases [of n "paDb pcf" s]
    by (auto simp: genAppSessionID_def n_def s_def)
  with used have all: "\<forall>i<Suc n. gm_get (paDb pcf) (s + of_nat i) \<noteq> None"
    by (auto simp: less_Suc_eq)
  have "inj_on (\<lambda>i. s + of_nat i :: goint) {..<Suc n}"
  proof (rule inj_onI)
    fix i j assume "i \<in> {..<Suc n}" "j \<in> {..<Suc n}" "s + of_nat i = (s + of_nat j :: goint)"
    moreover from this(1,2) have "i < 2 ^ 64" "j < 2 ^ 64" using room by (simp_all add: n_def)
    ultimately show "i = j" using of_nat_goint_inj by (simp only: add_left_cancel)
  qed
  then have "card ((\<lambda>i. s + of_nat i :: goint) ` {..<Suc n}) = Suc n"
    by (simp add: card_image)
  moreover have "(\<lambda>i. s + of_nat i) ` {..<Suc n} \<subseteq> dom (gm_get (paDb pcf))"
    using all by auto
  then have "card ((\<lambda>i. s + of_nat i :: goint) ` {..<Suc n}) \<le> card (dom (gm_get (paDb pcf)))"
    by (rule card_mono [OF gm.finite_get])
  ultimately show False using gm.len_card [OF ok] by (simp add: n_def)
qed

section \<open>The interfaces\<close>

locale pcf_policy_authorization =
  fixes create :: "'s \<Rightarrow> AppSessionContext \<Rightarrow> 's \<times> AppSessionID \<times> PcfPolicyResponse \<times> goerr"
    and modify :: "'s \<Rightarrow> AppSessionContextUpdateData \<Rightarrow> AppSessionID \<Rightarrow> 's \<times> PcfPolicyResponse \<times> goerr"
    and remove :: "'s \<Rightarrow> AppSessionID \<Rightarrow> 's \<times> PcfPolicyResponse \<times> goerr"
    and query :: "'s \<Rightarrow> AppSessionID \<Rightarrow> PcfPolicyResponse \<times> goerr"
    and key :: "AppSessionID \<Rightarrow> 'k"
    and session :: "'s \<Rightarrow> 'k \<Rightarrow> AppSessionContext option"
    and wf room :: "'s \<Rightarrow> bool"
  assumes create_spec:
      "wf s \<Longrightarrow> room s \<Longrightarrow> create s b = (s', sid, rsp, e) \<Longrightarrow>
       e = None \<and> pr_ResponseCode rsp = 201 \<and> pr_Asc rsp = Some b \<and> wf s' \<and>
       session s (key sid) = None \<and>
       (\<forall>k. session s' k = (if k = key sid then Some b else session s k))"
    and modify_spec:
      "wf s \<Longrightarrow> modify s u sid = (s', rsp, e) \<Longrightarrow>
       e = None \<and> wf s' \<and>
       (case session s (key sid) of
          None \<Rightarrow> pr_ResponseCode rsp = 404 \<and> s' = s
        | Some c \<Rightarrow> pr_ResponseCode rsp = 204 \<and> (\<exists>c'. pr_Asc rsp = Some c' \<and>
            rq_AfRoutReq (asc_AscReqData c') = ascu_AfRoutReq u \<and>
            (\<forall>k. session s' k = (if k = key sid then Some c' else session s k))))"
    and remove_spec:
      "wf s \<Longrightarrow> remove s sid = (s', rsp, e) \<Longrightarrow>
       e = None \<and> wf s' \<and>
       pr_ResponseCode rsp = (if session s (key sid) = None then 404 else 204) \<and>
       (\<forall>k. session s' k = (if k = key sid then None else session s k))"
    and query_spec:
      "query s sid = (rsp, e) \<Longrightarrow>
       e = None \<and> pr_Asc rsp = session s (key sid) \<and>
       pr_ResponseCode rsp = (if session s (key sid) = None then 404 else 200)"
begin

lemma create_query:
  assumes "wf s" "room s" "create s b = (s', sid, rsp, e)"
  shows "pr_Asc (fst (query s' sid)) = Some b" "pr_ResponseCode (fst (query s' sid)) = 200"
  using create_spec [OF assms] query_spec [of s' sid "fst (query s' sid)" "snd (query s' sid)"]
  by auto

lemma create_keys_differ:
  assumes "wf s" "room s" "create s b = (s', sid, rsp, e)" "room s'" "create s' b' = (s'', sid', rsp', e')"
  shows "key sid' \<noteq> key sid"
  using create_spec [OF assms(1-3)] create_spec [OF _ assms(4,5)] by (metis option.distinct(1))

lemma remove_query:
  assumes "wf s" "remove s sid = (s', rsp, e)"
  shows "pr_ResponseCode (fst (query s' sid)) = 404"
  using remove_spec [OF assms] query_spec [of s' sid "fst (query s' sid)" "snd (query s' sid)"]
  by auto

lemma remove_frame:
  assumes "wf s" "remove s sid = (s', rsp, e)" "k \<noteq> key sid"
  shows "session s' k = session s k"
  using remove_spec [OF assms(1,2)] assms(3) by simp

lemma create_remove:
  assumes "wf s" "room s" "create s b = (s', sid, rsp, e)" "remove s' sid = (s'', rsp', e')"
  shows "session s'' k = session s k \<and> pr_ResponseCode rsp' = 204"
  using create_spec [OF assms(1-3)] remove_spec [OF _ assms(4)] by (auto split: if_splits)

end

definition pcf_wf :: "PcfClientStub \<Rightarrow> bool" where
  "pcf_wf pcf \<longleftrightarrow> gm_ok (paDb pcf)"

definition pcf_room :: "PcfClientStub \<Rightarrow> bool" where
  "pcf_room pcf \<longleftrightarrow> gm_len (paDb pcf) < 2 ^ 64"

definition pcf_key :: "AppSessionID \<Rightarrow> goint" where
  "pcf_key sid = fst (Atoi sid)"

definition pcf_session :: "PcfClientStub \<Rightarrow> goint \<Rightarrow> AppSessionContext option" where
  "pcf_session pcf k = gm_get (paDb pcf) k"

lemmas pcf_abs_defs = pcf_wf_def pcf_room_def pcf_key_def pcf_session_def

lemma pcf_key_Itoa [simp]: "pcf_key (Itoa w) = w"
  by (simp add: pcf_key_def Atoi_Itoa)

interpretation pcf: pcf_policy_authorization PolicyAuthorizationCreate PolicyAuthorizationUpdate
  PolicyAuthorizationDelete PolicyAuthorizationGet pcf_key pcf_session pcf_wf pcf_room
proof unfold_locales
  fix s s' :: PcfClientStub and b u sid rsp e
  show "e = None \<and> pr_ResponseCode rsp = 201 \<and> pr_Asc rsp = Some b \<and> pcf_wf s' \<and>
      pcf_session s (pcf_key sid) = None \<and>
      (\<forall>k. pcf_session s' k = (if k = pcf_key sid then Some b else pcf_session s k))"
    if "pcf_wf s" "pcf_room s" "PolicyAuthorizationCreate s b = (s', sid, rsp, e)"
    using that genAppSessionID_fresh [of s]
    by (auto simp: PolicyAuthorizationCreate_def Let_def pcf_abs_defs Atoi_Itoa)
  show "e = None \<and> pcf_wf s' \<and>
      (case pcf_session s (pcf_key sid) of
         None \<Rightarrow> pr_ResponseCode rsp = 404 \<and> s' = s
       | Some c \<Rightarrow> pr_ResponseCode rsp = 204 \<and> (\<exists>c'. pr_Asc rsp = Some c' \<and>
           rq_AfRoutReq (asc_AscReqData c') = ascu_AfRoutReq u \<and>
           (\<forall>k. pcf_session s' k = (if k = pcf_key sid then Some c' else pcf_session s k))))"
    if "pcf_wf s" "PolicyAuthorizationUpdate s u sid = (s', rsp, e)"
    using that by (auto simp: PolicyAuthorizationUpdate_def Let_def pcf_abs_defs split: option.splits)
  show "e = None \<and> pcf_wf s' \<and>
      pr_ResponseCode rsp = (if pcf_session s (pcf_key sid) = None then 404 else 204) \<and>
      (\<forall>k. pcf_session s' k = (if k = pcf_key sid then None else pcf_session s k))"
    if "pcf_wf s" "PolicyAuthorizationDelete s sid = (s', rsp, e)"
    using that by (auto simp: PolicyAuthorizationDelete_def Let_def pcf_abs_defs split: option.splits)
  show "e = None \<and> pr_Asc rsp = pcf_session s (pcf_key sid) \<and>
      pr_ResponseCode rsp = (if pcf_session s (pcf_key sid) = None then 404 else 200)"
    if "PolicyAuthorizationGet s sid = (rsp, e)"
    using that by (auto simp: PolicyAuthorizationGet_def pr_zero_def pcf_abs_defs split: option.splits)
qed

text \<open>
  The UDR interfaces are keyed by an identifier the NEF chooses: a PUT creates or replaces the
  entry of its key, a DELETE removes it, and no other key changes.
\<close>

locale udr_keyed_store =
  fixes store :: "'s \<Rightarrow> 'r \<Rightarrow> 's"
    and drop_entry :: "'s \<Rightarrow> 'k \<Rightarrow> 's"
    and key_of :: "'r \<Rightarrow> 'k"
    and val_of :: "'r \<Rightarrow> 'v"
    and entry :: "'s \<Rightarrow> 'k \<Rightarrow> 'v option"
    and wf :: "'s \<Rightarrow> bool"
  assumes entry_store:
      "entry (store s r) k = (if k = key_of r then Some (val_of r) else entry s k)"
    and entry_drop: "entry (drop_entry s k) k' = (if k' = k then None else entry s k')"
    and wf_store: "wf s \<Longrightarrow> wf (store s r)"
    and wf_drop: "wf s \<Longrightarrow> wf (drop_entry s k)"
begin

lemma store_overwrites: "key_of q = key_of r \<Longrightarrow> entry (store (store s q) r) = entry (store s r)"
  by (auto simp: entry_store)

lemma drop_store: "entry s (key_of r) = None \<Longrightarrow> entry (drop_entry (store s r) (key_of r)) = entry s"
  by (auto simp: entry_store entry_drop)

text \<open>Two requests under one key share their entry: dropping it for one drops it for both.\<close>

lemma shared_key_lost:
  "key_of q = key_of r \<Longrightarrow> entry (drop_entry (store (store s q) r) (key_of r)) (key_of q) = None"
  by (simp add: entry_drop)

end

interpretation udrid: udr_keyed_store "\<lambda>s (v, k). fst (UdrInfluenceDataCreate s v k)"
  "\<lambda>s k. fst (UdrInfluenceDataDelete s k)" snd fst "\<lambda>s. gm_get (tidDb s)" "\<lambda>s. gm_ok (tidDb s)"
  by unfold_locales
    (auto simp: UdrInfluenceDataCreate_def UdrInfluenceDataDelete_def split: option.splits)

interpretation udrpfd: udr_keyed_store "\<lambda>s v. fst (UdrPfdDataCreate test s v)"
  "\<lambda>s k. fst (UdrPfdDataDelete test s k)" pda_AppID id "\<lambda>s. gm_get (appPfd s)" "\<lambda>s. gm_ok (appPfd s)"
  for test
  by unfold_locales (auto simp: UdrPfdDataCreate_def UdrPfdDataDelete_def Let_def)

end
