(* ===== verification/Nef_State.thy ===== *)
theory Nef_State
  imports Nef_Southbound
begin

text \<open>
  The NEF context and the table of application functions (\<open>nef_hdlr.go\<close>, the types of
  \<open>nef_server.go\<close>) and the error responses (\<open>nef_common.go\<close>).

  A pointer to an \<open>afData\<close> is the key under which \<open>nef.afs\<close> holds it: the code keeps no \<open>afData\<close>
  outside the map, and \<open>upd_af\<close> is an assignment through the pointer. A callback field holds the name
  of the function assigned to it, or nil.
\<close>

section \<open>Configuration\<close>

record HTTPConfig =
  h1_Endpoint :: string

record HTTP2Config =
  h2_Endpoint :: string
  h2_NefServerCert :: string
  h2_NefServerKey :: string
  h2_AfClientCert :: string

record Config =
  cfg_NefAPIRoot :: string
  cfg_LocationPrefix :: string
  cfg_LocationPrefixPfd :: string
  cfg_MaxSubSupport :: goint
  cfg_MaxPfdTransSupport :: goint
  cfg_MaxAFSupport :: goint
  cfg_SubStartID :: goint
  cfg_PfdTransStartID :: goint
  cfg_UpfNotificationResURIPath :: string
  cfg_UserAgent :: string
  cfg_HTTPConfig :: HTTPConfig
  cfg_HTTP2Config :: HTTP2Config
  cfg_AfServiceIDs :: "goany list"
  cfg_OAuth2Support :: bool

section \<open>Subscriptions, transactions and AFs\<close>

datatype sbfn = FnNil | FnPCF | FnUDR

datatype pfdfn = PfdFnNil | PfdFnUDR

record afSubscription =
  sub_subid :: string
  sub_ti :: TrafficInfluSub
  sub_appSessionID :: AppSessionID
  sub_iid :: InfluenceID
  sub_NotifCorreID :: string
  sub_afNotificationDestination :: string
  sub_NEFSBGet :: sbfn
  sub_NEFSBPut :: sbfn
  sub_NEFSBPatch :: sbfn
  sub_NEFSBDelete :: sbfn

record afPfdTransaction =
  tr_transID :: string
  tr_pfdManagement :: PfdManagement
  tr_NEFSBPfdGet :: pfdfn
  tr_NEFSBPfdPut :: pfdfn
  tr_NEFSBAppPfdPut :: pfdfn
  tr_NEFSBPfdDelete :: pfdfn

record afData =
  af_afID :: string
  af_subIDnum :: goint
  af_transIDnum :: goint
  af_maxSubSupp :: goint
  af_subs :: "(string, afSubscription) gomap"
  af_pfdtrans :: "(string, afPfdTransaction) gomap"

record nefSBRspData =
  rsp_errorCode :: int
  rsp_pd :: ProblemDetails

record nefPFDSBRspData =
  prsp_result :: nefSBRspData
  prsp_fc :: "string option"

definition rsp_zero :: nefSBRspData where
  "rsp_zero = \<lparr>rsp_errorCode = 0, rsp_pd = pd_zero\<rparr>"

definition prsp_zero :: nefPFDSBRspData where
  "prsp_zero = \<lparr>prsp_result = rsp_zero, prsp_fc = None\<rparr>"

definition mkRsp :: "int \<Rightarrow> string \<Rightarrow> nefSBRspData" where
  "mkRsp c title = rsp_zero\<lparr>rsp_errorCode := c, rsp_pd := pd_zero\<lparr>pd_Title := title\<rparr>\<rparr>"

definition mkPRsp :: "int \<Rightarrow> string \<Rightarrow> nefPFDSBRspData" where
  "mkPRsp c title = prsp_zero\<lparr>prsp_result := mkRsp c title\<rparr>"

record nefData =
  nef_afCount :: goint
  nef_locationURLPrefix :: string
  nef_locationURLPrefixPfd :: string
  nef_pcfClient :: PcfClientStub
  nef_udrClient :: UdrClientStub
  nef_udrPfdClient :: UdrPfdClientStub
  nef_corrID :: "64 word"
  nef_afs :: "(string, afData) gomap"
  nef_upfNotificationURL :: string

text \<open>The two package variables that the tests set are part of the state a handler runs in.\<close>

record nefContext =
  ctx_cfg :: Config
  ctx_nef :: nefData
  ctx_TestNEFSB :: bool
  ctx_TestClient :: bool

definition correlationIDOffset :: goint where
  "correlationIDOffset = 20"

definition subNotFound :: string where
  "subNotFound = ''Subscription Not Found''"

definition pfdNotFound :: string where
  "pfdNotFound = ''PFD transaction Not Found''"

definition appNotFound :: string where
  "appNotFound = ''Application in PFD transaction Not Found''"

definition pfdAppsFailed :: string where
  "pfdAppsFailed = ''ALL PFD Apps Failed''"

section \<open>Locations\<close>

definition getNefNotificationURI :: "Config \<Rightarrow> string" where
  "getNefNotificationURI c =
     (if h2_Endpoint (cfg_HTTP2Config c) \<noteq> [] then
        ''https://'' @ cfg_NefAPIRoot c @ h2_Endpoint (cfg_HTTP2Config c)
      else ''http://'' @ cfg_NefAPIRoot c @ h1_Endpoint (cfg_HTTPConfig c))
     @ cfg_UpfNotificationResURIPath c"

definition getNefLocationURLPrefix :: "Config \<Rightarrow> string" where
  "getNefLocationURLPrefix c =
     (if h2_Endpoint (cfg_HTTP2Config c) \<noteq> [] then
        ''https://'' @ cfg_NefAPIRoot c @ h2_Endpoint (cfg_HTTP2Config c)
      else ''http://'' @ cfg_NefAPIRoot c @ h1_Endpoint (cfg_HTTPConfig c))
     @ cfg_LocationPrefix c"

definition getNefLocationURLPrefixPfd :: "Config \<Rightarrow> string" where
  "getNefLocationURLPrefixPfd c =
     (if h2_Endpoint (cfg_HTTP2Config c) \<noteq> [] then
        ''https://'' @ cfg_NefAPIRoot c @ h2_Endpoint (cfg_HTTP2Config c)
      else ''http://'' @ cfg_NefAPIRoot c @ h1_Endpoint (cfg_HTTPConfig c))
     @ cfg_LocationPrefixPfd c"

section \<open>The table of AFs\<close>

definition afCreate :: "nefContext \<Rightarrow> string \<Rightarrow> afData" where
  "afCreate s afID =
     \<lparr>af_afID = afID, af_subIDnum = cfg_SubStartID (ctx_cfg s),
      af_transIDnum = cfg_PfdTransStartID (ctx_cfg s),
      af_maxSubSupp = cfg_MaxSubSupport (ctx_cfg s), af_subs = [], af_pfdtrans = []\<rparr>"

text \<open>\<open>nefCreate\<close>: the error of a configuration that is refused, or the initial NEF data.\<close>

definition nefCreate :: "goint \<Rightarrow> Config \<Rightarrow> string + nefData" where
  "nefCreate r c =
     (if cfg_NefAPIRoot c = [] then Inl ''NefAPIRoot is empty''
      else if cfg_LocationPrefix c = [] then Inl ''NEF LocationPrefix is empty''
      else if cfg_UpfNotificationResURIPath c = [] then Inl ''UpfNotificationResURIPath is empty''
      else Inr \<lparr>nef_afCount = 0, nef_locationURLPrefix = getNefLocationURLPrefix c,
        nef_locationURLPrefixPfd = getNefLocationURLPrefixPfd c, nef_pcfClient = NewPCFClient r,
        nef_udrClient = NewUDRClient, nef_udrPfdClient = NewUDRPfdClient,
        nef_corrID = cfg_SubStartID c + correlationIDOffset, nef_afs = [],
        nef_upfNotificationURL = getNefNotificationURI c\<rparr>)"

definition nefGetAf :: "nefData \<Rightarrow> string \<Rightarrow> afData option" where
  "nefGetAf n afID = gm_get (nef_afs n) afID"

definition set_afs :: "(string, afData) gomap \<Rightarrow> nefContext \<Rightarrow> nefContext" where
  "set_afs m s = s\<lparr>ctx_nef := (ctx_nef s)\<lparr>nef_afs := m\<rparr>\<rparr>"

definition upd_af :: "string \<Rightarrow> (afData \<Rightarrow> afData) \<Rightarrow> nefContext \<Rightarrow> nefContext" where
  "upd_af afID f s =
     (case nefGetAf (ctx_nef s) afID of
        None \<Rightarrow> s
      | Some a \<Rightarrow> set_afs (gm_put afID (f a) (nef_afs (ctx_nef s))) s)"

definition nefAddAf :: "nefContext \<Rightarrow> string \<Rightarrow> nefContext \<times> goerr" where
  "nefAddAf s afID =
     (if int (gm_len (nef_afs (ctx_nef s))) \<ge> sint (cfg_MaxAFSupport (ctx_cfg s))
      then (s, Some ''MAX AF exceeded'')
      else let s1 = set_afs (gm_put afID (afCreate s afID) (nef_afs (ctx_nef s))) s
           in (s1\<lparr>ctx_nef := (ctx_nef s1)\<lparr>nef_afCount := nef_afCount (ctx_nef s1) + 1\<rparr>\<rparr>, None))"

definition nefDeleteAf :: "nefContext \<Rightarrow> string \<Rightarrow> nefContext \<times> goerr" where
  "nefDeleteAf s afID =
     (case nefGetAf (ctx_nef s) afID of
        Some _ \<Rightarrow> (set_afs (gm_del afID (nef_afs (ctx_nef s))) s, None)
      | None \<Rightarrow> (s, Some ''AF entry not present''))"

definition afGetSubCount :: "afData \<Rightarrow> nat" where
  "afGetSubCount a = gm_len (af_subs a)"

definition afGetPfdTransCount :: "afData \<Rightarrow> nat" where
  "afGetPfdTransCount a = gm_len (af_pfdtrans a)"

text \<open>An AF that is not in the table is a nil pointer, and reading its counts panics.\<close>

definition nefCheckDeleteAf :: "nefContext \<Rightarrow> string \<Rightarrow> (nefContext, unit) go" where
  "nefCheckDeleteAf s afID =
     (case nefGetAf (ctx_nef s) afID of
        None \<Rightarrow> Panic s
      | Some a \<Rightarrow>
          if afGetSubCount a = 0 \<and> afGetPfdTransCount a = 0
          then Ret (fst (nefDeleteAf s afID)) () else Ret s ())"

section \<open>Responses\<close>

text \<open>The values a handler marshals into the body of its response.\<close>

datatype nef_body =
    BProblem ProblemDetails
  | BSub TrafficInfluSub
  | BSubs "TrafficInfluSub slice"
  | BTrans PfdManagement
  | BTransList "PfdManagement slice"
  | BPfdData PfdData
  | BReport PfdReport
  | BReports "PfdReport list"

type_synonym nef_writer = "nef_body response_writer"

definition createErrorJSON :: "nefSBRspData \<Rightarrow> ProblemDetails \<times> int" where
  "createErrorJSON rsp =
     (if rsp_errorCode rsp = 400 \<or> rsp_errorCode rsp = 404 \<or> rsp_errorCode rsp = 411 \<or>
         rsp_errorCode rsp = 415 \<or> rsp_errorCode rsp = 500 \<or> rsp_errorCode rsp = 503
      then (rsp_pd rsp, rsp_errorCode rsp)
      else (pd_zero\<lparr>pd_Title := '' NEF Error ''\<rparr>, 404))"

definition sendErrorResponseToAF :: "nef_writer \<Rightarrow> nefSBRspData \<Rightarrow> nef_writer" where
  "sendErrorResponseToAF w rsp =
     (let (mdata, eCode) = createErrorJSON rsp
      in rwWrite (BProblem mdata) (rwWriteHeader eCode (rwSet ''Content-Type'' jsonCT w)))"

definition sendCustomeErrorRspToAF :: "nef_writer \<Rightarrow> int \<Rightarrow> string \<Rightarrow> nef_writer" where
  "sendCustomeErrorRspToAF w eCode custTitleString =
     sendErrorResponseToAF w (mkRsp eCode custTitleString)"

section \<open>Facts about the table\<close>

lemma set_afs_sel [simp]:
  "ctx_cfg (set_afs m s) = ctx_cfg s"
  "ctx_TestNEFSB (set_afs m s) = ctx_TestNEFSB s"
  "ctx_TestClient (set_afs m s) = ctx_TestClient s"
  "nef_afs (ctx_nef (set_afs m s)) = m"
  "nef_corrID (ctx_nef (set_afs m s)) = nef_corrID (ctx_nef s)"
  "nef_pcfClient (ctx_nef (set_afs m s)) = nef_pcfClient (ctx_nef s)"
  "nef_udrClient (ctx_nef (set_afs m s)) = nef_udrClient (ctx_nef s)"
  "nef_udrPfdClient (ctx_nef (set_afs m s)) = nef_udrPfdClient (ctx_nef s)"
  "nef_locationURLPrefix (ctx_nef (set_afs m s)) = nef_locationURLPrefix (ctx_nef s)"
  "nef_locationURLPrefixPfd (ctx_nef (set_afs m s)) = nef_locationURLPrefixPfd (ctx_nef s)"
  "nef_upfNotificationURL (ctx_nef (set_afs m s)) = nef_upfNotificationURL (ctx_nef s)"
  "nef_afCount (ctx_nef (set_afs m s)) = nef_afCount (ctx_nef s)"
  by (simp_all add: set_afs_def)

lemma nefGetAf_set_afs [simp]: "nefGetAf (ctx_nef (set_afs m s)) k = gm_get m k"
  by (simp add: nefGetAf_def)

lemma upd_af_sel [simp]:
  "ctx_cfg (upd_af k f s) = ctx_cfg s"
  "ctx_TestNEFSB (upd_af k f s) = ctx_TestNEFSB s"
  "ctx_TestClient (upd_af k f s) = ctx_TestClient s"
  "nef_corrID (ctx_nef (upd_af k f s)) = nef_corrID (ctx_nef s)"
  "nef_pcfClient (ctx_nef (upd_af k f s)) = nef_pcfClient (ctx_nef s)"
  "nef_udrClient (ctx_nef (upd_af k f s)) = nef_udrClient (ctx_nef s)"
  "nef_udrPfdClient (ctx_nef (upd_af k f s)) = nef_udrPfdClient (ctx_nef s)"
  "nef_locationURLPrefix (ctx_nef (upd_af k f s)) = nef_locationURLPrefix (ctx_nef s)"
  "nef_locationURLPrefixPfd (ctx_nef (upd_af k f s)) = nef_locationURLPrefixPfd (ctx_nef s)"
  "nef_upfNotificationURL (ctx_nef (upd_af k f s)) = nef_upfNotificationURL (ctx_nef s)"
  "nef_afCount (ctx_nef (upd_af k f s)) = nef_afCount (ctx_nef s)"
  by (simp_all add: upd_af_def split: option.split)

lemma nefGetAf_upd_af [simp]:
  "nefGetAf (ctx_nef (upd_af k f s)) k' =
     (if k' = k then map_option f (nefGetAf (ctx_nef s) k) else nefGetAf (ctx_nef s) k')"
  by (auto simp: upd_af_def nefGetAf_def split: option.split)

lemma upd_af_upd_af: "upd_af k g (upd_af k f s) = upd_af k (g \<circ> f) s"
  by (simp add: upd_af_def nefGetAf_def set_afs_def split: option.split)

lemma gm_ok_upd_af [simp]: "gm_ok (nef_afs (ctx_nef s)) \<Longrightarrow> gm_ok (nef_afs (ctx_nef (upd_af k f s)))"
  by (simp add: upd_af_def split: option.split)

lemma gm_len_upd_af [simp]:
  "gm_ok (nef_afs (ctx_nef s)) \<Longrightarrow>
   gm_len (nef_afs (ctx_nef (upd_af k f s))) = gm_len (nef_afs (ctx_nef s))"
  by (auto simp: upd_af_def nefGetAf_def gm.len_put_old split: option.split)

lemma createErrorJSON_status:
  "snd (createErrorJSON rsp) \<in> {400, 404, 411, 415, 500, 503}"
  by (simp add: createErrorJSON_def)

lemma sendError_sel:
  assumes "rw_status w = None"
  shows "rw_status (sendErrorResponseToAF w rsp) = Some (snd (createErrorJSON rsp))"
    and "rw_body (sendErrorResponseToAF w rsp) = rw_body w @ [BProblem (fst (createErrorJSON rsp))]"
    and "gm_get (rw_sent (sendErrorResponseToAF w rsp)) ''Content-Type'' = Some jsonCT"
  using assms by (simp_all add: sendErrorResponseToAF_def Let_def split_beta)

end
