(* ===== verification/Nef_TrafficInfluence.thy ===== *)
theory Nef_TrafficInfluence
  imports Nef_State
begin

text \<open>
  The traffic influence part of the NEF (\<open>nef_nb_ti_handler.go\<close>): the southbound callbacks towards
  the PCF and the UDR, the operations on the subscriptions of an AF, and the HTTP handlers.
\<close>

section \<open>Fixed data\<close>

definition plmn :: "string \<Rightarrow> string \<Rightarrow> PlmnID" where
  "plmn mcc mnc = \<lparr>pl_Mcc = mcc, pl_Mnc = mnc\<rparr>"

definition getSpatialValidityData :: SpatialValidity where
  "getSpatialValidityData = \<lparr>sv_PresenceInfoList =
     \<lparr>pi_PraID = ''PRA_01'', pi_PresenceState = ''IN_AREA'',
      pi_EcgiList = [\<lparr>ec_EutraCellID = ''EUTRACELL_01'', ec_PlmnID = plmn ''634'' ''635''\<rparr>],
      pi_NcgiList = [\<lparr>nc_NrCellID = ''NRCELL_01'', nc_PlmnID = plmn ''834'' ''835''\<rparr>],
      pi_GlobalRanNodeIDList = [\<lparr>gr_PlmnID = plmn ''934'' ''935'', gr_N3IwfID = ''IWF_01'',
        gr_GNbID = \<lparr>gnb_BitLength = 48, gnb_GNBValue = ''GNB_01''\<rparr>, gr_NgeNbID = ''NB_01''\<rparr>]\<rparr>\<rparr>"

definition getSupiData :: string where
  "getSupiData = ''imsi-8''"

definition getNetworkAreaInfo :: NetworkAreaInfo where
  "getNetworkAreaInfo =
     \<lparr>na_Ecgis = [\<lparr>ec_EutraCellID = ''EUTRACELL_01'', ec_PlmnID = plmn ''634'' ''635''\<rparr>],
      na_Ncgis = [\<lparr>nc_NrCellID = ''NRCELL_01'', nc_PlmnID = plmn ''834'' ''835''\<rparr>],
      na_GRanNodeIds = [\<lparr>gr_PlmnID = plmn ''934'' ''935'', gr_N3IwfID = ''IWF_01'',
        gr_GNbID = \<lparr>gnb_BitLength = 48, gnb_GNBValue = ''GNB_01''\<rparr>, gr_NgeNbID = ''NB_01''\<rparr>],
      na_Tais = [\<lparr>tai_PlmnID = plmn ''734'' ''735'', tai_Tac = ''TAC_01''\<rparr>]\<rparr>"

section \<open>Southbound callbacks\<close>

text \<open>
  The loop over \<open>cfg.AfServiceIDs\<close>: the DNN and the slice of the last entry with the wanted id.
  \<open>None\<close> is the panic of a failed type assertion.
\<close>

fun afServiceLoop :: "goany list \<Rightarrow> string \<Rightarrow> string \<times> Snssai \<Rightarrow> (string \<times> Snssai) option" where
  "afServiceLoop [] sid acc = Some acc"
| "afServiceLoop (x # xs) sid acc =
     (case assert_map x of
        None \<Rightarrow> None
      | Some m \<Rightarrow>
          (case assert_str m ''id'' of
             None \<Rightarrow> None
           | Some i \<Rightarrow>
               if sid = i then
                 (case assert_str m ''dnn'' of
                    None \<Rightarrow> None
                  | Some dnn \<Rightarrow>
                      (case assert_str m ''snssai'' of
                         None \<Rightarrow> None
                       | Some sd \<Rightarrow>
                           afServiceLoop xs sid (dnn, \<lparr>sn_Sst = of_nat (length sd), sn_Sd = sd\<rparr>)))
               else afServiceLoop xs sid acc))"

text \<open>The response data made of the code and the problem details of a southbound response.\<close>

definition sbRsp :: "16 word \<Rightarrow> ProblemDetails option \<Rightarrow> nefSBRspData" where
  "sbRsp code pd =
     \<lparr>rsp_errorCode = uint code, rsp_pd = (case pd of None \<Rightarrow> pd_zero | Some p \<Rightarrow> p)\<rparr>"

definition sbFailed :: "16 word \<Rightarrow> bool" where
  "sbFailed code \<longleftrightarrow> uint code \<ge> 300 \<and> uint code < 700"

definition sbOk :: "16 word \<Rightarrow> nefSBRspData" where
  "sbOk code = rsp_zero\<lparr>rsp_errorCode := uint code\<rparr>"

definition set_pcf :: "PcfClientStub \<Rightarrow> nefContext \<Rightarrow> nefContext" where
  "set_pcf p s = s\<lparr>ctx_nef := (ctx_nef s)\<lparr>nef_pcfClient := p\<rparr>\<rparr>"

definition set_udr :: "UdrClientStub \<Rightarrow> nefContext \<Rightarrow> nefContext" where
  "set_udr u s = s\<lparr>ctx_nef := (ctx_nef s)\<lparr>nef_udrClient := u\<rparr>\<rparr>"

definition inc_corrID :: "nefContext \<Rightarrow> nefContext" where
  "inc_corrID s = s\<lparr>ctx_nef := (ctx_nef s)\<lparr>nef_corrID := nef_corrID (ctx_nef s) + 1\<rparr>\<rparr>"

definition pcfAppSessionContext ::
  "nefContext \<Rightarrow> TrafficInfluSub \<Rightarrow> string \<Rightarrow> string \<times> Snssai \<Rightarrow> AppSessionContext" where
  "pcfAppSessionContext s ti corr svc = \<lparr>asc_AscReqData =
     \<lparr>rq_AfAppID = ti_AfAppID ti,
      rq_AfRoutReq =
        \<lparr>rr_RouteToLocs = elems (ti_TrafficRoutes ti),
         rr_SpVal = getSpatialValidityData,
         rr_TempVals = elems (ti_TempValidities ti),
         rr_UpPathChgSub =
           \<lparr>up_NotificationURI =
              (if h2_Endpoint (cfg_HTTP2Config (ctx_cfg s)) \<noteq> [] then
                 ''https://'' @ cfg_NefAPIRoot (ctx_cfg s) @ h2_Endpoint (cfg_HTTP2Config (ctx_cfg s))
               else ''http://'' @ cfg_NefAPIRoot (ctx_cfg s) @ h1_Endpoint (cfg_HTTPConfig (ctx_cfg s))),
            up_NotifCorreID = corr,
            up_DnaiChgType = ti_DnaiChgType ti\<rparr>,
         rr_AppReloc = ti_AppReloInd ti,
         rr_AddrPreserInd = False\<rparr>,
      rq_Dnn = fst svc, rq_SliceInfo = snd svc, rq_Supi = getSupiData, rq_Gpsi = [],
      rq_SuppFeat = [], rq_UeIpv4 = ti_Ipv4Addr ti, rq_UeIpv6 = ti_Ipv6Addr ti,
      rq_UeMac = ti_MacAddr ti\<rparr>\<rparr>"

definition nefSBPCFPost ::
  "afSubscription \<Rightarrow> nefContext \<Rightarrow> TrafficInfluSub \<Rightarrow>
   (nefContext, afSubscription \<times> nefSBRspData \<times> goerr) go" where
  "nefSBPCFPost pcfSub s ti =
     (let pcfSub1 = pcfSub\<lparr>sub_NotifCorreID := Itoa (nef_corrID (ctx_nef s))\<rparr>;
          s1 = inc_corrID s
      in case afServiceLoop (cfg_AfServiceIDs (ctx_cfg s)) (ti_AfServiceID ti) ([], snssai_zero) of
           None \<Rightarrow> Panic s1
         | Some svc \<Rightarrow>
             (let (pcf', appSessID, resp, err) =
                    PolicyAuthorizationCreate (nef_pcfClient (ctx_nef s1))
                      (pcfAppSessionContext s1 ti (sub_NotifCorreID pcfSub1) svc);
                  s2 = set_pcf pcf' s1
              in case err of
                   Some e \<Rightarrow> Ret s2 (pcfSub1, sbRsp (pr_ResponseCode resp) (pr_Pd resp), Some e)
                 | None \<Rightarrow>
                     if sbFailed (pr_ResponseCode resp)
                     then Ret s2 (pcfSub1, sbRsp (pr_ResponseCode resp) (pr_Pd resp), None)
                     else Ret s2 (pcfSub1\<lparr>sub_appSessionID := appSessID\<rparr>,
                                  sbOk (pr_ResponseCode resp), None)))"

definition nefSBPCFGet ::
  "afSubscription \<Rightarrow> nefContext \<Rightarrow> TrafficInfluSub \<times> nefSBRspData \<times> goerr" where
  "nefSBPCFGet pcfSub s =
     (let (resp, err) = PolicyAuthorizationGet (nef_pcfClient (ctx_nef s)) (sub_appSessionID pcfSub)
      in case err of
           Some e \<Rightarrow> (ti_zero, sbRsp (pr_ResponseCode resp) (pr_Pd resp), Some e)
         | None \<Rightarrow>
             if sbFailed (pr_ResponseCode resp)
             then (ti_zero, sbRsp (pr_ResponseCode resp) (pr_Pd resp), None)
             else (sub_ti pcfSub, sbOk (pr_ResponseCode resp), None))"

definition nefSBPCFPut ::
  "afSubscription \<Rightarrow> nefContext \<Rightarrow> TrafficInfluSub \<Rightarrow>
   (nefContext, afSubscription \<times> nefSBRspData \<times> goerr) go" where
  "nefSBPCFPut pcfSub s ti = Ret s (pcfSub, rsp_zero, Some ''PUT Method Not Supported'')"

definition pcfUpdateData ::
  "afSubscription \<Rightarrow> nefContext \<Rightarrow> TrafficInfluSubPatch \<Rightarrow> AppSessionContextUpdateData" where
  "pcfUpdateData pcfSub s tisp = \<lparr>ascu_AfAppID = [],
     ascu_AfRoutReq =
       \<lparr>rr_RouteToLocs = elems (tp_TrafficRoutes tisp), rr_SpVal = getSpatialValidityData,
        rr_TempVals = elems (tp_TempValidities tisp),
        rr_UpPathChgSub = \<lparr>up_NotificationURI = nef_upfNotificationURL (ctx_nef s),
          up_NotifCorreID = sub_NotifCorreID pcfSub, up_DnaiChgType = []\<rparr>,
        rr_AppReloc = tp_AppReloInd tisp, rr_AddrPreserInd = False\<rparr>\<rparr>"

definition nefSBPCFPatch ::
  "afSubscription \<Rightarrow> nefContext \<Rightarrow> TrafficInfluSubPatch \<Rightarrow> (nefContext, nefSBRspData \<times> goerr) go" where
  "nefSBPCFPatch pcfSub s tisp =
     (let (pcf', resp, err) =
            PolicyAuthorizationUpdate (nef_pcfClient (ctx_nef s)) (pcfUpdateData pcfSub s tisp)
              (sub_appSessionID pcfSub);
          s1 = set_pcf pcf' s
      in case err of
           Some e \<Rightarrow> Ret s1 (sbRsp (pr_ResponseCode resp) (pr_Pd resp), Some e)
         | None \<Rightarrow>
             if sbFailed (pr_ResponseCode resp)
             then Ret s1 (sbRsp (pr_ResponseCode resp) (pr_Pd resp), None)
             else Ret s1 (sbOk (pr_ResponseCode resp), None))"

definition nefSBPCFDelete :: "afSubscription \<Rightarrow> nefContext \<Rightarrow> (nefContext, nefSBRspData \<times> goerr) go" where
  "nefSBPCFDelete pcfSub s =
     (let (pcf', resp, err) =
            PolicyAuthorizationDelete (nef_pcfClient (ctx_nef s)) (sub_appSessionID pcfSub);
          s1 = set_pcf pcf' s
      in case err of
           Some e \<Rightarrow> Ret s1 (sbRsp (pr_ResponseCode resp) (pr_Pd resp), Some e)
         | None \<Rightarrow>
             if sbFailed (pr_ResponseCode resp)
             then Ret s1 (sbRsp (pr_ResponseCode resp) (pr_Pd resp), None)
             else Ret s1 (sbOk (pr_ResponseCode resp), None))"

definition udrTrafficInfluData ::
  "nefContext \<Rightarrow> TrafficInfluSub \<Rightarrow> string \<Rightarrow> string \<times> Snssai \<Rightarrow> TrafficInfluData" where
  "udrTrafficInfluData s ti corr svc =
     \<lparr>tid_UpPathChgNotifURI = nef_upfNotificationURL (ctx_nef s),
      tid_AppReloInd = ti_AppReloInd ti, tid_AfAppID = ti_AfAppID ti, tid_Dnn = fst svc,
      tid_EthTrafficFilters = elems (ti_EthTrafficFilters ti), tid_Snssai = snd svc,
      tid_InterGroupID = ti_ExternalGroupID ti, tid_Supi = [],
      tid_TrafficFilters = elems (ti_TrafficFilters ti),
      tid_TrafficRoutes = elems (ti_TrafficRoutes ti),
      tid_ValidEndTime =
        (case elems (ti_TempValidities ti) of [] \<Rightarrow> [] | v # _ \<Rightarrow> tv_StopTime v),
      tid_ValidStartTime =
        (case elems (ti_TempValidities ti) of [] \<Rightarrow> [] | v # _ \<Rightarrow> tv_StartTime v),
      tid_NwAreaInfo = getNetworkAreaInfo, tid_UpPathChgNotifCorreID = corr\<rparr>"

definition wantsUpPathChange :: "TrafficInfluSub \<Rightarrow> bool" where
  "wantsUpPathChange ti \<longleftrightarrow>
     (case ti_SubscribedEvents ti of [] \<Rightarrow> False | e # _ \<Rightarrow> e = ''UP_PATH_CHANGE'')"

definition nefSBUDRPut ::
  "afSubscription \<Rightarrow> nefContext \<Rightarrow> TrafficInfluSub \<Rightarrow>
   (nefContext, afSubscription \<times> nefSBRspData \<times> goerr) go" where
  "nefSBUDRPut udrSub s ti =
     (case afServiceLoop (cfg_AfServiceIDs (ctx_cfg s)) (ti_AfServiceID ti) ([], snssai_zero) of
        None \<Rightarrow> Panic s
      | Some svc \<Rightarrow>
          (let (udrSub1, s1, corr) =
                 (if wantsUpPathChange ti
                  then (udrSub\<lparr>sub_NotifCorreID := Itoa (nef_corrID (ctx_nef s))\<rparr>, inc_corrID s,
                        Itoa (nef_corrID (ctx_nef s)))
                  else (udrSub, s, []));
               (udr', resp, err) =
                 UdrInfluenceDataCreate (nef_udrClient (ctx_nef s1))
                   (udrTrafficInfluData s1 ti corr svc) (sub_iid udrSub1);
               s2 = set_udr udr' s1
           in case err of
                Some e \<Rightarrow> Ret s2 (udrSub1, sbRsp (ur_ResponseCode resp) (ur_Pd resp), Some e)
              | None \<Rightarrow>
                  if sbFailed (ur_ResponseCode resp)
                  then Ret s2 (udrSub1, sbRsp (ur_ResponseCode resp) (ur_Pd resp), None)
                  else Ret s2 (udrSub1, sbOk (ur_ResponseCode resp), None)))"

definition nefSBUDRPost ::
  "afSubscription \<Rightarrow> nefContext \<Rightarrow> TrafficInfluSub \<Rightarrow>
   (nefContext, afSubscription \<times> nefSBRspData \<times> goerr) go" where
  "nefSBUDRPost udrSub s ti = nefSBUDRPut udrSub s ti"

definition nefSBUDRGet ::
  "afSubscription \<Rightarrow> nefContext \<Rightarrow> TrafficInfluSub \<times> nefSBRspData \<times> goerr" where
  "nefSBUDRGet udrSub s =
     (let (resp, err) = UdrInfluenceDataGet (nef_udrClient (ctx_nef s))
      in case err of
           Some e \<Rightarrow> (ti_zero, sbRsp (ur_ResponseCode resp) (ur_Pd resp), Some e)
         | None \<Rightarrow>
             if sbFailed (ur_ResponseCode resp)
             then (ti_zero, sbRsp (ur_ResponseCode resp) (ur_Pd resp), None)
             else (sub_ti udrSub, sbOk (ur_ResponseCode resp), None))"

definition udrTrafficInfluDataPatch :: "TrafficInfluSubPatch \<Rightarrow> TrafficInfluDataPatch" where
  "udrTrafficInfluDataPatch tisp =
     \<lparr>tidp_UpPathChgNotifCorreID = [], tidp_AppReloInd = tp_AppReloInd tisp, tidp_Dnn = [],
      tidp_Snssai = snssai_zero, tidp_InternalGroupID = [],
      tidp_EthTrafficFilters = elems (tp_EthTrafficFilters tisp), tidp_Supi = [],
      tidp_TrafficFilters = elems (tp_TrafficFilters tisp),
      tidp_TrafficRoutes = elems (tp_TrafficRoutes tisp),
      tidp_ValidEndTime =
        (case elems (tp_TempValidities tisp) of [] \<Rightarrow> [] | v # _ \<Rightarrow> tv_StopTime v),
      tidp_ValidStartTime =
        (case elems (tp_TempValidities tisp) of [] \<Rightarrow> [] | v # _ \<Rightarrow> tv_StartTime v),
      tidp_NwAreaInfo = na_zero, tidp_UpPathChgNotifURI = []\<rparr>"

definition nefSBUDRPatch ::
  "afSubscription \<Rightarrow> nefContext \<Rightarrow> TrafficInfluSubPatch \<Rightarrow> (nefContext, nefSBRspData \<times> goerr) go" where
  "nefSBUDRPatch udrSub s tisp =
     (let (udr', resp, err) =
            UdrInfluenceDataUpdate (nef_udrClient (ctx_nef s)) (udrTrafficInfluDataPatch tisp)
              (sub_iid udrSub);
          s1 = set_udr udr' s
      in case err of
           Some e \<Rightarrow> Ret s1 (sbRsp (ur_ResponseCode resp) (ur_Pd resp), Some e)
         | None \<Rightarrow>
             if sbFailed (ur_ResponseCode resp)
             then Ret s1 (sbRsp (ur_ResponseCode resp) (ur_Pd resp), None)
             else Ret s1 (sbOk (ur_ResponseCode resp), None))"

definition nefSBUDRDelete :: "afSubscription \<Rightarrow> nefContext \<Rightarrow> (nefContext, nefSBRspData \<times> goerr) go" where
  "nefSBUDRDelete udrSub s =
     (let (udr', resp, err) = UdrInfluenceDataDelete (nef_udrClient (ctx_nef s)) (sub_iid udrSub);
          s1 = set_udr udr' s
      in case err of
           Some e \<Rightarrow> Ret s1 (sbRsp (ur_ResponseCode resp) (ur_Pd resp), Some e)
         | None \<Rightarrow>
             if sbFailed (ur_ResponseCode resp)
             then Ret s1 (sbRsp (ur_ResponseCode resp) (ur_Pd resp), None)
             else Ret s1 (sbOk (ur_ResponseCode resp), None))"

text \<open>The calls through the callback fields of a subscription; a call of nil panics.\<close>

fun callPut ::
  "sbfn \<Rightarrow> afSubscription \<Rightarrow> nefContext \<Rightarrow> TrafficInfluSub \<Rightarrow>
   (nefContext, afSubscription \<times> nefSBRspData \<times> goerr) go" where
  "callPut FnNil sub s ti = Panic s"
| "callPut FnPCF sub s ti = nefSBPCFPut sub s ti"
| "callPut FnUDR sub s ti = nefSBUDRPut sub s ti"

fun callPatch ::
  "sbfn \<Rightarrow> afSubscription \<Rightarrow> nefContext \<Rightarrow> TrafficInfluSubPatch \<Rightarrow>
   (nefContext, nefSBRspData \<times> goerr) go" where
  "callPatch FnNil sub s tisp = Panic s"
| "callPatch FnPCF sub s tisp = nefSBPCFPatch sub s tisp"
| "callPatch FnUDR sub s tisp = nefSBUDRPatch sub s tisp"

fun callDelete ::
  "sbfn \<Rightarrow> afSubscription \<Rightarrow> nefContext \<Rightarrow> (nefContext, nefSBRspData \<times> goerr) go" where
  "callDelete FnNil sub s = Panic s"
| "callDelete FnPCF sub s = nefSBPCFDelete sub s"
| "callDelete FnUDR sub s = nefSBUDRDelete sub s"

section \<open>Operations on the subscriptions of an AF\<close>

definition validateAFTrafficInfluenceData :: "TrafficInfluSub \<Rightarrow> nefSBRspData \<times> bool" where
  "validateAFTrafficInfluenceData ti =
     (if length (ti_AfTransID ti) = 0 then (mkRsp 400 ''Missing AfTransID atttribute'', False)
      else if length (ti_AfServiceID ti) = 0 \<and> length (ti_Dnn ti) = 0
      then (mkRsp 400 ''Missing afServiceId atttribute'', False)
      else if length (ti_AfAppID ti) = 0 \<and> ti_TrafficFilters ti = None \<and> ti_EthTrafficFilters ti = None
      then (mkRsp 400 (''missing one of afAppId, trafficFilters,'' @ ''ethTrafficFilters''), False)
      else (rsp_zero, True))"

definition put_sub :: "string \<Rightarrow> string \<Rightarrow> afSubscription \<Rightarrow> nefContext \<Rightarrow> nefContext" where
  "put_sub afID subID sub s = upd_af afID (\<lambda>a. a\<lparr>af_subs := gm_put subID sub (af_subs a)\<rparr>) s"

definition singleUE :: "TrafficInfluSub \<Rightarrow> bool" where
  "singleUE ti \<longleftrightarrow> length (ti_Gpsi ti) > 0 \<or> length (ti_Ipv4Addr ti) > 0 \<or> length (ti_Ipv6Addr ti) > 0"

definition anyUE :: "TrafficInfluSub \<Rightarrow> bool" where
  "anyUE ti \<longleftrightarrow> length (ti_ExternalGroupID ti) > 0 \<or> ti_AnyUeInd ti"

definition setSubCallbacks :: "sbfn \<Rightarrow> TrafficInfluSub \<Rightarrow> afSubscription \<Rightarrow> afSubscription" where
  "setSubCallbacks fn ti sub = sub
     \<lparr>sub_afNotificationDestination := ti_NotificationDestination ti, sub_NEFSBGet := fn,
      sub_NEFSBPut := fn, sub_NEFSBPatch := fn, sub_NEFSBDelete := fn\<rparr>"

definition subLocation :: "nefContext \<Rightarrow> afData \<Rightarrow> string \<Rightarrow> string" where
  "subLocation s a subIDStr =
     nef_locationURLPrefix (ctx_nef s) @ af_afID a @ ''/subscriptions/'' @ subIDStr"

text \<open>
  \<open>afAddSubscription\<close>: the last part, which links the new subscription to its AF, is
  \<open>linkSubscription\<close>; the assignment \<open>afsub.ti.Self = loc\<close> after the insertion reaches the stored
  subscription through the pointer in the map.
\<close>

definition linkSubscription ::
  "string \<Rightarrow> string \<Rightarrow> afData \<Rightarrow> afSubscription \<Rightarrow> nefSBRspData \<Rightarrow> nefContext \<Rightarrow>
   (nefContext, string \<times> nefSBRspData \<times> goerr) go" where
  "linkSubscription afID subIDStr a afsub rsp s =
     (let loc = subLocation s a subIDStr
      in Ret (put_sub afID subIDStr (afsub\<lparr>sub_ti := (sub_ti afsub)\<lparr>ti_Self := loc\<rparr>\<rparr>) s)
             (loc, rsp, None))"

definition afAddSubscription ::
  "string \<Rightarrow> nefContext \<Rightarrow> TrafficInfluSub \<Rightarrow> (nefContext, string \<times> nefSBRspData \<times> goerr) go" where
  "afAddSubscription afID s ti =
     (case nefGetAf (ctx_nef s) afID of
        None \<Rightarrow> Panic s
      | Some a \<Rightarrow>
          if int (gm_len (af_subs a)) \<ge> sint (cfg_MaxSubSupport (ctx_cfg s))
          then Ret s ([], mkRsp 400 ''MAX Subscription Reached'', Some ''MAX SUBS Created'')
          else
            (let subIDStr = Itoa (af_subIDnum a);
                 s1 = upd_af afID (\<lambda>a. a\<lparr>af_subIDnum := af_subIDnum a + 1\<rparr>) s;
                 afsub = \<lparr>sub_subid = subIDStr, sub_ti = ti, sub_appSessionID = [], sub_iid = [],
                   sub_NotifCorreID = [], sub_afNotificationDestination = [], sub_NEFSBGet = FnNil,
                   sub_NEFSBPut = FnNil, sub_NEFSBPatch = FnNil, sub_NEFSBDelete = FnNil\<rparr>
             in if singleUE ti then
                  go_bind (nefSBPCFPost afsub s1 ti) (\<lambda>s2 (afsub, rsp, err).
                    case err of
                      Some e \<Rightarrow> Ret s2 ([], rsp, Some e)
                    | None \<Rightarrow> linkSubscription afID subIDStr a (setSubCallbacks FnPCF ti afsub) rsp s2)
                else if anyUE ti then
                  go_bind (nefSBUDRPost afsub s1 ti) (\<lambda>s2 (afsub, rsp, err).
                    case err of
                      Some e \<Rightarrow> Ret s2 ([], rsp, Some e)
                    | None \<Rightarrow> linkSubscription afID subIDStr a (setSubCallbacks FnUDR ti afsub) rsp s2)
                else Ret s1 ([], mkRsp 400 ''Invalid Request'', Some ''Invalid AF Request'')))"

definition createNewSub ::
  "nefContext \<Rightarrow> string \<Rightarrow> TrafficInfluSub \<Rightarrow> (nefContext, string \<times> nefSBRspData \<times> goerr) go" where
  "createNewSub s afID ti =
     (case nefGetAf (ctx_nef s) afID of
        Some _ \<Rightarrow> afAddSubscription afID s ti
      | None \<Rightarrow>
          (case nefAddAf s afID of
             (s1, Some e) \<Rightarrow> Ret s1 ([], rsp_zero, Some e)
           | (s1, None) \<Rightarrow> afAddSubscription afID s1 ti))"

text \<open>
  \<open>afUpdateSubscription\<close> writes the subscription through its pointer: what the callback changed
  (the correlation id) stays also when the callback returns an error.
\<close>

definition afUpdateSubscription ::
  "string \<Rightarrow> nefContext \<Rightarrow> string \<Rightarrow> TrafficInfluSub \<Rightarrow>
   (nefContext, nefSBRspData \<times> TrafficInfluSub \<times> goerr) go" where
  "afUpdateSubscription afID s subID ti =
     (case nefGetAf (ctx_nef s) afID of
        None \<Rightarrow> Panic s
      | Some a \<Rightarrow>
          (case gm_get (af_subs a) subID of
             None \<Rightarrow> Ret s (mkRsp 400 subNotFound, ti_zero, Some subNotFound)
           | Some sub \<Rightarrow>
               go_bind (callPut (sub_NEFSBPut sub) sub s ti) (\<lambda>s1 (sub1, rsp, err).
                 case err of
                   Some e \<Rightarrow> Ret (put_sub afID subID sub1 s1) (rsp, ti_zero, Some e)
                 | None \<Rightarrow>
                     (let updtTI = ti\<lparr>ti_Self := ti_Self (sub_ti sub1)\<rparr>
                      in Ret (put_sub afID subID (sub1\<lparr>sub_ti := updtTI\<rparr>) s1) (rsp, updtTI, None)))))"

definition updateTiFromTisp :: "TrafficInfluSub \<Rightarrow> TrafficInfluSubPatch \<Rightarrow> TrafficInfluSub" where
  "updateTiFromTisp ti tisp = ti
     \<lparr>ti_AppReloInd :=
        (if tp_AppReloInd tisp \<noteq> ti_AppReloInd ti then tp_AppReloInd tisp else ti_AppReloInd ti),
      ti_TrafficFilters :=
        (if tp_TrafficFilters tisp \<noteq> None then tp_TrafficFilters tisp else ti_TrafficFilters ti),
      ti_EthTrafficFilters :=
        (if tp_EthTrafficFilters tisp \<noteq> None then tp_EthTrafficFilters tisp
         else ti_EthTrafficFilters ti),
      ti_TrafficRoutes :=
        (if tp_TrafficRoutes tisp \<noteq> None then tp_TrafficRoutes tisp else ti_TrafficRoutes ti),
      ti_TempValidities :=
        (if tp_TempValidities tisp \<noteq> None then tp_TempValidities tisp else ti_TempValidities ti),
      ti_ValidGeoZoneIDs :=
        (if tp_ValidGeoZoneIDs tisp \<noteq> None then tp_ValidGeoZoneIDs tisp else ti_ValidGeoZoneIDs ti)\<rparr>"

definition afPartialUpdateSubscription ::
  "string \<Rightarrow> nefContext \<Rightarrow> string \<Rightarrow> TrafficInfluSubPatch \<Rightarrow>
   (nefContext, nefSBRspData \<times> TrafficInfluSub \<times> goerr) go" where
  "afPartialUpdateSubscription afID s subID tisp =
     (case nefGetAf (ctx_nef s) afID of
        None \<Rightarrow> Panic s
      | Some a \<Rightarrow>
          (case gm_get (af_subs a) subID of
             None \<Rightarrow> Ret s (mkRsp 400 subNotFound, ti_zero, Some subNotFound)
           | Some sub \<Rightarrow>
               go_bind (callPatch (sub_NEFSBPatch sub) sub s tisp) (\<lambda>s1 (rsp, err).
                 case err of
                   Some e \<Rightarrow> Ret s1 (rsp, ti_zero, Some e)
                 | None \<Rightarrow>
                     (let ti' = updateTiFromTisp (sub_ti sub) tisp
                      in Ret (put_sub afID subID (sub\<lparr>sub_ti := ti'\<rparr>) s1) (rsp, ti', None)))))"

definition afGetSubscription :: "afData \<Rightarrow> string \<Rightarrow> nefSBRspData \<times> TrafficInfluSub \<times> goerr" where
  "afGetSubscription a subID =
     (case gm_get (af_subs a) subID of
        None \<Rightarrow> (mkRsp 404 subNotFound, ti_zero, Some subNotFound)
      | Some sub \<Rightarrow> (rsp_zero, sub_ti sub, None))"

fun afGetSubscriptionList_loop ::
  "afData \<Rightarrow> string list \<Rightarrow> TrafficInfluSub slice \<Rightarrow> nefSBRspData \<times> TrafficInfluSub slice \<times> goerr" where
  "afGetSubscriptionList_loop a [] subsList = (rsp_zero, subsList, None)"
| "afGetSubscriptionList_loop a (key # keys) subsList =
     (case afGetSubscription a key of
        (rsp, ti, Some e) \<Rightarrow> (rsp, subsList, Some e)
      | (rsp, ti, None) \<Rightarrow> afGetSubscriptionList_loop a keys (slice_append subsList ti))"

definition afGetSubscriptionList :: "afData \<Rightarrow> nefSBRspData \<times> TrafficInfluSub slice \<times> goerr" where
  "afGetSubscriptionList a = afGetSubscriptionList_loop a (map fst (af_subs a)) None"

definition afDeleteSubscription ::
  "string \<Rightarrow> nefContext \<Rightarrow> string \<Rightarrow> (nefContext, nefSBRspData \<times> goerr) go" where
  "afDeleteSubscription afID s subID =
     (case nefGetAf (ctx_nef s) afID of
        None \<Rightarrow> Panic s
      | Some a \<Rightarrow>
          (case gm_get (af_subs a) subID of
             None \<Rightarrow> Ret s (mkRsp 404 subNotFound, Some subNotFound)
           | Some sub \<Rightarrow>
               go_bind (callDelete (sub_NEFSBDelete sub) sub s) (\<lambda>s1 (rsp, err).
                 case err of
                   Some e \<Rightarrow> Ret s1 (rsp, Some e)
                 | None \<Rightarrow>
                     Ret (upd_af afID (\<lambda>a. a\<lparr>af_subs := gm_del subID (af_subs a)\<rparr>) s1) (rsp, None))))"

section \<open>HTTP handlers\<close>

text \<open>
  A handler runs in the NEF context, on the variables of its route and on the decoded body of the
  request, and fills the response writer. Marshalling of these structs cannot fail.
\<close>

definition sendJSON200 :: "nef_body \<Rightarrow> nef_writer \<Rightarrow> nef_writer" where
  "sendJSON200 b w = rwWrite b (rwSet ''Content-Type'' jsonCT (rwWriteHeader 200 w))"

definition ReadAllTrafficInfluenceSubscription ::
  "string \<Rightarrow> nefContext \<Rightarrow> nef_writer \<Rightarrow> (nefContext, nef_writer) go" where
  "ReadAllTrafficInfluenceSubscription afID s w =
     (case nefGetAf (ctx_nef s) afID of
        None \<Rightarrow> Ret s (sendJSON200 (BSubs None) w)
      | Some a \<Rightarrow>
          (case afGetSubscriptionList a of
             (rsp, subslist, Some e) \<Rightarrow> Ret s (sendErrorResponseToAF w rsp)
           | (rsp, subslist, None) \<Rightarrow> Ret s (sendJSON200 (BSubs subslist) w)))"

definition CreateTrafficInfluenceSubscription ::
  "string \<Rightarrow> TrafficInfluSub rbody \<Rightarrow> nefContext \<Rightarrow> nef_writer \<Rightarrow> (nefContext, nef_writer) go" where
  "CreateTrafficInfluenceSubscription afID body s w =
     (case body of
        ReadErr \<Rightarrow> Ret s (sendCustomeErrorRspToAF w 400 ''Failed to read HTTP POST Body'')
      | UnmarshalErr \<Rightarrow> Ret s (sendCustomeErrorRspToAF w 400 ''Failed UnMarshal POST data'')
      | Decoded trInBody \<Rightarrow>
          (case validateAFTrafficInfluenceData trInBody of
             (resRsp, False) \<Rightarrow> Ret s (sendErrorResponseToAF w resRsp)
           | (_, True) \<Rightarrow>
               go_bind (createNewSub s afID trInBody) (\<lambda>s1 (loc, rsp, err3).
                 case err3 of
                   Some e \<Rightarrow> Ret s1 (sendErrorResponseToAF w (rsp\<lparr>rsp_errorCode := 400\<rparr>))
                 | None \<Rightarrow>
                     Ret s1 (rwWrite (BSub (trInBody\<lparr>ti_Self := loc\<rparr>)) (rwWriteHeader 201
                       (rwSet ''Location'' loc (rwSet ''Content-Type'' jsonCT w)))))))"

definition ReadTrafficInfluenceSubscription ::
  "string \<Rightarrow> string \<Rightarrow> nefContext \<Rightarrow> nef_writer \<Rightarrow> (nefContext, nef_writer) go" where
  "ReadTrafficInfluenceSubscription afID subID s w =
     (case nefGetAf (ctx_nef s) afID of
        None \<Rightarrow> Ret s (sendCustomeErrorRspToAF w 404 ''Failed to find AF records'')
      | Some a \<Rightarrow>
          (case afGetSubscription a subID of
             (rsp, _, Some e) \<Rightarrow> Ret s (sendErrorResponseToAF w rsp)
           | (rsp, ti, None) \<Rightarrow> Ret s (sendJSON200 (BSub ti) w)))"

definition UpdatePutTrafficInfluenceSubscription ::
  "string \<Rightarrow> string \<Rightarrow> TrafficInfluSub rbody \<Rightarrow> nefContext \<Rightarrow> nef_writer \<Rightarrow>
   (nefContext, nef_writer) go" where
  "UpdatePutTrafficInfluenceSubscription afID subID body s w =
     (case nefGetAf (ctx_nef s) afID of
        None \<Rightarrow> Ret s (sendCustomeErrorRspToAF w 404 ''Failed to find AF records'')
      | Some _ \<Rightarrow>
          (case body of
             ReadErr \<Rightarrow> Ret s (sendCustomeErrorRspToAF w 400 ''Failed to read HTTP PUT Body'')
           | UnmarshalErr \<Rightarrow> Ret s (sendCustomeErrorRspToAF w 400 ''Failed UnMarshal PUT data'')
           | Decoded trInBody \<Rightarrow>
               go_bind (afUpdateSubscription afID s subID trInBody) (\<lambda>s1 (rsp, newTI, err).
                 case err of
                   Some e \<Rightarrow> Ret s1 (sendErrorResponseToAF w rsp)
                 | None \<Rightarrow> Ret s1 (sendJSON200 (BSub newTI) w))))"

definition UpdatePatchTrafficInfluenceSubscription ::
  "string \<Rightarrow> string \<Rightarrow> TrafficInfluSubPatch rbody \<Rightarrow> nefContext \<Rightarrow> nef_writer \<Rightarrow>
   (nefContext, nef_writer) go" where
  "UpdatePatchTrafficInfluenceSubscription afID subID body s w =
     (case nefGetAf (ctx_nef s) afID of
        None \<Rightarrow> Ret s (sendCustomeErrorRspToAF w 404 ''Failed to find AF records'')
      | Some _ \<Rightarrow>
          (case body of
             ReadErr \<Rightarrow> Ret s (sendCustomeErrorRspToAF w 400 ''Failed to read HTTP PATCH Body'')
           | UnmarshalErr \<Rightarrow> Ret s (sendCustomeErrorRspToAF w 400 ''Failed UnMarshal PATCH data'')
           | Decoded trInSPBody \<Rightarrow>
               go_bind (afPartialUpdateSubscription afID s subID trInSPBody) (\<lambda>s1 (rsp, ti, err).
                 case err of
                   Some e \<Rightarrow> Ret s1 (sendErrorResponseToAF w rsp)
                 | None \<Rightarrow> Ret s1 (sendJSON200 (BSub ti) w))))"

text \<open>
  The count after the deletion is read through the AF pointer the handler fetched before it.
\<close>

definition DeleteTrafficInfluenceSubscription ::
  "string \<Rightarrow> string \<Rightarrow> nefContext \<Rightarrow> nef_writer \<Rightarrow> (nefContext, nef_writer) go" where
  "DeleteTrafficInfluenceSubscription afID subID s w =
     (case nefGetAf (ctx_nef s) afID of
        None \<Rightarrow> Ret s (sendCustomeErrorRspToAF w 404 ''Failed to find AF entry'')
      | Some _ \<Rightarrow>
          go_bind (afDeleteSubscription afID s subID) (\<lambda>s1 (rsp, err).
            case err of
              Some e \<Rightarrow> Ret s1 (sendErrorResponseToAF w rsp)
            | None \<Rightarrow>
                (let w1 = rwWriteHeader 204 w
                 in case nefGetAf (ctx_nef s1) afID of
                      None \<Rightarrow> Panic s1
                    | Some a1 \<Rightarrow>
                        if afGetSubCount a1 = 0 then Ret (fst (nefDeleteAf s1 afID)) w1
                        else Ret s1 w1)))"

section \<open>Notifications of the SMF\<close>

fun getSubFromCorrID_subs :: "(string, afSubscription) gomap \<Rightarrow> string \<Rightarrow> afSubscription option" where
  "getSubFromCorrID_subs [] corrID = None"
| "getSubFromCorrID_subs ((_, vs) # rest) corrID =
     (if sub_NotifCorreID vs = corrID then Some vs else getSubFromCorrID_subs rest corrID)"

fun getSubFromCorrID_afs :: "(string, afData) gomap \<Rightarrow> string \<Rightarrow> afSubscription option" where
  "getSubFromCorrID_afs [] corrID = None"
| "getSubFromCorrID_afs ((_, v) # rest) corrID =
     (case getSubFromCorrID_subs (af_subs v) corrID of
        Some vs \<Rightarrow> Some vs
      | None \<Rightarrow> getSubFromCorrID_afs rest corrID)"

definition getSubFromCorrID :: "nefContext \<Rightarrow> string \<Rightarrow> afSubscription option" where
  "getSubFromCorrID s corrID = getSubFromCorrID_afs (nef_afs (ctx_nef s)) corrID"

fun findUpPathCh :: "NsmEventNotification list \<Rightarrow> NsmEventNotification option" where
  "findUpPathCh [] = None"
| "findUpPathCh (e # es) = (if nsm_Event e = ''UP_PATH_CH'' then Some e else findUpPathCh es)"

definition mkEventNotification :: "afSubscription \<Rightarrow> NsmEventNotification \<Rightarrow> EventNotification" where
  "mkEventNotification afSubs nsmEvNo =
     \<lparr>ev_AfTransID = ti_AfTransID (sub_ti afSubs), ev_DnaiChgType = nsm_DnaiChgType nsmEvNo,
      ev_SourceTrafficRoute = nsm_SourceTraRouting nsmEvNo,
      ev_SubscribedEvent = ''UP_PATH_CHANGE'',
      ev_TargetTrafficRoute = nsm_TargetTraRouting nsmEvNo, ev_Gpsi = nsm_Gpsi nsmEvNo,
      ev_SrcUeIpv4Addr = nsm_SourceUeIpv4Addr nsmEvNo,
      ev_SrcUeIpv6Prefix = nsm_SourceUeIpv6Prefix nsmEvNo,
      ev_TgtUeIpv4Addr = nsm_TargetUeIpv4Addr nsmEvNo,
      ev_TgtUeIpv6Prefix = nsm_TargetUeIpv6Prefix nsmEvNo, ev_UeMac = nsm_UeMac nsmEvNo\<rparr>"

text \<open>
  \<open>NotifySmfUPFEvent\<close>: the response and, when the code calls the AF client, the destination and the
  event of that call. \<open>ReadErr\<close> stands for a request without a body.
\<close>

definition NotifySmfUPFEvent ::
  "NsmfEventExposureNotification rbody \<Rightarrow> nefContext \<Rightarrow> nef_writer \<Rightarrow>
   (nefContext, nef_writer \<times> (string \<times> EventNotification) option) go" where
  "NotifySmfUPFEvent body s w =
     (case body of
        ReadErr \<Rightarrow> Ret s (rwWriteHeader 400 w, None)
      | UnmarshalErr \<Rightarrow> Ret s (rwWriteHeader 400 w, None)
      | Decoded smfEv \<Rightarrow>
          if smf_NotifID smfEv = [] then Ret s (rwWriteHeader 400 w, None)
          else if length (smf_EventNotifs smfEv) = 0 then Ret s (rwWriteHeader 400 w, None)
          else
            (case findUpPathCh (smf_EventNotifs smfEv) of
               None \<Rightarrow> Ret s (rwWriteHeader 400 w, None)
             | Some nsmEvNo \<Rightarrow>
                 (case getSubFromCorrID s (smf_NotifID smfEv) of
                    None \<Rightarrow> Ret s (rwWriteHeader 404 w, None)
                  | Some afSubs \<Rightarrow>
                      Ret s (rwWriteHeader 200 w,
                        Some (ti_NotificationDestination (sub_ti afSubs),
                              mkEventNotification afSubs nsmEvNo)))))"

declare nefSBPCFPost_def [nef_defs] nefSBUDRPut_def [nef_defs] nefSBUDRPost_def [nef_defs]
  nefSBPCFPut_def [nef_defs] nefSBPCFPatch_def [nef_defs] nefSBUDRPatch_def [nef_defs]
  nefSBPCFDelete_def [nef_defs] nefSBUDRDelete_def [nef_defs]

end
