(* ===== verification/Nef_Pfd.thy ===== *)
theory Nef_Pfd
  imports Nef_State
begin

text \<open>
  The packet flow description (PFD) management of the NEF (\<open>nef_nb_pfd_handler.go\<close>).

  The maps \<open>PfdDatas\<close> and \<open>PfdReports\<close> of a request are shared: the callee deletes from and writes to
  the maps of the caller. A definition whose source changes such a map returns the changed value,
  and its caller goes on with it. The argument \<open>clk\<close> renders the time a number of seconds from now
  (\<open>time.Now().Add(...).String()\<close>); a request that reads the clock more than once has a reading of
  its own for each (\<open>pfd_clock\<close>).
\<close>

type_synonym pfd_clock = "nat \<Rightarrow> 64 word \<Rightarrow> string"

section \<open>Reports\<close>

definition addReport ::
  "string \<Rightarrow> string \<Rightarrow> string \<Rightarrow> (string, PfdReport) gomap \<Rightarrow> (string, PfdReport) gomap" where
  "addReport appID failureReason code reports =
     (case gm_get reports failureReason of
        None \<Rightarrow> gm_put failureReason
          \<lparr>rep_ExternalAppIds = [appID], rep_FailureCode = code, rep_CachingTime = None\<rparr> reports
      | Some r \<Rightarrow> gm_put failureReason (r\<lparr>rep_ExternalAppIds := rep_ExternalAppIds r @ [appID]\<rparr>) reports)"

definition generatePfdReport ::
  "string \<Rightarrow> string \<Rightarrow> (string, PfdReport) gomap \<Rightarrow> (string, PfdReport) gomap" where
  "generatePfdReport appID failureReason reports =
     (if failureReason = ''APP_ID_DUPLICATED''
      then addReport appID failureReason ''APP_ID_DUPLICATED'' reports
      else if failureReason = ''OTHER_REASON''
      then addReport appID failureReason ''OTHER_REASON'' reports
      else reports)"

definition sendPFDErrorResponseToAF ::
  "nef_writer \<Rightarrow> nefSBRspData \<Rightarrow> string \<Rightarrow> (string, PfdReport) gomap \<Rightarrow> nef_writer" where
  "sendPFDErrorResponseToAF w rsp meth reports =
     (let w1 = rwWriteHeader (rsp_errorCode rsp) (rwSet ''Content-Type'' jsonCT w)
      in if meth = ''SINGLE_APP''
         then rwWrite (BReport (if reports = [] then rep_zero else snd (last reports))) w1
         else rwWrite (BReports (map snd reports)) w1)"

section \<open>Validation\<close>

definition nefCheckPfdAppIDExists :: "string \<Rightarrow> nefContext \<Rightarrow> bool" where
  "nefCheckPfdAppIDExists appID s \<longleftrightarrow>
     list_ex (\<lambda>(_, v). list_ex (\<lambda>(_, transn).
       list_ex (\<lambda>(key, _). key = appID) (pm_PfdDatas (tr_pfdManagement transn))) (af_pfdtrans v))
     (nef_afs (ctx_nef s))"

definition validateAFPfdData :: "Pfd \<Rightarrow> nefPFDSBRspData \<times> bool" where
  "validateAFPfdData p =
     (if length (pfd_PfdID p) = 0 then (mkPRsp 400 ''PFD ID missing'', False)
      else if length (pfd_DomainNames p) = 0 \<and> length (pfd_FlowDescriptions p) = 0 \<and>
              length (pfd_Urls p) = 0
      then (mkPRsp 400 (''No domainNames '' @ ''FlowDescriptions and Urls present for PFD''), False)
      else (prsp_zero, True))"

text \<open>The response of the first PFD that is not valid, if there is one.\<close>

fun firstInvalidPfd :: "(string, Pfd) gomap \<Rightarrow> nefPFDSBRspData option" where
  "firstInvalidPfd [] = None"
| "firstInvalidPfd ((_, p) # ps) =
     (case validateAFPfdData p of (rsp, False) \<Rightarrow> Some rsp | (_, True) \<Rightarrow> firstInvalidPfd ps)"

fun firstMissing :: "(string, PfdData) gomap \<Rightarrow> nefPFDSBRspData option" where
  "firstMissing [] = None"
| "firstMissing ((_, v) # vs) =
     (if gm_len (pdt_Pfds v) = 0 then Some (mkPRsp 400 ''Missing PFD Data'')
      else if length (pdt_ExternalAppID v) = 0 then Some (mkPRsp 400 ''Missing Application ID'')
      else firstMissing vs)"

text \<open>
  The second loop of \<open>validateAFPfdManagementData\<close>. It ranges over the entries the map had at its
  start; deleting the entry it stands at does not disturb the others.
\<close>

fun validateApps ::
  "nefContext \<Rightarrow> string \<Rightarrow> (string, PfdData) gomap \<Rightarrow> PfdManagement \<Rightarrow>
   PfdManagement \<times> nefPFDSBRspData option" where
  "validateApps s meth [] pfdTrans = (pfdTrans, None)"
| "validateApps s meth ((key, pfdData) # rest) pfdTrans =
     (let pfdTrans1 =
            (if meth = ''POST'' \<and> nefCheckPfdAppIDExists key s
             then pfdTrans
               \<lparr>pm_PfdReports := generatePfdReport key ''APP_ID_DUPLICATED'' (pm_PfdReports pfdTrans),
                pm_PfdDatas := gm_del key (pm_PfdDatas pfdTrans)\<rparr>
             else pfdTrans)
      in case firstInvalidPfd (pdt_Pfds pfdData) of
           Some rsp1 \<Rightarrow> (pfdTrans1, Some rsp1)
         | None \<Rightarrow> validateApps s meth rest pfdTrans1)"

definition validateAFPfdManagementData ::
  "nefContext \<Rightarrow> PfdManagement \<Rightarrow> string \<Rightarrow> PfdManagement \<times> nefPFDSBRspData \<times> bool" where
  "validateAFPfdManagementData s pfdTrans meth =
     (if gm_len (pm_PfdDatas pfdTrans) = 0 then (pfdTrans, mkPRsp 400 ''Missing PFD Data'', False)
      else case firstMissing (pm_PfdDatas pfdTrans) of
        Some rsp \<Rightarrow> (pfdTrans, rsp, False)
      | None \<Rightarrow>
          (case validateApps s meth (pm_PfdDatas pfdTrans) pfdTrans of
             (pfdTrans1, Some rsp) \<Rightarrow> (pfdTrans1, rsp, False)
           | (pfdTrans1, None) \<Rightarrow> (pfdTrans1, prsp_zero, True)))"

section \<open>Southbound callbacks towards the UDR\<close>

definition set_udrpfd :: "UdrPfdClientStub \<Rightarrow> nefContext \<Rightarrow> nefContext" where
  "set_udrpfd u s = s\<lparr>ctx_nef := (ctx_nef s)\<lparr>nef_udrPfdClient := u\<rparr>\<rparr>"

definition pfdOfContent :: "PfdContent \<Rightarrow> Pfd" where
  "pfdOfContent c = \<lparr>pfd_PfdID = pc_PfdID c, pfd_FlowDescriptions = pc_FlowDescriptions c,
     pfd_Urls = pc_Urls c, pfd_DomainNames = pc_DomainNames c\<rparr>"

definition contentOfPfd :: "Pfd \<Rightarrow> PfdContent" where
  "contentOfPfd p = \<lparr>pc_PfdID = pfd_PfdID p, pc_FlowDescriptions = pfd_FlowDescriptions p,
     pc_Urls = pfd_Urls p, pc_DomainNames = pfd_DomainNames p\<rparr>"

definition nefSBUDRAPPPFDGet ::
  "nefContext \<Rightarrow> string \<Rightarrow> (nefContext, PfdData \<times> nefPFDSBRspData \<times> goerr) go" where
  "nefSBUDRAPPPFDGet s appID =
     (case UdrPfdDataGet (ctx_TestClient s) (nef_udrPfdClient (ctx_nef s)) appID of
        (r, Some e) \<Rightarrow> Ret s (pdt_zero, prsp_zero, Some e)
      | (r, None) \<Rightarrow>
          (case upr_AppPfd r of
             None \<Rightarrow> Panic s
           | Some p \<Rightarrow>
               Ret s (pdt_zero\<lparr>pdt_ExternalAppID := pda_AppID p,
                        pdt_Pfds := fold (\<lambda>ele m. gm_put (pc_PfdID ele) (pfdOfContent ele) m)
                                      (pda_Pfds p) []\<rparr>, prsp_zero, None)))"

fun nefSBUDRPFDGet_loop ::
  "(string, PfdData) gomap \<Rightarrow> nefContext \<Rightarrow> PfdManagement \<Rightarrow>
   (nefContext, PfdManagement \<times> nefPFDSBRspData \<times> goerr) go" where
  "nefSBUDRPFDGet_loop [] s transn = Ret s (transn, prsp_zero, None)"
| "nefSBUDRPFDGet_loop ((k, v) # rest) s transn =
     go_bind (nefSBUDRAPPPFDGet s (pdt_ExternalAppID v)) (\<lambda>s1 (appPfd, r, e).
       case e of
         Some err \<Rightarrow> Ret s1 (transn, r, Some err)
       | None \<Rightarrow> nefSBUDRPFDGet_loop rest s1
                  (transn\<lparr>pm_PfdDatas := gm_put k appPfd (pm_PfdDatas transn)\<rparr>))"

definition nefSBUDRPFDGet ::
  "afPfdTransaction \<Rightarrow> nefContext \<Rightarrow> (nefContext, PfdManagement \<times> nefPFDSBRspData \<times> goerr) go" where
  "nefSBUDRPFDGet transData s =
     nefSBUDRPFDGet_loop (pm_PfdDatas (tr_pfdManagement transData)) s pm_zero"

definition pfdDataForApp :: "(64 word \<Rightarrow> string) \<Rightarrow> PfdData \<Rightarrow> PfdDataForApp" where
  "pfdDataForApp clk app =
     \<lparr>pda_AppID = pdt_ExternalAppID app,
      pda_Pfds = map (\<lambda>(_, p). contentOfPfd p) (pdt_Pfds app),
      pda_CachingTime = map_option clk (pdt_CachingTime app)\<rparr>"

definition nefSBUDRAPPPFDPut ::
  "(64 word \<Rightarrow> string) \<Rightarrow> nefContext \<Rightarrow> PfdData \<Rightarrow> nefContext \<times> nefPFDSBRspData \<times> goerr" where
  "nefSBUDRAPPPFDPut clk s app =
     (let (udr', r, e) = UdrPfdDataCreate (ctx_TestClient s) (nef_udrPfdClient (ctx_nef s))
                           (pfdDataForApp clk app);
          s1 = set_udrpfd udr' s
      in case e of
           Some err \<Rightarrow>
             (s1, prsp_zero\<lparr>prsp_result := rsp_zero\<lparr>rsp_errorCode := 400\<rparr>\<rparr>, Some err)
         | None \<Rightarrow>
             if ctx_TestNEFSB s
             then (s1, \<lparr>prsp_result = rsp_zero\<lparr>rsp_errorCode := 400\<rparr>, prsp_fc = Some ''OTHER_REASON''\<rparr>,
                   None)
             else (s1, prsp_zero\<lparr>prsp_result := rsp_zero\<lparr>rsp_errorCode := 200\<rparr>\<rparr>, None))"

text \<open>Each iteration reads the clock anew: it uses the clock of its number of entries left.\<close>

fun nefSBUDRPFDPut_loop ::
  "pfd_clock \<Rightarrow> (string, PfdData) gomap \<Rightarrow> nefContext \<Rightarrow>
   (string, nefPFDSBRspData) gomap \<Rightarrow> nefContext \<times> (string, nefPFDSBRspData) gomap \<times> goerr" where
  "nefSBUDRPFDPut_loop clk [] s rspDetails = (s, rspDetails, None)"
| "nefSBUDRPFDPut_loop clk ((k, v) # rest) s rspDetails =
     (case nefSBUDRAPPPFDPut (clk (length rest)) s v of
        (s1, r, Some e) \<Rightarrow> (s1, rspDetails, Some e)
      | (s1, r, None) \<Rightarrow> nefSBUDRPFDPut_loop clk rest s1 (gm_put k r rspDetails))"

definition nefSBUDRPFDPut ::
  "pfd_clock \<Rightarrow> nefContext \<Rightarrow> PfdManagement \<Rightarrow>
   nefContext \<times> (string, nefPFDSBRspData) gomap \<times> goerr" where
  "nefSBUDRPFDPut clk s transn = nefSBUDRPFDPut_loop clk (pm_PfdDatas transn) s []"

definition nefSBUDRAPPPFDDelete ::
  "nefContext \<Rightarrow> string \<Rightarrow> nefContext \<times> nefPFDSBRspData \<times> goerr" where
  "nefSBUDRAPPPFDDelete s appID =
     (let (udr', r, e) = UdrPfdDataDelete (ctx_TestClient s) (nef_udrPfdClient (ctx_nef s)) appID
      in (set_udrpfd udr' s, prsp_zero, e))"

fun nefSBUDRPFDDelete_loop ::
  "(string, PfdData) gomap \<Rightarrow> nefContext \<Rightarrow> nefContext \<times> nefPFDSBRspData \<times> goerr" where
  "nefSBUDRPFDDelete_loop [] s = (s, prsp_zero, None)"
| "nefSBUDRPFDDelete_loop ((_, v) # rest) s =
     (case nefSBUDRAPPPFDDelete s (pdt_ExternalAppID v) of
        (s1, r, Some e) \<Rightarrow> (s1, r, Some e)
      | (s1, r, None) \<Rightarrow> nefSBUDRPFDDelete_loop rest s1)"

definition nefSBUDRPFDDelete ::
  "afPfdTransaction \<Rightarrow> nefContext \<Rightarrow> nefContext \<times> nefPFDSBRspData \<times> goerr" where
  "nefSBUDRPFDDelete transData s =
     nefSBUDRPFDDelete_loop (pm_PfdDatas (tr_pfdManagement transData)) s"

text \<open>The calls through the callback fields of a transaction; a call of nil panics.\<close>

fun callPfdGet ::
  "pfdfn \<Rightarrow> afPfdTransaction \<Rightarrow> nefContext \<Rightarrow>
   (nefContext, PfdManagement \<times> nefPFDSBRspData \<times> goerr) go" where
  "callPfdGet PfdFnNil tr s = Panic s"
| "callPfdGet PfdFnUDR tr s = nefSBUDRPFDGet tr s"

fun callPfdPut ::
  "pfdfn \<Rightarrow> pfd_clock \<Rightarrow> nefContext \<Rightarrow> PfdManagement \<Rightarrow>
   (nefContext, (string, nefPFDSBRspData) gomap \<times> goerr) go" where
  "callPfdPut PfdFnNil clk s transn = Panic s"
| "callPfdPut PfdFnUDR clk s transn =
     (let (s1, rsp, e) = nefSBUDRPFDPut clk s transn in Ret s1 (rsp, e))"

fun callPfdAppPut ::
  "pfdfn \<Rightarrow> (64 word \<Rightarrow> string) \<Rightarrow> nefContext \<Rightarrow> PfdData \<Rightarrow>
   (nefContext, nefPFDSBRspData \<times> goerr) go" where
  "callPfdAppPut PfdFnNil clk s app = Panic s"
| "callPfdAppPut PfdFnUDR clk s app =
     (let (s1, rsp, e) = nefSBUDRAPPPFDPut clk s app in Ret s1 (rsp, e))"

fun callPfdDelete ::
  "pfdfn \<Rightarrow> afPfdTransaction \<Rightarrow> nefContext \<Rightarrow> (nefContext, nefPFDSBRspData \<times> goerr) go" where
  "callPfdDelete PfdFnNil tr s = Panic s"
| "callPfdDelete PfdFnUDR tr s =
     (let (s1, rsp, e) = nefSBUDRPFDDelete tr s in Ret s1 (rsp, e))"

section \<open>Outcome of a southbound PUT\<close>

fun updatePfdTransOnRsp_loop ::
  "(string, nefPFDSBRspData) gomap \<Rightarrow> PfdManagement \<Rightarrow> PfdManagement" where
  "updatePfdTransOnRsp_loop [] pfdTrans = pfdTrans"
| "updatePfdTransOnRsp_loop ((key, v) # rest) pfdTrans =
     updatePfdTransOnRsp_loop rest
       (if rsp_errorCode (prsp_result v) \<noteq> 200
        then pfdTrans
          \<lparr>pm_PfdDatas := gm_del key (pm_PfdDatas pfdTrans),
           pm_PfdReports := generatePfdReport key
             (case prsp_fc v of None \<Rightarrow> ''OTHER_REASON'' | Some fc \<Rightarrow> fc) (pm_PfdReports pfdTrans)\<rparr>
        else pfdTrans)"

definition updatePfdTransOnRsp ::
  "(string, nefPFDSBRspData) gomap \<Rightarrow> PfdManagement \<Rightarrow> PfdManagement \<times> goerr" where
  "updatePfdTransOnRsp rsp pfdTrans =
     (let t = updatePfdTransOnRsp_loop rsp pfdTrans
      in (t, if gm_len (pm_PfdDatas t) = 0 then Some pfdAppsFailed else None))"

definition updatePfdAppOnRsp ::
  "nefPFDSBRspData \<Rightarrow> string \<Rightarrow> (string, PfdReport) gomap \<Rightarrow> (string, PfdReport) gomap \<times> goerr" where
  "updatePfdAppOnRsp rsp appID reports =
     (if rsp_errorCode (prsp_result rsp) \<noteq> 200
      then (generatePfdReport appID
              (case prsp_fc rsp of None \<Rightarrow> ''OTHER_REASON'' | Some fc \<Rightarrow> fc) reports,
            Some pfdAppsFailed)
      else (reports, None))"

section \<open>Operations on the transactions of an AF\<close>

definition put_trans :: "string \<Rightarrow> string \<Rightarrow> afPfdTransaction \<Rightarrow> nefContext \<Rightarrow> nefContext" where
  "put_trans afID transID tr s =
     upd_af afID (\<lambda>a. a\<lparr>af_pfdtrans := gm_put transID tr (af_pfdtrans a)\<rparr>) s"

definition del_trans :: "string \<Rightarrow> string \<Rightarrow> nefContext \<Rightarrow> nefContext" where
  "del_trans afID transID s = upd_af afID (\<lambda>a. a\<lparr>af_pfdtrans := gm_del transID (af_pfdtrans a)\<rparr>) s"

definition put_app :: "string \<Rightarrow> PfdData \<Rightarrow> afPfdTransaction \<Rightarrow> afPfdTransaction" where
  "put_app appID v tr = tr\<lparr>tr_pfdManagement := (tr_pfdManagement tr)
     \<lparr>pm_PfdDatas := gm_put appID v (pm_PfdDatas (tr_pfdManagement tr))\<rparr>\<rparr>"

definition afUpdatePutPfdApplication ::
  "string \<Rightarrow> (64 word \<Rightarrow> string) \<Rightarrow> nefContext \<Rightarrow> string \<Rightarrow> string \<Rightarrow> PfdData \<Rightarrow>
   (string, PfdReport) gomap \<Rightarrow>
   (nefContext, nefPFDSBRspData \<times> PfdData \<times> goerr \<times> (string, PfdReport) gomap) go" where
  "afUpdatePutPfdApplication afID clk s transID appID pfdData reports =
     (case nefGetAf (ctx_nef s) afID of
        None \<Rightarrow> Panic s
      | Some a \<Rightarrow>
          (case gm_get (af_pfdtrans a) transID of
             None \<Rightarrow> Ret s (mkPRsp 404 pfdNotFound, pdt_zero, Some pfdNotFound, reports)
           | Some pfdTrans \<Rightarrow>
               (case gm_get (pm_PfdDatas (tr_pfdManagement pfdTrans)) appID of
                  None \<Rightarrow> Ret s (mkPRsp 404 appNotFound, pdt_zero, Some appNotFound, reports)
                | Some app \<Rightarrow>
                    go_bind (callPfdAppPut (tr_NEFSBAppPfdPut pfdTrans) clk s pfdData)
                      (\<lambda>s1 (rsp, err).
                        case err of
                          Some e \<Rightarrow> Ret s1 (rsp, pfdData, Some e, reports)
                        | None \<Rightarrow>
                            (case updatePfdAppOnRsp rsp appID reports of
                               (reports1, Some e) \<Rightarrow> Ret s1 (rsp, pdt_zero, Some e, reports1)
                             | (reports1, None) \<Rightarrow>
                                 (let pfdData1 = pfdData\<lparr>pdt_Self := pdt_Self app\<rparr>
                                  in Ret (put_trans afID transID (put_app appID pfdData1 pfdTrans) s1)
                                       (rsp, pfdData1, None, reports1)))))))"

text \<open>
  The loop of the PATCH over the PFDs of the request. \<open>trans.Pfds\<close> is the map of the stored
  application, so its writes reach the stored application, which is then replaced as a whole.
\<close>

fun patchPfds :: "(string, Pfd) gomap \<Rightarrow> (string, Pfd) gomap \<Rightarrow> (string, Pfd) gomap" where
  "patchPfds [] stored = stored"
| "patchPfds ((key, p) # rest) stored =
     patchPfds rest (case gm_get stored key of Some _ \<Rightarrow> gm_put key p stored | None \<Rightarrow> stored)"

definition afUpdatePatchPfdApplication ::
  "string \<Rightarrow> (64 word \<Rightarrow> string) \<Rightarrow> nefContext \<Rightarrow> string \<Rightarrow> string \<Rightarrow> PfdData \<Rightarrow>
   (string, PfdReport) gomap \<Rightarrow>
   (nefContext, nefPFDSBRspData \<times> PfdData \<times> goerr \<times> (string, PfdReport) gomap) go" where
  "afUpdatePatchPfdApplication afID clk s transID appID pfdData reports =
     (case nefGetAf (ctx_nef s) afID of
        None \<Rightarrow> Panic s
      | Some a \<Rightarrow>
          (case gm_get (af_pfdtrans a) transID of
             None \<Rightarrow> Ret s (mkPRsp 404 pfdNotFound, pdt_zero, Some pfdNotFound, reports)
           | Some pfdTrans \<Rightarrow>
               (case gm_get (pm_PfdDatas (tr_pfdManagement pfdTrans)) appID of
                  None \<Rightarrow> Ret s (mkPRsp 404 appNotFound, pdt_zero, Some appNotFound, reports)
                | Some app \<Rightarrow>
                    go_bind (callPfdAppPut (tr_NEFSBAppPfdPut pfdTrans) clk s pfdData)
                      (\<lambda>s1 (rsp, err).
                        case err of
                          Some e \<Rightarrow> Ret s1 (rsp, pfdData, Some e, reports)
                        | None \<Rightarrow>
                            (case updatePfdAppOnRsp rsp appID reports of
                               (reports1, Some e) \<Rightarrow>
                                 Ret s1 (rsp, pdt_zero, Some pfdAppsFailed, reports1)
                             | (reports1, None) \<Rightarrow>
                                 (let app1 = app\<lparr>pdt_Pfds := patchPfds (pdt_Pfds pfdData) (pdt_Pfds app)\<rparr>;
                                      pfdTrans1 = put_app appID app1 pfdTrans;
                                      pfdData1 = pfdData\<lparr>pdt_Self := pdt_Self app1\<rparr>
                                  in Ret (put_trans afID transID (put_app appID pfdData1 pfdTrans1) s1)
                                       (rsp, pfdData1, None, reports1)))))))"

text \<open>
  \<open>afUpdatePutPfdTransaction\<close> returns also the request with what was written to its maps.
\<close>

definition afUpdatePutPfdTransaction ::
  "string \<Rightarrow> pfd_clock \<Rightarrow> nefContext \<Rightarrow> string \<Rightarrow> PfdManagement \<Rightarrow>
   (nefContext, PfdManagement \<times> goerr \<times> PfdManagement) go" where
  "afUpdatePutPfdTransaction afID clk s transID transn =
     (case nefGetAf (ctx_nef s) afID of
        None \<Rightarrow> Panic s
      | Some a \<Rightarrow>
          (case gm_get (af_pfdtrans a) transID of
             None \<Rightarrow> Ret s (pm_zero, Some pfdNotFound, transn)
           | Some pfdTrans \<Rightarrow>
               (let stored = tr_pfdManagement pfdTrans
                in if list_ex (\<lambda>(key, _). gm_get (pm_PfdDatas stored) key = None) (pm_PfdDatas transn)
                   then Ret s (transn, Some ''Application not present'', transn)
                   else
                     go_bind (callPfdPut (tr_NEFSBPfdPut pfdTrans) clk s transn) (\<lambda>s1 (rsp, err).
                       case err of
                         Some e \<Rightarrow> Ret s1 (transn, Some e, transn)
                       | None \<Rightarrow>
                           (case updatePfdTransOnRsp rsp transn of
                              (trans1, Some e) \<Rightarrow> Ret s1 (pm_zero, Some pfdAppsFailed, trans1)
                            | (trans1, None) \<Rightarrow>
                                (let updPfd = trans1
                                       \<lparr>pm_Self := pm_Self stored,
                                        pm_PfdDatas := map_ran (\<lambda>key v. v\<lparr>pdt_Self :=
                                          (case gm_get (pm_PfdDatas stored) key of
                                             None \<Rightarrow> [] | Some d \<Rightarrow> pdt_Self d)\<rparr>)
                                          (pm_PfdDatas trans1)\<rparr>
                                 in Ret (put_trans afID transID (pfdTrans\<lparr>tr_pfdManagement := updPfd\<rparr>) s1)
                                      (updPfd, None, updPfd)))))))"

definition afDeletePfdTransaction ::
  "string \<Rightarrow> nefContext \<Rightarrow> string \<Rightarrow> (nefContext, nefPFDSBRspData \<times> goerr) go" where
  "afDeletePfdTransaction afID s transID =
     (case nefGetAf (ctx_nef s) afID of
        None \<Rightarrow> Panic s
      | Some a \<Rightarrow>
          (case gm_get (af_pfdtrans a) transID of
             None \<Rightarrow> Ret s (mkPRsp 404 pfdNotFound, Some pfdNotFound)
           | Some tr \<Rightarrow>
               go_bind (callPfdDelete (tr_NEFSBPfdDelete tr) tr s) (\<lambda>s1 (rsp, err).
                 case err of
                   Some e \<Rightarrow>
                     Ret s1 (rsp\<lparr>prsp_result := (prsp_result rsp)\<lparr>rsp_errorCode := 400\<rparr>\<rparr>, Some e)
                 | None \<Rightarrow> Ret (del_trans afID transID s1) (rsp, None))))"

definition afGetPfdApplication ::
  "afData \<Rightarrow> string \<Rightarrow> string \<Rightarrow> nefSBRspData \<times> PfdData \<times> goerr" where
  "afGetPfdApplication a transID appID =
     (case gm_get (af_pfdtrans a) transID of
        None \<Rightarrow> (mkRsp 404 pfdNotFound, pdt_zero, Some pfdNotFound)
      | Some tr \<Rightarrow>
          (case gm_get (pm_PfdDatas (tr_pfdManagement tr)) appID of
             None \<Rightarrow> (mkRsp 404 appNotFound, pdt_zero, Some appNotFound)
           | Some app \<Rightarrow> (rsp_zero, app, None)))"

definition afDeletePfdApplication ::
  "string \<Rightarrow> nefContext \<Rightarrow> string \<Rightarrow> string \<Rightarrow> (nefContext, nefSBRspData \<times> goerr) go" where
  "afDeletePfdApplication afID s transID appID =
     (case nefGetAf (ctx_nef s) afID of
        None \<Rightarrow> Panic s
      | Some a \<Rightarrow>
          (case gm_get (af_pfdtrans a) transID of
             None \<Rightarrow> Ret s (mkRsp 404 pfdNotFound, Some pfdNotFound)
           | Some tr \<Rightarrow>
               (case gm_get (pm_PfdDatas (tr_pfdManagement tr)) appID of
                  None \<Rightarrow> Ret s (mkRsp 404 appNotFound, Some appNotFound)
                | Some _ \<Rightarrow>
                    (let datas = gm_del appID (pm_PfdDatas (tr_pfdManagement tr));
                         tr1 = tr\<lparr>tr_pfdManagement := (tr_pfdManagement tr)\<lparr>pm_PfdDatas := datas\<rparr>\<rparr>;
                         s1 = put_trans afID transID tr1 s
                     in if gm_len datas = 0 then Ret (del_trans afID transID s1) (rsp_zero, None)
                        else Ret s1 (rsp_zero, None)))))"

definition afGetPfdTransaction ::
  "afData \<Rightarrow> nefContext \<Rightarrow> string \<Rightarrow> (nefContext, nefPFDSBRspData \<times> PfdManagement \<times> goerr) go" where
  "afGetPfdTransaction a s transID =
     (case gm_get (af_pfdtrans a) transID of
        None \<Rightarrow> Ret s (mkPRsp 404 pfdNotFound, pm_zero, Some pfdNotFound)
      | Some tr \<Rightarrow>
          go_bind (callPfdGet (tr_NEFSBPfdGet tr) tr s) (\<lambda>s1 (_, rsp, err).
            Ret s1 (rsp, tr_pfdManagement tr, err)))"

fun afGetPfdTransactionList_loop ::
  "afData \<Rightarrow> nefContext \<Rightarrow> string list \<Rightarrow> PfdManagement slice \<Rightarrow> nefPFDSBRspData \<Rightarrow>
   (nefContext, nefPFDSBRspData \<times> PfdManagement slice \<times> goerr) go" where
  "afGetPfdTransactionList_loop a s [] transList rsp = Ret s (rsp, transList, None)"
| "afGetPfdTransactionList_loop a s (key # keys) transList rsp0 =
     go_bind (afGetPfdTransaction a s key) (\<lambda>s1 (rsp, transPfd, err).
       case err of
         Some e \<Rightarrow> Ret s1 (rsp, transList, Some e)
       | None \<Rightarrow> afGetPfdTransactionList_loop a s1 keys (slice_append transList transPfd) rsp)"

definition afGetPfdTransactionList ::
  "afData \<Rightarrow> nefContext \<Rightarrow> (nefContext, nefPFDSBRspData \<times> PfdManagement slice \<times> goerr) go" where
  "afGetPfdTransactionList a s =
     afGetPfdTransactionList_loop a s (map fst (af_pfdtrans a)) None prsp_zero"

definition transLocation :: "nefContext \<Rightarrow> afData \<Rightarrow> string \<Rightarrow> string" where
  "transLocation s a transIDStr =
     nef_locationURLPrefixPfd (ctx_nef s) @ af_afID a @ ''/transactions/'' @ transIDStr"

definition afAddPFDTransaction ::
  "string \<Rightarrow> pfd_clock \<Rightarrow> nefContext \<Rightarrow> PfdManagement \<Rightarrow>
   (nefContext, string \<times> goerr \<times> PfdManagement) go" where
  "afAddPFDTransaction afID clk s transn =
     (case nefGetAf (ctx_nef s) afID of
        None \<Rightarrow> Panic s
      | Some a \<Rightarrow>
          if int (gm_len (af_pfdtrans a)) \<ge> sint (cfg_MaxPfdTransSupport (ctx_cfg s))
          then Ret s ([], Some ''MAX TRANS Created'', transn)
          else
            (let transIDStr = Itoa (af_transIDnum a);
                 s1 = upd_af afID (\<lambda>a. a\<lparr>af_transIDnum := af_transIDnum a + 1\<rparr>) s;
                 aftrans = \<lparr>tr_transID = transIDStr, tr_pfdManagement = transn,
                   tr_NEFSBPfdGet = PfdFnUDR, tr_NEFSBPfdPut = PfdFnUDR,
                   tr_NEFSBAppPfdPut = PfdFnUDR, tr_NEFSBPfdDelete = PfdFnUDR\<rparr>
             in go_bind (callPfdPut (tr_NEFSBPfdPut aftrans) clk s1 transn) (\<lambda>s2 (rsp, err).
                  case err of
                    Some e \<Rightarrow> Ret s2 ([], Some e, transn)
                  | None \<Rightarrow>
                      (case updatePfdTransOnRsp rsp transn of
                         (trans1, Some e) \<Rightarrow> Ret s2 ([], Some pfdAppsFailed, trans1)
                       | (trans1, None) \<Rightarrow>
                           (let loc = transLocation s2 a transIDStr;
                                trans2 = trans1\<lparr>pm_PfdDatas := map_ran (\<lambda>k v. v\<lparr>pdt_Self :=
                                  loc @ ''/applications/'' @ k\<rparr>) (pm_PfdDatas trans1)\<rparr>
                            in Ret (put_trans afID transIDStr
                                     (aftrans\<lparr>tr_pfdManagement := trans2\<lparr>pm_Self := loc\<rparr>\<rparr>) s2)
                                 (loc, None, trans2))))))"

definition createNewPFDTrans ::
  "pfd_clock \<Rightarrow> nefContext \<Rightarrow> string \<Rightarrow> PfdManagement \<Rightarrow>
   (nefContext, string \<times> goerr \<times> PfdManagement) go" where
  "createNewPFDTrans clk s afID transn =
     (case nefGetAf (ctx_nef s) afID of
        Some _ \<Rightarrow> afAddPFDTransaction afID clk s transn
      | None \<Rightarrow>
          (case nefAddAf s afID of
             (s1, Some e) \<Rightarrow> Ret s1 ([], Some e, transn)
           | (s1, None) \<Rightarrow> afAddPFDTransaction afID clk s1 transn))"

section \<open>HTTP handlers\<close>

definition sendPfdJSON200 :: "nef_body \<Rightarrow> nef_writer \<Rightarrow> nef_writer" where
  "sendPfdJSON200 b w = rwWrite b (rwSet ''Content-Type'' jsonCT (rwWriteHeader 200 w))"

text \<open>The error response that keeps the code of a southbound result and drops its details.\<close>

definition codeOnly :: "nefPFDSBRspData \<Rightarrow> nefSBRspData" where
  "codeOnly rsp = rsp_zero\<lparr>rsp_errorCode := rsp_errorCode (prsp_result rsp)\<rparr>"

definition ReadAllPFDManagementTransaction ::
  "string \<Rightarrow> nefContext \<Rightarrow> nef_writer \<Rightarrow> (nefContext, nef_writer) go" where
  "ReadAllPFDManagementTransaction afID s w =
     (case nefGetAf (ctx_nef s) afID of
        None \<Rightarrow> Ret s (sendPfdJSON200 (BTransList None) w)
      | Some a \<Rightarrow>
          go_bind (afGetPfdTransactionList a s) (\<lambda>s1 (rsp, pfdTrans, err).
            case err of
              Some e \<Rightarrow> Ret s1 (sendErrorResponseToAF w (codeOnly rsp))
            | None \<Rightarrow> Ret s1 (sendPfdJSON200 (BTransList pfdTrans) w)))"

text \<open>
  The end of the POST: the reports of the transaction just created are deleted once they are sent.
  The transaction is found by the counter of the AF; a missing one is a nil pointer.
\<close>

definition clearSentReports :: "string \<Rightarrow> nefContext \<Rightarrow> (nefContext, unit) go" where
  "clearSentReports afID s =
     (case nefGetAf (ctx_nef s) afID of
        None \<Rightarrow> Panic s
      | Some a \<Rightarrow>
          (let transID = Itoa (af_transIDnum a - 1)
           in case gm_get (af_pfdtrans a) transID of
                None \<Rightarrow> Panic s
              | Some tr \<Rightarrow>
                  Ret (put_trans afID transID
                        (tr\<lparr>tr_pfdManagement := (tr_pfdManagement tr)\<lparr>pm_PfdReports := []\<rparr>\<rparr>) s) ()))"

definition CreatePFDManagementTransaction ::
  "pfd_clock \<Rightarrow> string \<Rightarrow> PfdManagement rbody \<Rightarrow> nefContext \<Rightarrow> nef_writer \<Rightarrow>
   (nefContext, nef_writer) go" where
  "CreatePFDManagementTransaction clk afID body s w =
     (case body of
        ReadErr \<Rightarrow> Ret s (sendCustomeErrorRspToAF w 400 ''Failed to read HTTP POST Body'')
      | UnmarshalErr \<Rightarrow> Ret s (sendCustomeErrorRspToAF w 400 ''Failed UnMarshal POST data'')
      | Decoded decoded \<Rightarrow>
          (case validateAFPfdManagementData s (decoded\<lparr>pm_PfdReports := []\<rparr>) ''POST'' of
             (_, resRsp, False) \<Rightarrow> Ret s (sendErrorResponseToAF w (prsp_result resRsp))
           | (pfdBody, _, True) \<Rightarrow>
               if gm_len (pm_PfdDatas pfdBody) = 0
               then Ret s (sendPFDErrorResponseToAF w (mkRsp 500 pfdAppsFailed) [] (pm_PfdReports pfdBody))
               else
                 go_bind (createNewPFDTrans clk s afID pfdBody) (\<lambda>s1 (loc, err3, pfdBody1).
                   case err3 of
                     Some e \<Rightarrow>
                       if e = pfdAppsFailed
                       then Ret s1 (sendPFDErrorResponseToAF w (mkRsp 500 pfdAppsFailed) []
                              (pm_PfdReports pfdBody1))
                       else Ret s1 (sendErrorResponseToAF w
                              (mkRsp 400 ''UDR Error in creating PFD transaction''))
                   | None \<Rightarrow>
                       go_bind (clearSentReports afID s1) (\<lambda>s2 _.
                         Ret s2 (rwWrite (BTrans (pfdBody1\<lparr>pm_Self := loc\<rparr>)) (rwWriteHeader 201
                           (rwSet ''Location'' loc (rwSet ''Content-Type'' jsonCT w))))))))"

definition ReadPFDManagementTransaction ::
  "string \<Rightarrow> string \<Rightarrow> nefContext \<Rightarrow> nef_writer \<Rightarrow> (nefContext, nef_writer) go" where
  "ReadPFDManagementTransaction afID transID s w =
     (case nefGetAf (ctx_nef s) afID of
        None \<Rightarrow> Ret s (sendCustomeErrorRspToAF w 404 ''Failed to find AF records'')
      | Some a \<Rightarrow>
          go_bind (afGetPfdTransaction a s transID) (\<lambda>s1 (rsp, pfdTrans, err).
            case err of
              Some e \<Rightarrow> Ret s1 (sendErrorResponseToAF w (codeOnly rsp))
            | None \<Rightarrow> Ret s1 (sendPfdJSON200 (BTrans pfdTrans) w)))"

definition ReadPFDManagementApplication ::
  "string \<Rightarrow> string \<Rightarrow> string \<Rightarrow> nefContext \<Rightarrow> nef_writer \<Rightarrow> (nefContext, nef_writer) go" where
  "ReadPFDManagementApplication afID transID appID s w =
     (case nefGetAf (ctx_nef s) afID of
        None \<Rightarrow> Ret s (sendCustomeErrorRspToAF w 404 ''Failed to find AF records'')
      | Some a \<Rightarrow>
          (case afGetPfdApplication a transID appID of
             (rsp, _, Some e) \<Rightarrow> Ret s (sendErrorResponseToAF w rsp)
           | (rsp, pfdData, None) \<Rightarrow> Ret s (sendPfdJSON200 (BPfdData pfdData) w)))"

definition DeletePFDManagementApplication ::
  "string \<Rightarrow> string \<Rightarrow> string \<Rightarrow> nefContext \<Rightarrow> nef_writer \<Rightarrow> (nefContext, nef_writer) go" where
  "DeletePFDManagementApplication afID transID appID s w =
     (case nefGetAf (ctx_nef s) afID of
        None \<Rightarrow> Ret s (sendCustomeErrorRspToAF w 404 ''Failed to find AF entry'')
      | Some _ \<Rightarrow>
          go_bind (afDeletePfdApplication afID s transID appID) (\<lambda>s1 (rsp, err).
            case err of
              Some e \<Rightarrow> Ret s1 (sendErrorResponseToAF w rsp)
            | None \<Rightarrow> go_bind (nefCheckDeleteAf s1 afID) (\<lambda>s2 _. Ret s2 (rwWriteHeader 204 w))))"

definition DeletePFDManagementTransaction ::
  "string \<Rightarrow> string \<Rightarrow> nefContext \<Rightarrow> nef_writer \<Rightarrow> (nefContext, nef_writer) go" where
  "DeletePFDManagementTransaction afID transID s w =
     (case nefGetAf (ctx_nef s) afID of
        None \<Rightarrow> Ret s (sendCustomeErrorRspToAF w 404 ''Failed to find AF entry'')
      | Some _ \<Rightarrow>
          go_bind (afDeletePfdTransaction afID s transID) (\<lambda>s1 (rsp, err).
            case err of
              Some e \<Rightarrow> Ret s1 (sendErrorResponseToAF w (codeOnly rsp))
            | None \<Rightarrow> go_bind (nefCheckDeleteAf s1 afID) (\<lambda>s2 _. Ret s2 (rwWriteHeader 204 w))))"

definition UpdatePutPFDManagementTransaction ::
  "pfd_clock \<Rightarrow> string \<Rightarrow> string \<Rightarrow> PfdManagement rbody \<Rightarrow> nefContext \<Rightarrow> nef_writer \<Rightarrow>
   (nefContext, nef_writer) go" where
  "UpdatePutPFDManagementTransaction clk afID transID body s w =
     (case nefGetAf (ctx_nef s) afID of
        None \<Rightarrow> Ret s (sendCustomeErrorRspToAF w 404 ''Failed to find AF records'')
      | Some _ \<Rightarrow>
          (case body of
             ReadErr \<Rightarrow> Ret s (sendCustomeErrorRspToAF w 400 ''Failed to read HTTP PUT Body'')
           | UnmarshalErr \<Rightarrow> Ret s (sendCustomeErrorRspToAF w 400 ''Failed UnMarshal PUT data'')
           | Decoded decoded \<Rightarrow>
               (case validateAFPfdManagementData s (decoded\<lparr>pm_PfdReports := []\<rparr>) ''PUT'' of
                  (_, resRsp, False) \<Rightarrow> Ret s (sendErrorResponseToAF w (codeOnly resRsp))
                | (pfdTrans, _, True) \<Rightarrow>
                    go_bind (afUpdatePutPfdTransaction afID clk s transID pfdTrans)
                      (\<lambda>s1 (newPfdTrans, err, pfdTrans1).
                        case err of
                          Some e \<Rightarrow>
                            if e = pfdAppsFailed
                            then Ret s1 (sendPFDErrorResponseToAF w
                                   (mkRsp 500 ''ALL PFD APP FAILED TO PROVISION'') []
                                   (pm_PfdReports pfdTrans1))
                            else Ret s1 (sendErrorResponseToAF w
                                   (mkRsp 400 ''UDR Error in updating PFD transaction''))
                        | None \<Rightarrow> Ret s1 (sendPfdJSON200 (BTrans newPfdTrans) w)))))"

text \<open>
  The handlers of PUT and PATCH of an application differ in the operation they call.
\<close>

definition updatePfdApplicationWith ::
  "(nefContext \<Rightarrow> PfdData \<Rightarrow> (string, PfdReport) gomap \<Rightarrow>
    (nefContext, nefPFDSBRspData \<times> PfdData \<times> goerr \<times> (string, PfdReport) gomap) go) \<Rightarrow>
   string \<Rightarrow> PfdData rbody \<Rightarrow> nefContext \<Rightarrow> nef_writer \<Rightarrow> (nefContext, nef_writer) go" where
  "updatePfdApplicationWith upd afID body s w =
     (case nefGetAf (ctx_nef s) afID of
        None \<Rightarrow> Ret s (sendCustomeErrorRspToAF w 404 ''Failed to find AF records'')
      | Some _ \<Rightarrow>
          (case body of
             ReadErr \<Rightarrow> Ret s (sendCustomeErrorRspToAF w 400 ''Failed to read HTTP PUT Body'')
           | UnmarshalErr \<Rightarrow> Ret s (sendCustomeErrorRspToAF w 400 ''Failed UnMarshal PUT data'')
           | Decoded pfdData \<Rightarrow>
               (case firstInvalidPfd (pdt_Pfds pfdData) of
                  Some rsp \<Rightarrow> Ret s (sendErrorResponseToAF w (codeOnly rsp))
                | None \<Rightarrow>
                    go_bind (upd s pfdData []) (\<lambda>s1 (rsp, newPfdData, err, reports).
                      case err of
                        Some e \<Rightarrow>
                          if e = pfdAppsFailed
                          then Ret s1 (sendPFDErrorResponseToAF w (mkRsp 500 pfdAppsFailed)
                                 ''SINGLE_APP'' reports)
                          else Ret s1 (sendErrorResponseToAF w
                                 (mkRsp (rsp_errorCode (prsp_result rsp))
                                   ''UDR Error in updating PFD Application''))
                      | None \<Rightarrow> Ret s1 (sendPfdJSON200 (BPfdData newPfdData) w)))))"

definition UpdatePutPFDManagementApplication ::
  "(64 word \<Rightarrow> string) \<Rightarrow> string \<Rightarrow> string \<Rightarrow> string \<Rightarrow> PfdData rbody \<Rightarrow> nefContext \<Rightarrow> nef_writer \<Rightarrow>
   (nefContext, nef_writer) go" where
  "UpdatePutPFDManagementApplication clk afID transID appID =
     updatePfdApplicationWith (\<lambda>s. afUpdatePutPfdApplication afID clk s transID appID) afID"

definition PatchPFDManagementApplication ::
  "(64 word \<Rightarrow> string) \<Rightarrow> string \<Rightarrow> string \<Rightarrow> string \<Rightarrow> PfdData rbody \<Rightarrow> nefContext \<Rightarrow> nef_writer \<Rightarrow>
   (nefContext, nef_writer) go" where
  "PatchPFDManagementApplication clk afID transID appID =
     updatePfdApplicationWith (\<lambda>s. afUpdatePatchPfdApplication afID clk s transID appID) afID"

end
