(* ===== verification/Nef_Router.thy ===== *)
theory Nef_Router
  imports Nef_TrafficInfluence Nef_Pfd
begin

text \<open>
  The route table, the OAuth2 check and the dispatch of a request (\<open>nef_router.go\<close>,
  \<open>ValidateAccessToken\<close> of \<open>pkg/oauth2\<close>), the start of the NEF (\<open>Run\<close> of \<open>nef_server.go\<close>) and the
  states the server reaches.

  The request router (gorilla/mux) and the JWT library are third-party code. They are the fields
  \<open>env_mux\<close> and \<open>env_parse\<close> of the environment a request is served in; \<open>env_oauth2\<close> is the content of
  \<open>configs/oauth2.json\<close>, or None when it cannot be loaded.
\<close>

section \<open>Routes\<close>

datatype nef_handler =
    ReadAllTI | CreateTI | ReadTI | UpdatePutTI | UpdatePatchTI | DeleteTI
  | ReadAllPFD | CreatePFD | ReadPFD | UpdatePutPFD | DeletePFD
  | ReadApp | DeleteApp | UpdatePutApp | PatchApp
  | NotifySmf

record Route =
  rt_Name :: string
  rt_Method :: string
  rt_Pattern :: string
  rt_Handler :: nef_handler

definition mkRoute :: "string \<Rightarrow> string \<Rightarrow> string \<Rightarrow> nef_handler \<Rightarrow> Route" where
  "mkRoute n m p h = \<lparr>rt_Name = n, rt_Method = m, rt_Pattern = p, rt_Handler = h\<rparr>"

definition NEFRoutes :: "Route list" where
  "NEFRoutes =
    [mkRoute ''ReadAllTrafficInfluenceSubscription'' ''GET''
       ''/3gpp-traffic-influence/v1/{afId}/subscriptions'' ReadAllTI,
     mkRoute ''CreateTrafficInfluenceSubscription'' ''POST''
       ''/3gpp-traffic-influence/v1/{afId}/subscriptions'' CreateTI,
     mkRoute ''ReadTrafficInfluenceSubscription'' ''GET''
       ''/3gpp-traffic-influence/v1/{afId}/subscriptions/{subscriptionId}'' ReadTI,
     mkRoute ''UpdatePutTrafficInfluenceSubscription'' ''PUT''
       ''/3gpp-traffic-influence/v1/{afId}/subscriptions/{subscriptionId}'' UpdatePutTI,
     mkRoute ''UpdatePatchTrafficInfluenceSubscription'' ''PATCH''
       ''/3gpp-traffic-influence/v1/{afId}/subscriptions/{subscriptionId}'' UpdatePatchTI,
     mkRoute ''DeleteTrafficInfluenceSubscription'' ''DELETE''
       ''/3gpp-traffic-influence/v1/{afId}/subscriptions/{subscriptionId}'' DeleteTI,
     mkRoute ''ReadAllPFDManagementTransaction'' ''GET''
       ''/3gpp-pfd-management/v1/{scsAsId}/transactions'' ReadAllPFD,
     mkRoute ''CreatePFDManagementTransaction'' ''POST''
       ''/3gpp-pfd-management/v1/{scsAsId}/transactions'' CreatePFD,
     mkRoute ''ReadPFDManagementTransaction'' ''GET''
       ''/3gpp-pfd-management/v1/{scsAsId}/transactions/{transactionId}'' ReadPFD,
     mkRoute ''UpdatePutPFDManagementTransaction'' ''PUT''
       ''/3gpp-pfd-management/v1/{scsAsId}/transactions/{transactionId}'' UpdatePutPFD,
     mkRoute ''DeletePFDManagementTransaction'' ''DELETE''
       ''/3gpp-pfd-management/v1/{scsAsId}/transactions/{transactionId}'' DeletePFD,
     mkRoute ''ReadPFDManagementApplication'' ''GET''
       ''/3gpp-pfd-management/v1/{scsAsId}/transactions/{transactionId}/applications/{appId}''
       ReadApp,
     mkRoute ''DeletePFDManagementApplication'' ''DELETE''
       ''/3gpp-pfd-management/v1/{scsAsId}/transactions/{transactionId}/applications/{appId}''
       DeleteApp,
     mkRoute ''UpdatePutPFDManagementApplication'' ''PUT''
       ''/3gpp-pfd-management/v1/{scsAsId}/transactions/{transactionId}/applications/{appId}''
       UpdatePutApp,
     mkRoute ''PatchPFDManagementApplication'' ''PATCH''
       ''/3gpp-pfd-management/v1/{scsAsId}/transactions/{transactionId}/applications/{appId}''
       PatchApp]"

definition routerRoutes :: "Config \<Rightarrow> Route list" where
  "routerRoutes c =
     NEFRoutes @ [mkRoute ''NotifySmfUPFEvent'' ''POST'' (cfg_UpfNotificationResURIPath c) NotifySmf]"

section \<open>Access tokens\<close>

text \<open>
  The errors of \<open>jwt.ParseWithClaims\<close> that \<open>ValidateAccessToken\<close> tells apart: the signature error,
  a validation error (with whether its only flag is the expiry), any other error.
\<close>

datatype jwt_err = ErrSignatureInvalid | ValidationError bool | OtherError

datatype token_status = StatusBadRequest | StatusInvalidToken | StatusSuccess | StatusConfigErr

text \<open>
  \<open>parse key token\<close> is the outcome of \<open>jwt.ParseWithClaims\<close>: \<open>Valid\<close> of the token, and the error.
  The result is the status and whether an error is returned with it.
\<close>

definition ValidateAccessToken ::
  "string option \<Rightarrow> (string \<Rightarrow> string \<Rightarrow> bool \<times> jwt_err option) \<Rightarrow> string \<Rightarrow> token_status \<times> bool" where
  "ValidateAccessToken signingKey parse reqToken =
     (case signingKey of
        None \<Rightarrow> (StatusConfigErr, True)
      | Some key \<Rightarrow>
          (case parse key reqToken of
             (_, Some ErrSignatureInvalid) \<Rightarrow> (StatusInvalidToken, True)
           | (_, Some (ValidationError expired)) \<Rightarrow>
               if expired then (StatusInvalidToken, True) else (StatusBadRequest, True)
           | (_, Some OtherError) \<Rightarrow> (StatusInvalidToken, True)
           | (valid, None) \<Rightarrow>
               if \<not> valid then (StatusInvalidToken, True) else (StatusSuccess, False)))"

text \<open>\<open>strings.Split\<close> for a separator that is not empty.\<close>

function stringsSplit :: "string \<Rightarrow> string \<Rightarrow> string \<Rightarrow> string list" where
  "stringsSplit sep [] acc = [rev acc]"
| "stringsSplit sep (c # cs) acc =
     (if sep \<noteq> [] \<and> take (length sep) (c # cs) = sep
      then rev acc # stringsSplit sep (drop (length sep) (c # cs)) []
      else stringsSplit sep cs (c # acc))"
  by pat_completeness auto
termination
  by (relation "measure (\<lambda>(_, s, _). length s)") (auto simp: neq_Nil_conv)

section \<open>Requests and their environment\<close>

text \<open>
  A request. Its body is given by what reading and decoding it yields for each of the types the
  handlers decode.
\<close>

record nef_request =
  req_Method :: string
  req_Path :: string
  req_RequestURI :: string
  req_Authorization :: string
  req_ti :: "TrafficInfluSub rbody"
  req_tisp :: "TrafficInfluSubPatch rbody"
  req_pfd :: "PfdManagement rbody"
  req_app :: "PfdData rbody"
  req_smf :: "NsmfEventExposureNotification rbody"

record nef_env =
  env_mux :: "Route list \<Rightarrow> string \<Rightarrow> string \<Rightarrow> (Route \<times> (string, string) gomap) option"
  env_oauth2 :: "string option"
  env_parse :: "string \<Rightarrow> string \<Rightarrow> bool \<times> jwt_err option"
  env_clock :: pfd_clock

text \<open>
  \<open>nefValidateAccessToken\<close>: whether the request may go on, with the response written if it may not.
  \<open>None\<close> is the panic of \<open>splitToken[1]\<close> when the header holds no \<open>Bearer\<close> prefix.
\<close>

definition nefValidateAccessToken ::
  "nef_env \<Rightarrow> nef_request \<Rightarrow> nef_writer \<Rightarrow> (nef_writer \<times> bool) option" where
  "nefValidateAccessToken e r w =
     (if length (req_Authorization r) = 0
      then Some (rwWriteHeader 401
             (rwSet ''WWW-Authenticate'' (''Bearer realm='' @ req_RequestURI r) w), False)
      else case stringsSplit ''Bearer '' (req_Authorization r) [] of
             _ # reqToken # _ \<Rightarrow>
               (case ValidateAccessToken (env_oauth2 e) (env_parse e) reqToken of
                  (StatusInvalidToken, True) \<Rightarrow>
                    Some (rwWriteHeader 401
                      (rwSet ''WWW-Authenticate'' (''Bearer realm='' @ req_RequestURI r) w), False)
                | (StatusBadRequest, True) \<Rightarrow> Some (rwWriteHeader 400 w, False)
                | (_, True) \<Rightarrow> Some (rwWriteHeader 500 w, False)
                | (_, False) \<Rightarrow> Some (w, True))
           | _ \<Rightarrow> None)"

section \<open>Dispatch\<close>

text \<open>The response and the notification a handler sends to an AF, if it sends one.\<close>

type_synonym nef_reply = "nef_writer \<times> (string \<times> EventNotification) option"

definition noNotif :: "(nefContext, nef_writer) go \<Rightarrow> (nefContext, nef_reply) go" where
  "noNotif m = go_bind m (\<lambda>s w. Ret s (w, None))"

definition muxVar :: "(string, string) gomap \<Rightarrow> string \<Rightarrow> string" where
  "muxVar vars k = (case gm_get vars k of None \<Rightarrow> [] | Some v \<Rightarrow> v)"

fun runHandler ::
  "pfd_clock \<Rightarrow> nef_handler \<Rightarrow> (string \<Rightarrow> string) \<Rightarrow> nef_request \<Rightarrow> nefContext \<Rightarrow> nef_writer \<Rightarrow>
   (nefContext, nef_reply) go" where
  "runHandler clk ReadAllTI v r s w = noNotif (ReadAllTrafficInfluenceSubscription (v ''afId'') s w)"
| "runHandler clk CreateTI v r s w =
     noNotif (CreateTrafficInfluenceSubscription (v ''afId'') (req_ti r) s w)"
| "runHandler clk ReadTI v r s w =
     noNotif (ReadTrafficInfluenceSubscription (v ''afId'') (v ''subscriptionId'') s w)"
| "runHandler clk UpdatePutTI v r s w =
     noNotif (UpdatePutTrafficInfluenceSubscription (v ''afId'') (v ''subscriptionId'') (req_ti r) s w)"
| "runHandler clk UpdatePatchTI v r s w =
     noNotif (UpdatePatchTrafficInfluenceSubscription (v ''afId'') (v ''subscriptionId'')
       (req_tisp r) s w)"
| "runHandler clk DeleteTI v r s w =
     noNotif (DeleteTrafficInfluenceSubscription (v ''afId'') (v ''subscriptionId'') s w)"
| "runHandler clk ReadAllPFD v r s w = noNotif (ReadAllPFDManagementTransaction (v ''scsAsId'') s w)"
| "runHandler clk CreatePFD v r s w =
     noNotif (CreatePFDManagementTransaction clk (v ''scsAsId'') (req_pfd r) s w)"
| "runHandler clk ReadPFD v r s w =
     noNotif (ReadPFDManagementTransaction (v ''scsAsId'') (v ''transactionId'') s w)"
| "runHandler clk UpdatePutPFD v r s w =
     noNotif (UpdatePutPFDManagementTransaction clk (v ''scsAsId'') (v ''transactionId'') (req_pfd r) s w)"
| "runHandler clk DeletePFD v r s w =
     noNotif (DeletePFDManagementTransaction (v ''scsAsId'') (v ''transactionId'') s w)"
| "runHandler clk ReadApp v r s w =
     noNotif (ReadPFDManagementApplication (v ''scsAsId'') (v ''transactionId'') (v ''appId'') s w)"
| "runHandler clk DeleteApp v r s w =
     noNotif (DeletePFDManagementApplication (v ''scsAsId'') (v ''transactionId'') (v ''appId'') s w)"
| "runHandler clk UpdatePutApp v r s w =
     noNotif (UpdatePutPFDManagementApplication (clk 0) (v ''scsAsId'') (v ''transactionId'')
       (v ''appId'') (req_app r) s w)"
| "runHandler clk PatchApp v r s w =
     noNotif (PatchPFDManagementApplication (clk 0) (v ''scsAsId'') (v ''transactionId'')
       (v ''appId'') (req_app r) s w)"
| "runHandler clk NotifySmf v r s w = NotifySmfUPFEvent (req_smf r) s w"

text \<open>
  A request served by the router of \<open>NewNEFRouter\<close>: the middleware runs only for a matched route, and
  \<open>None\<close> is a request mux answers itself.
\<close>

definition nefServeHTTP ::
  "nef_env \<Rightarrow> nef_request \<Rightarrow> nefContext \<Rightarrow> (nefContext, nef_reply option) go" where
  "nefServeHTTP e r s =
     (case env_mux e (routerRoutes (ctx_cfg s)) (req_Method r) (req_Path r) of
        None \<Rightarrow> Ret s None
      | Some (route, vars) \<Rightarrow>
          (let next = (\<lambda>w. go_bind (runHandler (env_clock e) (rt_Handler route) (muxVar vars) r s w)
                        (\<lambda>s1 rep. Ret s1 (Some rep)))
           in if cfg_OAuth2Support (ctx_cfg s)
              then (case nefValidateAccessToken e r rw_new of
                      None \<Rightarrow> Panic s
                    | Some (w, True) \<Rightarrow> next w
                    | Some (w, False) \<Rightarrow> Ret s (Some (w, None)))
              else next rw_new))"

section \<open>The running server\<close>

text \<open>
  \<open>Run\<close> up to the start of the listeners: the configuration that was loaded, or the error of the
  load, and the two test variables give the first state or the error that ends the NEF. The check of
  the endpoints is the one of \<open>runServer\<close>.
\<close>

definition nefRun :: "goint \<Rightarrow> bool \<Rightarrow> bool \<Rightarrow> string + Config \<Rightarrow> string + nefContext" where
  "nefRun r tsb tcl loaded =
     (case loaded of
        Inl e \<Rightarrow> Inl e
      | Inr c \<Rightarrow>
          (case nefCreate r c of
             Inl e \<Rightarrow> Inl e
           | Inr nef \<Rightarrow>
               if h1_Endpoint (cfg_HTTPConfig c) = [] \<and> h2_Endpoint (cfg_HTTP2Config c) = []
               then Inl ''HTTP Endpoints config missing''
               else Inr \<lparr>ctx_cfg = c, ctx_nef = nef, ctx_TestNEFSB = tsb, ctx_TestClient = tcl\<rparr>))"

text \<open>
  The request is one the decoder can give: the keys of its maps are distinct.
\<close>

definition req_ok :: "nef_request \<Rightarrow> bool" where
  "req_ok r \<longleftrightarrow> rbody_all (\<lambda>p. gm_ok (pm_PfdDatas p)) (req_pfd r)"

text \<open>The states after \<open>n\<close> requests of a server started with configuration \<open>c\<close>.\<close>

inductive nef_reach :: "Config \<Rightarrow> nat \<Rightarrow> nefContext \<Rightarrow> bool" for c where
  start: "nefRun r tsb tcl (Inr c) = Inr s \<Longrightarrow> nef_reach c 0 s"
| serve: "nef_reach c n s \<Longrightarrow> req_ok r \<Longrightarrow> nef_reach c (Suc n) (go_state (nefServeHTTP e r s))"

inductive_cases nef_reach_0E: "nef_reach c 0 s"

inductive_cases nef_reach_SucE: "nef_reach c (Suc n) s"

end
