(* ===== verification/Nef_AfTable.thy ===== *)
theory Nef_AfTable
  imports Nef_State
begin

text \<open>
  The invariant of the table of AFs, shared by the traffic influence and the PFD component: keys,
  limits, and the identifiers drawn from the counters of each AF. The bound \<open>n\<close> is the number of
  requests served; a request draws at most one identifier from each counter.
\<close>

section \<open>Creation of an AF\<close>

definition with_af :: "string \<Rightarrow> nefContext \<Rightarrow> nefContext" where
  "with_af k s = (let s1 = set_afs (gm_put k (afCreate s k) (nef_afs (ctx_nef s))) s
     in s1\<lparr>ctx_nef := (ctx_nef s1)\<lparr>nef_afCount := nef_afCount (ctx_nef s1) + 1\<rparr>\<rparr>)"

definition af_room :: "nefContext \<Rightarrow> bool" where
  "af_room s \<longleftrightarrow> int (gm_len (nef_afs (ctx_nef s))) < sint (cfg_MaxAFSupport (ctx_cfg s))"

definition ensure_af :: "string \<Rightarrow> nefContext \<Rightarrow> nefContext" where
  "ensure_af k s = (if nefGetAf (ctx_nef s) k = None then with_af k s else s)"

lemma nefAddAf_eq:
  "nefAddAf s k = (if af_room s then (with_af k s, None) else (s, Some ''MAX AF exceeded''))"
  by (auto simp: nefAddAf_def af_room_def with_af_def Let_def)

lemma with_af_sel [simp]:
  "ctx_cfg (with_af k s) = ctx_cfg s"
  "ctx_TestNEFSB (with_af k s) = ctx_TestNEFSB s"
  "ctx_TestClient (with_af k s) = ctx_TestClient s"
  "nef_corrID (ctx_nef (with_af k s)) = nef_corrID (ctx_nef s)"
  "nef_pcfClient (ctx_nef (with_af k s)) = nef_pcfClient (ctx_nef s)"
  "nef_udrClient (ctx_nef (with_af k s)) = nef_udrClient (ctx_nef s)"
  "nef_udrPfdClient (ctx_nef (with_af k s)) = nef_udrPfdClient (ctx_nef s)"
  "nef_locationURLPrefix (ctx_nef (with_af k s)) = nef_locationURLPrefix (ctx_nef s)"
  "nef_locationURLPrefixPfd (ctx_nef (with_af k s)) = nef_locationURLPrefixPfd (ctx_nef s)"
  "nef_afs (ctx_nef (with_af k s)) = gm_put k (afCreate s k) (nef_afs (ctx_nef s))"
  "nefGetAf (ctx_nef (with_af k s)) k' =
     (if k' = k then Some (afCreate s k) else nefGetAf (ctx_nef s) k')"
  by (simp_all add: with_af_def Let_def nefGetAf_def)

lemma ensure_af_sel [simp]:
  "ctx_cfg (ensure_af k s) = ctx_cfg s"
  "ctx_TestNEFSB (ensure_af k s) = ctx_TestNEFSB s"
  "ctx_TestClient (ensure_af k s) = ctx_TestClient s"
  "nef_corrID (ctx_nef (ensure_af k s)) = nef_corrID (ctx_nef s)"
  "nef_pcfClient (ctx_nef (ensure_af k s)) = nef_pcfClient (ctx_nef s)"
  "nef_udrClient (ctx_nef (ensure_af k s)) = nef_udrClient (ctx_nef s)"
  "nef_udrPfdClient (ctx_nef (ensure_af k s)) = nef_udrPfdClient (ctx_nef s)"
  "nef_locationURLPrefix (ctx_nef (ensure_af k s)) = nef_locationURLPrefix (ctx_nef s)"
  "nef_locationURLPrefixPfd (ctx_nef (ensure_af k s)) = nef_locationURLPrefixPfd (ctx_nef s)"
  by (simp_all add: ensure_af_def)

lemma nefGetAf_ensure:
  "nefGetAf (ctx_nef (ensure_af k s)) k =
     Some (case nefGetAf (ctx_nef s) k of None \<Rightarrow> afCreate s k | Some a \<Rightarrow> a)"
  by (auto simp: ensure_af_def split: option.split)

lemma afCreate_sel [simp]:
  "af_afID (afCreate s k) = k" "af_subs (afCreate s k) = []" "af_pfdtrans (afCreate s k) = []"
  "af_subIDnum (afCreate s k) = cfg_SubStartID (ctx_cfg s)"
  "af_transIDnum (afCreate s k) = cfg_PfdTransStartID (ctx_cfg s)"
  by (simp_all add: afCreate_def)

lemma nefDeleteAf_state:
  "fst (nefDeleteAf s k) =
     (if nefGetAf (ctx_nef s) k = None then s else set_afs (gm_del k (nef_afs (ctx_nef s))) s)"
  by (simp add: nefDeleteAf_def split: option.split)

section \<open>The invariant\<close>

text \<open>The identifiers in use are among the first \<open>m\<close> drawn from a counter, for an \<open>m\<close> up to \<open>n\<close>.\<close>

definition counted :: "goint \<Rightarrow> nat \<Rightarrow> goint \<Rightarrow> string set \<Rightarrow> bool" where
  "counted start n counter used \<longleftrightarrow>
     (\<exists>m\<le>n. counter = start + of_nat m \<and> (\<forall>i\<in>used. drawn start m i))"

lemma counted_mono: "counted st n c U \<Longrightarrow> n \<le> n' \<Longrightarrow> V \<subseteq> U \<Longrightarrow> counted st n' c V"
  unfolding counted_def by (blast intro: order_trans)

lemma counted_start: "counted st n st {}"
  unfolding counted_def by (intro exI [of _ 0]) simp

lemma counted_bump:
  assumes "counted st n c U" and "V \<subseteq> insert (Itoa c) U"
  shows "counted st (Suc n) (c + 1) V"
proof -
  from assms(1) obtain m where m: "m \<le> n" "c = st + of_nat m" "\<forall>i\<in>U. drawn st m i"
    unfolding counted_def by blast
  have "drawn st (Suc m) i" if "i \<in> V" for i
    using that assms(2) m drawn_new [of st m] by (auto intro: drawn_Suc)
  then show ?thesis
    unfolding counted_def by (intro exI [of _ "Suc m"]) (simp add: m)
qed

lemma counted_fresh:
  assumes "counted st n c U" and "n < 2 ^ 64"
  shows "Itoa c \<notin> U"
proof -
  from assms(1) obtain m where m: "m \<le> n" "c = st + of_nat m" "\<forall>i\<in>U. drawn st m i"
    unfolding counted_def by blast
  from m(1) assms(2) have "m < 2 ^ 64" by (rule le_less_trans)
  from drawn_fresh [OF this, of st] show ?thesis using m by blast
qed

definition af_ok :: "Config \<Rightarrow> nat \<Rightarrow> string \<Rightarrow> afData \<Rightarrow> bool" where
  "af_ok c n k a \<longleftrightarrow>
     af_afID a = k \<and> gm_ok (af_subs a) \<and> gm_ok (af_pfdtrans a) \<and>
     int (gm_len (af_subs a)) \<le> max 0 (sint (cfg_MaxSubSupport c)) \<and>
     int (gm_len (af_pfdtrans a)) \<le> max 0 (sint (cfg_MaxPfdTransSupport c)) \<and>
     counted (cfg_SubStartID c) n (af_subIDnum a) (dom (gm_get (af_subs a))) \<and>
     counted (cfg_PfdTransStartID c) n (af_transIDnum a) (dom (gm_get (af_pfdtrans a)))"

definition tab_inv :: "Config \<Rightarrow> nat \<Rightarrow> nefContext \<Rightarrow> bool" where
  "tab_inv c n s \<longleftrightarrow>
     ctx_cfg s = c \<and> gm_ok (nef_afs (ctx_nef s)) \<and>
     int (gm_len (nef_afs (ctx_nef s))) \<le> max 0 (sint (cfg_MaxAFSupport c)) \<and>
     nef_locationURLPrefix (ctx_nef s) = getNefLocationURLPrefix c \<and>
     nef_locationURLPrefixPfd (ctx_nef s) = getNefLocationURLPrefixPfd c \<and>
     (\<forall>k a. nefGetAf (ctx_nef s) k = Some a \<longrightarrow> af_ok c n k a)"

lemma af_ok_mono: "af_ok c n k a \<Longrightarrow> n \<le> n' \<Longrightarrow> af_ok c n' k a"
  unfolding af_ok_def by (blast intro: counted_mono)

lemma tab_inv_mono: "tab_inv c n s \<Longrightarrow> n \<le> n' \<Longrightarrow> tab_inv c n' s"
  unfolding tab_inv_def by (blast intro: af_ok_mono)

lemma tab_invD: "tab_inv c n s \<Longrightarrow> nefGetAf (ctx_nef s) k = Some a \<Longrightarrow> af_ok c n k a"
  by (simp add: tab_inv_def)

lemma tab_inv_upd:
  assumes inv: "tab_inv c n s" and le: "n \<le> n'"
    and f: "\<And>a. nefGetAf (ctx_nef s) k = Some a \<Longrightarrow> af_ok c n' k (f a)"
  shows "tab_inv c n' (upd_af k f s)"
  using inv f af_ok_mono [OF tab_invD [OF inv] le]
  by (auto simp: tab_inv_def)

lemma tab_inv_with_af:
  assumes inv: "tab_inv c n s" and room: "af_room s" and new: "nefGetAf (ctx_nef s) k = None"
  shows "tab_inv c n (with_af k s)"
proof -
  have "gm_len (nef_afs (ctx_nef (with_af k s))) = Suc (gm_len (nef_afs (ctx_nef s)))"
    using inv new by (simp add: gm.len_put_new tab_inv_def nefGetAf_def)
  moreover have "af_ok c n k (afCreate s k)"
    using inv by (simp add: af_ok_def tab_inv_def counted_start dom_gm_get)
  ultimately show ?thesis
    using inv room by (auto simp: tab_inv_def af_room_def)
qed

lemma tab_inv_ensure:
  "tab_inv c n s \<Longrightarrow> nefGetAf (ctx_nef s) k \<noteq> None \<or> af_room s \<Longrightarrow> tab_inv c n (ensure_af k s)"
  by (auto simp: ensure_af_def intro: tab_inv_with_af)

lemma tab_inv_deleteAf:
  assumes "tab_inv c n s"
  shows "tab_inv c n (fst (nefDeleteAf s k))"
proof -
  have "int (gm_len (gm_del k (nef_afs (ctx_nef s)))) \<le> max 0 (sint (cfg_MaxAFSupport c))"
    using assms gm.len_del_le [of "nef_afs (ctx_nef s)" k] by (simp add: tab_inv_def)
  then show ?thesis
    using assms by (auto simp: nefDeleteAf_state tab_inv_def nefGetAf_def split: if_splits)
qed

section \<open>The stores of subscriptions and transactions\<close>

text \<open>
  The subscription and the transaction a state holds under the identifier of an AF and an identifier
  of its own.
\<close>

definition sub_at :: "nefContext \<Rightarrow> string \<times> string \<Rightarrow> afSubscription option" where
  "sub_at s p = Option.bind (nefGetAf (ctx_nef s) (fst p)) (\<lambda>a. gm_get (af_subs a) (snd p))"

lemma sub_at_SomeD:
  "sub_at s (k, i) = Some x \<Longrightarrow> \<exists>a. nefGetAf (ctx_nef s) k = Some a \<and> gm_get (af_subs a) i = Some x"
  by (auto simp: sub_at_def bind_eq_Some_conv)

lemma sub_at_af: "nefGetAf (ctx_nef s) k = Some a \<Longrightarrow> sub_at s (k, i) = gm_get (af_subs a) i"
  by (simp add: sub_at_def)

lemma sub_at_no_af: "nefGetAf (ctx_nef s) k = None \<Longrightarrow> sub_at s (k, i) = None"
  by (simp add: sub_at_def)

lemma sub_at_upd_other [simp]:
  assumes "\<And>a. af_subs (f a) = af_subs a"
  shows "sub_at (upd_af k f s) = sub_at s"
  using assms by (auto simp: sub_at_def fun_eq_iff split: Option.bind_splits)

lemma sub_at_with_af: "nefGetAf (ctx_nef s) k = None \<Longrightarrow> sub_at (with_af k s) = sub_at s"
  by (auto simp: sub_at_def fun_eq_iff)

lemma sub_at_ensure [simp]: "sub_at (ensure_af k s) = sub_at s"
  by (simp add: ensure_af_def sub_at_with_af)

lemma sub_at_deleteAf:
  assumes "nefGetAf (ctx_nef s) k = Some a" and "gm_len (af_subs a) = 0"
  shows "sub_at (fst (nefDeleteAf s k)) = sub_at s"
proof -
  have "af_subs a = []" using assms(2) by (simp add: gm_len_def)
  with assms(1) show ?thesis
    by (auto simp: sub_at_def nefDeleteAf_state nefGetAf_def fun_eq_iff)
qed

lemma deleteAf_clients [simp]:
  "nef_corrID (ctx_nef (fst (nefDeleteAf s k))) = nef_corrID (ctx_nef s)"
  "nef_pcfClient (ctx_nef (fst (nefDeleteAf s k))) = nef_pcfClient (ctx_nef s)"
  "nef_udrClient (ctx_nef (fst (nefDeleteAf s k))) = nef_udrClient (ctx_nef s)"
  "nef_udrPfdClient (ctx_nef (fst (nefDeleteAf s k))) = nef_udrPfdClient (ctx_nef s)"
  "ctx_cfg (fst (nefDeleteAf s k)) = ctx_cfg s"
  "ctx_TestNEFSB (fst (nefDeleteAf s k)) = ctx_TestNEFSB s"
  "ctx_TestClient (fst (nefDeleteAf s k)) = ctx_TestClient s"
  by (simp_all add: nefDeleteAf_state)

definition trans_at :: "nefContext \<Rightarrow> string \<times> string \<Rightarrow> afPfdTransaction option" where
  "trans_at s p = Option.bind (nefGetAf (ctx_nef s) (fst p)) (\<lambda>a. gm_get (af_pfdtrans a) (snd p))"

lemma trans_at_SomeD:
  "trans_at s (k, i) = Some x \<Longrightarrow> \<exists>a. nefGetAf (ctx_nef s) k = Some a \<and> gm_get (af_pfdtrans a) i = Some x"
  by (auto simp: trans_at_def bind_eq_Some_conv)

lemma trans_at_af: "nefGetAf (ctx_nef s) k = Some a \<Longrightarrow> trans_at s (k, i) = gm_get (af_pfdtrans a) i"
  by (simp add: trans_at_def)

lemma trans_at_upd_other [simp]:
  assumes "\<And>a. af_pfdtrans (f a) = af_pfdtrans a"
  shows "trans_at (upd_af k f s) = trans_at s"
  using assms by (auto simp: trans_at_def fun_eq_iff split: Option.bind_splits)

lemma trans_at_with_af: "nefGetAf (ctx_nef s) k = None \<Longrightarrow> trans_at (with_af k s) = trans_at s"
  by (auto simp: trans_at_def fun_eq_iff)

lemma trans_at_ensure [simp]: "trans_at (ensure_af k s) = trans_at s"
  by (simp add: ensure_af_def trans_at_with_af)

lemma trans_at_deleteAf: "trans_at (fst (nefDeleteAf s k)) p = (if fst p = k then None else trans_at s p)"
  by (auto simp: trans_at_def nefDeleteAf_state nefGetAf_def)

end
