(* ===== verification/Nef_Subscriptions.thy ===== *)
theory Nef_Subscriptions
  imports Nef_TrafficInfluence Nef_AfTable
begin

text \<open>
  The traffic influence component seen as a store of subscriptions (\<open>sub_at\<close>). Each operation is characterised by its effect on this map and on the
  southbound clients, for every branch of the code.
\<close>

section \<open>The abstraction\<close>

lemma sub_at_put_sub:
  assumes "nefGetAf (ctx_nef s) k = Some a"
  shows "sub_at (put_sub k i x s) = (sub_at s)((k, i) \<mapsto> x)"
  using assms by (auto simp: sub_at_def put_sub_def fun_eq_iff)

lemma sub_at_del_sub:
  assumes "nefGetAf (ctx_nef s) k = Some a"
  shows "sub_at (upd_af k (\<lambda>a. a\<lparr>af_subs := gm_del i (af_subs a)\<rparr>) s) = (sub_at s)((k, i) := None)"
  using assms by (auto simp: sub_at_def fun_eq_iff)

lemma client_updates [simp]:
  "ctx_cfg (set_pcf p s) = ctx_cfg s" "ctx_cfg (set_udr u s) = ctx_cfg s" "ctx_cfg (inc_corrID s) = ctx_cfg s"
  "nefGetAf (ctx_nef (set_pcf p s)) k = nefGetAf (ctx_nef s) k"
  "nefGetAf (ctx_nef (set_udr u s)) k = nefGetAf (ctx_nef s) k"
  "nefGetAf (ctx_nef (inc_corrID s)) k = nefGetAf (ctx_nef s) k"
  "nef_afs (ctx_nef (set_pcf p s)) = nef_afs (ctx_nef s)"
  "nef_afs (ctx_nef (set_udr u s)) = nef_afs (ctx_nef s)"
  "nef_afs (ctx_nef (inc_corrID s)) = nef_afs (ctx_nef s)"
  "nef_corrID (ctx_nef (set_pcf p s)) = nef_corrID (ctx_nef s)"
  "nef_corrID (ctx_nef (set_udr u s)) = nef_corrID (ctx_nef s)"
  "nef_corrID (ctx_nef (inc_corrID s)) = nef_corrID (ctx_nef s) + 1"
  "nef_pcfClient (ctx_nef (set_pcf p s)) = p"
  "nef_pcfClient (ctx_nef (set_udr u s)) = nef_pcfClient (ctx_nef s)"
  "nef_pcfClient (ctx_nef (inc_corrID s)) = nef_pcfClient (ctx_nef s)"
  "nef_udrClient (ctx_nef (set_pcf p s)) = nef_udrClient (ctx_nef s)"
  "nef_udrClient (ctx_nef (set_udr u s)) = u"
  "nef_udrClient (ctx_nef (inc_corrID s)) = nef_udrClient (ctx_nef s)"
  "nef_udrPfdClient (ctx_nef (set_pcf p s)) = nef_udrPfdClient (ctx_nef s)"
  "nef_udrPfdClient (ctx_nef (set_udr u s)) = nef_udrPfdClient (ctx_nef s)"
  "nef_udrPfdClient (ctx_nef (inc_corrID s)) = nef_udrPfdClient (ctx_nef s)"
  "nef_locationURLPrefix (ctx_nef (set_pcf p s)) = nef_locationURLPrefix (ctx_nef s)"
  "nef_locationURLPrefix (ctx_nef (set_udr u s)) = nef_locationURLPrefix (ctx_nef s)"
  "nef_locationURLPrefix (ctx_nef (inc_corrID s)) = nef_locationURLPrefix (ctx_nef s)"
  "nef_locationURLPrefixPfd (ctx_nef (set_pcf p s)) = nef_locationURLPrefixPfd (ctx_nef s)"
  "nef_locationURLPrefixPfd (ctx_nef (set_udr u s)) = nef_locationURLPrefixPfd (ctx_nef s)"
  "nef_locationURLPrefixPfd (ctx_nef (inc_corrID s)) = nef_locationURLPrefixPfd (ctx_nef s)"
  "ctx_TestNEFSB (set_pcf p s) = ctx_TestNEFSB s" "ctx_TestNEFSB (set_udr u s) = ctx_TestNEFSB s"
  "ctx_TestNEFSB (inc_corrID s) = ctx_TestNEFSB s"
  "ctx_TestClient (set_pcf p s) = ctx_TestClient s" "ctx_TestClient (set_udr u s) = ctx_TestClient s"
  "ctx_TestClient (inc_corrID s) = ctx_TestClient s"
  by (simp_all add: set_pcf_def set_udr_def inc_corrID_def nefGetAf_def)

lemma sub_at_clients [simp]:
  "sub_at (set_pcf p s) = sub_at s" "sub_at (set_udr u s) = sub_at s" "sub_at (inc_corrID s) = sub_at s"
  by (simp_all add: sub_at_def fun_eq_iff)

section \<open>Southbound outcomes\<close>

text \<open>
  The states and values the southbound callbacks leave. The AF service table of the configuration is
  well typed (\<open>svc_ok\<close>) when the type assertions on it succeed for every service.
\<close>

definition svc_ok :: "Config \<Rightarrow> bool" where
  "svc_ok c \<longleftrightarrow> list_all (\<lambda>x. case assert_map x of None \<Rightarrow> False
     | Some m \<Rightarrow> assert_str m ''id'' \<noteq> None \<and> assert_str m ''dnn'' \<noteq> None \<and>
         assert_str m ''snssai'' \<noteq> None) (cfg_AfServiceIDs c)"

lemma afServiceLoop_total:
  "list_all (\<lambda>x. case assert_map x of None \<Rightarrow> False
     | Some m \<Rightarrow> assert_str m ''id'' \<noteq> None \<and> assert_str m ''dnn'' \<noteq> None \<and>
         assert_str m ''snssai'' \<noteq> None) xs \<Longrightarrow> \<exists>svc. afServiceLoop xs sid acc = Some svc"
  by (induction xs arbitrary: acc) (auto split: option.splits)

lemma svc_ok_loop: "svc_ok c \<Longrightarrow> \<exists>svc. afServiceLoop (cfg_AfServiceIDs c) sid acc = Some svc"
  unfolding svc_ok_def by (rule afServiceLoop_total)

lemma nefSBPCFPost_Ret:
  assumes "nefSBPCFPost x s ti = Ret s' (x', rsp, e)"
  shows "\<exists>asc p sid r. PolicyAuthorizationCreate (nef_pcfClient (ctx_nef s)) asc = (p, sid, r, None) \<and>
    s' = set_pcf p (inc_corrID s) \<and>
    x' = x\<lparr>sub_NotifCorreID := Itoa (nef_corrID (ctx_nef s)), sub_appSessionID := sid\<rparr> \<and>
    rsp_errorCode rsp = 201 \<and> e = None"
  using assms
  by (auto simp: nefSBPCFPost_def Let_def PolicyAuthorizationCreate_def sbFailed_def sbOk_def
      rsp_zero_def split: option.splits)

lemma nefSBPCFPost_Panic: "nefSBPCFPost x s ti = Panic s' \<Longrightarrow> s' = inc_corrID s \<and> \<not> svc_ok (ctx_cfg s)"
  using svc_ok_loop [of "ctx_cfg s" "ti_AfServiceID ti" "([], snssai_zero)"]
  by (auto simp: nefSBPCFPost_def Let_def PolicyAuthorizationCreate_def split: option.splits if_splits)

lemma nefSBUDRPut_Ret:
  assumes "nefSBUDRPut x s ti = Ret s' (x', rsp, e)"
  shows "\<exists>u. s' = set_udr u (if wantsUpPathChange ti then inc_corrID s else s) \<and>
    x' = (if wantsUpPathChange ti then x\<lparr>sub_NotifCorreID := Itoa (nef_corrID (ctx_nef s))\<rparr> else x) \<and>
    rsp_errorCode rsp \<in> {200, 201} \<and> e = None"
  using assms
  by (auto simp: nefSBUDRPut_def Let_def UdrInfluenceDataCreate_def sbFailed_def sbOk_def
      rsp_zero_def split: option.splits if_splits)

lemma nefSBUDRPut_Panic: "nefSBUDRPut x s ti = Panic s' \<Longrightarrow> s' = s \<and> \<not> svc_ok (ctx_cfg s)"
  using svc_ok_loop [of "ctx_cfg s" "ti_AfServiceID ti" "([], snssai_zero)"]
  by (auto simp: nefSBUDRPut_def Let_def UdrInfluenceDataCreate_def split: option.splits if_splits)

section \<open>Adding a subscription\<close>

definition bump_sub :: "string \<Rightarrow> nefContext \<Rightarrow> nefContext" where
  "bump_sub k s = upd_af k (\<lambda>a. a\<lparr>af_subIDnum := af_subIDnum a + 1\<rparr>) s"

lemma bump_sub_sel [simp]:
  "sub_at (bump_sub k s) = sub_at s" "ctx_cfg (bump_sub k s) = ctx_cfg s"
  "nef_corrID (ctx_nef (bump_sub k s)) = nef_corrID (ctx_nef s)"
  "nef_pcfClient (ctx_nef (bump_sub k s)) = nef_pcfClient (ctx_nef s)"
  "nef_udrClient (ctx_nef (bump_sub k s)) = nef_udrClient (ctx_nef s)"
  "nef_udrPfdClient (ctx_nef (bump_sub k s)) = nef_udrPfdClient (ctx_nef s)"
  "nef_locationURLPrefix (ctx_nef (bump_sub k s)) = nef_locationURLPrefix (ctx_nef s)"
  "nef_locationURLPrefixPfd (ctx_nef (bump_sub k s)) = nef_locationURLPrefixPfd (ctx_nef s)"
  "nefGetAf (ctx_nef (bump_sub k s)) k' =
     (if k' = k then map_option (\<lambda>a. a\<lparr>af_subIDnum := af_subIDnum a + 1\<rparr>) (nefGetAf (ctx_nef s) k)
      else nefGetAf (ctx_nef s) k')"
  by (simp_all add: bump_sub_def)

definition newSub ::
  "sbfn \<Rightarrow> string \<Rightarrow> TrafficInfluSub \<Rightarrow> string \<Rightarrow> string \<Rightarrow> AppSessionID \<Rightarrow> afSubscription" where
  "newSub fn i ti loc corr sid = \<lparr>sub_subid = i, sub_ti = ti\<lparr>ti_Self := loc\<rparr>, sub_appSessionID = sid,
     sub_iid = [], sub_NotifCorreID = corr,
     sub_afNotificationDestination = ti_NotificationDestination ti, sub_NEFSBGet = fn,
     sub_NEFSBPut = fn, sub_NEFSBPatch = fn, sub_NEFSBDelete = fn\<rparr>"

definition sub_room :: "nefContext \<Rightarrow> afData \<Rightarrow> bool" where
  "sub_room s a \<longleftrightarrow> int (gm_len (af_subs a)) < sint (cfg_MaxSubSupport (ctx_cfg s))"

lemma afAddSubscription_cases:
  assumes af: "nefGetAf (ctx_nef s) k = Some a"
  defines "i \<equiv> Itoa (af_subIDnum a)" and "loc \<equiv> subLocation s a (Itoa (af_subIDnum a))"
    and "c \<equiv> Itoa (nef_corrID (ctx_nef s))"
  obtains
    (full) "\<not> sub_room s a"
      "afAddSubscription k s ti = Ret s ([], mkRsp 400 ''MAX Subscription Reached'', Some ''MAX SUBS Created'')"
  | (invalid) "sub_room s a" "\<not> singleUE ti" "\<not> anyUE ti"
      "afAddSubscription k s ti = Ret (bump_sub k s) ([], mkRsp 400 ''Invalid Request'', Some ''Invalid AF Request'')"
  | (panic) t where "sub_room s a" "singleUE ti \<or> anyUE ti" "\<not> svc_ok (ctx_cfg s)"
      "t = bump_sub k s \<or> t = inc_corrID (bump_sub k s)" "afAddSubscription k s ti = Panic t"
  | (pcf) asc p sid r rsp where "sub_room s a" "singleUE ti"
      "PolicyAuthorizationCreate (nef_pcfClient (ctx_nef s)) asc = (p, sid, r, None)"
      "afAddSubscription k s ti = Ret (put_sub k i (newSub FnPCF i ti loc c sid)
         (set_pcf p (inc_corrID (bump_sub k s)))) (loc, rsp, None)"
  | (udr) u rsp where "sub_room s a" "\<not> singleUE ti" "anyUE ti"
      "afAddSubscription k s ti = Ret (put_sub k i
         (newSub FnUDR i ti loc (if wantsUpPathChange ti then c else []) [])
         (set_udr u (if wantsUpPathChange ti then inc_corrID (bump_sub k s) else bump_sub k s)))
         (loc, rsp, None)"
proof -
  let ?x = "\<lparr>sub_subid = i, sub_ti = ti, sub_appSessionID = [], sub_iid = [],
     sub_NotifCorreID = [], sub_afNotificationDestination = [], sub_NEFSBGet = FnNil,
     sub_NEFSBPut = FnNil, sub_NEFSBPatch = FnNil, sub_NEFSBDelete = FnNil\<rparr>"
  note add = afAddSubscription_def af Let_def bump_sub_def [symmetric] i_def [symmetric]
  consider "\<not> sub_room s a" | "sub_room s a" "\<not> singleUE ti" "\<not> anyUE ti"
    | "sub_room s a" "singleUE ti" | "sub_room s a" "\<not> singleUE ti" "anyUE ti" by blast
  then show thesis
  proof cases
    case 1
    then show ?thesis by (intro full) (simp_all add: add sub_room_def)
  next
    case 2
    then show ?thesis by (intro invalid) (simp_all add: add sub_room_def)
  next
    case 3
    show ?thesis
    proof (cases "nefSBPCFPost ?x (bump_sub k s) ti")
      case (Panic t)
      with 3 nefSBPCFPost_Panic [OF Panic] show ?thesis
        by (intro panic [of t]) (simp_all add: add sub_room_def)
    next
      case (Ret t y)
      obtain x' rsp e where y: "y = (x', rsp, e)" by (cases y)
      from nefSBPCFPost_Ret [OF Ret [unfolded y]] obtain asc p sid r where
        "PolicyAuthorizationCreate (nef_pcfClient (ctx_nef s)) asc = (p, sid, r, None)"
        "t = set_pcf p (inc_corrID (bump_sub k s))" "e = None"
        "x' = ?x\<lparr>sub_NotifCorreID := c, sub_appSessionID := sid\<rparr>" by (auto simp: c_def)
      with 3 Ret y show ?thesis
        by (intro pcf) (simp_all add: add sub_room_def linkSubscription_def newSub_def setSubCallbacks_def
            subLocation_def loc_def)
    qed
  next
    case 4
    show ?thesis
    proof (cases "nefSBUDRPut ?x (bump_sub k s) ti")
      case (Panic t)
      with 4 nefSBUDRPut_Panic [OF Panic] show ?thesis
        by (intro panic [of t]) (simp_all add: add sub_room_def nefSBUDRPost_def)
    next
      case (Ret t y)
      obtain x' rsp e where y: "y = (x', rsp, e)" by (cases y)
      from nefSBUDRPut_Ret [OF Ret [unfolded y]] obtain u where
        "t = set_udr u (if wantsUpPathChange ti then inc_corrID (bump_sub k s) else bump_sub k s)"
        "x' = (if wantsUpPathChange ti then ?x\<lparr>sub_NotifCorreID := c\<rparr> else ?x)" "e = None"
        by (auto simp: c_def)
      with 4 Ret y show ?thesis
        by (intro udr) (auto simp: add sub_room_def nefSBUDRPost_def linkSubscription_def newSub_def
            setSubCallbacks_def subLocation_def loc_def)
    qed
  qed
qed

lemma createNewSub_eq:
  "createNewSub s k ti =
     (if nefGetAf (ctx_nef s) k = None \<and> \<not> af_room s then Ret s ([], rsp_zero, Some ''MAX AF exceeded'')
      else afAddSubscription k (ensure_af k s) ti)"
  by (auto simp: createNewSub_def nefAddAf_eq ensure_af_def split: option.split)

section \<open>Invariants of the store\<close>

type_synonym 'p sub_store = "'p \<Rightarrow> afSubscription option"

text \<open>
  A stored subscription carries its own identifier and location, and all its callbacks belong to one
  southbound interface: the PCF with a session, or the UDR.
\<close>

definition sub_ok :: "Config \<Rightarrow> string \<times> string \<Rightarrow> afSubscription \<Rightarrow> bool" where
  "sub_ok c p x \<longleftrightarrow>
     sub_subid x = snd p \<and> sub_iid x = [] \<and>
     ti_Self (sub_ti x) = getNefLocationURLPrefix c @ fst p @ ''/subscriptions/'' @ snd p \<and>
     sub_NEFSBGet x = sub_NEFSBPut x \<and> sub_NEFSBPatch x = sub_NEFSBPut x \<and>
     sub_NEFSBDelete x = sub_NEFSBPut x \<and> sub_NEFSBPut x \<noteq> FnNil \<and>
     (sub_NEFSBPut x = FnPCF \<longrightarrow> sub_NotifCorreID x \<noteq> [])"

definition corrs :: "'p sub_store \<Rightarrow> string set" where
  "corrs M = {sub_NotifCorreID x | x p. M p = Some x \<and> sub_NotifCorreID x \<noteq> []}"

definition corr_ok :: "Config \<Rightarrow> nat \<Rightarrow> goint \<Rightarrow> 'p sub_store \<Rightarrow> bool" where
  "corr_ok c n cid M \<longleftrightarrow>
     counted (cfg_SubStartID c + correlationIDOffset) n cid (corrs M) \<and>
     (\<forall>p q x y. M p = Some x \<longrightarrow> M q = Some y \<longrightarrow> sub_NotifCorreID x \<noteq> [] \<longrightarrow>
        sub_NotifCorreID x = sub_NotifCorreID y \<longrightarrow> p = q)"

text \<open>The sessions of the PCF are those of the subscriptions that use it, one each.\<close>

definition pcf_sub :: "'p sub_store \<Rightarrow> 'p \<Rightarrow> goint \<Rightarrow> bool" where
  "pcf_sub M p key \<longleftrightarrow>
     (\<exists>x. M p = Some x \<and> sub_NEFSBPut x = FnPCF \<and> pcf_key (sub_appSessionID x) = key)"

definition sess_ok :: "nat \<Rightarrow> PcfClientStub \<Rightarrow> 'p sub_store \<Rightarrow> bool" where
  "sess_ok n pcf M \<longleftrightarrow>
     pcf_wf pcf \<and> gm_len (paDb pcf) \<le> n \<and>
     (\<forall>key. pcf_session pcf key \<noteq> None \<longleftrightarrow> (\<exists>p. pcf_sub M p key)) \<and>
     (\<forall>p q key. pcf_sub M p key \<longrightarrow> pcf_sub M q key \<longrightarrow> p = q)"

definition ti_inv :: "Config \<Rightarrow> nat \<Rightarrow> nefContext \<Rightarrow> bool" where
  "ti_inv c n s \<longleftrightarrow>
     (\<forall>p x. sub_at s p = Some x \<longrightarrow> sub_ok c p x) \<and>
     corr_ok c n (nef_corrID (ctx_nef s)) (sub_at s) \<and>
     sess_ok n (nef_pcfClient (ctx_nef s)) (sub_at s)"

subsection \<open>Correlation identifiers\<close>

lemma corrsI: "M p = Some x \<Longrightarrow> sub_NotifCorreID x \<noteq> [] \<Longrightarrow> sub_NotifCorreID x \<in> corrs M"
  unfolding corrs_def by blast

lemma corr_ok_mono: "corr_ok c n cid M \<Longrightarrow> n \<le> n' \<Longrightarrow> corr_ok c n' cid M"
  unfolding corr_ok_def by (blast intro: counted_mono)

lemma corr_ok_inc: "corr_ok c n cid M \<Longrightarrow> corr_ok c (Suc n) (cid + 1) M"
  unfolding corr_ok_def by (blast intro: counted_bump)

lemma corrs_upd: "corrs (M(p \<mapsto> x)) \<subseteq> insert (sub_NotifCorreID x) (corrs M)"
  by (auto simp: corrs_def split: if_splits)

lemma corr_ok_new:
  assumes ok: "corr_ok c n cid M" and n: "n < 2 ^ 64" and x: "sub_NotifCorreID x = Itoa cid"
  shows "corr_ok c (Suc n) (cid + 1) (M(p \<mapsto> x))"
proof -
  let ?st = "cfg_SubStartID c + correlationIDOffset"
  from ok have cnt: "counted ?st n cid (corrs M)" by (simp add: corr_ok_def)
  from counted_fresh [OF cnt n] have fresh: "sub_NotifCorreID y \<noteq> Itoa cid" if "M q = Some y" for q y
    using that corrsI [of M q y] by auto
  have "counted ?st (Suc n) (cid + 1) (corrs (M(p \<mapsto> x)))"
    by (rule counted_bump [OF cnt]) (use corrs_upd [of M p x] x in simp)
  with ok fresh x show ?thesis by (fastforce simp: corr_ok_def)
qed

lemma corr_ok_upd:
  assumes ok: "corr_ok c n cid M"
    and x: "sub_NotifCorreID x = [] \<or> (\<exists>y. M p = Some y \<and> sub_NotifCorreID y = sub_NotifCorreID x)"
  shows "corr_ok c n cid (M(p \<mapsto> x))"
proof -
  have "corrs (M(p \<mapsto> x)) \<subseteq> corrs M"
  proof
    fix d assume "d \<in> corrs (M(p \<mapsto> x))"
    then obtain q y where "(M(p \<mapsto> x)) q = Some y" "d = sub_NotifCorreID y" "d \<noteq> []"
      by (auto simp: corrs_def)
    with x show "d \<in> corrs M"
      by (cases "q = p") (auto intro: corrsI dest: corrsI)
  qed
  with ok have "counted (cfg_SubStartID c + correlationIDOffset) n cid (corrs (M(p \<mapsto> x)))"
    unfolding corr_ok_def by (blast intro: counted_mono)
  with ok x show ?thesis unfolding corr_ok_def by (fastforce split: if_splits)
qed

lemma corr_ok_del: "corr_ok c n cid M \<Longrightarrow> corr_ok c n cid (M(p := None))"
proof -
  have "corrs (M(p := None)) \<subseteq> corrs M" by (auto simp: corrs_def split: if_splits)
  then show "corr_ok c n cid M \<Longrightarrow> ?thesis"
    unfolding corr_ok_def by (auto intro: counted_mono split: if_splits)
qed

subsection \<open>Sessions\<close>

lemma sess_ok_mono: "sess_ok n pcf M \<Longrightarrow> n \<le> n' \<Longrightarrow> sess_ok n' pcf M"
  unfolding sess_ok_def by (meson order_trans)

lemma sess_ok_same:
  assumes "sess_ok n pcf M" and "\<And>q key. pcf_sub M' q key = pcf_sub M q key"
  shows "sess_ok n pcf M'"
  using assms unfolding sess_ok_def by simp

lemma pcf_sub_upd:
  "pcf_sub (M(p \<mapsto> x)) q key =
     (if q = p then sub_NEFSBPut x = FnPCF \<and> pcf_key (sub_appSessionID x) = key else pcf_sub M q key)"
  "pcf_sub (M(p := None)) q key = (q \<noteq> p \<and> pcf_sub M q key)"
  by (auto simp: pcf_sub_def)

lemma pcf_len:
  "pcf_wf pcf \<Longrightarrow> PolicyAuthorizationCreate pcf asc = (pcf', sid, r, e) \<Longrightarrow>
     gm_len (paDb pcf') \<le> Suc (gm_len (paDb pcf))"
  "pcf_wf pcf \<Longrightarrow> PolicyAuthorizationDelete pcf sid = (pcf', r, e) \<Longrightarrow>
     gm_len (paDb pcf') \<le> gm_len (paDb pcf)"
  "pcf_wf pcf \<Longrightarrow> PolicyAuthorizationUpdate pcf u sid = (pcf', r, e) \<Longrightarrow>
     gm_len (paDb pcf') = gm_len (paDb pcf)"
  by (auto simp: PolicyAuthorizationCreate_def PolicyAuthorizationDelete_def
      PolicyAuthorizationUpdate_def Let_def pcf_wf_def gm.len_put_le gm.len_del_le gm.len_put_old
      split: option.splits)

lemma sess_ok_create:
  assumes ok: "sess_ok n pcf M" and n: "n < 2 ^ 64"
    and cr: "PolicyAuthorizationCreate pcf asc = (pcf', sid, r, e)"
    and new: "M p = None" and x: "sub_NEFSBPut x = FnPCF" "sub_appSessionID x = sid"
  shows "sess_ok (Suc n) pcf' (M(p \<mapsto> x))"
proof -
  have wf: "pcf_wf pcf" and room: "pcf_room pcf"
    using ok n by (auto simp: sess_ok_def pcf_room_def)
  note spec = pcf.create_spec [OF wf room cr]
  have "gm_len (paDb pcf') \<le> Suc n"
    using pcf_len(1) [OF wf cr] ok by (simp add: sess_ok_def)
  moreover have fresh: "\<not> pcf_sub M q (pcf_key sid)" "\<not> pcf_sub M p key" for q key
    using ok spec new unfolding sess_ok_def pcf_sub_def by fastforce+
  have "pcf_session pcf' key \<noteq> None \<longleftrightarrow> (\<exists>q. pcf_sub (M(p \<mapsto> x)) q key)" for key
  proof (cases "key = pcf_key sid")
    case True
    with spec x show ?thesis by (auto simp: pcf_sub_upd)
  next
    case False
    with spec have "pcf_session pcf' key = pcf_session pcf key" by simp
    with ok False fresh(2) x show ?thesis unfolding sess_ok_def pcf_sub_upd by metis
  qed
  ultimately show ?thesis
    using ok spec x fresh unfolding sess_ok_def pcf_sub_upd by (auto split: if_splits)
qed

lemma sess_ok_delete:
  assumes ok: "sess_ok n pcf M" and del: "PolicyAuthorizationDelete pcf sid = (pcf', r, e)"
    and p: "M p = Some x" "sub_NEFSBPut x = FnPCF" "sub_appSessionID x = sid"
  shows "sess_ok n pcf' (M(p := None))"
proof -
  have wf: "pcf_wf pcf" using ok by (simp add: sess_ok_def)
  note spec = pcf.remove_spec [OF wf del]
  have "gm_len (paDb pcf') \<le> n"
    using pcf_len(2) [OF wf del] ok by (simp add: sess_ok_def)
  moreover have here: "pcf_sub M p (pcf_key sid)" "pcf_sub M p key \<Longrightarrow> key = pcf_key sid" for key
    using p by (auto simp: pcf_sub_def)
  have "pcf_session pcf' key \<noteq> None \<longleftrightarrow> (\<exists>q. pcf_sub (M(p := None)) q key)" for key
  proof (cases "key = pcf_key sid")
    case True
    with spec have "pcf_session pcf' key = None" by simp
    moreover have "q = p" if "pcf_sub M q key" for q
      using that here(1) True ok unfolding sess_ok_def by blast
    ultimately show ?thesis by (auto simp: pcf_sub_upd)
  next
    case False
    with spec have "pcf_session pcf' key = pcf_session pcf key" by simp
    with ok False here(2) show ?thesis unfolding sess_ok_def pcf_sub_upd by metis
  qed
  ultimately show ?thesis
    using ok spec unfolding sess_ok_def pcf_sub_upd by blast
qed

lemma sess_ok_modify:
  assumes ok: "sess_ok n pcf M" and upd: "PolicyAuthorizationUpdate pcf u sid = (pcf', r, e)"
  shows "sess_ok n pcf' M"
proof -
  have wf: "pcf_wf pcf" using ok by (simp add: sess_ok_def)
  note spec = pcf.modify_spec [OF wf upd]
  have "pcf_session pcf' key = None \<longleftrightarrow> pcf_session pcf key = None" for key
    using spec by (cases "key = pcf_key sid") (auto split: option.splits)
  with pcf_len(3) [OF wf upd] ok spec show ?thesis unfolding sess_ok_def by simp
qed

subsection \<open>The table under the operations\<close>

lemma tab_inv_clients [simp]:
  "tab_inv c n (set_pcf p s) = tab_inv c n s" "tab_inv c n (set_udr u s) = tab_inv c n s"
  "tab_inv c n (inc_corrID s) = tab_inv c n s"
  by (simp_all add: tab_inv_def)

lemma af_ok_bump_sub: "af_ok c n k a \<Longrightarrow> af_ok c (Suc n) k (a\<lparr>af_subIDnum := af_subIDnum a + 1\<rparr>)"
  unfolding af_ok_def by (auto intro: counted_bump counted_mono)

lemma af_ok_add_sub:
  assumes ok: "af_ok c n k a" and room: "int (gm_len (af_subs a)) < sint (cfg_MaxSubSupport c)"
  shows "af_ok c (Suc n) k (a\<lparr>af_subIDnum := af_subIDnum a + 1,
    af_subs := gm_put (Itoa (af_subIDnum a)) x (af_subs a)\<rparr>)"
proof -
  have "int (gm_len (gm_put (Itoa (af_subIDnum a)) x (af_subs a))) \<le> max 0 (sint (cfg_MaxSubSupport c))"
    using gm.len_put_le [of "af_subs a" "Itoa (af_subIDnum a)" x] ok room by (simp add: af_ok_def)
  with ok show ?thesis
    unfolding af_ok_def by (auto simp: gm.dom_put intro: counted_bump counted_mono)
qed

lemma af_ok_set_sub:
  "af_ok c n k a \<Longrightarrow> gm_get (af_subs a) i = Some y \<Longrightarrow> af_ok c n k (a\<lparr>af_subs := gm_put i x (af_subs a)\<rparr>)"
  unfolding af_ok_def by (auto simp: gm.dom_put gm.len_put_old insert_absorb domI)

lemma af_ok_del_sub: "af_ok c n k a \<Longrightarrow> af_ok c n k (a\<lparr>af_subs := gm_del i (af_subs a)\<rparr>)"
  using gm.len_del_le [of "af_subs a" i]
  unfolding af_ok_def by (auto simp: gm.dom_del intro: counted_mono)

lemma tab_inv_bump_sub: "tab_inv c n s \<Longrightarrow> tab_inv c (Suc n) (bump_sub k s)"
  unfolding bump_sub_def by (rule tab_inv_upd) (auto intro: af_ok_bump_sub dest: tab_invD)

lemma put_bump_sub:
  assumes "nefGetAf (ctx_nef s) k = Some a" and "nef_afs (ctx_nef t) = nef_afs (ctx_nef (bump_sub k s))"
  shows "nef_afs (ctx_nef (put_sub k i x t)) = nef_afs (ctx_nef (upd_af k (\<lambda>a. a\<lparr>af_subIDnum :=
    af_subIDnum a + 1, af_subs := gm_put i x (af_subs a)\<rparr>) s))"
  using assms by (simp add: put_sub_def bump_sub_def upd_af_def nefGetAf_def)

lemma tab_inv_cong:
  "tab_inv c n s \<Longrightarrow> nef_afs (ctx_nef t) = nef_afs (ctx_nef s) \<Longrightarrow> ctx_cfg t = ctx_cfg s \<Longrightarrow>
   nef_locationURLPrefix (ctx_nef t) = nef_locationURLPrefix (ctx_nef s) \<Longrightarrow>
   nef_locationURLPrefixPfd (ctx_nef t) = nef_locationURLPrefixPfd (ctx_nef s) \<Longrightarrow> tab_inv c n t"
  by (simp add: tab_inv_def nefGetAf_def)

lemma tab_inv_add_sub:
  assumes inv: "tab_inv c n s" and af: "nefGetAf (ctx_nef s) k = Some a" and room: "sub_room s a"
    and t: "nef_afs (ctx_nef t) = nef_afs (ctx_nef (bump_sub k s))" "ctx_cfg t = ctx_cfg s"
      "nef_locationURLPrefix (ctx_nef t) = nef_locationURLPrefix (ctx_nef s)"
      "nef_locationURLPrefixPfd (ctx_nef t) = nef_locationURLPrefixPfd (ctx_nef s)"
  shows "tab_inv c (Suc n) (put_sub k (Itoa (af_subIDnum a)) x t)"
proof -
  have cfg: "ctx_cfg s = c" using inv by (simp add: tab_inv_def)
  have "tab_inv c (Suc n) (upd_af k (\<lambda>b. b\<lparr>af_subIDnum := af_subIDnum b + 1,
      af_subs := gm_put (Itoa (af_subIDnum a)) x (af_subs b)\<rparr>) s)"
    by (rule tab_inv_upd [OF inv])
      (use af af_ok_add_sub [OF tab_invD [OF inv af]] room cfg in \<open>auto simp: sub_room_def\<close>)
  then show ?thesis
    by (rule tab_inv_cong [OF _ put_bump_sub [OF af t(1)]])
      (simp_all add: put_sub_def t)
qed

lemma tab_inv_put_sub:
  "tab_inv c n s \<Longrightarrow> sub_at s (k, i) = Some y \<Longrightarrow> tab_inv c n (put_sub k i x s)"
  unfolding put_sub_def
  by (rule tab_inv_upd) (auto dest!: sub_at_SomeD intro: af_ok_set_sub dest: tab_invD)

lemma tab_inv_del_sub:
  "tab_inv c n s \<Longrightarrow> tab_inv c n (upd_af k (\<lambda>a. a\<lparr>af_subs := gm_del i (af_subs a)\<rparr>) s)"
  by (rule tab_inv_upd) (auto intro: af_ok_del_sub dest: tab_invD)

section \<open>The invariant under the operations\<close>

lemma corr_ok_put:
  assumes "corr_ok c n cid M" and "n < 2 ^ 64"
    and "w \<Longrightarrow> sub_NotifCorreID x = Itoa cid"
    and "\<not> w \<Longrightarrow> sub_NotifCorreID x = [] \<or> (\<exists>y. M p = Some y \<and> sub_NotifCorreID y = sub_NotifCorreID x)"
  shows "corr_ok c (Suc n) (if w then cid + 1 else cid) (M(p \<mapsto> x))"
  using corr_ok_new [OF assms(1-3)] corr_ok_mono [OF corr_ok_upd [OF assms(1,4)], of "Suc n"]
  by auto

lemma ti_inv_mono: "ti_inv c n s \<Longrightarrow> n \<le> n' \<Longrightarrow> ti_inv c n' s"
  unfolding ti_inv_def by (blast intro: corr_ok_mono sess_ok_mono)

lemma ti_inv_cong:
  "ti_inv c n s \<Longrightarrow> sub_at t = sub_at s \<Longrightarrow> nef_corrID (ctx_nef t) = nef_corrID (ctx_nef s) \<Longrightarrow>
   nef_pcfClient (ctx_nef t) = nef_pcfClient (ctx_nef s) \<Longrightarrow> ti_inv c n t"
  by (simp add: ti_inv_def)

lemma put_sub_clients [simp]:
  "nef_corrID (ctx_nef (put_sub k i x s)) = nef_corrID (ctx_nef s)"
  "nef_pcfClient (ctx_nef (put_sub k i x s)) = nef_pcfClient (ctx_nef s)"
  "nef_udrClient (ctx_nef (put_sub k i x s)) = nef_udrClient (ctx_nef s)"
  "nef_udrPfdClient (ctx_nef (put_sub k i x s)) = nef_udrPfdClient (ctx_nef s)"
  "ctx_cfg (put_sub k i x s) = ctx_cfg s"
  "ctx_TestNEFSB (put_sub k i x s) = ctx_TestNEFSB s"
  "ctx_TestClient (put_sub k i x s) = ctx_TestClient s"
  by (simp_all add: put_sub_def)

text \<open>The identifier the code draws for a new subscription is not in use.\<close>

lemma new_sub_fresh:
  assumes "tab_inv c n s" and "nefGetAf (ctx_nef s) k = Some a" and "n < 2 ^ 64"
  shows "sub_at s (k, Itoa (af_subIDnum a)) = None"
proof -
  from tab_invD [OF assms(1,2)]
  have "counted (cfg_SubStartID c) n (af_subIDnum a) (dom (gm_get (af_subs a)))" by (simp add: af_ok_def)
  from counted_fresh [OF this assms(3)] show ?thesis by (simp add: sub_at_af [OF assms(2)] domIff)
qed

lemma newSub_sel [simp]:
  "sub_NotifCorreID (newSub fn i ti loc corr sid) = corr" "sub_NEFSBPut (newSub fn i ti loc corr sid) = fn"
  "sub_appSessionID (newSub fn i ti loc corr sid) = sid" "sub_subid (newSub fn i ti loc corr sid) = i"
  "sub_ti (newSub fn i ti loc corr sid) = ti\<lparr>ti_Self := loc\<rparr>"
  by (simp_all add: newSub_def)

lemma sub_ok_newSub:
  assumes "tab_inv c n s" and "nefGetAf (ctx_nef s) k = Some a" and "fn \<noteq> FnNil"
    and "fn = FnPCF \<Longrightarrow> corr \<noteq> []"
  shows "sub_ok c (k, i) (newSub fn i ti (subLocation s a i) corr sid)"
  using assms tab_invD [OF assms(1,2)]
  by (simp add: sub_ok_def newSub_def subLocation_def tab_inv_def af_ok_def)

lemma afAddSubscription_inv:
  assumes tab: "tab_inv c n s" and ti: "ti_inv c n s" and n: "n < 2 ^ 64"
    and af: "nefGetAf (ctx_nef s) k = Some a"
  shows "tab_inv c (Suc n) (go_state (afAddSubscription k s ti0)) \<and>
    ti_inv c (Suc n) (go_state (afAddSubscription k s ti0))"
proof -
  note fresh = new_sub_fresh [OF tab af n]
  note up = tab_inv_mono [OF tab, of "Suc n"] ti_inv_mono [OF ti, of "Suc n"]
  have corr: "corr_ok c n (nef_corrID (ctx_nef s)) (sub_at s)"
    and sess: "sess_ok n (nef_pcfClient (ctx_nef s)) (sub_at s)"
    and subs: "\<forall>p x. sub_at s p = Some x \<longrightarrow> sub_ok c p x" using ti by (auto simp: ti_inv_def)
  show ?thesis using af
  proof (cases rule: afAddSubscription_cases [where ti = ti0])
    case full
    with up show ?thesis by simp
  next
    case invalid
    with tab_inv_bump_sub [OF tab] ti_inv_cong [OF up(2), of "bump_sub k s"] show ?thesis by simp
  next
    case (panic t)
    have "ti_inv c (Suc n) (inc_corrID (bump_sub k s))"
      using subs corr_ok_inc [OF corr] sess_ok_mono [OF sess] by (simp add: ti_inv_def)
    with panic tab_inv_bump_sub [OF tab] ti_inv_cong [OF up(2), of "bump_sub k s"] show ?thesis by auto
  next
    case (pcf asc p sid r rsp)
    let ?x = "newSub FnPCF (Itoa (af_subIDnum a)) ti0 (subLocation s a (Itoa (af_subIDnum a)))
      (Itoa (nef_corrID (ctx_nef s))) sid"
    let ?t = "put_sub k (Itoa (af_subIDnum a)) ?x (set_pcf p (inc_corrID (bump_sub k s)))"
    have "ti_inv c (Suc n) ?t"
      using af subs corr_ok_new [OF corr n] sess_ok_create [OF sess n pcf(3) fresh]
      by (auto simp: ti_inv_def sub_at_put_sub intro: sub_ok_newSub [OF tab af])
    moreover have "tab_inv c (Suc n) ?t" by (rule tab_inv_add_sub [OF tab af pcf(1)]) simp_all
    ultimately show ?thesis using pcf(4) by simp
  next
    case (udr u rsp)
    let ?w = "wantsUpPathChange ti0"
    let ?x = "newSub FnUDR (Itoa (af_subIDnum a)) ti0 (subLocation s a (Itoa (af_subIDnum a)))
      (if ?w then Itoa (nef_corrID (ctx_nef s)) else []) []"
    let ?t = "set_udr u (if ?w then inc_corrID (bump_sub k s) else bump_sub k s)"
    have "sess_ok n (nef_pcfClient (ctx_nef s)) ((sub_at s)((k, Itoa (af_subIDnum a)) \<mapsto> ?x))"
      by (rule sess_ok_same [OF sess]) (use fresh in \<open>auto simp: pcf_sub_def\<close>)
    moreover have "corr_ok c (Suc n) (nef_corrID (ctx_nef ?t)) ((sub_at s)((k, Itoa (af_subIDnum a)) \<mapsto> ?x))"
      using corr_ok_put [OF corr n, of ?w ?x "(k, Itoa (af_subIDnum a))"]
      by (auto split: if_splits)
    ultimately have "ti_inv c (Suc n) (put_sub k (Itoa (af_subIDnum a)) ?x ?t)"
      using af subs by (auto simp: ti_inv_def sub_at_put_sub
          intro: sub_ok_newSub [OF tab af] sess_ok_mono)
    moreover have "tab_inv c (Suc n) (put_sub k (Itoa (af_subIDnum a)) ?x ?t)"
      by (rule tab_inv_add_sub [OF tab af udr(1)]) simp_all
    ultimately show ?thesis using udr(4) by simp
  qed
qed

section \<open>Changing and deleting a subscription\<close>

lemma put_sub_id:
  assumes "sub_at s (k, i) = Some x"
  shows "put_sub k i x s = s"
proof -
  from sub_at_SomeD [OF assms] obtain a where a: "nefGetAf (ctx_nef s) k = Some a" "gm_get (af_subs a) i = Some x"
    by blast
  then have "a\<lparr>af_subs := gm_put i x (af_subs a)\<rparr> = a" by (simp add: gm_put_id)
  with a(1) show ?thesis
    by (simp add: put_sub_def upd_af_def nefGetAf_def gm_put_id set_afs_def)
qed

lemma afUpdateSubscription_pcf:
  assumes "sub_at s (k, i) = Some x" and "sub_NEFSBPut x = FnPCF"
  shows "afUpdateSubscription k s i ti = Ret s (rsp_zero, ti_zero, Some ''PUT Method Not Supported'')"
  using sub_at_SomeD [OF assms(1)] assms(2) put_sub_id [OF assms(1)]
  by (auto simp: afUpdateSubscription_def nefSBPCFPut_def)

lemma afUpdateSubscription_udr:
  assumes at: "sub_at s (k, i) = Some x" and fn: "sub_NEFSBPut x = FnUDR"
  obtains (panic) "\<not> svc_ok (ctx_cfg s)" "afUpdateSubscription k s i ti = Panic s"
  | (stored) u rsp where
    "rsp_errorCode rsp \<in> {200, 201}"
    "afUpdateSubscription k s i ti =
       Ret (put_sub k i (x\<lparr>sub_NotifCorreID := (if wantsUpPathChange ti
              then Itoa (nef_corrID (ctx_nef s)) else sub_NotifCorreID x),
              sub_ti := ti\<lparr>ti_Self := ti_Self (sub_ti x)\<rparr>\<rparr>)
             (set_udr u (if wantsUpPathChange ti then inc_corrID s else s)))
         (rsp, ti\<lparr>ti_Self := ti_Self (sub_ti x)\<rparr>, None)"
proof -
  from sub_at_SomeD [OF at] obtain a where a: "nefGetAf (ctx_nef s) k = Some a" "gm_get (af_subs a) i = Some x"
    by blast
  show thesis
  proof (cases "nefSBUDRPut x s ti")
    case (Panic t)
    with nefSBUDRPut_Panic [OF Panic] a fn show ?thesis
      by (intro panic) (simp_all add: afUpdateSubscription_def)
  next
    case (Ret t y)
    obtain x' rsp e where y: "y = (x', rsp, e)" by (cases y)
    from nefSBUDRPut_Ret [OF Ret [unfolded y]] Ret y a fn show ?thesis
      by (auto intro!: stored simp: afUpdateSubscription_def Let_def)
  qed
qed

text \<open>The clients of the code return no error; the code of their response is not an error either.\<close>

definition sbOutcome :: "16 word \<Rightarrow> ProblemDetails option \<Rightarrow> nefSBRspData" where
  "sbOutcome code pd = (if sbFailed code then sbRsp code pd else sbOk code)"

lemma stub_no_err:
  "snd (snd (PolicyAuthorizationUpdate p b i)) = None" "snd (snd (PolicyAuthorizationDelete p i)) = None"
  "snd (snd (UdrInfluenceDataUpdate u d j)) = None" "snd (snd (UdrInfluenceDataDelete u j)) = None"
  by (simp_all add: sb_stub_defs split: option.split)

lemma nefSBPCFPatch_eq:
  "PolicyAuthorizationUpdate (nef_pcfClient (ctx_nef s)) (pcfUpdateData x s tisp) (sub_appSessionID x) =
     (p, r, e) \<Longrightarrow>
   nefSBPCFPatch x s tisp = Ret (set_pcf p s) (sbOutcome (pr_ResponseCode r) (pr_Pd r), None) \<and> e = None"
  using stub_no_err(1) [of "nef_pcfClient (ctx_nef s)" "pcfUpdateData x s tisp" "sub_appSessionID x"]
  by (simp add: nefSBPCFPatch_def sbOutcome_def)

lemma nefSBUDRPatch_eq:
  "UdrInfluenceDataUpdate (nef_udrClient (ctx_nef s)) (udrTrafficInfluDataPatch tisp) (sub_iid x) =
     (u, r, e) \<Longrightarrow>
   nefSBUDRPatch x s tisp = Ret (set_udr u s) (sbOutcome (ur_ResponseCode r) (ur_Pd r), None)"
  using stub_no_err(3) [of "nef_udrClient (ctx_nef s)" "udrTrafficInfluDataPatch tisp" "sub_iid x"]
  by (simp add: nefSBUDRPatch_def sbOutcome_def)

lemma nefSBPCFDelete_eq:
  "PolicyAuthorizationDelete (nef_pcfClient (ctx_nef s)) (sub_appSessionID x) = (p, r, e) \<Longrightarrow>
   nefSBPCFDelete x s = Ret (set_pcf p s) (sbOutcome (pr_ResponseCode r) (pr_Pd r), None) \<and> e = None"
  using stub_no_err(2) [of "nef_pcfClient (ctx_nef s)" "sub_appSessionID x"]
  by (simp add: nefSBPCFDelete_def sbOutcome_def)

lemma nefSBUDRDelete_eq:
  "UdrInfluenceDataDelete (nef_udrClient (ctx_nef s)) (sub_iid x) = (u, r, e) \<Longrightarrow>
   nefSBUDRDelete x s = Ret (set_udr u s) (sbOutcome (ur_ResponseCode r) (ur_Pd r), None)"
  using stub_no_err(4) [of "nef_udrClient (ctx_nef s)" "sub_iid x"]
  by (simp add: nefSBUDRDelete_def sbOutcome_def)

lemma afPartialUpdateSubscription_eq:
  assumes at: "sub_at s (k, i) = Some x" and ok: "sub_ok c (k, i) x"
  obtains t rsp where "t = s \<or> (\<exists>u. t = set_udr u s) \<or>
      (\<exists>p b r. PolicyAuthorizationUpdate (nef_pcfClient (ctx_nef s)) b (sub_appSessionID x) = (p, r, None) \<and>
        t = set_pcf p s)"
    "afPartialUpdateSubscription k s i tisp =
       Ret (put_sub k i (x\<lparr>sub_ti := updateTiFromTisp (sub_ti x) tisp\<rparr>) t)
         (rsp, updateTiFromTisp (sub_ti x) tisp, None)"
proof -
  from sub_at_SomeD [OF at] obtain a where a: "nefGetAf (ctx_nef s) k = Some a" "gm_get (af_subs a) i = Some x"
    by blast
  show thesis
  proof (cases "sub_NEFSBPut x")
    case FnNil
    with ok show ?thesis by (simp add: sub_ok_def)
  next
    case FnPCF
    obtain p r e where u: "PolicyAuthorizationUpdate (nef_pcfClient (ctx_nef s))
      (pcfUpdateData x s tisp) (sub_appSessionID x) = (p, r, e)" by (metis prod_cases3)
    from FnPCF ok a u nefSBPCFPatch_eq [OF u] show ?thesis
      by (intro that) (auto simp: afPartialUpdateSubscription_def Let_def sub_ok_def)
  next
    case FnUDR
    obtain u r e where "UdrInfluenceDataUpdate (nef_udrClient (ctx_nef s))
      (udrTrafficInfluDataPatch tisp) (sub_iid x) = (u, r, e)" by (metis prod_cases3)
    from FnUDR ok a nefSBUDRPatch_eq [OF this] show ?thesis
      by (intro that) (auto simp: afPartialUpdateSubscription_def Let_def sub_ok_def)
  qed
qed

definition del_sub :: "string \<Rightarrow> string \<Rightarrow> nefContext \<Rightarrow> nefContext" where
  "del_sub k i s = upd_af k (\<lambda>a. a\<lparr>af_subs := gm_del i (af_subs a)\<rparr>) s"

lemma afDeleteSubscription_eq:
  assumes at: "sub_at s (k, i) = Some x" and ok: "sub_ok c (k, i) x"
  obtains (pcf) p r rsp where "sub_NEFSBPut x = FnPCF"
    "PolicyAuthorizationDelete (nef_pcfClient (ctx_nef s)) (sub_appSessionID x) = (p, r, None)"
    "afDeleteSubscription k s i = Ret (del_sub k i (set_pcf p s)) (rsp, None)"
  | (udr) u rsp where "sub_NEFSBPut x = FnUDR"
    "afDeleteSubscription k s i = Ret (del_sub k i (set_udr u s)) (rsp, None)"
proof -
  from sub_at_SomeD [OF at] obtain a where a: "nefGetAf (ctx_nef s) k = Some a" "gm_get (af_subs a) i = Some x"
    by blast
  show thesis
  proof (cases "sub_NEFSBPut x")
    case FnNil
    with ok show ?thesis by (simp add: sub_ok_def)
  next
    case FnPCF
    obtain p r e where u: "PolicyAuthorizationDelete (nef_pcfClient (ctx_nef s))
      (sub_appSessionID x) = (p, r, e)" by (metis prod_cases3)
    from FnPCF ok a u nefSBPCFDelete_eq [OF u] show ?thesis
      by (intro pcf) (auto simp: afDeleteSubscription_def sub_ok_def del_sub_def)
  next
    case FnUDR
    obtain u r e where "UdrInfluenceDataDelete (nef_udrClient (ctx_nef s)) (sub_iid x) = (u, r, e)"
      by (metis prod_cases3)
    from FnUDR ok a nefSBUDRDelete_eq [OF this] show ?thesis
      by (intro udr) (auto simp: afDeleteSubscription_def sub_ok_def del_sub_def)
  qed
qed

section \<open>The handlers keep the invariant\<close>

lemma del_sub_sel [simp]:
  "nef_corrID (ctx_nef (del_sub k i s)) = nef_corrID (ctx_nef s)"
  "nef_pcfClient (ctx_nef (del_sub k i s)) = nef_pcfClient (ctx_nef s)"
  "nef_udrClient (ctx_nef (del_sub k i s)) = nef_udrClient (ctx_nef s)"
  "nef_udrPfdClient (ctx_nef (del_sub k i s)) = nef_udrPfdClient (ctx_nef s)"
  "ctx_cfg (del_sub k i s) = ctx_cfg s"
  "ctx_TestNEFSB (del_sub k i s) = ctx_TestNEFSB s"
  "ctx_TestClient (del_sub k i s) = ctx_TestClient s"
  "nefGetAf (ctx_nef (del_sub k i s)) k' =
     (if k' = k then map_option (\<lambda>a. a\<lparr>af_subs := gm_del i (af_subs a)\<rparr>) (nefGetAf (ctx_nef s) k)
      else nefGetAf (ctx_nef s) k')"
  by (simp_all add: del_sub_def)

lemma tab_inv_del_sub' [simp]: "tab_inv c n s \<Longrightarrow> tab_inv c n (del_sub k i s)"
  unfolding del_sub_def by (rule tab_inv_del_sub)

lemma sub_at_del_sub' [simp]:
  "nefGetAf (ctx_nef s) k = Some a \<Longrightarrow> sub_at (del_sub k i s) = (sub_at s)((k, i) := None)"
  unfolding del_sub_def by (rule sub_at_del_sub)

definition sub_inv :: "Config \<Rightarrow> nat \<Rightarrow> nefContext \<Rightarrow> bool" where
  "sub_inv c n s \<longleftrightarrow> tab_inv c n s \<and> ti_inv c n s"

lemma sub_inv_Suc: "sub_inv c n s \<Longrightarrow> sub_inv c (Suc n) s"
  unfolding sub_inv_def using tab_inv_mono [of c n s "Suc n"] ti_inv_mono [of c n s "Suc n"] by simp

lemma sub_inv_okD: "sub_inv c n s \<Longrightarrow> sub_at s p = Some x \<Longrightarrow> sub_ok c p x"
  unfolding sub_inv_def ti_inv_def by blast

lemma createNewSub_inv:
  assumes inv: "sub_inv c n s" and n: "n < 2 ^ 64"
  shows "sub_inv c (Suc n) (go_state (createNewSub s k ti))"
proof (cases "nefGetAf (ctx_nef s) k = None \<and> \<not> af_room s")
  case True
  with sub_inv_Suc [OF inv] show ?thesis by (simp add: createNewSub_eq)
next
  case False
  have tab: "tab_inv c n (ensure_af k s)" using inv False by (intro tab_inv_ensure) (auto simp: sub_inv_def)
  have "ti_inv c n (ensure_af k s)" using inv by (auto simp: sub_inv_def intro: ti_inv_cong)
  from afAddSubscription_inv [OF tab this n nefGetAf_ensure] False show ?thesis
    by (auto simp: createNewSub_eq sub_inv_def)
qed

lemma Create_state:
  "go_state (CreateTrafficInfluenceSubscription k b s w) =
     (case b of Decoded ti \<Rightarrow> if snd (validateAFTrafficInfluenceData ti)
        then go_state (createNewSub s k ti) else s | _ \<Rightarrow> s)"
  by (cases "createNewSub s k (case b of Decoded ti \<Rightarrow> ti)")
    (auto simp: CreateTrafficInfluenceSubscription_def split: rbody.splits bool.splits option.splits prod.splits)

lemma afUpdate_missing:
  "nefGetAf (ctx_nef s) k \<noteq> None \<Longrightarrow> sub_at s (k, i) = None \<Longrightarrow>
   afUpdateSubscription k s i ti = Ret s (mkRsp 400 subNotFound, ti_zero, Some subNotFound)"
  by (auto simp: afUpdateSubscription_def sub_at_def split: option.splits)

lemma afUpdateSubscription_inv:
  assumes inv: "sub_inv c n s" and n: "n < 2 ^ 64" and af: "nefGetAf (ctx_nef s) k \<noteq> None"
  shows "sub_inv c (Suc n) (go_state (afUpdateSubscription k s i ti))"
proof (cases "sub_at s (k, i)")
  case None
  with sub_inv_Suc [OF inv] af show ?thesis by (simp add: afUpdate_missing)
next
  case (Some x)
  have ok: "sub_ok c (k, i) x" by (rule sub_inv_okD [OF inv Some])
  from af obtain a where a: "nefGetAf (ctx_nef s) k = Some a" by blast
  from inv have corr: "corr_ok c n (nef_corrID (ctx_nef s)) (sub_at s)"
    and sess: "sess_ok n (nef_pcfClient (ctx_nef s)) (sub_at s)" by (auto simp: sub_inv_def ti_inv_def)
  consider "sub_NEFSBPut x = FnPCF" | "sub_NEFSBPut x = FnUDR"
    using ok by (cases "sub_NEFSBPut x") (auto simp: sub_ok_def)
  then show ?thesis
  proof cases
    case 1
    with sub_inv_Suc [OF inv] afUpdateSubscription_pcf [OF Some] show ?thesis by simp
  next
    case 2
    with Some show ?thesis
    proof (cases rule: afUpdateSubscription_udr [where ti = ti])
      case panic
      with sub_inv_Suc [OF inv] show ?thesis by simp
    next
      case (stored u rsp)
      let ?w = "wantsUpPathChange ti"
      let ?x = "x\<lparr>sub_NotifCorreID := (if ?w then Itoa (nef_corrID (ctx_nef s)) else sub_NotifCorreID x),
        sub_ti := ti\<lparr>ti_Self := ti_Self (sub_ti x)\<rparr>\<rparr>"
      let ?t = "set_udr u (if ?w then inc_corrID s else s)"
      have "sess_ok n (nef_pcfClient (ctx_nef s)) ((sub_at s)((k, i) \<mapsto> ?x))"
        by (rule sess_ok_same [OF sess]) (use Some in \<open>auto simp: pcf_sub_def\<close>)
      moreover have "corr_ok c (Suc n) (nef_corrID (ctx_nef ?t)) ((sub_at s)((k, i) \<mapsto> ?x))"
        using corr_ok_put [OF corr n, of ?w ?x "(k, i)"] Some by (auto split: if_splits)
      moreover have "sub_ok c (k, i) ?x" using ok by (auto simp: sub_ok_def)
      ultimately have "ti_inv c (Suc n) (put_sub k i ?x ?t)"
        using a inv by (auto simp: ti_inv_def sub_inv_def sub_at_put_sub intro: sess_ok_mono)
      moreover have "tab_inv c (Suc n) (put_sub k i ?x ?t)"
        by (rule tab_inv_put_sub) (use inv Some in \<open>auto simp: sub_inv_def intro: tab_inv_mono\<close>)
      ultimately show ?thesis using stored(2) by (simp add: sub_inv_def)
    qed
  qed
qed

lemma updateTi_Self [simp]: "ti_Self (updateTiFromTisp ti tisp) = ti_Self ti"
  by (simp add: updateTiFromTisp_def)

lemma afPartialUpdate_missing:
  "nefGetAf (ctx_nef s) k \<noteq> None \<Longrightarrow> sub_at s (k, i) = None \<Longrightarrow>
   afPartialUpdateSubscription k s i tisp = Ret s (mkRsp 400 subNotFound, ti_zero, Some subNotFound)"
  by (auto simp: afPartialUpdateSubscription_def sub_at_def split: option.splits)

lemma afPartialUpdateSubscription_inv:
  assumes inv: "sub_inv c n s" and af: "nefGetAf (ctx_nef s) k \<noteq> None"
  shows "sub_inv c n (go_state (afPartialUpdateSubscription k s i tisp))"
proof (cases "sub_at s (k, i)")
  case None
  with inv af show ?thesis by (simp add: afPartialUpdate_missing)
next
  case (Some x)
  have ok: "sub_ok c (k, i) x" by (rule sub_inv_okD [OF inv Some])
  from af obtain a where a: "nefGetAf (ctx_nef s) k = Some a" by blast
  from inv have corr: "corr_ok c n (nef_corrID (ctx_nef s)) (sub_at s)"
    and sess: "sess_ok n (nef_pcfClient (ctx_nef s)) (sub_at s)" by (auto simp: sub_inv_def ti_inv_def)
  let ?x = "x\<lparr>sub_ti := updateTiFromTisp (sub_ti x) tisp\<rparr>"
  from Some ok show ?thesis
  proof (cases rule: afPartialUpdateSubscription_eq [where tisp = tisp])
    case (1 t rsp)
    have t: "sub_at t = sub_at s" "nef_corrID (ctx_nef t) = nef_corrID (ctx_nef s)"
      "nefGetAf (ctx_nef t) k = Some a" "tab_inv c n t"
      using 1(1) a inv by (auto simp: sub_inv_def)
    have "sess_ok n (nef_pcfClient (ctx_nef t)) (sub_at s)"
      using 1(1) sess sess_ok_modify [OF sess] by auto
    then have "sess_ok n (nef_pcfClient (ctx_nef t)) ((sub_at s)((k, i) \<mapsto> ?x))"
      by (rule sess_ok_same) (use Some in \<open>auto simp: pcf_sub_def\<close>)
    moreover have "corr_ok c n (nef_corrID (ctx_nef s)) ((sub_at s)((k, i) \<mapsto> ?x))"
      by (rule corr_ok_upd [OF corr]) (use Some in auto)
    moreover have "sub_ok c (k, i) ?x" using ok by (auto simp: sub_ok_def)
    ultimately have "ti_inv c n (put_sub k i ?x t)"
      using t inv by (auto simp: ti_inv_def sub_inv_def sub_at_put_sub)
    with 1(2) tab_inv_put_sub [of c n t k i x ?x] t Some show ?thesis by (simp add: sub_inv_def)
  qed
qed

lemma afDelete_missing:
  "nefGetAf (ctx_nef s) k \<noteq> None \<Longrightarrow> sub_at s (k, i) = None \<Longrightarrow>
   afDeleteSubscription k s i = Ret s (mkRsp 404 subNotFound, Some subNotFound)"
  by (auto simp: afDeleteSubscription_def sub_at_def split: option.splits)

lemma afDeleteSubscription_inv:
  assumes inv: "sub_inv c n s" and af: "nefGetAf (ctx_nef s) k \<noteq> None"
  shows "sub_inv c n (go_state (afDeleteSubscription k s i))"
proof (cases "sub_at s (k, i)")
  case None
  with inv af show ?thesis by (simp add: afDelete_missing)
next
  case (Some x)
  have ok: "sub_ok c (k, i) x" by (rule sub_inv_okD [OF inv Some])
  from af obtain a where a: "nefGetAf (ctx_nef s) k = Some a" by blast
  from inv have corr: "corr_ok c n (nef_corrID (ctx_nef s)) (sub_at s)" and tab: "tab_inv c n s"
    and sess: "sess_ok n (nef_pcfClient (ctx_nef s)) (sub_at s)" by (auto simp: sub_inv_def ti_inv_def)
  from Some ok show ?thesis
  proof (cases rule: afDeleteSubscription_eq)
    case (pcf p r rsp)
    from sess_ok_delete [OF sess pcf(2) Some pcf(1)] a inv tab corr_ok_del [OF corr] pcf(3)
    show ?thesis by (auto simp: sub_inv_def ti_inv_def)
  next
    case (udr u rsp)
    have "sess_ok n (nef_pcfClient (ctx_nef s)) ((sub_at s)((k, i) := None))"
      by (rule sess_ok_same [OF sess]) (use Some udr(1) in \<open>auto simp: pcf_sub_def\<close>)
    with a inv tab corr_ok_del [OF corr] udr(2) show ?thesis by (auto simp: sub_inv_def ti_inv_def)
  qed
qed

lemma ReadAll_state [simp]: "go_state (ReadAllTrafficInfluenceSubscription k s w) = s"
  by (simp add: ReadAllTrafficInfluenceSubscription_def split: option.split prod.split)

lemma Read_state [simp]: "go_state (ReadTrafficInfluenceSubscription k i s w) = s"
  by (simp add: ReadTrafficInfluenceSubscription_def split: option.split prod.split)

lemma UpdatePut_state:
  "go_state (UpdatePutTrafficInfluenceSubscription k i b s w) =
     (case b of Decoded ti \<Rightarrow> if nefGetAf (ctx_nef s) k = None then s
        else go_state (afUpdateSubscription k s i ti) | _ \<Rightarrow> s)"
  by (auto simp: UpdatePutTrafficInfluenceSubscription_def intro!: go_state_bind
      split: option.split rbody.split prod.split)

lemma UpdatePatch_state:
  "go_state (UpdatePatchTrafficInfluenceSubscription k i b s w) =
     (case b of Decoded ti \<Rightarrow> if nefGetAf (ctx_nef s) k = None then s
        else go_state (afPartialUpdateSubscription k s i ti) | _ \<Rightarrow> s)"
  by (auto simp: UpdatePatchTrafficInfluenceSubscription_def intro!: go_state_bind
      split: option.split rbody.split prod.split)

lemma NotifySmf_state [simp]: "go_state (NotifySmfUPFEvent b s w) = s"
  by (simp add: NotifySmfUPFEvent_def split: rbody.split option.split)

lemma DeleteTI_cases:
  assumes inv: "sub_inv c n s"
  obtains (no_af) "nefGetAf (ctx_nef s) k = None"
    "DeleteTrafficInfluenceSubscription k i s w =
       Ret s (sendCustomeErrorRspToAF w 404 ''Failed to find AF entry'')"
  | (no_sub) "nefGetAf (ctx_nef s) k \<noteq> None" "sub_at s (k, i) = None"
    "DeleteTrafficInfluenceSubscription k i s w =
       Ret s (sendErrorResponseToAF w (mkRsp 404 subNotFound))"
  | (deleted) a x t u where "nefGetAf (ctx_nef s) k = Some a" "sub_at s (k, i) = Some x"
    "nef_afs (ctx_nef t) = nef_afs (ctx_nef s)" "ctx_cfg t = ctx_cfg s"
    "sub_inv c n (del_sub k i t)"
    "nef_corrID (ctx_nef t) = nef_corrID (ctx_nef s)" "nef_udrPfdClient (ctx_nef t) = nef_udrPfdClient (ctx_nef s)"
    "sub_NEFSBPut x = FnPCF \<Longrightarrow> nef_udrClient (ctx_nef t) = nef_udrClient (ctx_nef s) \<and>
       (\<exists>r e. PolicyAuthorizationDelete (nef_pcfClient (ctx_nef s)) (sub_appSessionID x) =
          (nef_pcfClient (ctx_nef t), r, e))"
    "sub_NEFSBPut x = FnUDR \<Longrightarrow> nef_pcfClient (ctx_nef t) = nef_pcfClient (ctx_nef s)"
    "DeleteTrafficInfluenceSubscription k i s w = Ret u (rwWriteHeader 204 w)"
    "u = (if gm_len (gm_del i (af_subs a)) = 0 then fst (nefDeleteAf (del_sub k i t) k)
          else del_sub k i t)"
proof (cases "nefGetAf (ctx_nef s) k")
  case None
  then show ?thesis by (intro no_af) (simp_all add: DeleteTrafficInfluenceSubscription_def)
next
  case (Some a)
  note af = Some
  show ?thesis
  proof (cases "sub_at s (k, i)")
    case None
    with af show ?thesis
      by (intro no_sub) (simp_all add: DeleteTrafficInfluenceSubscription_def afDelete_missing)
  next
    case (Some x)
    have fin: "DeleteTrafficInfluenceSubscription k i s w =
        Ret (if gm_len (gm_del i (af_subs a)) = 0 then fst (nefDeleteAf (del_sub k i t) k)
             else del_sub k i t) (rwWriteHeader 204 w)"
      if "afDeleteSubscription k s i = Ret (del_sub k i t) (rsp, None)"
        "nef_afs (ctx_nef t) = nef_afs (ctx_nef s)" for t rsp
    proof -
      have "nefGetAf (ctx_nef t) k = Some a" using that(2) af by (simp add: nefGetAf_def)
      with that(1) af show ?thesis
        by (simp add: DeleteTrafficInfluenceSubscription_def Let_def afGetSubCount_def)
    qed
    have inv': "sub_inv c n (go_state (afDeleteSubscription k s i))"
      by (rule afDeleteSubscription_inv [OF inv]) (simp add: af)
    from Some sub_inv_okD [OF inv Some] show ?thesis
    proof (cases rule: afDeleteSubscription_eq)
      case (pcf p r rsp)
      with inv' show ?thesis
        by (intro deleted [of a x "set_pcf p s"]) (auto simp: af Some fin)
    next
      case (udr v rsp)
      with inv' show ?thesis
        by (intro deleted [of a x "set_udr v s"]) (auto simp: af Some fin)
    qed
  qed
qed

lemma DeleteTI_inv:
  assumes inv: "sub_inv c n s"
  shows "sub_inv c n (go_state (DeleteTrafficInfluenceSubscription k i s w))"
  using inv
proof (cases rule: DeleteTI_cases [where k = k and i = i and w = w])
  case (deleted a x t u)
  let ?d = "del_sub k i t"
  have d: "nefGetAf (ctx_nef ?d) k = Some (a\<lparr>af_subs := gm_del i (af_subs a)\<rparr>)"
    using deleted(1,3) nefGetAf_def [of "ctx_nef t" k] nefGetAf_def [of "ctx_nef s" k] by simp
  have "sub_inv c n (fst (nefDeleteAf ?d k))" if "gm_len (gm_del i (af_subs a)) = 0"
    using deleted(5) sub_at_deleteAf [OF d] that tab_inv_deleteAf
    by (auto simp: sub_inv_def intro: ti_inv_cong)
  with deleted(5,10,11) show ?thesis by simp
qed (use inv in simp_all)

theorem ti_handlers_inv:
  assumes inv: "sub_inv c n s" and n: "n < 2 ^ 64"
  shows "sub_inv c (Suc n) (go_state (CreateTrafficInfluenceSubscription k b s w))"
    and "sub_inv c (Suc n) (go_state (UpdatePutTrafficInfluenceSubscription k i b s w))"
    and "sub_inv c (Suc n) (go_state (UpdatePatchTrafficInfluenceSubscription k i b' s w))"
    and "sub_inv c (Suc n) (go_state (DeleteTrafficInfluenceSubscription k i s w))"
proof -
  note up = sub_inv_Suc [OF inv]
  show "sub_inv c (Suc n) (go_state (CreateTrafficInfluenceSubscription k b s w))"
    using up createNewSub_inv [OF inv n] by (simp add: Create_state split: rbody.split)
  show "sub_inv c (Suc n) (go_state (UpdatePutTrafficInfluenceSubscription k i b s w))"
    using up afUpdateSubscription_inv [OF inv n, of k] by (simp add: UpdatePut_state split: rbody.split)
  show "sub_inv c (Suc n) (go_state (UpdatePatchTrafficInfluenceSubscription k i b' s w))"
    using up sub_inv_Suc [OF afPartialUpdateSubscription_inv [OF inv, of k]]
    by (simp add: UpdatePatch_state split: rbody.split)
  show "sub_inv c (Suc n) (go_state (DeleteTrafficInfluenceSubscription k i s w))"
    by (rule sub_inv_Suc [OF DeleteTI_inv [OF inv]])
qed

section \<open>Frame: the transactions\<close>

lemma trans_at_ti [simp]:
  "trans_at (set_pcf p s) = trans_at s" "trans_at (set_udr u s) = trans_at s"
  "trans_at (inc_corrID s) = trans_at s" "trans_at (bump_sub k s) = trans_at s"
  "trans_at (put_sub k i x s) = trans_at s" "trans_at (del_sub k i s) = trans_at s"
  by (simp_all add: bump_sub_def put_sub_def del_sub_def, simp_all add: trans_at_def fun_eq_iff)

lemma trans_at_create: "trans_at (go_state (createNewSub s k ti)) = trans_at s"
proof (cases "nefGetAf (ctx_nef s) k = None \<and> \<not> af_room s")
  case True
  then show ?thesis by (simp add: createNewSub_eq)
next
  case False
  have "trans_at (go_state (afAddSubscription k (ensure_af k s) ti)) = trans_at s"
    by (rule afAddSubscription_cases [OF nefGetAf_ensure, of k s ti]) auto
  with False show ?thesis by (auto simp: createNewSub_eq)
qed

lemma trans_at_update:
  assumes inv: "sub_inv c n s" and af: "nefGetAf (ctx_nef s) k \<noteq> None"
  shows "trans_at (go_state (afUpdateSubscription k s i ti)) = trans_at s"
    and "trans_at (go_state (afPartialUpdateSubscription k s i tisp)) = trans_at s"
proof -
  show "trans_at (go_state (afUpdateSubscription k s i ti)) = trans_at s"
  proof (cases "sub_at s (k, i)")
    case (Some x)
    consider "sub_NEFSBPut x = FnPCF" | "sub_NEFSBPut x = FnUDR"
      using sub_inv_okD [OF inv Some] by (cases "sub_NEFSBPut x") (auto simp: sub_ok_def)
    then show ?thesis
    proof cases
      case 1
      then show ?thesis by (simp add: afUpdateSubscription_pcf [OF Some])
    next
      case 2
      show ?thesis by (rule afUpdateSubscription_udr [OF Some 2, of ti]) auto
    qed
  qed (simp add: afUpdate_missing af)
  show "trans_at (go_state (afPartialUpdateSubscription k s i tisp)) = trans_at s"
  proof (cases "sub_at s (k, i)")
    case (Some x)
    show ?thesis
      by (rule afPartialUpdateSubscription_eq [OF Some sub_inv_okD [OF inv Some], of tisp]) auto
  qed (simp add: afPartialUpdate_missing af)
qed

lemma ti_handlers_trans:
  assumes inv: "sub_inv c n s"
  shows "trans_at (go_state (CreateTrafficInfluenceSubscription k b s w)) = trans_at s"
    and "trans_at (go_state (UpdatePutTrafficInfluenceSubscription k i b s w)) = trans_at s"
    and "trans_at (go_state (UpdatePatchTrafficInfluenceSubscription k i b' s w)) = trans_at s"
    and "trans_at (go_state (DeleteTrafficInfluenceSubscription k i s w)) p = trans_at s p \<or>
      trans_at (go_state (DeleteTrafficInfluenceSubscription k i s w)) p = None"
proof -
  show "trans_at (go_state (CreateTrafficInfluenceSubscription k b s w)) = trans_at s"
    by (simp add: Create_state trans_at_create split: rbody.split)
  show "trans_at (go_state (UpdatePutTrafficInfluenceSubscription k i b s w)) = trans_at s"
    using trans_at_update(1) [OF inv] by (simp add: UpdatePut_state split: rbody.split)
  show "trans_at (go_state (UpdatePatchTrafficInfluenceSubscription k i b' s w)) = trans_at s"
    using trans_at_update(2) [OF inv] by (simp add: UpdatePatch_state split: rbody.split)
  show "trans_at (go_state (DeleteTrafficInfluenceSubscription k i s w)) p = trans_at s p \<or>
      trans_at (go_state (DeleteTrafficInfluenceSubscription k i s w)) p = None"
    using inv
  proof (cases rule: DeleteTI_cases [where k = k and i = i and w = w])
    case (deleted a x t u)
    have "trans_at (del_sub k i t) = trans_at s"
      using deleted(3) by (simp add: trans_at_def fun_eq_iff nefGetAf_def)
    with deleted(10,11) show ?thesis by (auto simp: trans_at_deleteAf)
  qed simp_all
qed

section \<open>Lookup by correlation identifier\<close>

lemma corrID_subs_Some:
  "getSubFromCorrID_subs m c = Some x \<Longrightarrow> sub_NotifCorreID x = c \<and> (\<exists>i. (i, x) \<in> set m)"
  by (induction m c rule: getSubFromCorrID_subs.induct) (auto split: if_splits)

lemma corrID_subs_None:
  "getSubFromCorrID_subs m c = None \<Longrightarrow> (i, x) \<in> set m \<Longrightarrow> sub_NotifCorreID x \<noteq> c"
  by (induction m c rule: getSubFromCorrID_subs.induct) (auto split: if_splits)

lemma corrID_afs_Some:
  "getSubFromCorrID_afs m c = Some x \<Longrightarrow> \<exists>k a. (k, a) \<in> set m \<and> getSubFromCorrID_subs (af_subs a) c = Some x"
  by (induction m c rule: getSubFromCorrID_afs.induct) (auto split: option.splits)

lemma corrID_afs_None:
  "getSubFromCorrID_afs m c = None \<Longrightarrow> (k, a) \<in> set m \<Longrightarrow> getSubFromCorrID_subs (af_subs a) c = None"
  by (induction m c rule: getSubFromCorrID_afs.induct) (auto split: option.splits)

lemma getSubFromCorrID_Some:
  assumes inv: "tab_inv c n s" and get: "getSubFromCorrID s d = Some x"
  shows "sub_NotifCorreID x = d \<and> (\<exists>p. sub_at s p = Some x)"
proof -
  from corrID_afs_Some [OF get [unfolded getSubFromCorrID_def]] obtain k a where
    a: "(k, a) \<in> set (nef_afs (ctx_nef s))" "getSubFromCorrID_subs (af_subs a) d = Some x" by blast
  have af: "nefGetAf (ctx_nef s) k = Some a"
    using a(1) inv by (simp add: tab_inv_def nefGetAf_def gm_mem_get)
  with tab_invD [OF inv af] corrID_subs_Some [OF a(2)] obtain i where "gm_get (af_subs a) i = Some x"
    by (auto simp: af_ok_def gm_mem_get)
  then have "sub_at s (k, i) = Some x" by (simp add: sub_at_af [OF af])
  with corrID_subs_Some [OF a(2)] show ?thesis by blast
qed

lemma getSubFromCorrID_None:
  assumes get: "getSubFromCorrID s d = None" and at: "sub_at s (k, i) = Some x"
  shows "sub_NotifCorreID x \<noteq> d"
proof -
  from sub_at_SomeD [OF at] obtain a where a: "nefGetAf (ctx_nef s) k = Some a" "gm_get (af_subs a) i = Some x"
    by blast
  then have "(k, a) \<in> set (nef_afs (ctx_nef s))" by (auto simp: nefGetAf_def dest: gm_get_mem)
  from corrID_afs_None [OF get [unfolded getSubFromCorrID_def] this] gm_get_mem [OF a(2)]
  show ?thesis by (rule corrID_subs_None)
qed

text \<open>A correlation identifier finds the one subscription that carries it.\<close>

lemma getSubFromCorrID_owner:
  assumes inv: "sub_inv c n s" and at: "sub_at s p = Some x" and d: "sub_NotifCorreID x \<noteq> []"
  shows "getSubFromCorrID s (sub_NotifCorreID x) = Some x"
proof (cases "getSubFromCorrID s (sub_NotifCorreID x)")
  case None
  obtain k i where "p = (k, i)" by (cases p)
  with getSubFromCorrID_None [OF None] at show ?thesis by blast
next
  case (Some y)
  from inv have "tab_inv c n s" by (simp add: sub_inv_def)
  from getSubFromCorrID_Some [OF this Some] obtain q where
    "sub_at s q = Some y" "sub_NotifCorreID y = sub_NotifCorreID x" by blast
  with inv at d have "p = q" unfolding sub_inv_def ti_inv_def corr_ok_def by metis
  with at \<open>sub_at s q = Some y\<close> Some show ?thesis by simp
qed

section \<open>What the handlers answer\<close>

lemma sendError_mkRsp [simp]:
  assumes "rw_status w = None" and "e \<in> {400, 404, 411, 415, 500, 503}"
  shows "rw_status (sendErrorResponseToAF w (mkRsp e m)) = Some e"
    and "rw_body (sendErrorResponseToAF w (mkRsp e m)) = rw_body w @ [BProblem (pd_zero\<lparr>pd_Title := m\<rparr>)]"
  using assms sendError_sel [OF assms(1), of "mkRsp e m"] by (auto simp: createErrorJSON_def mkRsp_def)

definition ti_valid :: "TrafficInfluSub \<Rightarrow> bool" where
  "ti_valid ti \<longleftrightarrow> ti_AfTransID ti \<noteq> [] \<and> (ti_AfServiceID ti \<noteq> [] \<or> ti_Dnn ti \<noteq> []) \<and>
     (ti_AfAppID ti \<noteq> [] \<or> ti_TrafficFilters ti \<noteq> None \<or> ti_EthTrafficFilters ti \<noteq> None)"

lemma validateTI_iff: "snd (validateAFTrafficInfluenceData ti) \<longleftrightarrow> ti_valid ti"
  by (auto simp: validateAFTrafficInfluenceData_def ti_valid_def)

lemma validateTI_code:
  "\<not> ti_valid ti \<Longrightarrow> \<exists>m. validateAFTrafficInfluenceData ti = (mkRsp 400 m, False)"
  by (auto simp: validateAFTrafficInfluenceData_def ti_valid_def)

text \<open>The conditions under which a POST creates a subscription.\<close>

definition sub_accept :: "nefContext \<Rightarrow> string \<Rightarrow> TrafficInfluSub \<Rightarrow> bool" where
  "sub_accept s k ti \<longleftrightarrow> ti_valid ti \<and> (singleUE ti \<or> anyUE ti) \<and>
     (case nefGetAf (ctx_nef s) k of
        None \<Rightarrow> af_room s \<and> 0 < sint (cfg_MaxSubSupport (ctx_cfg s))
      | Some a \<Rightarrow> sub_room s a)"

text \<open>The identifier it draws.\<close>

definition next_sub :: "nefContext \<Rightarrow> string \<Rightarrow> string" where
  "next_sub s k = Itoa (case nefGetAf (ctx_nef s) k of None \<Rightarrow> cfg_SubStartID (ctx_cfg s) | Some a \<Rightarrow> af_subIDnum a)"

definition sub_link :: "Config \<Rightarrow> string \<Rightarrow> string \<Rightarrow> string" where
  "sub_link c k i = getNefLocationURLPrefix c @ k @ ''/subscriptions/'' @ i"

lemma sub_accept_ensure:
  "sub_accept s k ti \<longleftrightarrow> ti_valid ti \<and> (singleUE ti \<or> anyUE ti) \<and>
     \<not> (nefGetAf (ctx_nef s) k = None \<and> \<not> af_room s) \<and>
     sub_room (ensure_af k s) (the (nefGetAf (ctx_nef (ensure_af k s)) k))"
  by (auto simp: sub_accept_def nefGetAf_ensure sub_room_def split: option.splits)

lemma subLocation_link:
  assumes "sub_inv c n s" and "nefGetAf (ctx_nef s) k = Some a"
  shows "subLocation s a i = sub_link c k i"
  using assms tab_invD [of c n s k a] by (simp add: sub_inv_def tab_inv_def af_ok_def subLocation_def sub_link_def)

lemma sub_inv_ensure:
  "sub_inv c n s \<Longrightarrow> nefGetAf (ctx_nef s) k \<noteq> None \<or> af_room s \<Longrightarrow> sub_inv c n (ensure_af k s)"
  unfolding sub_inv_def by (auto intro: ti_inv_cong tab_inv_ensure)

lemma nefGetAf_put_sub [simp]:
  "nefGetAf (ctx_nef (put_sub k i x s)) k' =
     (if k' = k then map_option (\<lambda>a. a\<lparr>af_subs := gm_put i x (af_subs a)\<rparr>) (nefGetAf (ctx_nef s) k)
      else nefGetAf (ctx_nef s) k')"
  by (simp add: put_sub_def)

lemma createNewSub_accepted:
  assumes inv: "sub_inv c n s" and svc: "svc_ok c" and acc: "sub_accept s k ti"
  shows "\<exists>t x rsp. createNewSub s k ti = Ret t (sub_link c k (next_sub s k), rsp, None) \<and>
    nefGetAf (ctx_nef t) k \<noteq> None \<and> sub_at t = (sub_at s)((k, next_sub s k) \<mapsto> x) \<and>
    sub_ti x = ti\<lparr>ti_Self := sub_link c k (next_sub s k)\<rparr> \<and>
    sub_NEFSBPut x = (if singleUE ti then FnPCF else FnUDR)"
proof -
  let ?s = "ensure_af k s"
  obtain a where a: "nefGetAf (ctx_nef ?s) k = Some a" by (simp add: nefGetAf_ensure)
  have room: "\<not> (nefGetAf (ctx_nef s) k = None \<and> \<not> af_room s)" and sroom: "sub_room ?s a"
    and ue: "singleUE ti \<or> anyUE ti" using acc a by (auto simp: sub_accept_ensure)
  then have inv': "sub_inv c n ?s" using sub_inv_ensure [OF inv, of k] by auto
  then have cfg: "ctx_cfg ?s = c" by (simp add: sub_inv_def tab_inv_def)
  have i: "Itoa (af_subIDnum a) = next_sub s k"
    using a by (auto simp: next_sub_def nefGetAf_ensure split: option.splits)
  note eq = createNewSub_eq [of s k ti] i subLocation_link [OF inv' a]
  from a show ?thesis
  proof (cases rule: afAddSubscription_cases [where ti = ti])
    case (panic t)
    with svc cfg show ?thesis by simp
  next
    case (pcf asc p sid r rsp)
    let ?x = "newSub FnPCF (next_sub s k) ti (sub_link c k (next_sub s k)) (Itoa (nef_corrID (ctx_nef s))) sid"
    from pcf room a show ?thesis
      by (intro exI [of _ "put_sub k (next_sub s k) ?x (set_pcf p (inc_corrID (bump_sub k ?s)))"]
          exI [of _ ?x] exI [of _ rsp]) (auto simp: eq sub_at_put_sub)
  next
    case (udr u rsp)
    let ?w = "wantsUpPathChange ti"
    let ?x = "newSub FnUDR (next_sub s k) ti (sub_link c k (next_sub s k))
      (if ?w then Itoa (nef_corrID (ctx_nef s)) else []) []"
    let ?t = "set_udr u (if ?w then inc_corrID (bump_sub k ?s) else bump_sub k ?s)"
    from udr room a show ?thesis
      by (intro exI [of _ "put_sub k (next_sub s k) ?x ?t"] exI [of _ ?x] exI [of _ rsp])
        (auto simp: eq sub_at_put_sub)
  qed (use sroom ue in auto)
qed

lemma createNewSub_refused:
  assumes inv: "sub_inv c n s" and valid: "ti_valid ti" and acc: "\<not> sub_accept s k ti"
  shows "\<exists>t loc rsp e. createNewSub s k ti = Ret t (loc, rsp, Some e) \<and> sub_at t = sub_at s \<and>
    nef_pcfClient (ctx_nef t) = nef_pcfClient (ctx_nef s) \<and> nef_udrClient (ctx_nef t) = nef_udrClient (ctx_nef s)"
proof -
  let ?s = "ensure_af k s"
  obtain a where a: "nefGetAf (ctx_nef ?s) k = Some a" by (simp add: nefGetAf_ensure)
  show ?thesis
  proof (cases "nefGetAf (ctx_nef s) k = None \<and> \<not> af_room s")
    case False
    with acc valid a have no: "\<not> (sub_room ?s a \<and> (singleUE ti \<or> anyUE ti))" by (auto simp: sub_accept_ensure)
    from a show ?thesis
      by (cases rule: afAddSubscription_cases [where ti = ti]) (use no False in \<open>auto simp: createNewSub_eq\<close>)
  qed (simp add: createNewSub_eq)
qed

end
