(* ===== verification/Nef_Transactions.thy ===== *)
theory Nef_Transactions
  imports Nef_Pfd Nef_AfTable
begin

text \<open>
  The PFD component seen as a store of transactions (\<open>trans_at\<close>). Each operation is characterised by its effect on the store and on the UDR.
\<close>

section \<open>The abstraction\<close>

definition apps :: "afPfdTransaction \<Rightarrow> (string, PfdData) gomap" where
  "apps tr = pm_PfdDatas (tr_pfdManagement tr)"

lemma trans_at_put:
  assumes "nefGetAf (ctx_nef s) k = Some a"
  shows "trans_at (put_trans k i x s) = (trans_at s)((k, i) \<mapsto> x)"
  using assms by (auto simp: trans_at_def put_trans_def fun_eq_iff)

lemma trans_at_del:
  assumes "nefGetAf (ctx_nef s) k = Some a"
  shows "trans_at (del_trans k i s) = (trans_at s)((k, i) := None)"
  using assms by (auto simp: trans_at_def del_trans_def fun_eq_iff)

lemma set_udrpfd_sel [simp]:
  "ctx_cfg (set_udrpfd u s) = ctx_cfg s" "nef_afs (ctx_nef (set_udrpfd u s)) = nef_afs (ctx_nef s)"
  "nefGetAf (ctx_nef (set_udrpfd u s)) k = nefGetAf (ctx_nef s) k"
  "ctx_TestNEFSB (set_udrpfd u s) = ctx_TestNEFSB s" "ctx_TestClient (set_udrpfd u s) = ctx_TestClient s"
  "nef_udrPfdClient (ctx_nef (set_udrpfd u s)) = u"
  "nef_corrID (ctx_nef (set_udrpfd u s)) = nef_corrID (ctx_nef s)"
  "nef_pcfClient (ctx_nef (set_udrpfd u s)) = nef_pcfClient (ctx_nef s)"
  "nef_udrClient (ctx_nef (set_udrpfd u s)) = nef_udrClient (ctx_nef s)"
  "nef_locationURLPrefix (ctx_nef (set_udrpfd u s)) = nef_locationURLPrefix (ctx_nef s)"
  "nef_locationURLPrefixPfd (ctx_nef (set_udrpfd u s)) = nef_locationURLPrefixPfd (ctx_nef s)"
  "set_udrpfd v (set_udrpfd u s) = set_udrpfd v s"
  "set_udrpfd (nef_udrPfdClient (ctx_nef s)) s = s"
  by (simp_all add: set_udrpfd_def nefGetAf_def)

lemma trans_at_udrpfd [simp]: "trans_at (set_udrpfd u s) = trans_at s"
  by (simp add: trans_at_def fun_eq_iff)

section \<open>The southbound PUT\<close>

lemma gm_put_mem: "(k', v') \<in> set (gm_put k v m) \<Longrightarrow> (k', v') = (k, v) \<or> (k', v') \<in> set m"
  by (induction m) (auto split: if_splits)

lemma keys_gm_put: "fst ` set (gm_put k v m) = insert k (fst ` set m)"
  using gm.dom_put [of k v m] dom_gm_get [of m] dom_gm_get [of "gm_put k v m"] by (simp del: gm_laws)

text \<open>The UDR after the PUT of a list of applications.\<close>

fun udr_put_all :: "pfd_clock \<Rightarrow> (string, PfdData) gomap \<Rightarrow> UdrPfdClientStub \<Rightarrow> UdrPfdClientStub" where
  "udr_put_all clk [] u = u"
| "udr_put_all clk ((k, v) # rest) u =
     udr_put_all clk rest (fst (UdrPfdDataCreate False u (pfdDataForApp (clk (length rest)) v)))"

definition put_rsp :: "bool \<Rightarrow> nefPFDSBRspData" where
  "put_rsp fail = (if fail then \<lparr>prsp_result = rsp_zero\<lparr>rsp_errorCode := 400\<rparr>, prsp_fc = Some ''OTHER_REASON''\<rparr>
     else prsp_zero\<lparr>prsp_result := rsp_zero\<lparr>rsp_errorCode := 200\<rparr>\<rparr>)"

lemma put_rsp_code [simp]: "rsp_errorCode (prsp_result (put_rsp f)) = (if f then 400 else 200)"
  by (simp add: put_rsp_def rsp_zero_def prsp_zero_def)

lemma nefSBUDRAPPPFDPut_ok:
  "\<not> ctx_TestClient s \<Longrightarrow> nefSBUDRAPPPFDPut clk s v =
     (set_udrpfd (fst (UdrPfdDataCreate False (nef_udrPfdClient (ctx_nef s)) (pfdDataForApp clk v))) s,
      put_rsp (ctx_TestNEFSB s), None)"
  by (simp add: nefSBUDRAPPPFDPut_def UdrPfdDataCreate_def Let_def put_rsp_def)

lemma nefSBUDRAPPPFDPut_err:
  "ctx_TestClient s \<Longrightarrow> \<exists>u rsp. nefSBUDRAPPPFDPut clk s v = (set_udrpfd u s, rsp, Some ''Error in UDR SB PUT'') \<and>
     rsp_errorCode (prsp_result rsp) = 400"
  by (auto simp: nefSBUDRAPPPFDPut_def UdrPfdDataCreate_def Let_def rsp_zero_def prsp_zero_def)

lemma nefSBUDRPFDPut_loop_ok:
  assumes "\<not> ctx_TestClient s" and "\<forall>(k, r)\<in>set acc. r = put_rsp (ctx_TestNEFSB s)"
  shows "\<exists>rsp. nefSBUDRPFDPut_loop clk xs s acc =
       (set_udrpfd (udr_put_all clk xs (nef_udrPfdClient (ctx_nef s))) s, rsp, None) \<and>
    (\<forall>(k, r)\<in>set rsp. r = put_rsp (ctx_TestNEFSB s)) \<and> fst ` set rsp = fst ` set xs \<union> fst ` set acc"
  using assms
proof (induction xs arbitrary: s acc)
  case Nil
  then show ?case by simp
next
  case (Cons x xs)
  obtain k v where x: "x = (k, v)" by (cases x)
  let ?s = "set_udrpfd (fst (UdrPfdDataCreate False (nef_udrPfdClient (ctx_nef s))
    (pfdDataForApp (clk (length xs)) v))) s"
  let ?acc = "gm_put k (put_rsp (ctx_TestNEFSB s)) acc"
  have "\<forall>(k, r)\<in>set ?acc. r = put_rsp (ctx_TestNEFSB ?s)"
    using Cons.prems(2) by (auto dest!: gm_put_mem)
  from Cons.IH [OF _ this] Cons.prems(1) show ?case
    by (simp add: x nefSBUDRAPPPFDPut_ok keys_gm_put)
qed

lemma updateLoop_ok:
  "\<forall>(k, r)\<in>set rsp. rsp_errorCode (prsp_result r) = 200 \<Longrightarrow> updatePfdTransOnRsp_loop rsp t = t"
  by (induction rsp arbitrary: t) auto

lemma updateLoop_failed:
  "\<forall>(k, r)\<in>set rsp. rsp_errorCode (prsp_result r) \<noteq> 200 \<Longrightarrow>
   gm_get (pm_PfdDatas (updatePfdTransOnRsp_loop rsp t)) a =
     (if a \<in> fst ` set rsp then None else gm_get (pm_PfdDatas t) a)"
  by (induction rsp arbitrary: t) (auto simp: image_iff, force)

lemma gm_all_None: "(\<And>k. gm_get m k = None) \<Longrightarrow> m = []"
  by (cases m) (auto simp: gm_get_def split: if_splits, metis option.distinct(1))

text \<open>The three outcomes of the PUT of a request followed by the update of the request.\<close>

lemma nefSBUDRPFDPut_cases:
  assumes ne: "pm_PfdDatas t \<noteq> []"
  obtains (fatal) u rsp where "ctx_TestClient s"
    "nefSBUDRPFDPut clk s t = (set_udrpfd u s, rsp, Some ''Error in UDR SB PUT'')"
  | (failed) u rsp t' where "\<not> ctx_TestClient s" "ctx_TestNEFSB s"
    "nefSBUDRPFDPut clk s t = (set_udrpfd u s, rsp, None)"
    "updatePfdTransOnRsp rsp t = (t', Some pfdAppsFailed)" "pm_PfdDatas t' = []"
  | (stored) rsp where "\<not> ctx_TestClient s" "\<not> ctx_TestNEFSB s"
    "nefSBUDRPFDPut clk s t =
       (set_udrpfd (udr_put_all clk (pm_PfdDatas t) (nef_udrPfdClient (ctx_nef s))) s, rsp, None)"
    "updatePfdTransOnRsp rsp t = (t, None)"
proof (cases "ctx_TestClient s")
  case True
  obtain k v xs where d: "pm_PfdDatas t = (k, v) # xs" using ne by (metis neq_Nil_conv prod.exhaust)
  from nefSBUDRAPPPFDPut_err [OF True, of "clk (length xs)" v] show ?thesis
    by (auto simp: nefSBUDRPFDPut_def d True intro: fatal)
next
  case False
  from nefSBUDRPFDPut_loop_ok [OF False, of "[]" clk "pm_PfdDatas t"] obtain rsp where rsp:
    "nefSBUDRPFDPut clk s t =
       (set_udrpfd (udr_put_all clk (pm_PfdDatas t) (nef_udrPfdClient (ctx_nef s))) s, rsp, None)"
    "\<forall>(k, r)\<in>set rsp. r = put_rsp (ctx_TestNEFSB s)" "fst ` set rsp = fst ` set (pm_PfdDatas t)"
    by (auto simp: nefSBUDRPFDPut_def)
  show ?thesis
  proof (cases "ctx_TestNEFSB s")
    case True
    with rsp(2) have f: "\<forall>(k, r)\<in>set rsp. rsp_errorCode (prsp_result r) \<noteq> 200" by auto
    have "pm_PfdDatas (updatePfdTransOnRsp_loop rsp t) = []"
      by (rule gm_all_None)
        (simp add: updateLoop_failed [OF f] rsp(3), simp add: gm_get_def map_of_eq_None_iff)
    moreover from this
    have "updatePfdTransOnRsp rsp t = (updatePfdTransOnRsp_loop rsp t, Some pfdAppsFailed)"
      by (simp add: updatePfdTransOnRsp_def)
    ultimately show ?thesis using False True rsp(1) by (intro failed)
  next
    case nofail: False
    with rsp(2) have "\<forall>(k, r)\<in>set rsp. rsp_errorCode (prsp_result r) = 200" by auto
    with ne have "updatePfdTransOnRsp rsp t = (t, None)"
      by (simp add: updatePfdTransOnRsp_def updateLoop_ok gm_len_def)
    with False nofail rsp(1) show ?thesis by (intro stored)
  qed
qed

section \<open>Validation\<close>

definition dropDup :: "nefContext \<Rightarrow> string \<Rightarrow> PfdManagement \<Rightarrow> PfdManagement" where
  "dropDup s k t = (if nefCheckPfdAppIDExists k s then t
     \<lparr>pm_PfdReports := generatePfdReport k ''APP_ID_DUPLICATED'' (pm_PfdReports t),
      pm_PfdDatas := gm_del k (pm_PfdDatas t)\<rparr> else t)"

definition pfds_valid :: "(string, PfdData) gomap \<Rightarrow> bool" where
  "pfds_valid xs \<longleftrightarrow> (\<forall>(k, v)\<in>set xs. firstInvalidPfd (pdt_Pfds v) = None)"

lemma validateApps_valid:
  "pfds_valid xs \<Longrightarrow>
   validateApps s m xs t = (if m = ''POST'' then fold (dropDup s) (map fst xs) t else t, None)"
  by (induction xs arbitrary: t) (auto simp: pfds_valid_def dropDup_def Let_def)

lemma validateApps_invalid: "\<not> pfds_valid xs \<Longrightarrow> \<exists>t' r. validateApps s m xs t = (t', Some r)"
proof (induction xs arbitrary: t)
  case (Cons x xs)
  obtain k v where x: "x = (k, v)" by (cases x)
  show ?case
  proof (cases "firstInvalidPfd (pdt_Pfds v)")
    case None
    with Cons.prems x have "\<not> pfds_valid xs" by (auto simp: pfds_valid_def)
    from Cons.IH [OF this] None x show ?thesis by (simp add: Let_def)
  qed (simp add: x Let_def)
qed (simp add: pfds_valid_def)

lemma firstInvalidPfd_iff:
  "firstInvalidPfd ps = None \<longleftrightarrow> (\<forall>(k, p)\<in>set ps. pfd_PfdID p \<noteq> [] \<and>
     (pfd_DomainNames p \<noteq> [] \<or> pfd_FlowDescriptions p \<noteq> [] \<or> pfd_Urls p \<noteq> []))"
  by (induction ps) (auto simp: validateAFPfdData_def split: if_splits)

lemma firstMissing_iff:
  "firstMissing xs = None \<longleftrightarrow> (\<forall>(k, v)\<in>set xs. pdt_Pfds v \<noteq> [] \<and> pdt_ExternalAppID v \<noteq> [])"
  by (induction xs) (auto simp: gm_len_def split: if_splits)

definition pfd_request_ok :: "PfdManagement \<Rightarrow> bool" where
  "pfd_request_ok t \<longleftrightarrow> pm_PfdDatas t \<noteq> [] \<and> firstMissing (pm_PfdDatas t) = None \<and>
     pfds_valid (pm_PfdDatas t)"

lemma validate_ok:
  "pfd_request_ok t \<Longrightarrow> validateAFPfdManagementData s t m =
     (if m = ''POST'' then fold (dropDup s) (map fst (pm_PfdDatas t)) t else t, prsp_zero, True)"
  by (simp add: validateAFPfdManagementData_def pfd_request_ok_def gm_len_def validateApps_valid)

lemma firstMissing_code: "firstMissing xs = Some r \<Longrightarrow> rsp_errorCode (prsp_result r) = 400"
  by (induction xs) (auto simp: mkPRsp_def mkRsp_def split: if_splits)

lemma firstInvalid_code: "firstInvalidPfd ps = Some r \<Longrightarrow> rsp_errorCode (prsp_result r) = 400"
  by (induction ps) (auto simp: validateAFPfdData_def mkPRsp_def mkRsp_def split: if_splits)

lemma validateApps_code: "validateApps s m xs t = (t', Some r) \<Longrightarrow> rsp_errorCode (prsp_result r) = 400"
  by (induction s m xs t rule: validateApps.induct)
    (auto simp: Let_def dest: firstInvalid_code split: option.splits if_splits)

lemma validate_not_ok:
  assumes "\<not> pfd_request_ok t"
  shows "\<exists>t' r. validateAFPfdManagementData s t m = (t', r, False) \<and> rsp_errorCode (prsp_result r) = 400"
proof -
  consider "pm_PfdDatas t = []" | r where "firstMissing (pm_PfdDatas t) = Some r"
    | "firstMissing (pm_PfdDatas t) = None" "\<not> pfds_valid (pm_PfdDatas t)"
    using assms by (cases "firstMissing (pm_PfdDatas t)") (auto simp: pfd_request_ok_def)
  then show ?thesis
  proof cases
    case 1
    then show ?thesis by (simp add: validateAFPfdManagementData_def mkPRsp_def mkRsp_def)
  next
    case (2 r)
    then show ?thesis
      using firstMissing_code [OF 2]
      by (simp add: validateAFPfdManagementData_def mkPRsp_def mkRsp_def)
  next
    case 3
    from validateApps_invalid [OF 3(2)] obtain t' r where
      "validateApps s m (pm_PfdDatas t) t = (t', Some r)" by blast
    with validateApps_code [OF this] 3(1) show ?thesis
      by (simp add: validateAFPfdManagementData_def mkPRsp_def mkRsp_def)
  qed
qed

text \<open>What the validation of a POST leaves of the request, and what it reports.\<close>

definition dups :: "nefContext \<Rightarrow> PfdManagement \<Rightarrow> string list" where
  "dups s t = filter (\<lambda>k. nefCheckPfdAppIDExists k s) (map fst (pm_PfdDatas t))"

definition accepted :: "nefContext \<Rightarrow> PfdManagement \<Rightarrow> PfdManagement" where
  "accepted s t = fold (dropDup s) (map fst (pm_PfdDatas t)) t"

lemma fold_dropDup:
  "fold (dropDup s) ks t = t
     \<lparr>pm_PfdReports := fold (\<lambda>k. generatePfdReport k ''APP_ID_DUPLICATED'')
        (filter (\<lambda>k. nefCheckPfdAppIDExists k s) ks) (pm_PfdReports t),
      pm_PfdDatas := fold gm_del (filter (\<lambda>k. nefCheckPfdAppIDExists k s) ks) (pm_PfdDatas t)\<rparr>"
  by (induction ks arbitrary: t) (auto simp: dropDup_def)

lemma gm_get_fold_del: "gm_get (fold gm_del ks m) a = (if a \<in> set ks then None else gm_get m a)"
  by (induction ks arbitrary: m) auto

lemma gm_ok_fold_del: "gm_ok m \<Longrightarrow> gm_ok (fold gm_del ks m)"
  by (induction ks arbitrary: m) auto

lemma report_one:
  "generatePfdReport k ''APP_ID_DUPLICATED'' [] =
     [(''APP_ID_DUPLICATED'', \<lparr>rep_ExternalAppIds = [k], rep_FailureCode = ''APP_ID_DUPLICATED'',
        rep_CachingTime = None\<rparr>)]"
  "generatePfdReport k ''APP_ID_DUPLICATED'' [(''APP_ID_DUPLICATED'', r)] =
     [(''APP_ID_DUPLICATED'', r\<lparr>rep_ExternalAppIds := rep_ExternalAppIds r @ [k]\<rparr>)]"
  by (simp_all add: generatePfdReport_def addReport_def)

lemma reports_more:
  "fold (\<lambda>k. generatePfdReport k ''APP_ID_DUPLICATED'') ks [(''APP_ID_DUPLICATED'', r)] =
     [(''APP_ID_DUPLICATED'', r\<lparr>rep_ExternalAppIds := rep_ExternalAppIds r @ ks\<rparr>)]"
  by (induction ks arbitrary: r) (simp_all add: report_one)

lemma reports_all:
  "fold (\<lambda>k. generatePfdReport k ''APP_ID_DUPLICATED'') ks [] =
     (if ks = [] then [] else [(''APP_ID_DUPLICATED'', \<lparr>rep_ExternalAppIds = ks,
        rep_FailureCode = ''APP_ID_DUPLICATED'', rep_CachingTime = None\<rparr>)])"
  by (cases ks) (simp_all add: report_one reports_more)

lemma gm_get_None: "gm_get m a = None \<longleftrightarrow> a \<notin> fst ` set m"
  by (simp add: gm_get_def map_of_eq_None_iff)

lemma accepted_sel:
  "gm_get (pm_PfdDatas (accepted s t)) a =
     (if nefCheckPfdAppIDExists a s then None else gm_get (pm_PfdDatas t) a)"
  "gm_ok (pm_PfdDatas t) \<Longrightarrow> gm_ok (pm_PfdDatas (accepted s t))"
  "pm_PfdReports t = [] \<Longrightarrow> pm_PfdReports (accepted s t) =
     (if dups s t = [] then [] else [(''APP_ID_DUPLICATED'', \<lparr>rep_ExternalAppIds = dups s t,
        rep_FailureCode = ''APP_ID_DUPLICATED'', rep_CachingTime = None\<rparr>)])"
  "pm_Self (accepted s t) = pm_Self t"
proof -
  show "gm_get (pm_PfdDatas (accepted s t)) a =
      (if nefCheckPfdAppIDExists a s then None else gm_get (pm_PfdDatas t) a)"
    using gm_get_None [of "pm_PfdDatas t" a]
    by (simp add: accepted_def fold_dropDup gm_get_fold_del)
qed (simp_all add: accepted_def fold_dropDup gm_ok_fold_del dups_def reports_all)

section \<open>Adding a transaction\<close>

definition bump_trans :: "string \<Rightarrow> nefContext \<Rightarrow> nefContext" where
  "bump_trans k s = upd_af k (\<lambda>a. a\<lparr>af_transIDnum := af_transIDnum a + 1\<rparr>) s"

lemma bump_trans_sel [simp]:
  "trans_at (bump_trans k s) = trans_at s" "ctx_cfg (bump_trans k s) = ctx_cfg s"
  "ctx_TestNEFSB (bump_trans k s) = ctx_TestNEFSB s" "ctx_TestClient (bump_trans k s) = ctx_TestClient s"
  "nef_corrID (ctx_nef (bump_trans k s)) = nef_corrID (ctx_nef s)"
  "nef_pcfClient (ctx_nef (bump_trans k s)) = nef_pcfClient (ctx_nef s)"
  "nef_udrClient (ctx_nef (bump_trans k s)) = nef_udrClient (ctx_nef s)"
  "nef_udrPfdClient (ctx_nef (bump_trans k s)) = nef_udrPfdClient (ctx_nef s)"
  "nef_locationURLPrefix (ctx_nef (bump_trans k s)) = nef_locationURLPrefix (ctx_nef s)"
  "nef_locationURLPrefixPfd (ctx_nef (bump_trans k s)) = nef_locationURLPrefixPfd (ctx_nef s)"
  "nefGetAf (ctx_nef (bump_trans k s)) k' =
     (if k' = k then map_option (\<lambda>a. a\<lparr>af_transIDnum := af_transIDnum a + 1\<rparr>) (nefGetAf (ctx_nef s) k)
      else nefGetAf (ctx_nef s) k')"
  by (simp_all add: bump_trans_def)

text \<open>The request with the links of its applications, and the transaction stored for it.\<close>

definition linked :: "string \<Rightarrow> PfdManagement \<Rightarrow> PfdManagement" where
  "linked loc t = t\<lparr>pm_PfdDatas := map_ran (\<lambda>k v. v\<lparr>pdt_Self := loc @ ''/applications/'' @ k\<rparr>)
     (pm_PfdDatas t)\<rparr>"

definition newTrans :: "string \<Rightarrow> string \<Rightarrow> PfdManagement \<Rightarrow> afPfdTransaction" where
  "newTrans i loc t = \<lparr>tr_transID = i, tr_pfdManagement = (linked loc t)\<lparr>pm_Self := loc\<rparr>,
     tr_NEFSBPfdGet = PfdFnUDR, tr_NEFSBPfdPut = PfdFnUDR, tr_NEFSBAppPfdPut = PfdFnUDR,
     tr_NEFSBPfdDelete = PfdFnUDR\<rparr>"

definition trans_room :: "nefContext \<Rightarrow> afData \<Rightarrow> bool" where
  "trans_room s a \<longleftrightarrow> int (gm_len (af_pfdtrans a)) < sint (cfg_MaxPfdTransSupport (ctx_cfg s))"

lemma createNewPFDTrans_eq:
  "createNewPFDTrans clk s k t =
     (if nefGetAf (ctx_nef s) k = None \<and> \<not> af_room s then Ret s ([], Some ''MAX AF exceeded'', t)
      else afAddPFDTransaction k clk (ensure_af k s) t)"
  by (auto simp: createNewPFDTrans_def nefAddAf_eq ensure_af_def split: option.split)

lemma transLocation_client: "transLocation (set_udrpfd u (bump_trans k s)) a i = transLocation s a i"
  by (simp add: transLocation_def)

lemma afAddPFDTransaction_cases:
  assumes af: "nefGetAf (ctx_nef s) k = Some a" and ne: "pm_PfdDatas t \<noteq> []"
  obtains
    (full) "\<not> trans_room s a" "afAddPFDTransaction k clk s t = Ret s ([], Some ''MAX TRANS Created'', t)"
  | (fatal) u where "trans_room s a" "ctx_TestClient s"
      "afAddPFDTransaction k clk s t =
         Ret (set_udrpfd u (bump_trans k s)) ([], Some ''Error in UDR SB PUT'', t)"
  | (failed) u t' where "trans_room s a" "\<not> ctx_TestClient s" "ctx_TestNEFSB s" "pm_PfdDatas t' = []"
      "afAddPFDTransaction k clk s t = Ret (set_udrpfd u (bump_trans k s)) ([], Some pfdAppsFailed, t')"
  | (stored) i loc where "trans_room s a" "\<not> ctx_TestClient s" "\<not> ctx_TestNEFSB s"
      "i = Itoa (af_transIDnum a)" "loc = transLocation s a i"
      "afAddPFDTransaction k clk s t =
         Ret (put_trans k i (newTrans i loc t)
               (set_udrpfd (udr_put_all clk (pm_PfdDatas t) (nef_udrPfdClient (ctx_nef s)))
                 (bump_trans k s)))
           (loc, None, linked loc t)"
proof (cases "trans_room s a")
  case False
  then show ?thesis
    by (intro full) (simp_all add: afAddPFDTransaction_def af trans_room_def)
next
  case room: True
  note add = afAddPFDTransaction_def af Let_def bump_trans_def [symmetric] trans_room_def
  from ne show ?thesis
  proof (cases rule: nefSBUDRPFDPut_cases [where s = "bump_trans k s" and clk = clk])
    case (fatal u rsp)
    with room show ?thesis by (intro that(2)) (simp_all add: add)
  next
    case (failed u rsp t')
    with room show ?thesis by (intro that(3)) (simp_all add: add)
  next
    case (stored rsp)
    with room show ?thesis
      by (intro that(4)) (simp_all add: add transLocation_client linked_def newTrans_def)
  qed
qed

section \<open>Invariants of the store\<close>

definition trans_ok :: "Config \<Rightarrow> string \<times> string \<Rightarrow> afPfdTransaction \<Rightarrow> bool" where
  "trans_ok c p tr \<longleftrightarrow>
     tr_transID tr = snd p \<and> tr_NEFSBPfdGet tr = PfdFnUDR \<and> tr_NEFSBPfdPut tr = PfdFnUDR \<and>
     tr_NEFSBAppPfdPut tr = PfdFnUDR \<and> tr_NEFSBPfdDelete tr = PfdFnUDR \<and>
     pm_Self (tr_pfdManagement tr) = getNefLocationURLPrefixPfd c @ fst p @ ''/transactions/'' @ snd p \<and>
     gm_ok (apps tr) \<and> apps tr \<noteq> [] \<and> pm_PfdReports (tr_pfdManagement tr) = [] \<and>
     (\<forall>a v. gm_get (apps tr) a = Some v \<longrightarrow>
        pdt_Self v = pm_Self (tr_pfdManagement tr) @ ''/applications/'' @ a)"

text \<open>No application is in two transactions, of one AF or of two.\<close>

definition apps_unique :: "('p \<Rightarrow> afPfdTransaction option) \<Rightarrow> bool" where
  "apps_unique M \<longleftrightarrow> (\<forall>p q x y a. M p = Some x \<longrightarrow> M q = Some y \<longrightarrow>
     gm_get (apps x) a \<noteq> None \<longrightarrow> gm_get (apps y) a \<noteq> None \<longrightarrow> p = q)"

definition pfd_inv :: "Config \<Rightarrow> nefContext \<Rightarrow> bool" where
  "pfd_inv c s \<longleftrightarrow> (\<forall>p tr. trans_at s p = Some tr \<longrightarrow> trans_ok c p tr) \<and> apps_unique (trans_at s)"

lemma apps_unique_sub:
  "apps_unique M \<Longrightarrow> (\<And>p x. M' p = Some x \<Longrightarrow> M p = Some x) \<Longrightarrow> apps_unique M'"
  unfolding apps_unique_def by meson

lemma apps_unique_add:
  assumes "apps_unique M"
    and "\<And>q y a. q \<noteq> p \<Longrightarrow> M q = Some y \<Longrightarrow> gm_get (apps x) a \<noteq> None \<Longrightarrow> gm_get (apps y) a = None"
  shows "apps_unique (M(p \<mapsto> x))"
  unfolding apps_unique_def
proof (intro allI impI)
  fix q r y z a
  assume h: "(M(p \<mapsto> x)) q = Some y" "(M(p \<mapsto> x)) r = Some z"
    "gm_get (apps y) a \<noteq> None" "gm_get (apps z) a \<noteq> None"
  show "q = r"
  proof (rule ccontr)
    assume "q \<noteq> r"
    with h assms(2) [of q y a] assms(2) [of r z a] have "q \<noteq> p" "r \<noteq> p"
      by (auto split: if_splits)
    with h assms(1) \<open>q \<noteq> r\<close> show False unfolding apps_unique_def by (metis fun_upd_other)
  qed
qed

lemma apps_unique_shrink:
  assumes u: "apps_unique M" and p: "M p = Some x"
    and sub: "\<And>a. gm_get (apps x') a \<noteq> None \<Longrightarrow> gm_get (apps x) a \<noteq> None"
  shows "apps_unique (M(p \<mapsto> x'))"
proof (rule apps_unique_add [OF u])
  fix q y a
  assume q: "q \<noteq> p" "M q = Some y" and a: "gm_get (apps x') a \<noteq> None"
  from u p q(2) sub [OF a] q(1) show "gm_get (apps y) a = None"
    unfolding apps_unique_def by blast
qed

lemma list_ex_get:
  "gm_ok m \<Longrightarrow> list_ex (\<lambda>(_, v). P v) m \<longleftrightarrow> (\<exists>k v. gm_get m k = Some v \<and> P v)"
  unfolding list_ex_iff by (auto simp: gm_mem_get dest: gm_get_mem, blast)

lemma list_ex_key: "list_ex (\<lambda>(key, _). key = a) m \<longleftrightarrow> gm_get m a \<noteq> None"
  by (induction m) auto

lemma exists_iff:
  assumes "tab_inv c n s"
  shows "nefCheckPfdAppIDExists a s \<longleftrightarrow> (\<exists>p x. trans_at s p = Some x \<and> gm_get (apps x) a \<noteq> None)"
proof -
  let ?P = "\<lambda>f. list_ex (\<lambda>(_, x). gm_get (apps x) a \<noteq> None) (af_pfdtrans f)"
  have ok: "gm_ok (nef_afs (ctx_nef s))" using assms by (simp add: tab_inv_def)
  have "nefCheckPfdAppIDExists a s \<longleftrightarrow> (\<exists>k f. nefGetAf (ctx_nef s) k = Some f \<and> ?P f)"
    unfolding nefCheckPfdAppIDExists_def list_ex_key apps_def [symmetric] nefGetAf_def
    by (rule list_ex_get [OF ok])
  also have "\<dots> \<longleftrightarrow> (\<exists>k f. nefGetAf (ctx_nef s) k = Some f \<and>
      (\<exists>i x. gm_get (af_pfdtrans f) i = Some x \<and> gm_get (apps x) a \<noteq> None))"
    by (intro ex_cong1 conj_cong refl list_ex_get) (auto dest: tab_invD [OF assms] simp: af_ok_def)
  also have "\<dots> \<longleftrightarrow> (\<exists>p x. trans_at s p = Some x \<and> gm_get (apps x) a \<noteq> None)"
    by (simp add: trans_at_def bind_eq_Some_conv) blast
  finally show ?thesis .
qed

section \<open>Frames\<close>

lemma put_trans_sel [simp]:
  "nef_corrID (ctx_nef (put_trans k i x s)) = nef_corrID (ctx_nef s)"
  "nef_pcfClient (ctx_nef (put_trans k i x s)) = nef_pcfClient (ctx_nef s)"
  "nef_udrClient (ctx_nef (put_trans k i x s)) = nef_udrClient (ctx_nef s)"
  "nef_udrPfdClient (ctx_nef (put_trans k i x s)) = nef_udrPfdClient (ctx_nef s)"
  "ctx_cfg (put_trans k i x s) = ctx_cfg s" "sub_at (put_trans k i x s) = sub_at s"
  "ctx_TestNEFSB (put_trans k i x s) = ctx_TestNEFSB s"
  "ctx_TestClient (put_trans k i x s) = ctx_TestClient s"
  "nefGetAf (ctx_nef (put_trans k i x s)) k' =
     (if k' = k then map_option (\<lambda>a. a\<lparr>af_pfdtrans := gm_put i x (af_pfdtrans a)\<rparr>) (nefGetAf (ctx_nef s) k)
      else nefGetAf (ctx_nef s) k')"
  by (simp_all add: put_trans_def)

lemma put_trans_put_trans [simp]: "put_trans k i y (put_trans k i x s) = put_trans k i y s"
  by (simp add: put_trans_def upd_af_upd_af comp_def)

lemma del_trans_sel [simp]:
  "nef_corrID (ctx_nef (del_trans k i s)) = nef_corrID (ctx_nef s)"
  "nef_pcfClient (ctx_nef (del_trans k i s)) = nef_pcfClient (ctx_nef s)"
  "nef_udrClient (ctx_nef (del_trans k i s)) = nef_udrClient (ctx_nef s)"
  "nef_udrPfdClient (ctx_nef (del_trans k i s)) = nef_udrPfdClient (ctx_nef s)"
  "ctx_cfg (del_trans k i s) = ctx_cfg s" "sub_at (del_trans k i s) = sub_at s"
  "ctx_TestNEFSB (del_trans k i s) = ctx_TestNEFSB s"
  "ctx_TestClient (del_trans k i s) = ctx_TestClient s"
  "nefGetAf (ctx_nef (del_trans k i s)) k' =
     (if k' = k then map_option (\<lambda>a. a\<lparr>af_pfdtrans := gm_del i (af_pfdtrans a)\<rparr>) (nefGetAf (ctx_nef s) k)
      else nefGetAf (ctx_nef s) k')"
  by (simp_all add: del_trans_def)

lemma sub_at_pfd_updates [simp]: "sub_at (bump_trans k s) = sub_at s" "sub_at (set_udrpfd u s) = sub_at s"
  by (simp_all add: bump_trans_def sub_at_def fun_eq_iff)

text \<open>Nothing of the traffic influence component changes.\<close>

definition same_ti :: "nefContext \<Rightarrow> nefContext \<Rightarrow> bool" where
  "same_ti s t \<longleftrightarrow> sub_at t = sub_at s \<and> nef_corrID (ctx_nef t) = nef_corrID (ctx_nef s) \<and>
     nef_pcfClient (ctx_nef t) = nef_pcfClient (ctx_nef s) \<and> nef_udrClient (ctx_nef t) = nef_udrClient (ctx_nef s)"

lemma same_ti_refl [simp]: "same_ti s s"
  by (simp add: same_ti_def)

lemma same_ti_trans: "same_ti s t \<Longrightarrow> same_ti t u \<Longrightarrow> same_ti s u"
  by (simp add: same_ti_def)

lemma same_ti_check:
  assumes "nefCheckDeleteAf t k = Ret u x"
  shows "same_ti t u"
  using assms sub_at_deleteAf [of t k]
  by (auto simp: nefCheckDeleteAf_def same_ti_def afGetSubCount_def split: option.splits if_splits)

section \<open>The table under the operations\<close>

lemma tab_inv_udrpfd [simp]: "tab_inv c n (set_udrpfd u s) = tab_inv c n s"
  by (simp add: tab_inv_def)

lemma af_ok_bump_trans:
  "af_ok c n k a \<Longrightarrow> af_ok c (Suc n) k (a\<lparr>af_transIDnum := af_transIDnum a + 1\<rparr>)"
  unfolding af_ok_def by (auto intro: counted_bump counted_mono)

lemma tab_inv_bump_trans: "tab_inv c n s \<Longrightarrow> tab_inv c (Suc n) (bump_trans k s)"
  unfolding bump_trans_def by (rule tab_inv_upd) (auto intro: af_ok_bump_trans dest: tab_invD)

lemma af_ok_add_trans:
  assumes ok: "af_ok c n k a" and room: "int (gm_len (af_pfdtrans a)) < sint (cfg_MaxPfdTransSupport c)"
  shows "af_ok c (Suc n) k (a\<lparr>af_transIDnum := af_transIDnum a + 1,
    af_pfdtrans := gm_put (Itoa (af_transIDnum a)) x (af_pfdtrans a)\<rparr>)"
proof -
  have "int (gm_len (gm_put (Itoa (af_transIDnum a)) x (af_pfdtrans a))) \<le>
      max 0 (sint (cfg_MaxPfdTransSupport c))"
    using gm.len_put_le [of "af_pfdtrans a" "Itoa (af_transIDnum a)" x] ok room by (simp add: af_ok_def)
  with ok show ?thesis
    unfolding af_ok_def by (auto simp: gm.dom_put intro: counted_bump counted_mono)
qed

lemma tab_inv_add_trans:
  assumes inv: "tab_inv c n s" and af: "nefGetAf (ctx_nef s) k = Some a" and room: "trans_room s a"
  shows "tab_inv c (Suc n) (put_trans k (Itoa (af_transIDnum a)) x (set_udrpfd u (bump_trans k s)))"
proof -
  let ?f = "\<lambda>b. b\<lparr>af_transIDnum := af_transIDnum b + 1,
    af_pfdtrans := gm_put (Itoa (af_transIDnum a)) x (af_pfdtrans b)\<rparr>"
  have cfg: "ctx_cfg s = c" using inv by (simp add: tab_inv_def)
  have "tab_inv c (Suc n) (set_udrpfd u (upd_af k ?f s))"
    by (simp, rule tab_inv_upd [OF inv])
      (use af af_ok_add_trans [OF tab_invD [OF inv af]] room cfg in \<open>auto simp: trans_room_def\<close>)
  moreover have "put_trans k (Itoa (af_transIDnum a)) x (set_udrpfd u (bump_trans k s)) =
      set_udrpfd u (upd_af k ?f s)"
    using af by (simp add: put_trans_def bump_trans_def upd_af_def nefGetAf_def set_afs_def set_udrpfd_def)
  ultimately show ?thesis by simp
qed

lemma af_ok_set_trans:
  "af_ok c n k a \<Longrightarrow> gm_get (af_pfdtrans a) i = Some y \<Longrightarrow>
   af_ok c n k (a\<lparr>af_pfdtrans := gm_put i x (af_pfdtrans a)\<rparr>)"
  unfolding af_ok_def by (auto simp: gm.dom_put gm.len_put_old insert_absorb domI)

lemma af_ok_del_trans: "af_ok c n k a \<Longrightarrow> af_ok c n k (a\<lparr>af_pfdtrans := gm_del i (af_pfdtrans a)\<rparr>)"
  using gm.len_del_le [of "af_pfdtrans a" i]
  unfolding af_ok_def by (auto simp: gm.dom_del intro: counted_mono)

lemma tab_inv_put_trans:
  "tab_inv c n s \<Longrightarrow> trans_at s (k, i) = Some y \<Longrightarrow> tab_inv c n (put_trans k i x s)"
  unfolding put_trans_def
  by (rule tab_inv_upd) (auto dest!: trans_at_SomeD intro: af_ok_set_trans dest: tab_invD)

lemma tab_inv_del_trans: "tab_inv c n s \<Longrightarrow> tab_inv c n (del_trans k i s)"
  unfolding del_trans_def by (rule tab_inv_upd) (auto intro: af_ok_del_trans dest: tab_invD)

lemma tab_inv_check: "tab_inv c n s \<Longrightarrow> nefCheckDeleteAf s k = Ret t x \<Longrightarrow> tab_inv c n t"
  using tab_inv_deleteAf by (auto simp: nefCheckDeleteAf_def split: option.splits if_splits)

lemma new_trans_fresh:
  assumes "tab_inv c n s" and "nefGetAf (ctx_nef s) k = Some a" and "n < 2 ^ 64"
  shows "trans_at s (k, Itoa (af_transIDnum a)) = None"
proof -
  from tab_invD [OF assms(1,2)]
  have "counted (cfg_PfdTransStartID c) n (af_transIDnum a) (dom (gm_get (af_pfdtrans a)))"
    by (simp add: af_ok_def)
  from counted_fresh [OF this assms(3)] show ?thesis by (simp add: trans_at_af [OF assms(2)] domIff)
qed

section \<open>Creation of a transaction\<close>

text \<open>The writers of a creation: the transaction is sent with the reports that are then dropped.\<close>

definition sent :: "PfdManagement \<Rightarrow> string \<Rightarrow> nef_writer \<Rightarrow> nef_writer" where
  "sent t loc w = rwWrite (BTrans t) (rwWriteHeader 201
     (rwSet ''Location'' loc (rwSet ''Content-Type'' jsonCT w)))"

lemma clearSentReports_created:
  assumes "nefGetAf (ctx_nef s) k = Some a" and "i = Itoa (af_transIDnum a)"
  shows "clearSentReports k (put_trans k i (newTrans i loc t) (set_udrpfd u (bump_trans k s))) =
    Ret (put_trans k i (newTrans i loc (t\<lparr>pm_PfdReports := []\<rparr>)) (set_udrpfd u (bump_trans k s))) ()"
  using assms by (cases t) (simp add: clearSentReports_def Let_def newTrans_def linked_def)

lemma CreatePFD_cases:
  fixes body :: PfdManagement and s :: nefContext
  defines "t \<equiv> accepted s (body\<lparr>pm_PfdReports := []\<rparr>)"
  obtains
    (invalid) w' where "\<not> pfd_request_ok body" "rw_status w = None \<Longrightarrow> rw_status w' = Some 400"
      "CreatePFDManagementTransaction clk k (Decoded body) s w = Ret s w'"
  | (dup) w' where "pfd_request_ok body" "pm_PfdDatas t = []"
      "w' = sendPFDErrorResponseToAF w (mkRsp 500 pfdAppsFailed) [] (pm_PfdReports t)"
      "CreatePFDManagementTransaction clk k (Decoded body) s w = Ret s w'"
  | (max) w' u where "pfd_request_ok body" "pm_PfdDatas t \<noteq> []" "u = s \<or> u = ensure_af k s"
      "nefGetAf (ctx_nef s) k = None \<longrightarrow> u = s \<or> af_room s"
      "rw_status w = None \<Longrightarrow> rw_status w' = Some 400"
      "nefGetAf (ctx_nef s) k = None \<and> \<not> af_room s \<or>
         \<not> trans_room s (the (nefGetAf (ctx_nef (ensure_af k s)) k))"
      "CreatePFDManagementTransaction clk k (Decoded body) s w = Ret u w'"
  | (udr) w' u where "pfd_request_ok body" "pm_PfdDatas t \<noteq> []" "ctx_TestClient s \<or> ctx_TestNEFSB s"
      "nefGetAf (ctx_nef s) k = None \<longrightarrow> af_room s"
      "CreatePFDManagementTransaction clk k (Decoded body) s w =
         Ret (set_udrpfd u (bump_trans k (ensure_af k s))) w'"
  | (created) a i loc where "pfd_request_ok body" "pm_PfdDatas t \<noteq> []"
      "\<not> ctx_TestClient s" "\<not> ctx_TestNEFSB s" "nefGetAf (ctx_nef s) k = None \<longrightarrow> af_room s"
      "nefGetAf (ctx_nef (ensure_af k s)) k = Some a" "trans_room s a"
      "i = Itoa (af_transIDnum a)" "loc = transLocation s a i"
      "CreatePFDManagementTransaction clk k (Decoded body) s w =
         Ret (put_trans k i (newTrans i loc (t\<lparr>pm_PfdReports := []\<rparr>))
               (set_udrpfd (udr_put_all clk (pm_PfdDatas t) (nef_udrPfdClient (ctx_nef s)))
                 (bump_trans k (ensure_af k s))))
           (sent ((linked loc t)\<lparr>pm_Self := loc\<rparr>) loc w)"
proof -
  let ?b = "body\<lparr>pm_PfdReports := []\<rparr>"
  have ok: "pfd_request_ok ?b = pfd_request_ok body" by (simp add: pfd_request_ok_def)
  note cr = CreatePFDManagementTransaction_def
  show thesis
  proof (cases "pfd_request_ok body")
    case False
    with ok validate_not_ok [of ?b s "''POST''"] obtain t' r where
      v: "validateAFPfdManagementData s ?b ''POST'' = (t', r, False)" "rsp_errorCode (prsp_result r) = 400"
      by auto
    from False show ?thesis
      by (rule invalid [of "sendErrorResponseToAF w (prsp_result r)"])
        (simp_all add: cr v sendError_sel createErrorJSON_def)
  next
    case True
    with ok have v: "validateAFPfdManagementData s ?b ''POST'' = (t, prsp_zero, True)"
      by (simp add: validate_ok t_def accepted_def)
    show ?thesis
    proof (cases "pm_PfdDatas t = []")
      case empty: True
      with True v show ?thesis by (intro dup) (simp_all add: cr)
    next
      case ne: False
      show ?thesis
      proof (cases "nefGetAf (ctx_nef s) k = None \<and> \<not> af_room s")
        case True
        with \<open>pfd_request_ok body\<close> ne v show ?thesis
          by (intro max [of s "sendErrorResponseToAF w (mkRsp 400 ''UDR Error in creating PFD transaction'')"])
            (simp_all add: cr gm_len_def createNewPFDTrans_eq pfdAppsFailed_def sendError_sel
              createErrorJSON_def mkRsp_def)
      next
        case room: False
        then have room': "nefGetAf (ctx_nef s) k = None \<longrightarrow> af_room s" by blast
        obtain a where a: "nefGetAf (ctx_nef (ensure_af k s)) k = Some a" by (simp add: nefGetAf_ensure)
        have make: "createNewPFDTrans clk s k t = afAddPFDTransaction k clk (ensure_af k s) t"
          using room by (auto simp: createNewPFDTrans_eq)
        from a ne show ?thesis
        proof (cases rule: afAddPFDTransaction_cases [where clk = clk])
          case full
          with True ne v make room' a show ?thesis
            by (intro max [of "ensure_af k s"
                  "sendErrorResponseToAF w (mkRsp 400 ''UDR Error in creating PFD transaction'')"])
              (simp_all add: cr gm_len_def pfdAppsFailed_def sendError_sel createErrorJSON_def mkRsp_def
                trans_room_def)
        next
          case (fatal u)
          with True ne v make room' show ?thesis
            by (intro udr [of u "sendErrorResponseToAF w (mkRsp 400 ''UDR Error in creating PFD transaction'')"])
              (simp_all add: cr gm_len_def pfdAppsFailed_def)
        next
          case (failed u t')
          with True ne v make room' show ?thesis
            by (intro udr [of u "sendPFDErrorResponseToAF w (mkRsp 500 pfdAppsFailed) [] (pm_PfdReports t')"])
              (simp_all add: cr gm_len_def)
        next
          case (stored i loc)
          have loc: "loc = transLocation s a i" using stored(5) by (simp add: transLocation_def)
          from stored True ne v make room' a loc show ?thesis
            by (intro created [of a i loc])
              (simp_all add: cr gm_len_def clearSentReports_created sent_def trans_room_def)
        qed
      qed
    qed
  qed
qed

section \<open>The handlers keep the invariant\<close>

definition trans_inv :: "Config \<Rightarrow> nat \<Rightarrow> nefContext \<Rightarrow> bool" where
  "trans_inv c n s \<longleftrightarrow> tab_inv c n s \<and> pfd_inv c s"

lemma trans_inv_Suc: "trans_inv c n s \<Longrightarrow> trans_inv c (Suc n) s"
  unfolding trans_inv_def using tab_inv_mono [of c n s "Suc n"] by simp

lemma trans_inv_okD: "trans_inv c n s \<Longrightarrow> trans_at s p = Some x \<Longrightarrow> trans_ok c p x"
  unfolding trans_inv_def pfd_inv_def by blast

lemma pfd_inv_cong: "pfd_inv c s \<Longrightarrow> trans_at t = trans_at s \<Longrightarrow> pfd_inv c t"
  by (simp add: pfd_inv_def)

lemma pfd_inv_sub:
  "pfd_inv c s \<Longrightarrow> (\<And>p x. trans_at t p = Some x \<Longrightarrow> trans_at s p = Some x) \<Longrightarrow> pfd_inv c t"
  unfolding pfd_inv_def using apps_unique_sub [of "trans_at s" "trans_at t"] by blast

lemma pfd_inv_upd:
  assumes "pfd_inv c s" and "trans_at t = (trans_at s)(p \<mapsto> x)" and "trans_ok c p x"
    and "apps_unique ((trans_at s)(p \<mapsto> x))"
  shows "pfd_inv c t"
  using assms unfolding pfd_inv_def by (metis fun_upd_other fun_upd_same option.inject)

lemma linked_sel [simp]:
  "gm_get (pm_PfdDatas (linked loc t)) a =
     map_option (\<lambda>v. v\<lparr>pdt_Self := loc @ ''/applications/'' @ a\<rparr>) (gm_get (pm_PfdDatas t) a)"
  "gm_ok (pm_PfdDatas (linked loc t)) = gm_ok (pm_PfdDatas t)"
  "pm_PfdDatas (linked loc t) = [] \<longleftrightarrow> pm_PfdDatas t = []"
  "pm_PfdReports (linked loc t) = pm_PfdReports t"
proof -
  show "pm_PfdDatas (linked loc t) = [] \<longleftrightarrow> pm_PfdDatas t = []" by (simp add: linked_def map_ran_def)
qed (simp_all add: linked_def)

lemma apps_newTrans [simp]:
  "gm_get (apps (newTrans i loc t)) a =
     map_option (\<lambda>v. v\<lparr>pdt_Self := loc @ ''/applications/'' @ a\<rparr>) (gm_get (pm_PfdDatas t) a)"
  "tr_pfdManagement (newTrans i loc t) = (linked loc t)\<lparr>pm_Self := loc\<rparr>"
  by (simp_all add: apps_def newTrans_def)

lemma trans_ok_new:
  assumes "tab_inv c n s" and "nefGetAf (ctx_nef (ensure_af k s)) k = Some a" and "af_afID a = k"
    and "gm_ok (pm_PfdDatas t)" and "pm_PfdDatas t \<noteq> []" and "pm_PfdReports t = []"
  shows "trans_ok c (k, i) (newTrans i (transLocation s a i) t)"
proof -
  have "gm_ok (apps (newTrans i (transLocation s a i) t))" "apps (newTrans i (transLocation s a i) t) \<noteq> []"
    using assms(4,5) by (simp_all add: apps_def)
  with assms show ?thesis
    by (auto simp: trans_ok_def transLocation_def tab_inv_def) (simp_all add: newTrans_def)
qed

lemma CreatePFD_inv:
  assumes inv: "trans_inv c n s" and n: "n < 2 ^ 64" and ok: "rbody_all (\<lambda>p. gm_ok (pm_PfdDatas p)) b"
  shows "trans_inv c (Suc n) (go_state (CreatePFDManagementTransaction clk k b s w)) \<and>
    same_ti s (go_state (CreatePFDManagementTransaction clk k b s w))"
proof (cases b)
  case (Decoded body)
  have tab: "tab_inv c n s" and pfd: "pfd_inv c s" using inv by (auto simp: trans_inv_def)
  note up = trans_inv_Suc [OF inv]
  have ens: "trans_inv c n (ensure_af k s)" if "nefGetAf (ctx_nef s) k = None \<longrightarrow> af_room s"
    using tab_inv_ensure [OF tab, of k] that pfd pfd_inv_cong [of c s "ensure_af k s"]
    by (auto simp: trans_inv_def)
  have bump: "trans_inv c (Suc n) (set_udrpfd u (bump_trans k (ensure_af k s)))"
    if "nefGetAf (ctx_nef s) k = None \<longrightarrow> af_room s" for u
    using tab_inv_bump_trans [of c n "ensure_af k s"] ens [OF that] pfd
    by (auto simp: trans_inv_def intro: pfd_inv_cong)
  show ?thesis
  proof (cases rule: CreatePFD_cases [where body = body and s = s and w = w and clk = clk and k = k])
    case (created a i loc)
    let ?t = "accepted s (body\<lparr>pm_PfdReports := []\<rparr>)"
    let ?x = "newTrans i loc (?t\<lparr>pm_PfdReports := []\<rparr>)"
    let ?u = "put_trans k i ?x (set_udrpfd (udr_put_all clk (pm_PfdDatas ?t)
      (nef_udrPfdClient (ctx_nef s))) (bump_trans k (ensure_af k s)))"
    have tab': "tab_inv c n (ensure_af k s)" using ens [OF created(5)] by (simp add: trans_inv_def)
    have at: "trans_at ?u = (trans_at s)((k, i) \<mapsto> ?x)" using created(6) by (simp add: trans_at_put)
    have "af_afID a = k" using tab_invD [OF tab' created(6)] by (simp add: af_ok_def)
    then have x: "trans_ok c (k, i) ?x"
      using trans_ok_new [OF tab created(6)] created(2,9) ok Decoded
      by (simp add: accepted_sel rbody_all_def)
    have "apps_unique ((trans_at s)((k, i) \<mapsto> ?x))"
    proof (rule apps_unique_add)
      show "apps_unique (trans_at s)" using pfd by (simp add: pfd_inv_def)
      fix q y a assume q: "trans_at s q = Some y" and a: "gm_get (apps ?x) a \<noteq> None"
      from a have "\<not> nefCheckPfdAppIDExists a s" by (simp add: accepted_sel split: if_splits)
      with q exists_iff [OF tab, of a] show "gm_get (apps y) a = None" by blast
    qed
    with pfd_inv_upd [OF pfd at x] tab_inv_add_trans [OF tab' created(6)] created(7,8,10)
    show ?thesis by (simp add: Decoded trans_inv_def same_ti_def trans_room_def)
  next
    case (max w' u)
    with up ens trans_inv_Suc [OF ens] show ?thesis by (auto simp: Decoded same_ti_def)
  next
    case (udr w' u)
    with bump show ?thesis by (simp add: Decoded same_ti_def)
  qed (use up in \<open>simp_all add: Decoded\<close>)
qed (use trans_inv_Suc [OF inv] in \<open>simp_all add: CreatePFDManagementTransaction_def\<close>)

lemma get_state: "go_state (nefSBUDRAPPPFDGet s a) = s"
  by (simp add: nefSBUDRAPPPFDGet_def split: prod.split option.split)

lemma get_loop_state: "go_state (nefSBUDRPFDGet_loop xs s t) = s"
proof (induction xs arbitrary: t)
  case (Cons x xs)
  obtain k v where x: "x = (k, v)" by (cases x)
  show ?case
    using get_state [of s "pdt_ExternalAppID v"] Cons.IH
    by (cases "nefSBUDRAPPPFDGet s (pdt_ExternalAppID v)") (auto simp: x split: option.split)
qed simp

lemma callPfdGet_state: "go_state (callPfdGet f tr s) = s"
  by (cases f) (simp_all add: nefSBUDRPFDGet_def get_loop_state)

lemma afGetPfdTransaction_state: "go_state (afGetPfdTransaction a s i) = s"
proof (cases "gm_get (af_pfdtrans a) i")
  case (Some tr)
  then show ?thesis
    using callPfdGet_state [of "tr_NEFSBPfdGet tr" tr s]
    by (cases "callPfdGet (tr_NEFSBPfdGet tr) tr s") (auto simp: afGetPfdTransaction_def)
qed (simp add: afGetPfdTransaction_def)

lemma list_loop_state: "go_state (afGetPfdTransactionList_loop a s ks l r) = s"
proof (induction ks arbitrary: l r)
  case (Cons key ks)
  show ?case
    using afGetPfdTransaction_state [of a s key] Cons.IH
    by (cases "afGetPfdTransaction a s key") (auto split: option.split)
qed simp

lemma ReadPFD_states [simp]:
  "go_state (ReadAllPFDManagementTransaction k s w) = s"
  "go_state (ReadPFDManagementTransaction k i s w) = s"
  "go_state (ReadPFDManagementApplication k i a s w) = s"
proof -
  show "go_state (ReadAllPFDManagementTransaction k s w) = s"
  proof (cases "nefGetAf (ctx_nef s) k")
    case (Some a)
    then show ?thesis
      using list_loop_state [of a s "map fst (af_pfdtrans a)" None prsp_zero]
      by (cases "afGetPfdTransactionList a s")
        (auto simp: ReadAllPFDManagementTransaction_def afGetPfdTransactionList_def split: option.split)
  qed (simp add: ReadAllPFDManagementTransaction_def)
  show "go_state (ReadPFDManagementTransaction k i s w) = s"
  proof (cases "nefGetAf (ctx_nef s) k")
    case (Some a)
    then show ?thesis
      using afGetPfdTransaction_state [of a s i]
      by (cases "afGetPfdTransaction a s i") (auto simp: ReadPFDManagementTransaction_def split: option.split)
  qed (simp add: ReadPFDManagementTransaction_def)
  show "go_state (ReadPFDManagementApplication k i a s w) = s"
    by (simp add: ReadPFDManagementApplication_def split: option.split prod.split)
qed

text \<open>
  A change of one stored transaction that keeps its links and adds no application keeps the
  invariant.
\<close>

lemma trans_inv_put:
  assumes inv: "trans_inv c n s" and at: "trans_at s (k, i) = Some x" and ok: "trans_ok c (k, i) y"
    and sub: "\<And>a. gm_get (apps y) a \<noteq> None \<Longrightarrow> gm_get (apps x) a \<noteq> None"
  shows "trans_inv c n (put_trans k i y (set_udrpfd u s))"
proof -
  from trans_at_SomeD [OF at] obtain a where "nefGetAf (ctx_nef s) k = Some a" by blast
  then have eq: "trans_at (put_trans k i y (set_udrpfd u s)) = (trans_at s)((k, i) \<mapsto> y)"
    by (simp add: trans_at_put)
  have "apps_unique ((trans_at s)((k, i) \<mapsto> y))"
    by (rule apps_unique_shrink [where M = "trans_at s", OF _ at])
      (use inv sub in \<open>auto simp: trans_inv_def pfd_inv_def\<close>)
  with pfd_inv_upd [OF _ eq ok] inv tab_inv_put_trans [of c n "set_udrpfd u s" k i x y] at show ?thesis
    by (simp add: trans_inv_def)
qed

lemma trans_inv_del: "trans_inv c n s \<Longrightarrow> trans_inv c n (del_trans k i s)"
proof -
  assume inv: "trans_inv c n s"
  have "trans_at s p = Some x" if "trans_at (del_trans k i s) p = Some x" for p x
    using that by (cases p) (auto simp: trans_at_def del_trans_def bind_eq_Some_conv split: if_splits)
  with inv tab_inv_del_trans [of c n s k i] show ?thesis
    by (auto simp: trans_inv_def intro: pfd_inv_sub)
qed

lemma trans_inv_udr [simp]: "trans_inv c n (set_udrpfd u s) = trans_inv c n s"
  by (simp add: trans_inv_def pfd_inv_def)

lemma trans_inv_check:
  assumes "trans_inv c n s" and "nefCheckDeleteAf s k = Ret t x"
  shows "trans_inv c n t"
proof -
  have "trans_at s p = Some y" if "trans_at t p = Some y" for p y
    using that assms(2) trans_at_deleteAf [of s k p]
    by (auto simp: nefCheckDeleteAf_def split: option.splits if_splits)
  with assms tab_inv_check show ?thesis by (auto simp: trans_inv_def intro: pfd_inv_sub)
qed

subsection \<open>PUT of a transaction\<close>

text \<open>The request with the links of the stored transaction.\<close>

definition relinked :: "PfdManagement \<Rightarrow> PfdManagement \<Rightarrow> PfdManagement" where
  "relinked stored t = t\<lparr>pm_Self := pm_Self stored,
     pm_PfdDatas := map_ran (\<lambda>key v. v\<lparr>pdt_Self := (case gm_get (pm_PfdDatas stored) key of
       None \<Rightarrow> [] | Some d \<Rightarrow> pdt_Self d)\<rparr>) (pm_PfdDatas t)\<rparr>"

lemma afUpdatePutPfdTransaction_cases:
  assumes at: "trans_at s (k, i) = Some x" and fn: "tr_NEFSBPfdPut x = PfdFnUDR" and ne: "pm_PfdDatas t \<noteq> []"
  obtains (unknown) a where "a \<in> fst ` set (pm_PfdDatas t)" "gm_get (apps x) a = None"
      "afUpdatePutPfdTransaction k clk s i t = Ret s (t, Some ''Application not present'', t)"
  | (fatal) u where "ctx_TestClient s"
      "afUpdatePutPfdTransaction k clk s i t = Ret (set_udrpfd u s) (t, Some ''Error in UDR SB PUT'', t)"
  | (failed) u t' where "\<not> ctx_TestClient s" "ctx_TestNEFSB s"
      "afUpdatePutPfdTransaction k clk s i t = Ret (set_udrpfd u s) (pm_zero, Some pfdAppsFailed, t')"
  | (stored) u where "\<not> ctx_TestClient s" "\<not> ctx_TestNEFSB s"
      "\<forall>a\<in>fst ` set (pm_PfdDatas t). gm_get (apps x) a \<noteq> None"
      "u = udr_put_all clk (pm_PfdDatas t) (nef_udrPfdClient (ctx_nef s))"
      "afUpdatePutPfdTransaction k clk s i t =
         Ret (put_trans k i (x\<lparr>tr_pfdManagement := relinked (tr_pfdManagement x) t\<rparr>) (set_udrpfd u s))
           (relinked (tr_pfdManagement x) t, None, relinked (tr_pfdManagement x) t)"
proof -
  from trans_at_SomeD [OF at] obtain f where f: "nefGetAf (ctx_nef s) k = Some f"
    "gm_get (af_pfdtrans f) i = Some x" by blast
  let ?new = "list_ex (\<lambda>(key, _). gm_get (pm_PfdDatas (tr_pfdManagement x)) key = None) (pm_PfdDatas t)"
  have new: "?new \<longleftrightarrow> (\<exists>a\<in>fst ` set (pm_PfdDatas t). gm_get (apps x) a = None)"
    by (force simp: list_ex_iff apps_def)
  note upd = afUpdatePutPfdTransaction_def f Let_def fn
  show thesis
  proof (cases ?new)
    case True
    with new obtain a where "a \<in> fst ` set (pm_PfdDatas t)" "gm_get (apps x) a = None" by blast
    with True show ?thesis by (intro unknown [of a]) (simp_all add: upd)
  next
    case False
    from ne show ?thesis
    proof (cases rule: nefSBUDRPFDPut_cases [where s = s and clk = clk])
      case (fatal u rsp)
      with False show ?thesis by (intro that(2)) (simp_all add: upd)
    next
      case (failed u rsp t')
      with False show ?thesis by (intro that(3)) (simp_all add: upd)
    next
      case (stored rsp)
      with False new show ?thesis by (intro that(4)) (simp_all add: upd relinked_def)
    qed
  qed
qed

lemma trans_ok_relinked:
  assumes ok: "trans_ok c p x" and t: "gm_ok (pm_PfdDatas t)" "pm_PfdDatas t \<noteq> []" "pm_PfdReports t = []"
    and known: "\<forall>a\<in>fst ` set (pm_PfdDatas t). gm_get (apps x) a \<noteq> None"
  shows "trans_ok c p (x\<lparr>tr_pfdManagement := relinked (tr_pfdManagement x) t\<rparr>)"
proof -
  let ?y = "x\<lparr>tr_pfdManagement := relinked (tr_pfdManagement x) t\<rparr>"
  have "pdt_Self v = pm_Self (tr_pfdManagement x) @ ''/applications/'' @ a"
    if "gm_get (apps ?y) a = Some v" for a v
  proof -
    from that obtain v0 where v0: "gm_get (pm_PfdDatas t) a = Some v0"
      "v = v0\<lparr>pdt_Self := (case gm_get (apps x) a of None \<Rightarrow> [] | Some d \<Rightarrow> pdt_Self d)\<rparr>"
      by (auto simp: apps_def relinked_def)
    with known gm_get_None [of "pm_PfdDatas t" a] obtain d where "gm_get (apps x) a = Some d" by auto
    with v0 ok show ?thesis by (simp add: trans_ok_def)
  qed
  moreover have "gm_ok (apps ?y)" "apps ?y \<noteq> []" using t by (simp_all add: apps_def relinked_def map_ran_def gm_ok_def split_def comp_def)
  ultimately show ?thesis using ok t(3) by (simp add: trans_ok_def relinked_def apps_def)
qed

lemma afUpdatePut_missing:
  "nefGetAf (ctx_nef s) k \<noteq> None \<Longrightarrow> trans_at s (k, i) = None \<Longrightarrow>
   afUpdatePutPfdTransaction k clk s i t = Ret s (pm_zero, Some pfdNotFound, t)"
  by (auto simp: afUpdatePutPfdTransaction_def trans_at_def split: option.splits)

lemma afUpdatePutPfdTransaction_inv:
  assumes inv: "trans_inv c n s" and af: "nefGetAf (ctx_nef s) k \<noteq> None"
    and t: "gm_ok (pm_PfdDatas t)" "pm_PfdDatas t \<noteq> []" "pm_PfdReports t = []"
  shows "trans_inv c n (go_state (afUpdatePutPfdTransaction k clk s i t)) \<and>
    same_ti s (go_state (afUpdatePutPfdTransaction k clk s i t))"
proof (cases "trans_at s (k, i)")
  case None
  with inv af show ?thesis by (simp add: afUpdatePut_missing)
next
  case (Some x)
  have ok: "trans_ok c (k, i) x" by (rule trans_inv_okD [OF inv Some])
  then have fn: "tr_NEFSBPfdPut x = PfdFnUDR" by (simp add: trans_ok_def)
  from Some fn t(2) show ?thesis
  proof (cases rule: afUpdatePutPfdTransaction_cases [where clk = clk])
    case (stored u)
    let ?y = "x\<lparr>tr_pfdManagement := relinked (tr_pfdManagement x) t\<rparr>"
    have "trans_inv c n (put_trans k i ?y (set_udrpfd u s))"
    proof (rule trans_inv_put [OF inv Some trans_ok_relinked [OF ok t stored(3)]])
      fix a assume "gm_get (apps ?y) a \<noteq> None"
      then have "gm_get (pm_PfdDatas t) a \<noteq> None" by (auto simp: apps_def relinked_def)
      with stored(3) gm_get_None [of "pm_PfdDatas t" a] show "gm_get (apps x) a \<noteq> None" by blast
    qed
    with stored(5) show ?thesis by (simp add: same_ti_def)
  qed (use inv in \<open>simp_all add: same_ti_def\<close>)
qed

lemma UpdatePutPFD_state:
  "go_state (UpdatePutPFDManagementTransaction clk k i b s w) =
     (case b of Decoded t \<Rightarrow>
        if nefGetAf (ctx_nef s) k = None \<or> \<not> pfd_request_ok t then s
        else go_state (afUpdatePutPfdTransaction k clk s i (t\<lparr>pm_PfdReports := []\<rparr>))
      | _ \<Rightarrow> s)"
proof (cases b)
  case (Decoded t)
  let ?t = "t\<lparr>pm_PfdReports := []\<rparr>"
  have ok: "pfd_request_ok ?t = pfd_request_ok t" by (simp add: pfd_request_ok_def)
  show ?thesis
  proof (cases "pfd_request_ok t")
    case True
    with ok have "validateAFPfdManagementData s ?t ''PUT'' = (?t, prsp_zero, True)" by (simp add: validate_ok)
    with True Decoded show ?thesis
      by (auto simp: UpdatePutPFDManagementTransaction_def split: option.split prod.split
          intro!: go_state_bind)
  next
    case False
    with ok validate_not_ok [of ?t s "''PUT''"] obtain t' r where
      "validateAFPfdManagementData s ?t ''PUT'' = (t', r, False)" by auto
    with False Decoded show ?thesis
      by (simp add: UpdatePutPFDManagementTransaction_def split: option.split)
  qed
qed (auto simp: UpdatePutPFDManagementTransaction_def split: option.split)

lemma UpdatePutPFD_inv:
  assumes inv: "trans_inv c n s" and ok: "rbody_all (\<lambda>p. gm_ok (pm_PfdDatas p)) b"
  shows "trans_inv c n (go_state (UpdatePutPFDManagementTransaction clk k i b s w)) \<and>
    same_ti s (go_state (UpdatePutPFDManagementTransaction clk k i b s w))"
proof (cases b)
  case (Decoded t)
  show ?thesis
  proof (cases "nefGetAf (ctx_nef s) k = None \<or> \<not> pfd_request_ok t")
    case True
    with inv Decoded show ?thesis by (auto simp: UpdatePutPFD_state)
  next
    case False
    with afUpdatePutPfdTransaction_inv [OF inv, of k "t\<lparr>pm_PfdReports := []\<rparr>" clk i] ok Decoded
    show ?thesis by (auto simp: UpdatePutPFD_state pfd_request_ok_def rbody_all_def)
  qed
qed (use inv in \<open>simp_all add: UpdatePutPFD_state\<close>)

subsection \<open>PUT and PATCH of an application\<close>

lemma apps_put_app [simp]: "gm_get (apps (put_app a v x)) b = (if b = a then Some v else gm_get (apps x) b)"
  by (simp add: apps_def put_app_def)

lemma afUpdatePutPfdApplication_cases:
  assumes at: "trans_at s (k, i) = Some x" and fn: "tr_NEFSBAppPfdPut x = PfdFnUDR"
    and app: "gm_get (apps x) a = Some d"
  obtains (fatal) u rsp where "ctx_TestClient s" "rsp_errorCode (prsp_result rsp) = 400"
      "afUpdatePutPfdApplication k clk s i a v reps =
         Ret (set_udrpfd u s) (rsp, v, Some ''Error in UDR SB PUT'', reps)"
  | (failed) u where "\<not> ctx_TestClient s" "ctx_TestNEFSB s"
      "afUpdatePutPfdApplication k clk s i a v reps =
         Ret (set_udrpfd u s) (put_rsp True, pdt_zero, Some pfdAppsFailed,
           generatePfdReport a ''OTHER_REASON'' reps)"
  | (stored) u where "\<not> ctx_TestClient s" "\<not> ctx_TestNEFSB s"
      "u = fst (UdrPfdDataCreate False (nef_udrPfdClient (ctx_nef s)) (pfdDataForApp clk v))"
      "afUpdatePutPfdApplication k clk s i a v reps =
         Ret (put_trans k i (put_app a (v\<lparr>pdt_Self := pdt_Self d\<rparr>) x) (set_udrpfd u s))
           (put_rsp False, v\<lparr>pdt_Self := pdt_Self d\<rparr>, None, reps)"
proof -
  from trans_at_SomeD [OF at] obtain f where f: "nefGetAf (ctx_nef s) k = Some f"
    "gm_get (af_pfdtrans f) i = Some x" by blast
  note upd = afUpdatePutPfdApplication_def f fn app [unfolded apps_def] Let_def
  show thesis
  proof (cases "ctx_TestClient s")
    case True
    from nefSBUDRAPPPFDPut_err [OF True, of clk v] obtain u rsp where
      "nefSBUDRAPPPFDPut clk s v = (set_udrpfd u s, rsp, Some ''Error in UDR SB PUT'')"
      "rsp_errorCode (prsp_result rsp) = 400" by blast
    with True show ?thesis by (intro fatal) (simp_all add: upd)
  next
    case False
    note put = nefSBUDRAPPPFDPut_ok [OF False, of clk v]
    show ?thesis
    proof (cases "ctx_TestNEFSB s")
      case True
      moreover have "prsp_fc (put_rsp True) = Some ''OTHER_REASON''" by (simp add: put_rsp_def)
      ultimately show ?thesis using False put
        by (intro failed) (simp_all add: upd updatePfdAppOnRsp_def)
    next
      case False
      with \<open>\<not> ctx_TestClient s\<close> put show ?thesis
        by (intro stored) (simp_all add: upd updatePfdAppOnRsp_def)
    qed
  qed
qed

lemma trans_ok_put_app:
  assumes "trans_ok c p x" and "gm_get (apps x) a = Some d"
  shows "trans_ok c p (put_app a (v\<lparr>pdt_Self := pdt_Self d\<rparr>) x)"
proof -
  have "apps (put_app a (v\<lparr>pdt_Self := pdt_Self d\<rparr>) x) = gm_put a (v\<lparr>pdt_Self := pdt_Self d\<rparr>) (apps x)"
    by (simp add: apps_def put_app_def)
  moreover have "gm_put a w m \<noteq> []" for w and m :: "(string, PfdData) gomap" by (cases m) (auto split: if_splits)
  ultimately show ?thesis
    using assms unfolding trans_ok_def by (auto simp: put_app_def split: if_splits)
qed

lemma afUpdateApp_missing:
  assumes "nefGetAf (ctx_nef s) k \<noteq> None"
    and "trans_at s (k, i) = None \<or> (\<exists>x. trans_at s (k, i) = Some x \<and> gm_get (apps x) a = None)"
  shows "\<exists>rsp d e. afUpdatePutPfdApplication k clk s i a v reps = Ret s (rsp, d, Some e, reps) \<and>
    rsp_errorCode (prsp_result rsp) = 404 \<and> e \<noteq> pfdAppsFailed"
  using assms
  by (auto simp: afUpdatePutPfdApplication_def trans_at_def apps_def mkPRsp_def mkRsp_def
      pfdNotFound_def appNotFound_def pfdAppsFailed_def split: option.splits)

lemma afUpdatePutPfdApplication_inv:
  assumes inv: "trans_inv c n s" and af: "nefGetAf (ctx_nef s) k \<noteq> None"
  shows "trans_inv c n (go_state (afUpdatePutPfdApplication k clk s i a v reps)) \<and>
    same_ti s (go_state (afUpdatePutPfdApplication k clk s i a v reps))"
proof (cases "\<exists>x d. trans_at s (k, i) = Some x \<and> gm_get (apps x) a = Some d")
  case True
  then obtain x d where x: "trans_at s (k, i) = Some x" "gm_get (apps x) a = Some d" by blast
  have ok: "trans_ok c (k, i) x" by (rule trans_inv_okD [OF inv x(1)])
  then have fn: "tr_NEFSBAppPfdPut x = PfdFnUDR" by (simp add: trans_ok_def)
  from x(1) fn x(2) show ?thesis
  proof (cases rule: afUpdatePutPfdApplication_cases [where clk = clk and v = v and reps = reps])
    case (stored u)
    have "trans_inv c n (put_trans k i (put_app a (v\<lparr>pdt_Self := pdt_Self d\<rparr>) x) (set_udrpfd u s))"
      by (rule trans_inv_put [OF inv x(1) trans_ok_put_app [OF ok x(2)]])
        (use x(2) in \<open>auto split: if_splits\<close>)
    with stored(4) show ?thesis by (simp add: same_ti_def)
  qed (use inv in \<open>simp_all add: same_ti_def\<close>)
next
  case False
  then have "trans_at s (k, i) = None \<or> (\<exists>x. trans_at s (k, i) = Some x \<and> gm_get (apps x) a = None)"
    by (metis not_None_eq)
  from afUpdateApp_missing [OF af this, of clk v reps] inv show ?thesis by auto
qed

text \<open>The patched PFDs are overwritten: the PATCH of an application is its PUT.\<close>

lemma put_app_put_app [simp]: "put_app a v (put_app a w x) = put_app a v x"
  by (simp add: put_app_def)

lemma updatePfdAppOnRsp_err: "updatePfdAppOnRsp rsp a reps = (reps', Some e) \<Longrightarrow> e = pfdAppsFailed"
  by (auto simp: updatePfdAppOnRsp_def split: if_splits)

lemma patch_application_eq:
  "afUpdatePatchPfdApplication k clk s i a v reps = afUpdatePutPfdApplication k clk s i a v reps"
proof (cases "\<exists>f x d. nefGetAf (ctx_nef s) k = Some f \<and> gm_get (af_pfdtrans f) i = Some x \<and>
    gm_get (pm_PfdDatas (tr_pfdManagement x)) a = Some d")
  case True
  then obtain f x d where x: "nefGetAf (ctx_nef s) k = Some f" "gm_get (af_pfdtrans f) i = Some x"
    "gm_get (pm_PfdDatas (tr_pfdManagement x)) a = Some d" by blast
  show ?thesis
  proof (cases "callPfdAppPut (tr_NEFSBAppPfdPut x) clk s v")
    case (Ret s1 y)
    obtain rsp err where y: "y = (rsp, err)" by (cases y)
    obtain reps1 e where e: "updatePfdAppOnRsp rsp a reps = (reps1, e)" by (cases "updatePfdAppOnRsp rsp a reps")
    show ?thesis
      using x Ret y e updatePfdAppOnRsp_err [of rsp a reps reps1]
      by (cases err; cases e) (simp_all add: afUpdatePatchPfdApplication_def afUpdatePutPfdApplication_def Let_def)
  qed (simp add: afUpdatePatchPfdApplication_def afUpdatePutPfdApplication_def x)
next
  case False
  then show ?thesis
    by (auto simp: afUpdatePatchPfdApplication_def afUpdatePutPfdApplication_def split: option.split)
qed

lemma updateApp_state:
  "go_state (updatePfdApplicationWith f k b s w) =
     (case b of Decoded v \<Rightarrow> if nefGetAf (ctx_nef s) k = None \<or> firstInvalidPfd (pdt_Pfds v) \<noteq> None then s
        else go_state (f s v []) | _ \<Rightarrow> s)"
  by (cases b) (auto simp: updatePfdApplicationWith_def split: option.split prod.split intro!: go_state_bind)

lemma UpdateApp_inv:
  assumes inv: "trans_inv c n s"
  shows "trans_inv c n (go_state (UpdatePutPFDManagementApplication clk k i a b s w)) \<and>
      same_ti s (go_state (UpdatePutPFDManagementApplication clk k i a b s w))"
    and "trans_inv c n (go_state (PatchPFDManagementApplication clk k i a b s w)) \<and>
      same_ti s (go_state (PatchPFDManagementApplication clk k i a b s w))"
  using inv afUpdatePutPfdApplication_inv [OF inv, of k]
  by (auto simp: UpdatePutPFDManagementApplication_def PatchPFDManagementApplication_def updateApp_state
      patch_application_eq split: rbody.split)

subsection \<open>Deletion\<close>

lemma nefSBUDRPFDDelete_loop_eq:
  "\<exists>u rsp. nefSBUDRPFDDelete_loop xs s =
     (set_udrpfd u s, rsp, if ctx_TestClient s \<and> xs \<noteq> [] then Some ''Error in UDR SB DELETE'' else None)"
proof (induction xs arbitrary: s)
  case Nil
  show ?case by (intro exI [of _ "nef_udrPfdClient (ctx_nef s)"]) simp
next
  case (Cons x xs)
  obtain k v where x: "x = (k, v)" by (cases x)
  let ?u = "fst (UdrPfdDataDelete (ctx_TestClient s) (nef_udrPfdClient (ctx_nef s)) (pdt_ExternalAppID v))"
  from Cons.IH [of "set_udrpfd ?u s"] show ?case
    by (auto simp: x nefSBUDRAPPPFDDelete_def UdrPfdDataDelete_def Let_def split: if_splits)
qed

lemma afDeletePfdTransaction_cases:
  assumes at: "trans_at s (k, i) = Some x" and ok: "trans_ok c (k, i) x"
  obtains (fatal) u rsp where "ctx_TestClient s" "rsp_errorCode (prsp_result rsp) = 400"
      "afDeletePfdTransaction k s i = Ret (set_udrpfd u s) (rsp, Some ''Error in UDR SB DELETE'')"
  | (deleted) u rsp where "\<not> ctx_TestClient s"
      "fst (nefSBUDRPFDDelete x s) = set_udrpfd u s"
      "afDeletePfdTransaction k s i = Ret (del_trans k i (set_udrpfd u s)) (rsp, None)"
proof -
  from trans_at_SomeD [OF at] obtain f where f: "nefGetAf (ctx_nef s) k = Some f"
    "gm_get (af_pfdtrans f) i = Some x" by blast
  from nefSBUDRPFDDelete_loop_eq [of "apps x" s] obtain u rsp where
    u: "nefSBUDRPFDDelete x s = (set_udrpfd u s, rsp,
      if ctx_TestClient s \<and> apps x \<noteq> [] then Some ''Error in UDR SB DELETE'' else None)"
    by (auto simp: nefSBUDRPFDDelete_def apps_def)
  have x: "tr_NEFSBPfdDelete x = PfdFnUDR" "apps x \<noteq> []" using ok by (auto simp: trans_ok_def)
  note del = afDeletePfdTransaction_def f x u
  show thesis
  proof (cases "ctx_TestClient s")
    case True
    then show ?thesis by (intro fatal) (simp_all add: del)
  next
    case False
    then show ?thesis by (intro deleted [of u]) (simp_all add: del)
  qed
qed

lemma afDeleteTrans_missing:
  "nefGetAf (ctx_nef s) k \<noteq> None \<Longrightarrow> trans_at s (k, i) = None \<Longrightarrow>
   afDeletePfdTransaction k s i = Ret s (mkPRsp 404 pfdNotFound, Some pfdNotFound)"
  by (auto simp: afDeletePfdTransaction_def trans_at_def split: option.splits)

lemma nefCheckDeleteAf_Ret:
  "nefGetAf (ctx_nef s) k = Some a \<Longrightarrow> \<exists>t. nefCheckDeleteAf s k = Ret t ()"
  by (simp add: nefCheckDeleteAf_def)

lemma afDeletePfdTransaction_inv:
  assumes inv: "trans_inv c n s" and af: "nefGetAf (ctx_nef s) k \<noteq> None"
  shows "\<exists>t v. afDeletePfdTransaction k s i = Ret t v \<and> trans_inv c n t \<and> same_ti s t \<and>
    nefGetAf (ctx_nef t) k \<noteq> None"
proof (cases "trans_at s (k, i)")
  case None
  with inv af show ?thesis by (auto simp: afDeleteTrans_missing)
next
  case (Some x)
  from Some trans_inv_okD [OF inv Some] show ?thesis
  proof (cases rule: afDeletePfdTransaction_cases)
    case (fatal u rsp)
    with inv af show ?thesis by (auto simp: same_ti_def)
  next
    case (deleted u rsp)
    with trans_inv_del [of c n "set_udrpfd u s" k i] inv af show ?thesis by (auto simp: same_ti_def)
  qed
qed

lemma afDeletePfdApplication_cases:
  assumes at: "trans_at s (k, i) = Some x" and app: "gm_get (apps x) a = Some d"
  defines "y \<equiv> x\<lparr>tr_pfdManagement := (tr_pfdManagement x)\<lparr>pm_PfdDatas := gm_del a (apps x)\<rparr>\<rparr>"
  shows "afDeletePfdApplication k s i a =
    Ret (if gm_del a (apps x) = [] then del_trans k i (put_trans k i y s) else put_trans k i y s)
      (rsp_zero, None)"
proof -
  from trans_at_SomeD [OF at] obtain f where f: "nefGetAf (ctx_nef s) k = Some f"
    "gm_get (af_pfdtrans f) i = Some x" by blast
  with app show ?thesis
    by (simp add: afDeletePfdApplication_def y_def Let_def apps_def gm_len_def)
qed

lemma afDeleteApp_missing:
  assumes "nefGetAf (ctx_nef s) k \<noteq> None"
    and "trans_at s (k, i) = None \<or> (\<exists>x. trans_at s (k, i) = Some x \<and> gm_get (apps x) a = None)"
  shows "\<exists>rsp e. afDeletePfdApplication k s i a = Ret s (rsp, Some e) \<and> rsp_errorCode rsp = 404"
  using assms
  by (auto simp: afDeletePfdApplication_def trans_at_def apps_def mkRsp_def split: option.splits)

lemma afDeletePfdApplication_inv:
  assumes inv: "trans_inv c n s" and af: "nefGetAf (ctx_nef s) k \<noteq> None"
  shows "\<exists>t v. afDeletePfdApplication k s i a = Ret t v \<and> trans_inv c n t \<and> same_ti s t \<and>
    nefGetAf (ctx_nef t) k \<noteq> None"
proof (cases "\<exists>x d. trans_at s (k, i) = Some x \<and> gm_get (apps x) a = Some d")
  case True
  then obtain x d where x: "trans_at s (k, i) = Some x" "gm_get (apps x) a = Some d" by blast
  let ?y = "x\<lparr>tr_pfdManagement := (tr_pfdManagement x)\<lparr>pm_PfdDatas := gm_del a (apps x)\<rparr>\<rparr>"
  have ok: "trans_ok c (k, i) x" by (rule trans_inv_okD [OF inv x(1)])
  have y: "apps ?y = gm_del a (apps x)" by (simp add: apps_def)
  have "trans_inv c n (put_trans k i ?y (set_udrpfd (nef_udrPfdClient (ctx_nef s)) s))"
    if "gm_del a (apps x) \<noteq> []"
    by (rule trans_inv_put [OF inv x(1)])
      (use ok that in \<open>auto simp: trans_ok_def y split: if_splits\<close>)
  moreover have "trans_inv c n (del_trans k i (put_trans k i ?y s))"
  proof -
    have "del_trans k i (put_trans k i ?y s) = del_trans k i s"
      by (simp add: del_trans_def put_trans_def upd_af_upd_af comp_def gm_del_put)
    with trans_inv_del [OF inv, of k i] show ?thesis by simp
  qed
  ultimately show ?thesis using afDeletePfdApplication_cases [OF x] af by (auto simp: same_ti_def)
next
  case False
  then have "trans_at s (k, i) = None \<or> (\<exists>x. trans_at s (k, i) = Some x \<and> gm_get (apps x) a = None)"
    by (metis not_None_eq)
  from afDeleteApp_missing [OF af this] inv af show ?thesis by auto
qed

lemma DeletePFD_inv:
  assumes inv: "trans_inv c n s"
  shows "trans_inv c n (go_state (DeletePFDManagementTransaction k i s w)) \<and>
      same_ti s (go_state (DeletePFDManagementTransaction k i s w))"
    and "trans_inv c n (go_state (DeletePFDManagementApplication k i a s w)) \<and>
      same_ti s (go_state (DeletePFDManagementApplication k i a s w))"
proof -
  have check: "trans_inv c n u \<and> same_ti s u" if "trans_inv c n t" "same_ti s t" "nefCheckDeleteAf t k = Ret u ()"
    for t u
    using that trans_inv_check same_ti_check same_ti_trans by blast
  show "trans_inv c n (go_state (DeletePFDManagementTransaction k i s w)) \<and>
      same_ti s (go_state (DeletePFDManagementTransaction k i s w))"
  proof (cases "nefGetAf (ctx_nef s) k = None")
    case False
    from afDeletePfdTransaction_inv [OF inv False, of i] obtain t rsp e u where
      t: "afDeletePfdTransaction k s i = Ret t (rsp, e)" "trans_inv c n t" "same_ti s t"
      "nefCheckDeleteAf t k = Ret u ()" using nefCheckDeleteAf_Ret by fastforce
    with False check [OF t(2-4)] show ?thesis
      by (auto simp: DeletePFDManagementTransaction_def split: option.split)
  qed (use inv in \<open>simp add: DeletePFDManagementTransaction_def\<close>)
  show "trans_inv c n (go_state (DeletePFDManagementApplication k i a s w)) \<and>
      same_ti s (go_state (DeletePFDManagementApplication k i a s w))"
  proof (cases "nefGetAf (ctx_nef s) k = None")
    case False
    from afDeletePfdApplication_inv [OF inv False, of i a] obtain t rsp e u where
      t: "afDeletePfdApplication k s i a = Ret t (rsp, e)" "trans_inv c n t" "same_ti s t"
      "nefCheckDeleteAf t k = Ret u ()" using nefCheckDeleteAf_Ret by fastforce
    with False check [OF t(2-4)] show ?thesis
      by (auto simp: DeletePFDManagementApplication_def split: option.split)
  qed (use inv in \<open>simp add: DeletePFDManagementApplication_def\<close>)
qed

end
