(* ===== verification/Nef_Reach.thy ===== *)
theory Nef_Reach
  imports Nef_Router Nef_Subscriptions Nef_Transactions
begin

text \<open>
  The invariant of the running NEF. The locale \<open>request_system\<close> is the contract between a server and
  its handlers: a start state satisfies the invariant and every served request keeps it, as long as
  fewer than \<open>limit\<close> requests were served. It is interpreted on the NEF with the limit \<open>2 ^ 64\<close>, the
  number of identifiers the counters of the code can draw before they repeat.
\<close>

section \<open>Servers and their invariants\<close>

locale request_system =
  fixes start :: "'s \<Rightarrow> bool"
    and serve :: "'e \<Rightarrow> 'r \<Rightarrow> 's \<Rightarrow> 's"
    and ok :: "'r \<Rightarrow> bool"
    and inv :: "nat \<Rightarrow> 's \<Rightarrow> bool"
    and limit :: nat
  assumes inv_start: "start s \<Longrightarrow> inv 0 s"
    and inv_serve: "inv n s \<Longrightarrow> n < limit \<Longrightarrow> ok r \<Longrightarrow> inv (Suc n) (serve e r s)"
begin

lemma inv_run_from:
  assumes "inv n s" and "n + length rs \<le> limit" and "\<forall>(e, r)\<in>set rs. ok r"
  shows "inv (n + length rs) (fold (\<lambda>(e, r). serve e r) rs s)"
  using assms
proof (induction rs arbitrary: n s)
  case (Cons x rs)
  obtain e r where x: "x = (e, r)" by (cases x)
  have "inv (Suc n) (serve e r s)" using Cons.prems x by (intro inv_serve) auto
  from Cons.IH [OF this] Cons.prems x show ?case by simp
qed simp

lemma inv_run:
  "start s \<Longrightarrow> length rs \<le> limit \<Longrightarrow> \<forall>(e, r)\<in>set rs. ok r \<Longrightarrow>
   inv (length rs) (fold (\<lambda>(e, r). serve e r) rs s)"
  using inv_run_from [OF inv_start, of s rs] by simp

end

section \<open>The invariant of the NEF\<close>

definition nef_inv :: "Config \<Rightarrow> nat \<Rightarrow> nefContext \<Rightarrow> bool" where
  "nef_inv c n s \<longleftrightarrow> sub_inv c n s \<and> pfd_inv c s"

definition nef_start :: "Config \<Rightarrow> nefContext \<Rightarrow> bool" where
  "nef_start c s \<longleftrightarrow> (\<exists>r tsb tcl. nefRun r tsb tcl (Inr c) = Inr s)"

definition nef_serve :: "nef_env \<Rightarrow> nef_request \<Rightarrow> nefContext \<Rightarrow> nefContext" where
  "nef_serve e r s = go_state (nefServeHTTP e r s)"

lemma nef_inv_trans: "nef_inv c n s \<Longrightarrow> trans_inv c n s"
  by (simp add: nef_inv_def sub_inv_def trans_inv_def)

lemma nef_inv_start: "nef_start c s \<Longrightarrow> nef_inv c 0 s"
proof -
  assume "nef_start c s"
  then obtain r tsb tcl where run: "nefRun r tsb tcl (Inr c) = Inr s" by (auto simp: nef_start_def)
  then obtain n where s: "nefCreate r c = Inr n"
    "s = \<lparr>ctx_cfg = c, ctx_nef = n, ctx_TestNEFSB = tsb, ctx_TestClient = tcl\<rparr>"
    by (cases "nefCreate r c") (auto simp: nefRun_def split: if_split_asm)
  then have n: "nef_afs n = []" "nef_corrID n = cfg_SubStartID c + correlationIDOffset"
    "nef_pcfClient n = NewPCFClient r" "nef_locationURLPrefix n = getNefLocationURLPrefix c"
    "nef_locationURLPrefixPfd n = getNefLocationURLPrefixPfd c"
    by (auto simp: nefCreate_def split: if_splits)
  then have at: "sub_at s = (\<lambda>_. None)" "trans_at s = (\<lambda>_. None)"
    by (auto simp: s sub_at_def trans_at_def nefGetAf_def)
  have "corrs (\<lambda>_ :: string \<times> string. None) = {}" by (simp add: corrs_def)
  with n at s show ?thesis
    by (simp add: nef_inv_def sub_inv_def tab_inv_def ti_inv_def pfd_inv_def corr_ok_def counted_start
        sess_ok_def pcf_sub_def apps_unique_def pcf_wf_def pcf_session_def NewPCFClient_def nefGetAf_def)
qed

lemma nef_inv_pfd:
  assumes "nef_inv c n s" and "trans_inv c (Suc n) t" and "same_ti s t"
  shows "nef_inv c (Suc n) t"
  using assms ti_inv_cong [of c "Suc n" s t] ti_inv_mono [of c n s "Suc n"]
  by (auto simp: nef_inv_def sub_inv_def trans_inv_def same_ti_def)

lemma nef_inv_Suc: "nef_inv c n s \<Longrightarrow> nef_inv c (Suc n) s"
  by (simp add: nef_inv_def sub_inv_Suc)

lemma nef_inv_ti:
  assumes "nef_inv c n s" and "sub_inv c (Suc n) t"
    and "\<And>p. trans_at t p = trans_at s p \<or> trans_at t p = None"
  shows "nef_inv c (Suc n) t"
proof -
  have "trans_at s p = Some x" if "trans_at t p = Some x" for p x using assms(3) [of p] that by auto
  with assms(1,2) show ?thesis by (auto simp: nef_inv_def intro: pfd_inv_sub)
qed

lemma noNotif_state [simp]: "go_state (noNotif m) = go_state m"
  by (cases m) (simp_all add: noNotif_def)

lemma runHandler_inv:
  assumes inv: "nef_inv c n s" and n: "n < 2 ^ 64" and r: "req_ok r"
  shows "nef_inv c (Suc n) (go_state (runHandler clk h v r s w))"
proof -
  have sub: "sub_inv c n s" using inv by (simp add: nef_inv_def)
  note trs = nef_inv_trans [OF inv]
  note ti = nef_inv_ti [OF inv ti_handlers_inv(1) [OF sub n]] nef_inv_ti [OF inv ti_handlers_inv(2) [OF sub n]]
    nef_inv_ti [OF inv ti_handlers_inv(3) [OF sub n]] nef_inv_ti [OF inv ti_handlers_inv(4) [OF sub n]]
  have pm: "rbody_all (\<lambda>p. gm_ok (pm_PfdDatas p)) (req_pfd r)" using r by (simp add: req_ok_def)
  have put: "nef_inv c (Suc n) t" if "trans_inv c n t \<and> same_ti s t" for t
    using nef_inv_pfd [OF inv] trans_inv_Suc that by blast
  have new: "nef_inv c (Suc n) t" if "trans_inv c (Suc n) t \<and> same_ti s t" for t
    using nef_inv_pfd [OF inv] that by blast
  note pfd = new [OF CreatePFD_inv [OF trs n pm]] put [OF UpdatePutPFD_inv [OF trs pm]]
    put [OF UpdateApp_inv(1) [OF trs]] put [OF UpdateApp_inv(2) [OF trs]]
    put [OF DeletePFD_inv(1) [OF trs]] put [OF DeletePFD_inv(2) [OF trs]]
  show ?thesis
    using nef_inv_Suc [OF inv] by (cases h) (simp_all add: ti ti_handlers_trans [OF sub] pfd)
qed

lemma nef_inv_serve:
  assumes inv: "nef_inv c n s" and n: "n < 2 ^ 64" and r: "req_ok r"
  shows "nef_inv c (Suc n) (nef_serve e r s)"
proof -
  have "nef_inv c (Suc n) (go_state (go_bind (runHandler clk h v r s w) (\<lambda>s1 rep. Ret s1 (Some rep))))"
    for clk h v w
    using runHandler_inv [OF assms] by (simp add: go_state_bind)
  with nef_inv_Suc [OF inv] show ?thesis
    by (auto simp: nef_serve_def nefServeHTTP_def Let_def split: option.split prod.split bool.split)
qed

interpretation nef: request_system "nef_start c" nef_serve req_ok "nef_inv c" "2 ^ 64" for c
  by unfold_locales (auto intro: nef_inv_start nef_inv_serve)

text \<open>The states \<open>nef_reach\<close> gives are those of the runs, so they satisfy the invariant.\<close>

lemma nef_reach_run:
  "nef_reach c n s \<Longrightarrow> \<exists>s0 rs. nef_start c s0 \<and> length rs = n \<and> (\<forall>(e, r)\<in>set rs. req_ok r) \<and>
     s = fold (\<lambda>(e, r). nef_serve e r) rs s0"
proof (induction rule: nef_reach.induct)
  case (start r tsb tcl s)
  then show ?case by (intro exI [of _ s] exI [of _ "[]"]) (auto simp: nef_start_def)
next
  case (serve n s r e)
  then obtain s0 rs where h: "nef_start c s0" "length rs = n" "\<forall>(e, r)\<in>set rs. req_ok r"
    "s = fold (\<lambda>(e, r). nef_serve e r) rs s0" by blast
  with serve.hyps show ?case
    by (intro exI [of _ s0] exI [of _ "rs @ [(e, r)]"]) (auto simp flip: nef_serve_def)
qed

lemma nef_reach_inv: "nef_reach c n s \<Longrightarrow> n \<le> 2 ^ 64 \<Longrightarrow> nef_inv c n s"
  using nef_reach_run [of c n s] nef.inv_run [of c] by blast

end
