(* ===== verification/Nef_Spec.thy ===== *)
theory Nef_Spec
  imports Nef_Reach
begin

text \<open>
  The traffic influence API as its users see it: a table of subscriptions under the identifiers of
  their AF and their own, changed by labelled steps (\<open>ti_spec\<close>). The handlers of the code refine this
  specification under the abstraction \<open>ti_abs\<close>, and the read handlers answer with its content.
\<close>

section \<open>The specification\<close>

type_synonym ti_store = "string \<times> string \<Rightarrow> TrafficInfluSub option"

datatype ti_action =
    TiNone
  | TiAdd string TrafficInfluSub
  | TiPut string string TrafficInfluSub
  | TiPatch string string TrafficInfluSubPatch
  | TiDel string string

inductive ti_spec :: "Config \<Rightarrow> ti_action \<Rightarrow> ti_store \<Rightarrow> ti_store \<Rightarrow> bool" for c where
  none: "ti_spec c TiNone M M"
| add: "M (k, i) = None \<Longrightarrow> ti_valid ti \<Longrightarrow>
    ti_spec c (TiAdd k ti) M (M((k, i) \<mapsto> ti\<lparr>ti_Self := sub_link c k i\<rparr>))"
| add_refused: "ti_spec c (TiAdd k ti) M M"
| put: "M (k, i) = Some t \<Longrightarrow> ti_spec c (TiPut k i ti) M (M((k, i) \<mapsto> ti\<lparr>ti_Self := ti_Self t\<rparr>))"
| put_refused: "ti_spec c (TiPut k i ti) M M"
| patch: "M (k, i) = Some t \<Longrightarrow> ti_spec c (TiPatch k i tisp) M (M((k, i) \<mapsto> updateTiFromTisp t tisp))"
| patch_unknown: "M (k, i) = None \<Longrightarrow> ti_spec c (TiPatch k i tisp) M M"
| del: "ti_spec c (TiDel k i) M (M((k, i) := None))"

inductive_cases ti_spec_AddE: "ti_spec c (TiAdd k ti) M M'"

inductive_cases ti_spec_PutE: "ti_spec c (TiPut k i ti) M M'"

inductive_cases ti_spec_PatchE: "ti_spec c (TiPatch k i tisp) M M'"

inductive_simps ti_spec_None: "ti_spec c TiNone M M'"

inductive_simps ti_spec_Del: "ti_spec c (TiDel k i) M M'"

text \<open>The action a request asks for.\<close>

fun ti_request :: "nef_handler \<Rightarrow> (string \<Rightarrow> string) \<Rightarrow> nef_request \<Rightarrow> ti_action" where
  "ti_request CreateTI v r = (case req_ti r of Decoded ti \<Rightarrow> TiAdd (v ''afId'') ti | _ \<Rightarrow> TiNone)"
| "ti_request UpdatePutTI v r =
     (case req_ti r of Decoded ti \<Rightarrow> TiPut (v ''afId'') (v ''subscriptionId'') ti | _ \<Rightarrow> TiNone)"
| "ti_request UpdatePatchTI v r =
     (case req_tisp r of Decoded tp \<Rightarrow> TiPatch (v ''afId'') (v ''subscriptionId'') tp | _ \<Rightarrow> TiNone)"
| "ti_request DeleteTI v r = TiDel (v ''afId'') (v ''subscriptionId'')"
| "ti_request _ v r = TiNone"

section \<open>The abstraction\<close>

definition ti_abs :: "nefContext \<Rightarrow> ti_store" where
  "ti_abs s p = map_option sub_ti (sub_at s p)"

lemma ti_abs_cong: "sub_at t = sub_at s \<Longrightarrow> ti_abs t = ti_abs s"
  by (simp add: ti_abs_def fun_eq_iff)

lemma ti_abs_upd: "sub_at t = (sub_at s)(p \<mapsto> x) \<Longrightarrow> ti_abs t = (ti_abs s)(p \<mapsto> sub_ti x)"
  by (simp add: ti_abs_def fun_eq_iff)

lemma ti_abs_del: "sub_at t = (sub_at s)(p := None) \<Longrightarrow> ti_abs t = (ti_abs s)(p := None)"
  by (simp add: ti_abs_def fun_eq_iff)

lemma ti_abs_sel [simp]:
  "ti_abs (bump_sub k s) = ti_abs s" "ti_abs (inc_corrID s) = ti_abs s" "ti_abs (ensure_af k s) = ti_abs s"
  "ti_abs (set_pcf p s) = ti_abs s" "ti_abs (set_udr u s) = ti_abs s"
  by (simp_all add: ti_abs_def fun_eq_iff)

lemma ti_abs_put [simp]:
  "nefGetAf (ctx_nef s) k = Some a \<Longrightarrow> ti_abs (put_sub k i x s) = (ti_abs s)((k, i) \<mapsto> sub_ti x)"
  by (rule ti_abs_upd [OF sub_at_put_sub])

section \<open>Refinement\<close>

lemma next_sub_fresh:
  assumes inv: "sub_inv c n s" and n: "n < 2 ^ 64"
  shows "sub_at s (k, next_sub s k) = None"
proof (cases "nefGetAf (ctx_nef s) k")
  case None
  then show ?thesis by (rule sub_at_no_af)
next
  case (Some a)
  with new_sub_fresh [of c n s k a] inv n show ?thesis by (simp add: sub_inv_def next_sub_def)
qed

lemma create_refines:
  assumes inv: "sub_inv c n s" and n: "n < 2 ^ 64"
  shows "ti_spec c (TiAdd k ti) (ti_abs s) (ti_abs (go_state (CreateTrafficInfluenceSubscription k (Decoded ti) s w)))"
proof (cases "ti_valid ti \<and> sub_accept s k ti")
  case True
  then have room: "\<not> (nefGetAf (ctx_nef s) k = None \<and> \<not> af_room s)"
    by (auto simp: sub_accept_ensure)
  let ?s = "ensure_af k s"
  obtain a where a: "nefGetAf (ctx_nef ?s) k = Some a" by (simp add: nefGetAf_ensure)
  have inv': "sub_inv c n ?s" using sub_inv_ensure [OF inv, of k] room by auto
  have i: "Itoa (af_subIDnum a) = next_sub s k"
    using a by (auto simp: next_sub_def nefGetAf_ensure split: option.splits)
  have fresh: "ti_abs s (k, next_sub s k) = None" by (simp add: ti_abs_def next_sub_fresh [OF inv n])
  have "ti_spec c (TiAdd k ti) (ti_abs s) (ti_abs (go_state (afAddSubscription k ?s ti)))"
    by (rule afAddSubscription_cases [OF a, of ti])
      (use True fresh a in \<open>auto simp: i subLocation_link [OF inv' a] intro: add_refused add\<close>)
  with True room show ?thesis by (auto simp: Create_state createNewSub_eq validateTI_iff)
next
  case False
  show ?thesis
  proof (cases "ti_valid ti")
    case True
    with False createNewSub_refused [OF inv, of ti k] obtain t loc rsp e where
      "createNewSub s k ti = Ret t (loc, rsp, Some e)" "sub_at t = sub_at s" by blast
    with True ti_abs_cong [of t s] show ?thesis by (auto simp: Create_state validateTI_iff intro: add_refused)
  qed (auto simp: Create_state validateTI_iff intro: add_refused)
qed

lemma put_refines:
  assumes inv: "sub_inv c n s"
  shows "ti_spec c (TiPut k i ti) (ti_abs s)
    (ti_abs (go_state (UpdatePutTrafficInfluenceSubscription k i (Decoded ti) s w)))"
proof (cases "nefGetAf (ctx_nef s) k = None \<or> sub_at s (k, i) = None")
  case True
  then show ?thesis by (auto simp: UpdatePut_state afUpdate_missing intro: put_refused)
next
  case False
  then obtain a x where a: "nefGetAf (ctx_nef s) k = Some a" and x: "sub_at s (k, i) = Some x" by auto
  then have st: "ti_abs s (k, i) = Some (sub_ti x)" by (simp add: ti_abs_def)
  consider "sub_NEFSBPut x = FnPCF" | "sub_NEFSBPut x = FnUDR"
    using sub_inv_okD [OF inv x] by (cases "sub_NEFSBPut x") (auto simp: sub_ok_def)
  then have "ti_spec c (TiPut k i ti) (ti_abs s) (ti_abs (go_state (afUpdateSubscription k s i ti)))"
  proof cases
    case 1
    then show ?thesis by (simp add: afUpdateSubscription_pcf [OF x] put_refused)
  next
    case 2
    show ?thesis
    proof (rule afUpdateSubscription_udr [OF x 2, of ti])
      fix u rsp
      let ?x = "x\<lparr>sub_NotifCorreID := (if wantsUpPathChange ti then Itoa (nef_corrID (ctx_nef s))
        else sub_NotifCorreID x), sub_ti := ti\<lparr>ti_Self := ti_Self (sub_ti x)\<rparr>\<rparr>"
      let ?t = "set_udr u (if wantsUpPathChange ti then inc_corrID s else s)"
      assume "afUpdateSubscription k s i ti = Ret (put_sub k i ?x ?t) (rsp, ti\<lparr>ti_Self := ti_Self (sub_ti x)\<rparr>, None)"
      moreover have "ti_abs (put_sub k i ?x ?t) = (ti_abs s)((k, i) \<mapsto> ti\<lparr>ti_Self := ti_Self (sub_ti x)\<rparr>)"
        using a by (simp add: ti_abs_put [of _ _ a])
      ultimately show ?thesis using put [of "ti_abs s", OF st] by simp
    qed (simp add: put_refused)
  qed
  with a show ?thesis by (simp add: UpdatePut_state)
qed

lemma patch_refines:
  assumes inv: "sub_inv c n s"
  shows "ti_spec c (TiPatch k i tisp) (ti_abs s)
    (ti_abs (go_state (UpdatePatchTrafficInfluenceSubscription k i (Decoded tisp) s w)))"
proof (cases "sub_at s (k, i)")
  case None
  then have "ti_abs s (k, i) = None" by (simp add: ti_abs_def)
  with None show ?thesis by (auto simp: UpdatePatch_state afPartialUpdate_missing intro: patch_unknown)
next
  case (Some x)
  then obtain a where a: "nefGetAf (ctx_nef s) k = Some a" using sub_at_SomeD by blast
  have st: "ti_abs s (k, i) = Some (sub_ti x)" using Some by (simp add: ti_abs_def)
  show ?thesis
  proof (rule afPartialUpdateSubscription_eq [OF Some sub_inv_okD [OF inv Some], of tisp])
    fix t rsp
    let ?x = "x\<lparr>sub_ti := updateTiFromTisp (sub_ti x) tisp\<rparr>"
    assume t: "t = s \<or> (\<exists>u. t = set_udr u s) \<or>
      (\<exists>p b r. PolicyAuthorizationUpdate (nef_pcfClient (ctx_nef s)) b (sub_appSessionID x) = (p, r, None) \<and>
        t = set_pcf p s)"
      and eq: "afPartialUpdateSubscription k s i tisp = Ret (put_sub k i ?x t) (rsp, updateTiFromTisp (sub_ti x) tisp, None)"
    from t a have "ti_abs (put_sub k i ?x t) = (ti_abs s)((k, i) \<mapsto> updateTiFromTisp (sub_ti x) tisp)"
      by (auto simp: ti_abs_put [of _ _ a])
    with patch [of "ti_abs s", OF st] a eq show ?thesis by (simp add: UpdatePatch_state)
  qed
qed

lemma delete_sub_at:
  assumes inv: "sub_inv c n s"
  shows "sub_at (go_state (DeleteTrafficInfluenceSubscription k i s w)) = (sub_at s)((k, i) := None)"
  using inv
proof (cases rule: DeleteTI_cases [where k = k and i = i and w = w])
  case (deleted a x t u)
  have t: "nefGetAf (ctx_nef t) k = Some a" "sub_at t = sub_at s"
    using deleted(1,3) by (simp_all add: sub_at_def nefGetAf_def fun_eq_iff)
  have d: "nefGetAf (ctx_nef (del_sub k i t)) k = Some (a\<lparr>af_subs := gm_del i (af_subs a)\<rparr>)"
    using t(1) by simp
  show ?thesis
    using deleted(10,11) t sub_at_deleteAf [OF d] by auto
qed (auto simp: sub_at_def fun_eq_iff)

lemma delete_refines:
  "sub_inv c n s \<Longrightarrow> ti_spec c (TiDel k i) (ti_abs s) (ti_abs (go_state (DeleteTrafficInfluenceSubscription k i s w)))"
  using ti_abs_del [OF delete_sub_at] by (simp add: ti_spec_Del)

lemma pfd_handlers_ti:
  assumes inv: "nef_inv c n s" and n: "n < 2 ^ 64" and r: "req_ok r"
    and h: "h \<notin> {CreateTI, UpdatePutTI, UpdatePatchTI, DeleteTI}"
  shows "same_ti s (go_state (runHandler clk h v r s w))"
proof -
  note trs = nef_inv_trans [OF inv]
  have pm: "rbody_all (\<lambda>p. gm_ok (pm_PfdDatas p)) (req_pfd r)" using r by (simp add: req_ok_def)
  show ?thesis
    using h by (cases h) (simp_all add: CreatePFD_inv [OF trs n pm] UpdatePutPFD_inv [OF trs pm]
        UpdateApp_inv [OF trs] DeletePFD_inv [OF trs])
qed

lemma runHandler_refines:
  assumes inv: "nef_inv c n s" and n: "n < 2 ^ 64" and r: "req_ok r"
  shows "ti_spec c (ti_request h v r) (ti_abs s) (ti_abs (go_state (runHandler clk h v r s w)))"
proof (cases "h \<in> {CreateTI, UpdatePutTI, UpdatePatchTI, DeleteTI}")
  case False
  have "ti_request h v r = TiNone" using False by (cases h) simp_all
  moreover have "ti_abs (go_state (runHandler clk h v r s w)) = ti_abs s"
    by (rule ti_abs_cong) (use pfd_handlers_ti [OF inv n r False] in \<open>simp add: same_ti_def\<close>)
  ultimately show ?thesis by (simp add: ti_spec_None)
next
  case True
  have sub: "sub_inv c n s" using inv by (simp add: nef_inv_def)
  have other: "ti_spec c TiNone (ti_abs s) (ti_abs s)" by (rule none)
  note ref = create_refines [OF sub n] put_refines [OF sub] patch_refines [OF sub] delete_refines [OF sub]
  consider "h = CreateTI" | "h = UpdatePutTI" | "h = UpdatePatchTI" | "h = DeleteTI" using True by blast
  then show ?thesis
  proof cases
    case 1
    then show ?thesis
      using ref(1) other by (cases "req_ti r") (simp_all add: Create_state)
  next
    case 2
    then show ?thesis
      using ref(2) other by (cases "req_ti r") (simp_all add: UpdatePut_state)
  next
    case 3
    then show ?thesis
      using ref(3) other by (cases "req_tisp r") (simp_all add: UpdatePatch_state)
  next
    case 4
    then show ?thesis using ref(4) by simp
  qed
qed

section \<open>Reading\<close>

lemma sendJSON200_sel:
  assumes "rw_status w = None"
  shows "rw_status (sendJSON200 b w) = Some 200" and "rw_body (sendJSON200 b w) = rw_body w @ [b]"
    and "rw_sent (sendJSON200 b w) = rw_header w"
  using assms by (simp_all add: sendJSON200_def)

lemma getList_loop:
  assumes "\<forall>k\<in>set ks. gm_get (af_subs a) k \<noteq> None"
  shows "\<exists>l. afGetSubscriptionList_loop a ks acc = (rsp_zero, l, None) \<and>
    elems l = elems acc @ map (\<lambda>k. sub_ti (the (gm_get (af_subs a) k))) ks"
  using assms
proof (induction ks arbitrary: acc)
  case (Cons k ks)
  then obtain x where x: "gm_get (af_subs a) k = Some x" by auto
  with Cons.IH [of "slice_append acc (sub_ti x)"] Cons.prems show ?case
    by (auto simp: afGetSubscription_def)
qed simp

lemma getList_all:
  assumes "gm_ok (af_subs a)"
  shows "\<exists>l. afGetSubscriptionList a = (rsp_zero, l, None) \<and> elems l = map (\<lambda>(_, x). sub_ti x) (af_subs a)"
proof -
  have get: "(k, x) \<in> set (af_subs a) \<Longrightarrow> gm_get (af_subs a) k = Some x" for k x
    using assms by (simp add: gm_mem_get)
  then have "\<forall>k\<in>set (map fst (af_subs a)). gm_get (af_subs a) k \<noteq> None" by force
  from getList_loop [OF this, of None] get show ?thesis
    by (force simp: afGetSubscriptionList_def)
qed

end
