(* ===== verification/Nef_Examples.thy ===== *)
theory Nef_Examples
  imports Nef_Spec
begin

text \<open>
  A small run of the NEF, evaluated: a configuration, requests to it and the states they lead to. The
  witnesses of the properties use these states.
\<close>

section \<open>Configuration and environment\<close>

definition ex_cfg :: Config where
  "ex_cfg = \<lparr>cfg_NefAPIRoot = ''localhost'', cfg_LocationPrefix = ''/ti/'', cfg_LocationPrefixPfd = ''/pfd/'',
     cfg_MaxSubSupport = 2, cfg_MaxPfdTransSupport = 2, cfg_MaxAFSupport = 1, cfg_SubStartID = 11,
     cfg_PfdTransStartID = 7, cfg_UpfNotificationResURIPath = ''/upf'', cfg_UserAgent = ''NEF'',
     cfg_HTTPConfig = \<lparr>h1_Endpoint = '':8091''\<rparr>,
     cfg_HTTP2Config = \<lparr>h2_Endpoint = [], h2_NefServerCert = [], h2_NefServerKey = [], h2_AfClientCert = []\<rparr>,
     cfg_AfServiceIDs = [GoMap [(''id'', GoStr ''svc''), (''dnn'', GoStr ''edge''), (''snssai'', GoStr ''01'')]],
     cfg_OAuth2Support = False\<rparr>"

text \<open>A router that takes the path of the request for the pattern of its route.\<close>

definition ex_env :: nef_env where
  "ex_env = \<lparr>env_mux = (\<lambda>rs m p. map_option (\<lambda>r. (r, [(''afId'', ''AF1''), (''subscriptionId'', ''11''),
       (''scsAsId'', ''AF1''), (''transactionId'', ''7''), (''appId'', ''app1'')]))
       (List.find (\<lambda>r. rt_Method r = m \<and> rt_Pattern r = p) rs)),
     env_oauth2 = Some ''key'', env_parse = (\<lambda>k t. (t = ''good'', None)), env_clock = (\<lambda>_ _. [])\<rparr>"

definition ex_request :: "string \<Rightarrow> string \<Rightarrow> nef_request" where
  "ex_request m p = \<lparr>req_Method = m, req_Path = p, req_RequestURI = p, req_Authorization = [],
     req_ti = ReadErr, req_tisp = ReadErr, req_pfd = ReadErr, req_app = ReadErr, req_smf = ReadErr\<rparr>"

definition ex_s0 :: nefContext where
  "ex_s0 = \<lparr>ctx_cfg = ex_cfg, ctx_nef = (case nefCreate 5 ex_cfg of Inr n \<Rightarrow> n),
     ctx_TestNEFSB = False, ctx_TestClient = False\<rparr>"

section \<open>Subscriptions\<close>

definition ex_ti :: TrafficInfluSub where
  "ex_ti = ti_zero\<lparr>ti_AfTransID := ''t1'', ti_AfServiceID := ''svc'', ti_AfAppID := ''app'',
     ti_Gpsi := ''gpsi-1'', ti_NotificationDestination := ''http://af1/notify''\<rparr>"

definition ex_post :: nef_request where
  "ex_post = (ex_request ''POST'' ''/3gpp-traffic-influence/v1/{afId}/subscriptions'')
     \<lparr>req_ti := Decoded ex_ti\<rparr>"

definition ex_post_any :: nef_request where
  "ex_post_any = (ex_request ''POST'' ''/3gpp-traffic-influence/v1/{afId}/subscriptions'')
     \<lparr>req_ti := Decoded (ex_ti\<lparr>ti_Gpsi := [], ti_AnyUeInd := True\<rparr>)\<rparr>"

definition ex_s1 :: nefContext where
  "ex_s1 = go_state (nefServeHTTP ex_env ex_post ex_s0)"

definition ex_u1 :: nefContext where
  "ex_u1 = go_state (nefServeHTTP ex_env ex_post_any ex_s0)"

definition ex_sub :: afSubscription where
  "ex_sub = newSub FnPCF ''11'' ex_ti ''http://localhost:8091/ti/AF1/subscriptions/11'' ''31'' ''5''"

definition ex_usub :: afSubscription where
  "ex_usub = newSub FnUDR ''11'' (ex_ti\<lparr>ti_Gpsi := [], ti_AnyUeInd := True\<rparr>)
     ''http://localhost:8091/ti/AF1/subscriptions/11'' [] []"

lemma ex_reach_0: "nef_reach ex_cfg 0 ex_s0"
proof (rule nef_reach.start)
  show "nefRun 5 False False (Inr ex_cfg) = Inr ex_s0" by code_simp
qed

lemma ex_reach_1: "nef_reach ex_cfg 1 ex_s1"
proof -
  have "req_ok ex_post" by code_simp
  from nef_reach.serve [OF ex_reach_0 this] show ?thesis by (simp add: ex_s1_def)
qed

lemma ex_reach_u1: "nef_reach ex_cfg 1 ex_u1"
proof -
  have "req_ok ex_post_any" by code_simp
  from nef_reach.serve [OF ex_reach_0 this] show ?thesis by (simp add: ex_u1_def)
qed

lemma ex_s1_sub: "sub_at ex_s1 (''AF1'', ''11'') = Some ex_sub"
  by code_simp

lemma ex_u1_sub: "sub_at ex_u1 (''AF1'', ''11'') = Some ex_usub"
  by code_simp

lemma ex_svc: "svc_ok ex_cfg"
  by code_simp

section \<open>Transactions\<close>

definition ex_pfd :: PfdManagement where
  "ex_pfd = pm_zero\<lparr>pm_PfdDatas := [(''app1'', pdt_zero\<lparr>pdt_ExternalAppID := ''app1'',
     pdt_Pfds := [(''p1'', \<lparr>pfd_PfdID = ''p1'', pfd_FlowDescriptions = [], pfd_Urls = [''u''],
       pfd_DomainNames = []\<rparr>)]\<rparr>)]\<rparr>"

definition ex_post_pfd :: nef_request where
  "ex_post_pfd = (ex_request ''POST'' ''/3gpp-pfd-management/v1/{scsAsId}/transactions'')
     \<lparr>req_pfd := Decoded ex_pfd\<rparr>"

definition ex_p1 :: nefContext where
  "ex_p1 = go_state (nefServeHTTP ex_env ex_post_pfd ex_s0)"

lemma ex_reach_p1: "nef_reach ex_cfg 1 ex_p1"
proof -
  have "req_ok ex_post_pfd" by code_simp
  from nef_reach.serve [OF ex_reach_0 this] show ?thesis by (simp add: ex_p1_def)
qed

lemma ex_p1_trans: "\<exists>tr. trans_at ex_p1 (''AF1'', ''7'') = Some tr \<and> gm_get (apps tr) ''app1'' \<noteq> None"
proof -
  have "map_option (\<lambda>tr. gm_get (apps tr) ''app1'' \<noteq> None) (trans_at ex_p1 (''AF1'', ''7'')) = Some True"
    by code_simp
  then show ?thesis by auto
qed

end
