(* ===== verification/Nef_Properties.thy ===== *)
theory Nef_Properties
  imports Nef_Examples
begin

text \<open>
  The properties of the traffic influence API, for every state the server reaches. \<open>nef_reach c n s\<close>
  is a state after \<open>n\<close> requests under the configuration \<open>c\<close>; the bound \<open>2 ^ 64\<close> on \<open>n\<close> is where the
  64-bit counters start to repeat.
\<close>

lemma reach_sub: "nef_reach c n s \<Longrightarrow> n \<le> 2 ^ 64 \<Longrightarrow> sub_inv c n s"
  using nef_reach_inv by (simp add: nef_inv_def)

lemma reach_tab: "nef_reach c n s \<Longrightarrow> n \<le> 2 ^ 64 \<Longrightarrow> tab_inv c n s"
  using reach_sub by (simp add: sub_inv_def)

lemma one_le_bound: "(1 :: nat) \<le> 2 ^ 64"
  by simp

section \<open>Invariants\<close>

text \<open>
  (C10) The configured limits hold in every reachable state: the number of AFs, and for each AF the
  number of its subscriptions and of its PFD transactions, never exceed the configured maximum (read
  as 0 when it is negative); the table holds each AF under its own identifier.
\<close>

theorem limits_respected:
  assumes "nef_reach c n s" and "n \<le> 2 ^ 64"
  shows "int (gm_len (nef_afs (ctx_nef s))) \<le> max 0 (sint (cfg_MaxAFSupport c)) \<and>
    (\<forall>k a. nefGetAf (ctx_nef s) k = Some a \<longrightarrow> af_afID a = k \<and>
       int (afGetSubCount a) \<le> max 0 (sint (cfg_MaxSubSupport c)) \<and>
       int (afGetPfdTransCount a) \<le> max 0 (sint (cfg_MaxPfdTransSupport c)))"
  using reach_tab [OF assms] tab_invD [OF reach_tab [OF assms]]
  by (auto simp: tab_inv_def af_ok_def afGetSubCount_def afGetPfdTransCount_def)

theorem limits_respected_witness:
  "nef_reach ex_cfg 1 ex_s1 \<and> int (gm_len (nef_afs (ctx_nef ex_s1))) \<le> max 0 (sint (cfg_MaxAFSupport ex_cfg))"
  using limits_respected [OF ex_reach_1] ex_reach_1 by simp

text \<open>
  (C19) A stored subscription is well formed in every reachable state: it carries the identifier it is
  stored under, its \<open>Self\<close> link is its location, its four callbacks are those of one southbound
  interface and none is nil, so no call through them panics.
\<close>

theorem subscriptions_well_formed:
  assumes "nef_reach c n s" and "n \<le> 2 ^ 64" and "sub_at s (k, i) = Some x"
  shows "sub_subid x = i \<and> ti_Self (sub_ti x) = sub_link c k i \<and>
    (\<exists>fn. fn \<noteq> FnNil \<and> sub_NEFSBGet x = fn \<and> sub_NEFSBPut x = fn \<and> sub_NEFSBPatch x = fn \<and>
       sub_NEFSBDelete x = fn)"
  using sub_inv_okD [OF reach_sub [OF assms(1,2)] assms(3)] by (simp add: sub_ok_def sub_link_def)

theorem subscriptions_well_formed_witness:
  "sub_at ex_s1 (''AF1'', ''11'') = Some ex_sub \<and> ti_Self (sub_ti ex_sub) = sub_link ex_cfg ''AF1'' ''11''"
  using subscriptions_well_formed [OF ex_reach_1 _ ex_s1_sub] ex_s1_sub by simp

text \<open>
  (C14) The policy sessions of the PCF are in one-to-one correspondence with the subscriptions that use
  the PCF: every session belongs to exactly one of them, and each of them has its session.
\<close>

theorem pcf_sessions_match:
  assumes "nef_reach c n s" and "n \<le> 2 ^ 64"
  shows "(\<forall>key. pcf_session (nef_pcfClient (ctx_nef s)) key \<noteq> None \<longleftrightarrow> (\<exists>!p. pcf_sub (sub_at s) p key)) \<and>
    (\<forall>p x. sub_at s p = Some x \<longrightarrow> sub_NEFSBPut x = FnPCF \<longrightarrow>
       pcf_session (nef_pcfClient (ctx_nef s)) (pcf_key (sub_appSessionID x)) \<noteq> None)"
proof -
  have ok: "sess_ok n (nef_pcfClient (ctx_nef s)) (sub_at s)"
    using reach_sub [OF assms] by (simp add: sub_inv_def ti_inv_def)
  then have one: "pcf_session (nef_pcfClient (ctx_nef s)) key \<noteq> None \<longleftrightarrow> (\<exists>!p. pcf_sub (sub_at s) p key)" for key
    unfolding sess_ok_def by blast
  moreover have "pcf_session (nef_pcfClient (ctx_nef s)) (pcf_key (sub_appSessionID x)) \<noteq> None"
    if "sub_at s p = Some x" "sub_NEFSBPut x = FnPCF" for p x
    using ok that unfolding sess_ok_def pcf_sub_def by blast
  ultimately show ?thesis by blast
qed

theorem pcf_sessions_match_witness:
  "sub_at ex_s1 (''AF1'', ''11'') = Some ex_sub \<and>
   pcf_session (nef_pcfClient (ctx_nef ex_s1)) (pcf_key (sub_appSessionID ex_sub)) \<noteq> None"
proof -
  have "sub_NEFSBPut ex_sub = FnPCF" by (simp add: ex_sub_def)
  with pcf_sessions_match [OF ex_reach_1 one_le_bound] ex_s1_sub show ?thesis by blast
qed

text \<open>
  (C15) A notification of the SMF reaches the AF it is for: when a subscription carries the
  correlation identifier of the notification, the NEF answers 200 and sends the event to the
  notification destination of that subscription, and of no other.
\<close>

theorem notification_reaches_owner:
  assumes "nef_reach c n s" and "n \<le> 2 ^ 64" and "sub_at s p = Some x"
    and "sub_NotifCorreID x \<noteq> []" and "smf_NotifID ev = sub_NotifCorreID x"
    and "findUpPathCh (smf_EventNotifs ev) = Some e"
  shows "NotifySmfUPFEvent (Decoded ev) s w = Ret s (rwWriteHeader 200 w,
    Some (ti_NotificationDestination (sub_ti x), mkEventNotification x e))"
proof -
  have "smf_EventNotifs ev \<noteq> []" using assms(6) by auto
  with assms getSubFromCorrID_owner [OF reach_sub [OF assms(1,2)] assms(3,4)] show ?thesis
    by (simp add: NotifySmfUPFEvent_def)
qed

definition ex_event :: NsmEventNotification where
  "ex_event = \<lparr>nsm_Event = ''UP_PATH_CH'', nsm_TimeStamp = [], nsm_Supi = [], nsm_Gpsi = ''gpsi-1'',
     nsm_SourceDnai = [], nsm_TargetDnai = [], nsm_DnaiChgType = ''LATE'', nsm_SourceUeIpv4Addr = [],
     nsm_SourceUeIpv6Prefix = [], nsm_TargetUeIpv4Addr = [], nsm_TargetUeIpv6Prefix = [],
     nsm_SourceTraRouting = route_zero, nsm_TargetTraRouting = route_zero, nsm_UeMac = [],
     nsm_AdIpv4Addr = [], nsm_AdIpv6Prefix = [], nsm_ReIpv4Addr = [], nsm_ReIpv6Prefix = [],
     nsm_PlmnID = plmn [] [], nsm_AccType = [], nsm_PduSeID = 0\<rparr>"

theorem notification_reaches_owner_witness:
  "NotifySmfUPFEvent (Decoded \<lparr>smf_NotifID = ''31'', smf_EventNotifs = [ex_event]\<rparr>) ex_s1 rw_new =
   Ret ex_s1 (rwWriteHeader 200 rw_new, Some (''http://af1/notify'', mkEventNotification ex_sub ex_event))"
  using notification_reaches_owner [OF ex_reach_1 _ ex_s1_sub, of
      "\<lparr>smf_NotifID = ''31'', smf_EventNotifs = [ex_event]\<rparr>" ex_event rw_new]
  by (simp add: ex_sub_def ex_event_def ex_ti_def)

section \<open>Creation\<close>

text \<open>
  (C11) A POST of a subscription is answered with 201 exactly when the request is valid, addresses
  one UE or any UE, and the limits leave room; any other request whose body was read is answered with
  400 and changes neither the subscriptions nor the southbound clients. The handler does not panic
  when the service table of the configuration is well typed.
\<close>

theorem create_answers:
  assumes "nef_reach c n s" and "n < 2 ^ 64" and "svc_ok c"
  shows "\<exists>t w. CreateTrafficInfluenceSubscription k (Decoded ti) s rw_new = Ret t w \<and>
    rw_status w = Some (if sub_accept s k ti then 201 else 400) \<and>
    (\<not> sub_accept s k ti \<longrightarrow> sub_at t = sub_at s \<and>
       nef_pcfClient (ctx_nef t) = nef_pcfClient (ctx_nef s) \<and>
       nef_udrClient (ctx_nef t) = nef_udrClient (ctx_nef s))"
proof -
  note inv = reach_sub [OF assms(1) less_imp_le [OF assms(2)]]
  show ?thesis
  proof (cases "ti_valid ti")
    case False
    with validateTI_code [OF False] show ?thesis
      by (auto simp: CreateTrafficInfluenceSubscription_def sub_accept_def)
  next
    case True
    then obtain rsp where v: "validateAFTrafficInfluenceData ti = (rsp, True)"
      using validateTI_iff [of ti] by (cases "validateAFTrafficInfluenceData ti") simp
    show ?thesis
    proof (cases "sub_accept s k ti")
      case True
      with createNewSub_accepted [OF inv assms(3) True] v show ?thesis
        by (auto simp: CreateTrafficInfluenceSubscription_def)
    next
      case False
      with createNewSub_refused [OF inv \<open>ti_valid ti\<close> False] v show ?thesis
        by (auto simp: CreateTrafficInfluenceSubscription_def sendError_sel createErrorJSON_def)
    qed
  qed
qed

theorem create_answers_witness:
  "sub_accept ex_s0 ''AF1'' ex_ti \<and> (\<exists>t w. CreateTrafficInfluenceSubscription ''AF1'' (Decoded ex_ti) ex_s0 rw_new =
     Ret t w \<and> rw_status w = Some 201)"
proof -
  have "sub_accept ex_s0 ''AF1'' ex_ti" by code_simp
  then show ?thesis using create_answers [OF ex_reach_0 _ ex_svc, of "''AF1''" ex_ti] by auto
qed

text \<open>
  (C12) A created subscription can be read back: the 201 response carries its location and the
  subscription with its link, a GET of that location then answers 200 with the same subscription, the
  identifier was not in use before, and no other subscription changes.
\<close>

theorem create_then_read:
  assumes "nef_reach c n s" and "n < 2 ^ 64" and "svc_ok c" and "sub_accept s k ti"
  defines "i \<equiv> next_sub s k"
  shows "\<exists>t w w'. CreateTrafficInfluenceSubscription k (Decoded ti) s rw_new = Ret t w \<and>
    rw_status w = Some 201 \<and> gm_get (rw_sent w) ''Location'' = Some (sub_link c k i) \<and>
    rw_body w = [BSub (ti\<lparr>ti_Self := sub_link c k i\<rparr>)] \<and>
    ReadTrafficInfluenceSubscription k i t rw_new = Ret t w' \<and> rw_status w' = Some 200 \<and>
    rw_body w' = [BSub (ti\<lparr>ti_Self := sub_link c k i\<rparr>)] \<and>
    sub_at s (k, i) = None \<and> (\<forall>p. p \<noteq> (k, i) \<longrightarrow> sub_at t p = sub_at s p)"
proof -
  note inv = reach_sub [OF assms(1) less_imp_le [OF assms(2)]]
  have "ti_valid ti" using assms(4) by (simp add: sub_accept_def)
  then obtain rsp0 where v: "validateAFTrafficInfluenceData ti = (rsp0, True)"
    using validateTI_iff [of ti] by (cases "validateAFTrafficInfluenceData ti") simp
  from createNewSub_accepted [OF inv assms(3,4)] obtain t x rsp where
    t: "createNewSub s k ti = Ret t (sub_link c k i, rsp, None)" "nefGetAf (ctx_nef t) k \<noteq> None"
      "sub_at t = (sub_at s)((k, i) \<mapsto> x)" "sub_ti x = ti\<lparr>ti_Self := sub_link c k i\<rparr>"
    unfolding i_def by blast
  then obtain a where a: "nefGetAf (ctx_nef t) k = Some a" by blast
  have "gm_get (af_subs a) i = Some x" using t(3) sub_at_af [OF a, of i] by simp
  with v t a next_sub_fresh [OF inv assms(2), of k] show ?thesis
    by (auto simp: CreateTrafficInfluenceSubscription_def ReadTrafficInfluenceSubscription_def
        afGetSubscription_def sendJSON200_sel i_def)
qed

theorem create_then_read_witness:
  "sub_accept ex_s0 ''AF1'' ex_ti \<and>
   (\<exists>t w. CreateTrafficInfluenceSubscription ''AF1'' (Decoded ex_ti) ex_s0 rw_new = Ret t w \<and>
     gm_get (rw_sent w) ''Location'' = Some (sub_link ex_cfg ''AF1'' (next_sub ex_s0 ''AF1'')))"
proof -
  have "sub_accept ex_s0 ''AF1'' ex_ti" by code_simp
  then show ?thesis using create_then_read [OF ex_reach_0 _ ex_svc, of "''AF1''" ex_ti] by auto
qed

section \<open>Changes\<close>

lemma pcf_update_dom:
  assumes "pcf_wf s" and "PolicyAuthorizationUpdate s b sid = (p, r, e)"
  shows "pcf_session p key = None \<longleftrightarrow> pcf_session s key = None"
  using pcf.modify_spec [OF assms]
  by (cases "pcf_session s (pcf_key sid)"; cases "key = pcf_key sid") auto

text \<open>
  (C20) A PUT of a subscription that uses the PCF is refused: the answer is 404 and nothing changes. A
  PUT of one that uses the UDR answers 200 with the new subscription, which keeps the link of the old
  one and replaces it; no other subscription changes.
\<close>

theorem put_replaces:
  assumes "nef_reach c n s" and "n \<le> 2 ^ 64" and "svc_ok c" and "sub_at s (k, i) = Some x"
  shows "\<exists>t w. UpdatePutTrafficInfluenceSubscription k i (Decoded ti) s rw_new = Ret t w \<and>
    (if sub_NEFSBPut x = FnPCF then t = s \<and> rw_status w = Some 404
     else rw_status w = Some 200 \<and> rw_body w = [BSub (ti\<lparr>ti_Self := ti_Self (sub_ti x)\<rparr>)] \<and>
       (\<exists>y. sub_ti y = ti\<lparr>ti_Self := ti_Self (sub_ti x)\<rparr> \<and> sub_at t = (sub_at s)((k, i) \<mapsto> y)))"
proof -
  note inv = reach_sub [OF assms(1,2)]
  note at = assms(4)
  from sub_at_SomeD [OF at] obtain a where a: "nefGetAf (ctx_nef s) k = Some a" by blast
  consider "sub_NEFSBPut x = FnPCF" | "sub_NEFSBPut x = FnUDR"
    using sub_inv_okD [OF inv at] by (cases "sub_NEFSBPut x") (auto simp: sub_ok_def)
  then show ?thesis
  proof cases
    case 1
    with a afUpdateSubscription_pcf [OF at 1, of ti] show ?thesis
      by (simp add: UpdatePutTrafficInfluenceSubscription_def sendError_sel createErrorJSON_def rsp_zero_def)
  next
    case 2
    show ?thesis
    proof (rule afUpdateSubscription_udr [OF at 2, of ti])
      assume "\<not> svc_ok (ctx_cfg s)"
      with assms(3) inv show ?thesis by (simp add: sub_inv_def tab_inv_def)
    next
      fix u rsp
      let ?ti = "ti\<lparr>ti_Self := ti_Self (sub_ti x)\<rparr>"
      let ?x = "x\<lparr>sub_NotifCorreID := (if wantsUpPathChange ti then Itoa (nef_corrID (ctx_nef s))
        else sub_NotifCorreID x), sub_ti := ?ti\<rparr>"
      let ?t = "put_sub k i ?x (set_udr u (if wantsUpPathChange ti then inc_corrID s else s))"
      assume "afUpdateSubscription k s i ti = Ret ?t (rsp, ?ti, None)"
      then have "UpdatePutTrafficInfluenceSubscription k i (Decoded ti) s rw_new =
          Ret ?t (sendJSON200 (BSub ?ti) rw_new)"
        using a by (simp add: UpdatePutTrafficInfluenceSubscription_def)
      moreover have "\<exists>y. sub_ti y = ?ti \<and> sub_at ?t = (sub_at s)((k, i) \<mapsto> y)"
        using a by (intro exI [of _ ?x]) (subst sub_at_put_sub, auto)
      ultimately show ?thesis
        using 2 by (intro exI [of _ ?t] exI [of _ "sendJSON200 (BSub ?ti) rw_new"]) (simp add: sendJSON200_sel)
    qed
  qed
qed

theorem put_replaces_witness:
  "(\<exists>w. UpdatePutTrafficInfluenceSubscription ''AF1'' ''11'' (Decoded ex_ti) ex_s1 rw_new = Ret ex_s1 w \<and>
      rw_status w = Some 404) \<and>
   (\<exists>t w. UpdatePutTrafficInfluenceSubscription ''AF1'' ''11'' (Decoded ex_ti) ex_u1 rw_new = Ret t w \<and>
      rw_status w = Some 200)"
proof -
  have u: "sub_at ex_u1 (''AF1'', ''11'') = Some ex_usub" by code_simp
  have "sub_NEFSBPut ex_sub = FnPCF" "sub_NEFSBPut ex_usub = FnUDR" by (simp_all add: ex_sub_def ex_usub_def)
  with put_replaces [OF ex_reach_1 one_le_bound ex_svc ex_s1_sub, of ex_ti] put_replaces [OF ex_reach_u1 one_le_bound ex_svc u, of ex_ti]
  show ?thesis by auto
qed

text \<open>
  (C21) A PATCH merges: the stored subscription takes the relocation flag of the patch and each of its
  traffic filters, Ethernet filters, routes, validity times and zones that the patch sets, and keeps every
  other field as it was; it is sent back with status 200. No other subscription changes, and no session
  of the PCF is created or deleted.
\<close>

theorem patch_merges:
  fixes tisp :: TrafficInfluSubPatch
  assumes "nef_reach c n s" and "n \<le> 2 ^ 64" and "sub_at s (k, i) = Some x"
  defines "old \<equiv> sub_ti x"
  defines "m \<equiv> old
    \<lparr>ti_AppReloInd := tp_AppReloInd tisp,
     ti_TrafficFilters := (case tp_TrafficFilters tisp of None \<Rightarrow> ti_TrafficFilters old | Some fs \<Rightarrow> Some fs),
     ti_EthTrafficFilters := (case tp_EthTrafficFilters tisp of None \<Rightarrow> ti_EthTrafficFilters old | Some fs \<Rightarrow> Some fs),
     ti_TrafficRoutes := (case tp_TrafficRoutes tisp of None \<Rightarrow> ti_TrafficRoutes old | Some rs \<Rightarrow> Some rs),
     ti_TempValidities := (case tp_TempValidities tisp of None \<Rightarrow> ti_TempValidities old | Some vs \<Rightarrow> Some vs),
     ti_ValidGeoZoneIDs := (case tp_ValidGeoZoneIDs tisp of None \<Rightarrow> ti_ValidGeoZoneIDs old | Some zs \<Rightarrow> Some zs)\<rparr>"
  shows "\<exists>t w. UpdatePatchTrafficInfluenceSubscription k i (Decoded tisp) s rw_new = Ret t w \<and>
    rw_status w = Some 200 \<and> rw_body w = [BSub m] \<and> sub_at t = (sub_at s)((k, i) \<mapsto> x\<lparr>sub_ti := m\<rparr>) \<and>
    (\<forall>key. pcf_session (nef_pcfClient (ctx_nef t)) key = None \<longleftrightarrow>
       pcf_session (nef_pcfClient (ctx_nef s)) key = None)"
proof -
  have m: "updateTiFromTisp (sub_ti x) tisp = m"
    by (simp add: updateTiFromTisp_def m_def old_def split: option.split)
  note inv = reach_sub [OF assms(1,2)]
  note at = assms(3)
  from sub_at_SomeD [OF at] obtain a where a: "nefGetAf (ctx_nef s) k = Some a" by blast
  have wf: "pcf_wf (nef_pcfClient (ctx_nef s))" using inv by (simp add: sub_inv_def ti_inv_def sess_ok_def)
  show ?thesis
  proof (rule afPartialUpdateSubscription_eq [OF at sub_inv_okD [OF inv at], of tisp])
    fix t rsp
    assume t: "t = s \<or> (\<exists>u. t = set_udr u s) \<or>
      (\<exists>p b r. PolicyAuthorizationUpdate (nef_pcfClient (ctx_nef s)) b (sub_appSessionID x) = (p, r, None) \<and>
        t = set_pcf p s)"
      and eq: "afPartialUpdateSubscription k s i tisp =
        Ret (put_sub k i (x\<lparr>sub_ti := updateTiFromTisp (sub_ti x) tisp\<rparr>) t) (rsp, updateTiFromTisp (sub_ti x) tisp, None)"
    have at': "sub_at (put_sub k i (x\<lparr>sub_ti := m\<rparr>) t) = (sub_at s)((k, i) \<mapsto> x\<lparr>sub_ti := m\<rparr>)"
      using t a by (subst sub_at_put_sub [of _ _ a]) auto
    have "pcf_session (nef_pcfClient (ctx_nef t)) key = None \<longleftrightarrow> pcf_session (nef_pcfClient (ctx_nef s)) key = None" for key
      using t pcf_update_dom [OF wf] by auto
    with a eq at' show ?thesis
      by (simp add: UpdatePatchTrafficInfluenceSubscription_def sendJSON200_sel m)
  qed
qed

definition ex_patch :: TrafficInfluSubPatch where
  "ex_patch = \<lparr>tp_AppReloInd = True, tp_TrafficFilters = None, tp_EthTrafficFilters = None,
     tp_TrafficRoutes = Some [route_zero], tp_TempValidities = None, tp_ValidGeoZoneIDs = None\<rparr>"

theorem patch_merges_witness:
  "\<exists>t w m. UpdatePatchTrafficInfluenceSubscription ''AF1'' ''11'' (Decoded ex_patch) ex_s1 rw_new = Ret t w \<and>
      rw_status w = Some 200 \<and> rw_body w = [BSub m] \<and> ti_AppReloInd m \<and> ti_TrafficRoutes m = Some [route_zero] \<and>
      ti_TrafficFilters m = ti_TrafficFilters (sub_ti ex_sub) \<and> ti_Gpsi m = ti_Gpsi (sub_ti ex_sub)"
  using patch_merges [OF ex_reach_1 one_le_bound ex_s1_sub, of ex_patch]
  by (elim exE conjE, intro exI conjI) (assumption+, simp_all add: ex_patch_def)

text \<open>
  (C13) A DELETE of a stored subscription answers 204 and removes it, and only it; the session it had
  in the PCF is removed and no other session. A DELETE of anything else answers 404 and changes
  nothing.
\<close>

theorem delete_removes:
  assumes "nef_reach c n s" and "n \<le> 2 ^ 64"
  shows "\<exists>t w. DeleteTrafficInfluenceSubscription k i s rw_new = Ret t w \<and>
    sub_at t = (sub_at s)((k, i) := None) \<and>
    (case sub_at s (k, i) of
       None \<Rightarrow> t = s \<and> rw_status w = Some 404
     | Some x \<Rightarrow> rw_status w = Some 204 \<and>
         (\<forall>key. pcf_session (nef_pcfClient (ctx_nef t)) key =
            (if sub_NEFSBPut x = FnPCF \<and> key = pcf_key (sub_appSessionID x) then None
             else pcf_session (nef_pcfClient (ctx_nef s)) key)))"
proof -
  note inv = reach_sub [OF assms]
  have wf: "pcf_wf (nef_pcfClient (ctx_nef s))" using inv by (simp add: sub_inv_def ti_inv_def sess_ok_def)
  have at: "sub_at (go_state (DeleteTrafficInfluenceSubscription k i s rw_new)) = (sub_at s)((k, i) := None)"
    by (rule delete_sub_at [OF inv])
  show ?thesis
  proof (rule DeleteTI_cases [OF inv, of k i rw_new])
    fix a x t u
    assume h: "sub_at s (k, i) = Some x"
      "sub_NEFSBPut x = FnPCF \<Longrightarrow> nef_udrClient (ctx_nef t) = nef_udrClient (ctx_nef s) \<and>
         (\<exists>r e. PolicyAuthorizationDelete (nef_pcfClient (ctx_nef s)) (sub_appSessionID x) =
            (nef_pcfClient (ctx_nef t), r, e))"
      "sub_NEFSBPut x = FnUDR \<Longrightarrow> nef_pcfClient (ctx_nef t) = nef_pcfClient (ctx_nef s)"
      "DeleteTrafficInfluenceSubscription k i s rw_new = Ret u (rwWriteHeader 204 rw_new)"
      "u = (if gm_len (gm_del i (af_subs a)) = 0 then fst (nefDeleteAf (del_sub k i t) k) else del_sub k i t)"
    have u: "nef_pcfClient (ctx_nef u) = nef_pcfClient (ctx_nef t)" using h(5) by simp
    consider "sub_NEFSBPut x = FnPCF" | "sub_NEFSBPut x = FnUDR"
      using sub_inv_okD [OF inv h(1)] by (cases "sub_NEFSBPut x") (auto simp: sub_ok_def)
    then have "pcf_session (nef_pcfClient (ctx_nef u)) key =
        (if sub_NEFSBPut x = FnPCF \<and> key = pcf_key (sub_appSessionID x) then None
         else pcf_session (nef_pcfClient (ctx_nef s)) key)" for key
      using h(2,3) u pcf.remove_spec [OF wf] by cases auto
    with h(1,4) at show ?thesis by simp
  qed (use at in \<open>auto simp: sub_at_no_af sendCustomeErrorRspToAF_def\<close>)
qed

theorem delete_removes_witness:
  "sub_at ex_s1 (''AF1'', ''11'') = Some ex_sub \<and>
   (\<exists>t w. DeleteTrafficInfluenceSubscription ''AF1'' ''11'' ex_s1 rw_new = Ret t w \<and> rw_status w = Some 204 \<and>
      sub_at t (''AF1'', ''11'') = None)"
  using delete_removes [OF ex_reach_1 one_le_bound, of "''AF1''" "''11''"] ex_s1_sub by auto

section \<open>Refinement\<close>

text \<open>
  (C2) The handlers implement the specification of the API: seen through the abstraction \<open>ti_abs\<close>,
  the state a handler leaves is one the specification allows for the requested action. In particular
  the PFD handlers, the reads and the notifications leave every subscription as it is.
\<close>

theorem handlers_refine_spec:
  assumes "nef_reach c n s" and "n < 2 ^ 64" and "req_ok r"
  shows "ti_spec c (ti_request h v r) (ti_abs s) (ti_abs (go_state (runHandler clk h v r s w)))"
  using runHandler_refines [OF nef_reach_inv [OF assms(1) less_imp_le [OF assms(2)]] assms(2,3)] .

theorem handlers_refine_spec_witness:
  "ti_spec ex_cfg (ti_request CreateTI (\<lambda>_. ''AF1'') ex_post) (ti_abs ex_s0)
     (ti_abs (go_state (runHandler (env_clock ex_env) CreateTI (\<lambda>_. ''AF1'') ex_post ex_s0 rw_new)))"
proof -
  have "req_ok ex_post" by code_simp
  then show ?thesis by (intro handlers_refine_spec [OF ex_reach_0]) simp_all
qed

text \<open>
  The reads answer with the content of the specification: a GET of one subscription sends it
  with status 200, or 404 with a problem document when there is none; a GET of an AF sends 200 with
  exactly the subscriptions of that AF. No read changes the state.
\<close>

theorem reads_answer:
  assumes "nef_reach c n s" and "n \<le> 2 ^ 64"
  shows "(\<exists>w. ReadTrafficInfluenceSubscription k i s rw_new = Ret s w \<and>
      (case ti_abs s (k, i) of
         Some ti \<Rightarrow> rw_status w = Some 200 \<and> rw_body w = [BSub ti]
       | None \<Rightarrow> rw_status w = Some 404 \<and> (\<exists>p. rw_body w = [BProblem p]))) \<and>
    (\<exists>w l. ReadAllTrafficInfluenceSubscription k s rw_new = Ret s w \<and> rw_status w = Some 200 \<and>
      rw_body w = [BSubs l] \<and> set (elems l) = {ti. \<exists>i. ti_abs s (k, i) = Some ti})"
proof (cases "nefGetAf (ctx_nef s) k")
  case None
  then have "ti_abs s (k, j) = None" for j by (simp add: ti_abs_def sub_at_no_af)
  with None show ?thesis
    by (simp add: ReadTrafficInfluenceSubscription_def ReadAllTrafficInfluenceSubscription_def
        sendCustomeErrorRspToAF_def sendJSON200_sel)
next
  case (Some a)
  have abs: "ti_abs s (k, j) = map_option sub_ti (gm_get (af_subs a) j)" for j
    by (simp add: ti_abs_def sub_at_af [OF Some])
  have ok: "gm_ok (af_subs a)" using tab_invD [OF reach_tab [OF assms] Some] by (simp add: af_ok_def)
  from getList_all [OF this] obtain l where l: "afGetSubscriptionList a = (rsp_zero, l, None)"
    "elems l = map (\<lambda>(_, x). sub_ti x) (af_subs a)" by blast
  have "ti \<in> set (elems l) \<longleftrightarrow> (\<exists>j. ti_abs s (k, j) = Some ti)" for ti
    using ok by (force simp: l(2) abs gm_mem_get [symmetric] image_iff)
  with Some l(1) abs show ?thesis
    by (auto simp: ReadTrafficInfluenceSubscription_def ReadAllTrafficInfluenceSubscription_def
        afGetSubscription_def sendJSON200_sel split: option.split)
qed

theorem reads_answer_witness:
  "ti_abs ex_s1 (''AF1'', ''11'') = Some (sub_ti ex_sub) \<and>
   (\<exists>w. ReadTrafficInfluenceSubscription ''AF1'' ''11'' ex_s1 rw_new = Ret ex_s1 w \<and> rw_body w = [BSub (sub_ti ex_sub)])"
  using reads_answer [OF ex_reach_1 one_le_bound, of "''AF1''" "''11''"] ex_s1_sub
  by (auto simp: ti_abs_def)


section \<open>Side effects\<close>

text \<open>
  A response with status 200 of the traffic influence API is sent without the JSON content type:
  the handlers set the header after \<open>WriteHeader\<close>, when it has no effect.
\<close>

theorem ok_without_content_type:
  assumes "ReadTrafficInfluenceSubscription k i s rw_new = Ret t w" and "rw_status w = Some 200"
  shows "gm_get (rw_sent w) ''Content-Type'' = None \<and> gm_get (rw_header w) ''Content-Type'' = Some jsonCT"
proof (cases "nefGetAf (ctx_nef s) k")
  case None
  with assms show ?thesis by (auto simp: ReadTrafficInfluenceSubscription_def sendCustomeErrorRspToAF_def)
next
  case (Some a)
  with assms show ?thesis
    by (cases "gm_get (af_subs a) i")
      (auto simp: ReadTrafficInfluenceSubscription_def afGetSubscription_def sendJSON200_sel,
       simp add: sendJSON200_def rw_defs)
qed

theorem ok_without_content_type_witness:
  "\<exists>w. ReadTrafficInfluenceSubscription ''AF1'' ''11'' ex_s1 rw_new = Ret ex_s1 w \<and>
     gm_get (rw_sent w) ''Content-Type'' = None"
proof -
  have "ReadTrafficInfluenceSubscription ''AF1'' ''11'' ex_s1 rw_new = Ret ex_s1 (sendJSON200 (BSub (sub_ti ex_sub)) rw_new)"
    using sub_at_SomeD [OF ex_s1_sub]
    by (auto simp: ReadTrafficInfluenceSubscription_def afGetSubscription_def)
  from ok_without_content_type [OF this] this show ?thesis by (auto simp: sendJSON200_sel)
qed

text \<open>
  Deleting the last subscription of an AF removes the AF with all its PFD transactions: after
  it the NEF knows none of them, although their applications stay in the UDR.
\<close>

theorem last_delete_drops_transactions:
  assumes "nef_reach c n s" and "n \<le> 2 ^ 64" and "sub_at s (k, i) = Some x"
    and "\<forall>j. j \<noteq> i \<longrightarrow> sub_at s (k, j) = None"
    and "DeleteTrafficInfluenceSubscription k i s rw_new = Ret t w"
  shows "nefGetAf (ctx_nef t) k = None \<and> trans_at t (k, j) = None \<and>
    nef_udrPfdClient (ctx_nef t) = nef_udrPfdClient (ctx_nef s)"
proof (rule DeleteTI_cases [OF reach_sub [OF assms(1,2)], of k i rw_new])
  fix a x' v u
  assume h: "nefGetAf (ctx_nef s) k = Some a" "nef_afs (ctx_nef v) = nef_afs (ctx_nef s)"
    "nef_udrPfdClient (ctx_nef v) = nef_udrPfdClient (ctx_nef s)"
    "DeleteTrafficInfluenceSubscription k i s rw_new = Ret u (rwWriteHeader 204 rw_new)"
    "u = (if gm_len (gm_del i (af_subs a)) = 0 then fst (nefDeleteAf (del_sub k i v) k) else del_sub k i v)"
  have ok: "gm_ok (gm_del i (af_subs a))"
    using tab_invD [OF reach_tab [OF assms(1,2)] h(1)] by (simp add: af_ok_def)
  have "gm_get (gm_del i (af_subs a)) j = None" for j
    using assms(4) by (simp add: sub_at_af [OF h(1)])
  with gm.len_0_iff [OF ok] have len: "gm_len (gm_del i (af_subs a)) = 0" by blast
  have "nefGetAf (ctx_nef v) k = Some a" using h(1,2) by (simp add: nefGetAf_def)
  then have "nefGetAf (ctx_nef (del_sub k i v)) k \<noteq> None" by simp
  then have "nefGetAf (ctx_nef u) k = None"
    using h(5) len by (simp add: nefDeleteAf_state)
  moreover have "u = t" using h(4) assms(5) by simp
  ultimately show ?thesis using h(3,5) by (auto simp: trans_at_def)
qed (use assms(3) in \<open>simp_all add: sub_at_no_af\<close>)

definition ex_sp :: nefContext where
  "ex_sp = go_state (nefServeHTTP ex_env ex_post_pfd ex_s1)"

lemma ex_reach_sp: "nef_reach ex_cfg 2 ex_sp"
proof -
  have "req_ok ex_post_pfd" by code_simp
  from nef_reach.serve [OF ex_reach_1 this] show ?thesis by (simp add: ex_sp_def numeral_2_eq_2)
qed

lemma ex_sp_sub: "sub_at ex_sp (''AF1'', ''11'') = Some ex_sub"
  by code_simp

lemma ex_sp_only: "j \<noteq> ''11'' \<Longrightarrow> sub_at ex_sp (''AF1'', j) = None"
proof -
  have one: "map_option (map fst \<circ> af_subs) (nefGetAf (ctx_nef ex_sp) ''AF1'') = Some [''11'']" by code_simp
  then obtain a where a: "nefGetAf (ctx_nef ex_sp) ''AF1'' = Some a" "map fst (af_subs a) = [''11'']" by auto
  assume "j \<noteq> ''11''"
  then have "j \<notin> set (map fst (af_subs a))" by (simp add: a(2))
  then show ?thesis by (simp add: sub_at_af [OF a(1)] gm_get_def map_of_eq_None_iff)
qed

theorem last_delete_drops_transactions_witness:
  "trans_at ex_sp (''AF1'', ''7'') \<noteq> None \<and>
   (\<exists>t w. DeleteTrafficInfluenceSubscription ''AF1'' ''11'' ex_sp rw_new = Ret t w \<and>
      trans_at t (''AF1'', ''7'') = None)"
proof -
  have two: "(2 :: nat) \<le> 2 ^ 64" by simp
  have "\<not> Option.is_none (trans_at ex_sp (''AF1'', ''7''))" by code_simp
  moreover have "case DeleteTrafficInfluenceSubscription ''AF1'' ''11'' ex_sp rw_new of Ret t w \<Rightarrow> True | Panic t \<Rightarrow> False"
    by code_simp
  then obtain t w where "DeleteTrafficInfluenceSubscription ''AF1'' ''11'' ex_sp rw_new = Ret t w"
    by (cases "DeleteTrafficInfluenceSubscription ''AF1'' ''11'' ex_sp rw_new") auto
  with last_delete_drops_transactions [OF ex_reach_sp two ex_sp_sub _ this] ex_sp_only
  show ?thesis using \<open>\<not> Option.is_none (trans_at ex_sp (''AF1'', ''7''))\<close> by (auto simp: Option.is_none_def)
qed

text \<open>
  A refused POST for an AF the NEF does not know leaves that AF in the table, with no
  subscription and no transaction, where it counts against the limit of AFs.
\<close>

theorem refused_create_keeps_af:
  assumes "nef_reach c n s" and "n < 2 ^ 64" and "nefGetAf (ctx_nef s) k = None" and "af_room s"
    and "ti_valid ti" and "\<not> singleUE ti" and "\<not> anyUE ti" and "0 < sint (cfg_MaxSubSupport c)"
  shows "\<exists>t w a. CreateTrafficInfluenceSubscription k (Decoded ti) s rw_new = Ret t w \<and> rw_status w = Some 400 \<and>
    nefGetAf (ctx_nef t) k = Some a \<and> afGetSubCount a = 0 \<and> afGetPfdTransCount a = 0 \<and>
    gm_len (nef_afs (ctx_nef t)) = Suc (gm_len (nef_afs (ctx_nef s)))"
proof -
  note tab = reach_tab [OF assms(1) less_imp_le [OF assms(2)]]
  have cfg: "ctx_cfg s = c" using tab by (simp add: tab_inv_def)
  let ?s = "ensure_af k s"
  have a: "nefGetAf (ctx_nef ?s) k = Some (afCreate s k)" using assms(3) by (simp add: nefGetAf_ensure)
  obtain rsp0 where v: "validateAFTrafficInfluenceData ti = (rsp0, True)"
    using validateTI_iff [of ti] assms(5) by (cases "validateAFTrafficInfluenceData ti") simp
  have add: "afAddSubscription k ?s ti = Ret (bump_sub k ?s) ([], mkRsp 400 ''Invalid Request'', Some ''Invalid AF Request'')"
    by (rule afAddSubscription_cases [OF a, of ti]) (use assms cfg in \<open>auto simp: sub_room_def\<close>)
  have "gm_len (nef_afs (ctx_nef (bump_sub k ?s))) = Suc (gm_len (nef_afs (ctx_nef s)))"
    using tab assms(3) by (simp add: bump_sub_def ensure_af_def tab_inv_def gm.len_put_new nefGetAf_def)
  with assms v add a show ?thesis
    by (simp add: CreateTrafficInfluenceSubscription_def createNewSub_eq sendError_sel createErrorJSON_def
        afGetSubCount_def afGetPfdTransCount_def)
qed

theorem refused_create_keeps_af_witness:
  "\<exists>t w a. CreateTrafficInfluenceSubscription ''AF1'' (Decoded (ex_ti\<lparr>ti_Gpsi := []\<rparr>)) ex_s0 rw_new = Ret t w \<and>
     nefGetAf (ctx_nef t) ''AF1'' = Some a \<and> afGetSubCount a = 0"
proof -
  have h: "Option.is_none (nefGetAf (ctx_nef ex_s0) ''AF1'')" "af_room ex_s0" "ti_valid (ex_ti\<lparr>ti_Gpsi := []\<rparr>)"
    "\<not> singleUE (ex_ti\<lparr>ti_Gpsi := []\<rparr>)" "\<not> anyUE (ex_ti\<lparr>ti_Gpsi := []\<rparr>)" "0 < sint (cfg_MaxSubSupport ex_cfg)"
    by code_simp+
  from h(1) have "nefGetAf (ctx_nef ex_s0) ''AF1'' = None" by (simp add: Option.is_none_def)
  from refused_create_keeps_af [OF ex_reach_0 _ this h(2-6)] show ?thesis by auto
qed

text \<open>
  All subscriptions that use the UDR share one entry of it, under the empty identifier: when one
  of two such subscriptions is deleted, the influence data of the other is gone from the UDR too,
  although the NEF still holds the subscription.
\<close>

theorem udr_entry_shared:
  assumes "nef_reach c n s" and "n \<le> 2 ^ 64" and "sub_at s (k, i) = Some x" and "sub_at s q = Some y"
    and "q \<noteq> (k, i)" and "sub_NEFSBPut x = FnUDR"
  shows "sub_iid y = sub_iid x \<and>
    (\<exists>t w. DeleteTrafficInfluenceSubscription k i s rw_new = Ret t w \<and> sub_at t q = Some y \<and>
       gm_get (tidDb (nef_udrClient (ctx_nef t))) (sub_iid y) = None)"
proof -
  note inv = reach_sub [OF assms(1,2)]
  note at = assms(3)
  have ok: "sub_ok c (k, i) x" by (rule sub_inv_okD [OF inv at])
  then have iid: "sub_iid y = sub_iid x" using sub_inv_okD [OF inv assms(4)] by (simp add: sub_ok_def)
  from sub_at_SomeD [OF at] obtain a where a: "nefGetAf (ctx_nef s) k = Some a" "gm_get (af_subs a) i = Some x" by blast
  obtain v r e where v: "UdrInfluenceDataDelete (nef_udrClient (ctx_nef s)) (sub_iid x) = (v, r, e)"
    by (metis prod_cases3)
  have gone: "gm_get (tidDb v) (sub_iid x) = None"
    using udrid.entry_drop [of "nef_udrClient (ctx_nef s)" "sub_iid x" "sub_iid x"] v by simp
  have del: "afDeleteSubscription k s i = Ret (del_sub k i (set_udr v s)) (sbOutcome (ur_ResponseCode r) (ur_Pd r), None)"
    using a ok assms(6) nefSBUDRDelete_eq [OF v] by (simp add: afDeleteSubscription_def sub_ok_def del_sub_def)
  have eq: "sub_at (go_state (DeleteTrafficInfluenceSubscription k i s rw_new)) q = Some y"
    using delete_sub_at [OF inv] assms(4,5) by simp
  from del a have "\<exists>t w. DeleteTrafficInfluenceSubscription k i s rw_new = Ret t w \<and> nef_udrClient (ctx_nef t) = v"
    by (auto simp: DeleteTrafficInfluenceSubscription_def Let_def)
  with eq gone iid show ?thesis by auto
qed

definition ex_u2 :: nefContext where
  "ex_u2 = go_state (nefServeHTTP ex_env ex_post_any ex_u1)"

lemma ex_reach_u2: "nef_reach ex_cfg 2 ex_u2"
proof -
  have "req_ok ex_post_any" by code_simp
  from nef_reach.serve [OF ex_reach_u1 this] show ?thesis by (simp add: ex_u2_def numeral_2_eq_2)
qed

theorem udr_entry_shared_witness:
  "\<exists>y. sub_at ex_u2 (''AF1'', ''12'') = Some y \<and>
     (\<exists>t w. DeleteTrafficInfluenceSubscription ''AF1'' ''11'' ex_u2 rw_new = Ret t w \<and>
        gm_get (tidDb (nef_udrClient (ctx_nef t))) (sub_iid y) = None)"
proof -
  have two: "(2 :: nat) \<le> 2 ^ 64" by simp
  have x: "sub_at ex_u2 (''AF1'', ''11'') = Some ex_usub" by code_simp
  have "\<not> Option.is_none (sub_at ex_u2 (''AF1'', ''12''))" by code_simp
  then obtain y where y: "sub_at ex_u2 (''AF1'', ''12'') = Some y" by (auto simp: Option.is_none_def)
  have "sub_NEFSBPut ex_usub = FnUDR" by (simp add: ex_usub_def)
  from udr_entry_shared [OF ex_reach_u2 two x y _ this] y show ?thesis by auto
qed

text \<open>After the last subscription of an AF is deleted, the AF is not in the table and there is room for one.\<close>

lemma last_delete:
  assumes inv: "sub_inv c n s" and at: "sub_at s (k, i) = Some x" and only: "\<forall>j. j \<noteq> i \<longrightarrow> sub_at s (k, j) = None"
  shows "\<exists>t w. DeleteTrafficInfluenceSubscription k i s rw_new = Ret t w \<and> rw_status w = Some 204 \<and> af_room t \<and> ctx_cfg t = c \<and>
    (\<forall>k'. nefGetAf (ctx_nef t) k' = (if k' = k then None else nefGetAf (ctx_nef s) k'))"
proof (rule DeleteTI_cases [OF inv, of k i rw_new])
  fix a x' v u
  assume h: "nefGetAf (ctx_nef s) k = Some a" "nef_afs (ctx_nef v) = nef_afs (ctx_nef s)" "ctx_cfg v = ctx_cfg s"
    "DeleteTrafficInfluenceSubscription k i s rw_new = Ret u (rwWriteHeader 204 rw_new)"
    "u = (if gm_len (gm_del i (af_subs a)) = 0 then fst (nefDeleteAf (del_sub k i v) k) else del_sub k i v)"
  have tab: "tab_inv c n s" using inv by (simp add: sub_inv_def)
  have ok: "gm_ok (gm_del i (af_subs a))" using tab_invD [OF tab h(1)] by (simp add: af_ok_def)
  have "gm_get (gm_del i (af_subs a)) j = None" for j
    using only by (simp add: sub_at_af [OF h(1)])
  with gm.len_0_iff [OF ok] have len: "gm_len (gm_del i (af_subs a)) = 0" by blast
  let ?d = "del_sub k i v"
  let ?b = "a\<lparr>af_subs := gm_del i (af_subs a)\<rparr>"
  have v: "nefGetAf (ctx_nef v) k = Some a" using h(1,2) by (simp add: nefGetAf_def)
  have d: "nef_afs (ctx_nef ?d) = gm_put k ?b (nef_afs (ctx_nef s))"
    using v h(2) by (simp add: del_sub_def upd_af_def)
  have u: "u = set_afs (gm_del k (nef_afs (ctx_nef ?d))) ?d"
    using h(5) len v by (simp add: nefDeleteAf_state)
  have afs: "gm_ok (nef_afs (ctx_nef s))" "gm_get (nef_afs (ctx_nef s)) k = Some a"
    using tab h(1) by (auto simp: tab_inv_def nefGetAf_def)
  have "Suc (gm_len (nef_afs (ctx_nef u))) = gm_len (nef_afs (ctx_nef s))"
    using afs gm.len_del [of "gm_put k ?b (nef_afs (ctx_nef s))" k ?b] gm.len_put_old [OF afs, of ?b] by (simp add: u d)
  moreover have "int (gm_len (nef_afs (ctx_nef s))) \<le> max 0 (sint (cfg_MaxAFSupport c))"
    using tab by (simp add: tab_inv_def)
  moreover have cfg: "ctx_cfg u = c" using tab h(3) by (simp add: u tab_inv_def)
  ultimately have "af_room u" by (simp add: af_room_def del: of_nat_Suc)
  moreover have "nefGetAf (ctx_nef u) k' = (if k' = k then None else nefGetAf (ctx_nef s) k')" for k'
    by (simp add: u d nefGetAf_def)
  ultimately show ?thesis using cfg h(4) by simp
qed (use at in \<open>simp_all add: sub_at_no_af\<close>)

text \<open>
  (C23) The slot of an AF comes free: the DELETE of the last subscription of an AF is answered 204, and the
  POST of a valid request that follows, by that AF or by one that is not in the table, is answered 201
  even when the table was full; the subscription is then stored under the first identifier, next to all
  the others. The configuration must allow a subscription and have a well-typed service table.
\<close>

theorem slot_freed:
  assumes "nef_reach c n s" and "n < 2 ^ 64" and "svc_ok c" and "sub_at s (k, i) = Some x"
    and "\<forall>j. j \<noteq> i \<longrightarrow> sub_at s (k, j) = None" and "nefGetAf (ctx_nef s) k' = None \<or> k' = k"
    and "0 < sint (cfg_MaxSubSupport c)" and "ti_valid ti" and "singleUE ti \<or> anyUE ti"
  defines "i' \<equiv> Itoa (cfg_SubStartID c)"
  shows "\<exists>t w u w' y. DeleteTrafficInfluenceSubscription k i s rw_new = Ret t w \<and> rw_status w = Some 204 \<and>
    CreateTrafficInfluenceSubscription k' (Decoded ti) t rw_new = Ret u w' \<and> rw_status w' = Some 201 \<and>
    sub_ti y = ti\<lparr>ti_Self := sub_link c k' i'\<rparr> \<and> sub_at u = (sub_at s)((k, i) := None, (k', i') \<mapsto> y)"
proof -
  note inv = reach_sub [OF assms(1) less_imp_le [OF assms(2)]]
  from last_delete [OF inv assms(4,5)] obtain t w where t: "DeleteTrafficInfluenceSubscription k i s rw_new = Ret t w"
    "rw_status w = Some 204" "af_room t" "ctx_cfg t = c" "nefGetAf (ctx_nef t) k' = None"
    using assms(6) by auto
  have inv': "sub_inv c n t" using DeleteTI_inv [OF inv, of k i rw_new] t(1) by simp
  have at: "sub_at t = (sub_at s)((k, i) := None)" using delete_sub_at [OF inv, of k i rw_new] t(1) by simp
  have "sub_accept t k' ti" using t(3-5) assms(7-9) by (simp add: sub_accept_def)
  from createNewSub_accepted [OF inv' assms(3) this] obtain u y rsp where
    u: "createNewSub t k' ti = Ret u (sub_link c k' i', rsp, None)" "sub_at u = (sub_at t)((k', i') \<mapsto> y)"
      "sub_ti y = ti\<lparr>ti_Self := sub_link c k' i'\<rparr>" "nefGetAf (ctx_nef u) k' \<noteq> None"
    using t(4,5) by (auto simp: next_sub_def i'_def)
  obtain r0 where "validateAFTrafficInfluenceData ti = (r0, True)"
    using assms(8) validateTI_iff [of ti] by (cases "validateAFTrafficInfluenceData ti") simp
  with u t(1,2) at show ?thesis by (auto simp: CreateTrafficInfluenceSubscription_def)
qed

theorem slot_freed_witness:
  "\<not> sub_accept ex_sp ''AF2'' ex_ti \<and>
   (\<exists>t w u w'. DeleteTrafficInfluenceSubscription ''AF1'' ''11'' ex_sp rw_new = Ret t w \<and>
      CreateTrafficInfluenceSubscription ''AF2'' (Decoded ex_ti) t rw_new = Ret u w' \<and> rw_status w' = Some 201)"
proof -
  have h: "Option.is_none (nefGetAf (ctx_nef ex_sp) ''AF2'')" "0 < sint (cfg_MaxSubSupport ex_cfg)"
    "ti_valid ex_ti" "singleUE ex_ti" by code_simp+
  have no: "\<not> sub_accept ex_sp ''AF2'' ex_ti" by code_simp
  have n: "(2 :: nat) < 2 ^ 64" and new: "nefGetAf (ctx_nef ex_sp) ''AF2'' = None \<or> ''AF2'' = ''AF1''"
    and only: "\<forall>j. j \<noteq> ''11'' \<longrightarrow> sub_at ex_sp (''AF1'', j) = None"
    using h(1) ex_sp_only by (simp_all add: Option.is_none_def split: option.splits)
  from slot_freed [OF ex_reach_sp n ex_svc ex_sp_sub only new h(2,3) disjI1 [OF h(4)]] no show ?thesis by blast
qed

end
