(* ===== verification/Nef_PfdProperties.thy ===== *)
theory Nef_PfdProperties
  imports Nef_Examples
begin

text \<open>
  The properties of the PFD management API and of the access control in front of both APIs.
\<close>

lemma reach_trans: "nef_reach c n s \<Longrightarrow> n \<le> 2 ^ 64 \<Longrightarrow> trans_inv c n s"
  using nef_inv_trans [OF nef_reach_inv] .

section \<open>The UDR after a PUT\<close>

lemma udr_put_all_get:
  "gm_get (appPfd (udr_put_all clk xs u)) a \<noteq> None \<longleftrightarrow>
     gm_get (appPfd u) a \<noteq> None \<or> (\<exists>(k, v)\<in>set xs. pdt_ExternalAppID v = a)"
  by (induction clk xs u rule: udr_put_all.induct)
    (auto simp: UdrPfdDataCreate_def pfdDataForApp_def Let_def)

section \<open>Reading a transaction\<close>

definition udr_holds :: "nefContext \<Rightarrow> (string, PfdData) gomap \<Rightarrow> bool" where
  "udr_holds s m \<longleftrightarrow> (\<forall>(k, v)\<in>set m. gm_get (appPfd (nef_udrPfdClient (ctx_nef s))) (pdt_ExternalAppID v) \<noteq> None)"

lemma get_app:
  assumes "\<not> ctx_TestClient s"
  shows "if gm_get (appPfd (nef_udrPfdClient (ctx_nef s))) a = None then nefSBUDRAPPPFDGet s a = Panic s
    else \<exists>d. nefSBUDRAPPPFDGet s a = Ret s (d, prsp_zero, None)"
  using assms by (auto simp: nefSBUDRAPPPFDGet_def UdrPfdDataGet_def Let_def upr_zero_def)

lemma get_loop:
  assumes "\<not> ctx_TestClient s"
  shows "if udr_holds s xs then \<exists>m. nefSBUDRPFDGet_loop xs s t = Ret s (m, prsp_zero, None)
    else nefSBUDRPFDGet_loop xs s t = Panic s"
proof (induction xs arbitrary: t)
  case Nil
  show ?case by (simp add: udr_holds_def)
next
  case (Cons x xs)
  obtain k v where x: "x = (k, v)" by (cases x)
  show ?case
  proof (cases "gm_get (appPfd (nef_udrPfdClient (ctx_nef s))) (pdt_ExternalAppID v) = None")
    case True
    with get_app [OF assms, of "pdt_ExternalAppID v"] show ?thesis by (simp add: x udr_holds_def)
  next
    case False
    with get_app [OF assms, of "pdt_ExternalAppID v"] obtain d where
      "nefSBUDRAPPPFDGet s (pdt_ExternalAppID v) = Ret s (d, prsp_zero, None)" by auto
    with Cons.IH [of "t\<lparr>pm_PfdDatas := gm_put k d (pm_PfdDatas t)\<rparr>"] False show ?thesis
      by (simp add: x udr_holds_def)
  qed
qed

lemma read_stored:
  assumes at: "trans_at s (k, i) = Some x" and ok: "trans_ok c (k, i) x" and "\<not> ctx_TestClient s"
  shows "ReadPFDManagementTransaction k i s w =
    (if udr_holds s (apps x) then Ret s (sendPfdJSON200 (BTrans (tr_pfdManagement x)) w) else Panic s)"
proof -
  from trans_at_SomeD [OF at] obtain a where a: "nefGetAf (ctx_nef s) k = Some a"
    "gm_get (af_pfdtrans a) i = Some x" by blast
  have "tr_NEFSBPfdGet x = PfdFnUDR" using ok by (simp add: trans_ok_def)
  with a get_loop [OF assms(3), of "apps x" pm_zero] show ?thesis
    by (auto simp: ReadPFDManagementTransaction_def afGetPfdTransaction_def nefSBUDRPFDGet_def apps_def
        split: if_splits)
qed

lemma sendPfdJSON200_sel:
  assumes "rw_status w = None"
  shows "rw_status (sendPfdJSON200 b w) = Some 200" and "rw_body (sendPfdJSON200 b w) = rw_body w @ [b]"
  using assms by (simp_all add: sendPfdJSON200_def)

lemma udr_holds_created:
  "udr_holds (put_trans k i x (set_udrpfd (udr_put_all clk (pm_PfdDatas t) u) s)) (apps (newTrans i loc (t\<lparr>pm_PfdReports := r\<rparr>)))"
proof -
  have "\<exists>(k, d)\<in>set (pm_PfdDatas t). pdt_ExternalAppID d = pdt_ExternalAppID v"
    if "(a, v) \<in> set (apps (newTrans i loc (t\<lparr>pm_PfdReports := r\<rparr>)))" for a v
    using that by (force simp: apps_def newTrans_def linked_def map_ran_def)
  then show ?thesis using udr_put_all_get [of clk "pm_PfdDatas t" u] by (auto simp: udr_holds_def)
qed

section \<open>Invariants\<close>

text \<open>
  (C18) No application is in two PFD transactions, of one AF or of two, in any reachable state; a
  stored transaction is never empty, holds no report of a past failure, and its link and the links
  of its applications are their locations.
\<close>

theorem applications_unique:
  assumes "nef_reach c n s" and "n \<le> 2 ^ 64" and "trans_at s (k, i) = Some x"
  shows "apps x \<noteq> [] \<and> pm_PfdReports (tr_pfdManagement x) = [] \<and>
    pm_Self (tr_pfdManagement x) = getNefLocationURLPrefixPfd c @ k @ ''/transactions/'' @ i \<and>
    (\<forall>a v. gm_get (apps x) a = Some v \<longrightarrow>
       pdt_Self v = pm_Self (tr_pfdManagement x) @ ''/applications/'' @ a \<and>
       (\<forall>q y. trans_at s q = Some y \<longrightarrow> gm_get (apps y) a \<noteq> None \<longrightarrow> q = (k, i)))"
proof -
  note inv = reach_trans [OF assms(1,2)]
  have ok: "trans_ok c (k, i) x" by (rule trans_inv_okD [OF inv assms(3)])
  have "apps_unique (trans_at s)" using inv by (simp add: trans_inv_def pfd_inv_def)
  then have "q = (k, i)" if "trans_at s q = Some y" "gm_get (apps y) a \<noteq> None" "gm_get (apps x) a = Some v" for q y a v
    using that assms(3) unfolding apps_unique_def by (metis option.distinct(1))
  with ok show ?thesis by (auto simp: trans_ok_def)
qed

theorem applications_unique_witness:
  "\<exists>x. trans_at ex_p1 (''AF1'', ''7'') = Some x \<and> apps x \<noteq> []"
  using ex_p1_trans applications_unique [OF ex_reach_p1] by auto


section \<open>Creation\<close>

definition pfd_room :: "nefContext \<Rightarrow> string \<Rightarrow> bool" where
  "pfd_room s k \<longleftrightarrow>
     (case nefGetAf (ctx_nef s) k of
        None \<Rightarrow> af_room s \<and> 0 < sint (cfg_MaxPfdTransSupport (ctx_cfg s))
      | Some a \<Rightarrow> trans_room s a)"

definition next_trans :: "nefContext \<Rightarrow> string \<Rightarrow> string" where
  "next_trans s k = Itoa (case nefGetAf (ctx_nef s) k of None \<Rightarrow> cfg_PfdTransStartID (ctx_cfg s) | Some a \<Rightarrow> af_transIDnum a)"

definition trans_link :: "Config \<Rightarrow> string \<Rightarrow> string \<Rightarrow> string" where
  "trans_link c k i = getNefLocationURLPrefixPfd c @ k @ ''/transactions/'' @ i"

definition some_new :: "nefContext \<Rightarrow> PfdManagement \<Rightarrow> bool" where
  "some_new s body \<longleftrightarrow> list_ex (\<lambda>(a, _). \<not> nefCheckPfdAppIDExists a s) (pm_PfdDatas body)"

lemma some_new_iff: "some_new s body \<longleftrightarrow> pm_PfdDatas (accepted s (body\<lparr>pm_PfdReports := []\<rparr>)) \<noteq> []"
proof -
  let ?t = "accepted s (body\<lparr>pm_PfdReports := []\<rparr>)"
  have get: "gm_get (pm_PfdDatas ?t) a = (if nefCheckPfdAppIDExists a s then None else gm_get (pm_PfdDatas body) a)" for a
    by (simp add: accepted_sel)
  have "pm_PfdDatas ?t = [] \<longleftrightarrow> (\<forall>a. gm_get (pm_PfdDatas ?t) a = None)"
    using gm_all_None [of "pm_PfdDatas ?t"] by auto
  also have "\<dots> \<longleftrightarrow> (\<forall>a\<in>fst ` set (pm_PfdDatas body). nefCheckPfdAppIDExists a s)"
    using gm_get_None [of "pm_PfdDatas body"] by (auto simp: get)
  also have "\<dots> \<longleftrightarrow> \<not> some_new s body" by (force simp: some_new_def list_ex_iff)
  finally show ?thesis by blast
qed

lemma pfd_room_ensure:
  "pfd_room s k \<longleftrightarrow> \<not> (nefGetAf (ctx_nef s) k = None \<and> \<not> af_room s) \<and>
     trans_room s (the (nefGetAf (ctx_nef (ensure_af k s)) k))"
  by (auto simp: pfd_room_def nefGetAf_ensure trans_room_def split: option.splits)

lemma next_trans_fresh:
  assumes "tab_inv c n s" and "n < 2 ^ 64"
  shows "trans_at s (k, next_trans s k) = None"
proof (cases "nefGetAf (ctx_nef s) k")
  case None
  then show ?thesis by (simp add: trans_at_def)
next
  case (Some a)
  with new_trans_fresh [OF assms(1) Some assms(2)] show ?thesis by (simp add: next_trans_def)
qed

text \<open>The state and the response of a POST that is accepted.\<close>

lemma pfd_created:
  assumes tab: "tab_inv c n s" and "\<not> ctx_TestClient s" and "\<not> ctx_TestNEFSB s"
    and "pfd_request_ok body" and "some_new s body" and "pfd_room s k"
  defines "i \<equiv> next_trans s k" and "loc \<equiv> trans_link c k (next_trans s k)"
    and "t \<equiv> accepted s (body\<lparr>pm_PfdReports := []\<rparr>)"
  shows "CreatePFDManagementTransaction clk k (Decoded body) s w =
    Ret (put_trans k i (newTrans i loc (t\<lparr>pm_PfdReports := []\<rparr>))
          (set_udrpfd (udr_put_all clk (pm_PfdDatas t) (nef_udrPfdClient (ctx_nef s))) (bump_trans k (ensure_af k s))))
      (sent ((linked loc t)\<lparr>pm_Self := loc\<rparr>) loc w)"
proof (cases rule: CreatePFD_cases [where body = body and s = s and w = w and clk = clk and k = k])
  case (created a j loc')
  have a: "a = (case nefGetAf (ctx_nef s) k of None \<Rightarrow> afCreate s k | Some a \<Rightarrow> a)"
    using created(6) by (simp add: nefGetAf_ensure)
  have j: "j = i" using created(8) a by (simp add: i_def next_trans_def split: option.split)
  have "af_afID a = k" using a tab_invD [OF tab, of k] by (auto simp: af_ok_def split: option.splits)
  then have "loc' = loc"
    using created(9) j tab by (simp add: transLocation_def loc_def trans_link_def i_def tab_inv_def)
  with created(10) j show ?thesis by (simp add: t_def)
qed (use assms some_new_iff [of s body] pfd_room_ensure [of s k] in auto)

lemma pfd_refused:
  assumes "\<not> ctx_TestClient s" and "\<not> ctx_TestNEFSB s"
    and "\<not> (pfd_request_ok body \<and> some_new s body \<and> pfd_room s k)"
  shows "\<exists>t w. CreatePFDManagementTransaction clk k (Decoded body) s rw_new = Ret t w \<and>
    rw_status w = Some (if pfd_request_ok body \<and> \<not> some_new s body then 500 else 400) \<and>
    trans_at t = trans_at s \<and> nef_udrPfdClient (ctx_nef t) = nef_udrPfdClient (ctx_nef s)"
proof (cases rule: CreatePFD_cases [where body = body and s = s and w = rw_new and clk = clk and k = k])
  case (dup w')
  then show ?thesis
    using some_new_iff [of s body] by (simp add: sendPFDErrorResponseToAF_def Let_def mkRsp_def)
next
  case (max w' u)
  then show ?thesis using some_new_iff [of s body] by (auto simp: trans_at_ensure)
next
  case (created a j loc')
  have "pfd_room s k" using created(5,6,7) by (auto simp: pfd_room_ensure)
  with created(1,2) assms(3) some_new_iff [of s body] show ?thesis by simp
qed (use assms in auto)

text \<open>
  (C16) A POST of a PFD transaction answers 201 exactly when the request is well formed, at least one
  of its applications is new to the NEF and the limits leave room. It answers 500 when every
  application exists already, and 400 in the other cases; then neither the transactions nor the UDR
  change.
\<close>

theorem pfd_create_answers:
  assumes "nef_reach c n s" and "n < 2 ^ 64" and "\<not> ctx_TestClient s" and "\<not> ctx_TestNEFSB s"
  shows "\<exists>t w. CreatePFDManagementTransaction clk k (Decoded body) s rw_new = Ret t w \<and>
    rw_status w = Some (if \<not> pfd_request_ok body then 400 else if \<not> some_new s body then 500
      else if pfd_room s k then 201 else 400) \<and>
    (rw_status w = Some 201 \<or> trans_at t = trans_at s \<and>
       nef_udrPfdClient (ctx_nef t) = nef_udrPfdClient (ctx_nef s))"
proof (cases "pfd_request_ok body \<and> some_new s body \<and> pfd_room s k")
  case True
  have "tab_inv c n s" using reach_trans [OF assms(1) less_imp_le [OF assms(2)]] by (simp add: trans_inv_def)
  from pfd_created [OF this assms(3,4)] True show ?thesis by (simp add: sent_def)
next
  case False
  from pfd_refused [OF assms(3,4) this, of clk] False show ?thesis by (auto split: if_splits)
qed

theorem pfd_create_answers_witness:
  "some_new ex_s0 ex_pfd \<and> (\<exists>t w. CreatePFDManagementTransaction (env_clock ex_env) ''AF1'' (Decoded ex_pfd) ex_s0 rw_new = Ret t w \<and>
     rw_status w = Some 201)"
proof -
  have h: "pfd_request_ok ex_pfd" "some_new ex_s0 ex_pfd" "pfd_room ex_s0 ''AF1''"
    "\<not> ctx_TestClient ex_s0" "\<not> ctx_TestNEFSB ex_s0" by code_simp+
  from pfd_create_answers [OF ex_reach_0 _ h(4,5), of "env_clock ex_env" "''AF1''" ex_pfd] h show ?thesis by auto
qed

text \<open>
  (C17) A created PFD transaction can be read back: the response carries its location, a GET of it
  answers 200 with the stored transaction, and this holds exactly the applications of the request that
  the NEF did not know, each with its link. The identifier was not in use, and no other transaction
  changes.
\<close>

theorem pfd_create_then_read:
  assumes "nef_reach c n s" and "n < 2 ^ 64" and "\<not> ctx_TestClient s" and "\<not> ctx_TestNEFSB s"
    and "gm_ok (pm_PfdDatas body)" and "pfd_request_ok body" and "some_new s body" and "pfd_room s k"
  defines "i \<equiv> next_trans s k" and "loc \<equiv> trans_link c k (next_trans s k)"
  shows "\<exists>t w x w'. CreatePFDManagementTransaction clk k (Decoded body) s rw_new = Ret t w \<and>
    gm_get (rw_sent w) ''Location'' = Some loc \<and>
    trans_at s (k, i) = None \<and> trans_at t = (trans_at s)((k, i) \<mapsto> x) \<and>
    ReadPFDManagementTransaction k i t rw_new = Ret t w' \<and> rw_status w' = Some 200 \<and>
    rw_body w' = [BTrans (tr_pfdManagement x)] \<and>
    (\<forall>a. gm_get (apps x) a = (if nefCheckPfdAppIDExists a s then None
       else map_option (\<lambda>v. v\<lparr>pdt_Self := loc @ ''/applications/'' @ a\<rparr>) (gm_get (pm_PfdDatas body) a)))"
proof -
  note inv = reach_trans [OF assms(1) less_imp_le [OF assms(2)]]
  have tab: "tab_inv c n s" using inv by (simp add: trans_inv_def)
  let ?t = "accepted s (body\<lparr>pm_PfdReports := []\<rparr>)"
  let ?x = "newTrans i loc (?t\<lparr>pm_PfdReports := []\<rparr>)"
  let ?u = "put_trans k i ?x (set_udrpfd (udr_put_all clk (pm_PfdDatas ?t) (nef_udrPfdClient (ctx_nef s)))
    (bump_trans k (ensure_af k s)))"
  have cr: "CreatePFDManagementTransaction clk k (Decoded body) s rw_new =
      Ret ?u (sent ((linked loc ?t)\<lparr>pm_Self := loc\<rparr>) loc rw_new)"
    unfolding i_def loc_def by (rule pfd_created [OF tab assms(3,4,6,7,8)])
  obtain b where "nefGetAf (ctx_nef (ensure_af k s)) k = Some b" by (simp add: nefGetAf_ensure)
  then have at: "trans_at ?u = (trans_at s)((k, i) \<mapsto> ?x)" by (simp add: trans_at_put)
  have "trans_inv c (Suc n) ?u"
    using CreatePFD_inv [OF inv assms(2), of "Decoded body" clk k rw_new] assms(5) cr by (simp add: rbody_all_def)
  from trans_inv_okD [OF this, of "(k, i)" ?x] at have ok: "trans_ok c (k, i) ?x" by simp
  have "udr_holds ?u (apps ?x)" by (rule udr_holds_created)
  with read_stored [OF _ ok, of ?u rw_new] at assms(3)
  have "ReadPFDManagementTransaction k i ?u rw_new = Ret ?u (sendPfdJSON200 (BTrans (tr_pfdManagement ?x)) rw_new)" by simp
  moreover have "trans_at s (k, i) = None" unfolding i_def by (rule next_trans_fresh [OF tab assms(2)])
  ultimately show ?thesis
    using cr at by (intro exI [of _ ?u] exI [of _ "sent ((linked loc ?t)\<lparr>pm_Self := loc\<rparr>) loc rw_new"] exI [of _ ?x]
        exI [of _ "sendPfdJSON200 (BTrans (tr_pfdManagement ?x)) rw_new"])
      (simp add: sent_def sendPfdJSON200_sel accepted_sel)
qed

theorem pfd_create_then_read_witness:
  "\<exists>t w. CreatePFDManagementTransaction (env_clock ex_env) ''AF1'' (Decoded ex_pfd) ex_s0 rw_new = Ret t w \<and>
     gm_get (rw_sent w) ''Location'' = Some (trans_link ex_cfg ''AF1'' (next_trans ex_s0 ''AF1''))"
proof -
  have h: "pfd_request_ok ex_pfd" "some_new ex_s0 ex_pfd" "pfd_room ex_s0 ''AF1''"
    "\<not> ctx_TestClient ex_s0" "\<not> ctx_TestNEFSB ex_s0" "gm_ok (pm_PfdDatas ex_pfd)" by code_simp+
  from pfd_create_then_read [OF ex_reach_0 _ h(4,5,6,1,2,3), where clk = "env_clock ex_env"] show ?thesis by auto
qed


section \<open>Reading and deleting\<close>

text \<open>
  (C31) A GET of a stored PFD transaction answers 200 with the stored transaction when the UDR holds an
  entry for the external identifier of each of its applications; when one is missing, the handler
  dereferences a nil pointer and panics. Such states are reachable: two applications may carry the same
  external identifier under different keys, and deleting the one deletes the UDR entry of both.
\<close>

theorem pfd_get_outcome:
  assumes "nef_reach c n s" and "n \<le> 2 ^ 64" and "trans_at s (k, i) = Some x" and "\<not> ctx_TestClient s"
  shows "if (\<forall>a v. gm_get (apps x) a = Some v \<longrightarrow>
           gm_get (appPfd (nef_udrPfdClient (ctx_nef s))) (pdt_ExternalAppID v) \<noteq> None)
    then \<exists>w. ReadPFDManagementTransaction k i s rw_new = Ret s w \<and> rw_status w = Some 200 \<and>
      rw_body w = [BTrans (tr_pfdManagement x)]
    else ReadPFDManagementTransaction k i s rw_new = Panic s"
proof -
  have ok: "trans_ok c (k, i) x" by (rule trans_inv_okD [OF reach_trans [OF assms(1,2)] assms(3)])
  then have "gm_ok (apps x)" by (simp add: trans_ok_def)
  then have "udr_holds s (apps x) \<longleftrightarrow> (\<forall>a v. gm_get (apps x) a = Some v \<longrightarrow>
      gm_get (appPfd (nef_udrPfdClient (ctx_nef s))) (pdt_ExternalAppID v) \<noteq> None)"
    by (auto simp: udr_holds_def gm_mem_get [symmetric])
  with read_stored [OF assms(3) ok assms(4), of rw_new] show ?thesis by (simp add: sendPfdJSON200_sel)
qed

definition ex_alias :: nef_request where
  "ex_alias = ex_post_pfd\<lparr>req_pfd := Decoded (ex_pfd\<lparr>pm_PfdDatas :=
     map (\<lambda>(_, v). (''app2'', v)) (pm_PfdDatas ex_pfd)\<rparr>)\<rparr>"

definition ex_p3 :: nefContext where
  "ex_p3 = nef_serve ex_env (ex_request ''DELETE'' ''/3gpp-pfd-management/v1/{scsAsId}/transactions/{transactionId}'')
     (nef_serve ex_env ex_alias ex_p1)"

lemma ex_reach_p3: "nef_reach ex_cfg 3 ex_p3"
proof -
  let ?del = "ex_request ''DELETE'' ''/3gpp-pfd-management/v1/{scsAsId}/transactions/{transactionId}''"
  have ok: "req_ok ex_alias" "req_ok ?del" by code_simp+
  from nef_reach.serve [OF nef_reach.serve [OF ex_reach_p1 ok(1)] ok(2)] show ?thesis
    by (simp add: ex_p3_def nef_serve_def eval_nat_numeral)
qed

theorem pfd_get_outcome_witness:
  "\<exists>x. trans_at ex_p3 (''AF1'', ''8'') = Some x \<and> ReadPFDManagementTransaction ''AF1'' ''8'' ex_p3 rw_new = Panic ex_p3"
proof -
  have h: "\<not> ctx_TestClient ex_p3" "Option.is_none (gm_get (appPfd (nef_udrPfdClient (ctx_nef ex_p3))) ''app1'')" by code_simp+
  have "map_option (\<lambda>x. map_option pdt_ExternalAppID (gm_get (apps x) ''app2'')) (trans_at ex_p3 (''AF1'', ''8'')) = Some (Some ''app1'')"
    by code_simp
  then obtain x v where x: "trans_at ex_p3 (''AF1'', ''8'') = Some x" "gm_get (apps x) ''app2'' = Some v" "pdt_ExternalAppID v = ''app1''"
    by auto
  have "(3 :: nat) \<le> 2 ^ 64" by simp
  note get = pfd_get_outcome [OF ex_reach_p3 this x(1) h(1)]
  have no: "\<not> (\<forall>a v. gm_get (apps x) a = Some v \<longrightarrow>
      gm_get (appPfd (nef_udrPfdClient (ctx_nef ex_p3))) (pdt_ExternalAppID v) \<noteq> None)"
    using x h(2) by (auto simp: Option.is_none_def intro!: exI [of _ "''app2''"] exI [of _ v])
  show ?thesis using get [unfolded if_not_P [OF no]] x(1) by blast
qed

text \<open>
  (C24) A PATCH of an application of a PFD transaction does what a PUT does: it replaces the stored
  application by the one in the request, and the PFDs that the patch does not name are lost.
\<close>

theorem patch_is_put:
  "PatchPFDManagementApplication clk k i a b s w = UpdatePutPFDManagementApplication clk k i a b s w"
  unfolding PatchPFDManagementApplication_def UpdatePutPFDManagementApplication_def patch_application_eq ..

text \<open>
  A DELETE of an application of a PFD transaction answers 204 and removes the application from
  the transaction, and the transaction with its last application; the UDR is not told and keeps the
  application.
\<close>

theorem delete_application_keeps_udr:
  assumes "nef_reach c n s" and "n \<le> 2 ^ 64" and "trans_at s (k, i) = Some x" and "gm_get (apps x) a = Some v"
  shows "\<exists>t w. DeletePFDManagementApplication k i a s rw_new = Ret t w \<and> rw_status w = Some 204 \<and>
    nef_udrPfdClient (ctx_nef t) = nef_udrPfdClient (ctx_nef s) \<and>
    (if (\<forall>b. b \<noteq> a \<longrightarrow> gm_get (apps x) b = None) then trans_at t (k, i) = None
     else \<exists>y. trans_at t (k, i) = Some y \<and> (\<forall>b. gm_get (apps y) b = (if b = a then None else gm_get (apps x) b)))"
proof -
  note inv = reach_trans [OF assms(1,2)]
  from trans_at_SomeD [OF assms(3)] obtain f where f: "nefGetAf (ctx_nef s) k = Some f" "gm_get (af_pfdtrans f) i = Some x" by blast
  let ?y = "x\<lparr>tr_pfdManagement := (tr_pfdManagement x)\<lparr>pm_PfdDatas := gm_del a (apps x)\<rparr>\<rparr>"
  let ?p = "put_trans k i ?y s"
  have last: "gm_del a (apps x) = [] \<longleftrightarrow> (\<forall>b. b \<noteq> a \<longrightarrow> gm_get (apps x) b = None)"
    using gm_all_None [of "gm_del a (apps x)"] by (auto simp: gm.get_del) (metis gm.get_del gm.get_mt)
  let ?d = "if gm_del a (apps x) = [] then del_trans k i ?p else ?p"
  have del: "afDeletePfdApplication k s i a = Ret ?d (rsp_zero, None)"
    by (rule afDeletePfdApplication_cases [OF assms(3,4)])
  have p: "trans_at ?p = (trans_at s)((k, i) \<mapsto> ?y)" by (rule trans_at_put [OF f(1)])
  have dp: "trans_at (del_trans k i ?p) (k, i) = None" by (subst trans_at_del) (use f in auto)
  have "nefGetAf (ctx_nef ?d) k \<noteq> None" using f(1) by (cases "gm_del a (apps x) = []") simp_all
  then obtain f' where f': "nefGetAf (ctx_nef ?d) k = Some f'" by blast
  have keep: "nefCheckDeleteAf ?d k = Ret (fst (nefDeleteAf ?d k)) () \<and> gm_len (af_pfdtrans f') = 0 \<or> nefCheckDeleteAf ?d k = Ret ?d ()"
    using f' by (simp add: nefCheckDeleteAf_def afGetPfdTransCount_def)
  show ?thesis
  proof (cases "gm_del a (apps x) = []")
    case True
    with keep del f(1) dp last show ?thesis
      by (auto simp: DeletePFDManagementApplication_def trans_at_deleteAf)
  next
    case False
    have "gm_get (af_pfdtrans f') i = Some ?y" using f' f False by auto
    then have "gm_len (af_pfdtrans f') \<noteq> 0" by (auto simp: gm_len_def)
    with keep del f(1) p False last show ?thesis
      by (auto simp: DeletePFDManagementApplication_def apps_def)
  qed
qed

theorem delete_application_keeps_udr_witness:
  "\<exists>t w. DeletePFDManagementApplication ''AF1'' ''7'' ''app1'' ex_p1 rw_new = Ret t w \<and>
     nef_udrPfdClient (ctx_nef t) = nef_udrPfdClient (ctx_nef ex_p1)"
proof -
  from ex_p1_trans obtain x v where x: "trans_at ex_p1 (''AF1'', ''7'') = Some x" "gm_get (apps x) ''app1'' = Some v" by auto
  have "(1 :: nat) \<le> 2 ^ 64" by simp
  from delete_application_keeps_udr [OF ex_reach_p1 this x] show ?thesis by blast
qed

section \<open>Access control\<close>

text \<open>The token in a header, and when the JWT library accepts it under the configured key.\<close>

definition bearerToken :: "string \<Rightarrow> string option" where
  "bearerToken h = (case stringsSplit ''Bearer '' h [] of _ # tok # _ \<Rightarrow> Some tok | _ \<Rightarrow> None)"

definition authorized :: "nef_env \<Rightarrow> nef_request \<Rightarrow> bool" where
  "authorized e r \<longleftrightarrow>
     (\<exists>tok key. bearerToken (req_Authorization r) = Some tok \<and> env_oauth2 e = Some key \<and> env_parse e key tok = (True, None))"

lemma bearerToken_empty: "bearerToken [] = None"
  by (simp add: bearerToken_def)

lemma check_token:
  "nefValidateAccessToken e r w =
     (if req_Authorization r = [] then
        Some (rwWriteHeader 401 (rwSet ''WWW-Authenticate'' (''Bearer realm='' @ req_RequestURI r) w), False)
      else map_option (\<lambda>tok.
        case env_oauth2 e of
          None \<Rightarrow> (rwWriteHeader 500 w, False)
        | Some key \<Rightarrow>
            if env_parse e key tok = (True, None) then (w, True)
            else if snd (env_parse e key tok) = Some (ValidationError False) then (rwWriteHeader 400 w, False)
            else (rwWriteHeader 401 (rwSet ''WWW-Authenticate'' (''Bearer realm='' @ req_RequestURI r) w), False))
        (bearerToken (req_Authorization r)))"
  by (auto simp: nefValidateAccessToken_def bearerToken_def ValidateAccessToken_def
      split: list.split option.split prod.split jwt_err.split)

text \<open>
  (C22) With OAuth2 enabled, a request for a route is served by the handler of the route exactly when its
  \<open>Authorization\<close> header carries a token after \<open>Bearer\<close> that the JWT library accepts under the configured
  key. A header with other content and no such token makes the check panic. Any other request gets no
  body and changes nothing: the answer is 500 when no key can be loaded, 400 when the token has a
  validation error other than its expiry, and 401 in every other case, also without a header.
\<close>

theorem oauth2_guards:
  assumes on: "cfg_OAuth2Support (ctx_cfg s)"
    and route: "env_mux e (routerRoutes (ctx_cfg s)) (req_Method r) (req_Path r) = Some (route, vars)"
  defines "h \<equiv> req_Authorization r"
  shows "if authorized e r then
      nefServeHTTP e r s = go_bind (runHandler (env_clock e) (rt_Handler route) (muxVar vars) r s rw_new) (\<lambda>t rep. Ret t (Some rep))
    else if h \<noteq> [] \<and> bearerToken h = None then nefServeHTTP e r s = Panic s
    else \<exists>w. nefServeHTTP e r s = Ret s (Some (w, None)) \<and> rw_body w = [] \<and> rw_status w = Some
      (if h \<noteq> [] \<and> env_oauth2 e = None then 500
       else if \<exists>tok key. bearerToken h = Some tok \<and> env_oauth2 e = Some key \<and> snd (env_parse e key tok) = Some (ValidationError False)
       then 400 else 401)"
  using on route
  by (auto simp: nefServeHTTP_def check_token authorized_def h_def bearerToken_empty split: option.split)

definition ex_secured :: nefContext where
  "ex_secured = ex_s0\<lparr>ctx_cfg := ex_cfg\<lparr>cfg_OAuth2Support := True\<rparr>\<rparr>"

theorem oauth2_guards_witness:
  "(\<exists>w. nefServeHTTP ex_env ex_post ex_secured = Ret ex_secured (Some (w, None)) \<and> rw_status w = Some 401) \<and>
   nefServeHTTP ex_env (ex_post\<lparr>req_Authorization := ''good''\<rparr>) ex_secured = Panic ex_secured \<and>
   (\<exists>vars. nefServeHTTP ex_env (ex_post\<lparr>req_Authorization := ''Bearer good''\<rparr>) ex_secured =
      go_bind (runHandler (env_clock ex_env) CreateTI (muxVar vars) (ex_post\<lparr>req_Authorization := ''Bearer good''\<rparr>) ex_secured rw_new)
        (\<lambda>t rep. Ret t (Some rep)))"
proof -
  have on: "cfg_OAuth2Support (ctx_cfg ex_secured)" by (simp add: ex_secured_def)
  let ?r = "\<lambda>h. ex_post\<lparr>req_Authorization := h\<rparr>"
  have "case env_mux ex_env (routerRoutes (ctx_cfg ex_secured)) (req_Method ex_post) (req_Path ex_post) of
      Some (rt, _) \<Rightarrow> rt_Handler rt = CreateTI | None \<Rightarrow> False" by code_simp
  then obtain rt vars where mux: "env_mux ex_env (routerRoutes (ctx_cfg ex_secured)) (req_Method ex_post) (req_Path ex_post) = Some (rt, vars)"
    "rt_Handler rt = CreateTI" by (auto split: option.splits)
  have t: "bearerToken [] = None" "bearerToken ''good'' = None" "bearerToken ''Bearer good'' = Some ''good''" by code_simp+
  have e: "env_oauth2 ex_env = Some ''key''" "env_parse ex_env k x = (x = ''good'', None)" for k x by (simp_all add: ex_env_def)
  have a: "\<not> authorized ex_env (?r [])" "\<not> authorized ex_env (?r ''good'')" "authorized ex_env (?r ''Bearer good'')"
    by (simp_all add: authorized_def t e)
  have p: "ex_post = ?r []" by (simp add: ex_post_def ex_request_def)
  have "nefServeHTTP ex_env (?r ''good'') ex_secured = Panic ex_secured"
    using oauth2_guards [OF on, of ex_env "?r ''good''" rt vars] mux(1) a(2) t(2) by simp
  moreover have "nefServeHTTP ex_env (?r ''Bearer good'') ex_secured =
      go_bind (runHandler (env_clock ex_env) CreateTI (muxVar vars) (?r ''Bearer good'') ex_secured rw_new) (\<lambda>t rep. Ret t (Some rep))"
    using oauth2_guards [OF on, of ex_env "?r ''Bearer good''" rt vars] mux a(3) by simp
  moreover have "\<exists>w. nefServeHTTP ex_env (?r []) ex_secured = Ret ex_secured (Some (w, None)) \<and> rw_status w = Some 401"
    using oauth2_guards [OF on, of ex_env "?r []" rt vars] mux(1) a(1) t(1) by auto
  ultimately show ?thesis using p by auto
qed

end
