(* ===== verification/Go_Strings.thy ===== *)
theory Go_Strings
  imports Go_Http
begin

text \<open>
  Functions of the packages \<open>strings\<close>, \<open>path/filepath\<close> and \<open>errors\<close>. \<open>filepathClean\<close> follows the documented
  rules: empty and \<open>.\<close> elements vanish, an inner \<open>..\<close> vanishes with the element before it, and a \<open>..\<close> at
  the root vanishes. The lemmas show that cleaning is idempotent and that two names joined to one
  directory give two paths.
\<close>

section \<open>strings\<close>

text \<open>\<open>strings.Split\<close> and \<open>strings.SplitN(s, sep, 2)\<close> for a separator of one character.\<close>

fun stringsSplit :: "char \<Rightarrow> string \<Rightarrow> string list" where
  "stringsSplit c [] = [[]]"
| "stringsSplit c (x # xs) =
     (if x = c then [] # stringsSplit c xs
      else case stringsSplit c xs of [] \<Rightarrow> [[x]] | y # ys \<Rightarrow> (x # y) # ys)"

definition stringsSplitN2 :: "char \<Rightarrow> string \<Rightarrow> string list" where
  "stringsSplitN2 c s = (if c \<in> set s then [takeWhile (\<lambda>x. x \<noteq> c) s, tl (dropWhile (\<lambda>x. x \<noteq> c) s)] else [s])"

fun stringsJoin :: "char \<Rightarrow> string list \<Rightarrow> string" where
  "stringsJoin c [] = []"
| "stringsJoin c [x] = x"
| "stringsJoin c (x # y # ys) = x @ c # stringsJoin c (y # ys)"

definition hasPrefix :: "string \<Rightarrow> string \<Rightarrow> bool" where
  "hasPrefix s p = (take (length p) s = p)"

fun stringsContains :: "string \<Rightarrow> string \<Rightarrow> bool" where
  "stringsContains [] p = (p = [])"
| "stringsContains (c # s) p = (hasPrefix (c # s) p \<or> stringsContains s p)"

lemma stringsSplit_nonempty [simp]: "stringsSplit c s \<noteq> []"
  by (cases s) (simp_all split: list.split)

lemma stringsSplit_noc: "c \<notin> set s \<Longrightarrow> stringsSplit c s = [s]"
  by (induction s) auto

lemma stringsSplit_app: "c \<notin> set s \<Longrightarrow> stringsSplit c (s @ c # t) = s # stringsSplit c t"
  by (induction s) auto

lemma stringsSplit_join:
  "\<forall>x\<in>set xs. c \<notin> set x \<Longrightarrow> xs \<noteq> [] \<Longrightarrow> stringsSplit c (stringsJoin c xs) = xs"
  by (induction c xs rule: stringsJoin.induct) (auto simp: stringsSplit_noc stringsSplit_app)

lemma stringsSplit_elem: "x \<in> set (stringsSplit c s) \<Longrightarrow> c \<notin> set x"
proof (induction s arbitrary: x)
  case (Cons y s)
  then show ?case
    by (cases "stringsSplit c s") (auto split: if_splits)
qed simp

lemma stringsJoin_split: "stringsJoin c (stringsSplit c s) = s"
proof (induction s)
  case (Cons x s)
  obtain y ys where "stringsSplit c s = y # ys" by (cases "stringsSplit c s") auto
  with Cons show ?case by (cases ys) auto
qed simp

lemma stringsSplit_append_sep: "stringsSplit c (s @ c # t) = stringsSplit c s @ stringsSplit c t"
proof (induction s)
  case (Cons x s)
  obtain y ys where "stringsSplit c s = y # ys" by (cases "stringsSplit c s") auto
  with Cons show ?case by simp
qed simp

text \<open>The index of the first and of the last occurrence of a character.\<close>

definition indexByte :: "string \<Rightarrow> char \<Rightarrow> nat option" where
  "indexByte s c = (if c \<in> set s then Some (length (takeWhile (\<lambda>x. x \<noteq> c) s)) else None)"

definition lastIndexByte :: "string \<Rightarrow> char \<Rightarrow> nat option" where
  "lastIndexByte s c =
     (if c \<in> set s then Some (length s - 1 - length (takeWhile (\<lambda>x. x \<noteq> c) (rev s))) else None)"

section \<open>net\<close>

text \<open>\<open>net.SplitHostPort\<close>: \<open>host:port\<close> or \<open>[host]:port\<close>.\<close>

definition netSplitHostPort :: "string \<Rightarrow> string + (string \<times> string)" where
  "netSplitHostPort hp =
     (let noBrackets = (\<lambda>j k host i.
            if CHR ''['' \<in> set (drop j hp) then Inl ''unexpected '[' in address''
            else if CHR '']'' \<in> set (drop k hp) then Inl ''unexpected ']' in address''
            else Inr (host, drop (i + 1) hp))
      in case lastIndexByte hp (CHR '':'') of
           None \<Rightarrow> Inl ''missing port in address''
         | Some i \<Rightarrow>
             if hd hp = CHR ''['' then
               (case indexByte hp (CHR '']'') of
                  None \<Rightarrow> Inl ''missing ']' in address''
                | Some e \<Rightarrow>
                    if e + 1 = length hp then Inl ''missing port in address''
                    else if e + 1 = i then noBrackets 1 (e + 1) (take (e - 1) (drop 1 hp)) i
                    else if hp ! (e + 1) = CHR '':'' then Inl ''too many colons in address''
                    else Inl ''missing port in address'')
             else if CHR '':'' \<in> set (take i hp) then Inl ''too many colons in address''
             else noBrackets 0 0 (take i hp) i)"

section \<open>errors\<close>

text \<open>\<open>errors.Wrap(err, msg)\<close> of github.com/pkg/errors: nil stays nil.\<close>

definition errorsWrap :: "goerr \<Rightarrow> string \<Rightarrow> goerr" where
  "errorsWrap err msg = map_option (\<lambda>e. msg @ '': '' @ e) err"

lemma errorsWrap_simps [simp]:
  "errorsWrap None msg = None" "errorsWrap (Some e) msg = Some (msg @ '': '' @ e)"
  by (simp_all add: errorsWrap_def)

text \<open>Calls that return a result or an error: \<open>if err != nil { return err }\<close>, and the same with a wrap.\<close>

definition tryE :: "string + 'a \<Rightarrow> ('a \<Rightarrow> string + 'b) \<Rightarrow> string + 'b" where
  "tryE x f = (case x of Inl e \<Rightarrow> Inl e | Inr a \<Rightarrow> f a)"

definition wrapE :: "string \<Rightarrow> string + 'a \<Rightarrow> string + 'a" where
  "wrapE msg x = (case x of Inl e \<Rightarrow> Inl (msg @ '': '' @ e) | Inr a \<Rightarrow> Inr a)"

lemma tryE_simps [simp]: "tryE (Inl e) f = Inl e" "tryE (Inr a) f = f a"
  by (simp_all add: tryE_def)

lemma wrapE_simps [simp]: "wrapE msg (Inl e) = Inl (msg @ '': '' @ e)" "wrapE msg (Inr a) = Inr a"
  by (simp_all add: wrapE_def)

lemma tryE_Inr_iff: "tryE x f = Inr b \<longleftrightarrow> (\<exists>a. x = Inr a \<and> f a = Inr b)"
  by (cases x) auto

lemma wrapE_Inr_iff [simp]: "wrapE msg x = Inr b \<longleftrightarrow> x = Inr b"
  by (cases x) auto

section \<open>path/filepath\<close>

text \<open>One element of a path, on the stack of the elements kept so far.\<close>

definition cleanStep :: "bool \<Rightarrow> string \<Rightarrow> string list \<Rightarrow> string list" where
  "cleanStep rooted x st =
     (if x = [] \<or> x = ''.'' then st
      else if x = ''..'' then
        (case st of
           [] \<Rightarrow> if rooted then [] else [''..'']
         | t # ts \<Rightarrow> if t = ''..'' then ''..'' # st else ts)
      else x # st)"

definition rendered :: "bool \<Rightarrow> string list \<Rightarrow> string" where
  "rendered rooted xs =
     (if rooted then CHR ''/'' # stringsJoin (CHR ''/'') xs
      else if xs = [] then ''.'' else stringsJoin (CHR ''/'') xs)"

definition isRooted :: "string \<Rightarrow> bool" where
  "isRooted p = (case p of [] \<Rightarrow> False | x # _ \<Rightarrow> x = CHR ''/'')"

definition filepathClean :: "string \<Rightarrow> string" where
  "filepathClean p = rendered (isRooted p) (rev (fold (cleanStep (isRooted p)) (stringsSplit (CHR ''/'') p) []))"

definition filepathJoin :: "string \<Rightarrow> string \<Rightarrow> string" where
  "filepathJoin a b = (if a = [] then (if b = [] then [] else filepathClean b)
     else if b = [] then filepathClean a else filepathClean (a @ ''/'' @ b))"

text \<open>The directory of a path: what is left of its last separator.\<close>

definition filepathDir :: "string \<Rightarrow> string" where
  "filepathDir p = filepathClean (rev (dropWhile (\<lambda>x. x \<noteq> CHR ''/'') (rev p)))"

text \<open>An ordinary element, and a clean stack: ordinary elements, above \<open>..\<close> elements unless rooted.\<close>

definition plain :: "string \<Rightarrow> bool" where
  "plain x \<longleftrightarrow> x \<noteq> [] \<and> x \<noteq> ''.'' \<and> x \<noteq> ''..'' \<and> CHR ''/'' \<notin> set x"

fun cleanStack :: "bool \<Rightarrow> string list \<Rightarrow> bool" where
  "cleanStack rooted [] = True"
| "cleanStack rooted (x # st) =
     ((if x = ''..'' then \<not> rooted \<and> list_all (\<lambda>y. y = ''..'') st else plain x) \<and> cleanStack rooted st)"

lemma cleanStep_stack:
  "cleanStack r st \<Longrightarrow> CHR ''/'' \<notin> set x \<Longrightarrow> cleanStack r (cleanStep r x st)"
  by (cases st) (auto simp: cleanStep_def plain_def)

lemma fold_cleanStack:
  "cleanStack r st \<Longrightarrow> \<forall>x\<in>set xs. CHR ''/'' \<notin> set x \<Longrightarrow> cleanStack r (fold (cleanStep r) xs st)"
  by (induction xs arbitrary: st) (auto intro: cleanStep_stack)

lemma fold_clean_id: "cleanStack r st \<Longrightarrow> fold (cleanStep r) (rev st) [] = st"
proof (induction st)
  case (Cons x st)
  then have f: "fold (cleanStep r) (rev st) [] = st" by simp
  have "cleanStep r x st = x # st"
    using Cons.prems by (cases st) (auto simp: cleanStep_def plain_def split: if_splits)
  with f show ?case by (simp only: rev.simps fold_append fold.simps comp_apply id_apply)
qed simp

lemma cleanStack_elem: "cleanStack r st \<Longrightarrow> x \<in> set st \<Longrightarrow> x \<noteq> [] \<and> CHR ''/'' \<notin> set x"
  by (induction st) (auto simp: plain_def split: if_splits)

lemma join_hd: "xs \<noteq> [] \<Longrightarrow> hd xs \<noteq> [] \<Longrightarrow> stringsJoin c xs \<noteq> [] \<and> hd (stringsJoin c xs) = hd (hd xs)"
  by (induction c xs rule: stringsJoin.induct) auto

lemma isRooted_rendered:
  assumes "cleanStack r st"
  shows "isRooted (rendered r (rev st)) = r"
proof (cases "r \<or> st = []")
  case False
  then have ne: "rev st \<noteq> []" "\<not> r" by auto
  then have e: "hd (rev st) \<noteq> []" "CHR ''/'' \<notin> set (hd (rev st))"
    using cleanStack_elem [OF assms, of "hd (rev st)"] hd_in_set [of "rev st"] by auto
  then have "hd (hd (rev st)) \<noteq> CHR ''/''" by (metis hd_in_set)
  with join_hd [of "rev st" "CHR ''/''"] ne e show ?thesis
    by (cases "stringsJoin (CHR ''/'') (rev st)") (auto simp: rendered_def isRooted_def)
qed (auto simp: rendered_def isRooted_def)

lemma clean_rendered:
  assumes st: "cleanStack r st"
  shows "filepathClean (rendered r (rev st)) = rendered r (rev st)"
proof -
  have noc: "\<forall>x\<in>set (rev st). CHR ''/'' \<notin> set x" using cleanStack_elem [OF st] by auto
  have "fold (cleanStep r) (stringsSplit (CHR ''/'') (rendered r (rev st))) [] = st"
  proof (cases "st = []")
    case True
    then show ?thesis by (simp add: rendered_def cleanStep_def)
  next
    case False
    then have "stringsSplit (CHR ''/'') (stringsJoin (CHR ''/'') (rev st)) = rev st"
      by (intro stringsSplit_join noc) simp
    with False fold_clean_id [OF st] show ?thesis
      by (cases r) (simp_all add: rendered_def cleanStep_def)
  qed
  then show ?thesis by (simp add: filepathClean_def isRooted_rendered [OF st])
qed

theorem filepathClean_idem [simp]: "filepathClean (filepathClean p) = filepathClean p"
proof -
  have "cleanStack (isRooted p) (fold (cleanStep (isRooted p)) (stringsSplit (CHR ''/'') p) [])"
    by (rule fold_cleanStack) (auto dest: stringsSplit_elem)
  from clean_rendered [OF this] show ?thesis by (simp add: filepathClean_def)
qed

lemma filepathClean_join [simp]: "filepathClean (filepathJoin d n) = filepathJoin d n"
  if "d \<noteq> [] \<or> n \<noteq> []"
  using that by (simp add: filepathJoin_def)

text \<open>An ordinary name joined to a directory is the last element of the path.\<close>

lemma join_snoc: "xs \<noteq> [] \<Longrightarrow> stringsJoin c (xs @ [x]) = stringsJoin c xs @ c # x"
  by (induction c xs rule: stringsJoin.induct) auto

lemma filepathJoin_plain: "\<exists>pre. \<forall>n. plain n \<longrightarrow> filepathJoin d n = pre @ n"
proof (cases "d = []")
  case True
  have "filepathJoin d n = [] @ n" if "plain n" for n
  proof -
    have "isRooted n = False" using that by (cases n) (auto simp: isRooted_def plain_def)
    moreover have "stringsSplit (CHR ''/'') n = [n]" using that by (intro stringsSplit_noc) (simp add: plain_def)
    ultimately show ?thesis
      using that True by (simp add: filepathJoin_def filepathClean_def rendered_def cleanStep_def plain_def)
  qed
  then show ?thesis by blast
next
  case False
  define st where "st = fold (cleanStep (isRooted d)) (stringsSplit (CHR ''/'') d) []"
  define pre where "pre = (if st = [] then (if isRooted d then ''/'' else [])
    else (if isRooted d then ''/'' else []) @ stringsJoin (CHR ''/'') (rev st) @ ''/'')"
  have "filepathJoin d n = pre @ n" if n: "plain n" for n
  proof -
    have r: "isRooted (d @ CHR ''/'' # n) = isRooted d" using False by (cases d) (auto simp: isRooted_def)
    have "stringsSplit (CHR ''/'') n = [n]" using n by (intro stringsSplit_noc) (simp add: plain_def)
    then have f: "fold (cleanStep (isRooted d)) (stringsSplit (CHR ''/'') (d @ CHR ''/'' # n)) [] = n # st"
      using n by (simp add: stringsSplit_append_sep st_def [symmetric] cleanStep_def plain_def)
    have "n \<noteq> []" using n by (simp add: plain_def)
    with False have "filepathJoin d n = rendered (isRooted d) (rev st @ [n])"
      by (simp add: filepathJoin_def filepathClean_def r f)
    also have "\<dots> = pre @ n" by (cases "st = []") (simp_all add: rendered_def pre_def join_snoc)
    finally show ?thesis .
  qed
  then show ?thesis by blast
qed

lemma filepathJoin_inj: "plain a \<Longrightarrow> plain b \<Longrightarrow> filepathJoin d a = filepathJoin d b \<longleftrightarrow> a = b"
  using filepathJoin_plain [of d] by (metis same_append_eq)

end
