(* ===== verification/Auth_Pki.thy ===== *)
theory Auth_Pki
  imports Go_Strings
begin

text \<open>
  Keys and certificates in files (\<open>src/edgenode/pkg/auth/pki.go\<close>). The state is a file system: files with
  permissions and contents, and directories with permissions, by their cleaned paths. The operating
  system's errors, \<open>encoding/pem\<close>, \<open>crypto/x509\<close> and the clock are the fields of a \<open>pki_env\<close>; of a
  certificate the record keeps the fields the code reads. Error messages leave out formatted details.
\<close>

section \<open>Environment\<close>

record pem_block =
  pem_Type :: string
  pem_Bytes :: string

record pkix_name =
  pn_CommonName :: string
  pn_Organization :: "string list"

record certificate =
  x_Raw :: string
  x_RawSubjectPublicKeyInfo :: string
  x_Subject :: pkix_name
  x_NotBefore :: int
  x_NotAfter :: int
  x_IsCA :: bool
  x_KeyUsage :: int

record csr =
  csr_Subject :: pkix_name
  csr_PublicKey :: nat

type_synonym privkey = nat

type_synonym pubkey = nat

text \<open>
  The fields of a certificate template: subject, validity in seconds, authority, whether the basic
  constraints are written, and the key usage, a set of bits.
\<close>

record cert_template =
  t_Subject :: pkix_name
  t_NotBefore :: int
  t_NotAfter :: int
  t_IsCA :: bool
  t_BasicConstraintsValid :: bool
  t_KeyUsage :: int

definition KeyUsageDigitalSignature :: int where "KeyUsageDigitalSignature = 1"

definition KeyUsageCertSign :: int where "KeyUsageCertSign = 32"

text \<open>
  \<open>os_err op path\<close> is the error the operating system gives for an operation on a path. \<open>signerPublic\<close> is
  the public key of a private key that is a \<open>crypto.Signer\<close>.
\<close>

record pki_env =
  os_err :: "string \<Rightarrow> string \<Rightarrow> goerr"
  os_newPerm :: int
  pem_Decode :: "string \<Rightarrow> pem_block option \<times> string"
  pem_Encode :: "pem_block \<Rightarrow> string option"
  ParseCertificate :: "string \<Rightarrow> string + certificate"
  ParseCertificates :: "string \<Rightarrow> string + certificate list"
  ParseCertificateRequest :: "string \<Rightarrow> string + csr"
  ParsePKCS8PrivateKey :: "string \<Rightarrow> string + privkey"
  MarshalPKCS8PrivateKey :: "privkey \<Rightarrow> string + string"
  signerPublic :: "privkey \<Rightarrow> pubkey option"
  MarshalPKIXPublicKey :: "pubkey \<Rightarrow> string + string"
  GenerateKey :: "string + privkey"
  CreateCertificate :: "cert_template \<Rightarrow> certificate option \<Rightarrow> pubkey \<Rightarrow> privkey \<Rightarrow> string + string"
  CreateCertificateRequest :: "privkey \<Rightarrow> string + string"
  CheckSignatureFrom :: "certificate \<Rightarrow> certificate \<Rightarrow> goerr"
  timeNow :: int

record os_file =
  f_perm :: int
  f_data :: string

record filesystem =
  fs_files :: "(string, os_file) gomap"
  fs_dirs :: "(string, int) gomap"

section \<open>Files\<close>

definition fileAt :: "filesystem \<Rightarrow> string \<Rightarrow> os_file option" where
  "fileAt fs path = gm_get (fs_files fs) (filepathClean path)"

definition setFile :: "string \<Rightarrow> os_file \<Rightarrow> filesystem \<Rightarrow> filesystem" where
  "setFile path f fs = fs\<lparr>fs_files := gm_put (filepathClean path) f (fs_files fs)\<rparr>"

text \<open>\<open>os.Create\<close> truncates a file that exists, and creates one that does not.\<close>

definition osCreate :: "pki_env \<Rightarrow> string \<Rightarrow> filesystem \<Rightarrow> filesystem \<times> goerr" where
  "osCreate e path fs =
     (case os_err e ''create'' path of
        Some err \<Rightarrow> (fs, Some err)
      | None \<Rightarrow>
          (setFile path \<lparr>f_perm = (case fileAt fs path of None \<Rightarrow> os_newPerm e | Some f \<Rightarrow> f_perm f), f_data = []\<rparr> fs,
           None))"

definition fileChmod :: "pki_env \<Rightarrow> string \<Rightarrow> int \<Rightarrow> filesystem \<Rightarrow> filesystem \<times> goerr" where
  "fileChmod e path perm fs =
     (case (os_err e ''fchmod'' path, fileAt fs path) of
        (None, Some f) \<Rightarrow> (setFile path (f\<lparr>f_perm := perm\<rparr>) fs, None)
      | (None, None) \<Rightarrow> (fs, Some ''no such file'')
      | (Some err, _) \<Rightarrow> (fs, Some err))"

definition fileWrite :: "pki_env \<Rightarrow> string \<Rightarrow> string \<Rightarrow> filesystem \<Rightarrow> filesystem \<times> goerr" where
  "fileWrite e path data fs =
     (case (os_err e ''write'' path, fileAt fs path) of
        (None, Some f) \<Rightarrow> (setFile path (f\<lparr>f_data := f_data f @ data\<rparr>) fs, None)
      | (None, None) \<Rightarrow> (fs, Some ''no such file'')
      | (Some err, _) \<Rightarrow> (fs, Some err))"

definition fileClose :: "pki_env \<Rightarrow> string \<Rightarrow> goerr" where
  "fileClose e path = os_err e ''close'' path"

text \<open>An error of an open file: the file is closed, and an error of that is added.\<close>

definition closing :: "pki_env \<Rightarrow> string \<Rightarrow> string \<Rightarrow> goerr" where
  "closing e path err = (case fileClose e path of None \<Rightarrow> Some err | Some _ \<Rightarrow> errorsWrap (Some err) ''Failed to close file'')"

definition osMkdirAll :: "pki_env \<Rightarrow> string \<Rightarrow> int \<Rightarrow> filesystem \<Rightarrow> filesystem \<times> goerr" where
  "osMkdirAll e path perm fs =
     (case os_err e ''mkdir'' path of
        Some err \<Rightarrow> (fs, Some err)
      | None \<Rightarrow>
          (case gm_get (fs_dirs fs) (filepathClean path) of
             Some _ \<Rightarrow> (fs, None)
           | None \<Rightarrow> (fs\<lparr>fs_dirs := gm_put (filepathClean path) perm (fs_dirs fs)\<rparr>, None)))"

definition osChmodDir :: "pki_env \<Rightarrow> string \<Rightarrow> int \<Rightarrow> filesystem \<Rightarrow> filesystem \<times> goerr" where
  "osChmodDir e path perm fs =
     (case os_err e ''chmod'' path of
        Some err \<Rightarrow> (fs, Some err)
      | None \<Rightarrow> (fs\<lparr>fs_dirs := gm_put (filepathClean path) perm (fs_dirs fs)\<rparr>, None))"

text \<open>The permissions 0600 of a file.\<close>

definition filePerm :: int where "filePerm = 384"

definition readFileWithPerm :: "pki_env \<Rightarrow> string \<Rightarrow> int \<Rightarrow> filesystem \<Rightarrow> string + string" where
  "readFileWithPerm e path perm fs =
     (let p = filepathClean path
      in case (os_err e ''open'' p, fileAt fs p) of
           (Some err, _) \<Rightarrow> Inl (''Failed to open: '' @ err)
         | (None, None) \<Rightarrow> Inl ''Failed to open: no such file''
         | (None, Some f) \<Rightarrow>
             (case os_err e ''fstat'' p of
                Some err \<Rightarrow> Inl (''Failed to get file info: '' @ err)
              | None \<Rightarrow>
                  if f_perm f \<noteq> perm then Inl ''Invalid file permissions''
                  else
                    (case os_err e ''stat'' p of
                       Some err \<Rightarrow> Inl (''Failed to stat a file: '' @ err)
                     | None \<Rightarrow>
                         if int (length (f_data f)) > 1024 * 1024 then Inl ''File seems to be to long''
                         else (case os_err e ''read'' p of Some err \<Rightarrow> Inl err | None \<Rightarrow> Inr (f_data f)))))"

definition LoadKey :: "pki_env \<Rightarrow> string \<Rightarrow> filesystem \<Rightarrow> string + privkey" where
  "LoadKey e path fs =
     tryE (readFileWithPerm e path filePerm fs) (\<lambda>data.
       case fst (pem_Decode e data) of
         None \<Rightarrow> Inl ''Failed to decode key''
       | Some block \<Rightarrow>
           if pem_Type block \<noteq> ''PRIVATE KEY'' then Inl (path @ '' is not a key'')
           else ParsePKCS8PrivateKey e (pem_Bytes block))"

text \<open>Creating a file with the permissions 0600, and what is written to it.\<close>

definition withNewFile ::
  "pki_env \<Rightarrow> string \<Rightarrow> filesystem \<Rightarrow> (filesystem \<Rightarrow> filesystem \<times> goerr) \<Rightarrow> filesystem \<times> goerr" where
  "withNewFile e path fs body =
     (case osCreate e path fs of
        (fs1, Some err) \<Rightarrow> (fs1, errorsWrap (Some err) ''Failed to open'')
      | (fs1, None) \<Rightarrow>
          (case fileChmod e path filePerm fs1 of
             (fs2, Some err) \<Rightarrow> (fs2, errorsWrap (closing e path err) ''Failed to set file permissions'')
           | (fs2, None) \<Rightarrow> body fs2))"

definition SaveKey :: "pki_env \<Rightarrow> privkey \<Rightarrow> string \<Rightarrow> filesystem \<Rightarrow> filesystem \<times> goerr" where
  "SaveKey e key path fs =
     (case MarshalPKCS8PrivateKey e key of
        Inl err \<Rightarrow> (fs, errorsWrap (Some err) ''Failed to marshal key'')
      | Inr der \<Rightarrow>
          (case pem_Encode e \<lparr>pem_Type = ''PRIVATE KEY'', pem_Bytes = der\<rparr> of
             None \<Rightarrow> (fs, errorsWrap None ''Failed to encode key'')
           | Some data \<Rightarrow>
               withNewFile e path fs (\<lambda>fs2.
                 case fileWrite e path data fs2 of
                   (fs3, Some err) \<Rightarrow> (fs3, errorsWrap (closing e path err) ''Failed to write key to file'')
                 | (fs3, None) \<Rightarrow> (fs3, fileClose e path))))"

text \<open>The loop of \<open>LoadCerts\<close> runs while the decoder leaves data; \<open>None\<close> is a loop that does not end.\<close>

partial_function (option) loadCerts_loop ::
  "(string \<Rightarrow> pem_block option \<times> string) \<Rightarrow> (string \<Rightarrow> string + certificate) \<Rightarrow> string \<Rightarrow> certificate list \<Rightarrow>
   (string + certificate list) option" where
  "loadCerts_loop decode parse data certs =
     (if data = [] then Some (Inr certs)
      else case decode data of
        (None, _) \<Rightarrow> Some (Inl ''Failed to decode PEM block'')
      | (Some block, rest) \<Rightarrow>
          if pem_Type block \<noteq> ''CERTIFICATE'' then loadCerts_loop decode parse rest certs
          else
            (case parse (pem_Bytes block) of
               Inl err \<Rightarrow> Some (Inl (''Failed to parse certificate: '' @ err))
             | Inr cert \<Rightarrow> loadCerts_loop decode parse rest (certs @ [cert])))"

declare loadCerts_loop.simps [code]

definition LoadCerts :: "pki_env \<Rightarrow> string \<Rightarrow> filesystem \<Rightarrow> (string + certificate list) option" where
  "LoadCerts e path fs =
     (case readFileWithPerm e path filePerm fs of
        Inl err \<Rightarrow> Some (Inl err)
      | Inr data \<Rightarrow>
          map_option (\<lambda>r. tryE r (\<lambda>certs.
            if certs = [] then Inl ''Failed to load any certificates'' else Inr certs))
            (loadCerts_loop (pem_Decode e) (ParseCertificate e) data []))"

definition LoadCert :: "pki_env \<Rightarrow> string \<Rightarrow> filesystem \<Rightarrow> (string + certificate) option" where
  "LoadCert e path fs = map_option (\<lambda>r. tryE r (\<lambda>certs. Inr (hd certs))) (LoadCerts e path fs)"

fun saveCert_loop :: "pki_env \<Rightarrow> string \<Rightarrow> certificate list \<Rightarrow> filesystem \<Rightarrow> filesystem \<times> goerr" where
  "saveCert_loop e path [] fs = (fs, fileClose e path)"
| "saveCert_loop e path (cert # certs) fs =
     (case pem_Encode e \<lparr>pem_Type = ''CERTIFICATE'', pem_Bytes = x_Raw cert\<rparr> of
        None \<Rightarrow> (fs, errorsWrap (closing e path ''pem: cannot encode'') ''Failed to encode certificate to file'')
      | Some data \<Rightarrow>
          (case fileWrite e path data fs of
             (fs1, Some err) \<Rightarrow> (fs1, errorsWrap (closing e path err) ''Failed to encode certificate to file'')
           | (fs1, None) \<Rightarrow> saveCert_loop e path certs fs1))"

definition SaveCert :: "pki_env \<Rightarrow> string \<Rightarrow> certificate list \<Rightarrow> filesystem \<Rightarrow> filesystem \<times> goerr" where
  "SaveCert e path certs fs = withNewFile e path fs (saveCert_loop e path certs)"

section \<open>What the libraries promise\<close>

text \<open>
  Encoding a block gives data that the decoder reads back, leaving what follows it; marshalling a key is
  inverted by parsing; the raw bytes of a parsed certificate parse to that certificate.
\<close>

definition pem_types :: "string set" where
  "pem_types = {''PRIVATE KEY'', ''CERTIFICATE'', ''CERTIFICATE REQUEST''}"

definition pki_lawful :: "pki_env \<Rightarrow> bool" where
  "pki_lawful e \<longleftrightarrow>
     (\<forall>b. pem_Type b \<in> pem_types \<longrightarrow>
        (\<exists>d. pem_Encode e b = Some d \<and> d \<noteq> [] \<and> (\<forall>rest. pem_Decode e (d @ rest) = (Some b, rest)))) \<and>
     (\<forall>k der. MarshalPKCS8PrivateKey e k = Inr der \<longrightarrow> ParsePKCS8PrivateKey e der = Inr k) \<and>
     (\<forall>raw c. ParseCertificate e raw = Inr c \<longrightarrow> ParseCertificate e (x_Raw c) = Inr c) \<and>
     (\<forall>raw cs c. ParseCertificates e raw = Inr cs \<longrightarrow> c \<in> set cs \<longrightarrow> ParseCertificate e (x_Raw c) = Inr c)"

lemma lawful_pem:
  assumes "pki_lawful e" and "pem_Type b \<in> pem_types"
  obtains d where "pem_Encode e b = Some d" "d \<noteq> []" "\<And>rest. pem_Decode e (d @ rest) = (Some b, rest)"
  using assms by (auto simp: pki_lawful_def)

lemma lawful_key: "pki_lawful e \<Longrightarrow> MarshalPKCS8PrivateKey e k = Inr der \<Longrightarrow> ParsePKCS8PrivateKey e der = Inr k"
  by (simp add: pki_lawful_def)

lemma lawful_cert: "pki_lawful e \<Longrightarrow> ParseCertificate e raw = Inr c \<Longrightarrow> ParseCertificate e (x_Raw c) = Inr c"
  by (simp add: pki_lawful_def)

lemma lawful_certs:
  "pki_lawful e \<Longrightarrow> ParseCertificates e raw = Inr cs \<Longrightarrow> c \<in> set cs \<Longrightarrow> ParseCertificate e (x_Raw c) = Inr c"
  unfolding pki_lawful_def by blast

text \<open>The environment in which the operating system gives no error.\<close>

definition quiet :: "pki_env \<Rightarrow> pki_env" where
  "quiet e = e\<lparr>os_err := \<lambda>_ _. None\<rparr>"

lemma quiet_sel [simp]:
  "os_err (quiet e) op p = None" "pem_Decode (quiet e) = pem_Decode e" "pem_Encode (quiet e) = pem_Encode e"
  "ParseCertificate (quiet e) = ParseCertificate e" "ParseCertificates (quiet e) = ParseCertificates e"
  "ParsePKCS8PrivateKey (quiet e) = ParsePKCS8PrivateKey e"
  "MarshalPKCS8PrivateKey (quiet e) = MarshalPKCS8PrivateKey e" "signerPublic (quiet e) = signerPublic e"
  "MarshalPKIXPublicKey (quiet e) = MarshalPKIXPublicKey e" "CheckSignatureFrom (quiet e) = CheckSignatureFrom e"
  "timeNow (quiet e) = timeNow e"
  by (simp_all add: quiet_def)

lemma quiet_lawful [simp]: "pki_lawful (quiet e) = pki_lawful e"
  by (simp add: pki_lawful_def)

section \<open>Reading\<close>

lemma fileAt_setFile [simp]:
  "fileAt (setFile p f fs) q = (if filepathClean q = filepathClean p then Some f else fileAt fs q)"
  by (simp add: fileAt_def setFile_def)

lemma setFile_same [simp]: "setFile p f (setFile p g fs) = setFile p f fs"
  by (simp add: setFile_def)

lemma fileAt_clean [simp]: "fileAt fs (filepathClean p) = fileAt fs p"
  by (simp add: fileAt_def)

lemma fs_dirs_setFile [simp]: "fs_dirs (setFile p f fs) = fs_dirs fs"
  by (simp add: setFile_def)

definition readable :: "filesystem \<Rightarrow> string \<Rightarrow> string \<Rightarrow> bool" where
  "readable fs path data \<longleftrightarrow> fileAt fs path = Some \<lparr>f_perm = filePerm, f_data = data\<rparr> \<and>
     int (length data) \<le> 1024 * 1024"

lemma read_quiet: "readFileWithPerm (quiet e) path filePerm fs = Inr data \<longleftrightarrow> readable fs path data"
  by (auto simp: readFileWithPerm_def Let_def readable_def split: option.splits)

lemma read_readable: "readFileWithPerm e path filePerm fs = Inr data \<Longrightarrow> readable fs path data"
  by (auto simp: readFileWithPerm_def Let_def readable_def split: option.splits if_splits)

lemma read_quiet_of:
  "readFileWithPerm e path filePerm fs = Inr data \<Longrightarrow> readFileWithPerm (quiet e) path filePerm fs = Inr data"
  by (simp add: read_readable read_quiet)

lemma LoadKey_quiet:
  assumes "LoadKey e path fs = Inr k"
  shows "LoadKey (quiet e) path fs = Inr k"
proof -
  obtain d where d: "readFileWithPerm e path filePerm fs = Inr d"
    using assms by (auto simp: LoadKey_def tryE_Inr_iff)
  from assms show ?thesis
    by (auto simp: LoadKey_def d read_quiet_of [OF d] split: option.splits if_splits)
qed

lemma LoadCerts_quiet:
  assumes "LoadCerts e path fs = Some (Inr cs)"
  shows "LoadCerts (quiet e) path fs = Some (Inr cs)"
proof -
  obtain d where d: "readFileWithPerm e path filePerm fs = Inr d"
    using assms by (auto simp: LoadCerts_def split: sum.splits)
  from assms show ?thesis by (simp add: LoadCerts_def d read_quiet_of [OF d])
qed

lemma LoadCert_quiet: "LoadCert e path fs = Some (Inr c) \<Longrightarrow> LoadCert (quiet e) path fs = Some (Inr c)"
  using LoadCerts_quiet [of e path fs] by (auto simp: LoadCert_def tryE_Inr_iff)

section \<open>Writing\<close>

lemma withNewFile_ok:
  assumes "withNewFile e path fs body = (fs', None)"
  shows "body (setFile path \<lparr>f_perm = filePerm, f_data = []\<rparr> fs) = (fs', None)"
  using assms
  by (auto simp: withNewFile_def osCreate_def fileChmod_def closing_def split: option.splits)

lemma fileWrite_ok:
  assumes "fileWrite e path data (setFile path f fs) = (fs', None)"
  shows "fs' = setFile path (f\<lparr>f_data := f_data f @ data\<rparr>) fs"
  using assms by (auto simp: fileWrite_def split: option.splits)

lemma SaveKey_ok:
  assumes e: "pki_lawful e" and save: "SaveKey e key path fs = (fs', None)"
  obtains d where "fs' = setFile path \<lparr>f_perm = filePerm, f_data = d\<rparr> fs"
    and "int (length d) \<le> 1024 * 1024 \<Longrightarrow> LoadKey (quiet e) path fs' = Inr key"
proof -
  obtain der where der: "MarshalPKCS8PrivateKey e key = Inr der"
    using save by (cases "MarshalPKCS8PrivateKey e key") (auto simp: SaveKey_def)
  let ?b = "\<lparr>pem_Type = ''PRIVATE KEY'', pem_Bytes = der\<rparr>"
  obtain d where d: "pem_Encode e ?b = Some d" "\<And>rest. pem_Decode e (d @ rest) = (Some ?b, rest)"
    by (rule lawful_pem [OF e, of ?b]) (auto simp: pem_types_def)
  have "fs' = setFile path \<lparr>f_perm = filePerm, f_data = d\<rparr> fs"
    using save der d(1)
    by (auto simp: SaveKey_def closing_def dest!: withNewFile_ok split: prod.splits option.splits)
      (auto dest: fileWrite_ok)
  moreover have "LoadKey (quiet e) path fs' = Inr key" if "int (length d) \<le> 1024 * 1024"
  proof -
    have "readFileWithPerm (quiet e) path filePerm fs' = Inr d"
      using that calculation by (simp add: read_quiet readable_def)
    then show ?thesis using d(2) [of "[]"] lawful_key [OF e der] by (simp add: LoadKey_def)
  qed
  ultimately show thesis by (rule that)
qed

text \<open>The contents of a file of certificates.\<close>

definition certsData :: "pki_env \<Rightarrow> certificate list \<Rightarrow> string" where
  "certsData e certs =
     concat (map (\<lambda>c. the (pem_Encode e \<lparr>pem_Type = ''CERTIFICATE'', pem_Bytes = x_Raw c\<rparr>)) certs)"

lemma saveCert_loop_ok:
  assumes e: "pki_lawful e"
  shows "saveCert_loop e path certs (setFile path \<lparr>f_perm = p, f_data = x\<rparr> fs) = (fs', None) \<Longrightarrow>
    fs' = setFile path \<lparr>f_perm = p, f_data = x @ certsData e certs\<rparr> fs"
proof (induction certs arbitrary: x)
  case (Cons c certs)
  let ?b = "\<lparr>pem_Type = ''CERTIFICATE'', pem_Bytes = x_Raw c\<rparr>"
  obtain d where d: "pem_Encode e ?b = Some d" by (rule lawful_pem [OF e, of ?b]) (auto simp: pem_types_def)
  obtain fs1 er where w: "fileWrite e path d (setFile path \<lparr>f_perm = p, f_data = x\<rparr> fs) = (fs1, er)"
    by fastforce
  have "er = None" using Cons.prems d w by (auto simp: closing_def split: option.splits)
  with fileWrite_ok [of e path d "\<lparr>f_perm = p, f_data = x\<rparr>" fs fs1] w have "fs1 = setFile path \<lparr>f_perm = p, f_data = x @ d\<rparr> fs" by simp
  with Cons.IH [of "x @ d"] Cons.prems d w \<open>er = None\<close> show ?case by (simp add: certsData_def)
qed (simp add: certsData_def)

lemma loadCerts_loop_data:
  assumes e: "pki_lawful e" and certs: "\<forall>c\<in>set certs. ParseCertificate e (x_Raw c) = Inr c"
  shows "loadCerts_loop (pem_Decode e) (ParseCertificate e) (certsData e certs) acc = Some (Inr (acc @ certs))"
  using certs
proof (induction certs arbitrary: acc)
  case Nil
  show ?case by (subst loadCerts_loop.simps) (simp add: certsData_def)
next
  case (Cons c certs)
  let ?b = "\<lparr>pem_Type = ''CERTIFICATE'', pem_Bytes = x_Raw c\<rparr>"
  obtain d where d: "pem_Encode e ?b = Some d" "d \<noteq> []" "\<And>rest. pem_Decode e (d @ rest) = (Some ?b, rest)"
    by (rule lawful_pem [OF e, of ?b]) (auto simp: pem_types_def)
  have "certsData e (c # certs) = d @ certsData e certs" by (simp add: certsData_def d)
  with Cons d show ?case by (subst loadCerts_loop.simps) simp
qed

lemma SaveCert_ok:
  assumes e: "pki_lawful e" and save: "SaveCert e path certs fs = (fs', None)"
  shows "fs' = setFile path \<lparr>f_perm = filePerm, f_data = certsData e certs\<rparr> fs"
  using saveCert_loop_ok [OF e, of path certs filePerm "[]" fs fs'] withNewFile_ok [OF save [unfolded SaveCert_def]]
  by simp

lemma LoadCerts_data:
  assumes e: "pki_lawful e" and certs: "\<forall>c\<in>set certs. ParseCertificate e (x_Raw c) = Inr c" "certs \<noteq> []"
    and r: "readable fs path (certsData e certs)"
  shows "LoadCerts (quiet e) path fs = Some (Inr certs)"
    and "LoadCert (quiet e) path fs = Some (Inr (hd certs))"
  using read_quiet [of e path fs, THEN iffD2, OF r] loadCerts_loop_data [OF e certs(1), of "[]"] certs(2)
  by (simp_all add: LoadCerts_def LoadCert_def)

text \<open>A decoder that consumes data makes the loop of \<open>LoadCerts\<close> end, whatever is in the file.\<close>

lemma loadCerts_loop_ends:
  assumes "\<And>d b rest. decode d = (Some b, rest) \<Longrightarrow> length rest < length d"
  shows "\<exists>y. loadCerts_loop decode parse data certs = Some y"
proof (induction "length data" arbitrary: data certs rule: less_induct)
  case less
  obtain ob rest where dec: "decode data = (ob, rest)" by fastforce
  show ?case
  proof (cases ob)
    case (Some b)
    then have "length rest < length data" using assms dec by simp
    from less [OF this] dec Some show ?thesis
      by (subst loadCerts_loop.simps) (simp split: sum.split)
  qed (subst loadCerts_loop.simps, simp add: dec)
qed

text \<open>Files that are small enough to be read.\<close>

definition small_files :: "filesystem \<Rightarrow> bool" where
  "small_files fs \<longleftrightarrow> list_all (\<lambda>(p, f). int (length (f_data f)) \<le> 1024 * 1024) (fs_files fs)"

lemma small_filesD: "small_files fs \<Longrightarrow> fileAt fs p = Some f \<Longrightarrow> int (length (f_data f)) \<le> 1024 * 1024"
  by (auto simp: small_files_def fileAt_def list_all_iff dest: gm_get_mem)

lemma small_readable:
  "small_files fs \<Longrightarrow> fileAt fs p = Some \<lparr>f_perm = filePerm, f_data = d\<rparr> \<Longrightarrow> readable fs p d"
  using small_filesD [of fs p "\<lparr>f_perm = filePerm, f_data = d\<rparr>"] by (simp add: readable_def)

section \<open>An instance\<close>

text \<open>A code for blocks: a letter for the type, each byte after a 1, and a 0 at the end.\<close>

fun ex_bytes :: "string \<Rightarrow> string" where
  "ex_bytes [] = ''0''"
| "ex_bytes (c # cs) = CHR ''1'' # c # ex_bytes cs"

fun ex_unbytes :: "string \<Rightarrow> string \<times> string" where
  "ex_unbytes (a # b) =
     (if a = CHR ''0'' then ([], b)
      else case b of [] \<Rightarrow> ([], []) | c # r \<Rightarrow> (let (x, rest) = ex_unbytes r in (c # x, rest)))"
| "ex_unbytes [] = ([], [])"

definition ex_tag :: "string \<Rightarrow> char option" where
  "ex_tag t = (if t = ''PRIVATE KEY'' then Some (CHR ''K'') else if t = ''CERTIFICATE'' then Some (CHR ''C'')
     else if t = ''CERTIFICATE REQUEST'' then Some (CHR ''R'') else None)"

definition ex_encode :: "pem_block \<Rightarrow> string option" where
  "ex_encode b = map_option (\<lambda>t. t # ex_bytes (pem_Bytes b)) (ex_tag (pem_Type b))"

definition ex_decode :: "string \<Rightarrow> pem_block option \<times> string" where
  "ex_decode d = (case d of [] \<Rightarrow> (None, []) | t # r \<Rightarrow> (let (x, rest) = ex_unbytes r in
     (Some \<lparr>pem_Type = (if t = CHR ''K'' then ''PRIVATE KEY'' else if t = CHR ''C'' then ''CERTIFICATE''
        else ''CERTIFICATE REQUEST''), pem_Bytes = x\<rparr>, rest)))"

definition ex_cert :: "string \<Rightarrow> certificate" where
  "ex_cert raw = \<lparr>x_Raw = raw, x_RawSubjectPublicKeyInfo = [], x_Subject = \<lparr>pn_CommonName = [], pn_Organization = []\<rparr>,
     x_NotBefore = 0, x_NotAfter = 9, x_IsCA = True, x_KeyUsage = KeyUsageCertSign\<rparr>"

definition ex_pki :: pki_env where
  "ex_pki = \<lparr>os_err = (\<lambda>_ _. None), os_newPerm = 420, pem_Decode = ex_decode, pem_Encode = ex_encode,
     ParseCertificate = (\<lambda>raw. Inr (ex_cert raw)), ParseCertificates = (\<lambda>raw. Inr [ex_cert raw]),
     ParseCertificateRequest = (\<lambda>raw. Inr \<lparr>csr_Subject = \<lparr>pn_CommonName = raw, pn_Organization = []\<rparr>, csr_PublicKey = 1\<rparr>),
     ParsePKCS8PrivateKey = (\<lambda>der. Inr (length der)), MarshalPKCS8PrivateKey = (\<lambda>k. Inr (replicate k (CHR ''x''))),
     signerPublic = Some, MarshalPKIXPublicKey = (\<lambda>_. Inr []), GenerateKey = Inr 3,
     CreateCertificate = (\<lambda>t p pub k. Inr ''c''), CreateCertificateRequest = (\<lambda>k. Inr ''r''),
     CheckSignatureFrom = (\<lambda>_ _. None), timeNow = 5\<rparr>"

lemma ex_unbytes [simp]: "ex_unbytes (ex_bytes d @ rest) = (d, rest)"
  by (induction d) auto

lemma ex_pki_lawful: "pki_lawful ex_pki"
  by (auto simp: pki_lawful_def ex_pki_def pem_types_def ex_encode_def ex_decode_def ex_tag_def ex_cert_def)

lemma ex_unbytes_shrinks: "length (snd (ex_unbytes d)) \<le> length d"
  by (induction d rule: ex_unbytes.induct) (auto simp: Let_def split: list.split prod.split)

end
