(* ===== verification/Eaa_Pki.thy ===== *)
theory Eaa_Pki
  imports Auth_Pki
begin

text \<open>
  Certificates of the edge application agent (\<open>src/edgenode/pkg/eaa/pki_initialiser.go\<close>) with its
  configuration (\<open>config.go\<close>, \<open>api_auth_model.go\<close>): the root CA and the server certificate are loaded from
  their files or created, and signing requests of applications are signed with the root CA.

  A function that dereferences nil panics; one that loads certificates may not return, which is \<open>None\<close>.
  In \<open>CreateCertificate\<close> the parent \<open>None\<close> is the template itself.
\<close>

record CertsInfo =
  ci_CaRootKeyPath :: string
  ci_CaRootPath :: string
  ci_ServerCertPath :: string
  ci_ServerKeyPath :: string
  ci_CommonName :: string

record EaaConfig =
  ecfg_TLSEndpoint :: string
  ecfg_OpenEndpoint :: string
  ecfg_ValidationEndpoint :: string
  ecfg_HeartbeatInterval :: int
  ecfg_Certs :: CertsInfo

record AuthCredentials =
  ac_ID :: string
  ac_Certificate :: string
  ac_CaChain :: "string list"
  ac_CaPool :: "string list"

record AuthIdentity =
  ai_Csr :: string

record CertKeyPair =
  ckp_x509Cert :: certificate
  ckp_prvKey :: privkey

record Certs =
  certs_rca :: "CertKeyPair option"
  certs_eaa :: "CertKeyPair option"

definition createDir :: "pki_env \<Rightarrow> string \<Rightarrow> filesystem \<Rightarrow> filesystem \<times> goerr" where
  "createDir e filePath fs =
     (let basepath = filepathDir filePath
      in if basepath = [] then (fs, None)
         else case osMkdirAll e basepath 448 fs of
           (fs1, Some err) \<Rightarrow> (fs1, errorsWrap (Some err) ''Unable to create directory'')
         | (fs1, None) \<Rightarrow>
             (case osChmodDir e basepath 448 fs1 of
                (fs2, Some err) \<Rightarrow> (fs2, errorsWrap (Some err) ''Failed to set permissions on directory'')
              | (fs2, None) \<Rightarrow> (fs2, None)))"

definition validateCert :: "pki_env \<Rightarrow> certificate \<Rightarrow> goerr" where
  "validateCert e cert =
     (if timeNow e < x_NotBefore cert then Some ''Cartificate expired, valid from''
      else if timeNow e > x_NotAfter cert then Some ''Cartificate expired, valid to''
      else None)"

definition validateRCACert :: "pki_env \<Rightarrow> certificate \<Rightarrow> goerr" where
  "validateRCACert e cert = (if \<not> x_IsCA cert then Some ''loaded cert is not CA'' else validateCert e cert)"

text \<open>The pointer and the error that a Go function returns together.\<close>

type_synonym 'a ptr_err = "'a option \<times> goerr"

definition ptr_of :: "string + 'a \<Rightarrow> 'a ptr_err" where
  "ptr_of r = (case r of Inl err \<Rightarrow> (None, Some err) | Inr x \<Rightarrow> (Some x, None))"

definition threeYears :: int where "threeYears = 3 * 365 * 24 * 60 * 60"

definition generateRootCA :: "pki_env \<Rightarrow> privkey \<Rightarrow> certificate ptr_err" where
  "generateRootCA e key =
     (case signerPublic e key of
        None \<Rightarrow> (None, errorsWrap None ''unable to parse key'')
      | Some pub \<Rightarrow>
          (case CreateCertificate e
                  \<lparr>t_Subject = \<lparr>pn_CommonName = [], pn_Organization = [''Appliance Root CA Authority'']\<rparr>,
                   t_NotBefore = timeNow e - 15, t_NotAfter = timeNow e + threeYears, t_IsCA = True,
                   t_BasicConstraintsValid = True, t_KeyUsage = KeyUsageCertSign\<rparr>
                  None pub key of
             Inl err \<Rightarrow> (None, errorsWrap (Some err) ''unable to create CA certificate'')
           | Inr certDER \<Rightarrow> ptr_of (ParseCertificate e certDER)))"

text \<open>A key from its file, or a new one in a directory of its own; then the rest of the function.\<close>

definition loadOrCreateKey ::
  "pki_env \<Rightarrow> string \<Rightarrow> string \<Rightarrow> filesystem \<Rightarrow> filesystem \<times> (string + privkey)" where
  "loadOrCreateKey e path msg fs =
     (case LoadKey e path fs of
        Inr key \<Rightarrow> (fs, Inr key)
      | Inl _ \<Rightarrow>
          (case GenerateKey e of
             Inl err \<Rightarrow> (fs, Inl (msg @ '': '' @ err))
           | Inr key \<Rightarrow>
               (case createDir e path fs of
                  (fs1, Some err) \<Rightarrow> (fs1, Inl (''Unable to create directory: '' @ err))
                | (fs1, None) \<Rightarrow>
                    (case SaveKey e key path fs1 of
                       (fs2, Some err) \<Rightarrow> (fs2, Inl (''Unable to store CA key: '' @ err))
                     | (fs2, None) \<Rightarrow> (fs2, Inr key)))))"

text \<open>\<open>auth.SaveCert(path, cert)\<close> where \<open>cert\<close> may be nil: the file is created before its bytes are read.\<close>

definition saveNewCert ::
  "pki_env \<Rightarrow> string \<Rightarrow> string \<Rightarrow> certificate option \<Rightarrow> filesystem \<Rightarrow> (filesystem, certificate ptr_err) go" where
  "saveNewCert e path msg cert fs =
     (case createDir e path fs of
        (fs1, Some err) \<Rightarrow> Ret fs1 (None, errorsWrap (Some err) ''Unable to create directory'')
      | (fs1, None) \<Rightarrow>
          (case cert of
             None \<Rightarrow>
               (case withNewFile e path fs1 (\<lambda>fs2. (fs2, None)) of
                  (fs2, Some err) \<Rightarrow> Ret fs2 (None, errorsWrap (Some err) msg)
                | (fs2, None) \<Rightarrow> Panic fs2)
           | Some x \<Rightarrow>
               (case SaveCert e path [x] fs1 of
                  (fs2, Some err) \<Rightarrow> Ret fs2 (None, errorsWrap (Some err) msg)
                | (fs2, None) \<Rightarrow> Ret fs2 (Some x, None))))"

text \<open>The last step of \<open>InitRootCA\<close>: the certificate must hold the public key.\<close>

definition checkRootCA ::
  "pki_env \<Rightarrow> privkey \<Rightarrow> certificate \<Rightarrow> filesystem \<Rightarrow> (filesystem, CertKeyPair ptr_err) go" where
  "checkRootCA e key cert fs =
     (case signerPublic e key of
        None \<Rightarrow> Panic fs
      | Some pub \<Rightarrow>
          (case MarshalPKIXPublicKey e pub of
             Inl err \<Rightarrow> Ret fs (None, errorsWrap (Some err) ''unable to marshal public key'')
           | Inr certDER \<Rightarrow>
               if x_RawSubjectPublicKeyInfo cert \<noteq> certDER
               then Ret fs (None, errorsWrap None ''Verification of root ca failed!'')
               else Ret fs (Some \<lparr>ckp_x509Cert = cert, ckp_prvKey = key\<rparr>, None)))"

definition InitRootCA :: "pki_env \<Rightarrow> CertsInfo \<Rightarrow> filesystem \<Rightarrow> (filesystem, CertKeyPair ptr_err) go option" where
  "InitRootCA e certInfo fs =
     (case loadOrCreateKey e (ci_CaRootKeyPath certInfo) ''Unable to generate CA key'' fs of
        (fs1, Inl err) \<Rightarrow> Some (Ret fs1 (None, Some err))
      | (fs1, Inr key) \<Rightarrow>
          (case LoadCert e (ci_CaRootPath certInfo) fs1 of
             None \<Rightarrow> None
           | Some (Inr cert) \<Rightarrow>
               (case validateRCACert e cert of
                  Some err \<Rightarrow> Some (Ret fs1 (None, errorsWrap (Some err) ''CA cert validation failed''))
                | None \<Rightarrow> Some (checkRootCA e key cert fs1))
           | Some (Inl _) \<Rightarrow>
               (case generateRootCA e key of
                  (_, Some err) \<Rightarrow> Some (Ret fs1 (None, errorsWrap (Some err) ''unable to generate root CA''))
                | (cert, None) \<Rightarrow>
                    Some (go_bind
                      (saveNewCert e (ci_CaRootPath certInfo) ''unable to store CA certificate'' cert fs1)
                      (\<lambda>fs2 (saved, err).
                         case (saved, err) of
                           (Some x, None) \<Rightarrow> checkRootCA e key x fs2
                         | _ \<Rightarrow> Ret fs2 (None, err))))))"

definition generateEAACert ::
  "pki_env \<Rightarrow> certificate \<Rightarrow> privkey \<Rightarrow> privkey \<Rightarrow> string \<Rightarrow> (unit, certificate ptr_err) go" where
  "generateEAACert e rcaCert eaaPrivateKey rootCaKey commonName =
     (case signerPublic e eaaPrivateKey of
        None \<Rightarrow> Panic ()
      | Some pub \<Rightarrow>
          (case CreateCertificate e
                  \<lparr>t_Subject = \<lparr>pn_CommonName = commonName, pn_Organization = [''Appliance Authority'']\<rparr>,
                   t_NotBefore = timeNow e - 15, t_NotAfter = timeNow e + threeYears, t_IsCA = False,
                   t_BasicConstraintsValid = False, t_KeyUsage = KeyUsageDigitalSignature\<rparr>
                  (Some rcaCert) pub rootCaKey of
             Inl err \<Rightarrow> Ret () (None, errorsWrap (Some err) ''Unable to create EAA cert data'')
           | Inr der \<Rightarrow> Ret () (ptr_of (ParseCertificate e der))))"

definition InitEaaCert :: "pki_env \<Rightarrow> CertsInfo \<Rightarrow> filesystem \<Rightarrow> (filesystem, CertKeyPair ptr_err) go option" where
  "InitEaaCert e certInfo fs =
     (case LoadCert e (ci_CaRootPath certInfo) fs of
        None \<Rightarrow> None
      | Some (Inl err) \<Rightarrow> Some (Ret fs (None, Some (''Unable to load Root CA Cert: '' @ err)))
      | Some (Inr rootCaCert) \<Rightarrow>
          (case LoadKey e (ci_CaRootKeyPath certInfo) fs of
             Inl err \<Rightarrow> Some (Ret fs (None, Some (''Unable to load Root CA Private Key: '' @ err)))
           | Inr rootCaKey \<Rightarrow>
               (case loadOrCreateKey e (ci_ServerKeyPath certInfo) ''Unable to create EAA private key'' fs of
                  (fs1, Inl err) \<Rightarrow> Some (Ret fs1 (None, Some err))
                | (fs1, Inr eaaKey) \<Rightarrow>
                    (case LoadCert e (ci_ServerCertPath certInfo) fs1 of
                       None \<Rightarrow> None
                     | Some (Inr cert) \<Rightarrow>
                         (case validateCert e cert of
                            Some err \<Rightarrow> Some (Ret fs1 (None, errorsWrap (Some err) ''EAA cert validation failed''))
                          | None \<Rightarrow> Some (Ret fs1 (Some \<lparr>ckp_x509Cert = cert, ckp_prvKey = eaaKey\<rparr>, None)))
                     | Some (Inl _) \<Rightarrow>
                         (case generateEAACert e rootCaCert eaaKey rootCaKey (ci_CommonName certInfo) of
                            Panic _ \<Rightarrow> Some (Panic fs1)
                          | Ret _ (_, Some err) \<Rightarrow>
                              Some (Ret fs1 (None, errorsWrap (Some err) ''Unable to create directory''))
                          | Ret _ (cert, None) \<Rightarrow>
                              Some (go_bind
                                (saveNewCert e (ci_ServerCertPath certInfo) ''Unable to store EAA certificate'' cert fs1)
                                (\<lambda>fs2 (saved, err).
                                   case (saved, err) of
                                     (Some x, None) \<Rightarrow> Ret fs2 (Some \<lparr>ckp_x509Cert = x, ckp_prvKey = eaaKey\<rparr>, None)
                                   | _ \<Rightarrow> Ret fs2 (None, err))))))))"

definition SignCSR :: "pki_env \<Rightarrow> string \<Rightarrow> CertKeyPair option \<Rightarrow> (unit, string + certificate) go" where
  "SignCSR e csrPEM rca =
     (case fst (pem_Decode e csrPEM) of
        None \<Rightarrow> Ret () (Inl ''csr block cannot be decoded'')
      | Some block \<Rightarrow>
          if pem_Type block \<noteq> ''CERTIFICATE REQUEST''
          then Ret () (Inl (''csr block is not type of CERTIFICATE REQUEST but: '' @ pem_Type block))
          else
            (case ParseCertificateRequest e (pem_Bytes block) of
               Inl err \<Rightarrow> Ret () (Inl (''unable to parse CSR: '' @ err))
             | Inr csr \<Rightarrow>
                 (case rca of
                    None \<Rightarrow> Panic ()
                  | Some ca \<Rightarrow>
                      (case CreateCertificate e
                              \<lparr>t_Subject = csr_Subject csr, t_NotBefore = timeNow e,
                               t_NotAfter = x_NotAfter (ckp_x509Cert ca), t_IsCA = False,
                               t_BasicConstraintsValid = False, t_KeyUsage = 0\<rparr>
                              (Some (ckp_x509Cert ca)) (csr_PublicKey csr) (ckp_prvKey ca) of
                         Inl err \<Rightarrow> Ret () (Inl (''Unable to sign certificate from csr: '' @ err))
                       | Inr certDER \<Rightarrow> Ret () (ParseCertificate e certDER)))))"

end
