(* ===== verification/Eaa.thy ===== *)
theory Eaa
  imports Eaa_Pki
begin

text \<open>
  The edge application agent (\<open>src/edgenode/pkg/eaa\<close>): producers register services and publish
  notifications, consumers subscribe to the notifications of a namespace or of one service and receive
  them over a websocket.

  The maps \<open>serviceInfo\<close> and \<open>subscriptionInfo\<close>, which the code compares with nil, are \<open>None\<close> when nil.
  A subscriber list has one owner, its map entry, so a Go slice is a list; the one function that walks
  a slice while it shifts its elements (\<open>RemoveSubscriber\<close>) is modelled on the backing array. A
  \<open>ConsumerSubscription\<close> is held through a pointer that only its map entry keeps.
\<close>

section \<open>Data (eaa\_model.go, eaa\_subscription\_data.go, eaa\_websocket\_data.go)\<close>

record URN =
  urn_ID :: string
  urn_Namespace :: string

record NotificationDescriptor =
  nd_Name :: string
  nd_Version :: string
  nd_Description :: string

record NotificationFromProducer =
  np_Name :: string
  np_Version :: string
  np_Payload :: string

record NotificationToConsumer =
  nt_Name :: string
  nt_Version :: string
  nt_Payload :: string
  nt_URN :: URN

record Service =
  srv_URN :: "URN option"
  srv_Description :: string
  srv_EndpointURI :: string
  srv_Status :: string
  srv_Notifications :: "NotificationDescriptor slice"
  srv_Info :: string

record Subscription =
  sbn_URN :: URN
  sbn_Notifications :: "NotificationDescriptor list"

type_synonym SubscriberIds = "string list"

record ConsumerSubscription =
  cs_namespaceSubscriptions :: SubscriberIds
  cs_serviceSubscriptions :: "(string, SubscriberIds) gomap"
  cs_notification :: NotificationDescriptor

record UniqueNotif =
  un_namespace :: string
  un_notifName :: string
  un_notifVersion :: string

type_synonym NotificationSubscriptions = "(UniqueNotif, ConsumerSubscription) gomap"

text \<open>A websocket connection is known by a number the upgrade of the request gives it.\<close>

type_synonym wsconn = nat

record ConsumerConnection =
  connection :: "wsconn option"

record eaaContext =
  serviceInfo :: "(string, Service) gomap option"
  consumerConnections :: "(string, ConsumerConnection) gomap"
  subscriptionInfo :: "NotificationSubscriptions option"
  certsEaaCa :: Certs
  eaa_cfg :: EaaConfig

text \<open>
  \<open>RunServer\<close> up to the serving of requests: the context it serves, or the error it returns. A failure
  to read the certificate pool is only logged; the listener's error is an argument.
\<close>

definition eaaRunServer ::
  "pki_env \<Rightarrow> EaaConfig \<Rightarrow> goerr \<Rightarrow> filesystem \<Rightarrow> (filesystem, string + eaaContext) go option" where
  "eaaRunServer e cfg listen_err fs =
     Option.bind (InitRootCA e (ecfg_Certs cfg) fs) (\<lambda>g.
     case g of
       Panic fs1 \<Rightarrow> Some (Panic fs1)
     | Ret fs1 (rca, Some err) \<Rightarrow> Some (Ret fs1 (Inl err))
     | Ret fs1 (rca, None) \<Rightarrow>
         Option.bind (InitEaaCert e (ecfg_Certs cfg) fs1) (\<lambda>g.
         case g of
           Panic fs2 \<Rightarrow> Some (Panic fs2)
         | Ret fs2 (eaa, Some err) \<Rightarrow> Some (Ret fs2 (Inl err))
         | Ret fs2 (eaa, None) \<Rightarrow>
             (case listen_err of
                Some err \<Rightarrow> Some (Ret fs2 (Inl err))
              | None \<Rightarrow>
                  Some (Ret fs2 (Inr \<lparr>serviceInfo = Some [], consumerConnections = [], subscriptionInfo = Some [],
                    certsEaaCa = \<lparr>certs_rca = rca, certs_eaa = eaa\<rparr>, eaa_cfg = cfg\<rparr>)))))"

definition mkKey :: "string \<Rightarrow> NotificationDescriptor \<Rightarrow> UniqueNotif" where
  "mkKey namespace n = \<lparr>un_namespace = namespace, un_notifName = nd_Name n, un_notifVersion = nd_Version n\<rparr>"

section \<open>Names and lookup (common.go)\<close>

definition CommonNameStringToURN :: "string \<Rightarrow> string + URN" where
  "CommonNameStringToURN commonName =
     (case stringsSplitN2 (CHR '':'') commonName of
        [ns, i] \<Rightarrow> Inr \<lparr>urn_ID = i, urn_Namespace = ns\<rparr>
      | _ \<Rightarrow> Inl ''Cannot translate Common Name to URN'')"

text \<open>The index of the first occurrence, or -1.\<close>

fun indexFrom :: "int \<Rightarrow> string \<Rightarrow> SubscriberIds \<Rightarrow> int" where
  "indexFrom i x [] = -1"
| "indexFrom i x (y # ys) = (if y = x then i else indexFrom (i + 1) x ys)"

text \<open>A missing key is a nil pointer, whose fields cannot be read: \<open>None\<close> is the panic.\<close>

definition getNamespaceSubscriptionIndex ::
  "UniqueNotif \<Rightarrow> string \<Rightarrow> NotificationSubscriptions \<Rightarrow> int option" where
  "getNamespaceSubscriptionIndex key cid m =
     map_option (\<lambda>cs. indexFrom 0 cid (cs_namespaceSubscriptions cs)) (gm_get m key)"

definition serviceSubs :: "ConsumerSubscription \<Rightarrow> string \<Rightarrow> SubscriberIds" where
  "serviceSubs cs serviceID = (case gm_get (cs_serviceSubscriptions cs) serviceID of None \<Rightarrow> [] | Some l \<Rightarrow> l)"

definition getServiceSubscriptionIndex ::
  "UniqueNotif \<Rightarrow> string \<Rightarrow> string \<Rightarrow> NotificationSubscriptions \<Rightarrow> int option" where
  "getServiceSubscriptionIndex key serviceID consID m =
     map_option (\<lambda>cs. indexFrom 0 consID (serviceSubs cs serviceID)) (gm_get m key)"

text \<open>\<open>append(l[:index], l[index+1:]...)\<close>\<close>

definition cutAt :: "int \<Rightarrow> 'a list \<Rightarrow> 'a list" where
  "cutAt i l = take (nat i) l @ drop (nat i + 1) l"

section \<open>Subscriber lists (eaa\_subscription\_data.go)\<close>

text \<open>
  \<open>RemoveSubscriber\<close>. The \<open>range\<close> loop visits the indices of the slice as it was at the start, while the
  body shifts the elements in the backing array \<open>a\<close> and shortens the slice to its first \<open>n\<close> elements.
  The expression \<open>(*sI)[i+1:]\<close> panics (\<open>None\<close>) when the slice has become shorter than that.
\<close>

function removeSubscriber_loop ::
  "string \<Rightarrow> nat \<Rightarrow> SubscriberIds \<Rightarrow> nat \<Rightarrow> bool \<Rightarrow> (SubscriberIds \<times> bool) option" where
  "removeSubscriber_loop cn i a n changed =
     (if i < length a then
        if a ! i = cn then
          if i + 1 \<le> n
          then removeSubscriber_loop cn (i + 1) (take i a @ take (n - (i + 1)) (drop (i + 1) a) @ drop (n - 1) a)
                 (n - 1) True
          else None
        else removeSubscriber_loop cn (i + 1) a n changed
      else Some (take n a, changed))"
  by pat_completeness auto
termination
  by (relation "measure (\<lambda>(cn, i, a, n, ch). length a - i)") auto

declare removeSubscriber_loop.simps [simp del]

definition RemoveSubscriber :: "SubscriberIds \<Rightarrow> string \<Rightarrow> (SubscriberIds \<times> bool) option" where
  "RemoveSubscriber sI commonName = removeSubscriber_loop commonName 0 sI (length sI) False"

definition initNamespaceNotification ::
  "UniqueNotif \<Rightarrow> NotificationDescriptor \<Rightarrow> NotificationSubscriptions \<Rightarrow> NotificationSubscriptions" where
  "initNamespaceNotification key notif m =
     (case gm_get m key of
        Some _ \<Rightarrow> m
      | None \<Rightarrow> gm_put key \<lparr>cs_namespaceSubscriptions = [], cs_serviceSubscriptions = [],
                  cs_notification = notif\<rparr> m)"

definition initServiceNotification ::
  "UniqueNotif \<Rightarrow> string \<Rightarrow> NotificationDescriptor \<Rightarrow> NotificationSubscriptions \<Rightarrow> NotificationSubscriptions" where
  "initServiceNotification key serviceID notif m =
     (let m1 = initNamespaceNotification key notif m
      in case gm_get m1 key of
           None \<Rightarrow> m1
         | Some cs \<Rightarrow>
             (case gm_get (cs_serviceSubscriptions cs) serviceID of
                Some _ \<Rightarrow> m1
              | None \<Rightarrow> gm_put key (cs\<lparr>cs_serviceSubscriptions :=
                          gm_put serviceID [] (cs_serviceSubscriptions cs)\<rparr>) m1))"

text \<open>
  Adding to the list of a consumer: the notification goes to the first subscription with the URN, or a
  new subscription is appended. A namespace subscription has the empty identifier.
\<close>

fun addToList :: "URN \<Rightarrow> NotificationDescriptor \<Rightarrow> Subscription list \<Rightarrow> Subscription list" where
  "addToList u d [] = [\<lparr>sbn_URN = u, sbn_Notifications = [d]\<rparr>]"
| "addToList u d (s # ss) =
     (if urn_Namespace (sbn_URN s) = urn_Namespace u \<and> urn_ID (sbn_URN s) = urn_ID u
      then s\<lparr>sbn_Notifications := sbn_Notifications s @ [d]\<rparr> # ss
      else s # addToList u d ss)"

definition addNamespaceSubscriptionToList ::
  "UniqueNotif \<Rightarrow> ConsumerSubscription \<Rightarrow> Subscription list \<Rightarrow> Subscription list" where
  "addNamespaceSubscriptionToList nameNotif cs sL =
     addToList \<lparr>urn_ID = [], urn_Namespace = un_namespace nameNotif\<rparr> (cs_notification cs) sL"

definition addServiceSubscriptionToList ::
  "UniqueNotif \<Rightarrow> string \<Rightarrow> ConsumerSubscription \<Rightarrow> Subscription list \<Rightarrow> Subscription list" where
  "addServiceSubscriptionToList nameNotif srvID cs sL =
     addToList \<lparr>urn_ID = srvID, urn_Namespace = un_namespace nameNotif\<rparr> (cs_notification cs) sL"

section \<open>Subscriptions (api\_subscription.go)\<close>

fun addSubscriptionToNamespace_loop ::
  "string \<Rightarrow> string \<Rightarrow> NotificationDescriptor list \<Rightarrow> NotificationSubscriptions \<Rightarrow>
   (NotificationSubscriptions, unit) go" where
  "addSubscriptionToNamespace_loop cn ns [] m = Ret m ()"
| "addSubscriptionToNamespace_loop cn ns (n # notif) m =
     (let key = mkKey ns n;
          m1 = initNamespaceNotification key n m
      in case (getNamespaceSubscriptionIndex key cn m1, gm_get m1 key) of
           (Some index, Some cs) \<Rightarrow>
             addSubscriptionToNamespace_loop cn ns notif
               (if index = -1
                then gm_put key (cs\<lparr>cs_namespaceSubscriptions := cs_namespaceSubscriptions cs @ [cn]\<rparr>) m1
                else m1)
         | _ \<Rightarrow> Panic m1)"

fun removeSubscriptionToNamespace_loop ::
  "string \<Rightarrow> string \<Rightarrow> NotificationDescriptor list \<Rightarrow> NotificationSubscriptions \<Rightarrow>
   (NotificationSubscriptions, unit) go" where
  "removeSubscriptionToNamespace_loop cn ns [] m = Ret m ()"
| "removeSubscriptionToNamespace_loop cn ns (n # notif) m =
     (let key = mkKey ns n
      in case (gm_get m key, getNamespaceSubscriptionIndex key cn m) of
           (Some cs, Some index) \<Rightarrow>
             removeSubscriptionToNamespace_loop cn ns notif
               (if index \<noteq> -1
                then gm_put key (cs\<lparr>cs_namespaceSubscriptions := cutAt index (cs_namespaceSubscriptions cs)\<rparr>) m
                else m)
         | _ \<Rightarrow> removeSubscriptionToNamespace_loop cn ns notif m)"

fun addSubscriptionToService_loop ::
  "string \<Rightarrow> string \<Rightarrow> string \<Rightarrow> NotificationDescriptor list \<Rightarrow> NotificationSubscriptions \<Rightarrow>
   (NotificationSubscriptions, unit) go" where
  "addSubscriptionToService_loop cn ns sid [] m = Ret m ()"
| "addSubscriptionToService_loop cn ns sid (n # notif) m =
     (let key = mkKey ns n;
          m1 = initServiceNotification key sid n m
      in case (getServiceSubscriptionIndex key sid cn m1, gm_get m1 key) of
           (Some index, Some cs) \<Rightarrow>
             addSubscriptionToService_loop cn ns sid notif
               (if index \<noteq> -1 then m1
                else gm_put key (cs\<lparr>cs_serviceSubscriptions :=
                       gm_put sid (serviceSubs cs sid @ [cn]) (cs_serviceSubscriptions cs)\<rparr>) m1)
         | _ \<Rightarrow> Panic m1)"

fun removeSubscriptionToService_loop ::
  "string \<Rightarrow> string \<Rightarrow> string \<Rightarrow> NotificationDescriptor list \<Rightarrow> NotificationSubscriptions \<Rightarrow>
   (NotificationSubscriptions, unit) go" where
  "removeSubscriptionToService_loop cn ns sid [] m = Ret m ()"
| "removeSubscriptionToService_loop cn ns sid (n # notif) m =
     (let key = mkKey ns n
      in case gm_get m key of
           None \<Rightarrow> removeSubscriptionToService_loop cn ns sid notif m
         | Some cs \<Rightarrow>
             (case (gm_get (cs_serviceSubscriptions cs) sid, getServiceSubscriptionIndex key sid cn m) of
                (Some l, Some index) \<Rightarrow>
                  removeSubscriptionToService_loop cn ns sid notif
                    (if index \<noteq> -1
                     then gm_put key (cs\<lparr>cs_serviceSubscriptions :=
                            gm_put sid (cutAt index l) (cs_serviceSubscriptions cs)\<rparr>) m
                     else m)
              | _ \<Rightarrow> removeSubscriptionToService_loop cn ns sid notif m))"

text \<open>The loops of \<open>removeAllSubscriptions\<close> over the services of one entry, and over the entries.\<close>

fun removeAllServices ::
  "string \<Rightarrow> (string, SubscriberIds) gomap \<Rightarrow> (string, SubscriberIds) gomap \<Rightarrow>
   (string, SubscriberIds) gomap option" where
  "removeAllServices cn [] acc = Some acc"
| "removeAllServices cn ((srvID, ids) # rest) acc =
     (case RemoveSubscriber ids cn of
        None \<Rightarrow> None
      | Some (ids', isChanged) \<Rightarrow>
          removeAllServices cn rest (if isChanged then gm_put srvID ids' acc else acc))"

fun removeAllSubscriptions_loop ::
  "string \<Rightarrow> NotificationSubscriptions \<Rightarrow> NotificationSubscriptions \<Rightarrow> (NotificationSubscriptions, unit) go" where
  "removeAllSubscriptions_loop cn [] m = Ret m ()"
| "removeAllSubscriptions_loop cn ((key, cs) # rest) m =
     (case removeAllServices cn (cs_serviceSubscriptions cs) (cs_serviceSubscriptions cs) of
        None \<Rightarrow> Panic m
      | Some svcs \<Rightarrow>
          (case RemoveSubscriber (cs_namespaceSubscriptions cs) cn of
             None \<Rightarrow> Panic m
           | Some (ids, _) \<Rightarrow>
               removeAllSubscriptions_loop cn rest
                 (gm_put key (cs\<lparr>cs_serviceSubscriptions := svcs, cs_namespaceSubscriptions := ids\<rparr>) m)))"

text \<open>The common frame: a nil map is an internal error, and the loop gives the status.\<close>

definition withSubs ::
  "string \<Rightarrow> (NotificationSubscriptions \<Rightarrow> (NotificationSubscriptions, unit) go) \<Rightarrow> int \<Rightarrow> eaaContext \<Rightarrow>
   (eaaContext, int \<times> goerr) go" where
  "withSubs msg loop code c =
     (case subscriptionInfo c of
        None \<Rightarrow> Ret c (500, Some msg)
      | Some m \<Rightarrow>
          (case loop m of
             Ret m' _ \<Rightarrow> Ret (c\<lparr>subscriptionInfo := Some m'\<rparr>) (code, None)
           | Panic m' \<Rightarrow> Panic (c\<lparr>subscriptionInfo := Some m'\<rparr>)))"

definition addSubscriptionToNamespace ::
  "string \<Rightarrow> string \<Rightarrow> NotificationDescriptor list \<Rightarrow> eaaContext \<Rightarrow> (eaaContext, int \<times> goerr) go" where
  "addSubscriptionToNamespace commonName namespace notif =
     withSubs ''Eaa context not initialized. '' (addSubscriptionToNamespace_loop commonName namespace notif) 201"

definition removeSubscriptionToNamespace ::
  "string \<Rightarrow> string \<Rightarrow> NotificationDescriptor list \<Rightarrow> eaaContext \<Rightarrow> (eaaContext, int \<times> goerr) go" where
  "removeSubscriptionToNamespace commonName namespace notif =
     withSubs ''Eaa context not initialized. '' (removeSubscriptionToNamespace_loop commonName namespace notif) 204"

definition addSubscriptionToService ::
  "string \<Rightarrow> string \<Rightarrow> string \<Rightarrow> NotificationDescriptor list \<Rightarrow> eaaContext \<Rightarrow> (eaaContext, int \<times> goerr) go" where
  "addSubscriptionToService commonName namespace serviceID notif =
     withSubs ''Eaa context not intialized. '' (addSubscriptionToService_loop commonName namespace serviceID notif) 201"

definition removeSubscriptionToService ::
  "string \<Rightarrow> string \<Rightarrow> string \<Rightarrow> NotificationDescriptor list \<Rightarrow> eaaContext \<Rightarrow> (eaaContext, int \<times> goerr) go" where
  "removeSubscriptionToService commonName namespace serviceID notif =
     withSubs ''Eaa context not initialized. ''
       (removeSubscriptionToService_loop commonName namespace serviceID notif) 204"

definition removeAllSubscriptions :: "string \<Rightarrow> eaaContext \<Rightarrow> (eaaContext, int \<times> goerr) go" where
  "removeAllSubscriptions commonName =
     withSubs ''EAA context not initialized'' (\<lambda>m. removeAllSubscriptions_loop commonName m m) 204"

section \<open>Consumers (api\_consumer.go)\<close>

fun getConsumer_services ::
  "string \<Rightarrow> UniqueNotif \<Rightarrow> ConsumerSubscription \<Rightarrow> (string, SubscriberIds) gomap \<Rightarrow> Subscription list \<Rightarrow>
   Subscription list" where
  "getConsumer_services cn key cs [] subs = subs"
| "getConsumer_services cn key cs ((srvID, _) # rest) subs =
     getConsumer_services cn key cs rest
       (if indexFrom 0 cn (serviceSubs cs srvID) \<noteq> -1 then addServiceSubscriptionToList key srvID cs subs
        else subs)"

fun getConsumer_loop :: "string \<Rightarrow> NotificationSubscriptions \<Rightarrow> Subscription list \<Rightarrow> Subscription list" where
  "getConsumer_loop cn [] subs = subs"
| "getConsumer_loop cn ((key, cs) # rest) subs =
     getConsumer_loop cn rest
       (getConsumer_services cn key cs (cs_serviceSubscriptions cs)
         (if indexFrom 0 cn (cs_namespaceSubscriptions cs) \<noteq> -1 then addNamespaceSubscriptionToList key cs subs
          else subs))"

definition getConsumerSubscriptions :: "string \<Rightarrow> eaaContext \<Rightarrow> string + Subscription list" where
  "getConsumerSubscriptions commonName c =
     (case subscriptionInfo c of
        None \<Rightarrow> Inl ''EAA context not initialized''
      | Some m \<Rightarrow> Inr (getConsumer_loop commonName m []))"

text \<open>
  \<open>createWsConn\<close> up to the upgrade of the connection, and after it. When the consumer has an entry,
  a close message is written to its connection, which is nil (\<open>None\<close>) while an earlier request is
  still being upgraded, and the connection is closed; \<open>ws_panics\<close> says on which connections these
  calls of the websocket library panic. The outcome of the upgrade is the new connection or an error.
\<close>

definition createWsConn_begin ::
  "(wsconn option \<Rightarrow> bool) \<Rightarrow> string \<Rightarrow> eaaContext \<Rightarrow> (eaaContext, unit) go" where
  "createWsConn_begin ws_panics commonName c =
     (case gm_get (consumerConnections c) commonName of
        None \<Rightarrow>
          Ret (c\<lparr>consumerConnections := gm_put commonName \<lparr>connection = None\<rparr> (consumerConnections c)\<rparr>) ()
      | Some foundConn \<Rightarrow>
          if ws_panics (connection foundConn) then Panic c
          else Ret (c\<lparr>consumerConnections := gm_put commonName \<lparr>connection = None\<rparr>
                 (gm_del commonName (consumerConnections c))\<rparr>) ())"

definition createWsConn_end :: "string \<Rightarrow> string + wsconn \<Rightarrow> eaaContext \<Rightarrow> eaaContext \<times> int \<times> goerr" where
  "createWsConn_end commonName upgrade c =
     (case upgrade of
        Inl err \<Rightarrow> (c\<lparr>consumerConnections := gm_del commonName (consumerConnections c)\<rparr>, 0, Some err)
      | Inr conn \<Rightarrow>
          (c\<lparr>consumerConnections := gm_put commonName \<lparr>connection = Some conn\<rparr> (consumerConnections c)\<rparr>, 0, None))"

section \<open>Producers (api\_producer.go)\<close>

fun validServiceNotifications :: "NotificationDescriptor list \<Rightarrow> NotificationDescriptor slice" where
  "validServiceNotifications [] = None"
| "validServiceNotifications (n # ns) =
     (if nd_Name n = [] \<or> nd_Version n = [] then validServiceNotifications ns
      else Some (n # elems (validServiceNotifications ns)))"

definition addService :: "string \<Rightarrow> Service \<Rightarrow> eaaContext \<Rightarrow> eaaContext \<times> goerr" where
  "addService commonName serv c =
     (case serviceInfo c of
        None \<Rightarrow> (c, Some ''EAA context is not initialized. Call Init() function first'')
      | Some m \<Rightarrow>
          (case CommonNameStringToURN commonName of
             Inl _ \<Rightarrow> (c, Some ''Common name could not be parsed'')
           | Inr urn \<Rightarrow>
               (let serv1 = serv\<lparr>srv_URN := Some urn,
                      srv_Notifications :=
                        (case srv_Notifications serv of
                           None \<Rightarrow> None
                         | Some ns \<Rightarrow> validServiceNotifications ns)\<rparr>
                in (c\<lparr>serviceInfo := Some (gm_put commonName serv1 m)\<rparr>, None))))"

definition removeService :: "string \<Rightarrow> eaaContext \<Rightarrow> eaaContext \<times> int \<times> goerr" where
  "removeService commonName c =
     (case serviceInfo c of
        None \<Rightarrow> (c, 500, Some ''EAA context is not initialized. Call Init() function first'')
      | Some m \<Rightarrow>
          (case gm_get m commonName of
             Some _ \<Rightarrow> (c\<lparr>serviceInfo := Some (gm_del commonName m)\<rparr>, 204, None)
           | None \<Rightarrow> (c, 404, Some ''Not Found'')))"

fun getUniqueSubsList_loop :: "string list \<Rightarrow> string list \<Rightarrow> string list \<Rightarrow> string list" where
  "getUniqueSubsList_loop nsList [] fullList = fullList"
| "getUniqueSubsList_loop nsList (subID # rest) fullList =
     getUniqueSubsList_loop nsList rest
       (if list_ex (\<lambda>x. subID = x) nsList then fullList else fullList @ [subID])"

definition getUniqueSubsList :: "string list \<Rightarrow> string list \<Rightarrow> string list" where
  "getUniqueSubsList nsList servList = getUniqueSubsList_loop nsList servList nsList"

text \<open>
  \<open>sendNotificationToSubscriber\<close>: the connection the message is written to, or the error. For a
  consumer whose connection is still being created, \<open>waitForConnectionAssigned\<close> polls it until the
  deadline of one second; then the connection is read again. What is read depends on the other requests
  that run meanwhile: \<open>reads\<close> gives, for a subscriber, the connection that each poll sees, the last of
  them after the deadline, and the one that is read for the message. \<open>None\<close> is the panic of
  \<open>WriteMessage\<close> when that one is nil.
\<close>

fun waitForConnectionAssigned :: "wsconn option list \<Rightarrow> goerr" where
  "waitForConnectionAssigned [] = Some ''Timeout reached''"
| "waitForConnectionAssigned (p # ps) =
     (case p of Some _ \<Rightarrow> None | None \<Rightarrow> waitForConnectionAssigned ps)"

type_synonym ws_reads = "string \<Rightarrow> wsconn option list \<times> wsconn option"

definition sendNotificationToSubscriber ::
  "ws_reads \<Rightarrow> string \<Rightarrow> eaaContext \<Rightarrow> (string + wsconn) option" where
  "sendNotificationToSubscriber reads subID c =
     (case gm_get (consumerConnections c) subID of
        None \<Rightarrow> Some (Inl ''no websocket connection created by GET /notifications API'')
      | Some possibleConnection \<Rightarrow>
          (case (if Option.is_none (connection possibleConnection)
                 then waitForConnectionAssigned (fst (reads subID)) else None) of
             Some e \<Rightarrow> Some (Inl (''websocket isn't properly created: '' @ e))
           | None \<Rightarrow> (case snd (reads subID) of None \<Rightarrow> None | Some conn \<Rightarrow> Some (Inr conn))))"

text \<open>An attempt to notify: the subscriber, the connection or the error, the message.\<close>

type_synonym delivery = "string \<times> (string + wsconn) \<times> NotificationToConsumer"

text \<open>The loop over the subscribers: the attempts it made, and whether it came to its end.\<close>

fun notify_loop ::
  "ws_reads \<Rightarrow> NotificationToConsumer \<Rightarrow> eaaContext \<Rightarrow> string list \<Rightarrow> delivery list \<Rightarrow> delivery list \<times> bool" where
  "notify_loop reads msg c [] ds = (ds, True)"
| "notify_loop reads msg c (subID # subs) ds =
     (case sendNotificationToSubscriber reads subID c of
        None \<Rightarrow> (ds, False)
      | Some d \<Rightarrow> notify_loop reads msg c subs (ds @ [(subID, d, msg)]))"

text \<open>The status and the error, over the attempts that were made.\<close>

definition sendNotificationToAllSubscribers ::
  "ws_reads \<Rightarrow> string \<Rightarrow> NotificationFromProducer \<Rightarrow> eaaContext \<Rightarrow> (delivery list, int \<times> goerr) go" where
  "sendNotificationToAllSubscribers reads commonName notif c =
     (case serviceInfo c of
        None \<Rightarrow> Ret [] (500, Some ''EAA context is not initialized'')
      | Some svcs \<Rightarrow>
          (case CommonNameStringToURN commonName of
             Inl e \<Rightarrow> Ret [] (401, Some e)
           | Inr prodURN \<Rightarrow>
               (let msg = \<lparr>nt_Name = np_Name notif, nt_Version = np_Version notif,
                      nt_Payload = np_Payload notif, nt_URN = prodURN\<rparr>;
                    namespaceKey = \<lparr>un_namespace = urn_Namespace prodURN, un_notifName = np_Name notif,
                      un_notifVersion = np_Version notif\<rparr>
                in if gm_get svcs commonName = None then Ret [] (500, Some ''Producer is not registered'')
                   else case Option.bind (subscriptionInfo c) (\<lambda>m. gm_get m namespaceKey) of
                     None \<Rightarrow> Ret [] (202, None)
                   | Some info \<Rightarrow>
                       (let subscriberList =
                              (case gm_get (cs_serviceSubscriptions info) (urn_ID prodURN) of
                                 None \<Rightarrow> cs_namespaceSubscriptions info
                               | Some l \<Rightarrow> getUniqueSubsList (cs_namespaceSubscriptions info) l)
                        in case notify_loop reads msg c subscriberList [] of
                             (ds, True) \<Rightarrow> Ret ds (202, None)
                           | (ds, False) \<Rightarrow> Panic ds))))"

section \<open>HTTP handlers (api\_eaa.go, routers.go)\<close>

datatype eaa_body =
    BServices "Service list"
  | BSubscriptions "Subscription list"
  | BCredentials AuthCredentials

type_synonym eaa_writer = "eaa_body response_writer"

record eaa_request =
  er_CN :: string
  er_Host :: string
  er_namespace :: string
  er_id :: string
  er_service :: "Service rbody"
  er_notif :: "NotificationFromProducer rbody"
  er_subs :: "NotificationDescriptor list rbody"
  er_reads :: ws_reads
  er_ws_panics :: "wsconn option \<Rightarrow> bool"

definition jsonHeader :: "eaa_writer \<Rightarrow> eaa_writer" where
  "jsonHeader w = rwSet ''Content-Type'' jsonCT w"

text \<open>A body that cannot be read or decoded is an error of the decoder.\<close>

definition decoded :: "'a rbody \<Rightarrow> 'a option" where
  "decoded b = (case b of Decoded x \<Rightarrow> Some x | _ \<Rightarrow> None)"

definition DeregisterApplication :: "eaa_request \<Rightarrow> eaaContext \<Rightarrow> eaa_writer \<Rightarrow> (eaaContext, eaa_writer) go" where
  "DeregisterApplication r c w =
     (let (c', statCode, err) = removeService (er_CN r) c
      in Ret c' (rwWriteHeader statCode (jsonHeader w)))"

definition GetServices :: "eaaContext \<Rightarrow> eaa_writer \<Rightarrow> (eaaContext, eaa_writer) go" where
  "GetServices c w =
     (let w1 = rwWriteHeader 200 (jsonHeader w)
      in case serviceInfo c of
           None \<Rightarrow> Ret c (rwWriteHeader 500 w1)
         | Some m \<Rightarrow> Ret c (rwWrite (BServices (map snd m)) w1))"

definition GetSubscriptions :: "eaa_request \<Rightarrow> eaaContext \<Rightarrow> eaa_writer \<Rightarrow> (eaaContext, eaa_writer) go" where
  "GetSubscriptions r c w =
     (let w1 = rwWriteHeader 200 (jsonHeader w)
      in case getConsumerSubscriptions (er_CN r) c of
           Inl _ \<Rightarrow> Ret c (rwWriteHeader 500 w1)
         | Inr subs \<Rightarrow> Ret c (rwWrite (BSubscriptions subs) w1))"

text \<open>The attempts to notify are kept beside the state, also when the handler panics.\<close>

definition PushNotificationToSubscribers ::
  "eaa_request \<Rightarrow> eaaContext \<Rightarrow> eaa_writer \<Rightarrow> (eaaContext \<times> delivery list, eaa_writer) go" where
  "PushNotificationToSubscribers r c w =
     (case decoded (er_notif r) of
        None \<Rightarrow> Ret (c, []) (rwWriteHeader 500 (jsonHeader w))
      | Some notif \<Rightarrow>
          (case sendNotificationToAllSubscribers (er_reads r) (er_CN r) notif c of
             Panic ds \<Rightarrow> Panic (c, ds)
           | Ret ds (statCode, err) \<Rightarrow> Ret (c, ds) (rwWriteHeader statCode (jsonHeader w))))"

definition RegisterApplication :: "eaa_request \<Rightarrow> eaaContext \<Rightarrow> eaa_writer \<Rightarrow> (eaaContext, eaa_writer) go" where
  "RegisterApplication r c w =
     (case decoded (er_service r) of
        None \<Rightarrow> Ret c (rwWriteHeader 500 (jsonHeader w))
      | Some serv \<Rightarrow>
          (case addService (er_CN r) serv c of
             (c', Some e) \<Rightarrow> Ret c' (rwWriteHeader 500 (jsonHeader w))
           | (c', None) \<Rightarrow> Ret c' (rwWriteHeader 200 (jsonHeader w))))"

text \<open>The four handlers that decode a list of notifications and change the subscriptions.\<close>

definition changeSubscriptions ::
  "(NotificationDescriptor list \<Rightarrow> eaaContext \<Rightarrow> (eaaContext, int \<times> goerr) go) \<Rightarrow>
   eaa_request \<Rightarrow> eaaContext \<Rightarrow> eaa_writer \<Rightarrow> (eaaContext, eaa_writer) go" where
  "changeSubscriptions f r c w =
     (case decoded (er_subs r) of
        None \<Rightarrow> Ret c (rwWriteHeader 500 (jsonHeader w))
      | Some sub \<Rightarrow> go_bind (f sub c) (\<lambda>c' (statCode, err). Ret c' (rwWriteHeader statCode (jsonHeader w))))"

definition SubscribeNamespaceNotifications ::
  "eaa_request \<Rightarrow> eaaContext \<Rightarrow> eaa_writer \<Rightarrow> (eaaContext, eaa_writer) go" where
  "SubscribeNamespaceNotifications r = changeSubscriptions (addSubscriptionToNamespace (er_CN r) (er_namespace r)) r"

definition SubscribeServiceNotifications ::
  "eaa_request \<Rightarrow> eaaContext \<Rightarrow> eaa_writer \<Rightarrow> (eaaContext, eaa_writer) go" where
  "SubscribeServiceNotifications r =
     changeSubscriptions (addSubscriptionToService (er_CN r) (er_namespace r) (er_id r)) r"

definition UnsubscribeAllNotifications ::
  "eaa_request \<Rightarrow> eaaContext \<Rightarrow> eaa_writer \<Rightarrow> (eaaContext, eaa_writer) go" where
  "UnsubscribeAllNotifications r c w =
     go_bind (removeAllSubscriptions (er_CN r) c) (\<lambda>c' (statCode, err).
       Ret c' (rwWriteHeader statCode (jsonHeader w)))"

definition UnsubscribeNamespaceNotifications ::
  "eaa_request \<Rightarrow> eaaContext \<Rightarrow> eaa_writer \<Rightarrow> (eaaContext, eaa_writer) go" where
  "UnsubscribeNamespaceNotifications r =
     changeSubscriptions (removeSubscriptionToNamespace (er_CN r) (er_namespace r)) r"

definition UnsubscribeServiceNotifications ::
  "eaa_request \<Rightarrow> eaaContext \<Rightarrow> eaa_writer \<Rightarrow> (eaaContext, eaa_writer) go" where
  "UnsubscribeServiceNotifications r =
     changeSubscriptions (removeSubscriptionToService (er_CN r) (er_namespace r) (er_id r)) r"

text \<open>
  \<open>GetNotifications\<close> in two parts, around the upgrade. The check of \<open>serviceInfo\<close> does not end the
  request. The first part gives the writer, and whether the request goes on to the upgrade: it is
  refused when its host is not the name in the certificate.
\<close>

definition GetNotifications_begin ::
  "eaa_request \<Rightarrow> eaaContext \<Rightarrow> eaa_writer \<Rightarrow> (eaaContext, eaa_writer \<times> bool) go" where
  "GetNotifications_begin r c w =
     (let w1 = (if serviceInfo c = None then rwWriteHeader 500 (jsonHeader w) else w)
      in if er_CN r \<noteq> er_Host r then Ret c (rwWriteHeader 401 (jsonHeader w1), False)
         else go_bind (createWsConn_begin (er_ws_panics r) (er_CN r) c) (\<lambda>c' _. Ret c' (w1, True)))"

definition GetNotifications_end :: "eaa_request \<Rightarrow> string + wsconn \<Rightarrow> eaaContext \<Rightarrow> eaaContext" where
  "GetNotifications_end r upgrade c = fst (createWsConn_end (er_CN r) upgrade c)"

text \<open>
  \<open>RequestCredentials\<close> (api\_auth.go), served without client certificates on a port of its own. The
  request gives the remote address and what the lookup service of the virtualization agent answers for
  an IP address: the identifier of an application, which may be empty, or an error.
\<close>

record auth_request =
  ar_identity :: "AuthIdentity rbody"
  ar_RemoteAddr :: string
  ar_lookup :: "string \<Rightarrow> string + string"

definition validateAppIP :: "(string \<Rightarrow> string + string) \<Rightarrow> string \<Rightarrow> string + bool" where
  "validateAppIP lookup ipAddress = tryE (wrapE ''Cannot get App ID from EVA'' (lookup ipAddress)) (\<lambda>appID. Inr (appID \<noteq> []))"

definition RequestCredentials ::
  "pki_env \<Rightarrow> auth_request \<Rightarrow> eaaContext \<Rightarrow> eaa_writer \<Rightarrow> (eaaContext, eaa_writer) go" where
  "RequestCredentials e r c w =
     (let w1 = jsonHeader w
      in case decoded (ar_identity r) of
           None \<Rightarrow> Ret c (rwWriteHeader 500 w1)
         | Some identity \<Rightarrow>
             (case netSplitHostPort (ar_RemoteAddr r) of
                Inl _ \<Rightarrow> Ret c (rwWriteHeader 500 w1)
              | Inr (host, port) \<Rightarrow>
                  (case (if ecfg_ValidationEndpoint (eaa_cfg c) \<noteq> [] then validateAppIP (ar_lookup r) host else Inr True) of
                     Inl _ \<Rightarrow> Ret c (rwWriteHeader 500 w1)
                   | Inr False \<Rightarrow> Ret c (rwWriteHeader 401 w1)
                   | Inr True \<Rightarrow>
                       (case SignCSR e (ai_Csr identity) (certs_rca (certsEaaCa c)) of
                          Panic _ \<Rightarrow> Panic c
                        | Ret _ (Inl _) \<Rightarrow> Ret c (rwWriteHeader 500 w1)
                        | Ret _ (Inr cert) \<Rightarrow>
                            (case (pem_Encode e \<lparr>pem_Type = ''CERTIFICATE'', pem_Bytes = x_Raw cert\<rparr>,
                                   Option.bind (certs_rca (certsEaaCa c)) (\<lambda>rca.
                                     pem_Encode e \<lparr>pem_Type = ''CERTIFICATE'', pem_Bytes = x_Raw (ckp_x509Cert rca)\<rparr>)) of
                               (Some signedCertBlock, Some rcaBlock) \<Rightarrow>
                                 Ret c (rwWrite (BCredentials
                                   \<lparr>ac_ID = pn_CommonName (x_Subject cert), ac_Certificate = signedCertBlock,
                                    ac_CaChain = [rcaBlock], ac_CaPool = [rcaBlock]\<rparr>) w1)
                             | _ \<Rightarrow> Ret c w1)))))"

datatype eaa_route =
    RtDeregister | RtGetNotifications | RtGetServices | RtGetSubscriptions | RtPush | RtRegister
  | RtSubNamespace | RtSubService | RtUnsubAll | RtUnsubNamespace | RtUnsubService

definition eaaRoutes :: "(string \<times> string \<times> string \<times> eaa_route) list" where
  "eaaRoutes =
    [(''DeregisterApplication'', ''DELETE'', ''/services'', RtDeregister),
     (''GetNotifications'', ''GET'', ''/notifications'', RtGetNotifications),
     (''GetServices'', ''GET'', ''/services'', RtGetServices),
     (''GetSubscriptions'', ''GET'', ''/subscriptions'', RtGetSubscriptions),
     (''PushNotificationToSubscribers'', ''POST'', ''/notifications'', RtPush),
     (''RegisterApplication'', ''POST'', ''/services'', RtRegister),
     (''SubscribeNamespaceNotifications'', ''POST'', ''/subscriptions/{urn.namespace}'', RtSubNamespace),
     (''SubscribeServiceNotifications'', ''POST'', ''/subscriptions/{urn.namespace}/{urn.id}'', RtSubService),
     (''UnsubscribeAllNotifications'', ''DELETE'', ''/subscriptions'', RtUnsubAll),
     (''UnsubscribeNamespaceNotifications'', ''DELETE'', ''/subscriptions/{urn.namespace}'', RtUnsubNamespace),
     (''UnsubscribeServiceNotifications'', ''DELETE'', ''/subscriptions/{urn.namespace}/{urn.id}'', RtUnsubService)]"

text \<open>
  The response of a route and the state it leaves; the deliveries of a notification are left out, and
  the upgrade of a websocket is a step of its own.
\<close>

fun eaaServe :: "eaa_route \<Rightarrow> eaa_request \<Rightarrow> eaaContext \<Rightarrow> eaa_writer \<Rightarrow> (eaaContext, eaa_writer) go" where
  "eaaServe RtDeregister r c w = DeregisterApplication r c w"
| "eaaServe RtGetNotifications r c w = go_bind (GetNotifications_begin r c w) (\<lambda>c' (w', _). Ret c' w')"
| "eaaServe RtGetServices r c w = GetServices c w"
| "eaaServe RtGetSubscriptions r c w = GetSubscriptions r c w"
| "eaaServe RtPush r c w =
     (case PushNotificationToSubscribers r c w of
        Panic (c', ds) \<Rightarrow> Panic c'
      | Ret (c', ds) w' \<Rightarrow> Ret c' w')"
| "eaaServe RtRegister r c w = RegisterApplication r c w"
| "eaaServe RtSubNamespace r c w = SubscribeNamespaceNotifications r c w"
| "eaaServe RtSubService r c w = SubscribeServiceNotifications r c w"
| "eaaServe RtUnsubAll r c w = UnsubscribeAllNotifications r c w"
| "eaaServe RtUnsubNamespace r c w = UnsubscribeNamespaceNotifications r c w"
| "eaaServe RtUnsubService r c w = UnsubscribeServiceNotifications r c w"

inductive eaa_reach :: "eaaContext \<Rightarrow> bool" where
  start: "eaaRunServer e cfg listen_err fs = Some (Ret fs' (Inr c)) \<Longrightarrow> eaa_reach c"
| serve: "eaa_reach c \<Longrightarrow> eaa_reach (go_state (eaaServe h r c rw_new))"
| upgrade: "eaa_reach c \<Longrightarrow> eaa_reach (GetNotifications_end r u c)"
| credentials: "eaa_reach c \<Longrightarrow> eaa_reach (go_state (RequestCredentials e ar c rw_new))"

end
