(* ===== verification/Eaa_Subscriptions.thy ===== *)
theory Eaa_Subscriptions
  imports Eaa
begin

text \<open>
  The subscriptions of the edge application agent. \<open>subs_ok\<close> is the invariant of the map: every list of
  subscribers is free of repetitions and every entry describes the notification it is stored under.
  \<open>subscribed\<close> is the abstract view: which consumer has subscribed to which notification, of a namespace
  (\<open>None\<close>) or of one service. Each operation is shown to keep the invariant, to return, and to change
  the view by exactly the subscriptions it names.
\<close>

section \<open>Removing from a slice while walking it\<close>

lemma removeSubscriber_none:
  assumes "\<And>j. i \<le> j \<Longrightarrow> j < length a \<Longrightarrow> a ! j \<noteq> cn"
  shows "removeSubscriber_loop cn i a n ch = Some (take n a, ch)"
  using assms
proof (induction "length a - i" arbitrary: i)
  case 0
  then show ?case by (subst removeSubscriber_loop.simps) simp
next
  case (Suc d)
  then have "i < length a" "a ! i \<noteq> cn" by auto
  moreover have "removeSubscriber_loop cn (i + 1) a n ch = Some (take n a, ch)"
    by (rule Suc.hyps(1)) (use Suc.hyps(2) Suc.prems in auto)
  ultimately show ?case by (subst removeSubscriber_loop.simps) simp
qed

lemma removeSubscriber_at:
  assumes p: "p < length a" "a ! p = cn" and rest: "cn \<notin> set (drop (p + 1) a)"
  shows "removeSubscriber_loop cn p a (length a) ch = Some (take p a @ drop (p + 1) a, True)"
proof -
  define b where "b = take p a @ drop (p + 1) a @ drop (length a - 1) a"
  have len: "length b = length a" using p by (simp add: b_def)
  have "b ! j \<noteq> cn" if j: "p + 1 \<le> j" "j < length b" for j
  proof -
    have "b ! j = (drop (p + 1) a @ drop (length a - 1) a) ! (j - p)"
      using j p by (simp add: b_def nth_append min_def)
    moreover have "j - p < length (drop (p + 1) a @ drop (length a - 1) a)"
      using j p len by simp
    ultimately have "b ! j \<in> set (drop (p + 1) a @ drop (length a - 1) a)" by (simp only: nth_mem)
    moreover have "set (drop (length a - 1) a) \<subseteq> set (drop (p + 1) a)"
      using j len by (intro set_drop_subset_set_drop) simp
    ultimately show ?thesis using rest by auto
  qed
  then have "removeSubscriber_loop cn (p + 1) b (length a - 1) True = Some (take (length a - 1) b, True)"
    by (rule removeSubscriber_none)
  moreover have "take (length a - 1) b = take p a @ drop (p + 1) a"
    using p by (simp add: b_def)
  moreover have "take (length a - (p + 1)) (drop (p + 1) a) = drop (p + 1) a" by simp
  ultimately show ?thesis
    using p by (subst removeSubscriber_loop.simps) (simp add: b_def)
qed

lemma removeSubscriber_skip:
  assumes "p < length a" "\<And>j. i \<le> j \<Longrightarrow> j < p \<Longrightarrow> a ! j \<noteq> cn" "i \<le> p"
  shows "removeSubscriber_loop cn i a n ch = removeSubscriber_loop cn p a n ch"
  using assms
proof (induction "p - i" arbitrary: i)
  case (Suc d)
  then have "i < length a" "a ! i \<noteq> cn" by auto
  then have "removeSubscriber_loop cn i a n ch = removeSubscriber_loop cn (i + 1) a n ch"
    by (subst removeSubscriber_loop.simps) simp
  also have "\<dots> = removeSubscriber_loop cn p a n ch"
    by (rule Suc.hyps(1)) (use Suc.hyps(2) Suc.prems in auto)
  finally show ?case .
qed simp

lemma RemoveSubscriber_distinct:
  assumes "distinct l"
  shows "RemoveSubscriber l cn = Some (remove1 cn l, cn \<in> set l)"
proof (cases "cn \<in> set l")
  case True
  then obtain ys zs where l: "l = ys @ cn # zs" and ys: "cn \<notin> set ys" by (meson split_list_first)
  with assms have zs: "cn \<notin> set zs" by simp
  have "removeSubscriber_loop cn 0 l (length l) False = removeSubscriber_loop cn (length ys) l (length l) False"
    by (rule removeSubscriber_skip) (use l ys in \<open>auto simp: nth_append\<close>)
  also have "\<dots> = Some (take (length ys) l @ drop (length ys + 1) l, True)"
    by (rule removeSubscriber_at) (use l zs in simp_all)
  finally show ?thesis using l ys by (simp add: RemoveSubscriber_def remove1_append)
next
  case False
  then have "removeSubscriber_loop cn 0 l (length l) False = Some (take (length l) l, False)"
    by (intro removeSubscriber_none) auto
  with False show ?thesis by (simp add: RemoveSubscriber_def remove1_idem)
qed

text \<open>Cutting at the index a search has found removes the element.\<close>

lemma indexFrom_ge: "0 \<le> i \<Longrightarrow> -1 \<le> indexFrom i x l"
  by (induction l arbitrary: i) simp_all

lemma indexFrom_none: "0 \<le> i \<Longrightarrow> indexFrom i x l = -1 \<longleftrightarrow> x \<notin> set l"
  by (induction l arbitrary: i) auto

lemma indexFrom_shift: "0 \<le> i \<Longrightarrow> x \<in> set l \<Longrightarrow> indexFrom i x l = i + indexFrom 0 x l"
proof (induction l arbitrary: i)
  case (Cons y l)
  show ?case
  proof (cases "y = x")
    case False
    with Cons.prems have x: "x \<in> set l" by simp
    have "indexFrom (i + 1) x l = i + 1 + indexFrom 0 x l" by (rule Cons.IH) (use Cons.prems x in simp_all)
    moreover have "indexFrom 1 x l = 1 + indexFrom 0 x l" by (rule Cons.IH) (use x in simp_all)
    ultimately show ?thesis using False by simp
  qed simp
qed simp

lemma cutAt_index: "x \<in> set l \<Longrightarrow> cutAt (indexFrom 0 x l) l = remove1 x l"
proof (induction l)
  case (Cons y l)
  show ?case
  proof (cases "y = x")
    case False
    with Cons.prems have x: "x \<in> set l" by simp
    then have "0 \<le> indexFrom 0 x l"
      using indexFrom_ge [of 0 x l] indexFrom_none [of 0 x l] by linarith
    moreover have "indexFrom 1 x l = 1 + indexFrom 0 x l" by (rule indexFrom_shift) (use x in simp_all)
    ultimately have "nat (indexFrom 1 x l) = Suc (nat (indexFrom 0 x l))" by linarith
    with False Cons.IH [OF x] show ?thesis by (simp add: cutAt_def)
  qed (simp add: cutAt_def)
qed simp

section \<open>The invariant and the abstract view\<close>

definition cs_ok :: "UniqueNotif \<Rightarrow> ConsumerSubscription \<Rightarrow> bool" where
  "cs_ok k cs \<longleftrightarrow>
     distinct (cs_namespaceSubscriptions cs) \<and> gm_ok (cs_serviceSubscriptions cs) \<and>
     (\<forall>sid. distinct (serviceSubs cs sid)) \<and>
     nd_Name (cs_notification cs) = un_notifName k \<and> nd_Version (cs_notification cs) = un_notifVersion k"

definition subs_ok :: "NotificationSubscriptions \<Rightarrow> bool" where
  "subs_ok m \<longleftrightarrow> gm_ok m \<and> (\<forall>k cs. gm_get m k = Some cs \<longrightarrow> cs_ok k cs)"

definition csSubs :: "ConsumerSubscription \<Rightarrow> string option \<Rightarrow> SubscriberIds" where
  "csSubs cs t = (case t of None \<Rightarrow> cs_namespaceSubscriptions cs | Some sid \<Rightarrow> serviceSubs cs sid)"

definition subscribed :: "NotificationSubscriptions \<Rightarrow> string \<Rightarrow> UniqueNotif \<Rightarrow> string option \<Rightarrow> bool" where
  "subscribed m x k t = (case gm_get m k of None \<Rightarrow> False | Some cs \<Rightarrow> x \<in> set (csSubs cs t))"

lemma csSubs_simps [simp]:
  "csSubs cs None = cs_namespaceSubscriptions cs" "csSubs cs (Some sid) = serviceSubs cs sid"
  by (simp_all add: csSubs_def)

lemma serviceSubs_update [simp]:
  "serviceSubs (cs\<lparr>cs_namespaceSubscriptions := l\<rparr>) sid = serviceSubs cs sid"
  "serviceSubs (cs\<lparr>cs_serviceSubscriptions := gm_put sid' l (cs_serviceSubscriptions cs)\<rparr>) sid =
     (if sid = sid' then l else serviceSubs cs sid)"
  by (simp_all add: serviceSubs_def)

lemma subs_okD: "subs_ok m \<Longrightarrow> gm_get m k = Some cs \<Longrightarrow> cs_ok k cs"
  by (simp add: subs_ok_def)

lemma subs_ok_put: "subs_ok m \<Longrightarrow> cs_ok k cs \<Longrightarrow> subs_ok (gm_put k cs m)"
  by (simp add: subs_ok_def)

lemma cs_ok_ns: "cs_ok k cs \<Longrightarrow> distinct l \<Longrightarrow> cs_ok k (cs\<lparr>cs_namespaceSubscriptions := l\<rparr>)"
  by (simp add: cs_ok_def)

lemma cs_ok_srv:
  "cs_ok k cs \<Longrightarrow> distinct l \<Longrightarrow>
   cs_ok k (cs\<lparr>cs_serviceSubscriptions := gm_put sid l (cs_serviceSubscriptions cs)\<rparr>)"
  by (simp add: cs_ok_def)

lemma mkKey_sel [simp]:
  "un_namespace (mkKey ns n) = ns" "un_notifName (mkKey ns n) = nd_Name n"
  "un_notifVersion (mkKey ns n) = nd_Version n"
  by (simp_all add: mkKey_def)

text \<open>What the initialisation of an entry gives.\<close>

lemma initNs_facts:
  fixes n :: NotificationDescriptor and ns :: string
  assumes "subs_ok m"
  defines "m1 \<equiv> initNamespaceNotification (mkKey ns n) n m"
  shows "subs_ok m1" and "subscribed m1 = subscribed m" and "\<exists>cs. gm_get m1 (mkKey ns n) = Some cs"
  using assms(1) unfolding m1_def
  by (auto simp: initNamespaceNotification_def subs_ok_def cs_ok_def subscribed_def serviceSubs_def fun_eq_iff
      csSubs_def split: option.splits)

lemma initSrv_facts:
  fixes n :: NotificationDescriptor and ns sid :: string
  assumes "subs_ok m"
  defines "m1 \<equiv> initServiceNotification (mkKey ns n) sid n m"
  shows "subs_ok m1" and "subscribed m1 = subscribed m" and "\<exists>cs. gm_get m1 (mkKey ns n) = Some cs"
proof -
  define m0 where "m0 = initNamespaceNotification (mkKey ns n) n m"
  note f = initNs_facts [OF assms(1), of ns n, folded m0_def]
  obtain cs where cs: "gm_get m0 (mkKey ns n) = Some cs" using f(3) by blast
  let ?cs = "cs\<lparr>cs_serviceSubscriptions := gm_put sid [] (cs_serviceSubscriptions cs)\<rparr>"
  have m1: "m1 = (case gm_get (cs_serviceSubscriptions cs) sid of
      Some _ \<Rightarrow> m0 | None \<Rightarrow> gm_put (mkKey ns n) ?cs m0)"
    by (simp add: m1_def initServiceNotification_def m0_def [symmetric] cs)
  have ok: "cs_ok (mkKey ns n) ?cs" by (rule cs_ok_srv [OF subs_okD [OF f(1) cs]]) simp
  show "subs_ok m1" using f(1) subs_ok_put [OF f(1) ok] by (simp add: m1 split: option.split)
  show "subscribed m1 = subscribed m"
  proof (cases "gm_get (cs_serviceSubscriptions cs) sid")
    case None
    then have "serviceSubs cs sid = []" by (simp add: serviceSubs_def)
    with cs have "subscribed m1 = subscribed m0"
      by (auto simp: m1 None subscribed_def fun_eq_iff csSubs_def split: option.splits)
    with f(2) show ?thesis by simp
  qed (simp add: m1 f(2))
  show "\<exists>cs. gm_get m1 (mkKey ns n) = Some cs" using cs by (simp add: m1 split: option.split)
qed

section \<open>The loops\<close>

text \<open>The loop returns a well-formed map with the view \<open>A\<close>.\<close>

definition loop_ok ::
  "(NotificationSubscriptions, unit) go \<Rightarrow> (string \<Rightarrow> UniqueNotif \<Rightarrow> string option \<Rightarrow> bool) \<Rightarrow> bool" where
  "loop_ok g A \<longleftrightarrow> (\<exists>m'. g = Ret m' () \<and> subs_ok m' \<and> subscribed m' = A)"

lemma loop_ok_cong: "loop_ok g A \<Longrightarrow> A = B \<Longrightarrow> loop_ok g B"
  by simp

lemma loop_ok_Ret: "subs_ok m \<Longrightarrow> loop_ok (Ret m ()) (subscribed m)"
  by (simp add: loop_ok_def)

lemma addNs_ok:
  "subs_ok m \<Longrightarrow> loop_ok (addSubscriptionToNamespace_loop cn ns notif m)
     (\<lambda>x k t. subscribed m x k t \<or> x = cn \<and> t = None \<and> k \<in> mkKey ns ` set notif)"
proof (induction notif arbitrary: m)
  case (Cons n notif)
  define m1 where "m1 = initNamespaceNotification (mkKey ns n) n m"
  note f = initNs_facts [OF Cons.prems, of ns n, folded m1_def]
  obtain cs where cs: "gm_get m1 (mkKey ns n) = Some cs" using f(3) by blast
  define m2 where "m2 = (if cn \<in> set (cs_namespaceSubscriptions cs) then m1 else
    gm_put (mkKey ns n) (cs\<lparr>cs_namespaceSubscriptions := cs_namespaceSubscriptions cs @ [cn]\<rparr>) m1)"
  have ok: "subs_ok m2"
    using f(1) subs_okD [OF f(1) cs]
    by (auto simp: m2_def cs_ok_def intro!: subs_ok_put cs_ok_ns)
  have step: "addSubscriptionToNamespace_loop cn ns (n # notif) m = addSubscriptionToNamespace_loop cn ns notif m2"
    by (simp add: m1_def [symmetric] Let_def getNamespaceSubscriptionIndex_def cs indexFrom_none m2_def)
  have sb: "subscribed m2 x k t \<longleftrightarrow> subscribed m1 x k t \<or> x = cn \<and> t = None \<and> k = mkKey ns n" for x k t
    using cs by (auto simp: m2_def subscribed_def csSubs_def split: option.splits)
  show ?case
    unfolding step by (rule loop_ok_cong [OF Cons.IH [OF ok]]) (auto simp: fun_eq_iff sb f(2))
qed (simp add: loop_ok_Ret)

lemma remNs_ok:
  "subs_ok m \<Longrightarrow> loop_ok (removeSubscriptionToNamespace_loop cn ns notif m)
     (\<lambda>x k t. subscribed m x k t \<and> \<not> (x = cn \<and> t = None \<and> k \<in> mkKey ns ` set notif))"
proof (induction notif arbitrary: m)
  case (Cons n notif)
  let ?k = "mkKey ns n"
  define m2 where "m2 = (case gm_get m ?k of None \<Rightarrow> m | Some cs \<Rightarrow>
    if cn \<in> set (cs_namespaceSubscriptions cs)
    then gm_put ?k (cs\<lparr>cs_namespaceSubscriptions := remove1 cn (cs_namespaceSubscriptions cs)\<rparr>) m else m)"
  have ok: "subs_ok m2"
    using Cons.prems
    by (auto simp: m2_def split: option.split dest: subs_okD intro!: subs_ok_put cs_ok_ns simp: cs_ok_def)
  have step: "removeSubscriptionToNamespace_loop cn ns (n # notif) m =
    removeSubscriptionToNamespace_loop cn ns notif m2"
    by (simp add: Let_def getNamespaceSubscriptionIndex_def indexFrom_none m2_def cutAt_index split: option.split)
  have sb: "subscribed m2 x k t \<longleftrightarrow> subscribed m x k t \<and> \<not> (x = cn \<and> t = None \<and> k = ?k)" for x k t
    using subs_okD [OF Cons.prems]
    by (auto simp: m2_def subscribed_def csSubs_def cs_ok_def split: option.splits)
  show ?case
    unfolding step by (rule loop_ok_cong [OF Cons.IH [OF ok]]) (auto simp: fun_eq_iff sb)
qed (simp add: loop_ok_Ret)

lemma addSrv_ok:
  "subs_ok m \<Longrightarrow> loop_ok (addSubscriptionToService_loop cn ns sid notif m)
     (\<lambda>x k t. subscribed m x k t \<or> x = cn \<and> t = Some sid \<and> k \<in> mkKey ns ` set notif)"
proof (induction notif arbitrary: m)
  case (Cons n notif)
  define m1 where "m1 = initServiceNotification (mkKey ns n) sid n m"
  note f = initSrv_facts [OF Cons.prems, of ns n sid, folded m1_def]
  obtain cs where cs: "gm_get m1 (mkKey ns n) = Some cs" using f(3) by blast
  define m2 where "m2 = (if cn \<in> set (serviceSubs cs sid) then m1 else
    gm_put (mkKey ns n) (cs\<lparr>cs_serviceSubscriptions :=
      gm_put sid (serviceSubs cs sid @ [cn]) (cs_serviceSubscriptions cs)\<rparr>) m1)"
  have ok: "subs_ok m2"
    using f(1) subs_okD [OF f(1) cs]
    by (auto simp: m2_def cs_ok_def intro!: subs_ok_put cs_ok_srv)
  have step: "addSubscriptionToService_loop cn ns sid (n # notif) m =
    addSubscriptionToService_loop cn ns sid notif m2"
    by (simp add: m1_def [symmetric] Let_def getServiceSubscriptionIndex_def cs indexFrom_none m2_def)
  have sb: "subscribed m2 x k t \<longleftrightarrow> subscribed m1 x k t \<or> x = cn \<and> t = Some sid \<and> k = mkKey ns n" for x k t
    using cs by (auto simp: m2_def subscribed_def csSubs_def split: option.splits if_splits)
  show ?case
    unfolding step by (rule loop_ok_cong [OF Cons.IH [OF ok]]) (auto simp: fun_eq_iff sb f(2))
qed (simp add: loop_ok_Ret)

lemma remSrv_ok:
  "subs_ok m \<Longrightarrow> loop_ok (removeSubscriptionToService_loop cn ns sid notif m)
     (\<lambda>x k t. subscribed m x k t \<and> \<not> (x = cn \<and> t = Some sid \<and> k \<in> mkKey ns ` set notif))"
proof (induction notif arbitrary: m)
  case (Cons n notif)
  let ?k = "mkKey ns n"
  define m2 where "m2 = (case gm_get m ?k of None \<Rightarrow> m | Some cs \<Rightarrow>
    if cn \<in> set (serviceSubs cs sid)
    then gm_put ?k (cs\<lparr>cs_serviceSubscriptions :=
      gm_put sid (remove1 cn (serviceSubs cs sid)) (cs_serviceSubscriptions cs)\<rparr>) m else m)"
  have ok: "subs_ok m2"
    using Cons.prems
    by (auto simp: m2_def split: option.split dest: subs_okD intro!: subs_ok_put cs_ok_srv simp: cs_ok_def)
  have step: "removeSubscriptionToService_loop cn ns sid (n # notif) m =
    removeSubscriptionToService_loop cn ns sid notif m2"
    by (simp add: Let_def getServiceSubscriptionIndex_def indexFrom_none m2_def cutAt_index serviceSubs_def
        split: option.split)
  have sb: "subscribed m2 x k t \<longleftrightarrow> subscribed m x k t \<and> \<not> (x = cn \<and> t = Some sid \<and> k = ?k)" for x k t
    using subs_okD [OF Cons.prems]
    by (auto simp: m2_def subscribed_def csSubs_def cs_ok_def split: option.splits if_splits)
  show ?case
    unfolding step by (rule loop_ok_cong [OF Cons.IH [OF ok]]) (auto simp: fun_eq_iff sb)
qed (simp add: loop_ok_Ret)

text \<open>\<open>removeAllSubscriptions\<close> writes every entry back without the consumer.\<close>

definition dropSubscriber :: "string \<Rightarrow> ConsumerSubscription \<Rightarrow> ConsumerSubscription" where
  "dropSubscriber cn cs = cs\<lparr>cs_serviceSubscriptions := map_ran (\<lambda>_. remove1 cn) (cs_serviceSubscriptions cs),
     cs_namespaceSubscriptions := remove1 cn (cs_namespaceSubscriptions cs)\<rparr>"

lemma serviceSubs_drop [simp]: "serviceSubs (dropSubscriber cn cs) sid = remove1 cn (serviceSubs cs sid)"
  by (simp add: dropSubscriber_def serviceSubs_def split: option.split)

lemma dropSubscriber_ok: "cs_ok k cs \<Longrightarrow> cs_ok k (dropSubscriber cn cs)"
  by (auto simp: cs_ok_def) (auto simp: dropSubscriber_def)

lemma removeAllServices_ok:
  assumes "gm_ok (pre @ l)" and "\<And>sid ids. (sid, ids) \<in> set l \<Longrightarrow> distinct ids"
  shows "removeAllServices cn l (pre @ l) = Some (pre @ map_ran (\<lambda>_. remove1 cn) l)"
  using assms
proof (induction l arbitrary: pre)
  case (Cons e l)
  obtain sid ids where e: "e = (sid, ids)" by (cases e)
  have pre: "sid \<notin> fst ` set pre" using Cons.prems(1) by (auto simp: gm_ok_def e)
  have put: "gm_put sid v (pre @ (sid, ids) # l) = pre @ (sid, v) # l" for v
    using pre by (induction pre) auto
  have "distinct ids" using Cons.prems(2) e by auto
  then have rs: "RemoveSubscriber ids cn = Some (remove1 cn ids, cn \<in> set ids)"
    by (rule RemoveSubscriber_distinct)
  have "removeAllServices cn (e # l) (pre @ e # l) =
    removeAllServices cn l ((pre @ [(sid, remove1 cn ids)]) @ l)"
    by (simp add: e rs put remove1_idem)
  also have "\<dots> = Some ((pre @ [(sid, remove1 cn ids)]) @ map_ran (\<lambda>_. remove1 cn) l)"
    using Cons.prems by (intro Cons.IH) (auto simp: gm_ok_def e)
  finally show ?case by (simp add: e)
qed simp

lemma removeAll_loop:
  assumes "gm_ok (pre @ l)" and "\<And>k cs. (k, cs) \<in> set l \<Longrightarrow> cs_ok k cs"
  shows "removeAllSubscriptions_loop cn l (pre @ l) = Ret (pre @ map_ran (\<lambda>_. dropSubscriber cn) l) ()"
  using assms
proof (induction l arbitrary: pre)
  case (Cons e l)
  obtain k cs where e: "e = (k, cs)" by (cases e)
  have pre: "k \<notin> fst ` set pre" using Cons.prems(1) by (auto simp: gm_ok_def e)
  have put: "gm_put k v (pre @ (k, cs) # l) = pre @ (k, v) # l" for v
    using pre by (induction pre) auto
  have ok: "cs_ok k cs" using Cons.prems(2) e by auto
  have svc: "distinct ids" if "(sid, ids) \<in> set (cs_serviceSubscriptions cs)" for sid ids
    using ok that by (auto simp: cs_ok_def serviceSubs_def gm_mem_get split: option.splits)
  have "removeAllServices cn (cs_serviceSubscriptions cs) (cs_serviceSubscriptions cs) =
    Some (map_ran (\<lambda>_. remove1 cn) (cs_serviceSubscriptions cs))"
    using removeAllServices_ok [of "[]"] ok svc by (simp add: cs_ok_def)
  moreover have "RemoveSubscriber (cs_namespaceSubscriptions cs) cn =
    Some (remove1 cn (cs_namespaceSubscriptions cs), cn \<in> set (cs_namespaceSubscriptions cs))"
    using ok by (intro RemoveSubscriber_distinct) (simp add: cs_ok_def)
  ultimately have "removeAllSubscriptions_loop cn (e # l) (pre @ e # l) =
    removeAllSubscriptions_loop cn l ((pre @ [(k, dropSubscriber cn cs)]) @ l)"
    by (simp add: e put dropSubscriber_def)
  also have "\<dots> = Ret ((pre @ [(k, dropSubscriber cn cs)]) @ map_ran (\<lambda>_. dropSubscriber cn) l) ()"
    using Cons.prems by (intro Cons.IH) (auto simp: gm_ok_def e)
  finally show ?case by (simp add: e)
qed simp

lemma removeAll_ok:
  assumes m: "subs_ok m"
  shows "loop_ok (removeAllSubscriptions_loop cn m m) (\<lambda>x k t. subscribed m x k t \<and> x \<noteq> cn)"
proof -
  let ?m = "map_ran (\<lambda>_. dropSubscriber cn) m"
  have "removeAllSubscriptions_loop cn m m = Ret ?m ()"
    using removeAll_loop [of "[]" m cn] m by (auto simp: subs_ok_def gm_mem_get)
  moreover have "subs_ok ?m" using m by (auto simp: subs_ok_def dropSubscriber_ok)
  moreover have "subscribed ?m = (\<lambda>x k t. subscribed m x k t \<and> x \<noteq> cn)"
    using subs_okD [OF m]
    by (auto simp: subscribed_def fun_eq_iff cs_ok_def csSubs_def split: option.splits)
      (auto simp: dropSubscriber_def)
  ultimately show ?thesis by (simp add: loop_ok_def)
qed

end
