(* ===== verification/Eaa_Spec.thy ===== *)
theory Eaa_Spec
  imports Eaa_Subscriptions
begin

text \<open>
  The contract of the edge application agent and its refinement. The abstract state is the map of the
  registered services and the set of the subscriptions, each a consumer, a notification and the service
  it is asked of, if not the whole namespace. \<open>eaa_spec\<close> gives for every route the new abstract state
  and the status of the answer; \<open>eaa_serve_refines\<close> shows that the handlers do just that and return.
\<close>

section \<open>The specification\<close>

record eaa_abs =
  abs_services :: "string \<Rightarrow> Service option"
  abs_subs :: "(string \<times> UniqueNotif \<times> string option) set"

definition named :: "string \<Rightarrow> string option \<Rightarrow> string \<Rightarrow> NotificationDescriptor list \<Rightarrow>
  (string \<times> UniqueNotif \<times> string option) set" where
  "named cn t ns l = {(cn, mkKey ns n, t) | n. n \<in> set l}"

definition valid_notif :: "NotificationDescriptor \<Rightarrow> bool" where
  "valid_notif n \<longleftrightarrow> nd_Name n \<noteq> [] \<and> nd_Version n \<noteq> []"

definition registered :: "URN \<Rightarrow> Service \<Rightarrow> Service" where
  "registered u s = s\<lparr>srv_URN := Some u, srv_Notifications :=
     (case filter valid_notif (elems (srv_Notifications s)) of [] \<Rightarrow> None | l \<Rightarrow> Some l)\<rparr>"

fun eaa_spec :: "eaa_route \<Rightarrow> eaa_request \<Rightarrow> eaa_abs \<Rightarrow> eaa_abs \<times> int" where
  "eaa_spec RtDeregister r a =
     (a\<lparr>abs_services := (abs_services a)(er_CN r := None)\<rparr>,
      if abs_services a (er_CN r) = None then 404 else 204)"
| "eaa_spec RtRegister r a =
     (case (decoded (er_service r), CommonNameStringToURN (er_CN r)) of
        (Some s, Inr u) \<Rightarrow> (a\<lparr>abs_services := (abs_services a)(er_CN r \<mapsto> registered u s)\<rparr>, 200)
      | _ \<Rightarrow> (a, 500))"
| "eaa_spec RtGetServices r a = (a, 200)"
| "eaa_spec RtGetSubscriptions r a = (a, 200)"
| "eaa_spec RtGetNotifications r a = (a, 401)"
| "eaa_spec RtPush r a =
     (a, if decoded (er_notif r) = None then 500
         else case CommonNameStringToURN (er_CN r) of
           Inl _ \<Rightarrow> 401
         | Inr _ \<Rightarrow> if abs_services a (er_CN r) = None then 500 else 202)"
| "eaa_spec RtSubNamespace r a =
     (case decoded (er_subs r) of
        None \<Rightarrow> (a, 500)
      | Some l \<Rightarrow> (a\<lparr>abs_subs := abs_subs a \<union> named (er_CN r) None (er_namespace r) l\<rparr>, 201))"
| "eaa_spec RtSubService r a =
     (case decoded (er_subs r) of
        None \<Rightarrow> (a, 500)
      | Some l \<Rightarrow> (a\<lparr>abs_subs := abs_subs a \<union> named (er_CN r) (Some (er_id r)) (er_namespace r) l\<rparr>, 201))"
| "eaa_spec RtUnsubNamespace r a =
     (case decoded (er_subs r) of
        None \<Rightarrow> (a, 500)
      | Some l \<Rightarrow> (a\<lparr>abs_subs := abs_subs a - named (er_CN r) None (er_namespace r) l\<rparr>, 204))"
| "eaa_spec RtUnsubService r a =
     (case decoded (er_subs r) of
        None \<Rightarrow> (a, 500)
      | Some l \<Rightarrow> (a\<lparr>abs_subs := abs_subs a - named (er_CN r) (Some (er_id r)) (er_namespace r) l\<rparr>, 204))"
| "eaa_spec RtUnsubAll r a = (a\<lparr>abs_subs := {(x, k, t) \<in> abs_subs a. x \<noteq> er_CN r}\<rparr>, 204)"

section \<open>The invariant\<close>

definition svc_ok :: "(string, Service) gomap \<Rightarrow> bool" where
  "svc_ok m \<longleftrightarrow> gm_ok m \<and> (\<forall>k s. gm_get m k = Some s \<longrightarrow>
     (\<exists>u. CommonNameStringToURN k = Inr u \<and> srv_URN s = Some u) \<and>
     (\<forall>n\<in>set (elems (srv_Notifications s)). valid_notif n))"

definition eaa_inv :: "eaaContext \<Rightarrow> bool" where
  "eaa_inv c \<longleftrightarrow> (\<exists>sm m. serviceInfo c = Some sm \<and> svc_ok sm \<and> subscriptionInfo c = Some m \<and> subs_ok m)"

definition eaa_view :: "eaaContext \<Rightarrow> eaa_abs" where
  "eaa_view c = \<lparr>abs_services = (case serviceInfo c of None \<Rightarrow> \<lambda>_. None | Some m \<Rightarrow> gm_get m),
     abs_subs = (case subscriptionInfo c of None \<Rightarrow> {} | Some m \<Rightarrow> {(x, k, t). subscribed m x k t})\<rparr>"

lemma eaa_invE:
  assumes "eaa_inv c"
  obtains sm m where "serviceInfo c = Some sm" "svc_ok sm" "subscriptionInfo c = Some m" "subs_ok m"
  using assms by (auto simp: eaa_inv_def)

lemma eaa_inv_start: "eaaRunServer e cfg listen_err fs = Some (Ret fs' (Inr c)) \<Longrightarrow> eaa_inv c"
  by (auto simp: eaa_inv_def eaaRunServer_def svc_ok_def subs_ok_def
      split: Option.bind_split_asm go.split_asm prod.split_asm option.split_asm)

lemma eaa_inv_conns [simp]:
  "eaa_inv (c\<lparr>consumerConnections := x\<rparr>) = eaa_inv c"
  "eaa_view (c\<lparr>consumerConnections := x\<rparr>) = eaa_view c"
  by (simp_all add: eaa_inv_def eaa_view_def)

lemma validServiceNotifications_elems [simp]:
  "elems (validServiceNotifications l) = filter valid_notif l"
  by (induction l) (auto simp: valid_notif_def)

lemma validServiceNotifications_filter:
  "validServiceNotifications l = (case filter valid_notif l of [] \<Rightarrow> None | l' \<Rightarrow> Some l')"
  by (induction l) (simp_all add: valid_notif_def split: list.split)

lemma registered_valid: "\<forall>n\<in>set (elems (srv_Notifications (registered u s))). valid_notif n"
proof -
  have "elems (srv_Notifications (registered u s)) = filter valid_notif (elems (srv_Notifications s))"
    by (simp add: registered_def split: list.split)
  then show ?thesis by simp
qed

section \<open>The handlers refine the specification\<close>

text \<open>A handler returns with the status and the state of \<open>p\<close>, and keeps the invariant.\<close>

definition does :: "(eaaContext, eaa_writer) go \<Rightarrow> eaa_abs \<times> int \<Rightarrow> bool" where
  "does g p \<longleftrightarrow> (\<exists>c' w'. g = Ret c' w' \<and> eaa_inv c' \<and> eaa_view c' = fst p \<and> rw_status w' = Some (snd p))"

lemma does_Ret:
  "eaa_inv c \<Longrightarrow> eaa_view c = a \<Longrightarrow> rw_status w = Some n \<Longrightarrow> does (Ret c w) (a, n)"
  by (simp add: does_def)

lemma json_status [simp]:
  "rw_status w = None \<Longrightarrow> rw_status (rwWriteHeader n (jsonHeader w)) = Some n"
  "rw_status (jsonHeader w) = rw_status w"
  "rw_status (rwWrite b (rwWriteHeader n w)) = rw_status (rwWriteHeader n w)"
  by (simp_all add: rw_defs jsonHeader_def split: option.split)

lemma withSubs_ok:
  assumes c: "eaa_inv c" and m: "subscriptionInfo c = Some m" and ok: "loop_ok (loop m) A"
  shows "\<exists>c'. withSubs msg loop code c = Ret c' (code, None) \<and> eaa_inv c' \<and>
    eaa_view c' = (eaa_view c)\<lparr>abs_subs := {(x, k, t). A x k t}\<rparr>"
proof -
  obtain m' where m': "loop m = Ret m' ()" "subs_ok m'" "subscribed m' = A"
    using ok by (auto simp: loop_ok_def)
  with c m show ?thesis
    by (auto simp: withSubs_def eaa_inv_def eaa_view_def)
qed

lemma view_subs: "subscriptionInfo c = Some m \<Longrightarrow> abs_subs (eaa_view c) = {(x, k, t). subscribed m x k t}"
  by (simp add: eaa_view_def)

lemma view_services: "serviceInfo c = Some m \<Longrightarrow> abs_services (eaa_view c) = gm_get m"
  by (simp add: eaa_view_def)

lemma withSubs_does:
  assumes c: "eaa_inv c" and m: "subscriptionInfo c = Some m" and ok: "loop_ok (loop m) A"
    and B: "B = {(x, k, t). A x k t}" and w: "rw_status w = None"
  shows "does (go_bind (withSubs msg loop code c) (\<lambda>c' (statCode, err). Ret c' (rwWriteHeader statCode (jsonHeader w))))
    ((eaa_view c)\<lparr>abs_subs := B\<rparr>, code)"
proof -
  obtain c' where "withSubs msg loop code c = Ret c' (code, None)" "eaa_inv c'"
    "eaa_view c' = (eaa_view c)\<lparr>abs_subs := {(x, k, t). A x k t}\<rparr>"
    using withSubs_ok [where loop = loop, OF c m ok] by blast
  with B w show ?thesis by (simp add: does_def)
qed

lemma change_does:
  assumes c: "eaa_inv c" and w: "rw_status w = None"
    and f: "\<And>l. f l = withSubs msg (loop l) code"
    and ok: "\<And>l m. subs_ok m \<Longrightarrow> subscriptionInfo c = Some m \<Longrightarrow> \<exists>A. loop_ok (loop l m) A \<and> B l = {(x, k, t). A x k t}"
  shows "does (changeSubscriptions f r c w)
    (case decoded (er_subs r) of None \<Rightarrow> (eaa_view c, 500) | Some l \<Rightarrow> ((eaa_view c)\<lparr>abs_subs := B l\<rparr>, code))"
proof (cases "decoded (er_subs r)")
  case None
  with c w show ?thesis by (simp add: changeSubscriptions_def does_Ret)
next
  case (Some l)
  obtain m where m: "subs_ok m" "subscriptionInfo c = Some m" using c by (rule eaa_invE)
  obtain A where "loop_ok (loop l m) A" "B l = {(x, k, t). A x k t}" using ok [OF m] by blast
  from withSubs_does [where loop = "loop l", OF c m(2) this w, of msg code] Some show ?thesis
    by (simp add: changeSubscriptions_def f)
qed

lemma subscription_changes:
  assumes c: "eaa_inv c" and w: "rw_status w = None"
  shows "does (SubscribeNamespaceNotifications r c w) (eaa_spec RtSubNamespace r (eaa_view c))"
    and "does (SubscribeServiceNotifications r c w) (eaa_spec RtSubService r (eaa_view c))"
    and "does (UnsubscribeNamespaceNotifications r c w) (eaa_spec RtUnsubNamespace r (eaa_view c))"
    and "does (UnsubscribeServiceNotifications r c w) (eaa_spec RtUnsubService r (eaa_view c))"
  unfolding SubscribeNamespaceNotifications_def SubscribeServiceNotifications_def eaa_spec.simps
    UnsubscribeNamespaceNotifications_def UnsubscribeServiceNotifications_def
  by (rule change_does [OF c w], simp add: addSubscriptionToNamespace_def addSubscriptionToService_def
        removeSubscriptionToNamespace_def removeSubscriptionToService_def,
      intro exI conjI, erule addNs_ok addSrv_ok remNs_ok remSrv_ok,
      auto simp: view_subs named_def)+

lemma unsubscribe_all:
  assumes c: "eaa_inv c" and w: "rw_status w = None"
  shows "does (UnsubscribeAllNotifications r c w) (eaa_spec RtUnsubAll r (eaa_view c))"
proof -
  obtain m where m: "subs_ok m" "subscriptionInfo c = Some m" using c by (rule eaa_invE)
  show ?thesis
    unfolding UnsubscribeAllNotifications_def removeAllSubscriptions_def eaa_spec.simps
    by (rule withSubs_does [where loop = "\<lambda>m. removeAllSubscriptions_loop (er_CN r) m m",
          OF c m(2) removeAll_ok [OF m(1)] _ w]) (auto simp: view_subs [OF m(2)])
qed

lemma addService_registered:
  "s\<lparr>srv_URN := Some u, srv_Notifications :=
     (case srv_Notifications s of None \<Rightarrow> None | Some ns \<Rightarrow> validServiceNotifications ns)\<rparr> = registered u s"
  by (cases "srv_Notifications s") (simp_all add: registered_def validServiceNotifications_filter)

lemma fun_updates:
  "gm_get (gm_put k v m) = (gm_get m)(k \<mapsto> v)" "gm_get (gm_del k m) = (gm_get m)(k := None)"
  by (simp_all add: fun_eq_iff)

lemma service_changes:
  assumes c: "eaa_inv c" and w: "rw_status w = None"
  shows "does (RegisterApplication r c w) (eaa_spec RtRegister r (eaa_view c))"
    and "does (DeregisterApplication r c w) (eaa_spec RtDeregister r (eaa_view c))"
proof -
  obtain sm m where sm: "serviceInfo c = Some sm" "svc_ok sm" and m: "subscriptionInfo c = Some m" "subs_ok m"
    using c by (rule eaa_invE)
  have put: "eaa_inv (c\<lparr>serviceInfo := Some (gm_put (er_CN r) (registered u s) sm)\<rparr>)"
    if "CommonNameStringToURN (er_CN r) = Inr u" for u s
    using that sm m registered_valid [of u s] by (auto simp: eaa_inv_def svc_ok_def) (simp add: registered_def)
  have del: "eaa_inv (c\<lparr>serviceInfo := Some (gm_del (er_CN r) sm)\<rparr>)"
    using sm m by (auto simp: eaa_inv_def svc_ok_def split: if_splits)
  have reg: "addService cn s c = (c\<lparr>serviceInfo := Some (gm_put cn (registered u s) sm)\<rparr>, None)"
    if "CommonNameStringToURN cn = Inr u" for cn u s
    using that sm by (simp add: addService_def addService_registered)
  have view: "eaa_view (c\<lparr>serviceInfo := Some x\<rparr>) = (eaa_view c)\<lparr>abs_services := gm_get x\<rparr>" for x
    by (simp add: eaa_view_def)
  show "does (RegisterApplication r c w) (eaa_spec RtRegister r (eaa_view c))"
  proof (cases "CommonNameStringToURN (er_CN r)")
    case (Inl e)
    with c w sm show ?thesis
      by (simp add: RegisterApplication_def addService_def does_def split: option.split)
  next
    case (Inr u)
    with c w put [OF Inr] reg [OF Inr] show ?thesis
      by (simp add: RegisterApplication_def does_def view view_services [OF sm(1)] fun_updates split: option.split)
  qed
  show "does (DeregisterApplication r c w) (eaa_spec RtDeregister r (eaa_view c))"
    using c w del sm
    by (auto simp: DeregisterApplication_def removeService_def does_def view view_services fun_updates fun_upd_idem
        split: option.split)
qed

lemma reads_does:
  assumes c: "eaa_inv c" and w: "rw_status w = None"
  shows "does (GetServices c w) (eaa_spec RtGetServices r (eaa_view c))"
    and "does (GetSubscriptions r c w) (eaa_spec RtGetSubscriptions r (eaa_view c))"
proof -
  obtain sm m where "serviceInfo c = Some sm" "subscriptionInfo c = Some m" using c by (rule eaa_invE)
  with c w show "does (GetServices c w) (eaa_spec RtGetServices r (eaa_view c))"
    and "does (GetSubscriptions r c w) (eaa_spec RtGetSubscriptions r (eaa_view c))"
    by (simp_all add: GetServices_def GetSubscriptions_def Let_def getConsumerSubscriptions_def does_def)
qed

text \<open>The connection of a subscriber is nil when it is read for the message, although it was there before.\<close>

definition vanished :: "ws_reads \<Rightarrow> eaaContext \<Rightarrow> string \<Rightarrow> bool" where
  "vanished reads c x \<longleftrightarrow>
     snd (reads x) = None \<and>
     (\<exists>p. gm_get (consumerConnections c) x = Some p \<and>
        (connection p \<noteq> None \<or> waitForConnectionAssigned (fst (reads x)) = None))"

lemma send_panics: "sendNotificationToSubscriber reads x c = None \<longleftrightarrow> vanished reads c x"
  by (auto simp: sendNotificationToSubscriber_def vanished_def Option.is_none_def split: option.split)

lemma notify_loop_eq:
  "notify_loop reads msg c l ds =
     (ds @ map (\<lambda>x. (x, the (sendNotificationToSubscriber reads x c), msg)) (takeWhile (\<lambda>x. \<not> vanished reads c x) l),
      \<forall>x\<in>set l. \<not> vanished reads c x)"
  by (induction reads msg c l ds rule: notify_loop.induct) (auto simp: send_panics [symmetric] split: option.split)

lemma push_does:
  assumes c: "eaa_inv c" and w: "rw_status w = None"
  shows "does (eaaServe RtPush r c w) (eaa_spec RtPush r (eaa_view c)) \<or>
    eaaServe RtPush r c w = Panic c \<and> (\<exists>x. vanished (er_reads r) c x)"
proof -
  obtain sm m where sm: "serviceInfo c = Some sm" "svc_ok sm" and m: "subscriptionInfo c = Some m" "subs_ok m"
    using c by (rule eaa_invE)
  then show ?thesis
    using c w
    by (auto simp: PushNotificationToSubscribers_def sendNotificationToAllSubscribers_def does_def Let_def
        view_services notify_loop_eq split: option.split sum.split bool.split)
qed

theorem eaa_serve_refines:
  assumes "eaa_inv c" and "rw_status w = None" and "h \<noteq> RtGetNotifications"
  shows "does (eaaServe h r c w) (eaa_spec h r (eaa_view c)) \<or>
    h = RtPush \<and> eaaServe h r c w = Panic c \<and> (\<exists>x. vanished (er_reads r) c x)"
  using subscription_changes [OF assms(1,2), of r] unsubscribe_all [OF assms(1,2), of r]
    service_changes [OF assms(1,2), of r] reads_does [OF assms(1,2), of r] push_does [OF assms(1,2), of r] assms(3)
  by (cases h) simp_all

text \<open>A request for a websocket changes neither the services nor the subscriptions.\<close>

lemma notifications_keep:
  "eaa_inv (go_state (GetNotifications_begin r c w)) = eaa_inv c"
  "eaa_view (go_state (GetNotifications_begin r c w)) = eaa_view c"
  "eaa_inv (GetNotifications_end r u c) = eaa_inv c"
  "eaa_view (GetNotifications_end r u c) = eaa_view c"
  by (auto simp: GetNotifications_begin_def GetNotifications_end_def createWsConn_begin_def createWsConn_end_def
      Let_def split: option.split sum.split)

lemma credentials_keep [simp]: "go_state (RequestCredentials e r c w) = c"
  by (simp add: RequestCredentials_def Let_def split: option.split sum.split prod.split bool.split go.split)

end
