(* ===== verification/Eaa_Properties.thy ===== *)
theory Eaa_Properties
  imports Eaa_Spec
begin

text \<open>
  Properties of the edge application agent in every state it reaches, with an evaluated run: a producer
  registers, two consumers subscribe, one of them opens a websocket.
\<close>

section \<open>Reachable states\<close>

lemma rw_new_status [simp]: "rw_status rw_new = None"
  by (simp add: rw_new_def)

lemma eaa_reach_inv: "eaa_reach c \<Longrightarrow> eaa_inv c"
proof (induction rule: eaa_reach.induct)
  case (start e cfg listen_err fs fs' c)
  then show ?case by (rule eaa_inv_start)
next
  case (serve c h r)
  show ?case
  proof (cases "h = RtGetNotifications")
    case True
    have "go_state (go_bind g (\<lambda>c' (w', _). Ret c' w')) = go_state g" for g :: "(eaaContext, eaa_writer \<times> bool) go"
      by (cases g) auto
    with True serve.IH show ?thesis by (simp add: notifications_keep)
  next
    case False
    from eaa_serve_refines [OF serve.IH rw_new_status this, of r] serve.IH show ?thesis by (auto simp: does_def)
  qed
next
  case (upgrade c r u)
  then show ?case by (simp add: notifications_keep)
qed simp

section \<open>Listing the subscriptions of a consumer\<close>

definition listed :: "Subscription list \<Rightarrow> URN \<Rightarrow> NotificationDescriptor \<Rightarrow> bool" where
  "listed l u d \<longleftrightarrow> (\<exists>s\<in>set l. sbn_URN s = u \<and> d \<in> set (sbn_Notifications s))"

lemma listed_Nil [simp]: "\<not> listed [] u d"
  by (simp add: listed_def)

lemma urn_eq: "urn_Namespace u = urn_Namespace v \<and> urn_ID u = urn_ID v \<longleftrightarrow> u = (v :: URN)"
  by (auto intro: URN.equality)

lemma addToList_listed [simp]: "listed (addToList u d l) v e \<longleftrightarrow> listed l v e \<or> v = u \<and> e = d"
  by (induction l) (auto simp: listed_def urn_eq)

lemma addToList_urns:
  "map sbn_URN (addToList u d l) = (if u \<in> sbn_URN ` set l then map sbn_URN l else map sbn_URN l @ [u])"
  by (induction l) (auto simp: urn_eq)

lemma addToList_distinct [simp]: "distinct (map sbn_URN l) \<Longrightarrow> distinct (map sbn_URN (addToList u d l))"
  by (auto simp: addToList_urns)

lemma consumer_services_distinct:
  "distinct (map sbn_URN l) \<Longrightarrow> distinct (map sbn_URN (getConsumer_services cn k cs svcs l))"
  by (induction cn k cs svcs l rule: getConsumer_services.induct) (simp_all add: addServiceSubscriptionToList_def)

lemma consumer_services_listed:
  "listed (getConsumer_services cn k cs svcs l) u d \<longleftrightarrow> listed l u d \<or>
     (urn_ID u \<in> fst ` set svcs \<and> cn \<in> set (serviceSubs cs (urn_ID u)) \<and>
      urn_Namespace u = un_namespace k \<and> d = cs_notification cs)"
  by (induction cn k cs svcs l rule: getConsumer_services.induct)
    (auto simp: addServiceSubscriptionToList_def indexFrom_none intro: URN.equality)

definition lists_entry :: "string \<Rightarrow> UniqueNotif \<Rightarrow> ConsumerSubscription \<Rightarrow> URN \<Rightarrow> NotificationDescriptor \<Rightarrow> bool" where
  "lists_entry cn k cs u d \<longleftrightarrow> urn_Namespace u = un_namespace k \<and> d = cs_notification cs \<and>
     (cn \<in> set (serviceSubs cs (urn_ID u)) \<or> urn_ID u = [] \<and> cn \<in> set (cs_namespaceSubscriptions cs))"

lemma serviceSubs_mem:
  assumes "x \<in> set (serviceSubs cs sid)"
  shows "sid \<in> fst ` set (cs_serviceSubscriptions cs)"
proof -
  from assms obtain l where "gm_get (cs_serviceSubscriptions cs) sid = Some l"
    by (cases "gm_get (cs_serviceSubscriptions cs) sid") (simp_all add: serviceSubs_def)
  from gm_get_mem [OF this] show ?thesis by force
qed

lemma consumer_loop_listed:
  "listed (getConsumer_loop cn m l) u d \<longleftrightarrow> listed l u d \<or> (\<exists>(k, cs)\<in>set m. lists_entry cn k cs u d)"
proof (induction cn m l rule: getConsumer_loop.induct)
  case (2 cn k cs rest l)
  have ns: "\<lparr>urn_ID = [], urn_Namespace = un_namespace k\<rparr> = u \<longleftrightarrow>
    urn_ID u = [] \<and> urn_Namespace u = un_namespace k" by (cases u) auto
  show ?case
    by (simp only: getConsumer_loop.simps 2 consumer_services_listed)
      (use serviceSubs_mem [of cn cs "urn_ID u"] ns in
        \<open>auto simp: lists_entry_def addNamespaceSubscriptionToList_def indexFrom_none\<close>)
qed simp

lemma consumer_loop_distinct:
  "distinct (map sbn_URN l) \<Longrightarrow> distinct (map sbn_URN (getConsumer_loop cn m l))"
  by (induction cn m l rule: getConsumer_loop.induct)
    (simp_all add: addNamespaceSubscriptionToList_def consumer_services_distinct)

section \<open>Delivery\<close>

lemma getUniqueSubsList_filter:
  "getUniqueSubsList ns l = ns @ filter (\<lambda>x. x \<notin> set ns) l"
proof -
  have "getUniqueSubsList_loop ns l acc = acc @ filter (\<lambda>x. x \<notin> set ns) l" for acc
    by (induction ns l acc rule: getUniqueSubsList_loop.induct) (auto simp: list_ex_iff)
  then show ?thesis by (simp add: getUniqueSubsList_def)
qed

lemma send_delivers:
  assumes "gm_get (consumerConnections c) x = Some \<lparr>connection = Some conn\<rparr>" and "snd (reads x) = Some conn"
  shows "sendNotificationToSubscriber reads x c = Some (Inr conn)"
  using assms by (simp add: sendNotificationToSubscriber_def)

lemma split_first: "c \<notin> set xs \<Longrightarrow> c \<notin> set zs \<Longrightarrow> xs @ c # ys = zs @ c # i \<longleftrightarrow> xs = zs \<and> ys = i"
proof (induction xs arbitrary: zs)
  case Nil
  then show ?case by (cases zs) auto
next
  case (Cons x xs)
  then show ?case by (cases zs) auto
qed

section \<open>A run\<close>

definition ex_notif :: NotificationDescriptor where
  "ex_notif = \<lparr>nd_Name = ''n'', nd_Version = ''1'', nd_Description = []\<rparr>"

definition ex_req :: "string \<Rightarrow> eaa_request" where
  "ex_req cn = \<lparr>er_CN = cn, er_Host = cn, er_namespace = ''a'', er_id = ''p'',
     er_service = Decoded \<lparr>srv_URN = None, srv_Description = [], srv_EndpointURI = [], srv_Status = [],
       srv_Notifications = Some [ex_notif], srv_Info = []\<rparr>,
     er_notif = Decoded \<lparr>np_Name = ''n'', np_Version = ''1'', np_Payload = ''x''\<rparr>,
     er_subs = Decoded [ex_notif], er_reads = (\<lambda>_. ([], Some 7)), er_ws_panics = (\<lambda>conn. conn = None)\<rparr>"

definition ex_certs :: CertsInfo where
  "ex_certs = \<lparr>ci_CaRootKeyPath = ''k/rk'', ci_CaRootPath = ''k/rc'', ci_ServerCertPath = ''k/sc'',
     ci_ServerKeyPath = ''k/sk'', ci_CommonName = ''eaa''\<rparr>"

definition ex_eaa_cfg :: EaaConfig where
  "ex_eaa_cfg = \<lparr>ecfg_TLSEndpoint = '':1'', ecfg_OpenEndpoint = '':2'', ecfg_ValidationEndpoint = ''eva'',
     ecfg_HeartbeatInterval = 60, ecfg_Certs = ex_certs\<rparr>"

definition ex_started :: eaaContext where
  "ex_started = (case eaaRunServer ex_pki ex_eaa_cfg None \<lparr>fs_files = [], fs_dirs = []\<rparr> of
     Some (Ret fs (Inr c)) \<Rightarrow> c | _ \<Rightarrow> undefined)"

lemma ex_started_reach: "eaa_reach ex_started"
proof -
  let ?r = "eaaRunServer ex_pki ex_eaa_cfg None \<lparr>fs_files = [], fs_dirs = []\<rparr>"
  have "(case ?r of Some (Ret _ (Inr _)) \<Rightarrow> True | _ \<Rightarrow> False)" by code_simp
  then obtain fs c where "?r = Some (Ret fs (Inr c))" by (auto split: option.splits go.splits sum.splits)
  moreover from this have "ex_started = c" by (simp add: ex_started_def)
  ultimately show ?thesis by (auto intro: eaa_reach.start)
qed

definition ex_eaa :: eaaContext where
  "ex_eaa = GetNotifications_end (ex_req ''b:c'') (Inr 7)
     (go_state (eaaServe RtGetNotifications (ex_req ''b:c'')
       (go_state (eaaServe RtSubService (ex_req ''b:d'')
         (go_state (eaaServe RtSubNamespace (ex_req ''b:c'')
           (go_state (eaaServe RtRegister (ex_req ''a:p'') ex_started rw_new)) rw_new)) rw_new)) rw_new))"

lemma ex_eaa_reach: "eaa_reach ex_eaa"
  unfolding ex_eaa_def by (intro eaa_reach.serve eaa_reach.upgrade ex_started_reach)

section \<open>The properties\<close>

text \<open>
  (C25) Every route of the agent but the one that opens a websocket refines the specification: in a
  reachable state it returns with the services, the subscriptions and the status that \<open>eaa_spec\<close> gives.
  The one exception is a notification whose subscriber's websocket is nil when the message is written,
  although it was there before: then the request panics, and the state is as it was.
\<close>

theorem eaa_handlers_refine:
  assumes "eaa_reach c" and "h \<noteq> RtGetNotifications"
  shows "(\<exists>c' w' n. eaaServe h r c rw_new = Ret c' w' \<and> rw_status w' = Some n \<and>
      eaa_spec h r (eaa_view c) = (eaa_view c', n)) \<or>
    h = RtPush \<and> eaaServe h r c rw_new = Panic c \<and> (\<exists>x. vanished (er_reads r) c x)"
  using eaa_serve_refines [OF eaa_reach_inv [OF assms(1)] rw_new_status assms(2), of r]
  by (auto simp: does_def intro: prod_eqI)

theorem eaa_handlers_refine_witness:
  "\<exists>c' w' n. eaaServe RtUnsubAll (ex_req ''b:c'') ex_eaa rw_new = Ret c' w' \<and> rw_status w' = Some n \<and>
    eaa_spec RtUnsubAll (ex_req ''b:c'') (eaa_view ex_eaa) = (eaa_view c', n)"
  using eaa_handlers_refine [OF ex_eaa_reach, of RtUnsubAll "ex_req ''b:c''"] by simp

text \<open>
  (C26) A notification of a registered producer goes to the consumers that have subscribed to it, in the
  producer's namespace or of the producer itself, each of them once, and to no other consumer: it is
  attempted for all of them and answered 202, unless the websocket of one of them is nil when the message
  is written, although it was there before. That one ends the request with a panic, and the consumers
  after it are not notified. The message carries the producer's URN, and goes to the websocket of a
  consumer that has one.
\<close>

theorem notification_fanout:
  assumes c: "eaa_reach c" and dec: "decoded (er_notif r) = Some n"
    and u: "CommonNameStringToURN (er_CN r) = Inr u" and reg: "abs_services (eaa_view c) (er_CN r) \<noteq> None"
  defines "k \<equiv> \<lparr>un_namespace = urn_Namespace u, un_notifName = np_Name n, un_notifVersion = np_Version n\<rparr>"
  shows "\<exists>l ds. distinct l \<and>
    set l = {x. (x, k, None) \<in> abs_subs (eaa_view c) \<or> (x, k, Some (urn_ID u)) \<in> abs_subs (eaa_view c)} \<and>
    map fst ds = takeWhile (\<lambda>x. \<not> vanished (er_reads r) c x) l \<and>
    (if \<exists>x\<in>set l. vanished (er_reads r) c x then PushNotificationToSubscribers r c rw_new = Panic (c, ds)
     else \<exists>w. PushNotificationToSubscribers r c rw_new = Ret (c, ds) w \<and> rw_status w = Some 202) \<and>
    (\<forall>(x, d, msg)\<in>set ds.
       msg = \<lparr>nt_Name = np_Name n, nt_Version = np_Version n, nt_Payload = np_Payload n, nt_URN = u\<rparr> \<and>
       (\<forall>conn. gm_get (consumerConnections c) x = Some \<lparr>connection = Some conn\<rparr> \<longrightarrow> snd (er_reads r x) = Some conn
          \<longrightarrow> d = Inr conn))"
proof -
  obtain sm m where sm: "serviceInfo c = Some sm" "svc_ok sm" and m: "subscriptionInfo c = Some m" "subs_ok m"
    using eaa_reach_inv [OF c] by (rule eaa_invE)
  have reg': "gm_get sm (er_CN r) \<noteq> None" using reg by (simp add: view_services [OF sm(1)])
  have subs: "(x, k, t) \<in> abs_subs (eaa_view c) \<longleftrightarrow> subscribed m x k t" for x t
    by (simp add: view_subs [OF m(1)])
  let ?msg = "\<lparr>nt_Name = np_Name n, nt_Version = np_Version n, nt_Payload = np_Payload n, nt_URN = u\<rparr>"
  let ?lost = "vanished (er_reads r) c"
  define l where "l = (case gm_get m k of None \<Rightarrow> [] | Some cs \<Rightarrow>
    getUniqueSubsList (cs_namespaceSubscriptions cs) (serviceSubs cs (urn_ID u)))"
  define ds where "ds = map (\<lambda>x. (x, the (sendNotificationToSubscriber (er_reads r) x c), ?msg)) (takeWhile (\<lambda>x. \<not> ?lost x) l)"
  have push: "PushNotificationToSubscribers r c rw_new =
      (if \<exists>x\<in>set l. ?lost x then Panic (c, ds) else Ret (c, ds) (rwWriteHeader 202 (jsonHeader rw_new)))"
    using dec u sm(1) m(1) reg'
    by (auto simp: PushNotificationToSubscribers_def sendNotificationToAllSubscribers_def k_def [symmetric] Let_def
        l_def ds_def serviceSubs_def getUniqueSubsList_filter notify_loop_eq split: option.split bool.split)
  have "distinct l"
    using subs_okD [OF m(2)]
    by (auto simp: l_def getUniqueSubsList_filter cs_ok_def split: option.split)
  moreover have "set l = {x. subscribed m x k None \<or> subscribed m x k (Some (urn_ID u))}"
    by (cases "gm_get m k") (auto simp: l_def getUniqueSubsList_filter subscribed_def)
  moreover have "map fst ds = takeWhile (\<lambda>x. \<not> ?lost x) l" by (simp add: ds_def comp_def)
  ultimately show ?thesis
    by (intro exI [of _ l] exI [of _ ds]) (auto simp: push subs ds_def send_delivers)
qed

theorem notification_fanout_witness:
  "\<exists>w ds. PushNotificationToSubscribers (ex_req ''a:p'') ex_eaa rw_new = Ret (ex_eaa, ds) w \<and>
    rw_status w = Some 202 \<and> distinct (map fst ds)"
proof -
  have "decoded (er_notif (ex_req ''a:p'')) = Some \<lparr>np_Name = ''n'', np_Version = ''1'', np_Payload = ''x''\<rparr>"
    "CommonNameStringToURN (er_CN (ex_req ''a:p'')) = Inr \<lparr>urn_ID = ''p'', urn_Namespace = ''a''\<rparr>"
    by code_simp+
  moreover have "map_option (\<lambda>m. Option.is_none (gm_get m (er_CN (ex_req ''a:p'')))) (serviceInfo ex_eaa) = Some False"
    by code_simp
  then have "abs_services (eaa_view ex_eaa) (er_CN (ex_req ''a:p'')) \<noteq> None"
    by (auto simp: view_services Option.is_none_def)
  moreover have "\<not> vanished (er_reads (ex_req ''a:p'')) ex_eaa x" for x by (simp add: vanished_def ex_req_def)
  ultimately show ?thesis
    using notification_fanout [OF ex_eaa_reach, of "ex_req ''a:p''"] by (metis (no_types, lifting) distinct_takeWhile)
qed

text \<open>
  (C27) In every reachable state a list of subscribers holds a consumer once, the entry describes the
  notification it is stored under, and removing a consumer from a list while walking it stays within
  the bounds of the slice and removes exactly that consumer.
\<close>

theorem subscriber_lists_sound:
  assumes "eaa_reach c" and "subscriptionInfo c = Some m" and "gm_get m k = Some cs"
  shows "distinct (csSubs cs t) \<and> RemoveSubscriber (csSubs cs t) x = Some (remove1 x (csSubs cs t), x \<in> set (csSubs cs t)) \<and>
    nd_Name (cs_notification cs) = un_notifName k \<and> nd_Version (cs_notification cs) = un_notifVersion k"
proof -
  have "cs_ok k cs" using eaa_reach_inv [OF assms(1)] assms(2,3) by (auto elim!: eaa_invE dest: subs_okD)
  moreover from this have "distinct (csSubs cs t)" by (cases t) (simp_all add: cs_ok_def)
  ultimately show ?thesis by (simp add: RemoveSubscriber_distinct cs_ok_def)
qed

theorem subscriber_lists_sound_witness:
  "\<exists>m cs. subscriptionInfo ex_eaa = Some m \<and> gm_get m (mkKey ''a'' ex_notif) = Some cs \<and>
     RemoveSubscriber (csSubs cs None) ''b:c'' = Some ([], True)"
proof -
  have "map_option (\<lambda>m. map_option (\<lambda>cs. csSubs cs None) (gm_get m (mkKey ''a'' ex_notif))) (subscriptionInfo ex_eaa) =
    Some (Some [''b:c''])" by code_simp
  then obtain m cs where m: "subscriptionInfo ex_eaa = Some m" "gm_get m (mkKey ''a'' ex_notif) = Some cs"
    and l: "csSubs cs None = [''b:c'']" by auto
  have "RemoveSubscriber (csSubs cs None) ''b:c'' = Some ([], True)"
    using subscriber_lists_sound [OF ex_eaa_reach m, of None "''b:c''"] unfolding l by simp
  with m show ?thesis by blast
qed

text \<open>
  The list of subscriptions a consumer reads has one entry for each URN, and shows a notification
  for a URN exactly when the consumer has subscribed to it: for the service the URN names, or, when the
  URN names none, for the namespace.
\<close>

theorem consumer_reads_own_subscriptions:
  assumes c: "eaa_reach c" and m: "subscriptionInfo c = Some m"
  shows "\<exists>l. getConsumerSubscriptions cn c = Inr l \<and> distinct (map sbn_URN l) \<and>
    (\<forall>u d. (\<exists>s\<in>set l. sbn_URN s = u \<and> d \<in> set (sbn_Notifications s)) \<longleftrightarrow>
      (\<exists>k. un_namespace k = urn_Namespace u \<and> map_option cs_notification (gm_get m k) = Some d \<and>
        ((cn, k, Some (urn_ID u)) \<in> abs_subs (eaa_view c) \<or>
         urn_ID u = [] \<and> (cn, k, None) \<in> abs_subs (eaa_view c))))"
proof -
  have ok: "gm_ok m" using eaa_reach_inv [OF c] m by (auto simp: subs_ok_def elim: eaa_invE)
  have "listed (getConsumer_loop cn m []) u d \<longleftrightarrow>
      (\<exists>k. un_namespace k = urn_Namespace u \<and> map_option cs_notification (gm_get m k) = Some d \<and>
        ((cn, k, Some (urn_ID u)) \<in> abs_subs (eaa_view c) \<or>
         urn_ID u = [] \<and> (cn, k, None) \<in> abs_subs (eaa_view c)))" for u d
  proof -
    have "listed (getConsumer_loop cn m []) u d \<longleftrightarrow> (\<exists>k cs. gm_get m k = Some cs \<and> lists_entry cn k cs u d)"
      by (simp add: consumer_loop_listed split_beta Bex_def gm_mem_get [OF ok])
    also have "\<dots> \<longleftrightarrow> (\<exists>k. un_namespace k = urn_Namespace u \<and> map_option cs_notification (gm_get m k) = Some d \<and>
        (subscribed m cn k (Some (urn_ID u)) \<or> urn_ID u = [] \<and> subscribed m cn k None))"
      by (intro ex_cong1) (auto simp: lists_entry_def subscribed_def)
    finally show ?thesis by (simp add: view_subs [OF m])
  qed
  moreover have "distinct (map sbn_URN (getConsumer_loop cn m []))" by (rule consumer_loop_distinct) simp
  ultimately show ?thesis by (simp add: getConsumerSubscriptions_def m listed_def)
qed

theorem consumer_reads_own_subscriptions_witness:
  "\<exists>l. getConsumerSubscriptions ''b:d'' ex_eaa = Inr l \<and> distinct (map sbn_URN l)"
proof -
  obtain m where "subscriptionInfo ex_eaa = Some m"
    using eaa_reach_inv [OF ex_eaa_reach] by (rule eaa_invE)
  from consumer_reads_own_subscriptions [OF ex_eaa_reach this, of "''b:d''"] show ?thesis by blast
qed

text \<open>
  A common name is translated to a URN exactly when it is a namespace without a colon, a colon and
  an identifier, which are the namespace and the identifier of the URN.
\<close>

theorem common_name_round_trip:
  "CommonNameStringToURN cn = Inr u \<longleftrightarrow>
     cn = urn_Namespace u @ '':'' @ urn_ID u \<and> CHR '':'' \<notin> set (urn_Namespace u)"
proof (cases "CHR '':'' \<in> set cn")
  case True
  then obtain xs ys where cn: "cn = xs @ CHR '':'' # ys" and xs: "CHR '':'' \<notin> set xs"
    by (meson split_list_first)
  have tw: "takeWhile (\<lambda>x. x \<noteq> CHR '':'') cn = xs" "dropWhile (\<lambda>x. x \<noteq> CHR '':'') cn = CHR '':'' # ys"
    unfolding cn using xs by (auto simp: takeWhile_append dropWhile_append takeWhile_eq_all_conv dropWhile_eq_Nil_conv)
  have "CommonNameStringToURN cn = Inr \<lparr>urn_ID = ys, urn_Namespace = xs\<rparr>"
    using True by (simp add: CommonNameStringToURN_def stringsSplitN2_def tw)
  then show ?thesis
    using xs split_first [OF xs, of "urn_Namespace u" ys "urn_ID u"] by (cases u) (auto simp: cn)
next
  case False
  then show ?thesis by (auto simp: CommonNameStringToURN_def stringsSplitN2_def)
qed

text \<open>
  A second request of a consumer for a websocket, before the connection of the first is upgraded,
  makes the library calls on a nil connection: where these panic the request ends in a panic, and the
  entry without a connection stays.
\<close>

theorem overlapping_websocket_requests:
  assumes "GetNotifications_begin r c w = Ret c' (w', True)"
    and "er_CN r2 = er_CN r" and "er_Host r2 = er_CN r2" and "er_ws_panics r2 None"
  shows "GetNotifications_begin r2 c' w2 = Panic c' \<and>
    gm_get (consumerConnections c') (er_CN r) = Some \<lparr>connection = None\<rparr>"
  using assms
  by (auto simp: GetNotifications_begin_def createWsConn_begin_def Let_def go_bind_Ret_iff
      split: if_splits option.splits)

theorem overlapping_websocket_requests_witness:
  "eaa_reach ex_eaa \<and> (\<exists>c' w'. GetNotifications_begin (ex_req ''b:d'') ex_eaa rw_new = Ret c' (w', True) \<and>
     GetNotifications_begin (ex_req ''b:d'') c' rw_new = Panic c')"
proof -
  have "(case GetNotifications_begin (ex_req ''b:d'') ex_eaa rw_new of Ret _ p \<Rightarrow> snd p | Panic _ \<Rightarrow> False)"
    by code_simp
  then obtain c' w' where b: "GetNotifications_begin (ex_req ''b:d'') ex_eaa rw_new = Ret c' (w', True)"
    by (auto split: go.splits)
  from overlapping_websocket_requests [OF b, of "ex_req ''b:d''" rw_new] b show ?thesis
    by (simp add: ex_req_def ex_eaa_reach)
qed

text \<open>
  An agent without its maps answers a request for the services or for the subscriptions with the
  status 200 and no body: the status 500 that the code writes afterwards is lost.
\<close>

theorem internal_error_lost:
  assumes "serviceInfo c = None" and "subscriptionInfo c = None"
  shows "\<exists>w w'. GetServices c rw_new = Ret c w \<and> rw_status w = Some 200 \<and> rw_body w = [] \<and>
    GetSubscriptions r c rw_new = Ret c w' \<and> rw_status w' = Some 200 \<and> rw_body w' = []"
  using assms
  by (simp add: GetServices_def GetSubscriptions_def getConsumerSubscriptions_def jsonHeader_def rw_defs)

theorem internal_error_lost_witness:
  "\<exists>w. GetServices (ex_started\<lparr>serviceInfo := None, subscriptionInfo := None\<rparr>) rw_new =
     Ret (ex_started\<lparr>serviceInfo := None, subscriptionInfo := None\<rparr>) w \<and> rw_status w = Some 200"
  using internal_error_lost [of "ex_started\<lparr>serviceInfo := None, subscriptionInfo := None\<rparr>"]
  by auto

end
