(* ===== verification/Eaa_Credentials.thy ===== *)
theory Eaa_Credentials
  imports Eaa_Properties
begin

text \<open>
  Properties of the certificates of the edge application agent: the root CA is kept over restarts, a
  key that does not fit the certificate goes unnoticed, and credentials are given to known addresses.
\<close>

section \<open>Loading what was created\<close>

lemma LoadKey_cong: "fileAt fs p = fileAt fs' p \<Longrightarrow> LoadKey e p fs = LoadKey e p fs'"
  unfolding LoadKey_def readFileWithPerm_def Let_def fileAt_clean by simp

lemma validate_quiet [simp]: "validateRCACert (quiet e) c = validateRCACert e c"
  by (unfold validateRCACert_def validateCert_def quiet_sel) (rule refl)

lemma createDir_files: "createDir e p fs = (fs', err) \<Longrightarrow> fileAt fs' q = fileAt fs q"
  by (auto simp: createDir_def osMkdirAll_def osChmodDir_def Let_def fileAt_def split: if_splits option.splits)

lemma loadOrCreateKey_ok:
  assumes e: "pki_lawful e" and k: "loadOrCreateKey e p msg fs = (fs', Inr key)"
    and small: "\<And>f. fileAt fs' p = Some f \<Longrightarrow> int (length (f_data f)) \<le> 1024 * 1024"
  shows "LoadKey (quiet e) p fs' = Inr key"
proof (cases "LoadKey e p fs")
  case (Inl err)
  then obtain fs1 where s: "SaveKey e key p fs1 = (fs', None)"
    using k by (auto simp: loadOrCreateKey_def split: sum.splits prod.splits option.splits)
  obtain d where d: "fs' = setFile p \<lparr>f_perm = filePerm, f_data = d\<rparr> fs1"
    and load: "int (length d) \<le> 1024 * 1024 \<Longrightarrow> LoadKey (quiet e) p fs' = Inr key"
    using SaveKey_ok [OF e s] by blast
  from d have "fileAt fs' p = Some \<lparr>f_perm = filePerm, f_data = d\<rparr>" by simp
  from small [OF this] load show ?thesis by simp
next
  case (Inr k')
  with k show ?thesis by (auto simp: loadOrCreateKey_def intro: LoadKey_quiet)
qed

lemma saveNewCert_ok:
  assumes e: "pki_lawful e" and s: "saveNewCert e p msg cert fs = Ret fs' (Some x, None)"
  shows "cert = Some x" and "fileAt fs' p = Some \<lparr>f_perm = filePerm, f_data = certsData e [x]\<rparr>"
    and "filepathClean q \<noteq> filepathClean p \<Longrightarrow> fileAt fs' q = fileAt fs q"
proof -
  obtain fs1 where d: "createDir e p fs = (fs1, None)" and c: "cert = Some x" and w: "SaveCert e p [x] fs1 = (fs', None)"
    using s by (auto simp: saveNewCert_def split: prod.splits option.splits)
  show "cert = Some x" by (rule c)
  show "fileAt fs' p = Some \<lparr>f_perm = filePerm, f_data = certsData e [x]\<rparr>"
    by (simp add: SaveCert_ok [OF e w])
  show "fileAt fs' q = fileAt fs q" if "filepathClean q \<noteq> filepathClean p"
    using that by (simp add: SaveCert_ok [OF e w] createDir_files [OF d])
qed

lemma checkRootCA_ok: "checkRootCA e key cert fs = Ret fs' (Some p, None) \<Longrightarrow>
  fs' = fs \<and> p = \<lparr>ckp_x509Cert = cert, ckp_prvKey = key\<rparr> \<and> checkRootCA (quiet e) key cert fs = Ret fs (Some p, None)"
  by (auto simp: checkRootCA_def split: option.splits sum.splits if_splits)

lemma InitRootCA_cases:
  assumes init: "InitRootCA e ci fs = Some (Ret fs' (Some p, None))"
  obtains fs1 key where "loadOrCreateKey e (ci_CaRootKeyPath ci) ''Unable to generate CA key'' fs = (fs1, Inr key)"
    and "checkRootCA e key (ckp_x509Cert p) fs' = Ret fs' (Some p, None)"
    and "LoadCert e (ci_CaRootPath ci) fs1 = Some (Inr (ckp_x509Cert p)) \<and> fs' = fs1 \<or>
      generateRootCA e key = (Some (ckp_x509Cert p), None) \<and>
      saveNewCert e (ci_CaRootPath ci) ''unable to store CA certificate'' (Some (ckp_x509Cert p)) fs1 =
        Ret fs' (Some (ckp_x509Cert p), None)"
proof -
  obtain fs1 key where k: "loadOrCreateKey e (ci_CaRootKeyPath ci) ''Unable to generate CA key'' fs = (fs1, Inr key)"
    using init by (auto simp: InitRootCA_def split: prod.splits sum.splits)
  consider (loaded) x where "LoadCert e (ci_CaRootPath ci) fs1 = Some (Inr x)" "checkRootCA e key x fs1 = Ret fs' (Some p, None)"
    | (made) cert x fs2 where "generateRootCA e key = (cert, None)"
        "saveNewCert e (ci_CaRootPath ci) ''unable to store CA certificate'' cert fs1 = Ret fs2 (Some x, None)"
        "checkRootCA e key x fs2 = Ret fs' (Some p, None)"
    using init k
    by (auto simp: InitRootCA_def go_bind_Ret_iff split: option.splits sum.splits prod.splits)
  then show thesis
  proof cases
    case loaded
    with that [OF k] checkRootCA_ok [OF loaded(2)] show thesis by auto
  next
    case made
    have "cert = Some x" using made(2) by (auto simp: saveNewCert_def split: prod.splits option.splits)
    with that [OF k] checkRootCA_ok [OF made(3)] made show thesis by auto
  qed
qed

section \<open>Properties\<close>

text \<open>
  (C29) The root CA survives a restart at the same time: a certificate and a key that were loaded or created
  are loaded again, without a change of any file, as long as the certificate is valid, the files are small
  and the two are stored under different paths.
\<close>

theorem root_ca_kept:
  assumes e: "pki_lawful e" and init: "InitRootCA e ci fs = Some (Ret fs' (Some p, None))"
    and small: "small_files fs'" and valid: "validateRCACert e (ckp_x509Cert p) = None"
    and paths: "filepathClean (ci_CaRootKeyPath ci) \<noteq> filepathClean (ci_CaRootPath ci)"
  shows "InitRootCA (quiet e) ci fs' = Some (Ret fs' (Some p, None))"
proof -
  obtain fs1 key where k: "loadOrCreateKey e (ci_CaRootKeyPath ci) ''Unable to generate CA key'' fs = (fs1, Inr key)"
    and check: "checkRootCA e key (ckp_x509Cert p) fs' = Ret fs' (Some p, None)"
    and cert: "LoadCert e (ci_CaRootPath ci) fs1 = Some (Inr (ckp_x509Cert p)) \<and> fs' = fs1 \<or>
      generateRootCA e key = (Some (ckp_x509Cert p), None) \<and>
      saveNewCert e (ci_CaRootPath ci) ''unable to store CA certificate'' (Some (ckp_x509Cert p)) fs1 =
        Ret fs' (Some (ckp_x509Cert p), None)"
    using init by (rule InitRootCA_cases)
  have "LoadKey (quiet e) (ci_CaRootKeyPath ci) fs' = Inr key \<and>
    LoadCert (quiet e) (ci_CaRootPath ci) fs' = Some (Inr (ckp_x509Cert p))"
    using cert
  proof
    assume "LoadCert e (ci_CaRootPath ci) fs1 = Some (Inr (ckp_x509Cert p)) \<and> fs' = fs1"
    with loadOrCreateKey_ok [OF e k] small_filesD [OF small] show ?thesis by (auto intro: LoadCert_quiet)
  next
    assume new: "generateRootCA e key = (Some (ckp_x509Cert p), None) \<and>
      saveNewCert e (ci_CaRootPath ci) ''unable to store CA certificate'' (Some (ckp_x509Cert p)) fs1 =
        Ret fs' (Some (ckp_x509Cert p), None)"
    note s = saveNewCert_ok [OF e conjunct2 [OF new]]
    obtain raw where "ParseCertificate e raw = Inr (ckp_x509Cert p)"
      using new by (auto simp: generateRootCA_def ptr_of_def split: option.splits sum.splits)
    from lawful_cert [OF e this] have "LoadCert (quiet e) (ci_CaRootPath ci) fs' = Some (Inr (ckp_x509Cert p))"
      using LoadCerts_data(2) [OF e _ _ small_readable [OF small s(2)]] by simp
    moreover have "fileAt fs1 (ci_CaRootKeyPath ci) = fileAt fs' (ci_CaRootKeyPath ci)" using s(3) [OF paths] by simp
    moreover have "LoadKey (quiet e) (ci_CaRootKeyPath ci) fs1 = Inr key"
      by (rule loadOrCreateKey_ok [OF e k], rule small_filesD [OF small]) (use s(3) [OF paths] in simp)
    ultimately show ?thesis using LoadKey_cong by metis
  qed
  then show ?thesis
    using checkRootCA_ok [OF check] valid by (simp add: InitRootCA_def loadOrCreateKey_def)
qed

definition ex_rooted :: filesystem where
  "ex_rooted = (case InitRootCA ex_pki ex_certs \<lparr>fs_files = [], fs_dirs = []\<rparr> of
     Some (Ret fs _) \<Rightarrow> fs | _ \<Rightarrow> undefined)"

theorem root_ca_kept_witness:
  "\<exists>p. InitRootCA (quiet ex_pki) ex_certs ex_rooted = Some (Ret ex_rooted (Some p, None))"
proof -
  let ?r = "InitRootCA ex_pki ex_certs \<lparr>fs_files = [], fs_dirs = []\<rparr>"
  have "(case ?r of Some (Ret fs (Some p, None)) \<Rightarrow> Option.is_none (validateRCACert ex_pki (ckp_x509Cert p)) | _ \<Rightarrow> False)"
    by code_simp
  then obtain fs p where r: "?r = Some (Ret fs (Some p, None))" and v: "validateRCACert ex_pki (ckp_x509Cert p) = None"
    by (auto simp: Option.is_none_def split: option.splits go.splits prod.splits)
  then have fs: "ex_rooted = fs" by (simp add: ex_rooted_def)
  have "small_files ex_rooted" "filepathClean (ci_CaRootKeyPath ex_certs) \<noteq> filepathClean (ci_CaRootPath ex_certs)"
    by code_simp+
  with root_ca_kept [OF ex_pki_lawful r] v fs show ?thesis by blast
qed

text \<open>
  A root certificate that does not hold the public key of the stored private key is not noticed:
  \<open>InitRootCA\<close> returns neither a pair nor an error, so the agent starts without a root CA, and the first
  signing request it can parse makes it panic.
\<close>

theorem root_ca_mismatch_unnoticed:
  assumes "LoadKey e (ci_CaRootKeyPath ci) fs = Inr key" and "LoadCert e (ci_CaRootPath ci) fs = Some (Inr cert)"
    and "validateRCACert e cert = None" and "signerPublic e key = Some pub"
    and "MarshalPKIXPublicKey e pub = Inr der" and "x_RawSubjectPublicKeyInfo cert \<noteq> der"
  shows "InitRootCA e ci fs = Some (Ret fs (None, None)) \<and>
    (\<forall>pem block csr. fst (pem_Decode e pem) = Some block \<longrightarrow> pem_Type block = ''CERTIFICATE REQUEST'' \<longrightarrow>
       ParseCertificateRequest e (pem_Bytes block) = Inr csr \<longrightarrow> SignCSR e pem None = Panic ())"
  using assms by (simp add: InitRootCA_def loadOrCreateKey_def checkRootCA_def SignCSR_def)

theorem root_ca_mismatch_unnoticed_witness:
  "InitRootCA (ex_pki\<lparr>MarshalPKIXPublicKey := \<lambda>_. Inr ''z''\<rparr>) ex_certs ex_rooted =
     Some (Ret ex_rooted (None, None))"
proof -
  let ?e = "ex_pki\<lparr>MarshalPKIXPublicKey := \<lambda>_. Inr ''z''\<rparr>"
  have "LoadKey ?e (ci_CaRootKeyPath ex_certs) ex_rooted = Inr 3"
    "LoadCert ?e (ci_CaRootPath ex_certs) ex_rooted = Some (Inr (ex_cert ''c''))"
    "validateRCACert ?e (ex_cert ''c'') = None"
    by code_simp+
  moreover have "signerPublic ?e 3 = Some 3" "MarshalPKIXPublicKey ?e 3 = Inr ''z''"
    "x_RawSubjectPublicKeyInfo (ex_cert ''c'') \<noteq> ''z''"
    by (simp_all add: ex_pki_def ex_cert_def)
  ultimately show ?thesis using root_ca_mismatch_unnoticed by blast
qed

text \<open>
  (C30) Credentials are given only to an address the virtualization agent knows, when an endpoint for the
  check is configured, and only for a signing request that the root CA has signed; the certificate and
  the root certificate in the answer are the signed ones, and the agent's state does not change.
\<close>

theorem credentials_guarded:
  assumes "RequestCredentials e r c rw_new = Ret c' w'" and "rw_body w' = [BCredentials cred]"
  shows "c' = c \<and> (\<exists>identity host port cert rca.
    ar_identity r = Decoded identity \<and> netSplitHostPort (ar_RemoteAddr r) = Inr (host, port) \<and>
    (ecfg_ValidationEndpoint (eaa_cfg c) \<noteq> [] \<longrightarrow> (\<exists>appID. ar_lookup r host = Inr appID \<and> appID \<noteq> [])) \<and>
    certs_rca (certsEaaCa c) = Some rca \<and> SignCSR e (ai_Csr identity) (Some rca) = Ret () (Inr cert) \<and>
    ac_ID cred = pn_CommonName (x_Subject cert) \<and>
    pem_Encode e \<lparr>pem_Type = ''CERTIFICATE'', pem_Bytes = x_Raw cert\<rparr> = Some (ac_Certificate cred))"
proof -
  have "c' = c" using credentials_keep [of e r c rw_new] assms(1) by simp
  have hdr: "rw_body (rwWriteHeader n (jsonHeader rw_new)) = []" "rw_body (jsonHeader rw_new) = []" for n
    by (simp_all add: rw_defs jsonHeader_def)
  obtain identity where i: "ar_identity r = Decoded identity"
    using assms by (cases "ar_identity r") (auto simp: RequestCredentials_def Let_def decoded_def hdr)
  obtain host port where h: "netSplitHostPort (ar_RemoteAddr r) = Inr (host, port)"
    using assms i by (cases "netSplitHostPort (ar_RemoteAddr r)") (auto simp: RequestCredentials_def Let_def decoded_def hdr)
  have v: "(if ecfg_ValidationEndpoint (eaa_cfg c) \<noteq> [] then validateAppIP (ar_lookup r) host else Inr True) = Inr True"
    using assms i h by (auto simp: RequestCredentials_def Let_def decoded_def hdr split: sum.splits bool.splits if_splits)
  obtain cert where s: "SignCSR e (ai_Csr identity) (certs_rca (certsEaaCa c)) = Ret () (Inr cert)"
    using assms i h v
    by (auto simp: RequestCredentials_def Let_def decoded_def hdr split: go.splits sum.splits)
  obtain rca where rca: "certs_rca (certsEaaCa c) = Some rca"
    using s by (auto simp: SignCSR_def split: option.splits if_splits sum.splits)
  have "ac_ID cred = pn_CommonName (x_Subject cert) \<and>
    pem_Encode e \<lparr>pem_Type = ''CERTIFICATE'', pem_Bytes = x_Raw cert\<rparr> = Some (ac_Certificate cred)"
    using assms i h v s
    by (auto simp: RequestCredentials_def Let_def decoded_def hdr rwWrite_def split: option.splits)
  moreover have "ecfg_ValidationEndpoint (eaa_cfg c) \<noteq> [] \<longrightarrow> (\<exists>appID. ar_lookup r host = Inr appID \<and> appID \<noteq> [])"
    using v by (auto simp: validateAppIP_def tryE_Inr_iff)
  ultimately show ?thesis using \<open>c' = c\<close> i h s rca by auto
qed

definition ex_auth :: auth_request where
  "ex_auth = \<lparr>ar_identity = Decoded \<lparr>ai_Csr = ''R1m0''\<rparr>, ar_RemoteAddr = ''10.0.0.1:99'',
     ar_lookup = (\<lambda>ip. Inr (if ip = ''10.0.0.1'' then ''app'' else []))\<rparr>"

theorem credentials_guarded_witness:
  "\<exists>w' cred appID. RequestCredentials ex_pki ex_auth ex_started rw_new = Ret ex_started w' \<and>
     rw_body w' = [BCredentials cred] \<and> ar_lookup ex_auth ''10.0.0.1'' = Inr appID \<and> appID \<noteq> []"
proof -
  have "(case RequestCredentials ex_pki ex_auth ex_started rw_new of
      Ret _ w' \<Rightarrow> (case rw_body w' of [BCredentials _] \<Rightarrow> True | _ \<Rightarrow> False) | Panic _ \<Rightarrow> False)"
    by code_simp
  then obtain c' w' cred where r: "RequestCredentials ex_pki ex_auth ex_started rw_new = Ret c' w'"
    and b: "rw_body w' = [BCredentials cred]"
    by (auto split: go.splits list.splits eaa_body.splits)
  have s: "netSplitHostPort (ar_RemoteAddr ex_auth) = Inr (''10.0.0.1'', ''99'')"
    and v: "ecfg_ValidationEndpoint (eaa_cfg ex_started) = ''eva''"
    by code_simp+
  from credentials_guarded [OF r b] s v r b show ?thesis by auto
qed

end
