(* ===== verification/Go_Net.thy ===== *)
theory Go_Net
  imports Go_Strings
begin

text \<open>
  \<open>net.ParseIP\<close>, \<open>net.ParseMAC\<close> and \<open>net.ParseCIDR\<close> of Go 1.14. An IP address is a list of 16 bytes, with
  an IPv4 address in the last four after the prefix \<open>::ffff\<close>; leading zeros of IPv4 numbers are allowed.
\<close>

section \<open>Numbers\<close>

definition digitOf :: "char \<Rightarrow> nat option" where
  "digitOf c = (let n = (of_char c :: nat) in if 48 \<le> n \<and> n < 58 then Some (n - 48) else None)"

definition hexOf :: "char \<Rightarrow> nat option" where
  "hexOf c =
     (let n = (of_char c :: nat)
      in if 48 \<le> n \<and> n < 58 then Some (n - 48)
         else if 97 \<le> n \<and> n < 103 then Some (n - 87)
         else if 65 \<le> n \<and> n < 71 then Some (n - 55)
         else None)"

text \<open>
  The number at the start of a string in base \<open>b\<close> and what follows it; \<open>None\<close> when there is no digit or
  the number reaches \<open>0xFFFFFF\<close>.
\<close>

fun numLoop :: "(char \<Rightarrow> nat option) \<Rightarrow> int \<Rightarrow> int \<Rightarrow> string \<Rightarrow> (int \<times> string) option" where
  "numLoop dig b n [] = Some (n, [])"
| "numLoop dig b n (c # cs) =
     (case dig c of
        None \<Rightarrow> Some (n, c # cs)
      | Some d \<Rightarrow> (let m = n * b + int d in if m \<ge> 16777215 then None else numLoop dig b m cs))"

definition prefixNum :: "(char \<Rightarrow> nat option) \<Rightarrow> int \<Rightarrow> string \<Rightarrow> (int \<times> string) option" where
  "prefixNum dig b s = (case s of [] \<Rightarrow> None | c # _ \<Rightarrow> if dig c = None then None else numLoop dig b 0 s)"

definition dtoi :: "string \<Rightarrow> (int \<times> string) option" where "dtoi = prefixNum digitOf 10"

definition xtoi :: "string \<Rightarrow> (int \<times> string) option" where "xtoi = prefixNum hexOf 16"

section \<open>IP addresses\<close>

type_synonym ipaddr = "int list"

fun parseOctets :: "nat \<Rightarrow> bool \<Rightarrow> string \<Rightarrow> (int list \<times> string) option" where
  "parseOctets 0 first s = Some ([], s)"
| "parseOctets (Suc k) first s =
     (case (if first then Some s else case s of [] \<Rightarrow> None | c # r \<Rightarrow> if c = CHR ''.'' then Some r else None) of
        None \<Rightarrow> None
      | Some t \<Rightarrow>
          (case dtoi t of
             None \<Rightarrow> None
           | Some (n, rest) \<Rightarrow>
               if n > 255 then None
               else map_option (\<lambda>(ns, r). (n # ns, r)) (parseOctets k False rest)))"

definition v4prefix :: "int list" where "v4prefix = replicate 10 0 @ [255, 255]"

definition parseIPv4 :: "string \<Rightarrow> ipaddr option" where
  "parseIPv4 s = (case parseOctets 4 True s of Some (ns, []) \<Rightarrow> Some (v4prefix @ ns) | _ \<Rightarrow> None)"

text \<open>
  The loop of \<open>parseIPv6\<close>, with the bytes read so far, the position of the ellipsis among them, and the
  number of 16-bit groups that may still follow. The result is the bytes and the position of the
  ellipsis of a string that is used up.
\<close>

fun v6loop :: "nat \<Rightarrow> int list \<Rightarrow> nat option \<Rightarrow> string \<Rightarrow> (int list \<times> nat option) option" where
  "v6loop 0 bytes ell s = (if s = [] then Some (bytes, ell) else None)"
| "v6loop (Suc k) bytes ell s =
     (case xtoi s of
        None \<Rightarrow> None
      | Some (n, rest) \<Rightarrow>
          if n > 65535 then None
          else if rest \<noteq> [] \<and> hd rest = CHR ''.'' then
            if ell = None \<and> length bytes \<noteq> 12 then None
            else if length bytes + 4 > 16 then None
            else map_option (\<lambda>ip. (bytes @ drop 12 ip, ell)) (parseIPv4 s)
          else
            (let bytes' = bytes @ [n div 256, n mod 256]
             in case rest of
                  [] \<Rightarrow> Some (bytes', ell)
                | c # t \<Rightarrow>
                    if c \<noteq> CHR '':'' \<or> t = [] then None
                    else if hd t = CHR '':'' then
                      if ell \<noteq> None then None
                      else if tl t = [] then Some (bytes', Some (length bytes'))
                      else v6loop k bytes' (Some (length bytes')) (tl t)
                    else v6loop k bytes' ell t))"

definition expandV6 :: "int list \<times> nat option \<Rightarrow> ipaddr option" where
  "expandV6 r =
     (case r of
        (bytes, None) \<Rightarrow> if length bytes < 16 then None else Some bytes
      | (bytes, Some p) \<Rightarrow>
          if length bytes < 16 then Some (take p bytes @ replicate (16 - length bytes) 0 @ drop p bytes) else None)"

definition parseIPv6 :: "string \<Rightarrow> ipaddr option" where
  "parseIPv6 s =
     (if take 2 s = ''::'' then
        if drop 2 s = [] then Some (replicate 16 0)
        else Option.bind (v6loop 8 [] (Some 0) (drop 2 s)) expandV6
      else Option.bind (v6loop 8 [] None s) expandV6)"

definition netParseIP :: "string \<Rightarrow> ipaddr option" where
  "netParseIP s =
     (case filter (\<lambda>c. c = CHR ''.'' \<or> c = CHR '':'') s of
        [] \<Rightarrow> None
      | c # _ \<Rightarrow> if c = CHR ''.'' then parseIPv4 s else parseIPv6 s)"

definition isUnspecified :: "ipaddr \<Rightarrow> bool" where
  "isUnspecified ip \<longleftrightarrow> ip = replicate 16 0 \<or> ip = v4prefix @ [0, 0, 0, 0]"

section \<open>MAC addresses\<close>

text \<open>Two hexadecimal digits, followed by the separator or the end.\<close>

definition xtoi2 :: "string \<Rightarrow> char option \<Rightarrow> int option" where
  "xtoi2 s e =
     (if length s > 2 \<and> e \<noteq> Some (s ! 2) then None
      else case s of
        a # b # _ \<Rightarrow>
          (case (hexOf a, hexOf b) of (Some x, Some y) \<Rightarrow> Some (int (16 * x + y)) | _ \<Rightarrow> None)
      | _ \<Rightarrow> None)"

fun macBytes :: "nat \<Rightarrow> char \<Rightarrow> string \<Rightarrow> int list option" where
  "macBytes 0 sep s = Some []"
| "macBytes (Suc k) sep s =
     (case xtoi2 s (Some sep) of None \<Rightarrow> None | Some b \<Rightarrow> map_option ((#) b) (macBytes k sep (drop 3 s)))"

fun macPairs :: "nat \<Rightarrow> string \<Rightarrow> int list option" where
  "macPairs 0 s = Some []"
| "macPairs (Suc k) s =
     (case (xtoi2 (take 2 s) None, xtoi2 (drop 2 s) (Some (CHR ''.''))) of
        (Some a, Some b) \<Rightarrow> map_option (\<lambda>r. a # b # r) (macPairs k (drop 5 s))
      | _ \<Rightarrow> None)"

definition netParseMAC :: "string \<Rightarrow> int list option" where
  "netParseMAC s =
     (if length s < 14 then None
      else if s ! 2 = CHR '':'' \<or> s ! 2 = CHR ''-'' then
        (let n = (length s + 1) div 3
         in if (length s + 1) mod 3 \<noteq> 0 \<or> n \<notin> {6, 8, 20} then None else macBytes n (s ! 2) s)
      else if s ! 4 = CHR ''.'' then
        (let n = 2 * (length s + 1) div 5
         in if (length s + 1) mod 5 \<noteq> 0 \<or> n \<notin> {6, 8, 20} then None else macPairs (n div 2) s)
      else None)"

section \<open>Networks\<close>

text \<open>
  \<open>ParseCIDR\<close>: the address, the address of the network, and the length of its mask. The network of an
  IPv4 address has four bytes.
\<close>

definition maskByte :: "int \<Rightarrow> nat \<Rightarrow> int \<Rightarrow> int" where
  "maskByte len i b = (let k = min 8 (max 0 (len - 8 * int i)) in b - b mod 2 ^ nat (8 - k))"

definition maskIP :: "int \<Rightarrow> int list \<Rightarrow> int list" where
  "maskIP len bytes = map (\<lambda>(i, b). maskByte len i b) (zip [0..<length bytes] bytes)"

definition netParseCIDR :: "string \<Rightarrow> (ipaddr \<times> int list \<times> int) option" where
  "netParseCIDR s =
     (case indexByte s (CHR ''/'') of
        None \<Rightarrow> None
      | Some i \<Rightarrow>
          (let addr = take i s; mask = drop (i + 1) s
           in case (parseIPv4 addr, parseIPv6 addr, dtoi mask) of
                (Some ip, _, Some (n, [])) \<Rightarrow> if n > 32 then None else Some (ip, maskIP n (drop 12 ip), n)
              | (None, Some ip, Some (n, [])) \<Rightarrow> if n > 128 then None else Some (ip, maskIP n ip, n)
              | _ \<Rightarrow> None))"

section \<open>Facts\<close>

lemma parseOctets_length: "parseOctets k f s = Some (ns, r) \<Longrightarrow> length ns = k"
  by (induction k f s arbitrary: ns r rule: parseOctets.induct) (auto split: option.splits if_splits prod.splits list.splits)

lemma parseIPv4_length: "parseIPv4 s = Some ip \<Longrightarrow> length ip = 16"
  by (auto simp: parseIPv4_def v4prefix_def dest: parseOctets_length split: option.splits list.splits prod.splits)

lemma v6loop_length:
  "v6loop k bytes ell s = Some (b, e) \<Longrightarrow> length bytes + 2 * k = 16 \<Longrightarrow> length b \<le> 16"
proof (induction k bytes ell s arbitrary: b e rule: v6loop.induct)
  case (2 k bytes ell s)
  then show ?case
    by (auto simp: Let_def dest!: parseIPv4_length split: option.splits prod.splits if_splits list.splits)
qed (auto split: if_splits)

lemma netParseIP_length: "netParseIP s = Some ip \<Longrightarrow> length ip = 16"
proof -
  have "length ip = 16" if "expandV6 r = Some ip" "length (fst r) \<le> 16" for r
    using that by (auto simp: expandV6_def split: prod.splits option.splits if_splits)
  moreover have "length (fst r) \<le> 16" if "v6loop 8 [] ell t = Some r" for r ell t
    using that v6loop_length [of 8 "[]" ell t "fst r" "snd r"] by simp
  ultimately show "netParseIP s = Some ip \<Longrightarrow> length ip = 16"
    by (auto simp: netParseIP_def parseIPv6_def dest: parseIPv4_length split: list.splits if_splits
        Option.bind_split_asm)
qed

end
