(* ===== verification/Cce_Entities.thy ===== *)
theory Cce_Entities
  imports Go_Net
begin

text \<open>
  The entities of the edge controller (package \<open>cce\<close>, \<open>edgecontroller/*.go\<close>) and their \<open>Validate\<close>
  operations. Integers that are read from JSON and only compared are \<open>int\<close>; a list of pointers is a
  list of options. Validation ends without an error, with the message of the first error, or with a
  panic when it reaches a nil pointer. The validity of a UUID and of a request URI are parameters.
\<close>

section \<open>Outcomes of a validation\<close>

datatype vres = VOk | VErr string | VPanic

fun vThen :: "vres \<Rightarrow> vres \<Rightarrow> vres" where
  "vThen VOk r = r"
| "vThen (VErr m) r = VErr m"
| "vThen VPanic r = VPanic"

definition vRefuse :: "bool \<Rightarrow> string \<Rightarrow> vres" where
  "vRefuse bad m = (if bad then VErr m else VOk)"

fun vIn :: "string \<Rightarrow> vres \<Rightarrow> vres" where
  "vIn p (VErr m) = VErr (p @ m)"
| "vIn p r = r"

fun vAll :: "vres list \<Rightarrow> vres" where
  "vAll [] = VOk"
| "vAll (r # rs) = vThen r (vAll rs)"

text \<open>A \<open>range\<close> loop with index that returns the first error.\<close>

fun vEach :: "(nat \<Rightarrow> 'a \<Rightarrow> vres) \<Rightarrow> nat \<Rightarrow> 'a list \<Rightarrow> vres" where
  "vEach f i [] = VOk"
| "vEach f i (x # xs) = vThen (f i x) (vEach f (Suc i) xs)"

text \<open>A call through a pointer, and one that is made only when the pointer is not nil.\<close>

definition vPtr :: "('a \<Rightarrow> vres) \<Rightarrow> 'a option \<Rightarrow> vres" where
  "vPtr f p = (case p of None \<Rightarrow> VPanic | Some x \<Rightarrow> f x)"

definition vOpt :: "('a \<Rightarrow> vres) \<Rightarrow> 'a option \<Rightarrow> vres" where
  "vOpt f p = (case p of None \<Rightarrow> VOk | Some x \<Rightarrow> f x)"

definition idx :: "string \<Rightarrow> nat \<Rightarrow> string" where
  "idx s i = s @ ''['' @ dec_digits i @ '']''"

record cce_lib =
  uuidOk :: "string \<Rightarrow> bool"
  parseRequestURI :: "string \<Rightarrow> bool"

section \<open>Applications\<close>

definition MaxCores :: int where "MaxCores = 8"

definition MaxMemory :: int where "MaxMemory = 16 * 1024"

definition MaxPort :: "32 word" where "MaxPort = 65535"

record PortProto =
  pp_Port :: "32 word"
  pp_Protocol :: string

record EPAFeature =
  ef_Key :: string
  ef_Value :: string

record App =
  ap_ID :: string
  ap_Type :: string
  ap_Name :: string
  ap_Version :: string
  ap_Vendor :: string
  ap_Description :: string
  ap_Cores :: int
  ap_Memory :: int
  ap_Ports :: "PortProto list"
  ap_Source :: string
  ap_EPAFeatures :: "EPAFeature list"

definition validatePort :: "PortProto \<Rightarrow> vres" where
  "validatePort pp =
     (if pp_Protocol pp \<in> {''tcp'', ''udp'', ''icmp'', ''sctp'', ''all''} \<or> (pp_Protocol pp = [] \<and> pp_Port pp \<noteq> 0) then
        vRefuse (pp_Port pp < 1 \<or> pp_Port pp > MaxPort) ''port must be in [1..65535]''
      else if pp_Protocol pp = [] then VOk
      else VErr ''protocol must be tcp, udp, sctp, icmp or all'')"

definition App_Validate :: "cce_lib \<Rightarrow> App \<Rightarrow> vres" where
  "App_Validate lib app = vAll
     [vRefuse (\<not> uuidOk lib (ap_ID app)) ''id not a valid uuid'',
      vRefuse (ap_Type app \<noteq> ''container'' \<and> ap_Type app \<noteq> ''vm'') ''type must be either \"container\" or \"vm\"'',
      vRefuse (ap_Name app = []) ''name cannot be empty'',
      vRefuse (ap_Vendor app = []) ''vendor cannot be empty'',
      vRefuse (ap_Version app = []) ''version cannot be empty'',
      vRefuse (ap_Cores app < 1 \<or> ap_Cores app > MaxCores) ''cores must be in [1..8]'',
      vRefuse (ap_Memory app < 1 \<or> ap_Memory app > MaxMemory) ''memory must be in [1..16384]'',
      vEach (\<lambda>_. validatePort) 0 (ap_Ports app),
      vRefuse (ap_Source app = []) ''source cannot be empty'',
      vRefuse (\<not> parseRequestURI lib (ap_Source app)) ''source cannot be parsed as a URI'']"

definition toLowerAscii :: "string \<Rightarrow> string" where
  "toLowerAscii =
     map (\<lambda>c. let n = (of_char c :: nat) in if 65 \<le> n \<and> n < 91 then char_of (n + 32) else c)"

text \<open>The name of the node feature that an EPA feature of an application asks for.\<close>

definition epaKey :: "EPAFeature \<Rightarrow> string option" where
  "epaKey f =
     (if ef_Key f = [] \<or> ef_Value f = [] \<or> length (ef_Key f) < 4 then None
      else if toLowerAscii (take 4 (ef_Key f)) \<noteq> ''nfd:'' \<or> drop 4 (ef_Key f) = [] then None
      else Some (drop 4 (ef_Key f)))"

fun EPAValidate_loop :: "EPAFeature list \<Rightarrow> (string, string) gomap \<Rightarrow> goerr" where
  "EPAValidate_loop [] nodeFeatures = None"
| "EPAValidate_loop (f # fs) nodeFeatures =
     (case epaKey f of
        None \<Rightarrow> EPAValidate_loop fs nodeFeatures
      | Some key \<Rightarrow>
          (case gm_get nodeFeatures key of
             None \<Rightarrow> Some (''Missing EPA Feature: ['' @ key @ ''] required by app'')
           | Some v \<Rightarrow>
               if v \<noteq> ef_Value f then
                 Some (''EPA Feature ['' @ key @ ''] value required: ['' @ ef_Value f @ ''] provided by node: [''
                       @ v @ ''] '')
               else EPAValidate_loop fs nodeFeatures))"

definition EPAValidate :: "App \<Rightarrow> (string, string) gomap \<Rightarrow> goerr" where
  "EPAValidate app nodeFeatures = EPAValidate_loop (ap_EPAFeatures app) nodeFeatures"

section \<open>Nodes\<close>

record Node =
  node_ID :: string
  node_Name :: string
  node_Location :: string
  node_Serial :: string

record NetworkInterface =
  ni_ID :: string
  ni_Description :: string
  ni_Driver :: string
  ni_Type :: string
  ni_MACAddress :: string
  ni_VLAN :: int
  ni_Zones :: "string list"
  ni_FallbackInterface :: string

record NetworkInterfaceTrafficPolicy =
  np_NetworkInterfaceID :: string
  np_TrafficPolicyID :: string

record NodeReq =
  nr_Node :: Node
  nr_NetworkInterfaces :: "NetworkInterface option list option"
  nr_TrafficPolicies :: "NetworkInterfaceTrafficPolicy list"

definition Node_Validate :: "cce_lib \<Rightarrow> Node \<Rightarrow> vres" where
  "Node_Validate lib n = vAll
     [vRefuse (\<not> uuidOk lib (node_ID n)) ''id not a valid uuid'',
      vRefuse (node_Name n = []) ''name cannot be empty'',
      vRefuse (node_Location n = []) ''location cannot be empty'',
      vRefuse (node_Serial n = []) ''serial cannot be empty'']"

definition validateInterface :: "nat \<Rightarrow> NetworkInterface \<Rightarrow> vres" where
  "validateInterface i ni = vAll
     [vRefuse (ni_ID ni = []) (idx ''network_interfaces'' i @ ''.id cannot be empty''),
      vRefuse (ni_Driver ni \<notin> {''kernel'', ''userspace''})
        (idx ''network_interfaces'' i @ ''.driver must be one of [kernel, userspace]''),
      vRefuse (ni_Type ni \<notin> {''none'', ''upstream'', ''downstream'', ''bidirectional'', ''breakout''})
        (idx ''network_interfaces'' i
         @ ''.type must be one of [none, upstream, downstream, bidirectional, breakout]''),
      vRefuse (ni_VLAN ni < 0 \<or> ni_VLAN ni > 255)
        (idx ''network_interfaces'' i @ ''.vlan must be in [0..255]'')]"

definition NodeReq_Validate :: "cce_lib \<Rightarrow> NodeReq \<Rightarrow> vres" where
  "NodeReq_Validate lib nr = vAll
     [Node_Validate lib (nr_Node nr),
      vEach (\<lambda>i. vPtr (validateInterface i)) 0 (case nr_NetworkInterfaces nr of None \<Rightarrow> [] | Some nis \<Rightarrow> nis),
      vEach (\<lambda>i tp. vRefuse (\<not> uuidOk lib (np_TrafficPolicyID tp))
                      (idx ''traffic_policies'' i @ ''.traffic_policy_id not a valid uuid''))
        0 (nr_TrafficPolicies nr)]"

record NodeApp =
  na_ID :: string
  na_NodeID :: string
  na_AppID :: string

record NodeAppReq =
  nq_NodeApp :: NodeApp
  nq_Cmd :: string

definition NodeApp_Validate :: "cce_lib \<Rightarrow> NodeApp \<Rightarrow> vres" where
  "NodeApp_Validate lib n_a = vAll
     [vRefuse (\<not> uuidOk lib (na_ID n_a)) ''id not a valid uuid'',
      vRefuse (\<not> uuidOk lib (na_NodeID n_a)) ''node_id not a valid uuid'',
      vRefuse (\<not> uuidOk lib (na_AppID n_a)) ''app_id not a valid uuid'']"

definition NodeAppReq_Validate :: "cce_lib \<Rightarrow> NodeAppReq \<Rightarrow> vres" where
  "NodeAppReq_Validate lib r =
     vThen (NodeApp_Validate lib (nq_NodeApp r))
       (if nq_Cmd r \<in> {''start'', ''stop'', ''restart''} then VOk
        else if nq_Cmd r = [] then VErr ''cmd missing''
        else VErr (''cmd \"'' @ nq_Cmd r @ ''\" is invalid''))"

record NodeAppTrafficPolicy =
  nt_ID :: string
  nt_NodeAppID :: string
  nt_TrafficPolicyID :: string

record NodeDNSConfig =
  nc_ID :: string
  nc_NodeID :: string
  nc_DNSConfigID :: string

definition NodeAppTrafficPolicy_Validate :: "cce_lib \<Rightarrow> NodeAppTrafficPolicy \<Rightarrow> vres" where
  "NodeAppTrafficPolicy_Validate lib p = vAll
     [vRefuse (\<not> uuidOk lib (nt_ID p)) ''id not a valid uuid'',
      vRefuse (\<not> uuidOk lib (nt_NodeAppID p)) ''nodes_apps_id not a valid uuid'',
      vRefuse (\<not> uuidOk lib (nt_TrafficPolicyID p)) ''traffic_policy_id not a valid uuid'']"

definition NodeDNSConfig_Validate :: "cce_lib \<Rightarrow> NodeDNSConfig \<Rightarrow> vres" where
  "NodeDNSConfig_Validate lib d = vAll
     [vRefuse (\<not> uuidOk lib (nc_ID d)) ''id not a valid uuid'',
      vRefuse (\<not> uuidOk lib (nc_NodeID d)) ''node_id not a valid uuid'',
      vRefuse (\<not> uuidOk lib (nc_DNSConfigID d)) ''dns_config_id not a valid uuid'']"

record NodeGRPCTarget =
  ng_ID :: string
  ng_NodeID :: string
  ng_GRPCTarget :: string

record NodeInterfaceTrafficPolicy =
  nx_ID :: string
  nx_NodeID :: string
  nx_NetworkInterfaceID :: string
  nx_TrafficPolicyID :: string

definition NodeInterfaceTrafficPolicy_Validate :: "cce_lib \<Rightarrow> NodeInterfaceTrafficPolicy \<Rightarrow> vres" where
  "NodeInterfaceTrafficPolicy_Validate lib p = vAll
     [vRefuse (\<not> uuidOk lib (nx_ID p)) ''id not a valid uuid'',
      vRefuse (\<not> uuidOk lib (nx_NodeID p)) ''node_id not a valid uuid'',
      vRefuse (\<not> uuidOk lib (nx_NetworkInterfaceID p)) ''network_interface_id not a valid uuid'',
      vRefuse (\<not> uuidOk lib (nx_TrafficPolicyID p)) ''traffic_policy_id not a valid uuid'']"

record NodeFeatureNFD =
  nf_ID :: string
  nf_NodeID :: string
  nf_NfdID :: string
  nf_NfdValue :: string

section \<open>DNS configurations\<close>

record DNSARecord =
  da_Name :: string
  da_Description :: string
  da_IPs :: "string list"

record DNSForwarder =
  df_Name :: string
  df_Description :: string
  df_IP :: string

record DNSConfig =
  dc_ID :: string
  dc_Name :: string
  dc_ARecords :: "DNSARecord option list"
  dc_Forwarders :: "DNSForwarder option list"

record DNSConfigAppAlias =
  dl_ID :: string
  dl_DNSConfigID :: string
  dl_Name :: string
  dl_Description :: string
  dl_AppID :: string

definition zeroIP :: "string \<Rightarrow> bool" where
  "zeroIP s = (case netParseIP s of None \<Rightarrow> False | Some ip \<Rightarrow> isUnspecified ip)"

definition DNSARecord_Validate :: "DNSARecord \<Rightarrow> vres" where
  "DNSARecord_Validate r = vAll
     [vRefuse (da_Name r = []) ''name cannot be empty'',
      vRefuse (da_Description r = []) ''description cannot be empty'',
      vRefuse (da_IPs r = []) ''ips cannot be empty'',
      vEach (\<lambda>i ip. vAll
         [vRefuse (ip = []) (idx ''ips'' i @ '' cannot be empty''),
          vRefuse (netParseIP ip = None) (idx ''ips'' i @ '' could not be parsed''),
          vRefuse (zeroIP ip) (idx ''ips'' i @ '' cannot be zero'')]) 0 (da_IPs r)]"

definition DNSForwarder_Validate :: "DNSForwarder \<Rightarrow> vres" where
  "DNSForwarder_Validate f = vAll
     [vRefuse (df_Name f = []) ''name cannot be empty'',
      vRefuse (df_Description f = []) ''description cannot be empty'',
      vRefuse (df_IP f = []) ''ip cannot be empty'',
      vRefuse (netParseIP (df_IP f) = None) ''ip could not be parsed'',
      vRefuse (zeroIP (df_IP f)) ''ip cannot be zero'']"

definition DNSConfig_Validate :: "cce_lib \<Rightarrow> DNSConfig \<Rightarrow> vres" where
  "DNSConfig_Validate lib cfg = vAll
     [vRefuse (\<not> uuidOk lib (dc_ID cfg)) ''id not a valid uuid'',
      vRefuse (dc_Name cfg = []) ''name cannot be empty'',
      vRefuse (dc_ARecords cfg = [] \<and> dc_Forwarders cfg = []) ''a_records|forwarders cannot both be empty'',
      vEach (\<lambda>i. vPtr (\<lambda>r. vIn (idx ''a_records'' i @ ''.'') (DNSARecord_Validate r))) 0 (dc_ARecords cfg),
      vEach (\<lambda>i. vPtr (\<lambda>f. vIn (idx ''forwarders'' i @ ''.'') (DNSForwarder_Validate f))) 0 (dc_Forwarders cfg)]"

definition DNSConfigAppAlias_Validate :: "cce_lib \<Rightarrow> DNSConfigAppAlias \<Rightarrow> vres" where
  "DNSConfigAppAlias_Validate lib a = vAll
     [vRefuse (\<not> uuidOk lib (dl_ID a)) ''id not a valid uuid'',
      vRefuse (\<not> uuidOk lib (dl_DNSConfigID a)) ''dns_config_id not a valid uuid'',
      vRefuse (dl_Name a = []) ''name cannot be empty'',
      vRefuse (dl_Description a = []) ''description cannot be empty'',
      vRefuse (\<not> uuidOk lib (dl_AppID a)) ''app_id not a valid uuid'']"

end
