(* ===== verification/Cce_Policies.thy ===== *)
theory Cce_Policies
  imports Cce_Entities
begin

text \<open>
  The traffic policies of the controller: \<open>edgecontroller/traffic_policy.go\<close> for nodes with their own
  data plane, \<open>traffic_policy_kube_ovn.go\<close> for nodes under Kubernetes with OVN, with the conversion of
  the latter to a Kubernetes network policy.
\<close>

section \<open>Policies of the native data plane\<close>

record MACFilter =
  mf_MACAddresses :: "string list"

record IPFilter =
  if_Address :: string
  if_Mask :: int
  if_BeginPort :: int
  if_EndPort :: int
  if_Protocol :: string

record GTPFilter =
  gf_Address :: string
  gf_Mask :: int
  gf_IMSIs :: "string list"

record MACModifier =
  mm_MACAddress :: string

record IPModifier =
  im_Address :: string
  im_Port :: int

record TrafficSelector =
  ts_Description :: string
  ts_MACs :: "MACFilter option"
  ts_IP :: "IPFilter option"
  ts_GTP :: "GTPFilter option"

record TrafficTarget =
  tt_Description :: string
  tt_Action :: string
  tt_MAC :: "MACModifier option"
  tt_IP :: "IPModifier option"

record TrafficRule =
  tr_Description :: string
  tr_Priority :: int
  tr_Source :: "TrafficSelector option"
  tr_Destination :: "TrafficSelector option"
  tr_Target :: "TrafficTarget option"

record TrafficPolicy =
  tp_ID :: string
  tp_Name :: string
  tp_Rules :: "TrafficRule option list"

text \<open>The error of \<open>net.ParseMAC\<close>.\<close>

definition macError :: "string \<Rightarrow> string" where
  "macError s = (if s = [] then ''invalid MAC address'' else ''address '' @ s @ '': invalid MAC address'')"

definition MACFilter_Validate :: "MACFilter \<Rightarrow> vres" where
  "MACFilter_Validate f =
     vEach (\<lambda>i mac. vRefuse (netParseMAC mac = None)
              (idx ''mac_addresses'' i @ '' could not be parsed ('' @ macError mac @ '')'')) 0 (mf_MACAddresses f)"

definition IPFilter_Validate :: "IPFilter \<Rightarrow> vres" where
  "IPFilter_Validate f = vAll
     [vRefuse (netParseIP (if_Address f) = None) ''address could not be parsed'',
      vRefuse (if_Mask f < 0 \<or> if_Mask f > 128) ''mask must be in [0..128]'',
      vRefuse (if_BeginPort f < 0 \<or> if_BeginPort f > 65535) ''begin_port must be in [0..65535]'',
      vRefuse (if_EndPort f < 0 \<or> if_EndPort f > 65535) ''end_port must be in [0..65535]'',
      vRefuse (if_BeginPort f > if_EndPort f) ''begin_port must be <= end_port'',
      vRefuse (if_Protocol f \<notin> {''tcp'', ''udp'', ''icmp'', ''sctp'', ''all''})
        ''protocol must be one of [tcp, udp, icmp, sctp, all]'']"

definition validateIMSI :: "nat \<Rightarrow> string \<Rightarrow> vres" where
  "validateIMSI i imsi =
     vRefuse (snd (Atoi imsi) \<or> length imsi \<notin> {14, 15}) (idx ''imsis'' i @ '' must be 14 or 15 digits'')"

definition GTPFilter_Validate :: "GTPFilter \<Rightarrow> vres" where
  "GTPFilter_Validate f = vAll
     [vRefuse (gf_Address f = []) ''address cannot be empty'',
      vRefuse (netParseIP (gf_Address f) = None) ''address could not be parsed'',
      vRefuse (gf_Mask f < 0 \<or> gf_Mask f > 128) ''mask must be in [0..128]'',
      vEach validateIMSI 0 (gf_IMSIs f)]"

definition MACModifier_Validate :: "MACModifier \<Rightarrow> vres" where
  "MACModifier_Validate m =
     vRefuse (netParseMAC (mm_MACAddress m) = None)
       (''mac_address could not be parsed ('' @ macError (mm_MACAddress m) @ '')'')"

definition IPModifier_Validate :: "IPModifier \<Rightarrow> vres" where
  "IPModifier_Validate m = vAll
     [vRefuse (netParseIP (im_Address m) = None) ''address could not be parsed'',
      vRefuse (im_Port m < 1 \<or> im_Port m > 65535) ''port must be in [1..65535]'']"

definition TrafficSelector_Validate :: "TrafficSelector \<Rightarrow> vres" where
  "TrafficSelector_Validate ts = vAll
     [vRefuse (Option.is_none (ts_MACs ts) \<and> Option.is_none (ts_IP ts) \<and> Option.is_none (ts_GTP ts))
        ''mac_filter|ip_filter|gtp_filter cannot all be nil'',
      vOpt (\<lambda>f. vIn ''mac_filter.'' (MACFilter_Validate f)) (ts_MACs ts),
      vOpt (\<lambda>f. vIn ''ip_filter.'' (IPFilter_Validate f)) (ts_IP ts),
      vOpt (\<lambda>f. vIn ''gtp_filter.'' (GTPFilter_Validate f)) (ts_GTP ts)]"

definition TrafficTarget_Validate :: "TrafficTarget \<Rightarrow> vres" where
  "TrafficTarget_Validate tt = vAll
     [vRefuse (tt_Action tt \<notin> {''accept'', ''reject'', ''drop''}) ''action must be one of [accept, reject, drop]'',
      vOpt (\<lambda>m. vIn ''mac_modifier.'' (MACModifier_Validate m)) (tt_MAC tt),
      vOpt (\<lambda>m. vIn ''ip_modifier.'' (IPModifier_Validate m)) (tt_IP tt)]"

definition TrafficRule_Validate :: "TrafficRule \<Rightarrow> vres" where
  "TrafficRule_Validate tr = vAll
     [vRefuse (tr_Priority tr < 1 \<or> tr_Priority tr > 65535) ''priority must be in [1..65535]'',
      vRefuse (Option.is_none (tr_Source tr) \<and> Option.is_none (tr_Destination tr))
        ''source & destination cannot both be empty'',
      vOpt (\<lambda>s. vIn ''source.'' (TrafficSelector_Validate s)) (tr_Source tr),
      vOpt (\<lambda>s. vIn ''destination.'' (TrafficSelector_Validate s)) (tr_Destination tr),
      (case tr_Target tr of
         None \<Rightarrow> VErr ''target cannot be empty''
       | Some t \<Rightarrow> vIn ''target.'' (TrafficTarget_Validate t))]"

definition TrafficPolicy_Validate :: "cce_lib \<Rightarrow> TrafficPolicy \<Rightarrow> vres" where
  "TrafficPolicy_Validate lib tp = vAll
     [vRefuse (\<not> uuidOk lib (tp_ID tp)) ''id not a valid uuid'',
      vRefuse (tp_Name tp = []) ''name cannot be empty'',
      vRefuse (tp_Rules tp = []) ''rules cannot be empty'',
      vEach (\<lambda>i. vPtr (\<lambda>r. vIn (idx ''rules'' i @ ''.'') (TrafficRule_Validate r))) 0 (tp_Rules tp)]"

section \<open>Policies of Kubernetes with OVN\<close>

record IPBlock =
  ib_CIDR :: string
  ib_Except :: "string list"

record Port =
  po_Port :: "16 word"
  po_Protocol :: string

record IngressRule =
  ir_Description :: string
  ir_From :: "IPBlock option list"
  ir_Ports :: "Port option list"

record EgressRule =
  er_Description :: string
  er_To :: "IPBlock option list"
  er_Ports :: "Port option list"

record TrafficPolicyKubeOVN =
  to_ID :: string
  to_Name :: string
  to_Ingress :: "IngressRule option list"
  to_Egress :: "EgressRule option list"

text \<open>
  \<open>IPNet.String\<close> writes the network of an IPv4 address in its 16-byte form as that of the 4-byte form; two
  networks have the same string when these forms agree.
\<close>

definition netCanon :: "int list \<times> int \<Rightarrow> int list \<times> int" where
  "netCanon n =
     (case n of (bytes, len) \<Rightarrow>
        if length bytes = 16 \<and> take 12 bytes = v4prefix then (drop 12 bytes, len - 96) else (bytes, len))"

text \<open>\<open>IP.Mask\<close> with the mask of a network, whose length is that of the address of the network.\<close>

definition ipMask :: "ipaddr \<Rightarrow> int list \<Rightarrow> int \<Rightarrow> int list option" where
  "ipMask ip net len =
     (if length net = 4 then if take 12 ip = v4prefix then Some (maskIP len (drop 12 ip)) else None
      else Some (maskIP len ip))"

definition validateExcept :: "string \<Rightarrow> int list \<Rightarrow> int \<Rightarrow> nat \<Rightarrow> string \<Rightarrow> vres" where
  "validateExcept cidr n nS i exceptCIDR =
     (case netParseCIDR exceptCIDR of
        None \<Rightarrow> VErr (idx ''Except'' i @ ''.Invalid CIDR: invalid CIDR address: '' @ exceptCIDR)
      | Some (exceptIP, exceptNet, eS) \<Rightarrow> vAll
          [vRefuse (netCanon (exceptNet, eS) = netCanon (n, nS))
             (idx ''Except'' i @ ''.CIDR('' @ exceptCIDR @ '') is the same as CIDR('' @ cidr @ '')''),
           vRefuse (ipMask exceptIP n nS \<noteq> Some n)
             (idx ''Except'' i @ ''.CIDR('' @ exceptCIDR @ '') is not in CIDR('' @ cidr @ '')''),
           vRefuse (eS \<le> nS) (idx ''Except'' i @ ''.CIDR('' @ exceptCIDR @ '') mask is invalid'')])"

definition IPBlock_Validate :: "IPBlock \<Rightarrow> vres" where
  "IPBlock_Validate ipb =
     (case netParseCIDR (ib_CIDR ipb) of
        None \<Rightarrow> VErr (''Invalid CIDR: invalid CIDR address: '' @ ib_CIDR ipb)
      | Some (_, n, nS) \<Rightarrow> vEach (validateExcept (ib_CIDR ipb) n nS) 0 (ib_Except ipb))"

definition Port_Validate :: "Port \<Rightarrow> vres" where
  "Port_Validate p =
     vRefuse (po_Protocol p \<notin> {''tcp'', ''udp'', ''sctp''}) (''Not supported protocol: '' @ po_Protocol p)"

definition validateBlocks :: "string \<Rightarrow> IPBlock option list \<Rightarrow> Port option list \<Rightarrow> vres" where
  "validateBlocks name blocks ports =
     vThen (vEach (\<lambda>i. vPtr (\<lambda>b. vIn (idx name i @ ''.'') (IPBlock_Validate b))) 0 blocks)
       (vEach (\<lambda>i. vPtr (\<lambda>p. vIn (idx ''Ports'' i @ ''.'') (Port_Validate p))) 0 ports)"

text \<open>A nil rule makes the range over its blocks panic.\<close>

definition IngressRule_Validate :: "IngressRule \<Rightarrow> vres" where
  "IngressRule_Validate ir = validateBlocks ''From'' (ir_From ir) (ir_Ports ir)"

definition EgressRule_Validate :: "EgressRule \<Rightarrow> vres" where
  "EgressRule_Validate er = validateBlocks ''To'' (er_To er) (er_Ports er)"

definition TrafficPolicyKubeOVN_Validate :: "cce_lib \<Rightarrow> TrafficPolicyKubeOVN \<Rightarrow> vres" where
  "TrafficPolicyKubeOVN_Validate lib tp = vAll
     [vRefuse (\<not> uuidOk lib (to_ID tp)) ''id not a valid UUID'',
      vRefuse (to_Name tp = []) ''name cannot be empty'',
      vRefuse (to_Ingress tp = [] \<and> to_Egress tp = []) ''ingress and egress cannot be empty'',
      vEach (\<lambda>i. vPtr (\<lambda>r. vIn (idx ''Ingress'' i @ ''.'') (IngressRule_Validate r))) 0 (to_Ingress tp),
      vEach (\<lambda>i. vPtr (\<lambda>r. vIn (idx ''Egress'' i @ ''.'') (EgressRule_Validate r))) 0 (to_Egress tp)]"

section \<open>The Kubernetes network policy\<close>

text \<open>The types of \<open>k8s.io/api/networking/v1\<close> that the conversion fills. \<open>None\<close> is a panic on a nil pointer.\<close>

record NetworkPolicyPort =
  kp_Protocol :: string
  kp_Port :: int

record NetworkPolicyPeer =
  kb_CIDR :: string
  kb_Except :: "string list"

record NetworkPolicyRule =
  kr_Ports :: "NetworkPolicyPort list"
  kr_Peers :: "NetworkPolicyPeer list"

record NetworkPolicy =
  ks_Ingress :: "NetworkPolicyRule list"
  ks_Egress :: "NetworkPolicyRule list"
  ks_PolicyTypes :: "string list"

fun eachPtr :: "('a \<Rightarrow> 'b option) \<Rightarrow> 'a option list \<Rightarrow> 'b list option" where
  "eachPtr f [] = Some []"
| "eachPtr f (None # xs) = None"
| "eachPtr f (Some x # xs) = Option.bind (f x) (\<lambda>y. map_option ((#) y) (eachPtr f xs))"

definition k8sProtocol :: "string \<Rightarrow> string" where
  "k8sProtocol protocol =
     (if protocol \<in> {''udp'', ''UDP''} then ''UDP'' else if protocol \<in> {''sctp'', ''SCTP''} then ''SCTP'' else ''TCP'')"

definition Port_ToK8s :: "Port \<Rightarrow> NetworkPolicyPort" where
  "Port_ToK8s p = \<lparr>kp_Protocol = k8sProtocol (po_Protocol p), kp_Port = uint (po_Port p)\<rparr>"

definition IPBlock_ToK8s :: "IPBlock \<Rightarrow> NetworkPolicyPeer" where
  "IPBlock_ToK8s ipb = \<lparr>kb_CIDR = ib_CIDR ipb, kb_Except = ib_Except ipb\<rparr>"

definition ruleToK8s :: "IPBlock option list \<Rightarrow> Port option list \<Rightarrow> NetworkPolicyRule option" where
  "ruleToK8s blocks ports =
     Option.bind (eachPtr (\<lambda>p. Some (Port_ToK8s p)) ports) (\<lambda>ps.
     map_option (\<lambda>bs. \<lparr>kr_Ports = ps, kr_Peers = bs\<rparr>) (eachPtr (\<lambda>b. Some (IPBlock_ToK8s b)) blocks))"

definition IngressRule_ToK8s :: "IngressRule \<Rightarrow> NetworkPolicyRule option" where
  "IngressRule_ToK8s ir = ruleToK8s (ir_From ir) (ir_Ports ir)"

definition EgressRule_ToK8s :: "EgressRule \<Rightarrow> NetworkPolicyRule option" where
  "EgressRule_ToK8s er = ruleToK8s (er_To er) (er_Ports er)"

definition ToK8s :: "TrafficPolicyKubeOVN \<Rightarrow> NetworkPolicy option" where
  "ToK8s tp =
     Option.bind (eachPtr IngressRule_ToK8s (to_Ingress tp)) (\<lambda>iss.
     map_option (\<lambda>es.
       \<lparr>ks_Ingress = iss, ks_Egress = es,
        ks_PolicyTypes = (if es \<noteq> [] then [''Egress''] else []) @ (if iss \<noteq> [] then [''Ingress''] else [])\<rparr>)
       (eachPtr EgressRule_ToK8s (to_Egress tp)))"

section \<open>Validation\<close>

lemma vThen_ok [simp]: "vThen a b = VOk \<longleftrightarrow> a = VOk \<and> b = VOk"
  by (cases a) auto

lemma vRefuse_ok [simp]: "vRefuse bad m = VOk \<longleftrightarrow> \<not> bad"
  by (simp add: vRefuse_def)

lemma vIn_ok [simp]: "vIn p r = VOk \<longleftrightarrow> r = VOk"
  by (cases r) auto

lemma vEach_ok: "vEach f i xs = VOk \<longleftrightarrow> (\<forall>j<length xs. f (i + j) (xs ! j) = VOk)"
proof (induction xs arbitrary: i)
  case (Cons x xs)
  have "(\<forall>j<length (x # xs). f (i + j) ((x # xs) ! j) = VOk)
        \<longleftrightarrow> f i x = VOk \<and> (\<forall>j<length xs. f (Suc i + j) (xs ! j) = VOk)"
    by (subst length_Cons, subst All_less_Suc2) simp
  with Cons show ?case by simp
qed simp

lemma vEach_ok_mem: "vEach f i xs = VOk \<Longrightarrow> x \<in> set xs \<Longrightarrow> \<exists>j. f j x = VOk"
  by (auto simp: vEach_ok in_set_conv_nth)

lemma vPtr_ok: "vPtr f p = VOk \<longleftrightarrow> (\<exists>x. p = Some x \<and> f x = VOk)"
  by (auto simp: vPtr_def split: option.splits)

lemma eachPtr_some:
  "(\<And>x. Some x \<in> set xs \<Longrightarrow> f x \<noteq> None) \<Longrightarrow> None \<notin> set xs \<Longrightarrow> \<exists>ys. eachPtr f xs = Some ys \<and> length ys = length xs"
proof (induction xs)
  case (Cons p xs)
  from Cons.prems obtain x where p: "p = Some x" by (cases p) auto
  with Cons.prems(1) [of x] obtain y where y: "f x = Some y" by auto
  from Cons obtain ys where "eachPtr f xs = Some ys \<and> length ys = length xs" by auto
  with p y show ?case by simp
qed simp

lemma validated_blocks:
  assumes "validateBlocks name blocks ports = VOk"
  shows "\<exists>r. ruleToK8s blocks ports = Some r"
proof -
  from assms have "None \<notin> set blocks" "None \<notin> set ports"
    by (auto simp: validateBlocks_def vPtr_ok dest: vEach_ok_mem)
  then show ?thesis
    using eachPtr_some [of ports "\<lambda>p. Some (Port_ToK8s p)"] eachPtr_some [of blocks "\<lambda>b. Some (IPBlock_ToK8s b)"]
    by (auto simp: ruleToK8s_def)
qed

text \<open>
  A validated policy is converted without a panic, keeps its rules, and asks Kubernetes to restrict
  exactly the directions it has rules for, at least one.
\<close>

lemma validated_ToK8s:
  assumes "TrafficPolicyKubeOVN_Validate lib tp = VOk"
  shows "\<exists>np. ToK8s tp = Some np \<and> length (ks_Ingress np) = length (to_Ingress tp)
           \<and> length (ks_Egress np) = length (to_Egress tp) \<and> ks_PolicyTypes np \<noteq> []"
proof -
  have ing: "IngressRule_ToK8s r \<noteq> None" if "Some r \<in> set (to_Ingress tp)" for r
    using assms that by (auto simp: TrafficPolicyKubeOVN_Validate_def IngressRule_ToK8s_def IngressRule_Validate_def
        vPtr_ok dest!: validated_blocks vEach_ok_mem [of _ _ "to_Ingress tp"])
  have eg: "EgressRule_ToK8s r \<noteq> None" if "Some r \<in> set (to_Egress tp)" for r
    using assms that by (auto simp: TrafficPolicyKubeOVN_Validate_def EgressRule_ToK8s_def EgressRule_Validate_def
        vPtr_ok dest!: validated_blocks vEach_ok_mem [of _ _ "to_Egress tp"])
  have "None \<notin> set (to_Ingress tp)" "None \<notin> set (to_Egress tp)" and ne: "to_Ingress tp \<noteq> [] \<or> to_Egress tp \<noteq> []"
    using assms by (auto simp: TrafficPolicyKubeOVN_Validate_def vPtr_ok dest: vEach_ok_mem)
  with eachPtr_some [of "to_Ingress tp" IngressRule_ToK8s, OF ing] eachPtr_some [of "to_Egress tp" EgressRule_ToK8s, OF eg]
  obtain iss es where "eachPtr IngressRule_ToK8s (to_Ingress tp) = Some iss" "length iss = length (to_Ingress tp)"
    "eachPtr EgressRule_ToK8s (to_Egress tp) = Some es" "length es = length (to_Egress tp)" by blast
  with ne show ?thesis by (auto simp: ToK8s_def)
qed

end
