(* ===== verification/Cce_Db.thy ===== *)
theory Cce_Db
  imports Cce_Policies "HOL-Library.Char_ord" "HOL-Library.List_Lexorder"
begin

text \<open>
  The database of the controller: the tables of \<open>edgecontroller/mysql/schema.sql\<close> and the statements of
  \<open>mysql/persistence_service.go\<close>. A row is an entity, which the service writes as JSON and reads back;
  the indexed columns are generated from its fields. The database is a map from table and id to
  entities; a statement that violates a width, a unique key or a foreign key is refused and changes
  nothing. Text columns compare exactly.
\<close>

section \<open>Entities and tables\<close>

datatype table =
    T_nodes
  | T_node_grpc_targets
  | T_nodes_nfd_features
  | T_apps
  | T_traffic_policies
  | T_dns_configs
  | T_credentials
  | T_dns_configs_app_aliases
  | T_nodes_apps
  | T_nodes_dns_configs
  | T_nodes_network_interfaces_traffic_policies
  | T_nodes_apps_traffic_policies

record Credentials =
  cr_ID :: string
  cr_Certificate :: string

datatype entity =
    ENode Node
  | ETarget NodeGRPCTarget
  | ENfd NodeFeatureNFD
  | EApp App
  | EPolicy TrafficPolicy
  | EPolicyOVN TrafficPolicyKubeOVN
  | EDns DNSConfig
  | ECreds Credentials
  | EAlias DNSConfigAppAlias
  | ENodeApp NodeApp
  | ENodeDns NodeDNSConfig
  | EIfacePolicy NodeInterfaceTrafficPolicy
  | EAppPolicy NodeAppTrafficPolicy

fun GetTableName :: "entity \<Rightarrow> table" where
  "GetTableName (ENode _) = T_nodes"
| "GetTableName (ETarget _) = T_node_grpc_targets"
| "GetTableName (ENfd _) = T_nodes_nfd_features"
| "GetTableName (EApp _) = T_apps"
| "GetTableName (EPolicy _) = T_traffic_policies"
| "GetTableName (EPolicyOVN _) = T_traffic_policies"
| "GetTableName (EDns _) = T_dns_configs"
| "GetTableName (ECreds _) = T_credentials"
| "GetTableName (EAlias _) = T_dns_configs_app_aliases"
| "GetTableName (ENodeApp _) = T_nodes_apps"
| "GetTableName (ENodeDns _) = T_nodes_dns_configs"
| "GetTableName (EIfacePolicy _) = T_nodes_network_interfaces_traffic_policies"
| "GetTableName (EAppPolicy _) = T_nodes_apps_traffic_policies"

fun GetID :: "entity \<Rightarrow> string" where
  "GetID (ENode n) = node_ID n"
| "GetID (ETarget t) = ng_ID t"
| "GetID (ENfd f) = nf_ID f"
| "GetID (EApp a) = ap_ID a"
| "GetID (EPolicy p) = tp_ID p"
| "GetID (EPolicyOVN p) = to_ID p"
| "GetID (EDns d) = dc_ID d"
| "GetID (ECreds c) = cr_ID c"
| "GetID (EAlias a) = dl_ID a"
| "GetID (ENodeApp a) = na_ID a"
| "GetID (ENodeDns d) = nc_ID d"
| "GetID (EIfacePolicy p) = nx_ID p"
| "GetID (EAppPolicy p) = nt_ID p"

text \<open>\<open>SetID\<close> of the entities that the generic \<open>create\<close> handler makes.\<close>

fun SetID :: "string \<Rightarrow> entity \<Rightarrow> entity" where
  "SetID i (ENode n) = ENode (n\<lparr>node_ID := i\<rparr>)"
| "SetID i (ETarget t) = ETarget (t\<lparr>ng_ID := i\<rparr>)"
| "SetID i (ENfd f) = ENfd (f\<lparr>nf_ID := i\<rparr>)"
| "SetID i (EApp a) = EApp (a\<lparr>ap_ID := i\<rparr>)"
| "SetID i (EPolicy p) = EPolicy (p\<lparr>tp_ID := i\<rparr>)"
| "SetID i (EPolicyOVN p) = EPolicyOVN (p\<lparr>to_ID := i\<rparr>)"
| "SetID i (EDns d) = EDns (d\<lparr>dc_ID := i\<rparr>)"
| "SetID i (ECreds c) = ECreds (c\<lparr>cr_ID := i\<rparr>)"
| "SetID i (EAlias a) = EAlias (a\<lparr>dl_ID := i\<rparr>)"
| "SetID i (ENodeApp a) = ENodeApp (a\<lparr>na_ID := i\<rparr>)"
| "SetID i (ENodeDns d) = ENodeDns (d\<lparr>nc_ID := i\<rparr>)"
| "SetID i (EIfacePolicy p) = EIfacePolicy (p\<lparr>nx_ID := i\<rparr>)"
| "SetID i (EAppPolicy p) = EAppPolicy (p\<lparr>nt_ID := i\<rparr>)"

lemma SetID_simps [simp]: "GetTableName (SetID i e) = GetTableName e" "GetID (SetID i e) = i"
  by (cases e; simp)+

section \<open>The schema\<close>

text \<open>The generated columns of a row besides \<open>id\<close>, with the width of each.\<close>

fun columns :: "entity \<Rightarrow> (string \<times> nat \<times> string) list" where
  "columns (ENode n) = [(''serial'', 128, node_Serial n)]"
| "columns (ETarget t) = [(''node_id'', 36, ng_NodeID t), (''grpc_target'', 47, ng_GRPCTarget t)]"
| "columns (ENfd f) = [(''node_id'', 36, nf_NodeID f), (''nfd_id'', 36, nf_NfdID f)]"
| "columns (EApp a) = [(''type'', 36, ap_Type a)]"
| "columns (EPolicy p) = []"
| "columns (EPolicyOVN p) = []"
| "columns (EDns d) = []"
| "columns (ECreds c) = []"
| "columns (EAlias a) = [(''dns_config_id'', 36, dl_DNSConfigID a), (''app_id'', 36, dl_AppID a)]"
| "columns (ENodeApp a) = [(''node_id'', 36, na_NodeID a), (''app_id'', 36, na_AppID a)]"
| "columns (ENodeDns d) = [(''node_id'', 36, nc_NodeID d), (''dns_config_id'', 36, nc_DNSConfigID d)]"
| "columns (EIfacePolicy p) =
     [(''node_id'', 36, nx_NodeID p), (''network_interface_id'', 36, nx_NetworkInterfaceID p),
      (''traffic_policy_id'', 36, nx_TrafficPolicyID p)]"
| "columns (EAppPolicy p) =
     [(''nodes_apps_id'', 36, nt_NodeAppID p), (''traffic_policy_id'', 36, nt_TrafficPolicyID p)]"

definition column :: "entity \<Rightarrow> string \<Rightarrow> string option" where
  "column e c = (if c = ''id'' then Some (GetID e) else map_option snd (map_of (columns e) c))"

text \<open>The unique keys besides \<open>id\<close>, and the foreign keys with whether a deletion cascades.\<close>

fun uniqueKeys :: "table \<Rightarrow> string list list" where
  "uniqueKeys T_node_grpc_targets = [[''node_id''], [''grpc_target'']]"
| "uniqueKeys T_nodes_nfd_features = [[''node_id'', ''nfd_id'']]"
| "uniqueKeys T_dns_configs_app_aliases = [[''dns_config_id'', ''app_id'']]"
| "uniqueKeys T_nodes_apps = [[''node_id'', ''app_id'']]"
| "uniqueKeys T_nodes_dns_configs = [[''node_id'']]"
| "uniqueKeys T_nodes_network_interfaces_traffic_policies = [[''node_id'', ''network_interface_id'']]"
| "uniqueKeys T_nodes_apps_traffic_policies = [[''nodes_apps_id'', ''traffic_policy_id'']]"
| "uniqueKeys _ = []"

fun foreignKeys :: "entity \<Rightarrow> (table \<times> string \<times> bool) list" where
  "foreignKeys (ETarget t) = [(T_nodes, ng_NodeID t, True)]"
| "foreignKeys (ENfd f) = [(T_nodes, nf_NodeID f, True)]"
| "foreignKeys (EAlias a) = [(T_dns_configs, dl_DNSConfigID a, False), (T_apps, dl_AppID a, False)]"
| "foreignKeys (ENodeApp a) = [(T_nodes, na_NodeID a, False), (T_apps, na_AppID a, False)]"
| "foreignKeys (ENodeDns d) = [(T_nodes, nc_NodeID d, False), (T_dns_configs, nc_DNSConfigID d, False)]"
| "foreignKeys (EIfacePolicy p) = [(T_nodes, nx_NodeID p, False), (T_traffic_policies, nx_TrafficPolicyID p, False)]"
| "foreignKeys (EAppPolicy p) =
     [(T_nodes_apps, nt_NodeAppID p, False), (T_traffic_policies, nt_TrafficPolicyID p, False)]"
| "foreignKeys _ = []"

fun FilterFields :: "table \<Rightarrow> string list" where
  "FilterFields T_nodes = [''serial'']"
| "FilterFields T_node_grpc_targets = [''node_id'']"
| "FilterFields T_nodes_nfd_features = [''id'', ''node_id'', ''nfd_id'', ''nfd_value'']"
| "FilterFields T_dns_configs_app_aliases = [''dns_config_id'', ''app_id'']"
| "FilterFields T_nodes_apps = [''node_id'', ''app_id'']"
| "FilterFields T_nodes_dns_configs = [''node_id'', ''dns_config_id'']"
| "FilterFields T_nodes_network_interfaces_traffic_policies = [''node_id'', ''network_interface_id'', ''traffic_policy_id'']"
| "FilterFields T_nodes_apps_traffic_policies = [''nodes_apps_id'', ''traffic_policy_id'']"
| "FilterFields _ = []"

text \<open>The columns that a condition may name.\<close>

fun tableColumns :: "table \<Rightarrow> string list" where
  "tableColumns T_nodes = [''id'', ''serial'']"
| "tableColumns T_node_grpc_targets = [''id'', ''node_id'', ''grpc_target'']"
| "tableColumns T_nodes_nfd_features = [''id'', ''node_id'', ''nfd_id'']"
| "tableColumns T_apps = [''id'', ''type'']"
| "tableColumns T_traffic_policies = [''id'']"
| "tableColumns T_dns_configs = [''id'']"
| "tableColumns T_credentials = [''id'']"
| "tableColumns T_dns_configs_app_aliases = [''id'', ''dns_config_id'', ''app_id'']"
| "tableColumns T_nodes_apps = [''id'', ''node_id'', ''app_id'']"
| "tableColumns T_nodes_dns_configs = [''id'', ''node_id'', ''dns_config_id'']"
| "tableColumns T_nodes_network_interfaces_traffic_policies =
     [''id'', ''node_id'', ''network_interface_id'', ''traffic_policy_id'']"
| "tableColumns T_nodes_apps_traffic_policies = [''id'', ''nodes_apps_id'', ''traffic_policy_id'']"

section \<open>Statements\<close>

type_synonym cdb = "(table \<times> string, entity) gomap"

definition dbKey :: "entity \<Rightarrow> table \<times> string" where
  "dbKey e = (GetTableName e, GetID e)"

definition widthOk :: "entity \<Rightarrow> bool" where
  "widthOk e \<longleftrightarrow> length (GetID e) \<le> 36 \<and> list_all (\<lambda>(c, w, v). length v \<le> w) (columns e)"

definition fkOk :: "cdb \<Rightarrow> entity \<Rightarrow> bool" where
  "fkOk db e \<longleftrightarrow> list_all (\<lambda>(t, v, _). \<not> Option.is_none (gm_get db (t, v))) (foreignKeys e)"

text \<open>Two rows of one table that agree on a unique key.\<close>

definition clash :: "entity \<Rightarrow> entity \<Rightarrow> bool" where
  "clash e e' \<longleftrightarrow>
     GetTableName e = GetTableName e'
     \<and> list_ex (list_all (\<lambda>c. column e c = column e' c)) (uniqueKeys (GetTableName e))"

definition rowOk :: "cdb \<Rightarrow> entity \<Rightarrow> bool" where
  "rowOk db e \<longleftrightarrow> widthOk e \<and> fkOk db e \<and> list_all (\<lambda>(k, e'). k \<noteq> dbKey e \<longrightarrow> \<not> clash e e') db"

text \<open>\<open>INSERT\<close>, \<open>UPDATE ... WHERE id\<close> and \<open>DELETE ... WHERE id\<close>; \<open>None\<close> is a refused statement.\<close>

definition sqlInsert :: "entity \<Rightarrow> cdb \<Rightarrow> cdb option" where
  "sqlInsert e db =
     (if Option.is_none (gm_get db (dbKey e)) \<and> rowOk db e then Some (gm_put (dbKey e) e db) else None)"

definition sqlUpdate :: "entity \<Rightarrow> cdb \<Rightarrow> cdb option" where
  "sqlUpdate e db =
     (if Option.is_none (gm_get db (dbKey e)) then Some db
      else if rowOk db e then Some (gm_put (dbKey e) e db) else None)"

definition refersTo :: "bool \<Rightarrow> table \<times> string \<Rightarrow> entity \<Rightarrow> bool" where
  "refersTo cascade k e \<longleftrightarrow> list_ex (\<lambda>(t, v, c). (t, v) = k \<and> c = cascade) (foreignKeys e)"

definition sqlDelete :: "table \<times> string \<Rightarrow> cdb \<Rightarrow> (bool \<times> cdb) option" where
  "sqlDelete k db =
     (if Option.is_none (gm_get db k) then Some (False, db)
      else if list_ex (\<lambda>(_, e). refersTo False k e) db then None
      else Some (True, filter (\<lambda>(k', e). k' \<noteq> k \<and> \<not> refersTo True k e) db))"

definition tableRows :: "table \<Rightarrow> cdb \<Rightarrow> entity list" where
  "tableRows t db = map snd (filter (\<lambda>(k, _). fst k = t) db)"

definition sqlSelect :: "table \<Rightarrow> (string \<times> string) list \<Rightarrow> cdb \<Rightarrow> entity list option" where
  "sqlSelect t conds db =
     (if list_all (\<lambda>(c, _). List.member (tableColumns t) c) conds
      then Some (filter (\<lambda>e. list_all (\<lambda>(c, v). column e c = Some v) conds) (tableRows t db))
      else None)"

text \<open>
  The loop of \<open>Filter\<close> that looks for a field among the sorted fields of the entity, and stops at the first
  one that is not smaller.
\<close>

fun allowedField_loop :: "string list \<Rightarrow> string \<Rightarrow> bool" where
  "allowedField_loop [] f = False"
| "allowedField_loop (a # as) f = (if f = a then True else if a \<ge> f then False else allowedField_loop as f)"

definition allowedField :: "table \<Rightarrow> string \<Rightarrow> bool" where
  "allowedField t f = allowedField_loop (sort (FilterFields t)) f"

lemma allowedField_loop_iff: "sorted xs \<Longrightarrow> allowedField_loop xs f \<longleftrightarrow> f \<in> set xs"
  by (induction xs) (auto simp: not_le)

lemma allowedField_iff: "allowedField t f \<longleftrightarrow> f \<in> set (FilterFields t)"
  by (simp add: allowedField_def allowedField_loop_iff)

section \<open>Integrity\<close>

definition db_ok :: "cdb \<Rightarrow> bool" where
  "db_ok db \<longleftrightarrow>
     gm_ok db
     \<and> (\<forall>k e. gm_get db k = Some e \<longrightarrow> k = dbKey e \<and> widthOk e \<and> fkOk db e)
     \<and> (\<forall>k k' e e'. gm_get db k = Some e \<longrightarrow> gm_get db k' = Some e' \<longrightarrow> clash e e' \<longrightarrow> k = k')"

lemma db_okI:
  assumes "gm_ok db"
    and "\<And>k e. gm_get db k = Some e \<Longrightarrow> k = dbKey e \<and> widthOk e \<and> fkOk db e"
    and "\<And>k k' e e'. gm_get db k = Some e \<Longrightarrow> gm_get db k' = Some e' \<Longrightarrow> clash e e' \<Longrightarrow> k = k'"
  shows "db_ok db"
  using assms unfolding db_ok_def by blast

lemma db_ok_map [simp]: "db_ok db \<Longrightarrow> gm_ok db"
  by (simp add: db_ok_def)

lemma db_ok_row: "db_ok db \<Longrightarrow> gm_get db k = Some e \<Longrightarrow> k = dbKey e \<and> widthOk e \<and> fkOk db e"
  unfolding db_ok_def by blast

lemma db_ok_unique: "db_ok db \<Longrightarrow> gm_get db k = Some e \<Longrightarrow> gm_get db k' = Some e' \<Longrightarrow> clash e e' \<Longrightarrow> k = k'"
  unfolding db_ok_def by blast

lemma clash_sym: "clash e e' = clash e' e"
proof -
  have "clash e' e" if "clash e e'" for e e'
    using that unfolding clash_def by (elim conjE) (simp add: eq_commute [of "column e' _"])
  then show ?thesis by blast
qed

lemma db_ok_empty [simp]: "db_ok []"
  by (simp add: db_ok_def)

lemma fkOk_iff: "fkOk db e \<longleftrightarrow> (\<forall>t v c. (t, v, c) \<in> set (foreignKeys e) \<longrightarrow> gm_get db (t, v) \<noteq> None)"
  by (force simp: fkOk_def list_all_iff Option.is_none_def)

lemma fkOk_put [simp]: "fkOk db e \<Longrightarrow> fkOk (gm_put k e' db) e"
  by (auto simp: fkOk_iff)

lemma rowOk_iff:
  "gm_ok db \<Longrightarrow>
   rowOk db e \<longleftrightarrow> widthOk e \<and> fkOk db e \<and> (\<forall>k e'. gm_get db k = Some e' \<longrightarrow> k \<noteq> dbKey e \<longrightarrow> \<not> clash e e')"
  by (auto simp: rowOk_def list_all_iff gm_mem_get [symmetric])

lemma db_ok_put:
  assumes "db_ok db" "rowOk db e"
  shows "db_ok (gm_put (dbKey e) e db)"
proof (rule db_okI)
  have ok: "gm_ok db" using assms(1) by simp
  have row: "widthOk e" "fkOk db e" "\<And>k e'. gm_get db k = Some e' \<Longrightarrow> k \<noteq> dbKey e \<Longrightarrow> \<not> clash e e'"
    using assms(2) by (auto simp: rowOk_iff [OF ok])
  show "gm_ok (gm_put (dbKey e) e db)" using ok by simp
  show "k = dbKey a \<and> widthOk a \<and> fkOk (gm_put (dbKey e) e db) a"
    if "gm_get (gm_put (dbKey e) e db) k = Some a" for k a
    using that row(1,2) db_ok_row [OF assms(1), of k a] by (auto split: if_splits)
  show "k1 = k2"
    if "gm_get (gm_put (dbKey e) e db) k1 = Some a" "gm_get (gm_put (dbKey e) e db) k2 = Some b" "clash a b" for k1 k2 a b
    using that row(3) [of k1 a] row(3) [of k2 b] clash_sym [of a b] db_ok_unique [OF assms(1), of k1 a k2 b]
    by (auto split: if_splits)
qed

lemma sqlInsert_ok: "db_ok db \<Longrightarrow> sqlInsert e db = Some db' \<Longrightarrow> db_ok db'"
  by (auto simp: sqlInsert_def intro: db_ok_put split: if_splits)

lemma sqlUpdate_ok: "db_ok db \<Longrightarrow> sqlUpdate e db = Some db' \<Longrightarrow> db_ok db'"
  by (auto simp: sqlUpdate_def intro: db_ok_put split: if_splits)

text \<open>A key that a row refers to with a cascading foreign key is a node, and no row refers to that row.\<close>

lemma cascade_leaf:
  "refersTo True k e \<Longrightarrow> fst k = T_nodes \<and> GetTableName e \<in> {T_node_grpc_targets, T_nodes_nfd_features}"
  by (cases e) (auto simp: refersTo_def)

lemma foreignKeys_targets:
  "(t, v, c) \<in> set (foreignKeys e) \<Longrightarrow> t \<notin> {T_node_grpc_targets, T_nodes_nfd_features}"
  by (cases e) auto

lemma gm_get_filter:
  "gm_ok m \<Longrightarrow> gm_get (filter P m) k = (case gm_get m k of None \<Rightarrow> None | Some v \<Rightarrow> if P (k, v) then Some v else None)"
proof (induction m arbitrary: k)
  case (Cons p m)
  obtain k' v where p: "p = (k', v)" by (cases p)
  have "gm_get (filter P m) k' = None" if "gm_get m k' = None"
    using Cons that by (simp add: p)
  with Cons show ?case by (auto simp: p split: option.splits)
qed simp

lemma gm_ok_filter: "gm_ok m \<Longrightarrow> gm_ok (filter P m)"
  by (simp add: gm_ok_def distinct_map_filter)

lemma sqlDelete_ok:
  assumes ok: "db_ok db" and del: "sqlDelete k db = Some (b, db')"
  shows "db_ok db'"
proof (cases "gm_get db k")
  case None
  then show ?thesis using ok del by (simp add: sqlDelete_def)
next
  case (Some e0)
  let ?P = "\<lambda>(k', e). k' \<noteq> k \<and> \<not> refersTo True k e"
  have gm: "gm_ok db" using ok by (simp add: db_ok_def)
  have db': "db' = filter ?P db" and none: "\<And>k' e. gm_get db k' = Some e \<Longrightarrow> \<not> refersTo False k e"
    using del Some gm by (auto simp: sqlDelete_def list_ex_iff gm_mem_get split: if_splits)
  have get: "gm_get db' k' = Some e \<longleftrightarrow> gm_get db k' = Some e \<and> k' \<noteq> k \<and> \<not> refersTo True k e" for k' e
    by (auto simp: db' gm_get_filter [OF gm] split: option.splits)
  have fk: "gm_get db' (t, v) \<noteq> None"
    if e: "gm_get db' k' = Some e" and fk: "(t, v, c) \<in> set (foreignKeys e)" for k' e t v c
  proof -
    from e have e': "gm_get db k' = Some e" "\<not> refersTo True k e" by (simp_all add: get)
    from db_ok_row [OF ok e'(1)] fk obtain r where r: "gm_get db (t, v) = Some r"
      unfolding fkOk_iff by blast
    have "(t, v) \<noteq> k"
    proof
      assume "(t, v) = k"
      with fk have "refersTo c k e" by (auto simp: refersTo_def list_ex_iff)
      with e'(2) none [OF e'(1)] show False by (cases c) auto
    qed
    moreover have "\<not> refersTo True k r"
      using foreignKeys_targets [OF fk] cascade_leaf [of k r] db_ok_row [OF ok r] by (auto simp: dbKey_def)
    ultimately show ?thesis using r get [of "(t, v)" r] by auto
  qed
  show ?thesis
  proof (rule db_okI)
    show "gm_ok db'" using ok by (simp add: db' gm_ok_filter)
    show "k' = dbKey e \<and> widthOk e \<and> fkOk db' e" if "gm_get db' k' = Some e" for k' e
      using that fk [OF that] db_ok_row [OF ok, of k' e] unfolding fkOk_iff get by blast
    show "k1 = k2" if "gm_get db' k1 = Some e" "gm_get db' k2 = Some e'" "clash e e'" for k1 k2 e e'
      using that db_ok_unique [OF ok] unfolding get by blast
  qed
qed

text \<open>
  What the handlers check before they store an entity: an application or a policy has passed its
  validation.
\<close>

definition storable :: "entity \<Rightarrow> bool" where
  "storable e \<longleftrightarrow>
     (case e of
        EApp a \<Rightarrow> (\<exists>lib. App_Validate lib a = VOk)
      | EPolicy p \<Rightarrow> (\<exists>lib. TrafficPolicy_Validate lib p = VOk)
      | EPolicyOVN p \<Rightarrow> (\<exists>lib. TrafficPolicyKubeOVN_Validate lib p = VOk)
      | _ \<Rightarrow> True)"

definition rows_valid :: "cdb \<Rightarrow> bool" where
  "rows_valid db \<longleftrightarrow> list_all (\<lambda>(k, e). storable e) db"

lemma list_all_gm_put: "list_all (\<lambda>(k, e). Q e) m \<Longrightarrow> Q v \<Longrightarrow> list_all (\<lambda>(k, e). Q e) (gm_put k v m)"
  by (induction m) auto

lemma sqlDelete_subset: "sqlDelete k db = Some (b, db') \<Longrightarrow> set db' \<subseteq> set db"
  by (auto simp: sqlDelete_def split: if_splits)

lemma rows_valid_get: "rows_valid db \<Longrightarrow> gm_get db k = Some e \<Longrightarrow> storable e"
  by (induction db) (auto simp: rows_valid_def split: if_splits)

section \<open>Invariants of the database\<close>

text \<open>
  A predicate of the database that the statements of the controller keep: the interface between the
  database and the handlers, which write only storable entities.
\<close>

locale db_invariant =
  fixes P :: "cdb \<Rightarrow> bool"
  assumes empty: "P []"
    and insert: "P db \<Longrightarrow> storable e \<Longrightarrow> sqlInsert e db = Some db' \<Longrightarrow> P db'"
    and update: "P db \<Longrightarrow> storable e \<Longrightarrow> sqlUpdate e db = Some db' \<Longrightarrow> P db'"
    and delete: "P db \<Longrightarrow> sqlDelete k db = Some (b, db') \<Longrightarrow> P db'"

interpretation integrity: db_invariant db_ok
  by unfold_locales (auto intro: sqlInsert_ok sqlUpdate_ok sqlDelete_ok)

interpretation validity: db_invariant rows_valid
proof unfold_locales
  show "rows_valid []" by (simp add: rows_valid_def)
  show "rows_valid db'" if "rows_valid db" "storable e" "sqlInsert e db = Some db'" for db e db'
    using that by (auto simp: rows_valid_def sqlInsert_def intro: list_all_gm_put split: if_splits)
  show "rows_valid db'" if "rows_valid db" "storable e" "sqlUpdate e db = Some db'" for db e db'
    using that by (auto simp: rows_valid_def sqlUpdate_def intro: list_all_gm_put split: if_splits)
  show "rows_valid db'" if "rows_valid db" "sqlDelete k db = Some (b, db')" for db k b db'
    using that sqlDelete_subset [of k db b db'] by (auto simp: rows_valid_def list_all_iff)
qed

section \<open>What a statement reads\<close>

lemma tableRows_iff:
  assumes ok: "db_ok db"
  shows "e \<in> set (tableRows t db) \<longleftrightarrow> gm_get db (dbKey e) = Some e \<and> GetTableName e = t"
proof -
  have gm: "gm_ok db" using ok by simp
  have "e \<in> set (tableRows t db) \<longleftrightarrow> (\<exists>k. (k, e) \<in> set db \<and> fst k = t)"
    by (force simp: tableRows_def)
  also have "\<dots> \<longleftrightarrow> (\<exists>k. gm_get db k = Some e \<and> fst k = t)"
    by (simp only: gm_mem_get [OF gm])
  also have "\<dots> \<longleftrightarrow> gm_get db (dbKey e) = Some e \<and> GetTableName e = t"
    using db_ok_row [OF ok, of _ e] by (metis dbKey_def fst_conv)
  finally show ?thesis .
qed

lemma keyed_distinct: "distinct (map fst xs) \<Longrightarrow> list_all (\<lambda>(k, e). k = dbKey e) xs \<Longrightarrow> distinct (map snd xs)"
  by (induction xs) (force simp: list_all_iff)+

lemma distinct_tableRows:
  assumes ok: "db_ok db"
  shows "distinct (tableRows t db)"
proof -
  have "distinct (map fst (filter (\<lambda>(k, _). fst k = t) db))"
    using db_ok_map [OF ok] by (simp add: gm_ok_def distinct_map_filter)
  moreover have "list_all (\<lambda>(k, e). k = dbKey e) (filter (\<lambda>(k, _). fst k = t) db)"
    using db_ok_row [OF ok] gm_mem_get [OF db_ok_map [OF ok]] by (auto simp: list_all_iff)
  ultimately show ?thesis unfolding tableRows_def by (rule keyed_distinct)
qed

end
