(* ===== verification/Cce_Messages.thy ===== *)
theory Cce_Messages
  imports Cce_Db
begin

text \<open>
  The messages that the controller sends to the agents of a node, and the conversions that build them
  from the entities (\<open>edgecontroller/grpc/clients\<close>). The message types are the generated ones of
  \<open>ela.proto\<close> and \<open>eva.proto\<close>; \<open>None\<close> as the result of a conversion is a panic.
\<close>

section \<open>Traffic policies\<close>

datatype TargetAction = ACCEPT | REJECT | DROP

record PBIPFilter =
  qi_Address :: string
  qi_Mask :: "32 word"
  qi_BeginPort :: "32 word"
  qi_EndPort :: "32 word"
  qi_Protocol :: string

record PBGTPFilter =
  qg_Address :: string
  qg_Mask :: "32 word"
  qg_Imsis :: "string list"

record PBIPModifier =
  qm_Address :: string
  qm_Port :: "32 word"

record PBTrafficSelector =
  qs_Description :: string
  qs_Macs :: "string list option"
  qs_Ip :: "PBIPFilter option"
  qs_Gtp :: "PBGTPFilter option"

record PBTrafficTarget =
  qt_Description :: string
  qt_Action :: TargetAction
  qt_Mac :: "string option"
  qt_Ip :: "PBIPModifier option"

record PBTrafficRule =
  qr_Description :: string
  qr_Priority :: "32 word"
  qr_Source :: "PBTrafficSelector option"
  qr_Destination :: "PBTrafficSelector option"
  qr_Target :: "PBTrafficTarget option"

record PBTrafficPolicy =
  qp_Id :: string
  qp_TrafficRules :: "PBTrafficRule list"

text \<open>The conversion of an \<open>int\<close> to \<open>uint32\<close> keeps the low 32 bits.\<close>

definition toUint32 :: "int \<Rightarrow> 32 word" where
  "toUint32 i = word_of_int i"

definition toPBMACFilter :: "MACFilter option \<Rightarrow> string list option" where
  "toPBMACFilter macf = map_option mf_MACAddresses macf"

definition withoutAll :: "string \<Rightarrow> string" where
  "withoutAll protocol = (if protocol \<noteq> ''all'' then protocol else [])"

definition toPBIPFilter :: "IPFilter option \<Rightarrow> PBIPFilter option" where
  "toPBIPFilter = map_option (\<lambda>ipf.
     \<lparr>qi_Address = if_Address ipf, qi_Mask = toUint32 (if_Mask ipf), qi_BeginPort = toUint32 (if_BeginPort ipf),
      qi_EndPort = toUint32 (if_EndPort ipf), qi_Protocol = withoutAll (if_Protocol ipf)\<rparr>)"

definition toPBGTPFilter :: "GTPFilter option \<Rightarrow> PBGTPFilter option" where
  "toPBGTPFilter = map_option (\<lambda>gtpf.
     \<lparr>qg_Address = gf_Address gtpf, qg_Mask = toUint32 (gf_Mask gtpf), qg_Imsis = gf_IMSIs gtpf\<rparr>)"

definition toPBTrafficSelector :: "TrafficSelector option \<Rightarrow> PBTrafficSelector option" where
  "toPBTrafficSelector = map_option (\<lambda>ts.
     \<lparr>qs_Description = ts_Description ts, qs_Macs = toPBMACFilter (ts_MACs ts), qs_Ip = toPBIPFilter (ts_IP ts),
      qs_Gtp = toPBGTPFilter (ts_GTP ts)\<rparr>)"

definition toPBTargetAction :: "string \<Rightarrow> TargetAction option" where
  "toPBTargetAction action =
     (if action = ''accept'' then Some ACCEPT else if action = ''reject'' then Some REJECT
      else if action = ''drop'' then Some DROP else None)"

definition toPBMACModifier :: "MACModifier option \<Rightarrow> string option" where
  "toPBMACModifier = map_option mm_MACAddress"

definition toPBIPModifier :: "IPModifier option \<Rightarrow> PBIPModifier option" where
  "toPBIPModifier = map_option (\<lambda>m. \<lparr>qm_Address = im_Address m, qm_Port = toUint32 (im_Port m)\<rparr>)"

definition toPBTrafficTarget :: "TrafficTarget option \<Rightarrow> PBTrafficTarget option option" where
  "toPBTrafficTarget target =
     (case target of
        None \<Rightarrow> Some None
      | Some t \<Rightarrow> map_option (\<lambda>a. Some
          \<lparr>qt_Description = tt_Description t, qt_Action = a, qt_Mac = toPBMACModifier (tt_MAC t),
           qt_Ip = toPBIPModifier (tt_IP t)\<rparr>) (toPBTargetAction (tt_Action t)))"

definition toPBTrafficRule :: "TrafficRule \<Rightarrow> PBTrafficRule option" where
  "toPBTrafficRule tr =
     map_option (\<lambda>target.
       \<lparr>qr_Description = tr_Description tr, qr_Priority = toUint32 (tr_Priority tr),
        qr_Source = toPBTrafficSelector (tr_Source tr), qr_Destination = toPBTrafficSelector (tr_Destination tr),
        qr_Target = target\<rparr>) (toPBTrafficTarget (tr_Target tr))"

text \<open>A nil policy has no rules; it is sent to delete the one in force.\<close>

definition toPBTrafficPolicy :: "string \<Rightarrow> TrafficPolicy option \<Rightarrow> PBTrafficPolicy option" where
  "toPBTrafficPolicy i tp =
     map_option (\<lambda>rules. \<lparr>qp_Id = i, qp_TrafficRules = rules\<rparr>)
       (eachPtr toPBTrafficRule (case tp of None \<Rightarrow> [] | Some p \<Rightarrow> tp_Rules p))"

section \<open>Network interfaces\<close>

text \<open>
  The drivers KERNEL and USERSPACE are the numbers 0 and 1 on the wire, the types NONE, UPSTREAM,
  DOWNSTREAM, BIDIRECTIONAL and BREAKOUT the numbers 0 to 4. A message may hold other numbers.
\<close>

record PBNetworkInterface =
  pi_Id :: string
  pi_Description :: string
  pi_Driver :: int
  pi_Type :: int
  pi_MacAddress :: string
  pi_Vlan :: "32 word"
  pi_Zones :: "string list"
  pi_FallbackInterface :: string

definition toPBInterfaceDriver :: "string \<Rightarrow> int" where
  "toPBInterfaceDriver driver = (if driver = ''kernel'' then 0 else if driver = ''userspace'' then 1 else 0)"

definition toPBInterfaceType :: "string \<Rightarrow> int" where
  "toPBInterfaceType ifType =
     (if ifType = ''none'' then 0 else if ifType = ''upstream'' then 1 else if ifType = ''downstream'' then 2
      else if ifType = ''bidirectional'' then 3 else if ifType = ''breakout'' then 4 else 0)"

definition toPBNetworkInterface :: "NetworkInterface \<Rightarrow> PBNetworkInterface" where
  "toPBNetworkInterface ni =
     \<lparr>pi_Id = ni_ID ni, pi_Description = ni_Description ni, pi_Driver = toPBInterfaceDriver (ni_Driver ni),
      pi_Type = toPBInterfaceType (ni_Type ni), pi_MacAddress = ni_MACAddress ni, pi_Vlan = toUint32 (ni_VLAN ni),
      pi_Zones = ni_Zones ni, pi_FallbackInterface = ni_FallbackInterface ni\<rparr>"

definition fromPBInterfaceDriver :: "int \<Rightarrow> string" where
  "fromPBInterfaceDriver d = (if d = 0 then ''kernel'' else if d = 1 then ''userspace'' else ''kernel'')"

definition fromPBInterfaceType :: "int \<Rightarrow> string" where
  "fromPBInterfaceType ty =
     (if ty = 0 then ''none'' else if ty = 1 then ''upstream'' else if ty = 2 then ''downstream''
      else if ty = 3 then ''bidirectional'' else if ty = 4 then ''breakout'' else ''none'')"

definition fromPBNetworkInterface :: "PBNetworkInterface \<Rightarrow> NetworkInterface" where
  "fromPBNetworkInterface pbNI =
     \<lparr>ni_ID = pi_Id pbNI, ni_Description = pi_Description pbNI, ni_Driver = fromPBInterfaceDriver (pi_Driver pbNI),
      ni_Type = fromPBInterfaceType (pi_Type pbNI), ni_MACAddress = pi_MacAddress pbNI, ni_VLAN = uint (pi_Vlan pbNI),
      ni_Zones = pi_Zones pbNI, ni_FallbackInterface = pi_FallbackInterface pbNI\<rparr>"

section \<open>Applications\<close>

record CNIConfiguration =
  cn_CniConfig :: string
  cn_InterfaceName :: string
  cn_Path :: string
  cn_Args :: string

record CNIArgs =
  cg_InterfaceName :: string
  cg_Path :: string
  cg_ExtraArgs :: string

record PBApplication =
  pa_Id :: string
  pa_Name :: string
  pa_Vendor :: string
  pa_Description :: string
  pa_Version :: string
  pa_Cores :: "32 word"
  pa_Memory :: "32 word"
  pa_Ports :: "PortProto list"
  pa_HttpUri :: string
  pa_EACJsonBlob :: "EPAFeature list"
  pa_CniConf :: "CNIConfiguration option"

text \<open>The two files with the CNI configuration: the first as read, the second as decoded.\<close>

definition getCNIConf :: "string option \<Rightarrow> CNIArgs rbody \<Rightarrow> CNIConfiguration option" where
  "getCNIConf conf args =
     (case (conf, args) of
        (Some c, Decoded a) \<Rightarrow>
          Some \<lparr>cn_CniConfig = c, cn_InterfaceName = cg_InterfaceName a, cn_Path = cg_Path a, cn_Args = cg_ExtraArgs a\<rparr>
      | _ \<Rightarrow> None)"

definition toPBApp :: "CNIConfiguration option \<Rightarrow> App \<Rightarrow> PBApplication" where
  "toPBApp cni app =
     \<lparr>pa_Id = ap_ID app, pa_Name = ap_Name app, pa_Vendor = ap_Vendor app, pa_Description = ap_Description app,
      pa_Version = ap_Version app, pa_Cores = toUint32 (ap_Cores app), pa_Memory = toUint32 (ap_Memory app),
      pa_Ports = map (\<lambda>pp. pp\<lparr>pp_Protocol := withoutAll (pp_Protocol pp)\<rparr>) (ap_Ports app),
      pa_HttpUri = ap_Source app, pa_EACJsonBlob = ap_EPAFeatures app,
      pa_CniConf = map_option (\<lambda>c. c\<lparr>cn_Args := cn_Args c @ '';appID='' @ ap_ID app\<rparr>) cni\<rparr>"

datatype LifecycleStatus =
  LsUnknown | LsDeploying | LsDeployed | LsStarting | LsRunning | LsStopping | LsStopped | LsError

fun LifecycleStatus_String :: "LifecycleStatus \<Rightarrow> string" where
  "LifecycleStatus_String LsDeploying = ''deploying''"
| "LifecycleStatus_String LsDeployed = ''deployed''"
| "LifecycleStatus_String LsStarting = ''starting''"
| "LifecycleStatus_String LsRunning = ''running''"
| "LifecycleStatus_String LsStopping = ''stopping''"
| "LifecycleStatus_String LsStopped = ''stopped''"
| "LifecycleStatus_String LsError = ''error''"
| "LifecycleStatus_String LsUnknown = ''unknown''"

text \<open>The statuses of \<open>eva.proto\<close>, numbered 0 to 7 in this order.\<close>

definition fromPBLifecycleStatus :: "int \<Rightarrow> LifecycleStatus" where
  "fromPBLifecycleStatus n =
     (if n = 0 then LsUnknown else if n = 1 then LsDeploying else if n = 2 then LsDeployed
      else if n = 3 then LsStarting else if n = 4 then LsRunning else if n = 5 then LsStopping
      else if n = 6 then LsStopped else if n = 7 then LsError else LsUnknown)"

section \<open>Kubernetes objects\<close>

text \<open>What \<open>k8s/k8s.go\<close> sends to the API server, with labels as association lists.\<close>

record K8sPort =
  kq_Port :: "32 word"
  kq_Protocol :: string

record K8sApp =
  ka_ID :: string
  ka_Cores :: int
  ka_Memory :: int
  ka_Image :: string
  ka_Ports :: "K8sPort list"

definition toK8SApp :: "App \<Rightarrow> K8sApp" where
  "toK8SApp app =
     \<lparr>ka_ID = ap_ID app, ka_Cores = ap_Cores app, ka_Memory = ap_Memory app, ka_Image = ap_ID app @ '':latest'',
      ka_Ports = map (\<lambda>p. \<lparr>kq_Port = pp_Port p, kq_Protocol = pp_Protocol p\<rparr>) (ap_Ports app)\<rparr>"

record K8sDeployment =
  kd_Name :: string
  kd_Labels :: "(string \<times> string) list"
  kd_Replicas :: int
  kd_Cores :: int
  kd_MemoryBytes :: "64 word"
  kd_Container :: string
  kd_Image :: string
  kd_PullPolicy :: string
  kd_Ports :: "K8sPort list"
  kd_NodeSelector :: "(string \<times> string) list"

record K8sContainerStatus =
  kw_WaitingReason :: "string option"

record K8sPod =
  ko_Deleted :: bool
  ko_Containers :: "K8sContainerStatus list"
  ko_Phase :: string
  ko_IP :: string
  ko_Labels :: "(string, string) gomap"

section \<open>Calls to other systems\<close>

datatype remote =
    NodeConnect string string
  | DeployContainer PBApplication
  | DeployVM PBApplication
  | RedeployApp PBApplication
  | UndeployApp string
  | StartApp string
  | StopApp string
  | RestartApp string
  | GetStatus string
  | SetA string "string list"
  | DeleteA string "string list"
  | SetForwarders "string list"
  | DeleteForwarders "string list"
  | InterfaceGetAll
  | InterfaceBulkUpdate "PBNetworkInterface list"
  | SetInterfacePolicy PBTrafficPolicy
  | SetAppPolicy PBTrafficPolicy
  | K8sListNodes string
  | K8sCreateDeployment K8sDeployment
  | K8sListDeployments string
  | K8sDeleteDeployment string
  | K8sUpdateScale string int
  | K8sListPods string
  | K8sPostPolicy string "(string \<times> string) list" NetworkPolicy
  | K8sDeletePolicy string
  | RegisterHost string

section \<open>Lossless conversions\<close>

lemma toUint32_uint: "0 \<le> i \<Longrightarrow> i < 2 ^ 32 \<Longrightarrow> uint (toUint32 i) = i"
  by (simp add: toUint32_def uint_word_of_int_eq take_bit_int_eq_self)

lemma interface_round_trip:
  assumes "validateInterface i ni = VOk"
  shows "fromPBNetworkInterface (toPBNetworkInterface ni) = ni"
proof -
  have "uint (toUint32 (ni_VLAN ni)) = ni_VLAN ni"
    using assms by (intro toUint32_uint) (auto simp: validateInterface_def)
  then show ?thesis
    using assms by (auto simp: fromPBNetworkInterface_def toPBNetworkInterface_def validateInterface_def
        toPBInterfaceDriver_def toPBInterfaceType_def fromPBInterfaceDriver_def fromPBInterfaceType_def)
qed

text \<open>A validated policy is converted without a panic, rule by rule.\<close>

lemma validated_rule_PB:
  assumes "TrafficRule_Validate r = VOk"
  shows "\<exists>q. toPBTrafficRule r = Some q"
  using assms by (cases "tr_Target r")
    (auto simp: TrafficRule_Validate_def toPBTrafficRule_def toPBTrafficTarget_def TrafficTarget_Validate_def
      toPBTargetAction_def)

lemma validated_policy_PB:
  assumes "TrafficPolicy_Validate lib tp = VOk"
  shows "\<exists>q. toPBTrafficPolicy i (Some tp) = Some q \<and> length (qp_TrafficRules q) = length (tp_Rules tp)"
proof -
  have "toPBTrafficRule r \<noteq> None" if "Some r \<in> set (tp_Rules tp)" for r
  proof -
    from assms that obtain j where "vPtr (\<lambda>r. vIn (idx ''rules'' j @ ''.'') (TrafficRule_Validate r)) (Some r) = VOk"
      by (auto simp: TrafficPolicy_Validate_def dest: vEach_ok_mem)
    then show ?thesis using validated_rule_PB [of r] by (auto simp: vPtr_ok)
  qed
  moreover have "None \<notin> set (tp_Rules tp)"
    using assms by (auto simp: TrafficPolicy_Validate_def vPtr_ok dest: vEach_ok_mem)
  ultimately show ?thesis
    using eachPtr_some [of "tp_Rules tp" toPBTrafficRule] by (auto simp: toPBTrafficPolicy_def)
qed

end
