(* ===== verification/Cce_Control.thy ===== *)
theory Cce_Control
  imports Cce_Messages
begin

text \<open>
  The controller as a program over a state: the database, the calls it made to other systems with
  whether each succeeded, and how many calls and identifiers it has used. An operation takes the
  environment and a state and returns, panics, or stops with an error. The environment says of every
  call to the database, to a node or to the Kubernetes API, by its number, whether it fails and with
  which error, and what it answers. A failed statement leaves the database as it was.
\<close>

section \<open>Environment and state\<close>

datatype OrchestrationMode =
  OrchestrationModeNative | OrchestrationModeKubernetes | OrchestrationModeKubernetesOVN

record cce_env =
  ce_lib :: cce_lib
  ce_mode :: OrchestrationMode
  ce_ELAPort :: string
  ce_EVAPort :: string
  ce_fail :: "nat \<Rightarrow> goerr"
  ce_refused :: string
  ce_jsonErr :: string
  ce_uuid :: "nat \<Rightarrow> string"
  ce_notFound :: "nat \<Rightarrow> string option"
  ce_ifaces :: "nat \<Rightarrow> PBNetworkInterface list"
  ce_status :: "nat \<Rightarrow> int"
  ce_k8sErr :: goerr
  ce_pullPolicy :: string
  ce_nodes :: "nat \<Rightarrow> nat"
  ce_deployments :: "nat \<Rightarrow> K8sDeployment list"
  ce_pods :: "nat \<Rightarrow> K8sPod list"
  ce_cniConf :: "string option"
  ce_cniArgs :: "CNIArgs rbody"

record cce_state =
  ct_db :: cdb
  ct_log :: "(remote \<times> bool) list"
  ct_calls :: nat
  ct_uuids :: nat

definition cce_init :: cce_state where
  "cce_init = \<lparr>ct_db = [], ct_log = [], ct_calls = 0, ct_uuids = 0\<rparr>"

section \<open>Sequencing\<close>

type_synonym ('x, 'a) ctl = "cce_env \<Rightarrow> cce_state \<Rightarrow> (cce_state, 'x + 'a) go"

definition retC :: "'a \<Rightarrow> ('x, 'a) ctl" where
  "retC x = (\<lambda>env s. Ret s (Inr x))"

definition throwC :: "'x \<Rightarrow> ('x, 'a) ctl" where
  "throwC x = (\<lambda>env s. Ret s (Inl x))"

definition panicC :: "('x, 'a) ctl" where
  "panicC = (\<lambda>env s. Panic s)"

definition bindC :: "('x, 'a) ctl \<Rightarrow> ('a \<Rightarrow> ('x, 'b) ctl) \<Rightarrow> ('x, 'b) ctl" where
  "bindC m f = (\<lambda>env s.
     case m env s of
       Panic s' \<Rightarrow> Panic s'
     | Ret s' r \<Rightarrow> (case r of Inl x \<Rightarrow> Ret s' (Inl x) | Inr a \<Rightarrow> f a env s'))"

text \<open>The error of a call as the caller reports it, and a call whose error the caller inspects.\<close>

definition onErr :: "('x \<Rightarrow> 'y) \<Rightarrow> ('x, 'a) ctl \<Rightarrow> ('y, 'a) ctl" where
  "onErr h m = (\<lambda>env s.
     case m env s of
       Panic s' \<Rightarrow> Panic s'
     | Ret s' r \<Rightarrow> (case r of Inl x \<Rightarrow> Ret s' (Inl (h x)) | Inr a \<Rightarrow> Ret s' (Inr a)))"

definition tryC :: "('x, 'a) ctl \<Rightarrow> ('y, 'x + 'a) ctl" where
  "tryC m = (\<lambda>env s. case m env s of Panic s' \<Rightarrow> Panic s' | Ret s' r \<Rightarrow> Ret s' (Inr r))"

definition askC :: "(cce_env \<Rightarrow> 'a) \<Rightarrow> ('x, 'a) ctl" where
  "askC f = (\<lambda>env s. Ret s (Inr (f env)))"

fun eachC :: "('a \<Rightarrow> ('x, unit) ctl) \<Rightarrow> 'a list \<Rightarrow> ('x, unit) ctl" where
  "eachC f [] = retC ()"
| "eachC f (x # xs) = bindC (f x) (\<lambda>_. eachC f xs)"

fun mapC :: "('a \<Rightarrow> ('x, 'b) ctl) \<Rightarrow> 'a list \<Rightarrow> ('x, 'b list) ctl" where
  "mapC f [] = retC []"
| "mapC f (x # xs) = bindC (f x) (\<lambda>y. bindC (mapC f xs) (\<lambda>ys. retC (y # ys)))"

definition ptrC :: "'a option \<Rightarrow> ('x, 'a) ctl" where
  "ptrC p = (case p of None \<Rightarrow> panicC | Some x \<Rightarrow> retC x)"

definition guardC :: "bool \<Rightarrow> 'x \<Rightarrow> ('x, unit) ctl" where
  "guardC ok x = (if ok then retC () else throwC x)"

definition errC :: "goerr \<Rightarrow> (string, unit) ctl" where
  "errC err = (case err of None \<Rightarrow> retC () | Some m \<Rightarrow> throwC m)"

text \<open>A call to another system; the number of the call selects its answer.\<close>

definition callC :: "remote \<Rightarrow> (string, nat) ctl" where
  "callC c = (\<lambda>env s.
     let n = ct_calls s;
         err = ce_fail env n;
         s' = s\<lparr>ct_calls := Suc n, ct_log := ct_log s @ [(c, err = None)]\<rparr>
     in case err of Some e \<Rightarrow> Ret s' (Inl e) | None \<Rightarrow> Ret s' (Inr n))"

text \<open>\<open>uuid.New\<close>.\<close>

definition uuidNew :: "('x, string) ctl" where
  "uuidNew = (\<lambda>env s. Ret (s\<lparr>ct_uuids := Suc (ct_uuids s)\<rparr>) (Inr (ce_uuid env (ct_uuids s))))"

definition wrapMsg :: "string \<Rightarrow> string \<Rightarrow> string" where
  "wrapMsg m e = m @ '': '' @ e"

section \<open>The persistence service\<close>

text \<open>A statement: the connection may fail, else the database runs or refuses it.\<close>

definition stmtC :: "string \<Rightarrow> (cdb \<Rightarrow> ('a \<times> cdb) option) \<Rightarrow> (string, 'a) ctl" where
  "stmtC m run = (\<lambda>env s.
     let n = ct_calls s; s' = s\<lparr>ct_calls := Suc n\<rparr>
     in case ce_fail env n of
          Some e \<Rightarrow> Ret s' (Inl (wrapMsg m e))
        | None \<Rightarrow>
            (case run (ct_db s) of
               None \<Rightarrow> Ret s' (Inl (wrapMsg m (ce_refused env)))
             | Some (a, db) \<Rightarrow> Ret (s'\<lparr>ct_db := db\<rparr>) (Inr a)))"

definition Create :: "entity \<Rightarrow> (string, unit) ctl" where
  "Create e = stmtC ''error inserting record'' (\<lambda>db. map_option (Pair ()) (sqlInsert e db))"

definition Read :: "table \<Rightarrow> string \<Rightarrow> (string, entity option) ctl" where
  "Read t i = stmtC ''error running query'' (\<lambda>db. Some (gm_get db (t, i), db))"

definition ReadAll :: "table \<Rightarrow> (string, entity list) ctl" where
  "ReadAll t = stmtC ''error running query'' (\<lambda>db. Some (tableRows t db, db))"

fun checkFields :: "table \<Rightarrow> (string \<times> string) list \<Rightarrow> (string, unit) ctl" where
  "checkFields t [] = retC ()"
| "checkFields t ((f, v) # fs) =
     (if allowedField t f then checkFields t fs else throwC (''disallowed filter field \"'' @ f @ ''\"''))"

definition Filter :: "table \<Rightarrow> (string \<times> string) list \<Rightarrow> (string, entity list) ctl" where
  "Filter t fs =
     bindC (checkFields t fs) (\<lambda>_.
     stmtC ''error running query'' (\<lambda>db. map_option (\<lambda>es. (es, db)) (sqlSelect t fs db)))"

definition BulkUpdate :: "entity list \<Rightarrow> (string, unit) ctl" where
  "BulkUpdate es =
     eachC (\<lambda>e. stmtC ''error updating record'' (\<lambda>db. map_option (Pair ()) (sqlUpdate e db))) es"

definition Delete :: "string \<Rightarrow> table \<Rightarrow> (string, bool) ctl" where
  "Delete i t = stmtC ''error deleting record'' (sqlDelete (t, i))"

text \<open>
  The service decodes the JSON of a row into the type that the caller asks for. A row of another type of
  the same table gives the fields that the two types share.
\<close>

definition scanNode :: "entity \<Rightarrow> Node" where
  "scanNode e = (case e of ENode n \<Rightarrow> n | _ \<Rightarrow> \<lparr>node_ID = GetID e, node_Name = [], node_Location = [], node_Serial = []\<rparr>)"

definition scanApp :: "entity \<Rightarrow> App" where
  "scanApp e =
     (case e of
        EApp a \<Rightarrow> a
      | _ \<Rightarrow> \<lparr>ap_ID = GetID e, ap_Type = [], ap_Name = [], ap_Version = [], ap_Vendor = [], ap_Description = [],
              ap_Cores = 0, ap_Memory = 0, ap_Ports = [], ap_Source = [], ap_EPAFeatures = []\<rparr>)"

definition scanPolicy :: "entity \<Rightarrow> TrafficPolicy" where
  "scanPolicy e =
     (case e of
        EPolicy p \<Rightarrow> p
      | EPolicyOVN p \<Rightarrow> \<lparr>tp_ID = to_ID p, tp_Name = to_Name p, tp_Rules = []\<rparr>
      | _ \<Rightarrow> \<lparr>tp_ID = GetID e, tp_Name = [], tp_Rules = []\<rparr>)"

definition scanPolicyOVN :: "entity \<Rightarrow> TrafficPolicyKubeOVN" where
  "scanPolicyOVN e =
     (case e of
        EPolicyOVN p \<Rightarrow> p
      | EPolicy p \<Rightarrow> \<lparr>to_ID = tp_ID p, to_Name = tp_Name p, to_Ingress = [], to_Egress = []\<rparr>
      | _ \<Rightarrow> \<lparr>to_ID = GetID e, to_Name = [], to_Ingress = [], to_Egress = []\<rparr>)"

definition scanDns :: "entity \<Rightarrow> DNSConfig" where
  "scanDns e =
     (case e of EDns d \<Rightarrow> d | _ \<Rightarrow> \<lparr>dc_ID = GetID e, dc_Name = [], dc_ARecords = [], dc_Forwarders = []\<rparr>)"

definition scanAlias :: "entity \<Rightarrow> DNSConfigAppAlias" where
  "scanAlias e =
     (case e of
        EAlias a \<Rightarrow> a
      | _ \<Rightarrow> \<lparr>dl_ID = GetID e, dl_DNSConfigID = [], dl_Name = [], dl_Description = [], dl_AppID = []\<rparr>)"

definition scanNodeApp :: "entity \<Rightarrow> NodeApp" where
  "scanNodeApp e = (case e of ENodeApp a \<Rightarrow> a | _ \<Rightarrow> \<lparr>na_ID = GetID e, na_NodeID = [], na_AppID = []\<rparr>)"

definition scanNodeDns :: "entity \<Rightarrow> NodeDNSConfig" where
  "scanNodeDns e = (case e of ENodeDns d \<Rightarrow> d | _ \<Rightarrow> \<lparr>nc_ID = GetID e, nc_NodeID = [], nc_DNSConfigID = []\<rparr>)"

definition scanTarget :: "entity \<Rightarrow> NodeGRPCTarget" where
  "scanTarget e = (case e of ETarget g \<Rightarrow> g | _ \<Rightarrow> \<lparr>ng_ID = GetID e, ng_NodeID = [], ng_GRPCTarget = []\<rparr>)"

definition scanIfacePolicy :: "entity \<Rightarrow> NodeInterfaceTrafficPolicy" where
  "scanIfacePolicy e =
     (case e of
        EIfacePolicy p \<Rightarrow> p
      | _ \<Rightarrow> \<lparr>nx_ID = GetID e, nx_NodeID = [], nx_NetworkInterfaceID = [], nx_TrafficPolicyID = []\<rparr>)"

definition scanAppPolicy :: "entity \<Rightarrow> NodeAppTrafficPolicy" where
  "scanAppPolicy e =
     (case e of EAppPolicy p \<Rightarrow> p | _ \<Rightarrow> \<lparr>nt_ID = GetID e, nt_NodeAppID = [], nt_TrafficPolicyID = []\<rparr>)"

definition scanNfd :: "entity \<Rightarrow> NodeFeatureNFD" where
  "scanNfd e = (case e of ENfd f \<Rightarrow> f | _ \<Rightarrow> \<lparr>nf_ID = GetID e, nf_NodeID = [], nf_NfdID = [], nf_NfdValue = []\<rparr>)"

section \<open>Invariants of operations\<close>

named_theorems keeps_intros \<open>operations of the controller that keep an invariant of the database\<close>

text \<open>
  \<open>keeps P m\<close>: the operation keeps \<open>P\<close> of the database, whatever calls fail and however the operation ends.
\<close>

definition keeps :: "(cdb \<Rightarrow> bool) \<Rightarrow> ('x, 'a) ctl \<Rightarrow> bool" where
  "keeps P m \<longleftrightarrow> (\<forall>env s. P (ct_db s) \<longrightarrow> P (ct_db (go_state (m env s))))"

lemma keepsD: "keeps P m \<Longrightarrow> P (ct_db s) \<Longrightarrow> P (ct_db (go_state (m env s)))"
  by (simp add: keeps_def)

lemma keeps_retC [keeps_intros]: "keeps P (retC x)"
  by (simp add: keeps_def retC_def)

lemma keeps_throwC [keeps_intros]: "keeps P (throwC x)"
  by (simp add: keeps_def throwC_def)

lemma keeps_panicC [keeps_intros]: "keeps P panicC"
  by (simp add: keeps_def panicC_def)

lemma keeps_askC [keeps_intros]: "keeps P (askC f)"
  by (simp add: keeps_def askC_def)

lemma keeps_bindC [keeps_intros]: "keeps P m \<Longrightarrow> (\<And>x. keeps P (f x)) \<Longrightarrow> keeps P (bindC m f)"
proof (unfold keeps_def, intro allI impI)
  fix env and s :: cce_state
  assume k: "\<forall>env (s :: cce_state). P (ct_db s) \<longrightarrow> P (ct_db (go_state (m env s)))"
    and f: "\<And>x. \<forall>env (s :: cce_state). P (ct_db s) \<longrightarrow> P (ct_db (go_state (f x env s)))" and p: "P (ct_db s)"
  from k p have "P (ct_db (go_state (m env s)))" by blast
  then show "P (ct_db (go_state (bindC m f env s)))"
    using f by (cases "m env s") (auto simp: bindC_def split: sum.split)
qed

lemma onErr_state: "go_state (onErr h m env s) = go_state (m env s)"
  by (simp add: onErr_def split: go.split sum.split)

lemma tryC_state: "go_state (tryC m env s) = go_state (m env s)"
  by (simp add: tryC_def split: go.split)

lemma keeps_onErr [keeps_intros]: "keeps P m \<Longrightarrow> keeps P (onErr h m)"
  by (simp add: keeps_def onErr_state)

lemma keeps_tryC [keeps_intros]: "keeps P m \<Longrightarrow> keeps P (tryC m)"
  by (simp add: keeps_def tryC_state)

lemma keeps_eachC [keeps_intros]: "(\<And>x. keeps P (f x)) \<Longrightarrow> keeps P (eachC f xs)"
  by (induction xs) (auto intro: keeps_intros)

lemma keeps_mapC [keeps_intros]: "(\<And>x. keeps P (f x)) \<Longrightarrow> keeps P (mapC f xs)"
  by (induction xs) (auto intro: keeps_intros)

lemma keeps_ptrC [keeps_intros]: "keeps P (ptrC p)"
  by (cases p) (simp_all add: ptrC_def keeps_intros)

lemma keeps_guardC [keeps_intros]: "keeps P (guardC b x)"
  by (simp add: guardC_def keeps_intros)

lemma keeps_errC [keeps_intros]: "keeps P (errC x)"
  by (cases x) (simp_all add: errC_def keeps_intros)

lemma keeps_callC [keeps_intros]: "keeps P (callC c)"
  by (simp add: keeps_def callC_def Let_def split: option.splits)

lemma keeps_uuidNew [keeps_intros]: "keeps P uuidNew"
  by (simp add: keeps_def uuidNew_def)

lemma keeps_if [keeps_intros]: "keeps P m \<Longrightarrow> keeps P n \<Longrightarrow> keeps P (if b then m else n)"
  by simp

lemma keeps_option [keeps_intros]:
  "keeps P m \<Longrightarrow> (\<And>x. p = Some x \<Longrightarrow> keeps P (f x)) \<Longrightarrow> keeps P (case p of None \<Rightarrow> m | Some x \<Rightarrow> f x)"
  by (cases p) auto

lemma keeps_list [keeps_intros]:
  "keeps P m \<Longrightarrow> (\<And>x y. keeps P (f x y)) \<Longrightarrow> keeps P (case xs of [] \<Rightarrow> m | x # y \<Rightarrow> f x y)"
  by (cases xs) auto

lemma keeps_rbody [keeps_intros]:
  "keeps P m \<Longrightarrow> keeps P n \<Longrightarrow> (\<And>x. keeps P (f x)) \<Longrightarrow>
   keeps P (case b of ReadErr \<Rightarrow> m | UnmarshalErr \<Rightarrow> n | Decoded x \<Rightarrow> f x)"
  by (cases b) auto

lemma keeps_sum [keeps_intros]:
  "(\<And>x. keeps P (f x)) \<Longrightarrow> (\<And>x. keeps P (g x)) \<Longrightarrow> keeps P (case r of Inl x \<Rightarrow> f x | Inr y \<Rightarrow> g y)"
  by (cases r) auto

lemma keeps_vres [keeps_intros]:
  "keeps P m \<Longrightarrow> (\<And>x. keeps P (f x)) \<Longrightarrow> keeps P n \<Longrightarrow> keeps P (case r of VOk \<Rightarrow> m | VErr x \<Rightarrow> f x | VPanic \<Rightarrow> n)"
  by (cases r) auto

lemma keeps_prod [keeps_intros]: "(\<And>x y. keeps P (f x y)) \<Longrightarrow> keeps P (case p of (x, y) \<Rightarrow> f x y)"
  by (cases p) auto

lemma keeps_Let [keeps_intros]: "keeps P (f x) \<Longrightarrow> keeps P (let y = x in f y)"
  by simp

lemma keeps_stmtC: "(\<And>db a db'. P db \<Longrightarrow> run db = Some (a, db') \<Longrightarrow> P db') \<Longrightarrow> keeps P (stmtC m run)"
  by (auto simp: keeps_def stmtC_def Let_def split: option.split)

text \<open>The statements that read keep every predicate, the others those that the database keeps.\<close>

lemma keeps_reads [keeps_intros]: "keeps P (Read t i)" "keeps P (ReadAll t)"
  unfolding Read_def ReadAll_def by (rule keeps_stmtC, simp)+

lemma keeps_checkFields [keeps_intros]: "keeps P (checkFields t fs)"
  by (induction t fs rule: checkFields.induct) (auto intro: keeps_intros)

lemma keeps_Filter [keeps_intros]: "keeps P (Filter t fs)"
  unfolding Filter_def by (intro keeps_intros keeps_stmtC) auto

text \<open>The entities whose writing needs no check.\<close>

lemma storable_others [keeps_intros]:
  "storable (ENode n)" "storable (ETarget t)" "storable (ENfd f)" "storable (EDns d)" "storable (ECreds c)"
  "storable (EAlias l)" "storable (ENodeApp a)" "storable (ENodeDns x)" "storable (EIfacePolicy i)" "storable (EAppPolicy p)"
  by (simp_all add: storable_def)

lemma storable_one [keeps_intros]: "storable e \<Longrightarrow> list_all storable [e]"
  by simp

context db_invariant
begin

lemma keeps_Create [keeps_intros]: "storable e \<Longrightarrow> keeps P (Create e)"
  unfolding Create_def by (rule keeps_stmtC) (auto intro: insert)

lemma keeps_update: "storable e \<Longrightarrow> keeps P (stmtC m (\<lambda>db. map_option (Pair ()) (sqlUpdate e db)))"
  by (rule keeps_stmtC) (auto intro: update)

lemma keeps_BulkUpdate [keeps_intros]: "list_all storable es \<Longrightarrow> keeps P (BulkUpdate es)"
  unfolding BulkUpdate_def by (induction es) (auto intro: keeps_intros keeps_update)

lemma keeps_Delete [keeps_intros]: "keeps P (Delete i t)"
  unfolding Delete_def by (rule keeps_stmtC) (auto intro: delete)

end

section \<open>Operations without failing calls\<close>

definition calm :: "cce_env \<Rightarrow> bool" where
  "calm env \<longleftrightarrow> (\<forall>n. ce_fail env n = None)"

lemma calmD [simp]: "calm env \<Longrightarrow> ce_fail env n = None"
  by (simp add: calm_def)

lemmas ctl_defs = retC_def throwC_def panicC_def bindC_def onErr_def tryC_def askC_def ptrC_def guardC_def errC_def

lemma bindC_Ret: "m env s = Ret s' (Inr a) \<Longrightarrow> bindC m f env s = f a env s'"
  by (simp add: bindC_def)

lemma bindC_Inl: "m env s = Ret s' (Inl x) \<Longrightarrow> bindC m f env s = Ret s' (Inl x)"
  by (simp add: bindC_def)

lemma onErr_Ret: "m env s = Ret s' (Inr a) \<Longrightarrow> onErr h m env s = Ret s' (Inr a)"
  by (simp add: onErr_def)

end
