(* ===== verification/Cce_Clients.thy ===== *)
theory Cce_Clients
  imports Cce_Control
begin

text \<open>
  The clients through which the controller drives a node and a Kubernetes cluster:
  \<open>gorilla/handler_helpers.go\<close> with \<open>grpc/node/client_conn.go\<close>, the wrappers of \<open>grpc/clients\<close>, and
  \<open>k8s/k8s.go\<close>. The calls on a connection follow its \<open>NodeConnect\<close> in the log.
\<close>

section \<open>Connecting to a node\<close>

definition defaultELAPort :: string where "defaultELAPort = ''42101''"

definition defaultEVAPort :: string where "defaultEVAPort = ''42102''"

definition elaPort :: "('x, string) ctl" where
  "elaPort = askC (\<lambda>env. if ce_ELAPort env = [] then defaultELAPort else ce_ELAPort env)"

definition evaPort :: "('x, string) ctl" where
  "evaPort = askC (\<lambda>env. if ce_EVAPort env = [] then defaultEVAPort else ce_EVAPort env)"

definition newline :: string where "newline = [char_of (10 :: nat)]"

definition NodeGRPCTarget_String :: "NodeGRPCTarget \<Rightarrow> string" where
  "NodeGRPCTarget_String g =
     ''NodeGRPCTarget['' @ newline @ ''    ID: '' @ ng_ID g @ newline @ ''    NodeID: '' @ ng_NodeID g @ newline
     @ ''    GRPCTarget: '' @ ng_GRPCTarget g @ newline @ '']''"

definition connectNode :: "string \<Rightarrow> string \<Rightarrow> (string, unit) ctl" where
  "connectNode nodeID port =
     bindC (onErr (wrapMsg ''could not fetch gRPC target from DB'')
              (Filter T_node_grpc_targets [(''node_id'', nodeID)])) (\<lambda>targets.
     case targets of
       [t] \<Rightarrow>
         bindC (onErr (wrapMsg ''could not connect to node'') (callC (NodeConnect (ng_GRPCTarget (scanTarget t)) port)))
           (\<lambda>_. retC ())
     | _ \<Rightarrow>
         throwC (''filter returned ['' @ stringsJoin (CHR '' '') (map (\<lambda>t. NodeGRPCTarget_String (scanTarget t)) targets)
                 @ '']''))"

text \<open>
  A client of the application services exists only on a connection to port 42102, the others only on
  a connection to another port; a call on a client that was not made panics.
\<close>

definition onEva :: "string \<Rightarrow> ('x, 'a) ctl \<Rightarrow> ('x, 'a) ctl" where
  "onEva port m = (if port = ''42102'' then m else panicC)"

definition onEla :: "string \<Rightarrow> ('x, 'a) ctl \<Rightarrow> ('x, 'a) ctl" where
  "onEla port m = (if port = ''42102'' then panicC else m)"

definition rpc :: "string \<Rightarrow> remote \<Rightarrow> (string, unit) ctl" where
  "rpc msg c = bindC (onErr (wrapMsg msg) (callC c)) (\<lambda>_. retC ())"

section \<open>Application services\<close>

definition toPBAppC :: "App \<Rightarrow> (string, PBApplication) ctl" where
  "toPBAppC app = askC (\<lambda>env. toPBApp (getCNIConf (ce_cniConf env) (ce_cniArgs env)) app)"

definition Deploy :: "App \<Rightarrow> (string, unit) ctl" where
  "Deploy app =
     (if ap_Type app = ''container'' then
        bindC (toPBAppC app) (\<lambda>pb. rpc ''error deploying application'' (DeployContainer pb))
      else if ap_Type app = ''vm'' then
        bindC (toPBAppC app) (\<lambda>pb. rpc ''error deploying application'' (DeployVM pb))
      else retC ())"

definition Redeploy :: "App \<Rightarrow> (string, unit) ctl" where
  "Redeploy app = bindC (toPBAppC app) (\<lambda>pb. rpc ''error redeploying application'' (RedeployApp pb))"

definition Undeploy :: "string \<Rightarrow> (string, unit) ctl" where
  "Undeploy i = rpc ''error removing application'' (UndeployApp i)"

definition Life_Start :: "string \<Rightarrow> (string, unit) ctl" where
  "Life_Start i = rpc ''error starting application'' (StartApp i)"

definition Life_Stop :: "string \<Rightarrow> (string, unit) ctl" where
  "Life_Stop i = rpc ''error stopping application'' (StopApp i)"

definition Life_Restart :: "string \<Rightarrow> (string, unit) ctl" where
  "Life_Restart i = rpc ''error restarting application'' (RestartApp i)"

definition Life_GetStatus :: "string \<Rightarrow> (string, LifecycleStatus) ctl" where
  "Life_GetStatus i =
     bindC (onErr (wrapMsg ''error retrieving application'') (callC (GetStatus i))) (\<lambda>n.
     askC (\<lambda>env. fromPBLifecycleStatus (ce_status env n)))"

section \<open>Policy, interface and DNS services\<close>

definition AppPolicy_Set :: "string \<Rightarrow> TrafficPolicy option \<Rightarrow> (string, unit) ctl" where
  "AppPolicy_Set appID policy =
     bindC (ptrC (toPBTrafficPolicy appID policy)) (\<lambda>pb. rpc ''error setting application policy'' (SetAppPolicy pb))"

definition AppPolicy_Delete :: "string \<Rightarrow> (string, unit) ctl" where
  "AppPolicy_Delete appID = onErr (wrapMsg ''error deleting application policy'') (AppPolicy_Set appID None)"

definition IfacePolicy_Set :: "string \<Rightarrow> TrafficPolicy option \<Rightarrow> (string, unit) ctl" where
  "IfacePolicy_Set interfaceID policy =
     bindC (ptrC (toPBTrafficPolicy interfaceID policy)) (\<lambda>pb.
     rpc ''error setting interface policy'' (SetInterfacePolicy pb))"

definition IfacePolicy_Delete :: "string \<Rightarrow> (string, unit) ctl" where
  "IfacePolicy_Delete appID = onErr (wrapMsg ''error deleting interface policy'') (IfacePolicy_Set appID None)"

definition Iface_GetAll :: "(string, NetworkInterface list) ctl" where
  "Iface_GetAll =
     bindC (onErr (wrapMsg ''error retrieving all network interfaces'') (callC InterfaceGetAll)) (\<lambda>n.
     askC (\<lambda>env. map fromPBNetworkInterface (ce_ifaces env n)))"

text \<open>The error of a bulk update: the message of a \<open>NotFound\<close> status, or another error.\<close>

datatype rpcErr = RpcNotFound string | RpcErr string

definition Iface_BulkUpdate :: "NetworkInterface option list \<Rightarrow> (rpcErr, unit) ctl" where
  "Iface_BulkUpdate nis =
     bindC (ptrC (eachPtr (\<lambda>ni. Some (toPBNetworkInterface ni)) nis)) (\<lambda>pbs.
     bindC (\<lambda>env s. Ret s (Inr (ce_notFound env (ct_calls s)))) (\<lambda>nf.
     onErr (\<lambda>e. case nf of Some m \<Rightarrow> RpcNotFound m
                | None \<Rightarrow> RpcErr (wrapMsg ''error bulk updating network interfaces'' e))
       (bindC (callC (InterfaceBulkUpdate pbs)) (\<lambda>_. retC ()))))"

definition Dns_SetA :: "DNSARecord option \<Rightarrow> (string, unit) ctl" where
  "Dns_SetA rec = bindC (ptrC rec) (\<lambda>r. rpc ''error setting A records'' (SetA (da_Name r) (da_IPs r)))"

definition Dns_DeleteA :: "DNSARecord option \<Rightarrow> (string, unit) ctl" where
  "Dns_DeleteA rec = bindC (ptrC rec) (\<lambda>r. rpc ''error deleting A records'' (DeleteA (da_Name r) (da_IPs r)))"

definition Dns_SetForwarders :: "DNSForwarder option list \<Rightarrow> (string, unit) ctl" where
  "Dns_SetForwarders forwarders =
     bindC (ptrC (eachPtr (\<lambda>f. Some (df_IP f)) forwarders)) (\<lambda>ips. rpc ''error setting forwarders'' (SetForwarders ips))"

definition Dns_DeleteForwarders :: "DNSForwarder option list \<Rightarrow> (string, unit) ctl" where
  "Dns_DeleteForwarders forwarders =
     bindC (ptrC (eachPtr (\<lambda>f. Some (df_IP f)) forwarders)) (\<lambda>ips.
     rpc ''error deleting forwarders'' (DeleteForwarders ips))"

section \<open>Kubernetes\<close>

definition appIDLabelKey :: string where "appIDLabelKey = ''app-id''"

definition nodeIDLabelKey :: string where "nodeIDLabelKey = ''node-id''"

text \<open>The client set, which is nil when it could not be made.\<close>

definition clientSet :: "('x, unit) ctl" where
  "clientSet = bindC (askC ce_k8sErr) (\<lambda>err. if Option.is_none err then retC () else panicC)"

definition checkNode :: "string \<Rightarrow> (string, unit) ctl" where
  "checkNode nodeID =
     bindC (onErr (wrapMsg ''get kubernetes node list error'') (callC (K8sListNodes (nodeIDLabelKey @ ''='' @ nodeID)))) (\<lambda>n.
     bindC (askC (\<lambda>env. ce_nodes env n)) (\<lambda>items.
     if items \<noteq> 1 then errC (errorsWrap None ''no nodes or duplicate nodes detected'') else retC ()))"

definition k8sPort :: "K8sPort \<Rightarrow> K8sPort option" where
  "k8sPort p =
     (if kq_Protocol p = ''tcp'' then Some (p\<lparr>kq_Protocol := ''TCP''\<rparr>)
      else if kq_Protocol p = ''udp'' then Some (p\<lparr>kq_Protocol := ''UDP''\<rparr>)
      else if kq_Protocol p = ''sctp'' then Some (p\<lparr>kq_Protocol := ''SCTP''\<rparr>)
      else None)"

definition deploymentLabels :: "string \<Rightarrow> string \<Rightarrow> (string \<times> string) list" where
  "deploymentLabels nodeID appID = [(appIDLabelKey, appID), (nodeIDLabelKey, nodeID)]"

definition k8s_deploy :: "string \<Rightarrow> K8sApp \<Rightarrow> (string, unit) ctl" where
  "k8s_deploy nodeID app =
     bindC (mapC (\<lambda>p. case k8sPort p of
                        None \<Rightarrow> throwC ''unsupported protocol for kubernetes error''
                      | Some q \<Rightarrow> retC q) (ka_Ports app)) (\<lambda>ports.
     bindC uuidNew (\<lambda>name.
     bindC (askC (\<lambda>env. if ce_pullPolicy env = [] then ''Never'' else ce_pullPolicy env)) (\<lambda>pull.
     rpc ''create kubernetes deployment error'' (K8sCreateDeployment
       \<lparr>kd_Name = ''app'', kd_Labels = deploymentLabels nodeID (ka_ID app), kd_Replicas = 0, kd_Cores = ka_Cores app,
        kd_MemoryBytes = word_of_int (1024 * 1024 * ka_Memory app), kd_Container = name, kd_Image = ka_ID app,
        kd_PullPolicy = pull, kd_Ports = ports, kd_NodeSelector = [(nodeIDLabelKey, nodeID)]\<rparr>))))"

definition K8s_Deploy :: "string \<Rightarrow> K8sApp \<Rightarrow> (string, unit) ctl" where
  "K8s_Deploy nodeID app =
     bindC (bindC (askC ce_k8sErr) errC) (\<lambda>_.
     bindC (onErr (wrapMsg ''deploy: node available error'') (checkNode nodeID)) (\<lambda>_.
     onErr (wrapMsg ''deploy: deployment error'') (k8s_deploy nodeID app)))"

definition getDeployment :: "string \<Rightarrow> string \<Rightarrow> (string, K8sDeployment) ctl" where
  "getDeployment nodeID appID =
     bindC clientSet (\<lambda>_.
     bindC (onErr (wrapMsg ''error getting list of deployments'')
              (callC (K8sListDeployments (appIDLabelKey @ ''='' @ appID @ '','' @ nodeIDLabelKey @ ''='' @ nodeID)))) (\<lambda>n.
     bindC (askC (\<lambda>env. ce_deployments env n)) (\<lambda>deps.
     case deps of
       [] \<Rightarrow> throwC ''deployment not found''
     | d # rest \<Rightarrow> if rest \<noteq> [] then throwC ''more than one deployment found'' else retC d)))"

definition getDeploymentName :: "string \<Rightarrow> string \<Rightarrow> (string, string) ctl" where
  "getDeploymentName nodeID appID = bindC (getDeployment nodeID appID) (\<lambda>d. retC (kd_Name d))"

definition k8s_undeploy :: "string \<Rightarrow> string \<Rightarrow> (string, unit) ctl" where
  "k8s_undeploy nodeID appID =
     bindC (onErr (wrapMsg ''start: error getting deployment name by ID'') (getDeploymentName nodeID appID)) (\<lambda>name.
     rpc ''create kubernetes deployment error'' (K8sDeleteDeployment name))"

definition K8s_Undeploy :: "string \<Rightarrow> string \<Rightarrow> (string, unit) ctl" where
  "K8s_Undeploy nodeID appID =
     bindC (bindC (askC ce_k8sErr) errC) (\<lambda>_.
     onErr (wrapMsg ''undeploy: un-deployment error'') (k8s_undeploy nodeID appID))"

definition K8s_Start :: "string \<Rightarrow> string \<Rightarrow> (string, unit) ctl" where
  "K8s_Start nodeID appID =
     bindC (onErr (wrapMsg ''start: error getting deployment name by ID'') (getDeploymentName nodeID appID)) (\<lambda>name.
     rpc ''start: error scaling deployment to 1 replica'' (K8sUpdateScale name 1))"

definition K8s_Stop :: "string \<Rightarrow> string \<Rightarrow> (string, unit) ctl" where
  "K8s_Stop nodeID appID =
     bindC (onErr (wrapMsg ''stop: error getting deployment name by ID'') (getDeploymentName nodeID appID)) (\<lambda>name.
     rpc ''stop: error scaling deployment to 0 replicas'' (K8sUpdateScale name 0))"

definition K8s_Restart :: "string \<Rightarrow> string \<Rightarrow> (string, unit) ctl" where
  "K8s_Restart nodeID appID =
     bindC (onErr (wrapMsg ''restart: error getting deployment name by ID'') (getDeploymentName nodeID appID)) (\<lambda>name.
     bindC (rpc ''restart: error scaling deployment to 0 replicas'' (K8sUpdateScale name 0)) (\<lambda>_.
     rpc ''restart: error scaling deployment to 1 replica'' (K8sUpdateScale name 1)))"

fun waitingStatus :: "K8sContainerStatus list \<Rightarrow> string option" where
  "waitingStatus [] = None"
| "waitingStatus (c # cs) =
     (case kw_WaitingReason c of
        None \<Rightarrow> waitingStatus cs
      | Some r \<Rightarrow>
          if hasPrefix r ''Err'' then Some ''error''
          else if stringsContains r ''ContainerCreating'' then Some ''starting''
          else waitingStatus cs)"

definition getPodStatus :: "K8sPod \<Rightarrow> string" where
  "getPodStatus pod =
     (if ko_Deleted pod then ''terminating''
      else case waitingStatus (ko_Containers pod) of
        Some st \<Rightarrow> st
      | None \<Rightarrow>
          if ko_Phase pod = ''Pending'' then ''pending''
          else if ko_Phase pod = ''Running'' then ''running'' else ''unknown'')"

fun podStates :: "K8sPod list \<Rightarrow> string \<Rightarrow> bool \<Rightarrow> string \<times> bool" where
  "podStates [] state term_seen = (state, term_seen)"
| "podStates (p # ps) state term_seen =
     (if getPodStatus p = ''terminating'' then podStates ps state True else podStates ps (getPodStatus p) term_seen)"

definition podsStatus :: "K8sPod list \<Rightarrow> string" where
  "podsStatus pods =
     (case pods of
        [] \<Rightarrow> ''deployed''
      | [p] \<Rightarrow> getPodStatus p
      | _ \<Rightarrow>
          (let (state, isAnyTerminating) = podStates pods ''unknown'' False
           in if state = ''unknown'' \<and> isAnyTerminating then ''terminating'' else state))"

definition K8s_Status :: "string \<Rightarrow> string \<Rightarrow> (string, string) ctl" where
  "K8s_Status nodeID appID =
     bindC (getDeployment nodeID appID) (\<lambda>_.
     bindC (callC (K8sListPods (''node-id='' @ nodeID @ '',app-id='' @ appID))) (\<lambda>n.
     askC (\<lambda>env. podsStatus (ce_pods env n))))"

definition quoted :: "string \<Rightarrow> string" where
  "quoted s = char_of (39 :: nat) # s @ [char_of (39 :: nat)]"

fun podByIP :: "K8sPod list \<Rightarrow> string \<Rightarrow> string + string" where
  "podByIP [] ipAddr = Inl (''no pod found with IP '' @ quoted ipAddr)"
| "podByIP (p # ps) ipAddr =
     (if ko_IP p = ipAddr then
        (case gm_get (ko_Labels p) appIDLabelKey of
           None \<Rightarrow> Inl (''pod with IP '' @ quoted ipAddr @ '' missing required deployment label(s)'')
         | Some v \<Rightarrow> Inr v)
      else podByIP ps ipAddr)"

definition GetAppIDByIP :: "string \<Rightarrow> string \<Rightarrow> (string, string) ctl" where
  "GetAppIDByIP nodeID ipAddr =
     bindC clientSet (\<lambda>_.
     bindC (onErr (wrapMsg (''error getting pods on node '' @ nodeID))
              (callC (K8sListPods (nodeIDLabelKey @ ''='' @ nodeID)))) (\<lambda>n.
     bindC (askC (\<lambda>env. podByIP (ce_pods env n) ipAddr)) (\<lambda>r.
     case r of Inl e \<Rightarrow> throwC e | Inr v \<Rightarrow> retC v)))"

definition policyName :: "string \<Rightarrow> string \<Rightarrow> string" where
  "policyName nodeID appID = ''np-'' @ nodeID @ ''.'' @ appID"

definition ApplyNetworkPolicy :: "string \<Rightarrow> string \<Rightarrow> NetworkPolicy \<Rightarrow> (string, unit) ctl" where
  "ApplyNetworkPolicy nodeID appID policy =
     bindC clientSet (\<lambda>_.
     rpc ''failed to create network policy''
       (K8sPostPolicy (policyName nodeID appID) [(''app-id'', appID), (''node-id'', nodeID)] policy))"

definition DeleteNetworkPolicy :: "string \<Rightarrow> string \<Rightarrow> (string, unit) ctl" where
  "DeleteNetworkPolicy nodeID appID =
     bindC clientSet (\<lambda>_. rpc ''failed to delete network policy'' (K8sDeletePolicy (policyName nodeID appID)))"

section \<open>The clients keep the database\<close>

lemma keeps_connectNode [keeps_intros]: "keeps P (connectNode n p)"
  unfolding connectNode_def by (intro keeps_intros)

lemma keeps_ports [keeps_intros]: "keeps P elaPort" "keeps P evaPort" "keeps P clientSet"
  unfolding elaPort_def evaPort_def clientSet_def by (intro keeps_intros)+

lemma keeps_on [keeps_intros]: "keeps P m \<Longrightarrow> keeps P (onEva p m)" "keeps P m \<Longrightarrow> keeps P (onEla p m)"
  by (simp_all add: onEva_def onEla_def keeps_intros)

lemma keeps_rpc [keeps_intros]: "keeps P (rpc m c)"
  unfolding rpc_def by (intro keeps_intros)

lemma keeps_eva [keeps_intros]:
  "keeps P (Deploy a)" "keeps P (Redeploy a)" "keeps P (Undeploy i)" "keeps P (Life_Start i)" "keeps P (Life_Stop i)"
  "keeps P (Life_Restart i)" "keeps P (Life_GetStatus i)"
  unfolding Deploy_def Redeploy_def Undeploy_def Life_Start_def Life_Stop_def Life_Restart_def Life_GetStatus_def
    toPBAppC_def by (intro keeps_intros)+

lemma keeps_ask_state [keeps_intros]: "keeps P (\<lambda>env s. Ret s (Inr (f env s)))"
  by (simp add: keeps_def)

lemma keeps_ela [keeps_intros]:
  "keeps P (AppPolicy_Set i p)" "keeps P (AppPolicy_Delete i)" "keeps P (IfacePolicy_Set i p)"
  "keeps P (IfacePolicy_Delete i)" "keeps P Iface_GetAll" "keeps P (Iface_BulkUpdate nis)" "keeps P (Dns_SetA r)"
  "keeps P (Dns_DeleteA r)" "keeps P (Dns_SetForwarders fs)" "keeps P (Dns_DeleteForwarders fs)"
  unfolding AppPolicy_Delete_def IfacePolicy_Delete_def AppPolicy_Set_def IfacePolicy_Set_def Iface_GetAll_def
    Iface_BulkUpdate_def Dns_SetA_def Dns_DeleteA_def Dns_SetForwarders_def Dns_DeleteForwarders_def
  by (intro keeps_intros)+

lemma keeps_getDeployment [keeps_intros]: "keeps P (getDeployment n a)" "keeps P (getDeploymentName n a)"
  unfolding getDeploymentName_def getDeployment_def by (intro keeps_intros)+

lemma keeps_k8s [keeps_intros]:
  "keeps P (K8s_Deploy n app)" "keeps P (K8s_Undeploy n a)" "keeps P (K8s_Start n a)" "keeps P (K8s_Stop n a)"
  "keeps P (K8s_Restart n a)" "keeps P (K8s_Status n a)" "keeps P (GetAppIDByIP n a)"
  "keeps P (ApplyNetworkPolicy n a p)" "keeps P (DeleteNetworkPolicy n a)"
  unfolding K8s_Deploy_def K8s_Undeploy_def K8s_Start_def K8s_Stop_def K8s_Restart_def K8s_Status_def
    GetAppIDByIP_def ApplyNetworkPolicy_def DeleteNetworkPolicy_def checkNode_def k8s_deploy_def k8s_undeploy_def
  by (intro keeps_intros)+

text \<open>
  The check of the Kubernetes node wraps the error nil when it does not find exactly one node, so it
  succeeds whenever the list can be read.
\<close>

lemma checkNode_succeeds: "ce_fail env (ct_calls s) = None \<Longrightarrow> \<exists>s'. checkNode nodeID env s = Ret s' (Inr ())"
  by (simp add: checkNode_def ctl_defs errC_def callC_def Let_def)

end
