(* ===== verification/Cce_Handlers.thy ===== *)
theory Cce_Handlers
  imports Cce_Clients
begin

text \<open>
  The helpers of the REST handlers of the controller (\<open>gorilla/handler.go\<close>, \<open>db_create_checks.go\<close>,
  \<open>db_delete_checks.go\<close>, \<open>create_handlers.go\<close>, \<open>get_handlers.go\<close>, \<open>update_handlers.go\<close>,
  \<open>delete_handlers.go\<close>). A check that fails gives a status code and a message.
\<close>

section \<open>Replies\<close>

text \<open>What a handler sends: the JSON documents of the package \<open>swagger\<close>, a text, or nothing.\<close>

record AppSummary =
  as_ID :: string
  as_Type :: string
  as_Name :: string
  as_Version :: string
  as_Vendor :: string
  as_Description :: string

record AppDetail =
  ad_AppSummary :: AppSummary
  ad_Cores :: int
  ad_Memory :: int
  ad_Ports :: "PortProto list"
  ad_Source :: string
  ad_EPAFeatures :: "EPAFeature list"

record PolicySummary =
  ps_ID :: string
  ps_Name :: string

record PolicyDetail =
  pd_PolicySummary :: PolicySummary
  pd_Rules :: "TrafficRule option list"

record PolicyKubeOVNDetail =
  pk_PolicySummary :: PolicySummary
  pk_IngressRules :: "IngressRule option list"
  pk_EgressRules :: "EgressRule option list"

record DNSARecordJ =
  aj_Name :: string
  aj_Description :: string
  aj_Alias :: bool
  aj_Values :: "string list"

record DNSForwarderJ =
  fj_Name :: string
  fj_Description :: string
  fj_Value :: string

record DNSDetail =
  dd_ID :: string
  dd_Name :: string
  dd_A :: "DNSARecordJ list"
  dd_Forwarders :: "DNSForwarderJ list"

record NodeAppDetail =
  nk_ID :: string
  nk_Status :: string
  nk_Command :: string

datatype cce_body =
    BNone
  | BText string
  | BCreated string
  | BToken string
  | BNodes "Node list"
  | BNode Node
  | BApps "AppSummary list"
  | BApp AppDetail
  | BPolicies "PolicySummary list"
  | BPolicy PolicyDetail
  | BPolicyOVN PolicyKubeOVNDetail
  | BDns DNSDetail
  | BInterfaces "NetworkInterface list"
  | BInterface NetworkInterface
  | BBase string
  | BNodeApps "string list"
  | BNodeApp NodeAppDetail
  | BNfd "(string \<times> string) list"

record reply =
  rp_status :: int
  rp_json :: bool
  rp_body :: cce_body

definition status :: "int \<Rightarrow> reply" where
  "status c = \<lparr>rp_status = c, rp_json = False, rp_body = BNone\<rparr>"

definition replyText :: "int \<Rightarrow> string \<Rightarrow> reply" where
  "replyText c m = \<lparr>rp_status = c, rp_json = False, rp_body = BText m\<rparr>"

definition replyJSON :: "int \<Rightarrow> cce_body \<Rightarrow> reply" where
  "replyJSON c b = \<lparr>rp_status = c, rp_json = True, rp_body = b\<rparr>"

type_synonym hdl = "(reply, reply) ctl"

definition fail500 :: "'x \<Rightarrow> reply" where "fail500 x = status 500"

text \<open>Run a validation; a panic of it is a panic of the handler.\<close>

definition validC :: "(string \<Rightarrow> 'x) \<Rightarrow> (cce_lib \<Rightarrow> vres) \<Rightarrow> ('x, unit) ctl" where
  "validC h v =
     bindC (askC (\<lambda>env. v (ce_lib env))) (\<lambda>r. case r of VOk \<Rightarrow> retC () | VErr m \<Rightarrow> throwC (h m) | VPanic \<Rightarrow> panicC)"

definition validationFailed :: "string \<Rightarrow> reply" where
  "validationFailed m = replyText 400 (''Validation failed: '' @ m)"

section \<open>The generic creation handler\<close>

text \<open>The entities that handlers create; the assertion to \<open>Validatable\<close> of another one panics.\<close>

fun Validate :: "cce_lib \<Rightarrow> entity \<Rightarrow> vres" where
  "Validate lib (ENode n) = Node_Validate lib n"
| "Validate lib (EApp a) = App_Validate lib a"
| "Validate lib (EPolicy p) = TrafficPolicy_Validate lib p"
| "Validate lib (EPolicyOVN p) = TrafficPolicyKubeOVN_Validate lib p"
| "Validate lib (EDns d) = DNSConfig_Validate lib d"
| "Validate lib (EAlias a) = DNSConfigAppAlias_Validate lib a"
| "Validate lib (ENodeApp a) = NodeApp_Validate lib a"
| "Validate lib (ENodeDns d) = NodeDNSConfig_Validate lib d"
| "Validate lib (EIfacePolicy p) = NodeInterfaceTrafficPolicy_Validate lib p"
| "Validate lib (EAppPolicy p) = NodeAppTrafficPolicy_Validate lib p"
| "Validate lib _ = VPanic"

record handler =
  hd_checkDBCreate :: "(entity \<Rightarrow> (int \<times> string, unit) ctl) option"
  hd_handleCreate :: "(entity \<Rightarrow> (string, unit) ctl) option"

definition plainHandler :: handler where
  "plainHandler = \<lparr>hd_checkDBCreate = None, hd_handleCreate = None\<rparr>"

definition hcreate :: "handler \<Rightarrow> entity rbody \<Rightarrow> hdl" where
  "hcreate h body =
     (case body of
        ReadErr \<Rightarrow> retC (status 500)
      | UnmarshalErr \<Rightarrow> retC (status 400)
      | Decoded p0 \<Rightarrow>
          if GetID p0 \<noteq> [] then
            retC (replyText 400 ''Validation failed: id cannot be specified in POST request'')
          else
            bindC uuidNew (\<lambda>i. let p = SetID i p0 in
            bindC (validC validationFailed (\<lambda>lib. Validate lib p)) (\<lambda>_.
            bindC (case hd_checkDBCreate h of
                     None \<Rightarrow> retC ()
                   | Some check \<Rightarrow> onErr (\<lambda>(c, m). replyText c m) (check p)) (\<lambda>_.
            bindC (case hd_handleCreate h of
                     None \<Rightarrow> retC ()
                   | Some act \<Rightarrow> onErr (replyText 500) (act p)) (\<lambda>_.
            bindC (onErr fail500 (Create p)) (\<lambda>_.
            retC (replyJSON 201 (BCreated (GetID p)))))))))"

section \<open>Checks before a record is created\<close>

definition noRows :: "table \<Rightarrow> (string \<times> string) list \<Rightarrow> string \<Rightarrow> (int \<times> string, unit) ctl" where
  "noRows t fs msg = bindC (onErr (Pair 500) (Filter t fs)) (\<lambda>es. guardC (es = []) (422, msg))"

definition checkDBCreateNodesApps :: "NodeApp \<Rightarrow> (int \<times> string, unit) ctl" where
  "checkDBCreateNodesApps a =
     noRows T_nodes_apps [(''node_id'', na_NodeID a), (''app_id'', na_AppID a)]
       (''duplicate record in nodes_apps detected for node_id '' @ na_NodeID a @ '' and app_id '' @ na_AppID a)"

definition checkDBCreateDNSConfigsAppAliases :: "DNSConfigAppAlias \<Rightarrow> (int \<times> string, unit) ctl" where
  "checkDBCreateDNSConfigsAppAliases a =
     noRows T_dns_configs_app_aliases [(''dns_config_id'', dl_DNSConfigID a), (''app_id'', dl_AppID a)]
       (''duplicate record in dns_configs_app_aliases detected for dns_config_id '' @ dl_DNSConfigID a
        @ '' and app_id '' @ dl_AppID a)"

definition checkDBCreateNodesDNSConfigs :: "NodeDNSConfig \<Rightarrow> (int \<times> string, unit) ctl" where
  "checkDBCreateNodesDNSConfigs d =
     noRows T_nodes_dns_configs [(''node_id'', nc_NodeID d)]
       (''duplicate record in nodes_dns_configs detected for node_id '' @ nc_NodeID d)"

section \<open>Checks before a record is deleted\<close>

definition checkDBDeleteNodes :: "string \<Rightarrow> (int \<times> string, unit) ctl" where
  "checkDBDeleteNodes i =
     bindC (noRows T_nodes_apps [(''node_id'', i)] (''cannot delete node_id '' @ i @ '': record in use in nodes_apps'')) (\<lambda>_.
     noRows T_nodes_dns_configs [(''node_id'', i)]
       (''cannot delete node_id '' @ i @ '': record in use in nodes_dns_configs''))"

definition checkDBDeleteApps :: "string \<Rightarrow> (int \<times> string, unit) ctl" where
  "checkDBDeleteApps i =
     bindC (noRows T_dns_configs_app_aliases [(''app_id'', i)]
              (''cannot delete app_id '' @ i @ '': record in use in dns_configs_app_aliases'')) (\<lambda>_.
     noRows T_nodes_apps [(''app_id'', i)] (''cannot delete app_id '' @ i @ '': record in use in nodes_apps''))"

definition checkDBDeleteNodesApps :: "string \<Rightarrow> (int \<times> string, unit) ctl" where
  "checkDBDeleteNodesApps i =
     noRows T_nodes_apps_traffic_policies [(''nodes_apps_id'', i)]
       (''cannot delete node_app_id '' @ i @ '': record in use in nodes_apps_traffic_policies'')"

definition checkDBDeleteTrafficPolicies :: "string \<Rightarrow> (int \<times> string, unit) ctl" where
  "checkDBDeleteTrafficPolicies i =
     noRows T_nodes_apps_traffic_policies [(''traffic_policy_id'', i)]
       (''cannot delete traffic_policy_id '' @ i @ '': record in use in nodes_apps_traffic_policies'')"

definition checkDBDeleteDNSConfigs :: "string \<Rightarrow> (int \<times> string, unit) ctl" where
  "checkDBDeleteDNSConfigs i =
     bindC (noRows T_dns_configs_app_aliases [(''dns_config_id'', i)]
              (''cannot delete dns_config_id '' @ i @ '': record in use in dns_configs_app_aliases'')) (\<lambda>_.
     noRows T_nodes_dns_configs [(''dns_config_id'', i)]
       (''cannot delete dns_config_id '' @ i @ '': record in use in nodes_dns_configs''))"

section \<open>Creation on a node\<close>

definition onKubernetes :: "(string, unit) ctl \<Rightarrow> (string, unit) ctl" where
  "onKubernetes m =
     bindC (askC ce_mode) (\<lambda>mode.
     if mode = OrchestrationModeKubernetes \<or> mode = OrchestrationModeKubernetesOVN then m else retC ())"

text \<open>A nil entity panics when it is logged.\<close>

definition handleCreateNodesApps :: "NodeApp \<Rightarrow> (string, unit) ctl" where
  "handleCreateNodesApps a =
     bindC (onErr (\<lambda>e. ''Error fetching app from DB: '' @ e) (Read T_apps (na_AppID a))) (\<lambda>row.
     bindC (ptrC row) (\<lambda>app.
     bindC evaPort (\<lambda>port.
     bindC (onErr (\<lambda>e. ''Error connecting to node: '' @ e) (connectNode (na_NodeID a) port)) (\<lambda>_.
     bindC (onEva port (Deploy (scanApp app))) (\<lambda>_.
     onKubernetes (K8s_Deploy (na_NodeID a) (toK8SApp (scanApp app))))))))"

definition handleCreateNodesDNSConfigs :: "NodeDNSConfig \<Rightarrow> (string, unit) ctl" where
  "handleCreateNodesDNSConfigs d =
     bindC (Read T_dns_configs (nc_DNSConfigID d)) (\<lambda>row.
     bindC (ptrC row) (\<lambda>cfg.
     bindC elaPort (\<lambda>port.
     bindC (connectNode (nc_NodeID d) port) (\<lambda>_.
     onEla port (
       bindC (eachC Dns_SetA (dc_ARecords (scanDns cfg))) (\<lambda>_.
       Dns_SetForwarders (dc_Forwarders (scanDns cfg))))))))"

definition aliasRecord :: "DNSConfigAppAlias \<Rightarrow> DNSARecord" where
  "aliasRecord a = \<lparr>da_Name = dl_AppID a, da_Description = dl_Description a, da_IPs = [dl_AppID a]\<rparr>"

definition handleCreateNodesDNSConfigsWithAliases ::
    "NodeDNSConfig \<Rightarrow> DNSConfig \<Rightarrow> DNSConfigAppAlias list \<Rightarrow> (string, unit) ctl" where
  "handleCreateNodesDNSConfigsWithAliases nodeDNS dnsConfig dnsAliases =
     bindC elaPort (\<lambda>port.
     bindC (connectNode (nc_NodeID nodeDNS) port) (\<lambda>_.
     bindC (eachC (\<lambda>a. onEla port (Dns_SetA (Some (aliasRecord a)))) dnsAliases) (\<lambda>_.
     bindC (eachC (\<lambda>r. onEla port (Dns_SetA r)) (dc_ARecords dnsConfig)) (\<lambda>_.
     if dc_Forwarders dnsConfig \<noteq> [] then onEla port (Dns_SetForwarders (dc_Forwarders dnsConfig)) else retC ()))))"

section \<open>Reading from a node\<close>

definition handleGetNodes :: "Node \<Rightarrow> (string, NetworkInterface list) ctl" where
  "handleGetNodes n =
     bindC elaPort (\<lambda>port.
     bindC (connectNode (node_ID n) port) (\<lambda>_.
     onEla port Iface_GetAll))"

definition handleGetNodesApps :: "NodeApp \<Rightarrow> (string, string) ctl" where
  "handleGetNodesApps a =
     bindC evaPort (\<lambda>port.
     bindC (connectNode (na_NodeID a) port) (\<lambda>_.
     bindC (onEva port (Life_GetStatus (na_AppID a))) (\<lambda>st.
     bindC (askC ce_mode) (\<lambda>mode.
     if mode = OrchestrationModeNative \<or> st = LsUnknown \<or> st = LsDeploying \<or> st = LsError
     then retC (LifecycleStatus_String st)
     else K8s_Status (na_NodeID a) (na_AppID a)))))"

section \<open>Updates on a node\<close>

definition noPolicy :: TrafficPolicy where
  "noPolicy = \<lparr>tp_ID = [], tp_Name = [], tp_Rules = []\<rparr>"

definition handleUpdateNodes :: "NodeReq \<Rightarrow> (int \<times> string, unit) ctl" where
  "handleUpdateNodes r =
     bindC elaPort (\<lambda>port.
     bindC (onErr (Pair 500) (connectNode (node_ID (nr_Node r)) port)) (\<lambda>_.
     bindC (case nr_NetworkInterfaces r of
              None \<Rightarrow> retC ()
            | Some nis \<Rightarrow>
                onErr (\<lambda>e. case e of RpcNotFound m \<Rightarrow> (404, m) | RpcErr m \<Rightarrow> (500, m)) (onEla port (Iface_BulkUpdate nis))) (\<lambda>_.
     eachC (\<lambda>nitp.
       bindC (onErr (Pair 500) (Read T_traffic_policies (np_TrafficPolicyID nitp))) (\<lambda>row.
       onErr (Pair 500) (onEla port
         (IfacePolicy_Set (np_NetworkInterfaceID nitp)
            (Some (case row of None \<Rightarrow> noPolicy | Some p \<Rightarrow> scanPolicy p))))))
       (nr_TrafficPolicies r))))"

definition handleUpdateNodesApps :: "NodeAppReq \<Rightarrow> (int \<times> string, unit) ctl" where
  "handleUpdateNodesApps r =
     (let nodeID = na_NodeID (nq_NodeApp r); appID = na_AppID (nq_NodeApp r); cmd = nq_Cmd r
      in bindC evaPort (\<lambda>port.
         bindC (onErr (Pair 500) (connectNode nodeID port)) (\<lambda>_.
         bindC (askC ce_mode) (\<lambda>mode.
         onErr (Pair 500)
           (if mode = OrchestrationModeNative then
              if cmd = ''start'' then onEva port (Life_Start appID)
              else if cmd = ''stop'' then onEva port (Life_Stop appID)
              else if cmd = ''restart'' then onEva port (Life_Restart appID)
              else retC ()
            else if cmd = ''start'' then K8s_Start nodeID appID
            else if cmd = ''stop'' then K8s_Stop nodeID appID
            else if cmd = ''restart'' then K8s_Restart nodeID appID
            else retC ())))))"

section \<open>Deletion\<close>

definition handleDeleteNodesApps :: "NodeApp \<Rightarrow> (string, unit) ctl" where
  "handleDeleteNodesApps a =
     bindC (Read T_apps (na_AppID a)) (\<lambda>row.
     bindC evaPort (\<lambda>port.
     bindC (connectNode (na_NodeID a) port) (\<lambda>_.
     bindC (onKubernetes (K8s_Undeploy (na_NodeID a) (na_AppID a))) (\<lambda>_.
     bindC (ptrC row) (\<lambda>app.
     onEva port (Undeploy (GetID app)))))))"

definition handleDeleteNodesDNSConfigs :: "NodeDNSConfig \<Rightarrow> (string, unit) ctl" where
  "handleDeleteNodesDNSConfigs d =
     bindC (Read T_dns_configs (nc_DNSConfigID d)) (\<lambda>row.
     bindC (ptrC row) (\<lambda>cfg.
     bindC elaPort (\<lambda>port.
     bindC (connectNode (nc_NodeID d) port) (\<lambda>_.
     onEla port (
       bindC (eachC Dns_DeleteA (dc_ARecords (scanDns cfg))) (\<lambda>_.
       Dns_DeleteForwarders (dc_Forwarders (scanDns cfg))))))))"

definition handleDeleteNodesDNSConfigsWithAliases ::
    "NodeDNSConfig \<Rightarrow> DNSConfig option \<Rightarrow> DNSConfigAppAlias list \<Rightarrow> (string, unit) ctl" where
  "handleDeleteNodesDNSConfigsWithAliases nodeDNS config dnsAliases =
     bindC elaPort (\<lambda>port.
     bindC (connectNode (nc_NodeID nodeDNS) port) (\<lambda>_.
     bindC (eachC (\<lambda>a. onEla port (Dns_DeleteA (Some (aliasRecord a)))) dnsAliases) (\<lambda>_.
     bindC (ptrC config) (\<lambda>dnsConfig.
     bindC (eachC (\<lambda>r. onEla port (Dns_DeleteA r)) (dc_ARecords dnsConfig)) (\<lambda>_.
     if dc_Forwarders dnsConfig \<noteq> [] then onEla port (Dns_DeleteForwarders (dc_Forwarders dnsConfig))
     else retC ())))))"

definition handleForcedDeleteNodesDNSConfigs :: "string \<Rightarrow> (string, unit) ctl" where
  "handleForcedDeleteNodesDNSConfigs nodeID =
     bindC (Filter T_nodes_dns_configs [(''node_id'', nodeID)]) (\<lambda>persistedNode.
     case persistedNode of
       [] \<Rightarrow> retC ()
     | pn # _ \<Rightarrow>
         (let cfgID = nc_DNSConfigID (scanNodeDns pn)
          in bindC (Read T_dns_configs cfgID) (\<lambda>persistedConfig.
             bindC (Filter T_dns_configs_app_aliases [(''dns_config_id'', cfgID)]) (\<lambda>persistedAliases.
             bindC (Delete cfgID T_nodes_dns_configs) (\<lambda>_.
             bindC (Delete (GetID pn) T_nodes_dns_configs) (\<lambda>_.
             bindC (eachC (\<lambda>a. bindC (Delete (GetID a) T_dns_configs_app_aliases) (\<lambda>_. retC ())) persistedAliases) (\<lambda>_.
             bindC (ptrC persistedConfig) (\<lambda>cfg.
             bindC (Delete (GetID cfg) T_dns_configs) (\<lambda>_. retC ()))))))))) "

text \<open>A record that is not deleted ends the handler without an error.\<close>

fun deletePolicies :: "table \<Rightarrow> entity list \<Rightarrow> (string, bool) ctl" where
  "deletePolicies t [] = retC True"
| "deletePolicies t (p # ps) =
     bindC (Delete (GetID p) t) (\<lambda>ok. if ok then deletePolicies t ps else retC False)"

fun forceDeleteApps :: "entity list \<Rightarrow> (string, unit) ctl" where
  "forceDeleteApps [] = retC ()"
| "forceDeleteApps (app # apps) =
     bindC (Filter T_nodes_apps_traffic_policies [(''nodes_apps_id'', GetID app)]) (\<lambda>policies.
     bindC (deletePolicies T_nodes_apps_traffic_policies policies) (\<lambda>go_on.
     if \<not> go_on then retC ()
     else bindC (Delete (GetID app) T_nodes_apps) (\<lambda>_. forceDeleteApps apps)))"

definition handleForceDeleteNodesApps :: "string \<Rightarrow> (string, unit) ctl" where
  "handleForceDeleteNodesApps nodeID = bindC (Filter T_nodes_apps [(''node_id'', nodeID)]) forceDeleteApps"

definition handleForceDeleteNodesInterfacePolicy :: "string \<Rightarrow> (string, unit) ctl" where
  "handleForceDeleteNodesInterfacePolicy nodeID =
     bindC (Filter T_nodes_network_interfaces_traffic_policies [(''node_id'', nodeID)]) (\<lambda>policies.
     bindC (deletePolicies T_nodes_network_interfaces_traffic_policies policies) (\<lambda>_. retC ()))"

definition handleDeleteNode :: "string \<Rightarrow> (string, unit) ctl" where
  "handleDeleteNode nodeID =
     bindC (onErr snd (checkDBDeleteNodes nodeID)) (\<lambda>_.
     bindC (Read T_nodes nodeID) (\<lambda>persisted.
     if Option.is_none persisted then throwC (''No node found for node ID: '' @ nodeID)
     else
       bindC (Delete nodeID T_nodes) (\<lambda>ok.
       guardC ok ''Fetched entity could not be used'')))"

section \<open>The helpers keep the integrity of the database\<close>

lemma keeps_validC [keeps_intros]: "keeps P (validC h v)"
  unfolding validC_def by (intro keeps_intros)

lemma keeps_noRows [keeps_intros]: "keeps P (noRows t fs m)"
  unfolding noRows_def by (intro keeps_intros)

lemma keeps_checks [keeps_intros]:
  "keeps P (checkDBCreateNodesApps a)" "keeps P (checkDBCreateDNSConfigsAppAliases b)"
  "keeps P (checkDBCreateNodesDNSConfigs c)" "keeps P (checkDBDeleteNodes i)" "keeps P (checkDBDeleteApps i)"
  "keeps P (checkDBDeleteNodesApps i)" "keeps P (checkDBDeleteTrafficPolicies i)" "keeps P (checkDBDeleteDNSConfigs i)"
  unfolding checkDBCreateNodesApps_def checkDBCreateDNSConfigsAppAliases_def checkDBCreateNodesDNSConfigs_def
    checkDBDeleteNodes_def checkDBDeleteApps_def checkDBDeleteNodesApps_def checkDBDeleteTrafficPolicies_def
    checkDBDeleteDNSConfigs_def by (intro keeps_intros)+

lemma keeps_onKubernetes [keeps_intros]: "keeps P m \<Longrightarrow> keeps P (onKubernetes m)"
  unfolding onKubernetes_def by (intro keeps_intros)

lemma keeps_remote_handlers [keeps_intros]:
  "keeps P (handleCreateNodesApps a)" "keeps P (handleCreateNodesDNSConfigs d)"
  "keeps P (handleCreateNodesDNSConfigsWithAliases d c as)" "keeps P (handleGetNodes n)" "keeps P (handleGetNodesApps a)"
  "keeps P (handleUpdateNodes r)" "keeps P (handleUpdateNodesApps q)" "keeps P (handleDeleteNodesApps a)"
  "keeps P (handleDeleteNodesDNSConfigs d)" "keeps P (handleDeleteNodesDNSConfigsWithAliases d oc as)"
  unfolding handleCreateNodesApps_def handleCreateNodesDNSConfigs_def handleCreateNodesDNSConfigsWithAliases_def
    handleGetNodes_def handleGetNodesApps_def handleUpdateNodes_def handleUpdateNodesApps_def handleDeleteNodesApps_def
    handleDeleteNodesDNSConfigs_def handleDeleteNodesDNSConfigsWithAliases_def
  by (intro keeps_intros)+

text \<open>What follows a validation may rely on it.\<close>

lemma keeps_valid_then:
  assumes "\<exists>lib. v lib = VOk \<Longrightarrow> keeps P (f ())"
  shows "keeps P (bindC (validC h v) f)"
proof (unfold keeps_def, intro allI impI)
  fix env and s :: cce_state
  assume "P (ct_db s)"
  then show "P (ct_db (go_state (bindC (validC h v) f env s)))"
    using assms keepsD [of P "f ()" s env] by (auto simp: ctl_defs validC_def split: vres.split)
qed

lemma Validate_storable: "Validate lib e = VOk \<Longrightarrow> storable e"
  by (cases e) (auto simp: storable_def)

context db_invariant
begin

lemma keeps_deletePolicies [keeps_intros]: "keeps P (deletePolicies t ps)"
  by (induction ps) (auto intro!: keeps_intros)

lemma keeps_forceDeleteApps [keeps_intros]: "keeps P (forceDeleteApps as)"
  by (induction as) (auto intro!: keeps_intros)

lemma keeps_deletions [keeps_intros]:
  "keeps P (handleForcedDeleteNodesDNSConfigs i)" "keeps P (handleForceDeleteNodesApps i)"
  "keeps P (handleForceDeleteNodesInterfacePolicy i)" "keeps P (handleDeleteNode i)"
  unfolding handleForcedDeleteNodesDNSConfigs_def handleForceDeleteNodesApps_def
    handleForceDeleteNodesInterfacePolicy_def handleDeleteNode_def
  by (intro keeps_intros)+

lemma keeps_hcreate [keeps_intros]:
  assumes "\<And>check p. hd_checkDBCreate h = Some check \<Longrightarrow> keeps P (check p)"
    and "\<And>act p. hd_handleCreate h = Some act \<Longrightarrow> keeps P (act p)"
  shows "keeps P (hcreate h body)"
  unfolding hcreate_def
  by (intro keeps_rbody keeps_if keeps_retC keeps_bindC [OF keeps_uuidNew] keeps_Let keeps_valid_then)
    (intro keeps_intros; (erule assms | erule exE, rule Validate_storable, assumption))

end

end
