(* ===== verification/Cce_Api.thy ===== *)
theory Cce_Api
  imports Cce_Handlers
begin

text \<open>
  The REST API of the controller: the handlers of \<open>gorilla/swagger.go\<close>, one definition each, in the
  order of the file. A handler returns its reply either at its end or early.
\<close>

section \<open>Common steps\<close>

text \<open>Fetch an entity: 500 on an error, 404 when it is not there.\<close>

definition fetch :: "table \<Rightarrow> string \<Rightarrow> (reply, entity) ctl" where
  "fetch t i =
     bindC (onErr fail500 (Read t i)) (\<lambda>row. case row of None \<Rightarrow> throwC (status 404) | Some e \<Rightarrow> retC e)"

text \<open>The decoded payload; the body was read by the middleware, and a malformed one gives 400.\<close>

definition payload :: "'a rbody \<Rightarrow> reply \<Rightarrow> (reply, 'a) ctl" where
  "payload body bad =
     (case body of ReadErr \<Rightarrow> throwC (status 500) | UnmarshalErr \<Rightarrow> throwC bad | Decoded x \<Rightarrow> retC x)"

definition payloadText :: "'a rbody \<Rightarrow> (reply, 'a) ctl" where
  "payloadText body =
     bindC (askC ce_jsonErr) (\<lambda>m. payload body (replyText 400 (''Error unmarshaling json: '' @ m)))"

section \<open>Nodes\<close>

definition swagGETNodes :: hdl where
  "swagGETNodes =
     bindC (onErr fail500 (ReadAll T_nodes)) (\<lambda>rows. retC (replyJSON 200 (BNodes (map scanNode rows))))"

definition swagPOSTNodes :: "Node rbody \<Rightarrow> hdl" where
  "swagPOSTNodes body = hcreate plainHandler (map_rbody ENode body)"

definition swagGETNodeByID :: "string \<Rightarrow> hdl" where
  "swagGETNodeByID node_id =
     bindC (fetch T_nodes node_id) (\<lambda>e. retC (replyJSON 200 (BNode (scanNode e))))"

definition swagPATCHNodeByID :: "string \<Rightarrow> Node rbody \<Rightarrow> hdl" where
  "swagPATCHNodeByID node_id body =
     bindC (payload body (status 400)) (\<lambda>node.
     let persisted = node\<lparr>node_ID := node_id\<rparr> in
     bindC (validC validationFailed (\<lambda>lib. Node_Validate lib persisted)) (\<lambda>_.
     bindC (onErr fail500 (BulkUpdate [ENode persisted])) (\<lambda>_.
     retC (status 200))))"

text \<open>\<open>strconv.ParseBool\<close>.\<close>

definition parseBool :: "string \<Rightarrow> bool option" where
  "parseBool s =
     (if s \<in> {''1'', ''t'', ''T'', ''true'', ''TRUE'', ''True''} then Some True
      else if s \<in> {''0'', ''f'', ''F'', ''false'', ''FALSE'', ''False''} then Some False
      else None)"

definition swagDELETENodeByID :: "string \<Rightarrow> string list \<Rightarrow> hdl" where
  "swagDELETENodeByID node_id forceQuery =
     bindC (case forceQuery of
              [] \<Rightarrow> retC False
            | q # _ \<Rightarrow> (case parseBool q of None \<Rightarrow> throwC (status 400) | Some b \<Rightarrow> retC b)) (\<lambda>forced.
     bindC (if forced then
              bindC (onErr fail500 (handleForcedDeleteNodesDNSConfigs node_id)) (\<lambda>_.
              bindC (onErr fail500 (handleForceDeleteNodesApps node_id)) (\<lambda>_.
              onErr fail500 (handleForceDeleteNodesInterfacePolicy node_id)))
            else retC ()) (\<lambda>_.
     bindC (onErr (replyText 500) (handleDeleteNode node_id)) (\<lambda>_.
     retC (status 200))))"

section \<open>Applications\<close>

definition appSummary :: "App \<Rightarrow> AppSummary" where
  "appSummary a =
     \<lparr>as_ID = ap_ID a, as_Type = ap_Type a, as_Name = ap_Name a, as_Version = ap_Version a, as_Vendor = ap_Vendor a,
      as_Description = ap_Description a\<rparr>"

definition swagGETApps :: hdl where
  "swagGETApps =
     bindC (onErr fail500 (ReadAll T_apps)) (\<lambda>rows.
     retC (replyJSON 200 (BApps (map (\<lambda>e. appSummary (scanApp e)) rows))))"

definition swagPOSTApps :: "App rbody \<Rightarrow> hdl" where
  "swagPOSTApps body = hcreate plainHandler (map_rbody EApp body)"

definition appDetail :: "App \<Rightarrow> AppDetail" where
  "appDetail a =
     \<lparr>ad_AppSummary = appSummary a, ad_Cores = ap_Cores a, ad_Memory = ap_Memory a, ad_Ports = ap_Ports a,
      ad_Source = ap_Source a, ad_EPAFeatures = ap_EPAFeatures a\<rparr>"

definition swagGETAppByID :: "string \<Rightarrow> hdl" where
  "swagGETAppByID app_id =
     bindC (fetch T_apps app_id) (\<lambda>e. retC (replyJSON 200 (BApp (appDetail (scanApp e)))))"

definition detailApp :: "AppDetail \<Rightarrow> App" where
  "detailApp d =
     (let s = ad_AppSummary d
      in \<lparr>ap_ID = as_ID s, ap_Type = as_Type s, ap_Name = as_Name s, ap_Version = as_Version s,
          ap_Vendor = as_Vendor s, ap_Description = as_Description s, ap_Cores = ad_Cores d, ap_Memory = ad_Memory d,
          ap_Ports = ad_Ports d, ap_Source = ad_Source d, ap_EPAFeatures = ad_EPAFeatures d\<rparr>)"

definition swagPATCHAppByID :: "string \<Rightarrow> AppDetail rbody \<Rightarrow> hdl" where
  "swagPATCHAppByID app_id body =
     bindC (payload body (status 400)) (\<lambda>d.
     bindC (validC validationFailed (\<lambda>lib. App_Validate lib (detailApp d))) (\<lambda>_.
     bindC (onErr fail500 (BulkUpdate [EApp (detailApp d)])) (\<lambda>_.
     retC (status 200))))"

text \<open>Delete an entity after its check: refused, absent, or gone.\<close>

definition deleteChecked :: "table \<Rightarrow> (string \<Rightarrow> (int \<times> string, unit) ctl) \<Rightarrow> string \<Rightarrow> hdl" where
  "deleteChecked t check i =
     bindC (onErr (\<lambda>(c, m). replyText c m) (check i)) (\<lambda>_.
     bindC (onErr (replyText 500) (Read t i)) (\<lambda>row.
     if Option.is_none row then throwC (status 404)
     else
       bindC (onErr fail500 (Delete i t)) (\<lambda>ok.
       bindC (guardC ok (status 500)) (\<lambda>_.
       retC (status 200)))))"

definition swagDELETEAppByID :: "string \<Rightarrow> hdl" where
  "swagDELETEAppByID app_id = deleteChecked T_apps checkDBDeleteApps app_id"

section \<open>Traffic policies\<close>

definition swagGETPolicies :: hdl where
  "swagGETPolicies =
     bindC (onErr fail500 (ReadAll T_traffic_policies)) (\<lambda>rows.
     retC (replyJSON 200 (BPolicies
       (map (\<lambda>e. let p = scanPolicy e in \<lparr>ps_ID = tp_ID p, ps_Name = tp_Name p\<rparr>) rows))))"

definition swagPOSTPolicies :: "TrafficPolicy rbody \<Rightarrow> hdl" where
  "swagPOSTPolicies body = hcreate plainHandler (map_rbody EPolicy body)"

definition swagGETPolicyByID :: "string \<Rightarrow> hdl" where
  "swagGETPolicyByID policy_id =
     bindC (fetch T_traffic_policies policy_id) (\<lambda>e.
     let p = scanPolicy e
     in retC (replyJSON 200 (BPolicy
          \<lparr>pd_PolicySummary = \<lparr>ps_ID = tp_ID p, ps_Name = tp_Name p\<rparr>, pd_Rules = tp_Rules p\<rparr>)))"

definition detailPolicy :: "PolicyDetail \<Rightarrow> TrafficPolicy" where
  "detailPolicy d =
     \<lparr>tp_ID = ps_ID (pd_PolicySummary d), tp_Name = ps_Name (pd_PolicySummary d), tp_Rules = pd_Rules d\<rparr>"

definition swagPATCHPolicyByID :: "string \<Rightarrow> PolicyDetail rbody \<Rightarrow> hdl" where
  "swagPATCHPolicyByID policy_id body =
     bindC (payload body (status 400)) (\<lambda>d.
     bindC (validC validationFailed (\<lambda>lib. TrafficPolicy_Validate lib (detailPolicy d))) (\<lambda>_.
     bindC (onErr fail500 (BulkUpdate [EPolicy (detailPolicy d)])) (\<lambda>_.
     retC (status 200))))"

definition swagDELETEPolicyByID :: "string \<Rightarrow> hdl" where
  "swagDELETEPolicyByID policy_id = deleteChecked T_traffic_policies checkDBDeleteTrafficPolicies policy_id"

definition swagGETKubeOVNPolicies :: hdl where
  "swagGETKubeOVNPolicies =
     bindC (onErr fail500 (ReadAll T_traffic_policies)) (\<lambda>rows.
     retC (replyJSON 200 (BPolicies
       (map (\<lambda>e. let p = scanPolicyOVN e in \<lparr>ps_ID = to_ID p, ps_Name = to_Name p\<rparr>) rows))))"

definition swagPOSTKubeOVNPolicies :: "TrafficPolicyKubeOVN rbody \<Rightarrow> hdl" where
  "swagPOSTKubeOVNPolicies body = hcreate plainHandler (map_rbody EPolicyOVN body)"

definition swagGETKubeOVNPolicyByID :: "string \<Rightarrow> hdl" where
  "swagGETKubeOVNPolicyByID policy_id =
     bindC (fetch T_traffic_policies policy_id) (\<lambda>e.
     let p = scanPolicyOVN e
     in retC (replyJSON 200 (BPolicyOVN
          \<lparr>pk_PolicySummary = \<lparr>ps_ID = to_ID p, ps_Name = to_Name p\<rparr>, pk_IngressRules = to_Ingress p,
           pk_EgressRules = to_Egress p\<rparr>)))"

definition detailPolicyOVN :: "PolicyKubeOVNDetail \<Rightarrow> TrafficPolicyKubeOVN" where
  "detailPolicyOVN d =
     \<lparr>to_ID = ps_ID (pk_PolicySummary d), to_Name = ps_Name (pk_PolicySummary d), to_Ingress = pk_IngressRules d,
      to_Egress = pk_EgressRules d\<rparr>"

definition swagPATCHKubeOVNPolicyByID :: "string \<Rightarrow> PolicyKubeOVNDetail rbody \<Rightarrow> hdl" where
  "swagPATCHKubeOVNPolicyByID policy_id body =
     bindC (payload body (status 400)) (\<lambda>d.
     bindC (validC validationFailed (\<lambda>lib. TrafficPolicyKubeOVN_Validate lib (detailPolicyOVN d))) (\<lambda>_.
     bindC (onErr fail500 (BulkUpdate [EPolicyOVN (detailPolicyOVN d)])) (\<lambda>_.
     retC (status 200))))"

definition swagDELETEKubeOVNPolicyByID :: "string \<Rightarrow> hdl" where
  "swagDELETEKubeOVNPolicyByID policy_id = deleteChecked T_traffic_policies checkDBDeleteTrafficPolicies policy_id"

section \<open>DNS\<close>

fun recordsJ :: "DNSARecord option list \<Rightarrow> (reply, DNSARecordJ list) ctl" where
  "recordsJ [] = retC []"
| "recordsJ (p # ps) =
     bindC (ptrC p) (\<lambda>r.
     bindC (recordsJ ps) (\<lambda>rs.
     retC (\<lparr>aj_Name = da_Name r, aj_Description = da_Description r, aj_Alias = False, aj_Values = da_IPs r\<rparr> # rs)))"

definition aliasJ :: "DNSConfigAppAlias \<Rightarrow> DNSARecordJ" where
  "aliasJ a = \<lparr>aj_Name = dl_Name a, aj_Description = dl_Description a, aj_Alias = True, aj_Values = [dl_AppID a]\<rparr>"

fun forwardersJ :: "DNSForwarder option list \<Rightarrow> (reply, DNSForwarderJ list) ctl" where
  "forwardersJ [] = retC []"
| "forwardersJ (p # ps) =
     bindC (ptrC p) (\<lambda>f.
     bindC (forwardersJ ps) (\<lambda>fs.
     retC (\<lparr>fj_Name = df_Name f, fj_Description = df_Description f, fj_Value = df_IP f\<rparr> # fs)))"

definition swagGETNodeDNS :: "string \<Rightarrow> hdl" where
  "swagGETNodeDNS node_id =
     bindC (onErr fail500 (Filter T_nodes_dns_configs [(''node_id'', node_id)])) (\<lambda>persistedNode.
     case persistedNode of
       [] \<Rightarrow> retC (replyJSON 200 (BDns \<lparr>dd_ID = [], dd_Name = [], dd_A = [], dd_Forwarders = []\<rparr>))
     | pn # _ \<Rightarrow>
         (let cfgID = nc_DNSConfigID (scanNodeDns pn)
          in bindC (onErr fail500 (Read T_dns_configs cfgID)) (\<lambda>row.
             bindC (onErr fail500 (Filter T_dns_configs_app_aliases [(''dns_config_id'', cfgID)])) (\<lambda>aliases.
             bindC (ptrC row) (\<lambda>e. let cfg = scanDns e in
             bindC (recordsJ (dc_ARecords cfg)) (\<lambda>rs.
             bindC (forwardersJ (dc_Forwarders cfg)) (\<lambda>fs.
             retC (replyJSON 200 (BDns
               \<lparr>dd_ID = dc_ID cfg, dd_Name = dc_Name cfg, dd_A = rs @ map (\<lambda>a. aliasJ (scanAlias a)) aliases,
                dd_Forwarders = fs\<rparr>))))))))) "

text \<open>The records of the request: aliases of applications, and records with addresses; an alias without a target is skipped.\<close>

fun buildDNS :: "string \<Rightarrow> DNSARecordJ list \<Rightarrow> (int \<times> string, DNSConfigAppAlias list \<times> DNSARecord list) ctl" where
  "buildDNS cfgID [] = retC ([], [])"
| "buildDNS cfgID (req # reqs) =
     (if aj_Alias req \<and> aj_Values req \<noteq> [] then
        bindC uuidNew (\<lambda>i.
        let rec = \<lparr>dl_ID = i, dl_DNSConfigID = cfgID, dl_Name = aj_Name req, dl_Description = aj_Description req,
                   dl_AppID = hd (aj_Values req)\<rparr> in
        bindC (validC (Pair 400) (\<lambda>lib. DNSConfigAppAlias_Validate lib rec)) (\<lambda>_.
        bindC (buildDNS cfgID reqs) (\<lambda>(as, rs). retC (rec # as, rs))))
      else if \<not> aj_Alias req then
        (let rec = \<lparr>da_Name = aj_Name req, da_Description = aj_Description req, da_IPs = aj_Values req\<rparr> in
        bindC (validC (Pair 400) (\<lambda>lib. DNSARecord_Validate rec)) (\<lambda>_.
        bindC (buildDNS cfgID reqs) (\<lambda>(as, rs). retC (as, rec # rs))))
      else buildDNS cfgID reqs)"

definition buildForwarder :: "DNSForwarderJ \<Rightarrow> (int \<times> string, DNSForwarder option) ctl" where
  "buildForwarder req =
     (let config = \<lparr>df_Name = fj_Name req, df_Description = fj_Description req, df_IP = fj_Value req\<rparr>
      in bindC (validC (Pair 400) (\<lambda>lib. DNSForwarder_Validate config)) (\<lambda>_. retC (Some config)))"

definition swagDNSCreateHelper :: "string \<Rightarrow> DNSDetail rbody \<Rightarrow> (int \<times> string, unit) ctl" where
  "swagDNSCreateHelper node_id body =
     bindC (askC ce_jsonErr) (\<lambda>jsonErr.
     case body of
       ReadErr \<Rightarrow> throwC (500, [])
     | UnmarshalErr \<Rightarrow> throwC (400, jsonErr)
     | Decoded requested \<Rightarrow>
         if dd_Forwarders requested \<noteq> [] then throwC (501, ''received unimplemented field forwarders in request'')
         else
           bindC uuidNew (\<lambda>cfgID.
           bindC uuidNew (\<lambda>assocID.
           let nodeDNS = \<lparr>nc_ID = assocID, nc_NodeID = node_id, nc_DNSConfigID = cfgID\<rparr> in
           bindC (buildDNS cfgID (dd_A requested)) (\<lambda>(newAliases, recs).
           bindC (mapC buildForwarder (dd_Forwarders requested)) (\<lambda>fwds.
           let newConfig = \<lparr>dc_ID = cfgID, dc_Name = dd_Name requested, dc_ARecords = map Some recs, dc_Forwarders = fwds\<rparr> in
           bindC (onErr (Pair 500) (handleCreateNodesDNSConfigsWithAliases nodeDNS newConfig newAliases)) (\<lambda>_.
           bindC (onErr (Pair 500) (Create (EDns newConfig))) (\<lambda>_.
           bindC (eachC (\<lambda>a. onErr (Pair 500) (Create (EAlias a))) newAliases) (\<lambda>_.
           onErr (Pair 500) (Create (ENodeDns nodeDNS))))))))))"

definition swagDNSDeleteHelper :: "string \<Rightarrow> (int \<times> string, unit) ctl" where
  "swagDNSDeleteHelper node_id =
     onErr (Pair 500)
       (bindC (Filter T_nodes_dns_configs [(''node_id'', node_id)]) (\<lambda>persistedNode.
        case persistedNode of
          [] \<Rightarrow> retC ()
        | pn # _ \<Rightarrow>
            (let cfgID = nc_DNSConfigID (scanNodeDns pn)
             in bindC (Read T_dns_configs cfgID) (\<lambda>row.
                bindC (Filter T_dns_configs_app_aliases [(''dns_config_id'', cfgID)]) (\<lambda>aliases.
                bindC (handleDeleteNodesDNSConfigsWithAliases (scanNodeDns pn) (map_option scanDns row) (map scanAlias aliases)) (\<lambda>_.
                bindC (Delete (GetID pn) T_nodes_dns_configs) (\<lambda>_.
                bindC (eachC (\<lambda>a. bindC (Delete (GetID a) T_dns_configs_app_aliases) (\<lambda>_. retC ())) aliases) (\<lambda>_.
                bindC (ptrC row) (\<lambda>cfg.
                bindC (Delete (GetID cfg) T_dns_configs) (\<lambda>_. retC ()))))))))))"

definition midOperation :: "int \<times> string \<Rightarrow> reply" where
  "midOperation r = replyText (fst r) (''DNS call failed mid operation: '' @ snd r)"

definition swagPATCHNodeDNS :: "string \<Rightarrow> DNSDetail rbody \<Rightarrow> hdl" where
  "swagPATCHNodeDNS node_id body =
     bindC (fetch T_nodes node_id) (\<lambda>_.
     bindC (onErr midOperation (swagDNSDeleteHelper node_id)) (\<lambda>_.
     bindC (onErr midOperation (swagDNSCreateHelper node_id body)) (\<lambda>_.
     retC (status 200))))"

definition swagDELETENodeDNS :: "string \<Rightarrow> hdl" where
  "swagDELETENodeDNS node_id =
     bindC (fetch T_nodes node_id) (\<lambda>_.
     bindC (onErr midOperation (swagDNSDeleteHelper node_id)) (\<lambda>_.
     retC (status 204)))"

section \<open>Interfaces\<close>

definition swagGETInterfaces :: "string \<Rightarrow> hdl" where
  "swagGETInterfaces node_id =
     bindC (fetch T_nodes node_id) (\<lambda>e.
     bindC (onErr fail500 (handleGetNodes (scanNode e))) (\<lambda>nis.
     retC (replyJSON 200 (BInterfaces nis))))"

definition swagPATCHInterfaces :: "string \<Rightarrow> NetworkInterface list rbody \<Rightarrow> hdl" where
  "swagPATCHInterfaces node_id body =
     bindC (payload body (status 400)) (\<lambda>ifaces.
     bindC (fetch T_nodes node_id) (\<lambda>e.
     let requested = \<lparr>nr_Node = scanNode e, nr_NetworkInterfaces = Some (map Some ifaces), nr_TrafficPolicies = []\<rparr> in
     bindC (validC validationFailed (\<lambda>lib. NodeReq_Validate lib requested)) (\<lambda>_.
     bindC (onErr (\<lambda>(c, m). replyText c m) (handleUpdateNodes requested)) (\<lambda>_.
     bindC (onErr fail500 (BulkUpdate [ENode (nr_Node requested)])) (\<lambda>_.
     retC (status 200))))))"

definition swagGETInterfaceByID :: "string \<Rightarrow> string \<Rightarrow> hdl" where
  "swagGETInterfaceByID node_id interface_id =
     bindC (fetch T_nodes node_id) (\<lambda>e.
     bindC (onErr fail500 (handleGetNodes (scanNode e))) (\<lambda>nis.
     case rev (filter (\<lambda>ni. ni_ID ni = interface_id) nis) of
       [] \<Rightarrow> retC (status 404)
     | ni # _ \<Rightarrow> if ni_ID ni = [] then retC (status 404) else retC (replyJSON 200 (BInterface ni))))"

definition swagGETNodeInterfacePolicy :: "string \<Rightarrow> string \<Rightarrow> hdl" where
  "swagGETNodeInterfacePolicy node_id interface_id =
     bindC (onErr fail500 (Filter T_nodes_network_interfaces_traffic_policies
              [(''node_id'', node_id), (''network_interface_id'', interface_id)])) (\<lambda>rows.
     retC (replyJSON 200 (BBase (case rows of [] \<Rightarrow> [] | r # _ \<Rightarrow> nx_TrafficPolicyID (scanIfacePolicy r)))))"

definition ifaceReq :: "string \<Rightarrow> string \<Rightarrow> string \<Rightarrow> NodeReq" where
  "ifaceReq node_id interface_id policy_id =
     \<lparr>nr_Node = \<lparr>node_ID = node_id, node_Name = [], node_Location = [], node_Serial = []\<rparr>, nr_NetworkInterfaces = None,
      nr_TrafficPolicies = [\<lparr>np_NetworkInterfaceID = interface_id, np_TrafficPolicyID = policy_id\<rparr>]\<rparr>"

text \<open>Delete the only record that a filter finds.\<close>

definition deleteOnly :: "table \<Rightarrow> entity list \<Rightarrow> (reply, unit) ctl" where
  "deleteOnly t rows =
     (if length rows = 1 then bindC (onErr fail500 (Delete (GetID (hd rows)) t)) (\<lambda>ok. guardC ok (status 500))
      else retC ())"

definition swagPATCHNodeInterfacePolicy :: "string \<Rightarrow> string \<Rightarrow> string rbody \<Rightarrow> hdl" where
  "swagPATCHNodeInterfacePolicy node_id interface_id body =
     bindC (payload body (status 400)) (\<lambda>baseResource.
     bindC (fetch T_nodes node_id) (\<lambda>_.
     bindC (onErr fail500 (Read T_traffic_policies baseResource)) (\<lambda>policy.
     if Option.is_none policy then retC (replyText 404 (''traffic policy '' @ baseResource @ '' not found''))
     else
       bindC (onErr (\<lambda>(c, m). replyText c m) (handleUpdateNodes (ifaceReq node_id interface_id baseResource))) (\<lambda>_.
       bindC (onErr fail500 (Filter T_nodes_network_interfaces_traffic_policies
                [(''network_interface_id'', interface_id)])) (\<lambda>rows.
       bindC (deleteOnly T_nodes_network_interfaces_traffic_policies rows) (\<lambda>_.
       bindC uuidNew (\<lambda>i.
       bindC (onErr fail500 (Create (EIfacePolicy
                \<lparr>nx_ID = i, nx_NodeID = node_id, nx_NetworkInterfaceID = interface_id,
                 nx_TrafficPolicyID = baseResource\<rparr>))) (\<lambda>_.
       retC (status 200)))))))))"

definition swagDELETENodeInterfacePolicy :: "string \<Rightarrow> string \<Rightarrow> hdl" where
  "swagDELETENodeInterfacePolicy node_id interface_id =
     bindC (fetch T_nodes node_id) (\<lambda>_.
     bindC (onErr (\<lambda>(c, m). replyText c m) (handleUpdateNodes (ifaceReq node_id interface_id []))) (\<lambda>_.
     bindC (onErr fail500 (Filter T_nodes_network_interfaces_traffic_policies
              [(''network_interface_id'', interface_id)])) (\<lambda>rows.
     bindC (deleteOnly T_nodes_network_interfaces_traffic_policies rows) (\<lambda>_.
     retC (status 204)))))"

section \<open>Applications of a node\<close>

fun featureMap :: "NodeFeatureNFD list \<Rightarrow> (string, string) gomap \<Rightarrow> (string, string) gomap" where
  "featureMap [] m = m"
| "featureMap (f # fs) m = featureMap fs (gm_put (nf_NfdID f) (nf_NfdValue f) m)"

definition getNfdFeatures :: "string \<Rightarrow> (string, (string, string) gomap) ctl" where
  "getNfdFeatures nodeID =
     bindC (Filter T_nodes_nfd_features [(''node_id'', nodeID)]) (\<lambda>rows. retC (featureMap (map scanNfd rows) []))"

definition swagGETNodeApps :: "string \<Rightarrow> hdl" where
  "swagGETNodeApps node_id =
     bindC (fetch T_nodes node_id) (\<lambda>_.
     bindC (onErr fail500 (Filter T_nodes_apps [(''node_id'', node_id)])) (\<lambda>rows.
     retC (replyJSON 200 (BNodeApps (map (\<lambda>e. na_AppID (scanNodeApp e)) rows)))))"

definition swagPOSTNodeApp :: "string \<Rightarrow> string rbody \<Rightarrow> hdl" where
  "swagPOSTNodeApp node_id body =
     bindC (payloadText body) (\<lambda>baseResource.
     bindC (onErr fail500 (Filter T_nodes_apps [(''node_id'', node_id), (''app_id'', baseResource)])) (\<lambda>nodeApps.
     if nodeApps \<noteq> [] then
       retC (replyText 422 (''duplicate record in nodes_apps detected for node_id '' @ node_id @ '' and app_id ''
                            @ baseResource))
     else
       bindC (fetch T_nodes node_id) (\<lambda>_.
       bindC uuidNew (\<lambda>i.
       let nodeApp = \<lparr>na_ID = i, na_NodeID = node_id, na_AppID = baseResource\<rparr> in
       bindC (validC validationFailed (\<lambda>lib. NodeApp_Validate lib nodeApp)) (\<lambda>_.
       bindC (fetch T_apps baseResource) (\<lambda>app.
       bindC (onErr (\<lambda>e. replyText 500 (''error: '' @ e @ newline)) (getNfdFeatures node_id)) (\<lambda>features.
       bindC (guardC (Option.is_none (EPAValidate (scanApp app) features)) (status 500)) (\<lambda>_.
       bindC (onErr (\<lambda>e. replyText 500 (''Error: '' @ e)) (handleCreateNodesApps nodeApp)) (\<lambda>_.
       bindC (onErr fail500 (Create (ENodeApp nodeApp))) (\<lambda>_.
       retC (status 200)))))))))))"

text \<open>The record of an application on a node: 404 when there is none, 500 when there are several.\<close>

definition nodeAppRow :: "string \<Rightarrow> string \<Rightarrow> (reply, NodeApp) ctl" where
  "nodeAppRow node_id app_id =
     bindC (onErr fail500 (Filter T_nodes_apps [(''node_id'', node_id), (''app_id'', app_id)])) (\<lambda>nodeApps.
     case nodeApps of
       [] \<Rightarrow> throwC (status 404)
     | a # rest \<Rightarrow> if rest \<noteq> [] then throwC (status 500) else retC (scanNodeApp a))"

definition swagGETNodeAppsByID :: "string \<Rightarrow> string \<Rightarrow> hdl" where
  "swagGETNodeAppsByID node_id app_id =
     bindC (nodeAppRow node_id app_id) (\<lambda>a.
     bindC (onErr fail500 (handleGetNodesApps a)) (\<lambda>st.
     retC (replyJSON 200 (BNodeApp \<lparr>nk_ID = na_AppID a, nk_Status = st, nk_Command = []\<rparr>))))"

definition swagPATCHNodeAppsByID :: "string \<Rightarrow> string \<Rightarrow> NodeAppDetail rbody \<Rightarrow> hdl" where
  "swagPATCHNodeAppsByID node_id app_id body =
     bindC (payloadText body) (\<lambda>d.
     bindC (nodeAppRow node_id app_id) (\<lambda>a.
     let requested = \<lparr>nq_NodeApp = a, nq_Cmd = nk_Command d\<rparr> in
     bindC (validC validationFailed (\<lambda>lib. NodeAppReq_Validate lib requested)) (\<lambda>_.
     bindC (onErr (\<lambda>(c, m). replyText c ''error updating remote entity'') (handleUpdateNodesApps requested)) (\<lambda>_.
     retC (status 200)))))"

definition swagDELETENodeAppByID :: "string \<Rightarrow> string \<Rightarrow> hdl" where
  "swagDELETENodeAppByID node_id app_id =
     bindC (nodeAppRow node_id app_id) (\<lambda>a.
     bindC (onErr (\<lambda>(c, m). replyText c (''cannot delete app '' @ app_id
              @ '': record in use in nodes_apps_traffic_policies'')) (checkDBDeleteNodesApps (na_ID a))) (\<lambda>_.
     bindC (onErr fail500 (handleDeleteNodesApps a)) (\<lambda>_.
     bindC (onErr fail500 (Delete (na_ID a) T_nodes_apps)) (\<lambda>ok.
     bindC (guardC ok (status 500)) (\<lambda>_.
     retC (status 204))))))"

section \<open>Policies of the applications of a node\<close>

definition appPolicyRows :: "NodeApp \<Rightarrow> (reply, entity list) ctl" where
  "appPolicyRows a = onErr fail500 (Filter T_nodes_apps_traffic_policies [(''nodes_apps_id'', na_ID a)])"

definition getAppPolicy :: "string \<Rightarrow> string \<Rightarrow> hdl" where
  "getAppPolicy node_id app_id =
     bindC (nodeAppRow node_id app_id) (\<lambda>a.
     bindC (appPolicyRows a) (\<lambda>rows.
     case rows of
       [] \<Rightarrow> retC (status 404)
     | r # rest \<Rightarrow>
         if rest \<noteq> [] then retC (status 500)
         else retC (replyJSON 200 (BBase (nt_TrafficPolicyID (scanAppPolicy r))))))"

text \<open>Replace the record of the policy of an application.\<close>

definition replaceAppPolicy :: "NodeApp \<Rightarrow> string \<Rightarrow> hdl" where
  "replaceAppPolicy a policy_id =
     bindC (appPolicyRows a) (\<lambda>rows.
     bindC (deleteOnly T_nodes_apps_traffic_policies rows) (\<lambda>_.
     bindC uuidNew (\<lambda>i.
     bindC (onErr fail500 (Create (EAppPolicy
              \<lparr>nt_ID = i, nt_NodeAppID = na_ID a, nt_TrafficPolicyID = policy_id\<rparr>))) (\<lambda>_.
     retC (status 200)))))"

text \<open>The first record is taken without a check that there is one.\<close>

definition dropAppPolicy :: "entity list \<Rightarrow> hdl" where
  "dropAppPolicy rows =
     bindC (ptrC (case rows of [] \<Rightarrow> None | r # _ \<Rightarrow> Some r)) (\<lambda>r.
     bindC (onErr fail500 (Delete (GetID r) T_nodes_apps_traffic_policies)) (\<lambda>ok.
     bindC (guardC ok (status 500)) (\<lambda>_.
     retC (status 204))))"

definition swagGETNodeAppPolicy :: "string \<Rightarrow> string \<Rightarrow> hdl" where
  "swagGETNodeAppPolicy node_id app_id = getAppPolicy node_id app_id"

definition swagPATCHNodeAppPolicy :: "string \<Rightarrow> string \<Rightarrow> string rbody \<Rightarrow> hdl" where
  "swagPATCHNodeAppPolicy node_id app_id body =
     bindC (payload body (status 400)) (\<lambda>baseResource.
     bindC (nodeAppRow node_id app_id) (\<lambda>a.
     bindC (fetch T_traffic_policies baseResource) (\<lambda>policy.
     bindC elaPort (\<lambda>port.
     bindC (onErr fail500 (connectNode (na_NodeID a) port)) (\<lambda>_.
     bindC (onErr fail500 (onEla port (AppPolicy_Set (na_AppID a) (Some (scanPolicy policy))))) (\<lambda>_.
     replaceAppPolicy a baseResource))))))"

definition swagDELETENodeAppPolicy :: "string \<Rightarrow> string \<Rightarrow> hdl" where
  "swagDELETENodeAppPolicy node_id app_id =
     bindC (nodeAppRow node_id app_id) (\<lambda>a.
     bindC (appPolicyRows a) (\<lambda>rows.
     bindC elaPort (\<lambda>port.
     bindC (onErr fail500 (connectNode (na_NodeID a) port)) (\<lambda>_.
     bindC (onErr fail500 (onEla port (AppPolicy_Delete (na_AppID a)))) (\<lambda>_.
     dropAppPolicy rows)))))"

definition swagGETNodeAppKubeOVNPolicy :: "string \<Rightarrow> string \<Rightarrow> hdl" where
  "swagGETNodeAppKubeOVNPolicy node_id app_id = getAppPolicy node_id app_id"

definition swagPATCHNodeAppKubeOVNPolicy :: "string \<Rightarrow> string \<Rightarrow> string rbody \<Rightarrow> hdl" where
  "swagPATCHNodeAppKubeOVNPolicy node_id app_id body =
     bindC (payload body (status 400)) (\<lambda>baseResource.
     bindC (nodeAppRow node_id app_id) (\<lambda>a.
     bindC (fetch T_traffic_policies baseResource) (\<lambda>policy.
     bindC (tryC (DeleteNetworkPolicy (na_NodeID a) (na_AppID a))) (\<lambda>_.
     bindC (ptrC (ToK8s (scanPolicyOVN policy))) (\<lambda>np.
     bindC (onErr fail500 (ApplyNetworkPolicy (na_NodeID a) (na_AppID a) np)) (\<lambda>_.
     replaceAppPolicy a baseResource))))))"

definition swagDELETENodeAppKubeOVNPolicy :: "string \<Rightarrow> string \<Rightarrow> hdl" where
  "swagDELETENodeAppKubeOVNPolicy node_id app_id =
     bindC (nodeAppRow node_id app_id) (\<lambda>a.
     bindC (appPolicyRows a) (\<lambda>rows.
     bindC (onErr fail500 (DeleteNetworkPolicy (na_NodeID a) (na_AppID a))) (\<lambda>_.
     dropAppPolicy rows)))"

definition swagGETNodeNFDTags :: "string \<Rightarrow> hdl" where
  "swagGETNodeNFDTags node_id =
     bindC (onErr (\<lambda>e. replyText 500 (''error: '' @ e @ newline)) (getNfdFeatures node_id)) (\<lambda>features.
     retC (replyJSON 200 (BNfd features)))"

section \<open>The handlers keep the integrity of the database\<close>

lemma keeps_steps [keeps_intros]:
  "keeps P (fetch t i)" "keeps P (payload b bad)" "keeps P (payloadText b)" "keeps P (nodeAppRow n a)"
  "keeps P (appPolicyRows na)" "keeps P (getNfdFeatures n)" "keeps P (getAppPolicy n a)"
  unfolding fetch_def payload_def payloadText_def nodeAppRow_def appPolicyRows_def getNfdFeatures_def getAppPolicy_def
  by (intro keeps_intros)+

context db_invariant
begin

lemma keeps_writes [keeps_intros]:
  "keeps P (deleteOnly t rows)" "keeps P (replaceAppPolicy na i)" "keeps P (dropAppPolicy rows)"
  "(\<And>i. keeps P (check i)) \<Longrightarrow> keeps P (deleteChecked t check i)"
  unfolding deleteOnly_def replaceAppPolicy_def dropAppPolicy_def deleteChecked_def by (intro keeps_intros; assumption)+

lemma keeps_buildDNS [keeps_intros]: "keeps P (buildDNS c reqs)"
  by (induction reqs) (auto simp: Let_def intro!: keeps_intros)

lemma keeps_renderDNS [keeps_intros]: "keeps P (recordsJ rs)" "keeps P (forwardersJ fs)"
  by (induction rs, auto intro!: keeps_intros) (induction fs, auto intro!: keeps_intros)

lemma keeps_plain [keeps_intros]: "keeps P (hcreate plainHandler b)"
  by (rule keeps_hcreate) (simp_all add: plainHandler_def)

lemma keeps_dns [keeps_intros]:
  "keeps P (swagDNSCreateHelper n b)" "keeps P (swagDNSDeleteHelper n)" "keeps P (swagGETNodeDNS n)"
  "keeps P (swagPATCHNodeDNS n b)" "keeps P (swagDELETENodeDNS n)"
  unfolding swagPATCHNodeDNS_def swagDELETENodeDNS_def swagDNSCreateHelper_def swagDNSDeleteHelper_def
    swagGETNodeDNS_def buildForwarder_def
  by (intro keeps_intros)+

lemma keeps_patches:
  "keeps P (swagPATCHAppByID n d)" "keeps P (swagPATCHPolicyByID n p)" "keeps P (swagPATCHKubeOVNPolicyByID n q)"
  unfolding swagPATCHAppByID_def swagPATCHPolicyByID_def swagPATCHKubeOVNPolicyByID_def
  by (intro keeps_bindC [OF keeps_steps(2)] keeps_valid_then, intro keeps_intros, simp add: storable_def)+

lemma keeps_nodes [keeps_intros]:
  "keeps P swagGETNodes" "keeps P (swagPOSTNodes b)" "keeps P (swagGETNodeByID n)"
  "keeps P (swagPATCHNodeByID n b)" "keeps P (swagDELETENodeByID n q)"
  unfolding swagGETNodes_def swagPOSTNodes_def swagGETNodeByID_def swagPATCHNodeByID_def swagDELETENodeByID_def
  by (intro keeps_intros)+

lemma keeps_apps [keeps_intros]:
  "keeps P swagGETApps" "keeps P (swagPOSTApps b)" "keeps P (swagGETAppByID n)"
  "keeps P (swagPATCHAppByID n d)" "keeps P (swagDELETEAppByID n)"
  unfolding swagGETApps_def swagPOSTApps_def swagGETAppByID_def swagDELETEAppByID_def
  by (intro keeps_intros keeps_patches)+

lemma keeps_policies [keeps_intros]:
  "keeps P swagGETPolicies" "keeps P (swagPOSTPolicies b)" "keeps P (swagGETPolicyByID n)"
  "keeps P (swagPATCHPolicyByID n d)" "keeps P (swagDELETEPolicyByID n)"
  "keeps P swagGETKubeOVNPolicies" "keeps P (swagPOSTKubeOVNPolicies b')"
  "keeps P (swagGETKubeOVNPolicyByID n)" "keeps P (swagPATCHKubeOVNPolicyByID n d')"
  "keeps P (swagDELETEKubeOVNPolicyByID n)"
  unfolding swagGETPolicies_def swagPOSTPolicies_def swagGETPolicyByID_def
    swagDELETEPolicyByID_def swagGETKubeOVNPolicies_def swagPOSTKubeOVNPolicies_def swagGETKubeOVNPolicyByID_def
    swagDELETEKubeOVNPolicyByID_def
  by (intro keeps_intros keeps_patches)+

lemma keeps_interfaces [keeps_intros]:
  "keeps P (swagGETInterfaces n)" "keeps P (swagPATCHInterfaces n l)" "keeps P (swagGETInterfaceByID n i)"
  "keeps P (swagGETNodeInterfacePolicy n i)" "keeps P (swagPATCHNodeInterfacePolicy n i b)"
  "keeps P (swagDELETENodeInterfacePolicy n i)"
  unfolding swagGETInterfaces_def swagPATCHInterfaces_def swagGETInterfaceByID_def swagGETNodeInterfacePolicy_def
    swagPATCHNodeInterfacePolicy_def swagDELETENodeInterfacePolicy_def
  by (intro keeps_intros)+

lemma keeps_nodeApps [keeps_intros]:
  "keeps P (swagGETNodeApps n)" "keeps P (swagPOSTNodeApp n b)" "keeps P (swagGETNodeAppsByID n a)"
  "keeps P (swagPATCHNodeAppsByID n a d)" "keeps P (swagDELETENodeAppByID n a)"
  "keeps P (swagGETNodeAppPolicy n a)" "keeps P (swagPATCHNodeAppPolicy n a b)"
  "keeps P (swagDELETENodeAppPolicy n a)" "keeps P (swagGETNodeAppKubeOVNPolicy n a)"
  "keeps P (swagPATCHNodeAppKubeOVNPolicy n a b)" "keeps P (swagDELETENodeAppKubeOVNPolicy n a)"
  "keeps P (swagGETNodeNFDTags n)"
  unfolding swagGETNodeApps_def swagPOSTNodeApp_def swagGETNodeAppsByID_def swagPATCHNodeAppsByID_def
    swagDELETENodeAppByID_def swagGETNodeAppPolicy_def swagPATCHNodeAppPolicy_def swagDELETENodeAppPolicy_def
    swagGETNodeAppKubeOVNPolicy_def swagPATCHNodeAppKubeOVNPolicy_def swagDELETENodeAppKubeOVNPolicy_def
    swagGETNodeNFDTags_def
  by (intro keeps_intros)+

end

end
