(* ===== verification/Auth_Enroll.thy ===== *)
theory Auth_Enroll
  imports Auth_Pki
begin

text \<open>
  Enrolment of an edge node (\<open>src/edgenode/pkg/auth/enroll.go\<close>): credentials are loaded from a directory,
  or requested from the controller with a key that is kept, checked and saved. The client that asks the
  controller is an argument, from the encoded request to the credentials or an error.
\<close>

section \<open>Definitions\<close>

definition dirPerm :: int where "dirPerm = 448"

definition KeyName :: string where "KeyName = ''key.pem''"
definition CertName :: string where "CertName = ''cert.pem''"
definition CAChainName :: string where "CAChainName = ''cacerts.pem''"
definition CAPoolName :: string where "CAPoolName = ''root.pem''"

text \<open>Pointers and interfaces that may be nil are options.\<close>

record credentials =
  cr_key :: "privkey option"
  cr_cert :: "certificate option"
  cr_caChain :: "certificate list"
  cr_caPoolCerts :: "certificate list"

record pb_Credentials =
  pbc_Certificate :: string
  pbc_CaChain :: "string list"
  pbc_CaPool :: "string list"

definition x509Equal :: "certificate \<Rightarrow> certificate \<Rightarrow> bool" where
  "x509Equal a b \<longleftrightarrow> x_Raw a = x_Raw b"

definition verify :: "pki_env \<Rightarrow> credentials \<Rightarrow> goerr" where
  "verify e c =
     (case cr_cert c of
        None \<Rightarrow> Some ''Empty fields found, credentials not loaded?''
      | Some cert \<Rightarrow>
          if cr_caChain c = [] \<or> cr_caPoolCerts c = [] then Some ''Empty fields found, credentials not loaded?''
          else
            (case Option.bind (cr_key c) (signerPublic e) of
               None \<Rightarrow> Some ''Key is not of (crypto.Signer) type''
             | Some pub \<Rightarrow>
                 (case MarshalPKIXPublicKey e pub of
                    Inl err \<Rightarrow> errorsWrap (Some err) ''Failed to marshall key''
                  | Inr keyDER \<Rightarrow>
                      if x_RawSubjectPublicKeyInfo cert \<noteq> keyDER then Some ''Certificate is not signed with key''
                      else
                        (case CheckSignatureFrom e cert (hd (cr_caChain c)) of
                           Some err \<Rightarrow> errorsWrap (Some err) ''Certificate is not signed by CA''
                         | None \<Rightarrow>
                             if list_ex (\<lambda>p. x509Equal p (last (cr_caChain c))) (cr_caPoolCerts c) then None
                             else Some ''CA Pool does not contain CA''))))"

text \<open>\<open>if err != nil { return nil, errors.Wrap(err, msg) }\<close> after a call that may not return.\<close>

definition thenLoad :: "(string + 'a) option \<Rightarrow> string \<Rightarrow> ('a \<Rightarrow> (string + 'b) option) \<Rightarrow> (string + 'b) option" where
  "thenLoad r msg f =
     (case r of None \<Rightarrow> None | Some (Inl err) \<Rightarrow> Some (Inl (msg @ '': '' @ err)) | Some (Inr a) \<Rightarrow> f a)"

definition loadCredentials :: "pki_env \<Rightarrow> string \<Rightarrow> filesystem \<Rightarrow> (string + credentials) option" where
  "loadCredentials e certsDir fs =
     (case (os_err e ''statdir'' certsDir, gm_get (fs_dirs fs) (filepathClean certsDir)) of
        (Some err, _) \<Rightarrow> Some (Inl (''Failed to get file info: '' @ err))
      | (None, None) \<Rightarrow> Some (Inl ''Failed to get file info: no such directory'')
      | (None, Some perm) \<Rightarrow>
          if perm \<noteq> dirPerm then Some (Inl ''Invalid file permissions'')
          else
            thenLoad (Some (LoadKey e (filepathJoin certsDir KeyName) fs)) ''Failed to load key'' (\<lambda>key.
            thenLoad (LoadCert e (filepathJoin certsDir CertName) fs) ''Failed to load certificate'' (\<lambda>cert.
            thenLoad (LoadCerts e (filepathJoin certsDir CAChainName) fs) ''Failed to load CA chain'' (\<lambda>chain.
            thenLoad (LoadCerts e (filepathJoin certsDir CAPoolName) fs) ''Failed to load CA pool'' (\<lambda>pool.
            let c = \<lparr>cr_key = Some key, cr_cert = Some cert, cr_caChain = chain, cr_caPoolCerts = pool\<rparr>
            in case verify e c of
                 Some err \<Rightarrow> Some (Inl (''credentials verification failed: '' @ err))
               | None \<Rightarrow> Some (Inr c))))))"

text \<open>\<open>if err := f(); err != nil { return errors.Wrap(err, msg) }\<close> on the file system.\<close>

definition thenFs ::
  "filesystem \<times> goerr \<Rightarrow> string \<Rightarrow> (filesystem \<Rightarrow> filesystem \<times> goerr) \<Rightarrow> filesystem \<times> goerr" where
  "thenFs r msg f = (case r of (fs, Some err) \<Rightarrow> (fs, errorsWrap (Some err) msg) | (fs, None) \<Rightarrow> f fs)"

definition makeCertsDir :: "pki_env \<Rightarrow> string \<Rightarrow> filesystem \<Rightarrow> (filesystem \<Rightarrow> filesystem \<times> goerr) \<Rightarrow> filesystem \<times> goerr" where
  "makeCertsDir e certsDir fs f =
     thenFs (osMkdirAll e certsDir dirPerm fs) ''Failed create directory'' (\<lambda>fs1.
     thenFs (osChmodDir e certsDir dirPerm fs1) ''Failed to set permissions'' f)"

text \<open>\<open>save\<close> runs after \<open>verify\<close>, so key and certificate are not nil where they are used.\<close>

definition save :: "pki_env \<Rightarrow> credentials \<Rightarrow> string \<Rightarrow> filesystem \<Rightarrow> filesystem \<times> goerr" where
  "save e c certsDir fs =
     (case (verify e c, cr_key c, cr_cert c) of
        (None, Some key, Some cert) \<Rightarrow>
          makeCertsDir e certsDir fs (\<lambda>fs1.
          thenFs (SaveKey e key (filepathJoin certsDir KeyName) fs1) ''Failed to save key'' (\<lambda>fs2.
          thenFs (SaveCert e (filepathJoin certsDir CertName) [cert] fs2) ''Failed to save certificate'' (\<lambda>fs3.
          thenFs (SaveCert e (filepathJoin certsDir CAChainName) (cr_caChain c) fs3) ''Failed to save CA chain'' (\<lambda>fs4.
          thenFs (SaveCert e (filepathJoin certsDir CAPoolName) (cr_caPoolCerts c) fs4)
            ''Failed to save CA Pool chain'' (\<lambda>fs5. (fs5, None))))))
      | (err, _, _) \<Rightarrow> (fs, err))"

fun decodeCerts_loop :: "pki_env \<Rightarrow> string list \<Rightarrow> string \<Rightarrow> string + string" where
  "decodeCerts_loop e [] acc = Inr acc"
| "decodeCerts_loop e (cert # certs) acc =
     (case fst (pem_Decode e cert) of
        None \<Rightarrow> Inl ''Failed to decode certificates''
      | Some block \<Rightarrow>
          if pem_Type block \<noteq> ''CERTIFICATE'' then Inl ''Invalid block type''
          else decodeCerts_loop e certs (acc @ pem_Bytes block))"

definition decodeCerts :: "pki_env \<Rightarrow> string list \<Rightarrow> string + certificate list" where
  "decodeCerts e certs = tryE (decodeCerts_loop e certs []) (ParseCertificates e)"

definition decodeCredentials :: "pki_env \<Rightarrow> pb_Credentials \<Rightarrow> string + credentials" where
  "decodeCredentials e c =
     (case fst (pem_Decode e (pbc_Certificate c)) of
        None \<Rightarrow> Inl ''Failed to decode certificate''
      | Some block \<Rightarrow>
          tryE (wrapE ''Failed to parse certificate'' (ParseCertificate e (pem_Bytes block))) (\<lambda>cert.
          tryE (wrapE ''Failed to parse CA certificates'' (decodeCerts e (pbc_CaChain c))) (\<lambda>chain.
          tryE (wrapE ''Failed to parse CA pool certificates'' (decodeCerts e (pbc_CaPool c))) (\<lambda>pool.
          Inr \<lparr>cr_key = None, cr_cert = Some cert, cr_caChain = chain, cr_caPoolCerts = pool\<rparr>))))"

definition requestCredentials ::
  "pki_env \<Rightarrow> privkey \<Rightarrow> (string \<Rightarrow> string + pb_Credentials) \<Rightarrow> string + credentials" where
  "requestCredentials e key client =
     tryE (wrapE ''Failed to create CSR'' (CreateCertificateRequest e key)) (\<lambda>csrDER.
     case pem_Encode e \<lparr>pem_Type = ''CERTIFICATE REQUEST'', pem_Bytes = csrDER\<rparr> of
       None \<Rightarrow> Inl ''Failed to encode CSR''
     | Some csrPEM \<Rightarrow>
         tryE (client csrPEM) (\<lambda>creds.
         tryE (decodeCredentials e creds) (\<lambda>c0.
         let c = c0\<lparr>cr_key := Some key\<rparr>
         in case verify e c of Some err \<Rightarrow> Inl err | None \<Rightarrow> Inr c)))"

text \<open>The key of \<open>Enroll\<close>: the one in the directory, or a new one that is saved there.\<close>

definition enrollKey :: "pki_env \<Rightarrow> string \<Rightarrow> filesystem \<Rightarrow> filesystem \<times> (string + privkey)" where
  "enrollKey e certsDir fs =
     (case LoadKey e (filepathJoin certsDir KeyName) fs of
        Inr key \<Rightarrow> (fs, Inr key)
      | Inl _ \<Rightarrow>
          (case GenerateKey e of
             Inl err \<Rightarrow> (fs, Inl (''Failed to generate key: '' @ err))
           | Inr key \<Rightarrow>
               (case makeCertsDir e certsDir fs (\<lambda>fs1.
                       thenFs (SaveKey e key (filepathJoin certsDir KeyName) fs1) ''Failed to save key''
                         (\<lambda>fs2. (fs2, None))) of
                  (fs', Some err) \<Rightarrow> (fs', Inl err)
                | (fs', None) \<Rightarrow> (fs', Inr key))))"

definition Enroll ::
  "pki_env \<Rightarrow> string \<Rightarrow> (string \<Rightarrow> string + pb_Credentials) \<Rightarrow> filesystem \<Rightarrow> (filesystem \<times> goerr) option" where
  "Enroll e certsDir client fs =
     Option.bind (loadCredentials e certsDir fs) (\<lambda>r.
     case r of
       Inr _ \<Rightarrow> Some (fs, None)
     | Inl _ \<Rightarrow>
         (case enrollKey e certsDir fs of
            (fs1, Inl err) \<Rightarrow> Some (fs1, Some err)
          | (fs1, Inr key) \<Rightarrow>
              (case requestCredentials e key client of
                 Inl err \<Rightarrow> Some (fs1, Some err)
               | Inr c \<Rightarrow> Some (save e c certsDir fs1))))"

section \<open>Loading what was saved\<close>

lemma verify_quiet [simp]: "verify (quiet e) c = verify e c"
  by (unfold verify_def quiet_sel) (rule refl)

lemma thenLoad_iff [simp]: "thenLoad r msg f = Some (Inr b) \<longleftrightarrow> (\<exists>a. r = Some (Inr a) \<and> f a = Some (Inr b))"
  by (auto simp: thenLoad_def split: option.splits sum.splits)

lemma thenFs_ok [simp]: "thenFs r msg f = (fs', None) \<longleftrightarrow> (\<exists>fs. r = (fs, None) \<and> f fs = (fs', None))"
  by (auto simp: thenFs_def split: prod.splits option.splits)

lemma loadCredentials_iff:
  "loadCredentials e d fs = Some (Inr c) \<longleftrightarrow>
     os_err e ''statdir'' d = None \<and> gm_get (fs_dirs fs) (filepathClean d) = Some dirPerm \<and>
     (\<exists>key cert. LoadKey e (filepathJoin d KeyName) fs = Inr key \<and>
        LoadCert e (filepathJoin d CertName) fs = Some (Inr cert) \<and>
        LoadCerts e (filepathJoin d CAChainName) fs = Some (Inr (cr_caChain c)) \<and>
        LoadCerts e (filepathJoin d CAPoolName) fs = Some (Inr (cr_caPoolCerts c)) \<and>
        cr_key c = Some key \<and> cr_cert c = Some cert) \<and> verify e c = None"
proof -
  have "(let c' = \<lparr>cr_key = Some key, cr_cert = Some cert, cr_caChain = chain, cr_caPoolCerts = pool\<rparr>
     in case verify e c' of Some err \<Rightarrow> Some (Inl (m @ err)) | None \<Rightarrow> Some (Inr c')) = Some (Inr c) \<longleftrightarrow>
     cr_key c = Some key \<and> cr_cert c = Some cert \<and> cr_caChain c = chain \<and> cr_caPoolCerts c = pool \<and> verify e c = None"
    for key cert chain pool m
    by (cases c) (auto simp: Let_def split: option.splits)
  then show ?thesis by (auto simp: loadCredentials_def split: option.splits)
qed

lemma loadCredentials_quiet:
  "loadCredentials e d fs = Some (Inr c) \<Longrightarrow> loadCredentials (quiet e) d fs = Some (Inr c)"
  by (auto simp: loadCredentials_iff intro: LoadKey_quiet LoadCert_quiet LoadCerts_quiet)

lemma names_plain: "plain KeyName" "plain CertName" "plain CAChainName" "plain CAPoolName"
  by (simp_all add: plain_def KeyName_def CertName_def CAChainName_def CAPoolName_def)

lemma names_differ:
  "KeyName \<noteq> CertName" "KeyName \<noteq> CAChainName" "KeyName \<noteq> CAPoolName"
  "CertName \<noteq> CAChainName" "CertName \<noteq> CAPoolName" "CAChainName \<noteq> CAPoolName"
  by (simp_all add: KeyName_def CertName_def CAChainName_def CAPoolName_def)

lemma plain_nonempty: "plain n \<Longrightarrow> n \<noteq> []"
  by (simp add: plain_def)

lemmas names_facts = names_differ names_differ [symmetric] names_plain names_plain [THEN plain_nonempty]

text \<open>Certificates of decoded credentials come from the parser.\<close>

definition from_parser :: "pki_env \<Rightarrow> credentials \<Rightarrow> bool" where
  "from_parser e c \<longleftrightarrow> (\<forall>cert. cr_cert c = Some cert \<longrightarrow> ParseCertificate e (x_Raw cert) = Inr cert) \<and>
     (\<forall>x\<in>set (cr_caChain c) \<union> set (cr_caPoolCerts c). ParseCertificate e (x_Raw x) = Inr x)"

lemma requestCredentials_ok:
  assumes e: "pki_lawful e" and r: "requestCredentials e key client = Inr c"
  shows "cr_key c = Some key \<and> verify e c = None \<and> from_parser e c"
  using r
  by (auto simp: requestCredentials_def decodeCredentials_def decodeCerts_def tryE_Inr_iff from_parser_def Let_def
      dest: lawful_cert [OF e] lawful_certs [OF e] split: option.splits)

lemma makeCertsDir_ok:
  assumes "makeCertsDir e d fs f = (fs', None)"
  obtains fs1 where "f fs1 = (fs', None)" "gm_get (fs_dirs fs1) (filepathClean d) = Some dirPerm"
  using assms
  by (auto simp: makeCertsDir_def osMkdirAll_def osChmodDir_def split: option.splits)

lemma save_load:
  assumes e: "pki_lawful e" and c: "from_parser e c" and save: "save e c d fs = (fs', None)"
    and small: "small_files fs'"
  shows "loadCredentials (quiet e) d fs' = Some (Inr c)"
proof -
  obtain key cert where v: "verify e c = None" "cr_key c = Some key" "cr_cert c = Some cert"
    using save by (auto simp: save_def verify_def split: option.splits if_splits)
  then have ne: "cr_caChain c \<noteq> []" "cr_caPoolCerts c \<noteq> []" by (auto simp: verify_def split: if_splits)
  obtain fs1 fs2 fs3 fs4 where dir: "gm_get (fs_dirs fs1) (filepathClean d) = Some dirPerm"
    and s: "SaveKey e key (filepathJoin d KeyName) fs1 = (fs2, None)"
      "SaveCert e (filepathJoin d CertName) [cert] fs2 = (fs3, None)"
      "SaveCert e (filepathJoin d CAChainName) (cr_caChain c) fs3 = (fs4, None)"
      "SaveCert e (filepathJoin d CAPoolName) (cr_caPoolCerts c) fs4 = (fs', None)"
    using save v by (auto simp: save_def elim!: makeCertsDir_ok)
  obtain k where k: "fs2 = setFile (filepathJoin d KeyName) \<lparr>f_perm = filePerm, f_data = k\<rparr> fs1"
    and lk: "int (length k) \<le> 1024 * 1024 \<Longrightarrow> LoadKey (quiet e) (filepathJoin d KeyName) fs2 = Inr key"
    using SaveKey_ok [OF e s(1)] by blast
  note w = SaveCert_ok [OF e s(2)] SaveCert_ok [OF e s(3)] SaveCert_ok [OF e s(4)]
  have at: "fileAt fs' (filepathJoin d KeyName) = Some \<lparr>f_perm = filePerm, f_data = k\<rparr>"
    "fileAt fs' (filepathJoin d CertName) = Some \<lparr>f_perm = filePerm, f_data = certsData e [cert]\<rparr>"
    "fileAt fs' (filepathJoin d CAChainName) = Some \<lparr>f_perm = filePerm, f_data = certsData e (cr_caChain c)\<rparr>"
    "fileAt fs' (filepathJoin d CAPoolName) = Some \<lparr>f_perm = filePerm, f_data = certsData e (cr_caPoolCerts c)\<rparr>"
    by (simp_all add: w k filepathJoin_inj names_facts)
  have r: "readable fs' (filepathJoin d KeyName) k" "readable fs' (filepathJoin d CertName) (certsData e [cert])"
    "readable fs' (filepathJoin d CAChainName) (certsData e (cr_caChain c))"
    "readable fs' (filepathJoin d CAPoolName) (certsData e (cr_caPoolCerts c))"
    by (rule small_readable [OF small at(1)] small_readable [OF small at(2)] small_readable [OF small at(3)]
        small_readable [OF small at(4)])+
  have "LoadKey (quiet e) (filepathJoin d KeyName) fs' = LoadKey (quiet e) (filepathJoin d KeyName) fs2"
    by (simp add: LoadKey_def readFileWithPerm_def Let_def at(1)) (simp add: k)
  with lk r(1) have "LoadKey (quiet e) (filepathJoin d KeyName) fs' = Inr key" by (simp add: readable_def)
  moreover have "LoadCert (quiet e) (filepathJoin d CertName) fs' = Some (Inr cert)"
    using LoadCerts_data(2) [OF e _ _ r(2)] c v by (simp add: from_parser_def)
  moreover have "LoadCerts (quiet e) (filepathJoin d CAChainName) fs' = Some (Inr (cr_caChain c))"
    "LoadCerts (quiet e) (filepathJoin d CAPoolName) fs' = Some (Inr (cr_caPoolCerts c))"
    using LoadCerts_data(1) [OF e _ ne(1) r(3)] LoadCerts_data(1) [OF e _ ne(2) r(4)] c by (auto simp: from_parser_def)
  moreover have "gm_get (fs_dirs fs') (filepathClean d) = Some dirPerm" by (simp add: w k dir)
  ultimately show ?thesis using v by (simp add: loadCredentials_iff)
qed

section \<open>A run\<close>

definition ex_client :: "string \<Rightarrow> string + pb_Credentials" where
  "ex_client csr = Inr \<lparr>pbc_Certificate = ''C1c0'', pbc_CaChain = [''C1a0''], pbc_CaPool = [''C1a0'']\<rparr>"

definition ex_enrolled :: filesystem where
  "ex_enrolled = fst (the (Enroll ex_pki ''d'' ex_client \<lparr>fs_files = [], fs_dirs = []\<rparr>))"

section \<open>Properties\<close>

text \<open>
  (C28) Enrolment is done once: after an enrolment that succeeded, the credentials load from the
  directory and satisfy their checks, so a second enrolment succeeds without asking the controller and
  without changing a file, as long as the files are at most a megabyte and can be read.
\<close>

theorem enroll_once:
  assumes e: "pki_lawful e" and en: "Enroll e d client fs = Some (fs', None)" and small: "small_files fs'"
  shows "(\<exists>c. loadCredentials (quiet e) d fs' = Some (Inr c) \<and> verify e c = None) \<and>
    Enroll (quiet e) d client' fs' = Some (fs', None)"
proof -
  have load: "\<exists>c. loadCredentials (quiet e) d fs' = Some (Inr c)"
  proof (cases "\<exists>c. loadCredentials e d fs = Some (Inr c)")
    case True
    with en have "fs' = fs" by (auto simp: Enroll_def)
    with True show ?thesis by (auto intro: loadCredentials_quiet)
  next
    case False
    then obtain err where "loadCredentials e d fs = Some (Inl err)"
      using en by (cases "loadCredentials e d fs") (auto simp: Enroll_def, metis obj_sumE)
    then obtain fs1 key c where "requestCredentials e key client = Inr c" "save e c d fs1 = (fs', None)"
      using en by (auto simp: Enroll_def split: sum.splits prod.splits)
    with save_load [OF e _ _ small] requestCredentials_ok [OF e] show ?thesis by blast
  qed
  then obtain c where c: "loadCredentials (quiet e) d fs' = Some (Inr c)" by blast
  then have "verify e c = None" by (simp add: loadCredentials_iff)
  with c show ?thesis by (simp add: Enroll_def)
qed

theorem enroll_once_witness:
  "Enroll (quiet ex_pki) ''d'' (\<lambda>_. Inl ''refused'') ex_enrolled = Some (ex_enrolled, None)"
proof -
  have "map_option snd (Enroll ex_pki ''d'' ex_client \<lparr>fs_files = [], fs_dirs = []\<rparr>) = Some None" by code_simp
  then have "Enroll ex_pki ''d'' ex_client \<lparr>fs_files = [], fs_dirs = []\<rparr> = Some (ex_enrolled, None)"
    by (auto simp: ex_enrolled_def)
  moreover have "small_files ex_enrolled" by code_simp
  ultimately show ?thesis using enroll_once [OF ex_pki_lawful] by blast
qed

text \<open>
  Loading certificates ends, whatever the file holds, when the PEM decoder gives a remainder that
  is shorter than its input with every block it finds.
\<close>

theorem load_certs_returns:
  assumes "\<forall>d b rest. pem_Decode e d = (Some b, rest) \<longrightarrow> length rest < length d"
  shows "\<exists>r. LoadCerts e path fs = Some r"
  using loadCerts_loop_ends [of "pem_Decode e"] assms
  by (auto simp: LoadCerts_def split: sum.split)

theorem load_certs_returns_witness: "\<exists>r. LoadCerts ex_pki ''d/cert.pem'' ex_enrolled = Some r"
proof (rule load_certs_returns, intro allI impI)
  fix d b rest
  assume "pem_Decode ex_pki d = (Some b, rest)"
  then obtain t r where "d = t # r" "rest = snd (ex_unbytes r)"
    by (auto simp: ex_pki_def ex_decode_def Let_def split: list.splits prod.splits)
  with ex_unbytes_shrinks [of r] show "length rest < length d" by simp
qed

end
