(* ===== verification/Cce_Pki.thy ===== *)
theory Cce_Pki
  imports Auth_Enroll
begin

text \<open>
  The certificate authority of the controller (\<open>edgecontroller/pki\<close>): its key and certificate in files,
  the check that they belong together, and the signing of requests and of TLS certificates. The files
  and the libraries are those of the node's \<open>Auth_Pki\<close>. \<open>None\<close> is a call that does not return.
\<close>

section \<open>Keys and certificates in files\<close>

definition readFile :: "pki_env \<Rightarrow> string \<Rightarrow> filesystem \<Rightarrow> string + string" where
  "readFile e path fs =
     (let p = filepathClean path
      in case (os_err e ''open'' p, fileAt fs p) of
           (Some err, _) \<Rightarrow> Inl err
         | (None, None) \<Rightarrow> Inl ''no such file''
         | (None, Some f) \<Rightarrow> (case os_err e ''read'' p of Some err \<Rightarrow> Inl err | None \<Rightarrow> Inr (f_data f)))"

definition osRemove :: "pki_env \<Rightarrow> string \<Rightarrow> filesystem \<Rightarrow> filesystem \<times> goerr" where
  "osRemove e path fs =
     (case (os_err e ''remove'' path, fileAt fs path) of
        (Some err, _) \<Rightarrow> (fs, Some err)
      | (None, None) \<Rightarrow> (fs, Some ''no such file'')
      | (None, Some _) \<Rightarrow> (fs\<lparr>fs_files := gm_del (filepathClean path) (fs_files fs)\<rparr>, None))"

definition StoreKey :: "pki_env \<Rightarrow> privkey \<Rightarrow> string \<Rightarrow> filesystem \<Rightarrow> filesystem \<times> goerr" where
  "StoreKey e key path fs =
     (case MarshalPKCS8PrivateKey e key of
        Inl err \<Rightarrow> (fs, errorsWrap (Some err) ''unable to marshal EC private key to DER'')
      | Inr der \<Rightarrow>
          thenFs (osCreate e path fs) ''unable to create private key file'' (\<lambda>fs1.
          thenFs (fileChmod e path filePerm fs1) ''unable to set private key file permissions'' (\<lambda>fs2.
          case pem_Encode e \<lparr>pem_Type = ''PRIVATE KEY'', pem_Bytes = der\<rparr> of
            None \<Rightarrow> (fs2, errorsWrap (Some ''pem: cannot encode'') ''unable to store private key'')
          | Some data \<Rightarrow> thenFs (fileWrite e path data fs2) ''unable to store private key'' (\<lambda>fs3. (fs3, None)))))"

definition caLoadKey :: "pki_env \<Rightarrow> string \<Rightarrow> filesystem \<Rightarrow> string + privkey" where
  "caLoadKey e path fs =
     tryE (wrapE ''unable to read key file'' (readFile e path fs)) (\<lambda>bytes.
     case fst (pem_Decode e bytes) of
       None \<Rightarrow> Inl ''unable to decode key''
     | Some block \<Rightarrow> ParsePKCS8PrivateKey e (pem_Bytes block))"

fun storeCert_loop :: "pki_env \<Rightarrow> string \<Rightarrow> certificate list \<Rightarrow> filesystem \<Rightarrow> filesystem \<times> goerr" where
  "storeCert_loop e path [] fs = (fs, None)"
| "storeCert_loop e path (cert # certs) fs =
     (case pem_Encode e \<lparr>pem_Type = ''CERTIFICATE'', pem_Bytes = x_Raw cert\<rparr> of
        None \<Rightarrow> (fs, errorsWrap (Some ''pem: cannot encode'') (''unable to store certificate at '' @ path))
      | Some data \<Rightarrow>
          thenFs (fileWrite e path data fs) (''unable to store certificate at '' @ path) (storeCert_loop e path certs))"

definition StoreCertificate :: "pki_env \<Rightarrow> string \<Rightarrow> certificate list \<Rightarrow> filesystem \<Rightarrow> filesystem \<times> goerr" where
  "StoreCertificate e path certs fs =
     (if certs = [] then (fs, None)
      else
        thenFs (osCreate e path fs) ''unable to create file'' (\<lambda>fs1.
        case storeCert_loop e path certs fs1 of
          (fs2, Some err) \<Rightarrow> (fs2, Some err)
        | (fs2, None) \<Rightarrow>
            thenFs (fileChmod e path filePerm fs2) ''unable to set certificate file permissions'' (\<lambda>fs3. (fs3, None))))"

definition LoadCertificate :: "pki_env \<Rightarrow> string \<Rightarrow> filesystem \<Rightarrow> string + certificate" where
  "LoadCertificate e path fs =
     tryE (wrapE ''unable to read certificate file'' (readFile e path fs)) (\<lambda>bytes.
     case fst (pem_Decode e bytes) of
       None \<Rightarrow> Inl ''unable to decode certificate''
     | Some block \<Rightarrow> ParseCertificate e (pem_Bytes block))"

section \<open>The root CA\<close>

record RootCA =
  ca_Cert :: certificate
  ca_Key :: privkey

text \<open>A certificate or nil, with an error or none: a key that cannot sign gives neither.\<close>

definition caGenerateRootCA :: "pki_env \<Rightarrow> privkey \<Rightarrow> string + certificate option" where
  "caGenerateRootCA e key =
     (case signerPublic e key of
        None \<Rightarrow> (case errorsWrap None ''unable to parse key'' of Some err \<Rightarrow> Inl err | None \<Rightarrow> Inr None)
      | Some pub \<Rightarrow>
          tryE (wrapE ''unable to create CA certificate'' (CreateCertificate e
            \<lparr>t_Subject = \<lparr>pn_CommonName = [], pn_Organization = [''Controller Authority'']\<rparr>,
             t_NotBefore = timeNow e - 15, t_NotAfter = timeNow e + 3 * 365 * 24 * 3600, t_IsCA = True,
             t_BasicConstraintsValid = True, t_KeyUsage = KeyUsageCertSign\<rparr>
            None pub key)) (\<lambda>der.
          tryE (ParseCertificate e der) (\<lambda>c. Inr (Some c))))"

definition caKey :: "pki_env \<Rightarrow> string \<Rightarrow> filesystem \<Rightarrow> filesystem \<times> (string + privkey)" where
  "caKey e keyFile fs =
     (case caLoadKey e keyFile fs of
        Inr key \<Rightarrow> (fs, Inr key)
      | Inl _ \<Rightarrow>
          (case GenerateKey e of
             Inl err \<Rightarrow> (fs, Inl (''unable to generate CA key: '' @ err))
           | Inr key \<Rightarrow>
               (case StoreKey e key keyFile fs of
                  (fs1, Some err) \<Rightarrow> (fs1, Inl (''unable to store CA key: '' @ err))
                | (fs1, None) \<Rightarrow> (fs1, Inr key))))"

text \<open>The certificate from its file, or a new one; storing nil panics.\<close>

definition caCert ::
  "pki_env \<Rightarrow> string \<Rightarrow> privkey \<Rightarrow> filesystem \<Rightarrow> (filesystem, string + certificate) go" where
  "caCert e certFile key fs =
     (case LoadCertificate e certFile fs of
        Inr cert \<Rightarrow> Ret fs (Inr cert)
      | Inl _ \<Rightarrow>
          (case caGenerateRootCA e key of
             Inl err \<Rightarrow> Ret fs (Inl (''unable to generate root CA: '' @ err))
           | Inr None \<Rightarrow>
               (case thenFs (osCreate e certFile fs) ''unable to create file'' (\<lambda>fs1. (fs1, None)) of
                  (fs1, Some err) \<Rightarrow> Ret fs1 (Inl (''unable to store CA certificate: '' @ err))
                | (fs1, None) \<Rightarrow> Panic fs1)
           | Inr (Some cert) \<Rightarrow>
               (case StoreCertificate e certFile [cert] fs of
                  (fs1, Some err) \<Rightarrow> Ret fs1 (Inl (''unable to store CA certificate: '' @ err))
                | (fs1, None) \<Rightarrow> Ret fs1 (Inr cert))))"

definition caKeyFile :: "string \<Rightarrow> string" where "caKeyFile d = filepathJoin d KeyName"

definition caCertFile :: "string \<Rightarrow> string" where "caCertFile d = filepathJoin d CertName"

text \<open>One pass up to the comparison of the two public keys, with its outcome.\<close>

definition caOnce :: "pki_env \<Rightarrow> string \<Rightarrow> filesystem \<Rightarrow> (filesystem, string + RootCA \<times> bool) go" where
  "caOnce e certsDir fs =
     (case osMkdirAll e certsDir dirPerm fs of
        (fs0, Some err) \<Rightarrow> Ret fs0 (Inl (''unable to create CA directory: '' @ err))
      | (fs0, None) \<Rightarrow>
          (case caKey e (caKeyFile certsDir) fs0 of
             (fs1, Inl err) \<Rightarrow> Ret fs1 (Inl err)
           | (fs1, Inr key) \<Rightarrow>
               (case caCert e (caCertFile certsDir) key fs1 of
                  Panic fs2 \<Rightarrow> Panic fs2
                | Ret fs2 (Inl err) \<Rightarrow> Ret fs2 (Inl err)
                | Ret fs2 (Inr cert) \<Rightarrow>
                    (case signerPublic e key of
                       None \<Rightarrow> Panic fs2
                     | Some pub \<Rightarrow>
                         (case MarshalPKIXPublicKey e pub of
                            Inl err \<Rightarrow> Ret fs2 (Inl (''unable to marshal public key: '' @ err))
                          | Inr certDER \<Rightarrow>
                              Ret fs2 (Inr (\<lparr>ca_Cert = cert, ca_Key = key\<rparr>, x_RawSubjectPublicKeyInfo cert = certDER)))))))"

partial_function (option) caInitRootCA ::
  "pki_env \<Rightarrow> string \<Rightarrow> filesystem \<Rightarrow> (filesystem, string + RootCA) go option" where
  [code]: "caInitRootCA e certsDir fs =
     (case caOnce e certsDir fs of
        Panic fs2 \<Rightarrow> Some (Panic fs2)
      | Ret fs2 (Inl err) \<Rightarrow> Some (Ret fs2 (Inl err))
      | Ret fs2 (Inr (ca, match)) \<Rightarrow>
          if \<not> match then
            (case osRemove e (caCertFile certsDir) fs2 of
               (fs3, Some err) \<Rightarrow> Some (Ret fs3 (Inl (''unable to remove invalid cert: '' @ err)))
             | (fs3, None) \<Rightarrow> caInitRootCA e certsDir fs3)
          else Some (Ret fs2 (Inr ca)))"

definition CAChain :: "RootCA \<Rightarrow> string + certificate list" where
  "CAChain ca = Inr [ca_Cert ca]"

definition RootCA_SignCSR :: "pki_env \<Rightarrow> RootCA \<Rightarrow> string \<Rightarrow> pkix_name \<Rightarrow> string + certificate" where
  "RootCA_SignCSR e ca der subject =
     tryE (wrapE ''unable to parse CSR'' (ParseCertificateRequest e der)) (\<lambda>csr.
     tryE (wrapE ''unable to sign certificate'' (CreateCertificate e
       \<lparr>t_Subject = subject, t_NotBefore = timeNow e, t_NotAfter = x_NotAfter (ca_Cert ca), t_IsCA = False,
        t_BasicConstraintsValid = False, t_KeyUsage = 0\<rparr>
       (Some (ca_Cert ca)) (csr_PublicKey csr) (ca_Key ca))) (ParseCertificate e))"

definition newTLSCert :: "pki_env \<Rightarrow> RootCA \<Rightarrow> privkey \<Rightarrow> string \<Rightarrow> string + certificate" where
  "newTLSCert e ca key sni =
     (case signerPublic e key of
        None \<Rightarrow> Inl ''invalid private key type''
      | Some pub \<Rightarrow>
          tryE (wrapE ''unable to sign certificate'' (CreateCertificate e
            \<lparr>t_Subject = \<lparr>pn_CommonName = sni, pn_Organization = []\<rparr>, t_NotBefore = timeNow e,
             t_NotAfter = x_NotAfter (ca_Cert ca), t_IsCA = False, t_BasicConstraintsValid = False,
             t_KeyUsage = KeyUsageDigitalSignature\<rparr>
            (Some (ca_Cert ca)) pub (ca_Key ca))) (ParseCertificate e))"

section \<open>What crypto/x509 promises\<close>

text \<open>
  \<open>CheckSignatureFrom\<close> accepts a parent only if it is an authority, and if its key usage, when it is
  given, has the bit of \<open>KeyUsageCertSign\<close>.
\<close>

definition may_sign :: "certificate \<Rightarrow> bool" where
  "may_sign c \<longleftrightarrow> x_IsCA c \<and> (x_KeyUsage c = 0 \<or> odd (x_KeyUsage c div KeyUsageCertSign))"

text \<open>
  A certificate that is created for a public key holds that key, has the subject, the authority and the
  key usage of the template, and its signature is checked with the certificate of the parent, when the
  parent holds the key that signs and may sign; a request that is created with a key parses to one with
  its public key.
\<close>

definition x509_lawful :: "pki_env \<Rightarrow> bool" where
  "x509_lawful e \<longleftrightarrow>
     (\<forall>t parent pub key der c spki. CreateCertificate e t parent pub key = Inr der \<longrightarrow> ParseCertificate e der = Inr c \<longrightarrow>
        MarshalPKIXPublicKey e pub = Inr spki \<longrightarrow>
        x_RawSubjectPublicKeyInfo c = spki \<and> x_Subject c = t_Subject t
        \<and> x_IsCA c = (t_IsCA t \<and> t_BasicConstraintsValid t) \<and> x_KeyUsage c = t_KeyUsage t
        \<and> (\<forall>p kp. parent = Some p \<longrightarrow> signerPublic e key = Some kp \<longrightarrow>
              MarshalPKIXPublicKey e kp = Inr (x_RawSubjectPublicKeyInfo p) \<longrightarrow> may_sign p \<longrightarrow> CheckSignatureFrom e c p = None))
     \<and> (\<forall>key der r pub. CreateCertificateRequest e key = Inr der \<longrightarrow> ParseCertificateRequest e der = Inr r \<longrightarrow>
          signerPublic e key = Some pub \<longrightarrow> csr_PublicKey r = pub)
     \<and> (\<forall>raw c. ParseCertificate e raw = Inr c \<longrightarrow> ParseCertificates e raw = Inr [c] \<and> x_Raw c = raw)"

lemma x509_created:
  assumes "x509_lawful e" "CreateCertificate e t parent pub key = Inr der" "ParseCertificate e der = Inr c"
    "MarshalPKIXPublicKey e pub = Inr spki"
  shows "x_RawSubjectPublicKeyInfo c = spki" "x_Subject c = t_Subject t"
    "x_IsCA c = (t_IsCA t \<and> t_BasicConstraintsValid t)" "x_KeyUsage c = t_KeyUsage t"
    "parent = Some p \<Longrightarrow> signerPublic e key = Some kp \<Longrightarrow> MarshalPKIXPublicKey e kp = Inr (x_RawSubjectPublicKeyInfo p)
     \<Longrightarrow> may_sign p \<Longrightarrow> CheckSignatureFrom e c p = None"
  using assms unfolding x509_lawful_def by blast+

lemma x509_request:
  "x509_lawful e \<Longrightarrow> CreateCertificateRequest e key = Inr der \<Longrightarrow> ParseCertificateRequest e der = Inr r \<Longrightarrow>
   signerPublic e key = Some pub \<Longrightarrow> csr_PublicKey r = pub"
  unfolding x509_lawful_def by blast

lemma x509_single: "x509_lawful e \<Longrightarrow> ParseCertificate e raw = Inr c \<Longrightarrow> ParseCertificates e raw = Inr [c] \<and> x_Raw c = raw"
  unfolding x509_lawful_def by blast

section \<open>The root CA is consistent\<close>

text \<open>The certificate that is made for a key holds it, so one removal is enough.\<close>

definition ca_match :: "pki_env \<Rightarrow> RootCA \<Rightarrow> bool" where
  "ca_match e ca \<longleftrightarrow>
     (\<exists>pub. signerPublic e (ca_Key ca) = Some pub
        \<and> MarshalPKIXPublicKey e pub = Inr (x_RawSubjectPublicKeyInfo (ca_Cert ca)))"

lemma caGenerated_match:
  assumes law: "x509_lawful e" and g: "caGenerateRootCA e key = Inr (Some cert)" and pub: "signerPublic e key = Some pub"
    and m: "MarshalPKIXPublicKey e pub = Inr spki"
  shows "x_RawSubjectPublicKeyInfo cert = spki"
proof -
  from g pub obtain t der where "CreateCertificate e t None pub key = Inr der" "ParseCertificate e der = Inr cert"
    by (auto simp: caGenerateRootCA_def tryE_Inr_iff)
  then show ?thesis using x509_created(1) [OF law _ _ m] by blast
qed

lemma caGenerated_signs:
  assumes law: "x509_lawful e" and g: "caGenerateRootCA e key = Inr (Some cert)" and pub: "signerPublic e key = Some pub"
    and m: "MarshalPKIXPublicKey e pub = Inr spki"
  shows "may_sign cert"
proof -
  let ?t = "\<lparr>t_Subject = \<lparr>pn_CommonName = [], pn_Organization = [''Controller Authority'']\<rparr>, t_NotBefore = timeNow e - 15,
    t_NotAfter = timeNow e + 3 * 365 * 24 * 3600, t_IsCA = True, t_BasicConstraintsValid = True, t_KeyUsage = KeyUsageCertSign\<rparr>"
  from g pub obtain der where "CreateCertificate e ?t None pub key = Inr der" "ParseCertificate e der = Inr cert"
    by (auto simp: caGenerateRootCA_def tryE_Inr_iff)
  from x509_created(3,4) [OF law this m] show ?thesis by (simp add: may_sign_def KeyUsageCertSign_def)
qed

lemma fileAt_osRemove:
  "osRemove e p fs = (fs', None) \<Longrightarrow> fileAt fs' q = (if filepathClean q = filepathClean p then None else fileAt fs q)"
  by (auto simp: osRemove_def fileAt_def split: option.splits)

lemma LoadCertificate_absent: "fileAt fs p = None \<Longrightarrow> \<exists>err. LoadCertificate e p fs = Inl err"
  by (auto simp: LoadCertificate_def readFile_def Let_def wrapE_def split: option.splits)

lemma fileAt_setFile_ne: "filepathClean q \<noteq> filepathClean p \<Longrightarrow> fileAt (setFile p f fs) q = fileAt fs q"
  by simp

lemma StoreKey_frame:
  "StoreKey e k p fs = (fs', r) \<Longrightarrow> filepathClean q \<noteq> filepathClean p \<Longrightarrow> fileAt fs' q = fileAt fs q"
  by (auto simp: StoreKey_def thenFs_def osCreate_def fileChmod_def fileWrite_def split: sum.splits option.splits)

lemma ca_files_differ: "filepathClean (caCertFile d) \<noteq> filepathClean (caKeyFile d)"
  by (simp add: caCertFile_def caKeyFile_def filepathJoin_inj names_facts)

lemma osMkdirAll_frame: "osMkdirAll e p m fs = (fs', r) \<Longrightarrow> fileAt fs' q = fileAt fs q"
  by (auto simp: osMkdirAll_def fileAt_def split: option.splits)

lemma caKey_frame:
  "caKey e (caKeyFile d) fs = (fs', r) \<Longrightarrow> fileAt fs' (caCertFile d) = fileAt fs (caCertFile d)"
  using StoreKey_frame [OF _ ca_files_differ] by (fastforce simp: caKey_def split: sum.splits prod.splits option.splits)

text \<open>When there is no certificate file, the certificate of the pass is the one made for the key.\<close>

lemma caOnce_fresh:
  assumes law: "x509_lawful e" and none: "fileAt fs (caCertFile d) = None" and r: "caOnce e d fs = Ret fs2 (Inr (ca, ok))"
  shows "ok"
proof -
  obtain fs0 fs1 key where mk: "osMkdirAll e d dirPerm fs = (fs0, None)" and key: "caKey e (caKeyFile d) fs0 = (fs1, Inr key)"
    using r by (auto simp: caOnce_def split: prod.splits option.splits sum.splits)
  have "fileAt fs1 (caCertFile d) = None"
    using none caKey_frame [OF key] osMkdirAll_frame [OF mk] by simp
  then obtain err where "LoadCertificate e (caCertFile d) fs1 = Inl err" using LoadCertificate_absent by blast
  then show ?thesis
    using r caGenerated_match [OF law, of key]
    by (auto simp: caOnce_def mk key caCert_def split: sum.splits option.splits prod.splits go.splits)
qed

lemma caInit_fresh:
  assumes law: "x509_lawful e" and none: "fileAt fs (caCertFile d) = None"
  shows "\<exists>r. caInitRootCA e d fs = Some r"
  using caOnce_fresh [OF law none]
  by (subst caInitRootCA.simps) (auto split: go.split sum.split prod.split)

lemma caInit_returns:
  assumes law: "x509_lawful e"
  shows "\<exists>r. caInitRootCA e d fs = Some r"
proof -
  have "\<exists>r. caInitRootCA e d fs3 = Some r" if "osRemove e (caCertFile d) fs2 = (fs3, None)" for fs2 fs3
    using fileAt_osRemove [OF that] caInit_fresh [OF law] by simp
  then show ?thesis
    by (subst caInitRootCA.simps) (simp split: go.split sum.split prod.split option.split)
qed

text \<open>What is returned was compared.\<close>

lemma caOnce_match: "caOnce e d fs = Ret fs2 (Inr (ca, True)) \<Longrightarrow> ca_match e ca"
  by (auto simp: caOnce_def ca_match_def split: prod.splits option.splits sum.splits go.splits)

lemma caInit_match_raw:
  assumes "caInitRootCA e d fs = Some r"
  shows "\<forall>fs' ca. r = Ret fs' (Inr ca) \<longrightarrow> ca_match e ca"
  by (rule caInitRootCA.raw_induct [OF _ assms])
    (auto split: go.splits sum.splits prod.splits option.splits if_splits dest: caOnce_match)

lemma caInit_match: "caInitRootCA e d fs = Some (Ret fs' (Inr ca)) \<Longrightarrow> ca_match e ca"
  using caInit_match_raw by blast

text \<open>
  The certificate of the authority is the one that was in its file, or one that was made: it may sign,
  unless one that may not was in the file.
\<close>

lemma LoadCertificate_cong: "fileAt fs' p = fileAt fs p \<Longrightarrow> LoadCertificate e p fs' = LoadCertificate e p fs"
  by (simp add: LoadCertificate_def readFile_def Let_def cong: option.case_cong)

lemma caOnce_signs:
  assumes law: "pki_lawful e" "x509_lawful e" and once: "caOnce e d fs = Ret fs' (Inr (ca, ok))"
    and stored: "\<And>c. LoadCertificate e (caCertFile d) fs = Inr c \<Longrightarrow> may_sign c"
  shows "may_sign (ca_Cert ca) \<and> ParseCertificate e (x_Raw (ca_Cert ca)) = Inr (ca_Cert ca)"
proof -
  obtain fs0 fs1 pub spki where mk: "osMkdirAll e d dirPerm fs = (fs0, None)"
    and key: "caKey e (caKeyFile d) fs0 = (fs1, Inr (ca_Key ca))"
    and cert: "caCert e (caCertFile d) (ca_Key ca) fs1 = Ret fs' (Inr (ca_Cert ca))"
    and pub: "signerPublic e (ca_Key ca) = Some pub" "MarshalPKIXPublicKey e pub = Inr spki"
    using once by (auto simp: caOnce_def split: prod.splits option.splits sum.splits go.splits)
  have same: "LoadCertificate e (caCertFile d) fs1 = LoadCertificate e (caCertFile d) fs"
    using caKey_frame [OF key] osMkdirAll_frame [OF mk] by (intro LoadCertificate_cong) simp
  consider "LoadCertificate e (caCertFile d) fs1 = Inr (ca_Cert ca)" | "caGenerateRootCA e (ca_Key ca) = Inr (Some (ca_Cert ca))"
    using cert by (auto simp: caCert_def split: sum.splits option.splits prod.splits)
  then show ?thesis
  proof cases
    case 1
    then have "ParseCertificate e (x_Raw (ca_Cert ca)) = Inr (ca_Cert ca)"
      by (auto simp: LoadCertificate_def tryE_Inr_iff dest: lawful_cert [OF law(1)] split: option.splits)
    with 1 same stored show ?thesis by simp
  next
    case 2
    then have "ParseCertificate e (x_Raw (ca_Cert ca)) = Inr (ca_Cert ca)"
      by (auto simp: caGenerateRootCA_def tryE_Inr_iff dest: lawful_cert [OF law(1)] split: option.splits)
    with caGenerated_signs [OF law(2) 2 pub] show ?thesis by simp
  qed
qed

lemma caInit_cases:
  assumes "caInitRootCA e d fs = Some (Ret fs' (Inr ca))"
  obtains "caOnce e d fs = Ret fs' (Inr (ca, True))"
    | ca' fs2 fs3 where "caOnce e d fs = Ret fs2 (Inr (ca', False))" "osRemove e (caCertFile d) fs2 = (fs3, None)"
      "caInitRootCA e d fs3 = Some (Ret fs' (Inr ca))"
  using assms
  by (subst (asm) caInitRootCA.simps) (auto split: go.splits sum.splits prod.splits option.splits if_splits)

lemma caInit_signs:
  assumes law: "pki_lawful e" "x509_lawful e" and r: "caInitRootCA e d fs = Some (Ret fs' (Inr ca))"
    and stored: "\<And>c. LoadCertificate e (caCertFile d) fs = Inr c \<Longrightarrow> may_sign c"
  shows "may_sign (ca_Cert ca) \<and> ParseCertificate e (x_Raw (ca_Cert ca)) = Inr (ca_Cert ca)"
proof (rule caInit_cases [OF r])
  assume "caOnce e d fs = Ret fs' (Inr (ca, True))"
  then show ?thesis by (rule caOnce_signs [OF law _ stored])
next
  fix ca' fs2 fs3
  assume "osRemove e (caCertFile d) fs2 = (fs3, None)" and again: "caInitRootCA e d fs3 = Some (Ret fs' (Inr ca))"
  then have none: "fileAt fs3 (caCertFile d) = None" using fileAt_osRemove by simp
  from LoadCertificate_absent [OF none, of e] have absent: "LoadCertificate e (caCertFile d) fs3 = Inr c \<Longrightarrow> may_sign c" for c
    by auto
  show ?thesis
  proof (rule caInit_cases [OF again])
    assume "caOnce e d fs3 = Ret fs' (Inr (ca, True))"
    then show ?thesis by (rule caOnce_signs [OF law _ absent])
  qed (use caOnce_fresh [OF law(2) none] in blast)
qed

section \<open>The root CA is kept\<close>

lemma readFile_quiet: "readFile (quiet e) p fs = Inr d \<longleftrightarrow> (\<exists>f. fileAt fs p = Some f \<and> f_data f = d)"
  by (auto simp: readFile_def Let_def split: option.splits)

lemma readFile_at: "readFile e p fs = Inr d \<Longrightarrow> \<exists>f. fileAt fs p = Some f \<and> f_data f = d"
  by (auto simp: readFile_def Let_def split: option.splits)

text \<open>Loading depends on the file alone, and works again when no error of the system comes between.\<close>

lemma load_again:
  "caLoadKey e p fs = Inr k \<Longrightarrow> fileAt fs' p = fileAt fs p \<Longrightarrow> caLoadKey (quiet e) p fs' = Inr k"
  "LoadCertificate e p fs = Inr c \<Longrightarrow> fileAt fs' p = fileAt fs p \<Longrightarrow> LoadCertificate (quiet e) p fs' = Inr c"
  by (auto simp: caLoadKey_def LoadCertificate_def tryE_Inr_iff wrapE_Inr_iff readFile_quiet dest: readFile_at
      split: option.splits)

lemma pem_round_trip:
  assumes e: "pki_lawful e" and b: "pem_Type b \<in> pem_types" "pem_Encode e b = Some d"
  shows "pem_Decode e d = (Some b, [])"
proof -
  obtain d' where "pem_Encode e b = Some d'" "\<And>rest. pem_Decode e (d' @ rest) = (Some b, rest)"
    using lawful_pem [OF e b(1)] by blast
  from this(2) [of "[]"] this(1) b(2) show ?thesis by simp
qed

lemma StoreKey_file:
  assumes "StoreKey e k p fs = (fs', None)"
  shows "\<exists>der d. MarshalPKCS8PrivateKey e k = Inr der \<and> pem_Encode e \<lparr>pem_Type = ''PRIVATE KEY'', pem_Bytes = der\<rparr> = Some d
    \<and> fs' = setFile p \<lparr>f_perm = filePerm, f_data = d\<rparr> fs"
  using assms
  by (auto simp: StoreKey_def osCreate_def fileChmod_def fileWrite_def split: sum.splits option.splits)

lemma StoreKey_load:
  assumes e: "pki_lawful e" and st: "StoreKey e k p fs = (fs', None)"
  shows "caLoadKey (quiet e) p fs' = Inr k"
proof -
  obtain der d where d: "MarshalPKCS8PrivateKey e k = Inr der"
      "pem_Encode e \<lparr>pem_Type = ''PRIVATE KEY'', pem_Bytes = der\<rparr> = Some d" "fs' = setFile p \<lparr>f_perm = filePerm, f_data = d\<rparr> fs"
    using StoreKey_file [OF st] by blast
  have "readFile (quiet e) p fs' = Inr d" by (simp add: readFile_quiet d(3))
  with pem_round_trip [OF e _ d(2)] lawful_key [OF e d(1)] show ?thesis by (simp add: caLoadKey_def pem_types_def)
qed

lemma StoreCertificate_file:
  assumes "StoreCertificate e p [c] fs = (fs', None)"
  shows "\<exists>d. pem_Encode e \<lparr>pem_Type = ''CERTIFICATE'', pem_Bytes = x_Raw c\<rparr> = Some d
    \<and> fs' = setFile p \<lparr>f_perm = filePerm, f_data = d\<rparr> fs"
  using assms
  by (auto simp: StoreCertificate_def osCreate_def fileChmod_def fileWrite_def split: option.splits prod.splits)

lemma StoreCertificate_load:
  assumes e: "pki_lawful e" and st: "StoreCertificate e p [c] fs = (fs', None)" and c: "ParseCertificate e (x_Raw c) = Inr c"
  shows "LoadCertificate (quiet e) p fs' = Inr c"
proof -
  let ?b = "\<lparr>pem_Type = ''CERTIFICATE'', pem_Bytes = x_Raw c\<rparr>"
  obtain d where d: "pem_Encode e ?b = Some d" "fs' = setFile p \<lparr>f_perm = filePerm, f_data = d\<rparr> fs"
    using StoreCertificate_file [OF st] by blast
  have "readFile (quiet e) p fs' = Inr d" by (simp add: readFile_quiet d(2))
  with pem_round_trip [OF e _ d(1)] c show ?thesis by (simp add: LoadCertificate_def pem_types_def)
qed

lemma caCert_again:
  assumes e: "pki_lawful e" and r: "caCert e p key fs = Ret fs' (Inr cert)"
  shows "(fs' = fs \<or> (\<exists>f. fs' = setFile p f fs)) \<and> LoadCertificate (quiet e) p fs' = Inr cert"
proof -
  consider "LoadCertificate e p fs = Inr cert" "fs' = fs"
    | "caGenerateRootCA e key = Inr (Some cert)" "StoreCertificate e p [cert] fs = (fs', None)"
    using r by (auto simp: caCert_def split: sum.splits option.splits prod.splits)
  then show ?thesis
  proof cases
    case 1
    then show ?thesis by (auto intro: load_again)
  next
    case 2
    then have "ParseCertificate e (x_Raw cert) = Inr cert"
      by (auto simp: caGenerateRootCA_def tryE_Inr_iff dest: lawful_cert [OF e] split: option.splits)
    with StoreCertificate_load [OF e 2(2)] StoreCertificate_file [OF 2(2)] show ?thesis by blast
  qed
qed

lemma caKey_again:
  assumes e: "pki_lawful e" and r: "caKey e p fs = (fs', Inr key)"
  shows "fs_dirs fs' = fs_dirs fs \<and> caLoadKey (quiet e) p fs' = Inr key"
  using r StoreKey_load [OF e, of key p fs fs'] StoreKey_file [of e key p fs fs']
  by (auto simp: caKey_def intro: load_again split: sum.splits prod.splits option.splits)

lemma caOnce_again:
  assumes e: "pki_lawful e" and once: "caOnce e d fs = Ret fs' (Inr (ca, True))"
  shows "caOnce (quiet e) d fs' = Ret fs' (Inr (ca, True))"
proof -
  obtain fs0 fs1 pub where mk: "osMkdirAll e d dirPerm fs = (fs0, None)"
    and key: "caKey e (caKeyFile d) fs0 = (fs1, Inr (ca_Key ca))"
    and cert: "caCert e (caCertFile d) (ca_Key ca) fs1 = Ret fs' (Inr (ca_Cert ca))"
    and pub: "signerPublic e (ca_Key ca) = Some pub" "MarshalPKIXPublicKey e pub = Inr (x_RawSubjectPublicKeyInfo (ca_Cert ca))"
    using once by (auto simp: caOnce_def split: prod.splits option.splits sum.splits go.splits)
  note c = caCert_again [OF e cert] and k = caKey_again [OF e key]
  have "fileAt fs' (caKeyFile d) = fileAt fs1 (caKeyFile d)"
    using c ca_files_differ [of d] by auto
  then have k': "caLoadKey (quiet e) (caKeyFile d) fs' = Inr (ca_Key ca)"
    using load_again(1) [of "quiet e" "caKeyFile d" fs1 "ca_Key ca" fs'] k by (simp add: quiet_def)
  have "gm_get (fs_dirs fs') (filepathClean d) \<noteq> None"
    using mk c k by (auto simp: osMkdirAll_def split: option.splits)
  then have "osMkdirAll (quiet e) d dirPerm fs' = (fs', None)" by (auto simp: osMkdirAll_def)
  then show ?thesis using c pub by (simp add: caOnce_def caKey_def k' caCert_def)
qed

lemma caInit_once:
  assumes "caInitRootCA e d fs = Some r"
  shows "\<forall>fs' ca. r = Ret fs' (Inr ca) \<longrightarrow> (\<exists>fs0. caOnce e d fs0 = Ret fs' (Inr (ca, True)))"
  by (rule caInitRootCA.raw_induct [OF _ assms])
    (auto split: go.splits sum.splits prod.splits option.splits if_splits)

lemma caInit_kept:
  assumes e: "pki_lawful e" and "caInitRootCA e d fs = Some (Ret fs' (Inr ca))"
  shows "caInitRootCA (quiet e) d fs' = Some (Ret fs' (Inr ca))"
proof -
  obtain fs0 where "caOnce e d fs0 = Ret fs' (Inr (ca, True))" using caInit_once [OF assms(2)] by blast
  from caOnce_again [OF e this] show ?thesis by (subst caInitRootCA.simps) simp
qed

end
