(* ===== verification/Cce_Serve.thy ===== *)
theory Cce_Serve
  imports Cce_Api Cce_Pki
begin

text \<open>
  The HTTP server of the controller: the tokens (\<open>jose/jose.go\<close>), the login and the check of the
  \<open>Authorization\<close> header (\<open>gorilla/authentication.go\<close>), and the routes and the middleware
  (\<open>gorilla/gorilla.go\<close>). A request comes as the router (a library) matched it: the route with its path
  variables and the decoded body. The JOSE library is a record of parameters.
\<close>

section \<open>Tokens\<close>

text \<open>
  Of a token the claims are its expiry, in seconds. \<open>jo_NewNumericDate\<close> is the expiry for a time, which is
  given in nanoseconds since 1970. \<open>jo_Claims\<close> verifies the signature with a public key and decodes the
  claims, \<open>jo_Validate\<close> compares an expiry with the time.
\<close>

record jose_lib =
  jo_NewSigner :: "privkey \<Rightarrow> string \<Rightarrow> goerr"
  jo_NewNumericDate :: "int \<Rightarrow> int"
  jo_CompactSerialize :: "privkey \<Rightarrow> string \<Rightarrow> int \<Rightarrow> string + string"
  jo_ParseSigned :: "string \<Rightarrow> string + string"
  jo_Public :: "privkey \<Rightarrow> pubkey option"
  jo_Claims :: "pubkey \<Rightarrow> string \<Rightarrow> string + int"
  jo_Validate :: "int \<Rightarrow> int \<Rightarrow> goerr"

definition timeHour :: int where "timeHour = 3600 * 10 ^ 9"

record JWSTokenIssuer =
  ji_Key :: privkey
  ji_KeyAlgorithm :: string

definition Issue :: "jose_lib \<Rightarrow> JWSTokenIssuer \<Rightarrow> int \<Rightarrow> string + string" where
  "Issue j s now =
     (case jo_NewSigner j (ji_Key s) (ji_KeyAlgorithm s) of
        Some err \<Rightarrow> Inl (wrapMsg ''unable to create token signer'' err)
      | None \<Rightarrow> jo_CompactSerialize j (ji_Key s) (ji_KeyAlgorithm s) (jo_NewNumericDate j (now + 24 * timeHour)))"

definition ValidateToken :: "jose_lib \<Rightarrow> JWSTokenIssuer \<Rightarrow> int \<Rightarrow> string \<Rightarrow> goerr" where
  "ValidateToken j s now t =
     (case jo_ParseSigned j t of
        Inl err \<Rightarrow> errorsWrap (Some err) ''unable to parse token''
      | Inr token \<Rightarrow>
          (case jo_Public j (ji_Key s) of
             None \<Rightarrow> errorsWrap None ''invalid signing key''
           | Some key \<Rightarrow>
               (case jo_Claims j key token of
                  Inl err \<Rightarrow> errorsWrap (Some err) ''unable to deserialize token claims''
                | Inr expiry \<Rightarrow> jo_Validate j expiry now)))"

section \<open>Login\<close>

record AuthCreds =
  au_Username :: string
  au_Password :: string

text \<open>The controller as the server holds it.\<close>

record cce_server =
  sv_env :: cce_env
  sv_jose :: jose_lib
  sv_TokenService :: JWSTokenIssuer
  sv_AdminCreds :: AuthCreds

definition badLogin :: reply where
  "badLogin = replyText 401 (''Invalid username or password'' @ newline)"

text \<open>The content type is set after the status is sent, so the reply has none.\<close>

definition authenticate :: "cce_server \<Rightarrow> int \<Rightarrow> AuthCreds rbody \<Rightarrow> hdl" where
  "authenticate sv now body =
     bindC (payload body (status 400)) (\<lambda>u.
     if au_Username u \<noteq> au_Username (sv_AdminCreds sv) then retC badLogin
     else if au_Password u \<noteq> au_Password (sv_AdminCreds sv) then retC badLogin
     else
       case Issue (sv_jose sv) (sv_TokenService sv) now of
         Inl _ \<Rightarrow> retC (status 500)
       | Inr token \<Rightarrow> retC \<lparr>rp_status = 201, rp_json = False, rp_body = BToken token\<rparr>)"

text \<open>Whether a request with this \<open>Authorization\<close> header is let through.\<close>

definition requireAuth :: "cce_server \<Rightarrow> int \<Rightarrow> string \<Rightarrow> bool" where
  "requireAuth sv now auth =
     (if auth = [] then False
      else
        let bearer = stringsSplit (CHR '' '') auth
        in if length bearer \<noteq> 2 then False
           else ValidateToken (sv_jose sv) (sv_TokenService sv) now (bearer ! 1) = None)"

section \<open>Routes\<close>

text \<open>The three tables of routes: common, of the native policies, of the Kubernetes policies.\<close>

datatype common_route =
    POST_auth "AuthCreds rbody"
  | GET_nodes
  | POST_nodes "Node rbody"
  | GET_node string
  | PATCH_node string "Node rbody"
  | DELETE_node string "string list"
  | GET_apps
  | POST_apps "App rbody"
  | GET_app string
  | PATCH_app string "AppDetail rbody"
  | DELETE_app string
  | GET_dns string
  | PATCH_dns string "DNSDetail rbody"
  | DELETE_dns string
  | GET_interfaces string
  | PATCH_interfaces string "NetworkInterface list rbody"
  | GET_interface string string
  | GET_nodeApps string
  | POST_nodeApp string "string rbody"
  | GET_nodeApp string string
  | PATCH_nodeApp string string "NodeAppDetail rbody"
  | DELETE_nodeApp string string
  | GET_nfd string

datatype native_route =
    GET_policies
  | POST_policies "TrafficPolicy rbody"
  | GET_policy string
  | PATCH_policy string "PolicyDetail rbody"
  | DELETE_policy string
  | GET_interfacePolicy string string
  | PATCH_interfacePolicy string string "string rbody"
  | DELETE_interfacePolicy string string
  | GET_appPolicy string string
  | PATCH_appPolicy string string "string rbody"
  | DELETE_appPolicy string string

datatype ovn_route =
    GET_ovnPolicies
  | POST_ovnPolicies "TrafficPolicyKubeOVN rbody"
  | GET_ovnPolicy string
  | PATCH_ovnPolicy string "PolicyKubeOVNDetail rbody"
  | DELETE_ovnPolicy string
  | GET_appOvnPolicy string string
  | PATCH_appOvnPolicy string string "string rbody"
  | DELETE_appOvnPolicy string string

datatype endpoint = Common common_route | NativeRoute native_route | OvnRoute ovn_route

record cce_request =
  rq_RequestURI :: string
  rq_Authorization :: string
  rq_endpoint :: endpoint

definition nativePoliciesHandlers :: "native_route \<Rightarrow> hdl" where
  "nativePoliciesHandlers ep =
     (case ep of
        GET_policies \<Rightarrow> swagGETPolicies
      | POST_policies b \<Rightarrow> swagPOSTPolicies b
      | GET_policy i \<Rightarrow> swagGETPolicyByID i
      | PATCH_policy i b \<Rightarrow> swagPATCHPolicyByID i b
      | DELETE_policy i \<Rightarrow> swagDELETEPolicyByID i
      | GET_interfacePolicy n i \<Rightarrow> swagGETNodeInterfacePolicy n i
      | PATCH_interfacePolicy n i b \<Rightarrow> swagPATCHNodeInterfacePolicy n i b
      | DELETE_interfacePolicy n i \<Rightarrow> swagDELETENodeInterfacePolicy n i
      | GET_appPolicy n a \<Rightarrow> swagGETNodeAppPolicy n a
      | PATCH_appPolicy n a b \<Rightarrow> swagPATCHNodeAppPolicy n a b
      | DELETE_appPolicy n a \<Rightarrow> swagDELETENodeAppPolicy n a)"

definition kubeOVNPoliciesHandlers :: "ovn_route \<Rightarrow> hdl" where
  "kubeOVNPoliciesHandlers ep =
     (case ep of
        GET_ovnPolicies \<Rightarrow> swagGETKubeOVNPolicies
      | POST_ovnPolicies b \<Rightarrow> swagPOSTKubeOVNPolicies b
      | GET_ovnPolicy i \<Rightarrow> swagGETKubeOVNPolicyByID i
      | PATCH_ovnPolicy i b \<Rightarrow> swagPATCHKubeOVNPolicyByID i b
      | DELETE_ovnPolicy i \<Rightarrow> swagDELETEKubeOVNPolicyByID i
      | GET_appOvnPolicy n a \<Rightarrow> swagGETNodeAppKubeOVNPolicy n a
      | PATCH_appOvnPolicy n a b \<Rightarrow> swagPATCHNodeAppKubeOVNPolicy n a b
      | DELETE_appOvnPolicy n a \<Rightarrow> swagDELETENodeAppKubeOVNPolicy n a)"

definition commonHandlers :: "cce_server \<Rightarrow> int \<Rightarrow> common_route \<Rightarrow> hdl" where
  "commonHandlers sv now ep =
     (case ep of
        POST_auth b \<Rightarrow> authenticate sv now b
      | GET_nodes \<Rightarrow> swagGETNodes
      | POST_nodes b \<Rightarrow> swagPOSTNodes b
      | GET_node i \<Rightarrow> swagGETNodeByID i
      | PATCH_node i b \<Rightarrow> swagPATCHNodeByID i b
      | DELETE_node i q \<Rightarrow> swagDELETENodeByID i q
      | GET_apps \<Rightarrow> swagGETApps
      | POST_apps b \<Rightarrow> swagPOSTApps b
      | GET_app i \<Rightarrow> swagGETAppByID i
      | PATCH_app i b \<Rightarrow> swagPATCHAppByID i b
      | DELETE_app i \<Rightarrow> swagDELETEAppByID i
      | GET_dns i \<Rightarrow> swagGETNodeDNS i
      | PATCH_dns i b \<Rightarrow> swagPATCHNodeDNS i b
      | DELETE_dns i \<Rightarrow> swagDELETENodeDNS i
      | GET_interfaces n \<Rightarrow> swagGETInterfaces n
      | PATCH_interfaces n b \<Rightarrow> swagPATCHInterfaces n b
      | GET_interface n i \<Rightarrow> swagGETInterfaceByID n i
      | GET_nodeApps n \<Rightarrow> swagGETNodeApps n
      | POST_nodeApp n b \<Rightarrow> swagPOSTNodeApp n b
      | GET_nodeApp n a \<Rightarrow> swagGETNodeAppsByID n a
      | PATCH_nodeApp n a b \<Rightarrow> swagPATCHNodeAppsByID n a b
      | DELETE_nodeApp n a \<Rightarrow> swagDELETENodeAppByID n a
      | GET_nfd n \<Rightarrow> swagGETNodeNFDTags n)"

definition routes :: "cce_server \<Rightarrow> int \<Rightarrow> endpoint \<Rightarrow> hdl option" where
  "routes sv now ep =
     (case ep of
        Common r \<Rightarrow> Some (commonHandlers sv now r)
      | OvnRoute r \<Rightarrow>
          (if ce_mode (sv_env sv) = OrchestrationModeKubernetesOVN then Some (kubeOVNPoliciesHandlers r) else None)
      | NativeRoute r \<Rightarrow>
          (if ce_mode (sv_env sv) = OrchestrationModeKubernetesOVN then None else Some (nativePoliciesHandlers r)))"

text \<open>Whether the body of a POST or PATCH request cannot be read.\<close>

definition unread :: "'a rbody \<Rightarrow> bool" where
  "unread b = (case b of ReadErr \<Rightarrow> True | _ \<Rightarrow> False)"

definition commonErr :: "common_route \<Rightarrow> bool" where
  "commonErr ep =
     (case ep of
        POST_auth b \<Rightarrow> unread b
      | POST_nodes b \<Rightarrow> unread b
      | PATCH_node i b \<Rightarrow> unread b
      | POST_apps b \<Rightarrow> unread b
      | PATCH_app i b \<Rightarrow> unread b
      | PATCH_dns i b \<Rightarrow> unread b
      | PATCH_interfaces i b \<Rightarrow> unread b
      | POST_nodeApp i b \<Rightarrow> unread b
      | PATCH_nodeApp n a b \<Rightarrow> unread b
      | _ \<Rightarrow> False)"

definition nativeErr :: "native_route \<Rightarrow> bool" where
  "nativeErr ep =
     (case ep of
        POST_policies b \<Rightarrow> unread b
      | PATCH_policy i b \<Rightarrow> unread b
      | PATCH_interfacePolicy n i b \<Rightarrow> unread b
      | PATCH_appPolicy n a b \<Rightarrow> unread b
      | _ \<Rightarrow> False)"

definition ovnErr :: "ovn_route \<Rightarrow> bool" where
  "ovnErr ep =
     (case ep of
        POST_ovnPolicies b \<Rightarrow> unread b
      | PATCH_ovnPolicy i b \<Rightarrow> unread b
      | PATCH_appOvnPolicy n a b \<Rightarrow> unread b
      | _ \<Rightarrow> False)"

definition bodyErr :: "endpoint \<Rightarrow> bool" where
  "bodyErr ep = (case ep of Common r \<Rightarrow> commonErr r | NativeRoute r \<Rightarrow> nativeErr r | OvnRoute r \<Rightarrow> ovnErr r)"

section \<open>Serving a request\<close>

text \<open>A panic is recovered: the handler has sent nothing, and the reply is an internal error.\<close>

definition recoverHandler :: "hdl \<Rightarrow> cce_env \<Rightarrow> cce_state \<Rightarrow> cce_state \<times> reply" where
  "recoverHandler h env s =
     (case h env s of
        Panic s' \<Rightarrow> (s', status 500)
      | Ret s' r \<Rightarrow> (s', case r of Inl x \<Rightarrow> x | Inr x \<Rightarrow> x))"

definition cceServe :: "cce_server \<Rightarrow> int \<Rightarrow> cce_request \<Rightarrow> cce_state \<Rightarrow> cce_state \<times> reply" where
  "cceServe sv now rq s =
     (case routes sv now (rq_endpoint rq) of
        None \<Rightarrow> (s, status 404)
      | Some h \<Rightarrow>
          if rq_RequestURI rq \<noteq> ''/auth'' \<and> \<not> requireAuth sv now (rq_Authorization rq) then (s, status 401)
          else if bodyErr (rq_endpoint rq) then (s, status 500)
          else recoverHandler h (sv_env sv) s)"

section \<open>Integrity of the database\<close>

lemma keeps_authenticate [keeps_intros]: "keeps P (authenticate sv now b)"
  unfolding authenticate_def by (intro keeps_intros)+

lemma recoverHandler_state: "fst (recoverHandler h env s) = go_state (h env s)"
  by (simp add: recoverHandler_def split: go.split)

context db_invariant
begin

lemmas keeps_handlers = keeps_nodes keeps_apps keeps_policies keeps_dns keeps_interfaces keeps_nodeApps
  keeps_authenticate

lemma keeps_native: "keeps P (nativePoliciesHandlers r)"
  by (simp add: nativePoliciesHandlers_def keeps_handlers split: native_route.split)

lemma keeps_ovn: "keeps P (kubeOVNPoliciesHandlers r)"
  by (simp add: kubeOVNPoliciesHandlers_def keeps_handlers split: ovn_route.split)

lemma keeps_common: "keeps P (commonHandlers sv now r)"
  by (simp add: commonHandlers_def keeps_handlers split: common_route.split)

lemma keeps_routes: "routes sv now ep = Some h \<Longrightarrow> keeps P h"
  by (auto simp: routes_def keeps_native keeps_ovn keeps_common split: endpoint.splits if_splits)

lemma cceServe_keeps: "P (ct_db s) \<Longrightarrow> P (ct_db (fst (cceServe sv now rq s)))"
  by (auto simp: cceServe_def recoverHandler_state intro: keepsD keeps_routes split: option.split)

end

section \<open>Tokens that the controller issued\<close>

text \<open>
  What the JOSE library promises: a serialized token parses, has no space, and its claims verify with the
  public key of the signing key. An expiry is the time in whole seconds, and \<open>Validate\<close> refuses a token
  more than a minute after its expiry: it allows clocks to differ by \<open>DefaultLeeway\<close>.
\<close>

definition DefaultLeeway :: int where "DefaultLeeway = 60"

definition jose_lawful :: "jose_lib \<Rightarrow> bool" where
  "jose_lawful j \<longleftrightarrow>
     (\<forall>k a x t. jo_CompactSerialize j k a x = Inr t \<longrightarrow>
        CHR '' '' \<notin> set t \<and> (\<exists>tok. jo_ParseSigned j t = Inr tok \<and>
           (\<forall>pub. jo_Public j k = Some pub \<longrightarrow> jo_Claims j pub tok = Inr x)))
     \<and> (\<forall>t. 0 < t \<longrightarrow> jo_NewNumericDate j t = t div 10 ^ 9)
     \<and> (\<forall>x now. 0 < now \<longrightarrow> (jo_Validate j x now = None \<longleftrightarrow> now \<le> (x + DefaultLeeway) * 10 ^ 9))"

text \<open>The time up to which a token is valid that is issued at a time.\<close>

definition validUntil :: "int \<Rightarrow> int" where
  "validUntil t0 = ((t0 + 24 * timeHour) div 10 ^ 9 + DefaultLeeway) * 10 ^ 9"

lemma issued_serialized:
  assumes "jose_lawful j" "Issue j s t0 = Inr t" "0 < t0"
  shows "jo_CompactSerialize j (ji_Key s) (ji_KeyAlgorithm s) ((t0 + 24 * timeHour) div 10 ^ 9) = Inr t"
proof -
  have "0 < t0 + 24 * timeHour" using assms(3) by (simp add: timeHour_def)
  with assms(1) have "jo_NewNumericDate j (t0 + 24 * timeHour) = (t0 + 24 * timeHour) div 10 ^ 9"
    unfolding jose_lawful_def by blast
  with assms(2) show ?thesis by (auto simp: Issue_def split: option.splits)
qed

lemma issued_validates:
  assumes "jose_lawful j" "Issue j s t0 = Inr t" "jo_Public j (ji_Key s) \<noteq> None" "0 < t0" "0 < now"
  shows "ValidateToken j s now t = None \<longleftrightarrow> now \<le> validUntil t0"
proof -
  obtain tok pub where tok: "jo_ParseSigned j t = Inr tok" "jo_Public j (ji_Key s) = Some pub"
    "jo_Claims j pub tok = Inr ((t0 + 24 * timeHour) div 10 ^ 9)"
    using issued_serialized [OF assms(1,2,4)] assms(1,3) unfolding jose_lawful_def by blast
  moreover have "jo_Validate j x now = None \<longleftrightarrow> now \<le> (x + DefaultLeeway) * 10 ^ 9" for x
    using assms(1,5) unfolding jose_lawful_def by blast
  ultimately show ?thesis by (simp add: ValidateToken_def validUntil_def)
qed

lemma issued_admits:
  assumes j: "jose_lawful (sv_jose sv)" and i: "Issue (sv_jose sv) (sv_TokenService sv) t0 = Inr t"
    and k: "jo_Public (sv_jose sv) (ji_Key (sv_TokenService sv)) \<noteq> None" and t: "0 < t0" "0 < now"
  shows "requireAuth sv now (''Bearer '' @ t) \<longleftrightarrow> now \<le> validUntil t0"
proof -
  have "CHR '' '' \<notin> set t" using j issued_serialized [OF j i t(1)] unfolding jose_lawful_def by blast
  then show ?thesis using issued_validates [OF j i k t] by (simp add: requireAuth_def stringsSplit_noc)
qed

text \<open>It is a day and a minute, less than a second of rounding.\<close>

lemma validUntil_seconds: "validUntil t0 = (t0 div 10 ^ 9 + 24 * 3600 + 60) * 10 ^ 9"
proof -
  have "(t0 + (24 * 3600) * 10 ^ 9) div 10 ^ 9 = 24 * 3600 + t0 div 10 ^ 9" by (rule div_mult_self1) simp
  then show ?thesis by (simp add: validUntil_def timeHour_def DefaultLeeway_def)
qed

end
