(* ===== verification/Cce_Grpc.thy ===== *)
theory Cce_Grpc
  imports Cce_Serve
begin

text \<open>
  The gRPC services of the controller: the authorization of a call by the server name of its connection,
  the enrolment of a node and the lookup of a container (\<open>grpc/server.go\<close>), the feature labels of a node
  (\<open>nfd-master/nfd-master.go\<close>), and the registration of nodes with the proxy (\<open>cce.go\<close>,
  \<open>cmd/cce/main.go\<close>). A peer is what gRPC gives of the connection of a call.
\<close>

section \<open>Calls\<close>

datatype grpc_code =
  Unknown | InvalidArgument | Unauthenticated | PermissionDenied | Internal | FailedPrecondition

type_synonym grpc_err = "grpc_code \<times> string"

text \<open>The TLS state of a peer: its server name and the verified chains. The address is \<open>host:port\<close>.\<close>

record tls_state =
  ts_ServerName :: string
  ts_VerifiedChains :: "certificate list list"

record peer =
  pe_Addr :: string
  pe_AuthInfo :: "tls_state option"

definition SNI :: string where "SNI = ''controller.openness''"
definition EnrollmentSNI :: string where "EnrollmentSNI = ''enroll.controller.openness''"

definition enrollmentMethod :: string where
  "enrollmentMethod = ''/openness.auth.AuthService/RequestCredentials''"

definition checkAuth :: "peer option \<Rightarrow> string \<Rightarrow> grpc_err option" where
  "checkAuth p rpcName =
     (case p of
        None \<Rightarrow> Some (Unknown, ''expected peer info in gRPC context'')
      | Some pe \<Rightarrow>
          (case pe_AuthInfo pe of
             None \<Rightarrow> Some (Unauthenticated, ''expected peer auth to be TLS'')
           | Some t \<Rightarrow>
               if ts_ServerName t = EnrollmentSNI then
                 (if rpcName \<noteq> enrollmentMethod then Some (PermissionDenied, ''unauthorized RPC: '' @ rpcName) else None)
               else if ts_ServerName t = SNI then None
               else Some (Unknown, ''unexpected server name: '' @ ts_ServerName t)))"

text \<open>The interceptor: a call is handled when it is authorized.\<close>

definition intercept :: "peer option \<Rightarrow> string \<Rightarrow> (grpc_err, 'a) ctl \<Rightarrow> (grpc_err, 'a) ctl" where
  "intercept p rpcName h = (case checkAuth p rpcName of Some err \<Rightarrow> throwC err | None \<Rightarrow> h)"

section \<open>Registration with the proxy\<close>

definition getIP :: "string \<Rightarrow> (string, string) ctl" where
  "getIP nodeID =
     bindC (Filter T_node_grpc_targets [(''node_id'', nodeID)]) (\<lambda>targets.
     case targets of
       t # _ \<Rightarrow> retC (ng_GRPCTarget (scanTarget t))
     | [] \<Rightarrow> throwC (''IP for '' @ nodeID @ '' not found''))"

text \<open>The proxy of the controller is told a host; that cannot fail.\<close>

definition registerHost :: "string \<Rightarrow> ('x, unit) ctl" where
  "registerHost ip = (\<lambda>env s. Ret (s\<lparr>ct_log := ct_log s @ [(RegisterHost ip, True)]\<rparr>) (Inr ()))"

definition RegisterToProxy :: "string \<Rightarrow> ('x, unit) ctl" where
  "RegisterToProxy nodeID =
     bindC (tryC (getIP nodeID)) (\<lambda>r. case r of Inl _ \<Rightarrow> retC () | Inr ip \<Rightarrow> registerHost ip)"

definition registerAllNodes :: "('x, unit) ctl" where
  "registerAllNodes =
     bindC (tryC (ReadAll T_nodes)) (\<lambda>r.
     case r of
       Inl _ \<Rightarrow> retC ()
     | Inr persisted \<Rightarrow> eachC (\<lambda>n. RegisterToProxy (node_ID (scanNode n))) persisted)"

section \<open>Enrolment\<close>

text \<open>
  The authority and its libraries; \<open>gs_CheckSignature\<close> and \<open>gs_SPKI\<close> are of a request in DER, and
  \<open>gs_serial\<close> is the encoded hash of a public key.
\<close>

record grpc_server =
  gs_pki :: pki_env
  gs_ca :: RootCA
  gs_CheckSignature :: "string \<Rightarrow> goerr"
  gs_SPKI :: "string \<Rightarrow> string"
  gs_serial :: "string \<Rightarrow> string"

definition EncodeToMemory :: "pki_env \<Rightarrow> pem_block \<Rightarrow> string" where
  "EncodeToMemory e b = (case pem_Encode e b of None \<Rightarrow> [] | Some d \<Rightarrow> d)"

definition certPEM :: "pki_env \<Rightarrow> certificate \<Rightarrow> string" where
  "certPEM e c = EncodeToMemory e \<lparr>pem_Type = ''CERTIFICATE'', pem_Bytes = x_Raw c\<rparr>"

text \<open>The request for a certificate: its DER, once it is parsed and its signature is checked.\<close>

definition parseCSR :: "grpc_server \<Rightarrow> string \<Rightarrow> (grpc_err, string) ctl" where
  "parseCSR g csr =
     (if csr = [] then throwC (InvalidArgument, ''CSR cannot be empty'')
      else
        case fst (pem_Decode (gs_pki g) csr) of
          None \<Rightarrow> throwC (InvalidArgument, ''unable to decode CSR'')
        | Some block \<Rightarrow>
            (case ParseCertificateRequest (gs_pki g) (pem_Bytes block) of
               Inl err \<Rightarrow> throwC (InvalidArgument, ''error parsing CSR: '' @ err)
             | Inr _ \<Rightarrow>
                 (case gs_CheckSignature g (pem_Bytes block) of
                    Some err \<Rightarrow> throwC (InvalidArgument, ''error validating CSR: '' @ err)
                  | None \<Rightarrow> retC (pem_Bytes block))))"

definition approvedNode :: "string \<Rightarrow> (grpc_err, Node) ctl" where
  "approvedNode serial =
     bindC (tryC (Filter T_nodes [(''serial'', serial)])) (\<lambda>r.
     case r of
       Inr (n # _) \<Rightarrow> retC (scanNode n)
     | _ \<Rightarrow> throwC (Unauthenticated, ''node '' @ serial @ '' not approved''))"

text \<open>The address of the peer of an enrolment, and its record.\<close>

definition storeAddress :: "peer option \<Rightarrow> string \<Rightarrow> (grpc_err, unit) ctl" where
  "storeAddress p nodeID =
     (case p of
        None \<Rightarrow> throwC (Internal, ''missing peer data from context'')
      | Some pe \<Rightarrow>
          (case netSplitHostPort (pe_Addr pe) of
             Inl err \<Rightarrow> throwC (Internal, ''bad remote address in peer data: '' @ pe_Addr pe)
           | Inr (nodeIP, _) \<Rightarrow>
               if nodeIP = [] then throwC (Internal, ''bad remote address in peer data: '' @ pe_Addr pe)
               else
                 bindC uuidNew (\<lambda>i.
                 onErr (\<lambda>_. (Internal, ''unable to store node address''))
                   (Create (ETarget \<lparr>ng_ID = i, ng_NodeID = nodeID, ng_GRPCTarget = nodeIP\<rparr>)))))"

definition Server_RequestCredentials :: "grpc_server \<Rightarrow> peer option \<Rightarrow> string \<Rightarrow> (grpc_err, pb_Credentials) ctl" where
  "Server_RequestCredentials g p csr =
     bindC (parseCSR g csr) (\<lambda>der.
     bindC (approvedNode (gs_serial g (gs_SPKI g der))) (\<lambda>node.
     case RootCA_SignCSR (gs_pki g) (gs_ca g) der \<lparr>pn_CommonName = node_ID node, pn_Organization = []\<rparr> of
       Inl err \<Rightarrow> throwC (Internal, ''unable to sign CSR'')
     | Inr cert \<Rightarrow>
         (case CAChain (gs_ca g) of
            Inl err \<Rightarrow> throwC (Internal, ''unable to get CA chain'')
          | Inr caChain \<Rightarrow>
              if caChain = [] then throwC (Internal, ''CA chain is empty'')
              else
                let chainPEM = map (certPEM (gs_pki g)) caChain;
                    creds = \<lparr>cr_ID = node_ID node, cr_Certificate = certPEM (gs_pki g) cert\<rparr>
                in
                bindC (onErr (\<lambda>_. (Internal, ''unable to store credentials'')) (Create (ECreds creds))) (\<lambda>_.
                bindC (storeAddress p (node_ID node)) (\<lambda>_.
                bindC (RegisterToProxy (node_ID node)) (\<lambda>_.
                retC \<lparr>pbc_Certificate = cr_Certificate creds, pbc_CaChain = chainPEM,
                      pbc_CaPool = [last chainPEM]\<rparr>))))))"

section \<open>Calls of enrolled nodes\<close>

text \<open>
  The name in the certificate of the peer; \<open>getNodeID\<close> and \<open>getPeerName\<close> differ in the codes of their
  errors. A verified chain has a certificate; an empty one would panic.
\<close>

definition peerName :: "(grpc_code \<Rightarrow> grpc_code) \<Rightarrow> peer option \<Rightarrow> (grpc_err, string) ctl" where
  "peerName code p =
     (case p of
        None \<Rightarrow> throwC (code FailedPrecondition, ''missing peer context'')
      | Some pe \<Rightarrow>
          (case pe_AuthInfo pe of
             None \<Rightarrow> throwC (code FailedPrecondition, ''gRPC peer missing TLS auth info'')
           | Some t \<Rightarrow>
               (case ts_VerifiedChains t of
                  [] \<Rightarrow> throwC (code Unauthenticated, ''gRPC peer was not authenticated with a client TLS certificate'')
                | chain # _ \<Rightarrow>
                    bindC (ptrC (case chain of [] \<Rightarrow> None | c # _ \<Rightarrow> Some c)) (\<lambda>c.
                    if pn_CommonName (x_Subject c) = [] then
                      throwC (code FailedPrecondition, ''gRPC peer connected with a client TLS cert with no Common Name'')
                    else retC (pn_CommonName (x_Subject c))))))"

definition getNodeID :: "peer option \<Rightarrow> (grpc_err, string) ctl" where
  "getNodeID p = peerName (\<lambda>c. c) p"

definition getPeerName :: "peer option \<Rightarrow> (grpc_err, string) ctl" where
  "getPeerName p = peerName (\<lambda>_. Unknown) p"

definition GetContainerByIP :: "peer option \<Rightarrow> string \<Rightarrow> (grpc_err, string) ctl" where
  "GetContainerByIP p containerIP =
     bindC (getNodeID p) (\<lambda>nodeID.
     if netParseIP containerIP = None then throwC (InvalidArgument, ''container ip value is not parsable'')
     else onErr (\<lambda>_. (Internal, ''unable to get pod name by ip'')) (GetAppIDByIP nodeID containerIP))"

text \<open>
  One label: an existing feature is updated, a new one is created. The error of that statement is kept,
  and the next label overwrites it.
\<close>

definition setLabel :: "string \<Rightarrow> string \<times> string \<Rightarrow> (string, goerr) ctl" where
  "setLabel nodeName label =
     bindC (Filter T_nodes_nfd_features [(''node_id'', nodeName), (''nfd_id'', fst label)]) (\<lambda>f.
     bindC (tryC (case f of
         [] \<Rightarrow>
           bindC uuidNew (\<lambda>i.
           Create (ENfd \<lparr>nf_ID = i, nf_NodeID = nodeName, nf_NfdID = fst label, nf_NfdValue = snd label\<rparr>))
       | e # _ \<Rightarrow>
           BulkUpdate [ENfd \<lparr>nf_ID = GetID e, nf_NodeID = nodeName, nf_NfdID = fst label, nf_NfdValue = snd label\<rparr>]))
       (\<lambda>r. retC (case r of Inl err \<Rightarrow> Some err | Inr _ \<Rightarrow> None)))"

text \<open>The labels in the order in which the map is ranged over.\<close>

fun setLabels_loop :: "string \<Rightarrow> (string, string) gomap \<Rightarrow> goerr \<Rightarrow> (string, goerr) ctl" where
  "setLabels_loop nodeName [] err = retC err"
| "setLabels_loop nodeName (l # ls) err = bindC (setLabel nodeName l) (\<lambda>err'. setLabels_loop nodeName ls err')"

record SetLabelsRequest =
  sl_NodeName :: string
  sl_Labels :: "(string, string) gomap"

definition SetLabels :: "peer option \<Rightarrow> SetLabelsRequest \<Rightarrow> (grpc_err, unit) ctl" where
  "SetLabels p r =
     bindC (getPeerName p) (\<lambda>nodeID.
     if nodeID \<noteq> sl_NodeName r then throwC (Unknown, ''Node name from request does not match TLS peer name'')
     else
       bindC (onErr (Pair Unknown) (setLabels_loop (sl_NodeName r) (sl_Labels r) None)) (\<lambda>err.
       case err of None \<Rightarrow> retC () | Some m \<Rightarrow> throwC (Unknown, m)))"

section \<open>Integrity\<close>

lemma keeps_registerHost [keeps_intros]: "keeps P (registerHost ip)"
  by (simp add: keeps_def registerHost_def)

lemma keeps_proxy [keeps_intros]: "keeps P (getIP n)" "keeps P (RegisterToProxy n)" "keeps P registerAllNodes"
  unfolding getIP_def RegisterToProxy_def registerAllNodes_def by (intro keeps_intros)+

lemma keeps_peers [keeps_intros]: "keeps P (peerName c p)" "keeps P (getNodeID p)" "keeps P (getPeerName p)"
  unfolding getNodeID_def getPeerName_def peerName_def by (intro keeps_intros)+

lemma keeps_requests [keeps_intros]: "keeps P (parseCSR g csr)" "keeps P (approvedNode i)" "keeps P (GetContainerByIP p ip)"
  unfolding parseCSR_def approvedNode_def GetContainerByIP_def by (intro keeps_intros)+

lemma keeps_intercept [keeps_intros]: "keeps P h \<Longrightarrow> keeps P (intercept p n h)"
  unfolding intercept_def by (intro keeps_intros)

context db_invariant
begin

lemma keeps_enrolment [keeps_intros]: "keeps P (storeAddress p n)" "keeps P (Server_RequestCredentials g p csr)"
  unfolding storeAddress_def Server_RequestCredentials_def by (intro keeps_intros)+

lemma keeps_setLabel [keeps_intros]: "keeps P (setLabel n l)"
  unfolding setLabel_def by (intro keeps_intros)+

lemma keeps_setLabels_loop [keeps_intros]: "keeps P (setLabels_loop n ls err)"
  by (induction ls arbitrary: err) (simp_all add: keeps_intros)

lemma keeps_SetLabels [keeps_intros]: "keeps P (SetLabels p r)"
  unfolding SetLabels_def by (intro keeps_intros)+

end

section \<open>The running controller\<close>

text \<open>
  A step of the controller: a REST request, a call of its gRPC services, labels of a node, or the
  registration of all nodes when it starts. Environments may differ from step to step: calls to other
  systems may fail at any time.
\<close>

inductive cce_step :: "cce_state \<Rightarrow> cce_state \<Rightarrow> bool" where
  http: "cce_step s (fst (cceServe sv now rq s))"
| enroll: "cce_step s (go_state (intercept p enrollmentMethod (Server_RequestCredentials g p csr) env s))"
| container: "cce_step s (go_state (intercept p rpcName (GetContainerByIP p ip) env s))"
| labels: "cce_step s (go_state (SetLabels p r env s))"
| start: "cce_step s (go_state ((registerAllNodes :: (string, unit) ctl) env s))"

inductive cce_reach :: "cce_state \<Rightarrow> bool" where
  init: "cce_reach cce_init"
| step: "cce_reach s \<Longrightarrow> cce_step s s' \<Longrightarrow> cce_reach s'"

context db_invariant
begin

lemma step_keeps: "cce_step s s' \<Longrightarrow> P (ct_db s) \<Longrightarrow> P (ct_db s')"
  by (induction rule: cce_step.induct) (auto intro: cceServe_keeps keepsD keeps_intros)

lemma reach_keeps: "cce_reach s \<Longrightarrow> P (ct_db s)"
  by (induction rule: cce_reach.induct) (auto simp: cce_init_def empty intro: step_keeps)

end

end
