(* ===== verification/Cce_Wp.thy ===== *)
theory Cce_Wp
  imports Cce_Grpc
begin

text \<open>
  Reasoning about operations of the controller by weakest preconditions: \<open>wpC m Q E X env s\<close> says that
  after the operation, \<open>Q\<close> holds of its result and state, \<open>E\<close> of its error and state, or \<open>X\<close> of the state
  when it panics. The equations of the collection \<open>wp\<close> compute it for the combinators and the statements.
\<close>

section \<open>The calculus\<close>

named_theorems wp \<open>weakest preconditions of the operations of the controller\<close>

definition wpC ::
  "('x, 'a) ctl \<Rightarrow> ('a \<Rightarrow> cce_state \<Rightarrow> bool) \<Rightarrow> ('x \<Rightarrow> cce_state \<Rightarrow> bool) \<Rightarrow> (cce_state \<Rightarrow> bool)
   \<Rightarrow> cce_env \<Rightarrow> cce_state \<Rightarrow> bool" where
  "wpC m Q E X env s \<longleftrightarrow>
     (case m env s of Panic s' \<Rightarrow> X s' | Ret s' r \<Rightarrow> (case r of Inl x \<Rightarrow> E x s' | Inr a \<Rightarrow> Q a s'))"

lemma wp_retC [wp]: "wpC (retC a) Q E X env s \<longleftrightarrow> Q a s"
  by (simp add: wpC_def retC_def)

lemma wp_throwC [wp]: "wpC (throwC x) Q E X env s \<longleftrightarrow> E x s"
  by (simp add: wpC_def throwC_def)

lemma wp_panicC [wp]: "wpC panicC Q E X env s \<longleftrightarrow> X s"
  by (simp add: wpC_def panicC_def)

lemma wp_bindC [wp]: "wpC (bindC m f) Q E X env s \<longleftrightarrow> wpC m (\<lambda>a. wpC (f a) Q E X env) E X env s"
  by (simp add: wpC_def bindC_def split: go.split sum.split)

lemma wp_onErr [wp]: "wpC (onErr h m) Q E X env s \<longleftrightarrow> wpC m Q (\<lambda>x. E (h x)) X env s"
  by (simp add: wpC_def onErr_def split: go.split sum.split)

lemma wp_tryC [wp]: "wpC (tryC m) Q E X env s \<longleftrightarrow> wpC m (\<lambda>a. Q (Inr a)) (\<lambda>x. Q (Inl x)) X env s"
  by (simp add: wpC_def tryC_def split: go.split sum.split)

lemma wp_askC [wp]: "wpC (askC f) Q E X env s \<longleftrightarrow> Q (f env) s"
  by (simp add: wpC_def askC_def)

lemma wp_guardC [wp]: "wpC (guardC b x) Q E X env s \<longleftrightarrow> (if b then Q () s else E x s)"
  by (simp add: guardC_def wp)

lemma wp_ptrC [wp]: "wpC (ptrC p) Q E X env s \<longleftrightarrow> (case p of None \<Rightarrow> X s | Some a \<Rightarrow> Q a s)"
  by (simp add: ptrC_def wp split: option.split)

lemma wp_errC [wp]: "wpC (errC p) Q E X env s \<longleftrightarrow> (case p of None \<Rightarrow> Q () s | Some m \<Rightarrow> E m s)"
  by (simp add: errC_def wp split: option.split)

lemma wp_uuidNew [wp]: "wpC uuidNew Q E X env s \<longleftrightarrow> Q (ce_uuid env (ct_uuids s)) (s\<lparr>ct_uuids := Suc (ct_uuids s)\<rparr>)"
  by (simp add: wpC_def uuidNew_def)

lemma wp_registerHost [wp]:
  "wpC (registerHost ip) Q E X env s \<longleftrightarrow> Q () (s\<lparr>ct_log := ct_log s @ [(RegisterHost ip, True)]\<rparr>)"
  by (simp add: wpC_def registerHost_def)

lemma wp_if [wp]: "wpC (if b then m else n) Q E X env s \<longleftrightarrow> (if b then wpC m Q E X env s else wpC n Q E X env s)"
  by simp

lemma wp_mono:
  "wpC m Q E X env s \<Longrightarrow> (\<And>a s'. Q a s' \<Longrightarrow> Q' a s') \<Longrightarrow> (\<And>x s'. E x s' \<Longrightarrow> E' x s') \<Longrightarrow> (\<And>s'. X s' \<Longrightarrow> X' s')
   \<Longrightarrow> wpC m Q' E' X' env s"
  by (auto simp: wpC_def split: go.splits sum.splits)

lemma wp_case_option [wp]:
  "wpC (case p of None \<Rightarrow> m | Some x \<Rightarrow> f x) Q E X env s \<longleftrightarrow>
     (case p of None \<Rightarrow> wpC m Q E X env s | Some x \<Rightarrow> wpC (f x) Q E X env s)"
  by (simp split: option.split)

lemma wp_case_list [wp]:
  "wpC (case xs of [] \<Rightarrow> m | x # y \<Rightarrow> f x y) Q E X env s \<longleftrightarrow>
     (case xs of [] \<Rightarrow> wpC m Q E X env s | x # y \<Rightarrow> wpC (f x y) Q E X env s)"
  by (simp split: list.split)

lemma wp_case_sum [wp]:
  "wpC (case r of Inl x \<Rightarrow> f x | Inr y \<Rightarrow> g y) Q E X env s \<longleftrightarrow>
     (case r of Inl x \<Rightarrow> wpC (f x) Q E X env s | Inr y \<Rightarrow> wpC (g y) Q E X env s)"
  by (simp split: sum.split)

lemma wp_case_rbody [wp]:
  "wpC (case b of ReadErr \<Rightarrow> m | UnmarshalErr \<Rightarrow> n | Decoded x \<Rightarrow> f x) Q E X env s \<longleftrightarrow>
     (case b of ReadErr \<Rightarrow> wpC m Q E X env s | UnmarshalErr \<Rightarrow> wpC n Q E X env s | Decoded x \<Rightarrow> wpC (f x) Q E X env s)"
  by (simp split: rbody.split)

lemma wp_case_vres [wp]:
  "wpC (case r of VOk \<Rightarrow> m | VErr x \<Rightarrow> f x | VPanic \<Rightarrow> n) Q E X env s \<longleftrightarrow>
     (case r of VOk \<Rightarrow> wpC m Q E X env s | VErr x \<Rightarrow> wpC (f x) Q E X env s | VPanic \<Rightarrow> wpC n Q E X env s)"
  by (simp split: vres.split)

section \<open>Calls\<close>

text \<open>The state after a statement, and after a call to another system.\<close>

definition called :: "cce_state \<Rightarrow> cce_state" where
  "called s = s\<lparr>ct_calls := Suc (ct_calls s)\<rparr>"

definition logged :: "remote \<Rightarrow> bool \<Rightarrow> cce_state \<Rightarrow> cce_state" where
  "logged c ok s = s\<lparr>ct_calls := Suc (ct_calls s), ct_log := ct_log s @ [(c, ok)]\<rparr>"

lemma called_sel [simp]:
  "ct_db (called s) = ct_db s" "ct_log (called s) = ct_log s" "ct_uuids (called s) = ct_uuids s"
  by (simp_all add: called_def)

lemma logged_sel [simp]:
  "ct_db (logged c ok s) = ct_db s" "ct_log (logged c ok s) = ct_log s @ [(c, ok)]"
  "ct_uuids (logged c ok s) = ct_uuids s"
  by (simp_all add: logged_def)

lemma wp_callC [wp]:
  "wpC (callC c) Q E X env s \<longleftrightarrow>
     (case ce_fail env (ct_calls s) of
        Some e \<Rightarrow> E e (logged c False s)
      | None \<Rightarrow> Q (ct_calls s) (logged c True s))"
  by (simp add: wpC_def callC_def Let_def logged_def split: option.split)

lemma wp_rpc [wp]:
  "wpC (rpc m c) Q E X env s \<longleftrightarrow>
     (case ce_fail env (ct_calls s) of
        Some e \<Rightarrow> E (wrapMsg m e) (logged c False s)
      | None \<Rightarrow> Q () (logged c True s))"
  by (simp add: rpc_def wp split: option.split)

lemma wp_stmtC:
  "wpC (stmtC m run) Q E X env s \<longleftrightarrow>
     (case ce_fail env (ct_calls s) of
        Some e \<Rightarrow> E (wrapMsg m e) (called s)
      | None \<Rightarrow>
          (case run (ct_db s) of
             None \<Rightarrow> E (wrapMsg m (ce_refused env)) (called s)
           | Some (a, db) \<Rightarrow> Q a ((called s)\<lparr>ct_db := db\<rparr>)))"
  by (simp add: wpC_def stmtC_def Let_def called_def split: option.split)

lemma called_db [simp]: "(called s)\<lparr>ct_db := ct_db s\<rparr> = called s"
  by (simp add: called_def)

lemma wp_Read [wp]:
  "wpC (Read t i) Q E X env s \<longleftrightarrow>
     (case ce_fail env (ct_calls s) of
        Some e \<Rightarrow> E (wrapMsg ''error running query'' e) (called s)
      | None \<Rightarrow> Q (gm_get (ct_db s) (t, i)) (called s))"
  by (simp add: Read_def wp_stmtC split: option.split)

lemma wp_ReadAll [wp]:
  "wpC (ReadAll t) Q E X env s \<longleftrightarrow>
     (case ce_fail env (ct_calls s) of
        Some e \<Rightarrow> E (wrapMsg ''error running query'' e) (called s)
      | None \<Rightarrow> Q (tableRows t (ct_db s)) (called s))"
  by (simp add: ReadAll_def wp_stmtC split: option.split)

lemma wp_Create [wp]:
  "wpC (Create e) Q E X env s \<longleftrightarrow>
     (case ce_fail env (ct_calls s) of
        Some m \<Rightarrow> E (wrapMsg ''error inserting record'' m) (called s)
      | None \<Rightarrow>
          (case sqlInsert e (ct_db s) of
             None \<Rightarrow> E (wrapMsg ''error inserting record'' (ce_refused env)) (called s)
           | Some db \<Rightarrow> Q () ((called s)\<lparr>ct_db := db\<rparr>)))"
  by (simp add: Create_def wp_stmtC split: option.split)

lemma wp_Delete [wp]:
  "wpC (Delete i t) Q E X env s \<longleftrightarrow>
     (case ce_fail env (ct_calls s) of
        Some m \<Rightarrow> E (wrapMsg ''error deleting record'' m) (called s)
      | None \<Rightarrow>
          (case sqlDelete (t, i) (ct_db s) of
             None \<Rightarrow> E (wrapMsg ''error deleting record'' (ce_refused env)) (called s)
           | Some (ok, db) \<Rightarrow> Q ok ((called s)\<lparr>ct_db := db\<rparr>)))"
  by (simp add: Delete_def wp_stmtC)

text \<open>A filter on fields that the entity allows and that are columns.\<close>

definition matching :: "table \<Rightarrow> (string \<times> string) list \<Rightarrow> cdb \<Rightarrow> entity list" where
  "matching t fs db = filter (\<lambda>e. list_all (\<lambda>(c, v). column e c = Some v) fs) (tableRows t db)"

definition filterable :: "table \<Rightarrow> (string \<times> string) list \<Rightarrow> bool" where
  "filterable t fs \<longleftrightarrow> list_all (\<lambda>(f, _). f \<in> set (FilterFields t) \<and> f \<in> set (tableColumns t)) fs"

lemma wp_checkFields: "filterable t fs \<Longrightarrow> wpC (checkFields t fs) Q E X env s \<longleftrightarrow> Q () s"
  by (induction t fs rule: checkFields.induct) (auto simp: filterable_def allowedField_iff wp)

lemma wp_Filter:
  assumes "filterable t fs"
  shows "wpC (Filter t fs) Q E X env s \<longleftrightarrow>
     (case ce_fail env (ct_calls s) of
        Some e \<Rightarrow> E (wrapMsg ''error running query'' e) (called s)
      | None \<Rightarrow> Q (matching t fs (ct_db s)) (called s))"
proof -
  have "sqlSelect t fs db = Some (matching t fs db)" for db
    using assms by (simp add: sqlSelect_def matching_def filterable_def list_all_iff List.member_iff split_beta)
  then show ?thesis using assms by (simp add: Filter_def wp wp_checkFields wp_stmtC split: option.split)
qed

lemma filterables [simp]:
  "filterable T_nodes [(''serial'', v)]"
  "filterable T_node_grpc_targets [(''node_id'', v)]"
  "filterable T_nodes_nfd_features [(''node_id'', v)]"
  "filterable T_nodes_nfd_features [(''node_id'', v), (''nfd_id'', w)]"
  "filterable T_dns_configs_app_aliases [(''app_id'', v)]"
  "filterable T_dns_configs_app_aliases [(''dns_config_id'', v)]"
  "filterable T_nodes_apps [(''node_id'', v)]"
  "filterable T_nodes_apps [(''app_id'', v)]"
  "filterable T_nodes_apps [(''node_id'', v), (''app_id'', w)]"
  "filterable T_nodes_dns_configs [(''node_id'', v)]"
  "filterable T_nodes_dns_configs [(''dns_config_id'', v)]"
  "filterable T_nodes_network_interfaces_traffic_policies [(''network_interface_id'', v)]"
  "filterable T_nodes_apps_traffic_policies [(''nodes_apps_id'', v)]"
  "filterable T_nodes_apps_traffic_policies [(''traffic_policy_id'', v)]"
  by (simp_all add: filterable_def)

lemmas wp_filters [wp] = filterables [THEN wp_Filter]

section \<open>Helpers of the handlers\<close>

lemma wp_fetch [wp]:
  "wpC (fetch t i) Q E X env s \<longleftrightarrow>
     (case ce_fail env (ct_calls s) of
        Some e \<Rightarrow> E (status 500) (called s)
      | None \<Rightarrow> (case gm_get (ct_db s) (t, i) of None \<Rightarrow> E (status 404) (called s) | Some e \<Rightarrow> Q e (called s)))"
  by (simp add: fetch_def wp fail500_def split: option.split)

lemma wp_payload [wp]:
  "wpC (payload b bad) Q E X env s \<longleftrightarrow>
     (case b of ReadErr \<Rightarrow> E (status 500) s | UnmarshalErr \<Rightarrow> E bad s | Decoded x \<Rightarrow> Q x s)"
  by (simp add: payload_def wp split: rbody.split)

lemma wp_validC [wp]:
  "wpC (validC h v) Q E X env s \<longleftrightarrow> (case v (ce_lib env) of VOk \<Rightarrow> Q () s | VErr m \<Rightarrow> E (h m) s | VPanic \<Rightarrow> X s)"
  by (simp add: validC_def wp split: vres.split)

lemma recoverHandler_wp:
  "wpC h (\<lambda>r s'. R s' r) (\<lambda>r s'. R s' r) (\<lambda>s'. R s' (status 500)) env s \<Longrightarrow> recoverHandler h env s = (s', r) \<Longrightarrow> R s' r"
  by (auto simp: wpC_def recoverHandler_def split: go.splits sum.splits)

text \<open>An operation that keeps every predicate of the database ends with the database it began with.\<close>

lemma wp_same_db:
  assumes "\<And>P. keeps P m"
  shows "wpC m (\<lambda>_ s'. ct_db s' = ct_db s) (\<lambda>_ s'. ct_db s' = ct_db s) (\<lambda>s'. ct_db s' = ct_db s) env s"
  using keepsD [OF assms [of "\<lambda>db. db = ct_db s"], of s env]
  by (auto simp: wpC_def split: go.splits sum.splits)

text \<open>The rows of a filter.\<close>

lemma matching_iff:
  "db_ok db \<Longrightarrow> e \<in> set (matching t fs db) \<longleftrightarrow>
     gm_get db (dbKey e) = Some e \<and> GetTableName e = t \<and> list_all (\<lambda>(c, v). column e c = Some v) fs"
  by (auto simp: matching_def tableRows_iff)

end
