(* ===== verification/Cce_Lossless.thy ===== *)
theory Cce_Lossless
  imports Cce_Messages
begin

text \<open>
  How the messages of the controller are read: what an agent or Kubernetes sees of a policy or an
  application. A validated entity is read as it was written, field by field; only the protocol \<open>all\<close> of a
  port is the empty one in a message.
\<close>

section \<open>Policies of the native data plane\<close>

definition readProtocol :: "string \<Rightarrow> string" where
  "readProtocol p = (if p = [] then ''all'' else p)"

definition readIPFilter :: "PBIPFilter \<Rightarrow> IPFilter" where
  "readIPFilter q =
     \<lparr>if_Address = qi_Address q, if_Mask = uint (qi_Mask q), if_BeginPort = uint (qi_BeginPort q),
      if_EndPort = uint (qi_EndPort q), if_Protocol = readProtocol (qi_Protocol q)\<rparr>"

definition readGTPFilter :: "PBGTPFilter \<Rightarrow> GTPFilter" where
  "readGTPFilter q = \<lparr>gf_Address = qg_Address q, gf_Mask = uint (qg_Mask q), gf_IMSIs = qg_Imsis q\<rparr>"

definition readSelector :: "PBTrafficSelector \<Rightarrow> TrafficSelector" where
  "readSelector q =
     \<lparr>ts_Description = qs_Description q, ts_MACs = map_option MACFilter.make (qs_Macs q),
      ts_IP = map_option readIPFilter (qs_Ip q), ts_GTP = map_option readGTPFilter (qs_Gtp q)\<rparr>"

fun readAction :: "TargetAction \<Rightarrow> string" where
  "readAction ACCEPT = ''accept''"
| "readAction REJECT = ''reject''"
| "readAction DROP = ''drop''"

definition readTarget :: "PBTrafficTarget \<Rightarrow> TrafficTarget" where
  "readTarget q =
     \<lparr>tt_Description = qt_Description q, tt_Action = readAction (qt_Action q),
      tt_MAC = map_option MACModifier.make (qt_Mac q),
      tt_IP = map_option (\<lambda>m. \<lparr>im_Address = qm_Address m, im_Port = uint (qm_Port m)\<rparr>) (qt_Ip q)\<rparr>"

definition readRule :: "PBTrafficRule \<Rightarrow> TrafficRule" where
  "readRule q =
     \<lparr>tr_Description = qr_Description q, tr_Priority = uint (qr_Priority q),
      tr_Source = map_option readSelector (qr_Source q), tr_Destination = map_option readSelector (qr_Destination q),
      tr_Target = map_option readTarget (qr_Target q)\<rparr>"

lemma toUint32_port [simp]: "0 \<le> i \<Longrightarrow> i \<le> 65535 \<Longrightarrow> uint (toUint32 i) = i"
  by (rule toUint32_uint) simp_all

lemma vOpt_ok [simp]: "vOpt f p = VOk \<longleftrightarrow> (\<forall>x. p = Some x \<longrightarrow> f x = VOk)"
  by (simp add: vOpt_def split: option.split)

lemma map_option_same: "(\<And>x. p = Some x \<Longrightarrow> f (g x) = x) \<Longrightarrow> map_option f (map_option g p) = p"
  by (cases p) simp_all

lemma read_IPFilter: "IPFilter_Validate f = VOk \<Longrightarrow> map_option readIPFilter (toPBIPFilter (Some f)) = Some f"
  by (cases f) (auto simp: IPFilter_Validate_def toPBIPFilter_def readIPFilter_def readProtocol_def withoutAll_def)

lemma read_GTPFilter: "GTPFilter_Validate f = VOk \<Longrightarrow> map_option readGTPFilter (toPBGTPFilter (Some f)) = Some f"
  by (cases f) (auto simp: GTPFilter_Validate_def toPBGTPFilter_def readGTPFilter_def)

lemma read_MACs: "map_option MACFilter.make (toPBMACFilter f) = f"
  by (cases f) (simp_all add: toPBMACFilter_def MACFilter.make_def)

lemma read_selector: "TrafficSelector_Validate s = VOk \<Longrightarrow> map_option readSelector (toPBTrafficSelector (Some s)) = Some s"
  using read_IPFilter [of "the (ts_IP s)"] read_GTPFilter [of "the (ts_GTP s)"]
  by (cases s, cases "ts_IP s"; cases "ts_GTP s")
    (simp_all add: TrafficSelector_Validate_def toPBTrafficSelector_def readSelector_def read_MACs toPBIPFilter_def
      toPBGTPFilter_def)

lemma read_selectors:
  "(\<And>s. p = Some s \<Longrightarrow> TrafficSelector_Validate s = VOk) \<Longrightarrow> map_option readSelector (toPBTrafficSelector p) = p"
  using read_selector by (cases p) (auto simp: toPBTrafficSelector_def)

lemma read_target:
  assumes "TrafficTarget_Validate t = VOk"
  shows "\<exists>q. toPBTrafficTarget (Some t) = Some (Some q) \<and> readTarget q = t"
proof -
  have "\<exists>a. toPBTargetAction (tt_Action t) = Some a \<and> readAction a = tt_Action t"
    using assms by (auto simp: TrafficTarget_Validate_def toPBTargetAction_def)
  moreover have "map_option MACModifier.make (toPBMACModifier (tt_MAC t)) = tt_MAC t"
    by (cases "tt_MAC t") (simp_all add: toPBMACModifier_def MACModifier.make_def)
  moreover have "map_option (\<lambda>m. \<lparr>im_Address = qm_Address m, im_Port = uint (qm_Port m)\<rparr>) (toPBIPModifier (tt_IP t)) = tt_IP t"
    using assms unfolding toPBIPModifier_def
    by (intro map_option_same) (auto simp: TrafficTarget_Validate_def IPModifier_Validate_def)
  ultimately show ?thesis by (auto simp: toPBTrafficTarget_def readTarget_def)
qed

lemma read_rule:
  assumes "TrafficRule_Validate r = VOk"
  shows "\<exists>q. toPBTrafficRule r = Some q \<and> readRule q = r"
proof -
  obtain t where t: "tr_Target r = Some t" "TrafficTarget_Validate t = VOk"
    using assms by (auto simp: TrafficRule_Validate_def split: option.splits)
  then obtain q where "toPBTrafficTarget (tr_Target r) = Some (Some q)" "readTarget q = t" using read_target by metis
  moreover have "map_option readSelector (toPBTrafficSelector (tr_Source r)) = tr_Source r"
    "map_option readSelector (toPBTrafficSelector (tr_Destination r)) = tr_Destination r"
    using assms by (auto simp: TrafficRule_Validate_def intro!: read_selectors)
  moreover have "uint (toUint32 (tr_Priority r)) = tr_Priority r" using assms by (simp add: TrafficRule_Validate_def)
  ultimately show ?thesis using t(1) by (simp add: toPBTrafficRule_def readRule_def)
qed

lemma eachPtr_all2:
  "eachPtr f ps = Some ys \<longleftrightarrow> list_all2 (\<lambda>p y. \<exists>x. p = Some x \<and> f x = Some y) ps ys"
proof (induction ps arbitrary: ys)
  case (Cons p ps)
  then show ?case by (cases p; cases ys) (auto simp: bind_eq_Some_conv)
qed auto

lemma read_policy:
  assumes "TrafficPolicy_Validate lib p = VOk"
  shows "\<exists>q. toPBTrafficPolicy i (Some p) = Some q \<and> qp_Id q = i \<and> map (\<lambda>r. Some (readRule r)) (qp_TrafficRules q) = tp_Rules p"
proof -
  have ok: "\<exists>x q. r = Some x \<and> toPBTrafficRule x = Some q \<and> readRule q = x" if "r \<in> set (tp_Rules p)" for r
  proof -
    from assms that obtain j where "vPtr (\<lambda>r. vIn (idx ''rules'' j @ ''.'') (TrafficRule_Validate r)) r = VOk"
      by (auto simp: TrafficPolicy_Validate_def dest: vEach_ok_mem)
    then show ?thesis using read_rule by (auto simp: vPtr_ok)
  qed
  let ?conv = "\<lambda>r. the (toPBTrafficRule (the r))"
  have "eachPtr toPBTrafficRule (tp_Rules p) = Some (map ?conv (tp_Rules p))"
    unfolding eachPtr_all2 by (rule list_all2_all_nthI) (use ok in \<open>fastforce dest: nth_mem\<close>)+
  moreover have "map (\<lambda>r. Some (readRule r)) (map ?conv (tp_Rules p)) = tp_Rules p"
    unfolding map_map by (rule map_idI) (use ok in fastforce)
  ultimately show ?thesis by (simp add: toPBTrafficPolicy_def)
qed

section \<open>Policies of Kubernetes with OVN\<close>

text \<open>What Kubernetes is asked for is what the rules of the policy say.\<close>

definition sameBlock :: "IPBlock option \<Rightarrow> NetworkPolicyPeer \<Rightarrow> bool" where
  "sameBlock b q \<longleftrightarrow> b = Some \<lparr>ib_CIDR = kb_CIDR q, ib_Except = kb_Except q\<rparr>"

definition samePolicyPort :: "Port option \<Rightarrow> NetworkPolicyPort \<Rightarrow> bool" where
  "samePolicyPort p q \<longleftrightarrow>
     (\<exists>x. p = Some x \<and> kp_Port q = uint (po_Port x)
        \<and> (po_Protocol x, kp_Protocol q) \<in> {(''tcp'', ''TCP''), (''udp'', ''UDP''), (''sctp'', ''SCTP'')})"

definition sameRule :: "IPBlock option list \<Rightarrow> Port option list \<Rightarrow> NetworkPolicyRule \<Rightarrow> bool" where
  "sameRule blocks ports q \<longleftrightarrow> list_all2 sameBlock blocks (kr_Peers q) \<and> list_all2 samePolicyPort ports (kr_Ports q)"

definition sameNetworkPolicy :: "TrafficPolicyKubeOVN \<Rightarrow> NetworkPolicy \<Rightarrow> bool" where
  "sameNetworkPolicy p np \<longleftrightarrow>
     list_all2 (\<lambda>r q. \<exists>x. r = Some x \<and> sameRule (ir_From x) (ir_Ports x) q) (to_Ingress p) (ks_Ingress np)
     \<and> list_all2 (\<lambda>r q. \<exists>x. r = Some x \<and> sameRule (er_To x) (er_Ports x) q) (to_Egress p) (ks_Egress np)
     \<and> (''Ingress'' \<in> set (ks_PolicyTypes np) \<longleftrightarrow> to_Ingress p \<noteq> [])
     \<and> (''Egress'' \<in> set (ks_PolicyTypes np) \<longleftrightarrow> to_Egress p \<noteq> [])
     \<and> set (ks_PolicyTypes np) \<subseteq> {''Ingress'', ''Egress''} \<and> ks_PolicyTypes np \<noteq> []"

lemma list_all2_valid:
  assumes "list_all2 P xs ys" "vEach f 0 xs = VOk" "\<And>x y j. P x y \<Longrightarrow> f j x = VOk \<Longrightarrow> R x y"
  shows "list_all2 R xs ys"
  using assms by (auto simp: list_all2_conv_all_nth vEach_ok)

lemma blocks_kept:
  assumes "validateBlocks name blocks ports = VOk" "ruleToK8s blocks ports = Some q"
  shows "sameRule blocks ports q"
proof -
  obtain ps bs where c: "list_all2 (\<lambda>p y. \<exists>x. p = Some x \<and> Some (Port_ToK8s x) = Some y) ports ps"
    "list_all2 (\<lambda>p y. \<exists>x. p = Some x \<and> Some (IPBlock_ToK8s x) = Some y) blocks bs"
    and q: "q = \<lparr>kr_Ports = ps, kr_Peers = bs\<rparr>"
    using assms(2) by (auto simp: ruleToK8s_def bind_eq_Some_conv eachPtr_all2)
  have v: "vEach (\<lambda>i. vPtr (\<lambda>p. vIn (idx ''Ports'' i @ ''.'') (Port_Validate p))) 0 ports = VOk"
    using assms(1) by (simp add: validateBlocks_def)
  have "list_all2 samePolicyPort ports ps"
    by (rule list_all2_valid [OF c(1) v]) (auto simp: samePolicyPort_def Port_ToK8s_def vPtr_ok Port_Validate_def k8sProtocol_def)
  moreover have "list_all2 sameBlock blocks bs"
    by (rule list_all2_mono [OF c(2)]) (auto simp: sameBlock_def IPBlock_ToK8s_def)
  ultimately show ?thesis by (simp add: sameRule_def q)
qed

lemma read_ovn:
  assumes "TrafficPolicyKubeOVN_Validate lib p = VOk"
  shows "\<exists>np. ToK8s p = Some np \<and> sameNetworkPolicy p np"
proof -
  obtain np where np: "ToK8s p = Some np" "ks_PolicyTypes np \<noteq> []" using validated_ToK8s [OF assms] by blast
  then obtain iss es where rules: "list_all2 (\<lambda>r q. \<exists>x. r = Some x \<and> IngressRule_ToK8s x = Some q) (to_Ingress p) iss"
    "list_all2 (\<lambda>r q. \<exists>x. r = Some x \<and> EgressRule_ToK8s x = Some q) (to_Egress p) es"
    and eq: "np = \<lparr>ks_Ingress = iss, ks_Egress = es,
      ks_PolicyTypes = (if es \<noteq> [] then [''Egress''] else []) @ (if iss \<noteq> [] then [''Ingress''] else [])\<rparr>"
    by (auto simp: ToK8s_def bind_eq_Some_conv eachPtr_all2)
  have v: "vEach (\<lambda>i. vPtr (\<lambda>r. vIn (idx ''Ingress'' i @ ''.'') (IngressRule_Validate r))) 0 (to_Ingress p) = VOk"
    "vEach (\<lambda>i. vPtr (\<lambda>r. vIn (idx ''Egress'' i @ ''.'') (EgressRule_Validate r))) 0 (to_Egress p) = VOk"
    using assms by (simp_all add: TrafficPolicyKubeOVN_Validate_def)
  have "list_all2 (\<lambda>r q. \<exists>x. r = Some x \<and> sameRule (ir_From x) (ir_Ports x) q) (to_Ingress p) iss"
    by (rule list_all2_valid [OF rules(1) v(1)])
      (auto simp: vPtr_ok IngressRule_Validate_def IngressRule_ToK8s_def dest: blocks_kept)
  moreover have "list_all2 (\<lambda>r q. \<exists>x. r = Some x \<and> sameRule (er_To x) (er_Ports x) q) (to_Egress p) es"
    by (rule list_all2_valid [OF rules(2) v(2)])
      (auto simp: vPtr_ok EgressRule_Validate_def EgressRule_ToK8s_def dest: blocks_kept)
  moreover have "length iss = length (to_Ingress p)" "length es = length (to_Egress p)"
    using rules [THEN list_all2_lengthD] by simp_all
  ultimately show ?thesis using np by (auto simp: sameNetworkPolicy_def eq)
qed

section \<open>Applications\<close>

text \<open>The message has no type: it is the call that says whether the application is a container.\<close>

definition readApp :: "string \<Rightarrow> PBApplication \<Rightarrow> App" where
  "readApp ty q =
     \<lparr>ap_ID = pa_Id q, ap_Type = ty, ap_Name = pa_Name q, ap_Version = pa_Version q, ap_Vendor = pa_Vendor q,
      ap_Description = pa_Description q, ap_Cores = sint (pa_Cores q), ap_Memory = sint (pa_Memory q),
      ap_Ports = pa_Ports q, ap_Source = pa_HttpUri q, ap_EPAFeatures = pa_EACJsonBlob q\<rparr>"

lemma toUint32_sint: "0 \<le> i \<Longrightarrow> i < 2 ^ 31 \<Longrightarrow> sint (toUint32 i) = i"
  by (simp add: toUint32_def sint_sbintrunc' signed_take_bit_int_eq_self)

lemma read_app:
  assumes "App_Validate lib a = VOk"
  shows "ap_Type a \<in> {''container'', ''vm''} \<and>
    readApp (ap_Type a) (toPBApp cni a)
      = a\<lparr>ap_Ports := map (\<lambda>p. if pp_Protocol p = ''all'' then p\<lparr>pp_Protocol := []\<rparr> else p) (ap_Ports a)\<rparr>"
proof -
  have "sint (toUint32 (ap_Cores a)) = ap_Cores a" "sint (toUint32 (ap_Memory a)) = ap_Memory a"
    using assms by (auto intro!: toUint32_sint simp: App_Validate_def MaxCores_def MaxMemory_def)
  moreover have "ap_Type a \<in> {''container'', ''vm''}" using assms by (auto simp: App_Validate_def)
  ultimately show ?thesis by (cases a) (auto simp: toPBApp_def readApp_def withoutAll_def)
qed

end
