(* ===== verification/Cce_Facts.thy ===== *)
theory Cce_Facts
  imports Cce_Wp Cce_Lossless
begin

text \<open>
  What the operations of the controller do: the creation of an entity, the deployment of an application on
  a node, the deletion of an application, and the enrolment of a node.
\<close>

section \<open>Creation\<close>

text \<open>
  The entities that have a POST and a GET handler of their own, with these handlers, and what a reply
  shows: a node as it is, the others in the form that a PATCH would send back.
\<close>

fun postOf :: "entity \<Rightarrow> hdl option" where
  "postOf (ENode n) = Some (swagPOSTNodes (Decoded n))"
| "postOf (EApp a) = Some (swagPOSTApps (Decoded a))"
| "postOf (EPolicy p) = Some (swagPOSTPolicies (Decoded p))"
| "postOf (EPolicyOVN p) = Some (swagPOSTKubeOVNPolicies (Decoded p))"
| "postOf _ = None"

fun getOf :: "entity \<Rightarrow> string \<Rightarrow> hdl option" where
  "getOf (ENode n) i = Some (swagGETNodeByID i)"
| "getOf (EApp a) i = Some (swagGETAppByID i)"
| "getOf (EPolicy p) i = Some (swagGETPolicyByID i)"
| "getOf (EPolicyOVN p) i = Some (swagGETKubeOVNPolicyByID i)"
| "getOf _ i = None"

fun shownBy :: "cce_body \<Rightarrow> entity option" where
  "shownBy (BNode n) = Some (ENode n)"
| "shownBy (BApp d) = Some (EApp (detailApp d))"
| "shownBy (BPolicy d) = Some (EPolicy (detailPolicy d))"
| "shownBy (BPolicyOVN d) = Some (EPolicyOVN (detailPolicyOVN d))"
| "shownBy _ = None"

lemma postOf_create: "postOf e = Some h \<Longrightarrow> h = hcreate plainHandler (Decoded e)"
  by (cases e) (auto simp: swagPOSTNodes_def swagPOSTApps_def swagPOSTPolicies_def swagPOSTKubeOVNPolicies_def)

lemma sqlInsert_plain:
  assumes "postOf e = Some h" "gm_get db (GetTableName e, i) = None" "length i \<le> 36"
    and "\<And>n. e = ENode n \<Longrightarrow> length (node_Serial n) \<le> 128" and "Validate lib (SetID i e) = VOk"
  shows "sqlInsert (SetID i e) db = Some (gm_put (GetTableName e, i) (SetID i e) db)"
proof -
  have "widthOk (SetID i e)" using assms by (cases e) (auto simp: widthOk_def App_Validate_def)
  moreover have "fkOk db (SetID i e)" "\<not> clash (SetID i e) e'" for e'
    using assms(1) by (cases e; simp add: fkOk_def clash_def)+
  ultimately show ?thesis using assms(2) by (simp add: sqlInsert_def rowOk_def dbKey_def list_all_iff)
qed

lemma create_wp:
  fixes e :: entity and s :: cce_state
  assumes h: "postOf e = Some h" and calm: "calm env"
  defines "i \<equiv> ce_uuid env (ct_uuids s)"
  assumes new: "gm_get (ct_db s) (GetTableName e, i) = None" "length i \<le> 36"
    and w: "\<And>n. e = ENode n \<Longrightarrow> length (node_Serial n) \<le> 128"
  defines "v \<equiv> Validate (ce_lib env) (SetID i e)"
  defines "R \<equiv> \<lambda>s' r. rp_status r = (if GetID e \<noteq> [] then 400 else case v of VOk \<Rightarrow> 201 | VErr _ \<Rightarrow> 400 | VPanic \<Rightarrow> 500)
    \<and> (rp_status r = 201 \<longrightarrow> rp_body r = BCreated i)
    \<and> (\<forall>k. gm_get (ct_db s') k = (if rp_status r = 201 \<and> k = (GetTableName e, i) then Some (SetID i e) else gm_get (ct_db s) k))"
  shows "wpC h (\<lambda>r s'. R s' r) (\<lambda>r s'. R s' r) (\<lambda>s'. R s' (status 500)) env s"
  using calm sqlInsert_plain [OF h new w, of "ce_lib env"]
  by (simp add: postOf_create [OF h] hcreate_def plainHandler_def wp Let_def R_def replyText_def replyJSON_def status_def
      validationFailed_def v_def i_def split: vres.split)

lemma shown:
  "shownBy (BNode (scanNode (ENode n))) = Some (ENode n)" "shownBy (BApp (appDetail (scanApp (EApp a)))) = Some (EApp a)"
  "shownBy (BPolicy \<lparr>pd_PolicySummary = \<lparr>ps_ID = tp_ID (scanPolicy (EPolicy p)), ps_Name = tp_Name (scanPolicy (EPolicy p))\<rparr>,
     pd_Rules = tp_Rules (scanPolicy (EPolicy p))\<rparr>) = Some (EPolicy p)"
  "shownBy (BPolicyOVN \<lparr>pk_PolicySummary =
       \<lparr>ps_ID = to_ID (scanPolicyOVN (EPolicyOVN o')), ps_Name = to_Name (scanPolicyOVN (EPolicyOVN o'))\<rparr>,
     pk_IngressRules = to_Ingress (scanPolicyOVN (EPolicyOVN o')), pk_EgressRules = to_Egress (scanPolicyOVN (EPolicyOVN o'))\<rparr>)
   = Some (EPolicyOVN o')"
  by (simp_all add: scanNode_def scanApp_def scanPolicy_def scanPolicyOVN_def detailApp_def appDetail_def
      appSummary_def detailPolicy_def detailPolicyOVN_def)

lemma get_shows:
  assumes "getOf e i = Some g" "calm env" "gm_get (ct_db s) (GetTableName e, i) = Some e"
  shows "\<exists>s'' b. recoverHandler g env s = (s'', replyJSON 200 b) \<and> shownBy b = Some e"
proof -
  have "wpC g (\<lambda>r _. \<exists>b. r = replyJSON 200 b \<and> shownBy b = Some e) (\<lambda>_ _. False) (\<lambda>_. False) env s"
    using assms by (cases e) (auto simp: wp swagGETNodeByID_def swagGETAppByID_def swagGETPolicyByID_def
      swagGETKubeOVNPolicyByID_def Let_def replyJSON_def shown simp del: shownBy.simps)
  then show ?thesis by (auto simp: wpC_def recoverHandler_def split: go.splits sum.splits)
qed

section \<open>Deployment\<close>

definition evaPortOf :: "cce_env \<Rightarrow> string" where
  "evaPortOf env = (if ce_EVAPort env = [] then defaultEVAPort else ce_EVAPort env)"

text \<open>The calls that deploy an application, by its type.\<close>

definition deployCalls :: "cce_env \<Rightarrow> App \<Rightarrow> remote list" where
  "deployCalls env app =
     (let pb = toPBApp (getCNIConf (ce_cniConf env) (ce_cniArgs env)) app
      in if ap_Type app = ''container'' then [DeployContainer pb]
         else if ap_Type app = ''vm'' then [DeployVM pb] else [])"

lemma wp_evaPort [wp]: "wpC evaPort Q E X env s \<longleftrightarrow> Q (evaPortOf env) s"
  by (simp add: evaPort_def evaPortOf_def wp)

lemma wp_connectNode [wp]:
  "wpC (connectNode n port) Q E X env s \<longleftrightarrow>
     wpC (Filter T_node_grpc_targets [(''node_id'', n)])
       (\<lambda>targets s1.
          case targets of
            [t] \<Rightarrow> wpC (callC (NodeConnect (ng_GRPCTarget (scanTarget t)) port)) (\<lambda>_. Q ())
                     (\<lambda>e. E (wrapMsg ''could not connect to node'' e)) X env s1
          | _ \<Rightarrow> E (''filter returned ['' @ stringsJoin (CHR '' '') (map (\<lambda>t. NodeGRPCTarget_String (scanTarget t)) targets)
                 @ '']'') s1)
       (\<lambda>e. E (wrapMsg ''could not fetch gRPC target from DB'' e)) X env s"
  by (simp add: connectNode_def wp split: option.split list.split)

text \<open>
  The calls to the cluster after that: none without Kubernetes; else the node is looked up and a deployment
  without replicas is made for it, with the resources and the ports of the application.
\<close>

definition samePort :: "PortProto \<Rightarrow> K8sPort \<Rightarrow> bool" where
  "samePort p q \<longleftrightarrow>
     kq_Port q = pp_Port p
     \<and> (pp_Protocol p, kq_Protocol q) \<in> {(''tcp'', ''TCP''), (''udp'', ''UDP''), (''sctp'', ''SCTP'')}"

definition deploymentOf :: "cce_env \<Rightarrow> string \<Rightarrow> App \<Rightarrow> string \<Rightarrow> K8sPort list \<Rightarrow> K8sDeployment" where
  "deploymentOf env n app name ports =
     \<lparr>kd_Name = ''app'', kd_Labels = [(''app-id'', ap_ID app), (''node-id'', n)], kd_Replicas = 0,
      kd_Cores = ap_Cores app, kd_MemoryBytes = word_of_int (1024 * 1024 * ap_Memory app), kd_Container = name,
      kd_Image = ap_ID app, kd_PullPolicy = (if ce_pullPolicy env = [] then ''Never'' else ce_pullPolicy env),
      kd_Ports = ports, kd_NodeSelector = [(''node-id'', n)]\<rparr>"

definition clusterCalls :: "cce_env \<Rightarrow> string \<Rightarrow> App \<Rightarrow> remote list \<Rightarrow> bool" where
  "clusterCalls env n app cs \<longleftrightarrow>
     (if ce_mode env = OrchestrationModeNative then cs = []
      else \<exists>name ports. list_all2 samePort (ap_Ports app) ports
        \<and> cs = [K8sListNodes (''node-id='' @ n), K8sCreateDeployment (deploymentOf env n app name ports)])"

text \<open>
  The log has grown by the connection to a target of the node, the call that deploys the application there
  and the calls to the cluster, all of them successful.
\<close>

definition deployed :: "cce_env \<Rightarrow> string \<Rightarrow> App \<Rightarrow> cce_state \<Rightarrow> (remote \<times> bool) list \<Rightarrow> bool" where
  "deployed env n app s log' \<longleftrightarrow>
     (\<exists>t\<in>set (matching T_node_grpc_targets [(''node_id'', n)] (ct_db s)). \<exists>cs.
        clusterCalls env n app cs \<and>
        log' = ct_log s @ map (\<lambda>c. (c, True))
          (NodeConnect (ng_GRPCTarget (scanTarget t)) (evaPortOf env) # deployCalls env app @ cs))"

lemma k8sPort_same: "k8sPort \<lparr>kq_Port = pp_Port p, kq_Protocol = pp_Protocol p\<rparr> = Some q \<Longrightarrow> samePort p q"
  by (auto simp: k8sPort_def samePort_def split: if_splits)

lemma wp_k8sPorts:
  assumes "\<And>m. E m s" and "\<And>qs. list_all2 samePort ps qs \<Longrightarrow> Q qs s"
  shows "wpC (mapC (\<lambda>p. case k8sPort p of None \<Rightarrow> throwC e | Some q \<Rightarrow> retC q)
      (map (\<lambda>p. \<lparr>kq_Port = pp_Port p, kq_Protocol = pp_Protocol p\<rparr>) ps)) Q E X env s"
  using assms(2)
proof (induction ps arbitrary: Q)
  case (Cons p ps)
  have "wpC (mapC (\<lambda>p. case k8sPort p of None \<Rightarrow> throwC e | Some q \<Rightarrow> retC q)
      (map (\<lambda>p. \<lparr>kq_Port = pp_Port p, kq_Protocol = pp_Protocol p\<rparr>) ps)) (\<lambda>qs. wpC (retC (q # qs)) Q E X env) E X env s"
    if "samePort p q" for q
    using that Cons.prems by (intro Cons.IH) (simp add: wp)
  then show ?case using assms(1) by (simp add: wp k8sPort_same split: option.split)
qed (simp add: wp)

lemma wp_checkNode [wp]:
  "wpC (checkNode n) Q E X env s \<longleftrightarrow>
     (case ce_fail env (ct_calls s) of
        Some e \<Rightarrow> E (wrapMsg ''get kubernetes node list error'' e) (logged (K8sListNodes (''node-id='' @ n)) False s)
      | None \<Rightarrow> Q () (logged (K8sListNodes (''node-id='' @ n)) True s))"
  by (simp add: checkNode_def wp nodeIDLabelKey_def split: option.split)

lemma wp_k8s_deploy:
  "wpC (k8s_deploy n (toK8SApp app))
     (\<lambda>_ s'. ct_db s' = ct_db s \<and> (\<exists>name ports. list_all2 samePort (ap_Ports app) ports \<and>
        ct_log s' = ct_log s @ [(K8sCreateDeployment (deploymentOf env n app name ports), True)]))
     (\<lambda>_ s'. ct_db s' = ct_db s) X env s"
  unfolding k8s_deploy_def toK8SApp_def wp K8sApp.simps
  by (rule wp_k8sPorts)
    (auto simp: deploymentOf_def deploymentLabels_def appIDLabelKey_def nodeIDLabelKey_def split: option.split
      split del: if_split)

lemma wp_cluster:
  "wpC (onKubernetes (K8s_Deploy n (toK8SApp app)))
     (\<lambda>_ s'. ct_db s' = ct_db s \<and> (\<exists>cs. clusterCalls env n app cs \<and> ct_log s' = ct_log s @ map (\<lambda>c. (c, True)) cs))
     (\<lambda>_ s'. ct_db s' = ct_db s) (\<lambda>s'. ct_db s' = ct_db s) env s"
proof (cases "ce_mode env = OrchestrationModeNative")
  case True
  then show ?thesis by (simp add: onKubernetes_def wp clusterCalls_def)
next
  case False
  have c: "clusterCalls env n app [K8sListNodes (''node-id='' @ n), K8sCreateDeployment (deploymentOf env n app name ports)]"
    if "list_all2 samePort (ap_Ports app) ports" for name ports
    using that False by (auto simp: clusterCalls_def)
  have "wpC (k8s_deploy n (toK8SApp app))
      (\<lambda>_ s'. ct_db s' = ct_db s \<and> (\<exists>cs. clusterCalls env n app cs \<and> ct_log s' = ct_log s @ map (\<lambda>c. (c, True)) cs))
      (\<lambda>_ s'. ct_db s' = ct_db s) (\<lambda>s'. ct_db s' = ct_db s) env (logged (K8sListNodes (''node-id='' @ n)) True s)"
    by (rule wp_mono [OF wp_k8s_deploy [where X = "\<lambda>s'. ct_db s' = ct_db s"]])
      (elim conjE exE, intro conjI exI, simp, erule c, simp_all)
  with False show ?thesis
    by (cases "ce_mode env") (simp_all add: onKubernetes_def wp K8s_Deploy_def split: option.split)
qed

lemma handleCreate_wp:
  assumes app: "gm_get (ct_db s) (T_apps, na_AppID a) = Some e"
  shows "wpC (handleCreateNodesApps a) (\<lambda>_ s'. ct_db s' = ct_db s \<and> deployed env (na_NodeID a) (scanApp e) s (ct_log s'))
     (\<lambda>_ s'. ct_db s' = ct_db s) (\<lambda>s'. ct_db s' = ct_db s) env s"
proof -
  let ?n = "na_NodeID a"
  have k8s: "wpC (onKubernetes (K8s_Deploy ?n (toK8SApp (scanApp e))))
      (\<lambda>_ s'. ct_db s' = ct_db s \<and> deployed env ?n (scanApp e) s (ct_log s'))
      (\<lambda>_ s'. ct_db s' = ct_db s) (\<lambda>s'. ct_db s' = ct_db s) env s1"
    if "ct_db s1 = ct_db s" "t \<in> set (matching T_node_grpc_targets [(''node_id'', ?n)] (ct_db s))"
      "ct_log s1 = ct_log s @ map (\<lambda>c. (c, True))
         (NodeConnect (ng_GRPCTarget (scanTarget t)) (evaPortOf env) # deployCalls env (scanApp e))" for t s1
    using that by (intro wp_mono [OF wp_cluster]) (auto simp: deployed_def)
  show ?thesis
    using app
    by (simp add: handleCreateNodesApps_def wp onEva_def Deploy_def toPBAppC_def split: option.split list.split)
      (intro allI impI conjI k8s; simp add: deployCalls_def Let_def)
qed

lemma POSTNodeApp_wp:
  "wpC (swagPOSTNodeApp n b)
     (\<lambda>r s'. if rp_status r = 200 then
        (\<exists>a e. b = Decoded a \<and> gm_get (ct_db s) (T_nodes, n) \<noteq> None \<and> gm_get (ct_db s) (T_apps, a) = Some e
           \<and> sqlInsert (ENodeApp \<lparr>na_ID = ce_uuid env (ct_uuids s), na_NodeID = n, na_AppID = a\<rparr>) (ct_db s) = Some (ct_db s')
           \<and> deployed env n (scanApp e) s (ct_log s'))
      else ct_db s' = ct_db s)
     (\<lambda>r s'. rp_status r \<noteq> 200 \<and> ct_db s' = ct_db s) (\<lambda>s'. ct_db s' = ct_db s) env s"
  by (simp add: swagPOSTNodeApp_def wp payloadText_def getNfdFeatures_def fail500_def Let_def
        split: option.split list.split rbody.split vres.split)
      (auto simp: wp deployed_def fail500_def status_def replyText_def validationFailed_def
        intro!: wp_mono [OF handleCreate_wp] split: option.split)

section \<open>Deletion of an application\<close>

lemma refersTo_app:
  "refersTo c (T_apps, i) e \<longleftrightarrow>
     \<not> c \<and> GetTableName e \<in> {T_dns_configs_app_aliases, T_nodes_apps} \<and> column e ''app_id'' = Some i"
  by (cases e) (auto simp: refersTo_def column_def)

definition app_in_use :: "string \<Rightarrow> cdb \<Rightarrow> bool" where
  "app_in_use i db \<longleftrightarrow>
     matching T_dns_configs_app_aliases [(''app_id'', i)] db \<noteq> [] \<or> matching T_nodes_apps [(''app_id'', i)] db \<noteq> []"

lemma sqlDelete_app:
  assumes ok: "db_ok db" and free: "\<not> app_in_use i db" and e: "gm_get db (T_apps, i) = Some e"
  shows "\<exists>db'. sqlDelete (T_apps, i) db = Some (True, db')
    \<and> (\<forall>k. gm_get db' k = (if k = (T_apps, i) then None else gm_get db k))"
proof -
  have gm: "gm_ok db" using ok by simp
  have no: "\<not> refersTo False (T_apps, i) x" if "(k, x) \<in> set db" for k x
  proof
    assume r: "refersTo False (T_apps, i) x"
    from that have "gm_get db k = Some x" by (simp add: gm_mem_get [OF gm])
    with db_ok_row [OF ok this] have "gm_get db (dbKey x) = Some x" by simp
    with r have "x \<in> set (matching T_dns_configs_app_aliases [(''app_id'', i)] db) \<union> set (matching T_nodes_apps [(''app_id'', i)] db)"
      by (auto simp: refersTo_app matching_iff [OF ok])
    with free show False by (auto simp: app_in_use_def)
  qed
  have "\<not> list_ex (\<lambda>(_, x). refersTo False (T_apps, i) x) db" using no by (fastforce simp: list_ex_iff)
  with e have "sqlDelete (T_apps, i) db = Some (True, filter (\<lambda>(k', x). k' \<noteq> (T_apps, i) \<and> \<not> refersTo True (T_apps, i) x) db)"
    by (simp add: sqlDelete_def)
  then show ?thesis by (simp add: refersTo_app gm_get_filter [OF gm] split: option.split)
qed

lemma delete_app_wp:
  fixes i :: string
  assumes ok: "db_ok (ct_db s)" and calm: "calm env"
  defines "code \<equiv> if app_in_use i (ct_db s) then 422 else if gm_get (ct_db s) (T_apps, i) = None then 404 else 200"
  defines "R \<equiv> \<lambda>s' r. rp_status r = code
     \<and> (\<forall>k. gm_get (ct_db s') k = (if code = 200 \<and> k = (T_apps, i) then None else gm_get (ct_db s) k))"
  shows "wpC (swagDELETEAppByID i) (\<lambda>r s'. R s' r) (\<lambda>r s'. R s' r) (\<lambda>s'. R s' (status 500)) env s"
  using calm sqlDelete_app [OF ok, of i]
  by (simp add: swagDELETEAppByID_def deleteChecked_def checkDBDeleteApps_def noRows_def wp fail500_def R_def code_def
      app_in_use_def replyText_def status_def split: option.split)
    auto

section \<open>Enrolment\<close>

text \<open>
  What the libraries promise of a request that is made with a key: it parses, its signature is right, and
  it carries the public key.
\<close>

definition csr_lawful :: "grpc_server \<Rightarrow> bool" where
  "csr_lawful g \<longleftrightarrow>
     (\<forall>key der pub spki. CreateCertificateRequest (gs_pki g) key = Inr der \<longrightarrow> signerPublic (gs_pki g) key = Some pub \<longrightarrow>
        MarshalPKIXPublicKey (gs_pki g) pub = Inr spki \<longrightarrow>
        gs_CheckSignature g der = None \<and> gs_SPKI g der = spki)"

lemma wp_getIP:
  assumes "\<And>m s'. ct_db s' = ct_db s \<Longrightarrow> ct_log s' = ct_log s \<Longrightarrow> E m s'"
    and "\<And>ip s'. ct_db s' = ct_db s \<Longrightarrow> Q ip s'"
  shows "wpC (getIP n) Q E X env s"
  using assms by (simp add: getIP_def wp split: option.split list.split)

lemma RegisterToProxy_wp: "wpC (RegisterToProxy n) (\<lambda>_ s'. ct_db s' = ct_db s) E X env s"
  unfolding RegisterToProxy_def by (simp add: wp, rule wp_getIP) (simp_all add: wp)

lemma sqlInsert_get: "sqlInsert e db = Some db' \<Longrightarrow> gm_get db' k = (if k = dbKey e then Some e else gm_get db k)"
  by (auto simp: sqlInsert_def split: if_splits)

text \<open>What the controller has checked and recorded when it gives credentials.\<close>

definition enrolled ::
    "grpc_server \<Rightarrow> peer option \<Rightarrow> cdb \<Rightarrow> string \<Rightarrow> pb_Credentials \<Rightarrow> Node \<Rightarrow> certificate \<Rightarrow> cdb \<Rightarrow> bool" where
  "enrolled g p db der creds n cert db' \<longleftrightarrow>
     (\<exists>e\<in>set (matching T_nodes [(''serial'', gs_serial g (gs_SPKI g der))] db). n = scanNode e)
     \<and> RootCA_SignCSR (gs_pki g) (gs_ca g) der \<lparr>pn_CommonName = node_ID n, pn_Organization = []\<rparr> = Inr cert
     \<and> creds = \<lparr>pbc_Certificate = certPEM (gs_pki g) cert, pbc_CaChain = [certPEM (gs_pki g) (ca_Cert (gs_ca g))],
                pbc_CaPool = [certPEM (gs_pki g) (ca_Cert (gs_ca g))]\<rparr>
     \<and> gm_get db' (T_credentials, node_ID n) = Some (ECreds \<lparr>cr_ID = node_ID n, cr_Certificate = certPEM (gs_pki g) cert\<rparr>)
     \<and> (\<exists>pe host port i. p = Some pe \<and> netSplitHostPort (pe_Addr pe) = Inr (host, port) \<and> host \<noteq> []
          \<and> gm_get db' (T_node_grpc_targets, i) = Some (ETarget \<lparr>ng_ID = i, ng_NodeID = node_ID n, ng_GRPCTarget = host\<rparr>))"

lemma enrolledI:
  assumes "matching T_nodes [(''serial'', gs_serial g (gs_SPKI g der))] db = e # es"
    and "RootCA_SignCSR (gs_pki g) (gs_ca g) der \<lparr>pn_CommonName = node_ID (scanNode e), pn_Organization = []\<rparr> = Inr cert"
    and "sqlInsert (ECreds \<lparr>cr_ID = node_ID (scanNode e), cr_Certificate = certPEM (gs_pki g) cert\<rparr>) db = Some db1"
    and "sqlInsert (ETarget \<lparr>ng_ID = i, ng_NodeID = node_ID (scanNode e), ng_GRPCTarget = host\<rparr>) db1 = Some db2"
    and "netSplitHostPort (pe_Addr pe) = Inr (host, port)" "host \<noteq> []"
  shows "\<exists>n cert'. enrolled g (Some pe) db der \<lparr>pbc_Certificate = certPEM (gs_pki g) cert,
    pbc_CaChain = [certPEM (gs_pki g) (ca_Cert (gs_ca g))], pbc_CaPool = [certPEM (gs_pki g) (ca_Cert (gs_ca g))]\<rparr> n cert' db2"
proof (intro exI)
  have "gm_get db2 (T_node_grpc_targets, i) = Some (ETarget \<lparr>ng_ID = i, ng_NodeID = node_ID (scanNode e), ng_GRPCTarget = host\<rparr>)"
    by (simp add: sqlInsert_get [OF assms(4)] dbKey_def)
  then show "enrolled g (Some pe) db der \<lparr>pbc_Certificate = certPEM (gs_pki g) cert,
      pbc_CaChain = [certPEM (gs_pki g) (ca_Cert (gs_ca g))], pbc_CaPool = [certPEM (gs_pki g) (ca_Cert (gs_ca g))]\<rparr>
      (scanNode e) cert db2"
    using assms(1,2,5,6)
    by (auto simp: enrolled_def sqlInsert_get [OF assms(3)] sqlInsert_get [OF assms(4)] dbKey_def)
qed

lemma Server_RequestCredentials_wp:
  assumes "fst (pem_Decode (gs_pki g) csr) = Some block"
  shows "wpC (Server_RequestCredentials g p csr) (\<lambda>creds s'. \<exists>n cert. enrolled g p (ct_db s) (pem_Bytes block) creds n cert (ct_db s'))
     (\<lambda>_ _. True) (\<lambda>_. True) env s"
  using assms
  by (simp add: Server_RequestCredentials_def parseCSR_def approvedNode_def storeAddress_def CAChain_def wp Let_def
      split: option.split list.split sum.split prod.split)
    (auto intro!: wp_mono [OF RegisterToProxy_wp] intro: enrolledI simp: wp)

lemma approved_row:
  assumes "db_ok db" "x \<in> set (matching T_nodes [(''serial'', v)] db)"
  shows "gm_get db (T_nodes, node_ID (scanNode x)) = Some (ENode (scanNode x)) \<and> node_Serial (scanNode x) = v"
  using assms by (cases x rule: entity.exhaust) (auto simp: matching_iff scanNode_def dbKey_def column_def)

lemma enrolled_node:
  "db_ok db \<Longrightarrow> enrolled g p db der creds n cert db' \<Longrightarrow>
   gm_get db (T_nodes, node_ID n) = Some (ENode n) \<and> node_Serial n = gs_serial g (gs_SPKI g der)"
  using approved_row [of db] by (auto simp: enrolled_def)

text \<open>The controller as the client of a node that enrols.\<close>

definition nodeClient :: "grpc_server \<Rightarrow> peer option \<Rightarrow> cce_env \<Rightarrow> cce_state \<Rightarrow> string \<Rightarrow> string + pb_Credentials" where
  "nodeClient g p env s csr =
     (case intercept p enrollmentMethod (Server_RequestCredentials g p csr) env s of
        Ret _ (Inr creds) \<Rightarrow> Inr creds
      | Ret _ (Inl (_, m)) \<Rightarrow> Inl m
      | Panic _ \<Rightarrow> Inl ''unavailable'')"

lemma intercept_ok:
  assumes "intercept p m h env s = Ret s' (Inr a)" and "wpC h Q E X env s"
  shows "Q a s'"
  using assms by (auto simp: intercept_def wpC_def throwC_def split: option.splits)

text \<open>The certificates of the controller are what a node decodes, and pass its verification.\<close>

lemma decode_certPEM:
  assumes "pki_lawful e"
  shows "pem_Decode e (certPEM e c) = (Some \<lparr>pem_Type = ''CERTIFICATE'', pem_Bytes = x_Raw c\<rparr>, [])"
proof -
  let ?b = "\<lparr>pem_Type = ''CERTIFICATE'', pem_Bytes = x_Raw c\<rparr>"
  have b: "pem_Type ?b \<in> pem_types" by (simp add: pem_types_def)
  from lawful_pem [OF assms b] obtain d where "pem_Encode e ?b = Some d" by blast
  with pem_round_trip [OF assms b] show ?thesis by (simp add: certPEM_def EncodeToMemory_def)
qed

lemma decode_credentials:
  assumes e: "pki_lawful e" "x509_lawful e"
    and cert: "ParseCertificate e (x_Raw cert) = Inr cert" and ca: "ParseCertificate e (x_Raw ca) = Inr ca"
  shows "decodeCredentials e \<lparr>pbc_Certificate = certPEM e cert, pbc_CaChain = [certPEM e ca], pbc_CaPool = [certPEM e ca]\<rparr>
    = Inr \<lparr>cr_key = None, cr_cert = Some cert, cr_caChain = [ca], cr_caPoolCerts = [ca]\<rparr>"
  using x509_single [OF e(2) ca]
  by (simp add: decodeCredentials_def decodeCerts_def decode_certPEM [OF e(1)] cert tryE_def wrapE_def)

lemma signed_facts:
  assumes e: "pki_lawful e" "x509_lawful e" and ca: "ca_match e ca" "may_sign (ca_Cert ca)"
    and key: "CreateCertificateRequest e key = Inr der" "signerPublic e key = Some pub" "MarshalPKIXPublicKey e pub = Inr spki"
    and sign: "RootCA_SignCSR e ca der subject = Inr cert"
  shows "ParseCertificate e (x_Raw cert) = Inr cert \<and> x_RawSubjectPublicKeyInfo cert = spki
    \<and> x_Subject cert = subject \<and> CheckSignatureFrom e cert (ca_Cert ca) = None"
proof -
  let ?t = "\<lparr>t_Subject = subject, t_NotBefore = timeNow e, t_NotAfter = x_NotAfter (ca_Cert ca), t_IsCA = False,
    t_BasicConstraintsValid = False, t_KeyUsage = 0\<rparr>"
  obtain r raw where p: "ParseCertificateRequest e der = Inr r"
    and c: "CreateCertificate e ?t (Some (ca_Cert ca)) (csr_PublicKey r) (ca_Key ca) = Inr raw" "ParseCertificate e raw = Inr cert"
    using sign by (auto simp: RootCA_SignCSR_def tryE_Inr_iff)
  have "csr_PublicKey r = pub" using x509_request [OF e(2) key(1) p key(2)] .
  with key(3) have m: "MarshalPKIXPublicKey e (csr_PublicKey r) = Inr spki" by simp
  obtain kp where "signerPublic e (ca_Key ca) = Some kp" "MarshalPKIXPublicKey e kp = Inr (x_RawSubjectPublicKeyInfo (ca_Cert ca))"
    using ca(1) by (auto simp: ca_match_def)
  with ca(2) x509_created [OF e(2) c m] lawful_cert [OF e(1) c(2)] show ?thesis by simp
qed

text \<open>An authority that was initialized earlier, from files without a certificate that may not sign.\<close>

lemma started_authority:
  assumes law: "pki_lawful e" "x509_lawful e" and start: "caInitRootCA (e\<lparr>timeNow := t0\<rparr>) d fs = Some (Ret fs' (Inr ca))"
    and stored: "\<And>c. LoadCertificate e (caCertFile d) fs = Inr c \<Longrightarrow> may_sign c"
  shows "ca_match e ca" "may_sign (ca_Cert ca)" "ParseCertificate e (x_Raw (ca_Cert ca)) = Inr (ca_Cert ca)"
proof -
  have law': "pki_lawful (e\<lparr>timeNow := t0\<rparr>)" "x509_lawful (e\<lparr>timeNow := t0\<rparr>)"
    using law by (simp_all add: pki_lawful_def x509_lawful_def)
  have "LoadCertificate (e\<lparr>timeNow := t0\<rparr>) p fs = LoadCertificate e p fs" for p
    by (simp add: LoadCertificate_def readFile_def cong: option.case_cong)
  with stored have "LoadCertificate (e\<lparr>timeNow := t0\<rparr>) (caCertFile d) fs = Inr c \<Longrightarrow> may_sign c" for c by simp
  from caInit_signs [OF law' start this] caInit_match [OF start]
  show "ca_match e ca" "may_sign (ca_Cert ca)" "ParseCertificate e (x_Raw (ca_Cert ca)) = Inr (ca_Cert ca)"
    by (simp_all add: ca_match_def)
qed

section \<open>Labels\<close>

definition own_feature :: "string \<Rightarrow> entity \<Rightarrow> bool" where
  "own_feature n e \<longleftrightarrow> (\<exists>f. e = ENfd f \<and> nf_NodeID f = n)"

text \<open>Every row that differs from the first database is, and if it existed was, a feature of the node.\<close>

definition features_of :: "string \<Rightarrow> cdb \<Rightarrow> cdb \<Rightarrow> bool" where
  "features_of n db0 db \<longleftrightarrow>
     (\<forall>k. gm_get db k \<noteq> gm_get db0 k \<longrightarrow>
        (\<exists>e. gm_get db k = Some e \<and> own_feature n e) \<and> pred_option (own_feature n) (gm_get db0 k))"

lemma features_put:
  assumes "features_of n db0 db" "own_feature n e" "pred_option (own_feature n) (gm_get db k)"
  shows "features_of n db0 (gm_put k e db)"
  using assms unfolding features_of_def by (auto split: if_splits) metis+

lemma wp_BulkUpdate1 [wp]:
  "wpC (BulkUpdate [e]) Q E X env s \<longleftrightarrow>
     (case ce_fail env (ct_calls s) of
        Some m \<Rightarrow> E (wrapMsg ''error updating record'' m) (called s)
      | None \<Rightarrow>
          (case sqlUpdate e (ct_db s) of
             None \<Rightarrow> E (wrapMsg ''error updating record'' (ce_refused env)) (called s)
           | Some db \<Rightarrow> Q () ((called s)\<lparr>ct_db := db\<rparr>)))"
  by (simp add: BulkUpdate_def wp wp_stmtC split: option.split)

lemma feature_row: "GetTableName e = T_nodes_nfd_features \<Longrightarrow> column e ''node_id'' = Some n \<Longrightarrow> own_feature n e"
  by (cases e) (auto simp: own_feature_def column_def)

lemma first_feature:
  assumes "db_ok db" "matching T_nodes_nfd_features [(''node_id'', n), (''nfd_id'', l)] db = e # es"
  shows "gm_get db (T_nodes_nfd_features, GetID e) = Some e" "own_feature n e"
  using matching_iff [OF assms(1), of e T_nodes_nfd_features "[(''node_id'', n), (''nfd_id'', l)]"] assms(2)
  by (auto simp: dbKey_def intro: feature_row)

lemma setLabel_own:
  assumes "db_ok (ct_db s)" "features_of n db0 (ct_db s)"
  defines "P \<equiv> \<lambda>s'. features_of n db0 (ct_db s')"
  shows "wpC (setLabel n l) (\<lambda>_. P) (\<lambda>_. P) P env s"
  unfolding setLabel_def P_def using assms(2) first_feature [OF assms(1)]
  by (auto simp: wp own_feature_def dbKey_def sqlInsert_def sqlUpdate_def Option.is_none_def
      intro!: features_put split: option.splits list.splits if_splits)

lemma setLabels_own:
  "db_ok (ct_db s) \<Longrightarrow> features_of n db0 (ct_db s) \<Longrightarrow>
   features_of n db0 (ct_db (go_state (setLabels_loop n ls err env s)))"
proof (induction ls arbitrary: err s)
  case (Cons l ls)
  have "db_ok (ct_db (go_state (setLabel n l env s)))"
    using Cons.prems(1) by (rule keepsD [OF integrity.keeps_setLabel])
  with Cons.IH setLabel_own [OF Cons.prems, of l env] show ?case
    by (auto simp: wpC_def bindC_def split: go.splits sum.splits)
qed (simp add: retC_def)

text \<open>The name in the certificate of a peer.\<close>

definition peerCN :: "peer option \<Rightarrow> string option" where
  "peerCN p =
     Option.bind (Option.bind p pe_AuthInfo) (\<lambda>t.
     case ts_VerifiedChains t of (c # _) # _ \<Rightarrow> Some (pn_CommonName (x_Subject c)) | _ \<Rightarrow> None)"

lemma SetLabels_state:
  "go_state (SetLabels p req env s) = s \<or>
   peerCN p = Some (sl_NodeName req) \<and>
   go_state (SetLabels p req env s) = go_state (setLabels_loop (sl_NodeName req) (sl_Labels req) None env s)"
  by (auto simp: SetLabels_def getPeerName_def peerName_def peerCN_def ctl_defs
      split: option.split list.split go.split sum.split)

lemma SetLabels_features:
  assumes "db_ok (ct_db s)" and "gm_get (ct_db (go_state (SetLabels p req env s))) k \<noteq> gm_get (ct_db s) k"
  shows "\<exists>n. peerCN p = Some n \<and> (\<exists>e. gm_get (ct_db (go_state (SetLabels p req env s))) k = Some e \<and> own_feature n e)
    \<and> pred_option (own_feature n) (gm_get (ct_db s) k)"
proof -
  let ?n = "sl_NodeName req"
  have s': "peerCN p = Some ?n" "go_state (SetLabels p req env s) = go_state (setLabels_loop ?n (sl_Labels req) None env s)"
    using SetLabels_state [of p req env s] assms(2) by auto
  have "features_of ?n (ct_db s) (ct_db s)" by (simp add: features_of_def)
  from setLabels_own [OF assms(1) this, of "sl_Labels req" None env] s' assms(2)
  show ?thesis unfolding features_of_def by metis
qed

end
