(* ===== verification/Cce_Properties.thy ===== *)
theory Cce_Properties
  imports Cce_Facts
begin

text \<open>The properties of the controller, with runs of it.\<close>

section \<open>A running controller\<close>

definition ex_env :: cce_env where
  "ex_env =
     \<lparr>ce_lib = \<lparr>uuidOk = (\<lambda>s. s \<noteq> []), parseRequestURI = (\<lambda>s. s \<noteq> [])\<rparr>, ce_mode = OrchestrationModeNative,
      ce_ELAPort = [], ce_EVAPort = [], ce_fail = (\<lambda>_. None),
      ce_refused = ''refused'', ce_jsonErr = ''json'', ce_uuid = (\<lambda>n. replicate (Suc n) (CHR ''u'')),
      ce_notFound = (\<lambda>_. None), ce_ifaces = (\<lambda>_. []), ce_status = (\<lambda>_. 0), ce_k8sErr = None, ce_pullPolicy = [],
      ce_nodes = (\<lambda>_. 1), ce_deployments = (\<lambda>_. []), ce_pods = (\<lambda>_. []), ce_cniConf = None, ce_cniArgs = UnmarshalErr\<rparr>"

text \<open>Tokens that expire at the second 90000: one that is issued at the second 3600.\<close>

definition ex_jose :: jose_lib where
  "ex_jose =
     \<lparr>jo_NewSigner = (\<lambda>_ _. None), jo_NewNumericDate = (\<lambda>t. t div 10 ^ 9), jo_CompactSerialize = (\<lambda>k a x. if x = 90000 then Inr ''tok'' else Inl ''time''),
      jo_ParseSigned = Inr, jo_Public = Some, jo_Claims = (\<lambda>pub tok. Inr 90000),
      jo_Validate = (\<lambda>x now. if now \<le> (x + 60) * 10 ^ 9 then None else Some ''expired'')\<rparr>"

lemma ex_jose_lawful: "jose_lawful ex_jose"
  by (auto simp: jose_lawful_def ex_jose_def DefaultLeeway_def split: if_splits)

definition ex_sv :: cce_server where
  "ex_sv = \<lparr>sv_env = ex_env, sv_jose = ex_jose, sv_TokenService = \<lparr>ji_Key = 7, ji_KeyAlgorithm = ''ES384''\<rparr>,
     sv_AdminCreds = \<lparr>au_Username = ''admin'', au_Password = ''pw''\<rparr>\<rparr>"

definition ex_rq :: "common_route \<Rightarrow> cce_request" where
  "ex_rq r = \<lparr>rq_RequestURI = ''/x'', rq_Authorization = ''Bearer tok'', rq_endpoint = Common r\<rparr>"

text \<open>A node and an application are created; the node then has the address 10.0.0.1.\<close>

definition ex_node :: Node where
  "ex_node = \<lparr>node_ID = [], node_Name = ''n'', node_Location = ''l'', node_Serial = ''xxx''\<rparr>"

definition ex_app :: App where
  "ex_app = \<lparr>ap_ID = [], ap_Type = ''container'', ap_Name = ''a'', ap_Version = ''1'', ap_Vendor = ''v'',
     ap_Description = [], ap_Cores = 2, ap_Memory = 512, ap_Ports = [], ap_Source = ''https://x/a'', ap_EPAFeatures = []\<rparr>"

definition ex_s1 :: cce_state where
  "ex_s1 = fst (cceServe ex_sv (3700 * 10 ^ 9) (ex_rq (POST_nodes (Decoded ex_node))) cce_init)"

definition ex_s2 :: cce_state where
  "ex_s2 = fst (cceServe ex_sv (3700 * 10 ^ 9) (ex_rq (POST_apps (Decoded ex_app))) ex_s1)"

lemma ex_s2_reach: "cce_reach ex_s2"
  unfolding ex_s2_def ex_s1_def by (rule cce_reach.step [OF cce_reach.step [OF cce_reach.init cce_step.http] cce_step.http])

section \<open>An authority\<close>

text \<open>
  A certificate is the letters x, as many as the number of its public key, and a name after a full stop,
  or a colon for the authority itself. A request is the letters r, as many as the number of its key.
\<close>

definition ca_cert :: "string \<Rightarrow> string + certificate" where
  "ca_cert raw =
     (let spki = takeWhile (\<lambda>c. c = CHR ''x'') raw;
          mk = (\<lambda>subj auth. Inr \<lparr>x_Raw = raw, x_RawSubjectPublicKeyInfo = spki, x_Subject = subj, x_NotBefore = 0,
                  x_NotAfter = 9, x_IsCA = auth, x_KeyUsage = (if auth then KeyUsageCertSign else 0)\<rparr>)
      in case dropWhile (\<lambda>c. c = CHR ''x'') raw of
           [] \<Rightarrow> Inl ''malformed''
         | c # cn \<Rightarrow>
             if c = CHR ''.'' then mk \<lparr>pn_CommonName = cn, pn_Organization = []\<rparr> False
             else if c = CHR '':'' then mk \<lparr>pn_CommonName = [], pn_Organization = [''Controller Authority'']\<rparr> True
             else Inl ''malformed'')"

definition ca_create :: "cert_template \<Rightarrow> certificate option \<Rightarrow> pubkey \<Rightarrow> privkey \<Rightarrow> string + string" where
  "ca_create t parent pub key =
     (let subj = t_Subject t
      in if pn_Organization subj = [] \<and> \<not> t_IsCA t \<and> t_KeyUsage t = 0 then
           Inr (replicate pub (CHR ''x'') @ CHR ''.'' # pn_CommonName subj)
         else if subj = \<lparr>pn_CommonName = [], pn_Organization = [''Controller Authority'']\<rparr> \<and> t_IsCA t
           \<and> t_BasicConstraintsValid t \<and> t_KeyUsage t = KeyUsageCertSign then
           Inr (replicate pub (CHR ''x'') @ '':'')
         else Inl ''unsupported template'')"

definition ca_pki :: pki_env where
  "ca_pki = ex_pki\<lparr>ParseCertificate := ca_cert, ParseCertificates := \<lambda>raw. map_sum id (\<lambda>c. [c]) (ca_cert raw),
     ParseCertificateRequest := \<lambda>der. Inr \<lparr>csr_Subject = \<lparr>pn_CommonName = [], pn_Organization = []\<rparr>, csr_PublicKey = length der\<rparr>,
     MarshalPKIXPublicKey := \<lambda>pub. Inr (replicate pub (CHR ''x'')), CreateCertificate := ca_create,
     CreateCertificateRequest := \<lambda>key. Inr (replicate key (CHR ''r'')),
     CheckSignatureFrom := \<lambda>c p. if may_sign p then None else Some ''invalid signature: parent certificate cannot sign''\<rparr>"

lemma ca_pki_sel:
  "os_err ca_pki op p = None" "pem_Decode ca_pki = pem_Decode ex_pki" "pem_Encode ca_pki = pem_Encode ex_pki"
  "MarshalPKCS8PrivateKey ca_pki = MarshalPKCS8PrivateKey ex_pki" "ParsePKCS8PrivateKey ca_pki = ParsePKCS8PrivateKey ex_pki"
  "ParseCertificate ca_pki = ca_cert" "ParseCertificates ca_pki raw = map_sum id (\<lambda>c. [c]) (ca_cert raw)"
  "CreateCertificate ca_pki = ca_create" "MarshalPKIXPublicKey ca_pki pub = Inr (replicate pub (CHR ''x''))"
  "CheckSignatureFrom ca_pki a b = (if may_sign b then None else Some ''invalid signature: parent certificate cannot sign'')"
  "CreateCertificateRequest ca_pki key = Inr (replicate key (CHR ''r''))"
  "ParseCertificateRequest ca_pki der
     = Inr \<lparr>csr_Subject = \<lparr>pn_CommonName = [], pn_Organization = []\<rparr>, csr_PublicKey = length der\<rparr>"
  "signerPublic ca_pki key = Some key"
  by (simp_all add: ca_pki_def ex_pki_def)

lemma ca_cert_raw: "ca_cert raw = Inr c \<Longrightarrow> x_Raw c = raw"
  by (auto simp: ca_cert_def Let_def split: list.splits if_splits)

lemma ca_cert_again: "ca_cert raw = Inr c \<Longrightarrow> ca_cert (x_Raw c) = Inr c"
  using ca_cert_raw [of raw c] by simp

lemma ca_certs: "map_sum id (\<lambda>c. [c]) (ca_cert raw) = Inr cs \<longleftrightarrow> (\<exists>c. ca_cert raw = Inr c \<and> cs = [c])"
  by (cases "ca_cert raw") auto

lemma ca_pki_lawful: "pki_lawful ca_pki"
  using ex_pki_lawful unfolding pki_lawful_def ca_pki_sel ca_certs by (auto dest: ca_cert_again)

lemma ca_created:
  assumes "ca_create t parent pub key = Inr der" "ca_cert der = Inr c"
  shows "x_RawSubjectPublicKeyInfo c = replicate pub (CHR ''x'') \<and> x_Subject c = t_Subject t
    \<and> x_IsCA c = (t_IsCA t \<and> t_BasicConstraintsValid t) \<and> x_KeyUsage c = t_KeyUsage t"
proof -
  have tw: "takeWhile (\<lambda>c. c = CHR ''x'') (replicate pub (CHR ''x'') @ y # ys) = replicate pub (CHR ''x'')"
    "dropWhile (\<lambda>c. c = CHR ''x'') (replicate pub (CHR ''x'') @ y # ys) = y # ys" if "y \<noteq> CHR ''x''" for y ys
    using that by (induction pub) auto
  show ?thesis
    using assms by (auto simp: ca_create_def ca_cert_def Let_def tw split: if_splits)
qed

lemma ca_pki_x509: "x509_lawful ca_pki"
  unfolding x509_lawful_def ca_pki_sel ca_certs
  by (intro conjI allI impI) (auto dest: ca_created ca_cert_raw)

definition ca_grpc :: grpc_server where
  "ca_grpc = \<lparr>gs_pki = ca_pki, gs_ca = \<lparr>ca_Cert = projr (ca_cert ''xx:''), ca_Key = 2\<rparr>, gs_CheckSignature = (\<lambda>_. None),
     gs_SPKI = (\<lambda>der. replicate (length der) (CHR ''x'')), gs_serial = (\<lambda>s. s)\<rparr>"

lemma ca_grpc_lawful: "csr_lawful ca_grpc"
  by (simp add: csr_lawful_def ca_grpc_def ca_pki_sel)

lemma ca_grpc_match: "ca_match ca_pki (gs_ca ca_grpc)"
  by (simp add: ca_match_def ca_pki_sel ca_grpc_def ca_cert_def numeral_2_eq_2)

definition ex_peer :: "peer option" where
  "ex_peer = Some \<lparr>pe_Addr = ''10.0.0.1:5000'',
     pe_AuthInfo = Some \<lparr>ts_ServerName = ''enroll.controller.openness'', ts_VerifiedChains = []\<rparr>\<rparr>"

text \<open>The node enrols with its key 3, and the application is deployed on it.\<close>

definition ex_csr :: string where
  "ex_csr = EncodeToMemory ca_pki \<lparr>pem_Type = ''CERTIFICATE REQUEST'', pem_Bytes = ''rrr''\<rparr>"

definition ex_enrol :: "(cce_state, grpc_err + pb_Credentials) go" where
  "ex_enrol = intercept ex_peer enrollmentMethod (Server_RequestCredentials ca_grpc ex_peer ex_csr) ex_env ex_s2"

definition ex_s3 :: cce_state where
  "ex_s3 = go_state ex_enrol"

definition ex_s4 :: cce_state where
  "ex_s4 = fst (recoverHandler (swagPOSTNodeApp ''u'' (Decoded ''uu'')) ex_env ex_s3)"

section \<open>Properties\<close>

text \<open>
  (C1) What is posted is what is served. A POST of a node, an application, a policy or a Kubernetes policy,
  when no statement fails and the new identifier is free, is answered 400 when it brings an identifier or
  is not valid, 500 when its validation panics, and else 201 with the new identifier; then exactly one row
  has been added, and a GET of that identifier shows every field of the posted entity under it. With any
  other answer no row has changed.
\<close>

theorem posted_entity_served:
  fixes e :: entity and s :: cce_state
  assumes "calm env" and handlers: "postOf e = Some h" "getOf e i = Some g" and i: "i = ce_uuid env (ct_uuids s)"
    and new: "gm_get (ct_db s) (GetTableName e, i) = None" "length i \<le> 36"
    and serial: "\<forall>n. e = ENode n \<longrightarrow> length (node_Serial n) \<le> 128"
    and run: "recoverHandler h env s = (s', r)"
  shows "rp_status r = (if GetID e \<noteq> [] then 400
      else case Validate (ce_lib env) (SetID i e) of VOk \<Rightarrow> 201 | VErr _ \<Rightarrow> 400 | VPanic \<Rightarrow> 500)
    \<and> (\<forall>k. gm_get (ct_db s') k
         = (if rp_status r = 201 \<and> k = (GetTableName e, i) then Some (SetID i e) else gm_get (ct_db s) k))
    \<and> (rp_status r = 201 \<longrightarrow> rp_body r = BCreated i
         \<and> (\<exists>s'' b. recoverHandler g env s' = (s'', replyJSON 200 b) \<and> shownBy b = Some (SetID i e)))"
proof -
  have g: "getOf (SetID i e) i = Some g" using handlers(2) by (cases e) auto
  from recoverHandler_wp [OF create_wp [OF handlers(1) assms(1) new [unfolded i]] run] serial show ?thesis
    using get_shows [OF g assms(1), of s'] by (simp add: i)
qed

theorem posted_entity_served_witness:
  "\<exists>s'' b. recoverHandler (swagGETAppByID ''uu'') ex_env (fst (recoverHandler (swagPOSTApps (Decoded ex_app)) ex_env ex_s1))
     = (s'', replyJSON 200 b) \<and> shownBy b = Some (EApp (ex_app\<lparr>ap_ID := ''uu''\<rparr>))"
proof -
  have i: "''uu'' = ce_uuid ex_env (ct_uuids ex_s1)" by code_simp
  obtain s' r where r: "recoverHandler (swagPOSTApps (Decoded ex_app)) ex_env ex_s1 = (s', r)" by fastforce
  have "rp_status (snd (recoverHandler (swagPOSTApps (Decoded ex_app)) ex_env ex_s1)) = 201" by code_simp
  with r have "rp_status r = 201" by simp
  moreover have "gm_get (ct_db ex_s1) (T_apps, ''uu'') = None" by code_simp
  moreover have "calm ex_env" by (simp add: calm_def ex_env_def)
  ultimately show ?thesis
    using posted_entity_served [OF _ _ _ i _ _ _ r, where e = "EApp ex_app"] r by simp
qed

text \<open>
  (C4) What is stored reaches the node or Kubernetes unchanged. In every reachable state, a stored application
  is a container or a virtual machine whose message to the node carries every field of it (a port with the
  protocol all has an empty one there); the message of a stored policy is read back as its rules, with
  every filter, port, mask, priority and action; a stored Kubernetes policy gives a network policy with the
  same blocks and ports, rule by rule, for exactly the directions it has rules for. None of it panics.
\<close>

theorem stored_entities_usable:
  assumes "cce_reach s" and "gm_get (ct_db s) k = Some e"
  shows "case e of
      EApp a \<Rightarrow> ap_Type a \<in> {''container'', ''vm''} \<and> readApp (ap_Type a) (toPBApp cni a)
        = a\<lparr>ap_Ports := map (\<lambda>p. if pp_Protocol p = ''all'' then p\<lparr>pp_Protocol := []\<rparr> else p) (ap_Ports a)\<rparr>
    | EPolicy p \<Rightarrow> (\<exists>q. toPBTrafficPolicy i (Some p) = Some q \<and> qp_Id q = i
        \<and> map (\<lambda>r. Some (readRule r)) (qp_TrafficRules q) = tp_Rules p)
    | EPolicyOVN p \<Rightarrow> (\<exists>np. ToK8s p = Some np \<and> sameNetworkPolicy p np)
    | _ \<Rightarrow> True"
proof -
  have "storable e" using validity.reach_keeps [OF assms(1)] assms(2) by (rule rows_valid_get)
  then show ?thesis
    by (cases e) (auto simp only: storable_def entity.case dest: read_app [where cni = cni] intro: read_policy read_ovn)
qed

text \<open>A policy that redirects web traffic from a network.\<close>

definition ex_policy :: TrafficPolicy where
  "ex_policy = \<lparr>tp_ID = [], tp_Name = ''p'', tp_Rules = [Some
     \<lparr>tr_Description = [], tr_Priority = 9,
      tr_Source = Some \<lparr>ts_Description = [], ts_MACs = None, ts_IP = Some \<lparr>if_Address = ''10.1.0.0'', if_Mask = 16,
        if_BeginPort = 80, if_EndPort = 443, if_Protocol = ''all''\<rparr>, ts_GTP = None\<rparr>,
      tr_Destination = None,
      tr_Target = Some \<lparr>tt_Description = [], tt_Action = ''accept'', tt_MAC = None,
        tt_IP = Some \<lparr>im_Address = ''10.0.0.9'', im_Port = 8080\<rparr>\<rparr>\<rparr>]\<rparr>"

definition ex_s2p :: cce_state where
  "ex_s2p = fst (cceServe ex_sv (3700 * 10 ^ 9) ((ex_rq GET_nodes)\<lparr>rq_endpoint := NativeRoute (POST_policies (Decoded ex_policy))\<rparr>) ex_s2)"

theorem stored_entities_usable_witness:
  "\<exists>q r. toPBTrafficPolicy ''app'' (Some (ex_policy\<lparr>tp_ID := ''uuu''\<rparr>)) = Some q \<and> qp_TrafficRules q = [r]
     \<and> map_option (\<lambda>f. (if_BeginPort f, if_EndPort f, if_Protocol f)) (Option.bind (tr_Source (readRule r)) ts_IP)
       = Some (80, 443, ''all'')"
proof -
  have "cce_reach ex_s2p" unfolding ex_s2p_def by (rule cce_reach.step [OF ex_s2_reach cce_step.http])
  moreover have "gm_get (ct_db ex_s2p) (T_traffic_policies, ''uuu'') = Some (EPolicy (ex_policy\<lparr>tp_ID := ''uuu''\<rparr>))"
    by code_simp
  ultimately obtain q where q: "toPBTrafficPolicy ''app'' (Some (ex_policy\<lparr>tp_ID := ''uuu''\<rparr>)) = Some q"
    "map (\<lambda>r. Some (readRule r)) (qp_TrafficRules q) = tp_Rules ex_policy"
    using stored_entities_usable [of ex_s2p "(T_traffic_policies, ''uuu'')" _ None "''app''"] by fastforce
  then obtain r where "qp_TrafficRules q = [r]" "Some (readRule r) = hd (tp_Rules ex_policy)"
    by (cases "qp_TrafficRules q") (auto simp: ex_policy_def)
  with q show ?thesis by (auto simp: ex_policy_def)
qed

text \<open>
  (C5) An application is recorded on a node only after it was deployed there. A POST that answers 200 found
  the node and the application and made exactly these calls, all successful: a connection to a recorded
  address of the node, the deployment of the application over it, and under Kubernetes the look-up of the
  node and the creation of a deployment with the resources and ports of the application, bound to the
  node. Then it inserted one row. With any other answer the database is as before.
\<close>

theorem deployment_recorded:
  assumes "recoverHandler (swagPOSTNodeApp n b) env s = (s', r)"
  shows "if rp_status r = 200 then
      (\<exists>a e. b = Decoded a \<and> gm_get (ct_db s) (T_nodes, n) \<noteq> None \<and> gm_get (ct_db s) (T_apps, a) = Some e
         \<and> sqlInsert (ENodeApp \<lparr>na_ID = ce_uuid env (ct_uuids s), na_NodeID = n, na_AppID = a\<rparr>) (ct_db s) = Some (ct_db s')
         \<and> deployed env n (scanApp e) s (ct_log s'))
    else ct_db s' = ct_db s"
  by (rule recoverHandler_wp [OF _ assms], rule wp_mono [OF POSTNodeApp_wp]) (auto simp: status_def)

text \<open>The controller with Kubernetes.\<close>

definition ex_k8sEnv :: cce_env where
  "ex_k8sEnv = ex_env\<lparr>ce_mode := OrchestrationModeKubernetes\<rparr>"

theorem deployment_recorded_witness:
  "deployed ex_k8sEnv ''u'' (ex_app\<lparr>ap_ID := ''uu''\<rparr>) ex_s3
     (ct_log (fst (recoverHandler (swagPOSTNodeApp ''u'' (Decoded ''uu'')) ex_k8sEnv ex_s3)))
   \<and> map snd (ct_log (fst (recoverHandler (swagPOSTNodeApp ''u'' (Decoded ''uu'')) ex_k8sEnv ex_s3))) = replicate 5 True"
proof -
  let ?run = "recoverHandler (swagPOSTNodeApp ''u'' (Decoded ''uu'')) ex_k8sEnv ex_s3"
  obtain s' r where r: "?run = (s', r)" by fastforce
  have "rp_status (snd ?run) = 200" by code_simp
  with r have "rp_status r = 200" by simp
  moreover have "gm_get (ct_db ex_s3) (T_apps, ''uu'') = Some (EApp (ex_app\<lparr>ap_ID := ''uu''\<rparr>))" by code_simp
  moreover have "map snd (ct_log (fst ?run)) = replicate 5 True" by code_simp
  ultimately show ?thesis using deployment_recorded [OF r] r by (auto simp: scanApp_def)
qed

text \<open>
  (C6) The guard of the REST interface, with times in nanoseconds: a login changes nothing and gives a token
  only for the name and the password of the administrator. With that token in its header a request is
  served like one that needs no token up to a minute after its expiry, which is 24 hours after the login in
  whole seconds: the minute is the leeway of the library for clocks that differ. After that the request
  changes nothing and is answered 401, or 404 where there is no such route.
\<close>

theorem token_guards:
  assumes j: "jose_lawful (sv_jose sv)" and k: "jo_Public (sv_jose sv) (ji_Key (sv_TokenService sv)) \<noteq> None"
    and t0: "0 < t0"
    and login: "cceServe sv t0 \<lparr>rq_RequestURI = ''/auth'', rq_Authorization = [], rq_endpoint = Common (POST_auth (Decoded u))\<rparr> s
      = (s', r)"
  shows "ct_db s' = ct_db s \<and> ct_log s' = ct_log s \<and> (\<forall>t. rp_body r = BToken t \<longrightarrow>
      u = sv_AdminCreds sv \<and>
      (\<forall>now rq s1. 0 < now \<longrightarrow> rq_RequestURI rq \<noteq> ''/auth'' \<longrightarrow> rq_Authorization rq = ''Bearer '' @ t \<longrightarrow>
         cceServe sv now rq s1 =
           (if now \<le> (t0 div 10 ^ 9 + 24 * 3600 + 60) * 10 ^ 9 then cceServe sv now (rq\<lparr>rq_RequestURI := ''/auth''\<rparr>) s1
            else (s1, status (if routes sv now (rq_endpoint rq) = None then 404 else 401)))))"
proof -
  have r: "(s', r) = recoverHandler (authenticate sv t0 (Decoded u)) (sv_env sv) s"
    using login by (simp add: cceServe_def routes_def commonHandlers_def bodyErr_def commonErr_def unread_def)
  note defs = authenticate_def payload_def ctl_defs recoverHandler_def badLogin_def replyText_def status_def
  have s: "s' = s" using r by (auto simp: defs split: if_splits sum.splits)
  have "u = sv_AdminCreds sv \<and> Issue (sv_jose sv) (sv_TokenService sv) t0 = Inr t" if "rp_body r = BToken t" for t
    using r that by (auto simp: defs split: if_splits sum.splits intro!: AuthCreds.equality)
  then show ?thesis
    using issued_admits [OF j _ k t0] by (auto simp: s cceServe_def validUntil_seconds split: option.split)
qed

theorem token_guards_witness:
  "cceServe ex_sv (90060 * 10 ^ 9) (ex_rq GET_nodes) ex_s2
     = cceServe ex_sv (90060 * 10 ^ 9) ((ex_rq GET_nodes)\<lparr>rq_RequestURI := ''/auth''\<rparr>) ex_s2
   \<and> cceServe ex_sv (90060 * 10 ^ 9 + 1) (ex_rq GET_nodes) ex_s2 = (ex_s2, status 401)"
proof -
  let ?login = "\<lparr>rq_RequestURI = ''/auth'', rq_Authorization = [], rq_endpoint = Common (POST_auth (Decoded (sv_AdminCreds ex_sv)))\<rparr>"
  obtain s' r where r: "cceServe ex_sv (3600 * 10 ^ 9) ?login ex_s2 = (s', r)" by fastforce
  have "rp_body (snd (cceServe ex_sv (3600 * 10 ^ 9) ?login ex_s2)) = BToken ''tok''" by code_simp
  with r have t: "rp_body r = BToken ''tok''" by simp
  have j: "jose_lawful (sv_jose ex_sv)" "jo_Public (sv_jose ex_sv) (ji_Key (sv_TokenService ex_sv)) \<noteq> None"
    by (simp_all add: ex_sv_def ex_jose_lawful) (simp add: ex_jose_def)
  have rq: "rq_RequestURI (ex_rq GET_nodes) \<noteq> ''/auth''" "rq_Authorization (ex_rq GET_nodes) = ''Bearer '' @ ''tok''"
    "routes ex_sv n (rq_endpoint (ex_rq GET_nodes)) \<noteq> None" for n
    by (simp_all add: ex_rq_def routes_def)
  have g: "cceServe ex_sv now (ex_rq GET_nodes) ex_s2 =
      (if now \<le> 90060 * 10 ^ 9 then cceServe ex_sv now ((ex_rq GET_nodes)\<lparr>rq_RequestURI := ''/auth''\<rparr>) ex_s2
       else (ex_s2, status (if routes ex_sv now (rq_endpoint (ex_rq GET_nodes)) = None then 404 else 401)))"
    if "0 < now" for now
  proof -
    have "((3600 * 10 ^ 9) div 10 ^ 9 + 24 * 3600 + 60) * 10 ^ 9 = (90060 * 10 ^ 9 :: int)" by simp
    with token_guards [OF j _ r] t rq(1,2) that show ?thesis by auto
  qed
  from g [of "90060 * 10 ^ 9"] g [of "90060 * 10 ^ 9 + 1"] rq(3) show ?thesis by simp
qed

text \<open>
  (C7) DELETE of an application without failing calls: it is refused with 422 exactly while an alias or a
  node uses it, answered 404 when it does not exist, and else removed, with no other row changed.
\<close>

theorem delete_app_answers:
  fixes i :: string
  assumes "db_ok (ct_db s)" "calm env" and run: "recoverHandler (swagDELETEAppByID i) env s = (s', r)"
  defines "code \<equiv> if app_in_use i (ct_db s) then 422 else if gm_get (ct_db s) (T_apps, i) = None then 404 else 200"
  shows "rp_status r = code
    \<and> (\<forall>k. gm_get (ct_db s') k = (if code = 200 \<and> k = (T_apps, i) then None else gm_get (ct_db s) k))"
  unfolding code_def by (rule recoverHandler_wp [OF delete_app_wp [OF assms(1,2)] run])

theorem delete_app_answers_witness:
  "app_in_use ''uu'' (ct_db ex_s4) \<and> rp_status (snd (recoverHandler (swagDELETEAppByID ''uu'') ex_env ex_s4)) = 422"
proof -
  obtain s' r where r: "recoverHandler (swagDELETEAppByID ''uu'') ex_env ex_s4 = (s', r)" by fastforce
  have "db_ok (ct_db ex_s3)"
    unfolding ex_s3_def ex_enrol_def
    by (rule keepsD [OF keeps_intercept [OF integrity.keeps_enrolment(2)] integrity.reach_keeps [OF ex_s2_reach]])
  then have ok: "db_ok (ct_db ex_s4)"
    unfolding ex_s4_def recoverHandler_state by (rule keepsD [OF integrity.keeps_nodeApps(2)])
  have "calm ex_env" by (simp add: calm_def ex_env_def)
  moreover have "app_in_use ''uu'' (ct_db ex_s4)" by code_simp
  ultimately show ?thesis using delete_app_answers [OF ok _ r] r by simp
qed

text \<open>
  (C9) The labels of a node are its own: a call that sets labels changes a row only if it is, and was
  before, a feature of the node whose name is in the certificate of the caller.
\<close>

theorem labels_own:
  assumes "cce_reach s" and "gm_get (ct_db (go_state (SetLabels p req env s))) k \<noteq> gm_get (ct_db s) k"
  shows "\<exists>n. peerCN p = Some n \<and> (\<exists>f. gm_get (ct_db (go_state (SetLabels p req env s))) k = Some (ENfd f) \<and> nf_NodeID f = n)
    \<and> (\<forall>e. gm_get (ct_db s) k = Some e \<longrightarrow> (\<exists>f. e = ENfd f \<and> nf_NodeID f = n))"
  using SetLabels_features [OF integrity.reach_keeps [OF assms(1)] assms(2)]
  by (auto simp: own_feature_def pred_option_def)

definition ex_nodePeer :: "peer option" where
  "ex_nodePeer = Some \<lparr>pe_Addr = ''10.0.0.1:5001'', pe_AuthInfo =
     Some \<lparr>ts_ServerName = ''controller.openness'', ts_VerifiedChains = [[projr (ca_cert ''xxx.u'')]]\<rparr>\<rparr>"

theorem labels_own_witness:
  "\<exists>f. gm_get (ct_db (go_state (SetLabels ex_nodePeer \<lparr>sl_NodeName = ''u'', sl_Labels = [(''cpu'', ''true'')]\<rparr> ex_env ex_s2)))
       (T_nodes_nfd_features, ''uuu'') = Some (ENfd f) \<and> nf_NodeID f = ''u''"
proof -
  let ?s = "go_state (SetLabels ex_nodePeer \<lparr>sl_NodeName = ''u'', sl_Labels = [(''cpu'', ''true'')]\<rparr> ex_env ex_s2)"
  have "gm_get (ct_db ?s) (T_nodes_nfd_features, ''uuu'') \<noteq> gm_get (ct_db ex_s2) (T_nodes_nfd_features, ''uuu'')"
    by code_simp
  moreover have "peerCN ex_nodePeer = Some ''u''" by code_simp
  ultimately show ?thesis using labels_own [OF ex_s2_reach, of ex_nodePeer _ ex_env "(T_nodes_nfd_features, ''uuu'')"] by force
qed

text \<open>
  (C8) The authority of the controller is always found or made: its initialization ends, whatever the files
  hold; what it returns is a certificate for its key, and it is returned again at the next start, with
  no file changed. (The authority of the node's agent gives up in the same situation.)
\<close>

theorem ca_initialized:
  assumes "x509_lawful e" "pki_lawful e"
  shows "\<exists>r. caInitRootCA e d fs = Some r \<and>
    (\<forall>fs' ca. r = Ret fs' (Inr ca) \<longrightarrow> ca_match e ca \<and> caInitRootCA (quiet e) d fs' = Some (Ret fs' (Inr ca)))"
  using caInit_returns [OF assms(1), of d fs] caInit_match caInit_kept [OF assms(2)] by blast

text \<open>The key of the authority is 4, and the certificate on disk is for key 1.\<close>

definition ex_mismatch :: filesystem where
  "ex_mismatch = fst (StoreCertificate ca_pki (caCertFile ''d'') [projr (ca_cert ''x:'')]
     (fst (StoreKey ca_pki 4 (caKeyFile ''d'') \<lparr>fs_files = [], fs_dirs = []\<rparr>)))"

theorem ca_initialized_witness:
  "\<exists>fs' ca. caInitRootCA ca_pki ''d'' ex_mismatch = Some (Ret fs' (Inr ca)) \<and> ca_Key ca = 4 \<and> ca_match ca_pki ca
     \<and> x_Raw (ca_Cert ca) = ''xxxx:''"
proof -
  have "case caInitRootCA ca_pki ''d'' ex_mismatch of
      Some (Ret _ (Inr ca)) \<Rightarrow> ca_Key ca = 4 \<and> x_Raw (ca_Cert ca) = ''xxxx:'' | _ \<Rightarrow> False" by code_simp
  with ca_initialized [OF ca_pki_x509 ca_pki_lawful, of "''d''" ex_mismatch] show ?thesis
    by (auto split: option.splits go.splits sum.splits)
qed

text \<open>
  A network interface that passes validation keeps all its fields on the way to a node and back.
\<close>

theorem interface_kept:
  assumes "validateInterface i ni = VOk"
  shows "fromPBNetworkInterface (toPBNetworkInterface ni) = ni"
  using assms by (rule interface_round_trip)

theorem interface_kept_witness:
  "fromPBNetworkInterface (toPBNetworkInterface \<lparr>ni_ID = ''eth0'', ni_Description = [], ni_Driver = ''kernel'',
     ni_Type = ''upstream'', ni_MACAddress = [], ni_VLAN = 7, ni_Zones = [], ni_FallbackInterface = []\<rparr>)
   = \<lparr>ni_ID = ''eth0'', ni_Description = [], ni_Driver = ''kernel'',
     ni_Type = ''upstream'', ni_MACAddress = [], ni_VLAN = 7, ni_Zones = [], ni_FallbackInterface = []\<rparr>"
  by (rule interface_kept [of 0]) code_simp

end
