(* ===== verification/Ela_Rules.thy ===== *)
theory Ela_Rules
  imports Cce_Clients
begin

text \<open>
  Traffic rules on a node: what the lifecycle agent accepts (\<open>ela/helpers\<close>) and the text in which rules
  are given to the dataplane (\<open>ela/ini/routing_rules.go\<close>), with the parser of that text. The messages are
  those of \<open>Cce_Messages\<close>; the elements of a decoded list are not nil, a message field may be.
\<close>

section \<open>Verification\<close>

definition ipTo4 :: "ipaddr option \<Rightarrow> int list option" where
  "ipTo4 ip = (case ip of None \<Rightarrow> None | Some b \<Rightarrow> if take 12 b = v4prefix then Some (drop 12 b) else None)"

definition VerifyAddressMask :: "string \<Rightarrow> 32 word \<Rightarrow> goerr" where
  "VerifyAddressMask addr msk =
     (if msk = 0 then
        if addr \<noteq> [] \<and> addr \<noteq> ''0.0.0.0'' then
          Some ''Invalid IP/Mask: For Mask=0 only empty or 0.0.0.0 addresses are valid''
        else None
      else if addr = [] then Some ''Invalid IP/Mask: For empty IP only Mask=0 is valid''
      else if ipTo4 (netParseIP addr) = None then Some ''Invalid IP/Mask: Given IP is not a valid IPv4 address''
      else if msk > 32 then Some ''Invalid IP/Mask: Mask should be between 0 and 32''
      else None)"

text \<open>\<open>if err != nil { return errors.New(prefix + err.Error()) }\<close>, and else what follows.\<close>

definition prefixErr :: "string \<Rightarrow> goerr \<Rightarrow> goerr \<Rightarrow> goerr" where
  "prefixErr prefix e k = (case e of Some m \<Rightarrow> Some (prefix @ m) | None \<Rightarrow> k)"

definition VerifyIPFilter :: "PBIPFilter \<Rightarrow> goerr" where
  "VerifyIPFilter ip =
     prefixErr ''IPFilter: '' (VerifyAddressMask (qi_Address ip) (qi_Mask ip))
       (if qi_BeginPort ip > qi_EndPort ip then Some ''IPFilter: BeginPort greater than EndPort''
        else if qi_Protocol ip \<noteq> [] then Some ''IPFilter: Protocol field is not supported''
        else None)"

definition VerifyGTPFilter :: "PBGTPFilter \<Rightarrow> goerr" where
  "VerifyGTPFilter gtp =
     prefixErr ''GTPFilter: '' (VerifyAddressMask (qg_Address gtp) (qg_Mask gtp))
       (if length (qg_Imsis gtp) > 0 then Some ''GTPFilter: Imsis is not supported'' else None)"

text \<open>A check of a pointer that may be nil, with what follows.\<close>

definition ifSet :: "'a option \<Rightarrow> string \<Rightarrow> ('a \<Rightarrow> goerr) \<Rightarrow> goerr \<Rightarrow> goerr" where
  "ifSet p prefix f k = (case p of None \<Rightarrow> k | Some x \<Rightarrow> prefixErr prefix (f x) k)"

definition VerifyTrafficSelector :: "PBTrafficSelector \<Rightarrow> goerr" where
  "VerifyTrafficSelector ts =
     (if qs_Macs ts \<noteq> None then Some ''TrafficSelector.Mac is set but not supported''
      else if qs_Ip ts = None \<and> qs_Gtp ts = None then Some ''TrafficSelector: Neither Ip nor Gtp is set''
      else ifSet (qs_Ip ts) ''TrafficSelector.Ip: '' VerifyIPFilter
          (ifSet (qs_Gtp ts) ''TrafficSelector.Gtp: '' VerifyGTPFilter None))"

definition VerifyMACAddress :: "string \<Rightarrow> goerr" where
  "VerifyMACAddress mac =
     (case netParseMAC mac of
        None \<Rightarrow> Some (macError mac)
      | Some hwAddr \<Rightarrow>
          if length hwAddr \<noteq> 6 then Some ''MAC Address: Wrong length - only 6 bytes are supported''
          else if stringsContains mac ''.'' \<or> stringsContains mac ''-'' then
            Some ''MAC Address: Wrong delimiter, only : is supported''
          else None)"

fun TargetAction_String :: "TargetAction \<Rightarrow> string" where
  "TargetAction_String ACCEPT = ''ACCEPT''"
| "TargetAction_String REJECT = ''REJECT''"
| "TargetAction_String DROP = ''DROP''"

definition VerifyTrafficTarget :: "PBTrafficTarget option \<Rightarrow> goerr" where
  "VerifyTrafficTarget tt =
     (case tt of
        None \<Rightarrow> Some ''TrafficTarget is nil''
      | Some t \<Rightarrow>
          if qt_Action t \<noteq> ACCEPT then
            Some (''TrafficTarget.Action: Action not supported: '' @ TargetAction_String (qt_Action t))
          else if qt_Ip t \<noteq> None then Some ''TrafficTarget.Ip: modifier is not supported''
          else None)"

definition VerifyTrafficRule :: "PBTrafficRule \<Rightarrow> goerr" where
  "VerifyTrafficRule tr =
     (if qr_Source tr = None \<and> qr_Destination tr = None then
        Some ''TrafficRule: Both source and destination selectors are nil''
      else ifSet (qr_Source tr) ''TrafficRule.Source: '' VerifyTrafficSelector
          (ifSet (qr_Destination tr) ''TrafficRule.Destination: '' VerifyTrafficSelector
            (prefixErr ''TrafficRule.Target: '' (VerifyTrafficTarget (qr_Target tr)) None)))"

fun verifyRules :: "nat \<Rightarrow> PBTrafficRule list \<Rightarrow> goerr" where
  "verifyRules i [] = None"
| "verifyRules i (tr # trs) =
     (case VerifyTrafficRule tr of
        Some e \<Rightarrow> Some (idx ''TrafficPolicy.TrafficRule'' i @ '' is invalid: '' @ e)
      | None \<Rightarrow> verifyRules (Suc i) trs)"

definition VerifyTrafficPolicy :: "PBTrafficPolicy option \<Rightarrow> goerr" where
  "VerifyTrafficPolicy tp =
     (case tp of
        None \<Rightarrow> Some ''TrafficPolicy is nil''
      | Some p \<Rightarrow> if qp_Id p = [] then Some ''TrafficPolicy.Id is empty'' else verifyRules 0 (qp_TrafficRules p))"

definition ValidateNetworkInterface :: "PBNetworkInterface option \<Rightarrow> goerr" where
  "ValidateNetworkInterface p =
     (case p of None \<Rightarrow> Some ''NetworkInterface is nil'' | Some iface \<Rightarrow>
      if pi_Id iface = [] then Some ''Id is nil''
      else if pi_Driver iface = 0 then None
      else if pi_Type iface = 0 then Some ''type 'NONE' is not supported''
      else case (if pi_MacAddress iface \<noteq> [] then VerifyMACAddress (pi_MacAddress iface) else None) of
        Some e \<Rightarrow> Some e
      | None \<Rightarrow>
          if pi_Vlan iface \<noteq> 0 then Some ''Vlan is not supported''
          else if length (pi_Zones iface) \<noteq> 0 then Some ''Zones are not supported''
          else if pi_FallbackInterface iface = [] then Some ''FallbackInterface is empty''
          else None)"

fun validateInterfaces :: "nat \<Rightarrow> PBNetworkInterface list \<Rightarrow> goerr" where
  "validateInterfaces i [] = None"
| "validateInterfaces i (n # ns) =
     (case ValidateNetworkInterface (Some n) of
        Some e \<Rightarrow> Some (idx ''NetworkInterface'' i @ '' is invalid: '' @ e)
      | None \<Rightarrow> validateInterfaces (Suc i) ns)"

definition ValidateNetworkInterfaces :: "PBNetworkInterface list option \<Rightarrow> goerr" where
  "ValidateNetworkInterfaces interfaces =
     (case interfaces of None \<Rightarrow> Some ''NetworkInterfaces is nil'' | Some ns \<Rightarrow> validateInterfaces 0 ns)"

section \<open>The text of a rule\<close>

definition FormatUint :: "32 word \<Rightarrow> string" where
  "FormatUint w = dec_digits (unat w)"

definition gtpFilterToString :: "PBGTPFilter option \<Rightarrow> bool \<Rightarrow> string + string" where
  "gtpFilterToString gtp source =
     (case gtp of
        None \<Rightarrow> Inl ''gtp is nil''
      | Some g \<Rightarrow>
          Inr ((if source then ''enb'' else ''epc'') @ ''_ip:'' @ qg_Address g @ ''/'' @ FormatUint (qg_Mask g)))"

definition ipFilterToString :: "PBIPFilter option \<Rightarrow> bool \<Rightarrow> string + string" where
  "ipFilterToString ip source =
     (case ip of
        None \<Rightarrow> Inl ''ip is nil''
      | Some f \<Rightarrow>
          (let prefix = (if source then ''ue'' else ''srv'');
               rule = prefix @ ''_ip:'' @ qi_Address f @ ''/'' @ FormatUint (qi_Mask f)
           in if qi_BeginPort f > qi_EndPort f then
                Inl (''begin port '' @ FormatUint (qi_BeginPort f) @ '' should be >= than end port '' @ FormatUint (qi_EndPort f))
              else if \<not> (qi_BeginPort f = 0 \<and> qi_EndPort f = 0) then
                Inr (rule @ '','' @ prefix @ ''_port:'' @ FormatUint (qi_BeginPort f) @ ''-'' @ FormatUint (qi_EndPort f))
              else Inr rule))"

definition trafficSelectorToString :: "PBTrafficSelector option \<Rightarrow> bool \<Rightarrow> string + string" where
  "trafficSelectorToString ts source =
     (case ts of
        None \<Rightarrow> Inl ''traffic selector is nil''
      | Some t \<Rightarrow>
          tryE (if qs_Gtp t \<noteq> None then wrapE ''failed to convert gtp filter to string'' (gtpFilterToString (qs_Gtp t) source)
                else Inr []) (\<lambda>gtp.
          tryE (if qs_Ip t \<noteq> None then wrapE ''failed to convert ip filter to string'' (ipFilterToString (qs_Ip t) source)
                else Inr []) (\<lambda>ip.
          if gtp \<noteq> [] \<and> ip \<noteq> [] then Inr (gtp @ '','' @ ip) else Inr (gtp @ ip))))"

text \<open>The text of a selector that is set, after a comma.\<close>

definition addSelector :: "string \<Rightarrow> string \<Rightarrow> PBTrafficSelector option \<Rightarrow> bool \<Rightarrow> string + string" where
  "addSelector s msg ts source =
     (if ts \<noteq> None then tryE (wrapE msg (trafficSelectorToString ts source)) (\<lambda>t. Inr (s @ '','' @ t)) else Inr s)"

definition TrafficRuleProtoToString :: "PBTrafficRule option \<Rightarrow> string + string" where
  "TrafficRuleProtoToString rule =
     (case rule of
        None \<Rightarrow> Inl ''traffic rule is nil''
      | Some r \<Rightarrow>
          tryE (addSelector (''prio:'' @ FormatUint (qr_Priority r))
                  ''failed to convert Source traffic selector to string'' (qr_Source r) True) (\<lambda>s1.
          tryE (addSelector s1 ''failed to convert Destination traffic selector to string'' (qr_Destination r) False) (\<lambda>s2.
          Inr (if \<not> stringsContains s2 ''epc'' \<and> \<not> stringsContains s2 ''enb'' then s2 @ '',encap_proto:noencap'' else s2))))"

section \<open>The parser\<close>

text \<open>\<open>strconv.ParseUint(s, 10, 32)\<close>.\<close>

definition ParseUint32 :: "string \<Rightarrow> 32 word option" where
  "ParseUint32 s =
     (if s = [] then None
      else case parse_dec s 0 of None \<Rightarrow> None | Some n \<Rightarrow> if n < 2 ^ 32 then Some (of_nat n) else None)"

definition uintE :: "string \<Rightarrow> string + 32 word" where
  "uintE s = (case ParseUint32 s of None \<Rightarrow> Inl (''failed to parse '' @ quoted s @ '' to uint'') | Some w \<Rightarrow> Inr w)"

definition setPriority :: "PBTrafficRule \<Rightarrow> string \<Rightarrow> string + PBTrafficRule" where
  "setPriority tr val = tryE (uintE val) (\<lambda>p. Inr (tr\<lparr>qr_Priority := p\<rparr>))"

definition tooMany :: "string \<Rightarrow> string \<Rightarrow> string" where
  "tooMany s d = ''string '' @ quoted s @ '' contains too many fields delimited by '' @ d @ '', expected 2''"

definition setIPAddrMask :: "string \<Rightarrow> PBIPFilter \<Rightarrow> string + PBIPFilter" where
  "setIPAddrMask s ip =
     (let addrMask = stringsSplit (CHR ''/'') s; ip1 = ip\<lparr>qi_Address := addrMask ! 0\<rparr>
      in if length addrMask = 2 then tryE (uintE (addrMask ! 1)) (\<lambda>m. Inr (ip1\<lparr>qi_Mask := m\<rparr>))
         else if length addrMask > 2 then Inl (tooMany s ''/'')
         else Inr ip1)"

definition parseGTPFilter :: "string \<Rightarrow> string + PBGTPFilter" where
  "parseGTPFilter s =
     (let addrMask = stringsSplit (CHR ''/'') s; f = \<lparr>qg_Address = addrMask ! 0, qg_Mask = 0, qg_Imsis = []\<rparr>
      in if length addrMask = 2 then tryE (uintE (addrMask ! 1)) (\<lambda>m. Inr (f\<lparr>qg_Mask := m\<rparr>))
         else if length addrMask > 2 then Inl (tooMany s ''/'')
         else Inr f)"

definition setIPPorts :: "string \<Rightarrow> PBIPFilter \<Rightarrow> string + PBIPFilter" where
  "setIPPorts s ip =
     (let ports = stringsSplit (CHR ''-'') s
      in tryE (uintE (ports ! 0)) (\<lambda>b.
         if length ports = 2 then tryE (uintE (ports ! 1)) (\<lambda>e. Inr (ip\<lparr>qi_BeginPort := b, qi_EndPort := e\<rparr>))
         else if length ports > 2 then Inl (tooMany s ''-'')
         else Inr (ip\<lparr>qi_BeginPort := b\<rparr>)))"

definition noSelector :: PBTrafficSelector where
  "noSelector = \<lparr>qs_Description = [], qs_Macs = None, qs_Ip = None, qs_Gtp = None\<rparr>"

definition noIPFilter :: PBIPFilter where
  "noIPFilter = \<lparr>qi_Address = [], qi_Mask = 0, qi_BeginPort = 0, qi_EndPort = 0, qi_Protocol = []\<rparr>"

definition createSourceSelectorIfNil :: "PBTrafficRule \<Rightarrow> PBTrafficRule" where
  "createSourceSelectorIfNil tr = (if qr_Source tr = None then tr\<lparr>qr_Source := Some noSelector\<rparr> else tr)"

definition createDestinationSelectorIfNil :: "PBTrafficRule \<Rightarrow> PBTrafficRule" where
  "createDestinationSelectorIfNil tr = (if qr_Destination tr = None then tr\<lparr>qr_Destination := Some noSelector\<rparr> else tr)"

definition createIPFilterIfNil :: "PBTrafficSelector \<Rightarrow> PBTrafficSelector" where
  "createIPFilterIfNil ts = (if qs_Ip ts = None then ts\<lparr>qs_Ip := Some noIPFilter\<rparr> else ts)"

definition createSourceSelectorAndIPFilterIfNil :: "PBTrafficRule \<Rightarrow> PBTrafficRule" where
  "createSourceSelectorAndIPFilterIfNil tr =
     (let t = createSourceSelectorIfNil tr in t\<lparr>qr_Source := map_option createIPFilterIfNil (qr_Source t)\<rparr>)"

definition createDestinationSelectorAndIPFilterIfNil :: "PBTrafficRule \<Rightarrow> PBTrafficRule" where
  "createDestinationSelectorAndIPFilterIfNil tr =
     (let t = createDestinationSelectorIfNil tr in t\<lparr>qr_Destination := map_option createIPFilterIfNil (qr_Destination t)\<rparr>)"

text \<open>The update of the IP filter of a selector; the selector and the filter exist when it is called.\<close>

definition onIPFilter ::
  "(PBIPFilter \<Rightarrow> string + PBIPFilter) \<Rightarrow> PBTrafficSelector option \<Rightarrow> string + PBTrafficSelector option" where
  "onIPFilter f ts =
     (case ts of
        None \<Rightarrow> Inr None
      | Some t \<Rightarrow> (case qs_Ip t of None \<Rightarrow> Inr (Some t) | Some ip \<Rightarrow> tryE (f ip) (\<lambda>ip'. Inr (Some (t\<lparr>qs_Ip := Some ip'\<rparr>)))))"

definition emptyErr :: "string \<Rightarrow> string + 'a \<Rightarrow> string + 'a" where
  "emptyErr val k = (if val = [] then Inl ''given string is empty'' else k)"

definition onSourceIP :: "(PBIPFilter \<Rightarrow> string + PBIPFilter) \<Rightarrow> PBTrafficRule \<Rightarrow> string + PBTrafficRule" where
  "onSourceIP f tr =
     (let t = createSourceSelectorAndIPFilterIfNil tr
      in tryE (onIPFilter f (qr_Source t)) (\<lambda>s. Inr (t\<lparr>qr_Source := s\<rparr>)))"

definition onDestinationIP :: "(PBIPFilter \<Rightarrow> string + PBIPFilter) \<Rightarrow> PBTrafficRule \<Rightarrow> string + PBTrafficRule" where
  "onDestinationIP f tr =
     (let t = createDestinationSelectorAndIPFilterIfNil tr
      in tryE (onIPFilter f (qr_Destination t)) (\<lambda>s. Inr (t\<lparr>qr_Destination := s\<rparr>)))"

definition setUEIP :: "PBTrafficRule \<Rightarrow> string \<Rightarrow> string + PBTrafficRule" where
  "setUEIP tr val = emptyErr val (onSourceIP (setIPAddrMask val) tr)"

definition setUEPort :: "PBTrafficRule \<Rightarrow> string \<Rightarrow> string + PBTrafficRule" where
  "setUEPort tr val = emptyErr val (onSourceIP (setIPPorts val) tr)"

definition setSrvIP :: "PBTrafficRule \<Rightarrow> string \<Rightarrow> string + PBTrafficRule" where
  "setSrvIP tr val = emptyErr val (onDestinationIP (setIPAddrMask val) tr)"

definition setSrvPort :: "PBTrafficRule \<Rightarrow> string \<Rightarrow> string + PBTrafficRule" where
  "setSrvPort tr val = emptyErr val (onDestinationIP (setIPPorts val) tr)"

definition setEnbIP :: "PBTrafficRule \<Rightarrow> string \<Rightarrow> string + PBTrafficRule" where
  "setEnbIP tr val = emptyErr val
     (let t = createSourceSelectorIfNil tr
      in tryE (wrapE ''failed to parse gtp filter'' (parseGTPFilter val)) (\<lambda>gtp.
         Inr (t\<lparr>qr_Source := map_option (\<lambda>s. s\<lparr>qs_Gtp := Some gtp\<rparr>) (qr_Source t)\<rparr>)))"

definition setEpcIP :: "PBTrafficRule \<Rightarrow> string \<Rightarrow> string + PBTrafficRule" where
  "setEpcIP tr val = emptyErr val
     (let t = createDestinationSelectorIfNil tr
      in tryE (wrapE ''failed to parse gtp filter'' (parseGTPFilter val)) (\<lambda>gtp.
         Inr (t\<lparr>qr_Destination := map_option (\<lambda>s. s\<lparr>qs_Gtp := Some gtp\<rparr>) (qr_Destination t)\<rparr>)))"

definition encapNoop :: "PBTrafficRule \<Rightarrow> string \<Rightarrow> string + PBTrafficRule" where
  "encapNoop tr val = Inr tr"

definition parsers :: "(string, PBTrafficRule \<Rightarrow> string \<Rightarrow> string + PBTrafficRule) gomap" where
  "parsers = [(''prio'', setPriority), (''ue_ip'', setUEIP), (''srv_ip'', setSrvIP), (''enb_ip'', setEnbIP),
     (''epc_ip'', setEpcIP), (''ue_port'', setUEPort), (''srv_port'', setSrvPort), (''encap_proto'', encapNoop)]"

fun parseFields :: "PBTrafficRule \<Rightarrow> string list \<Rightarrow> string + PBTrafficRule" where
  "parseFields tr [] = Inr tr"
| "parseFields tr (fld # fs) =
     (let parts = stringsSplit (CHR '':'') fld
      in if length parts \<noteq> 2 then parseFields tr fs
         else
           (case gm_get parsers (parts ! 0) of
              None \<Rightarrow> Inl (''parser not found for '' @ quoted (parts ! 0))
            | Some f \<Rightarrow>
                tryE (wrapE (''failed to parse '' @ parts ! 0 @ [CHR 0x27] @ ''s value:'' @ quoted (parts ! 1)) (f tr (parts ! 1)))
                  (\<lambda>tr'. parseFields tr' fs)))"

definition noRule :: PBTrafficRule where
  "noRule = \<lparr>qr_Description = [], qr_Priority = 0, qr_Source = None, qr_Destination = None, qr_Target = None\<rparr>"

definition TrafficRuleStringToProto :: "string \<Rightarrow> string + PBTrafficRule" where
  "TrafficRuleStringToProto s = parseFields noRule (stringsSplit (CHR '','') s)"

section \<open>The round trip\<close>

lemma ParseUint_Format [simp]: "uintE (FormatUint w) = Inr w"
  using unsigned_less [of w] by (simp add: uintE_def ParseUint32_def FormatUint_def parse_dec_digits)

lemma FormatUint_chars [simp]: "\<not> is_dec c \<Longrightarrow> c \<notin> set (FormatUint w)"
  by (auto simp: FormatUint_def dest: dec_digits_all_dec)

lemma FormatUint_nonempty [simp]: "FormatUint w \<noteq> []"
  by (simp add: FormatUint_def)

lemma separators_not_dec [simp]:
  "\<not> is_dec (CHR '','')" "\<not> is_dec (CHR '':'')" "\<not> is_dec (CHR ''/'')" "\<not> is_dec (CHR ''-'')"
  by (simp_all add: is_dec_def)

text \<open>Addresses without the characters that separate the fields of a rule.\<close>

definition plainAddr :: "string \<Rightarrow> bool" where
  "plainAddr a \<longleftrightarrow> CHR '','' \<notin> set a \<and> CHR '':'' \<notin> set a \<and> CHR ''/'' \<notin> set a"

definition plainSelector :: "PBTrafficSelector \<Rightarrow> bool" where
  "plainSelector ts \<longleftrightarrow> pred_option (\<lambda>f. plainAddr (qi_Address f)) (qs_Ip ts) \<and> pred_option (\<lambda>g. plainAddr (qg_Address g)) (qs_Gtp ts)"

definition plainRule :: "PBTrafficRule \<Rightarrow> bool" where
  "plainRule r \<longleftrightarrow> pred_option plainSelector (qr_Source r) \<and> pred_option plainSelector (qr_Destination r)"

text \<open>What the text keeps of a rule: the priority and the filters.\<close>

definition routedSelector :: "PBTrafficSelector \<Rightarrow> PBTrafficSelector option" where
  "routedSelector ts =
     (if qs_Ip ts = None \<and> qs_Gtp ts = None then None
      else Some \<lparr>qs_Description = [], qs_Macs = None, qs_Ip = map_option (qi_Protocol_update (\<lambda>_. [])) (qs_Ip ts),
                 qs_Gtp = map_option (qg_Imsis_update (\<lambda>_. [])) (qs_Gtp ts)\<rparr>)"

definition routed :: "PBTrafficRule \<Rightarrow> PBTrafficRule" where
  "routed r = \<lparr>qr_Description = [], qr_Priority = qr_Priority r, qr_Source = Option.bind (qr_Source r) routedSelector,
     qr_Destination = Option.bind (qr_Destination r) routedSelector, qr_Target = None\<rparr>"

text \<open>The fields of the text.\<close>

definition gtpField :: "bool \<Rightarrow> PBGTPFilter \<Rightarrow> string" where
  "gtpField source g = (if source then ''enb'' else ''epc'') @ ''_ip:'' @ qg_Address g @ ''/'' @ FormatUint (qg_Mask g)"

definition ipField :: "bool \<Rightarrow> PBIPFilter \<Rightarrow> string" where
  "ipField source f = (if source then ''ue'' else ''srv'') @ ''_ip:'' @ qi_Address f @ ''/'' @ FormatUint (qi_Mask f)"

definition portField :: "bool \<Rightarrow> PBIPFilter \<Rightarrow> string" where
  "portField source f =
     (if source then ''ue'' else ''srv'') @ ''_port:'' @ FormatUint (qi_BeginPort f) @ ''-'' @ FormatUint (qi_EndPort f)"

definition ipFields :: "bool \<Rightarrow> PBIPFilter \<Rightarrow> string list" where
  "ipFields source f =
     ipField source f # (if qi_BeginPort f = 0 \<and> qi_EndPort f = 0 then [] else [portField source f])"

definition selectorFields :: "bool \<Rightarrow> PBTrafficSelector \<Rightarrow> string list" where
  "selectorFields source ts =
     (if qs_Ip ts = None \<and> qs_Gtp ts = None then [[]]
      else map (gtpField source) (case qs_Gtp ts of None \<Rightarrow> [] | Some g \<Rightarrow> [g])
         @ (case qs_Ip ts of None \<Rightarrow> [] | Some f \<Rightarrow> ipFields source f))"

lemma join_append: "xs \<noteq> [] \<Longrightarrow> ys \<noteq> [] \<Longrightarrow> stringsJoin c (xs @ ys) = stringsJoin c xs @ c # stringsJoin c ys"
  by (induction c xs rule: stringsJoin.induct) (auto simp: neq_Nil_conv)

lemma ip_text:
  "ipFilterToString (Some f) source =
     (if qi_BeginPort f > qi_EndPort f then
        Inl (''begin port '' @ FormatUint (qi_BeginPort f) @ '' should be >= than end port '' @ FormatUint (qi_EndPort f))
      else Inr (stringsJoin (CHR '','') (ipFields source f)))"
  by (simp add: ipFilterToString_def ipFields_def ipField_def portField_def Let_def)

lemma selector_text:
  assumes "trafficSelectorToString (Some ts) source = Inr s"
  shows "s = stringsJoin (CHR '','') (selectorFields source ts)"
  using assms
  by (auto simp: trafficSelectorToString_def gtpFilterToString_def gtpField_def selectorFields_def ip_text ipFields_def
      ipField_def split: if_splits option.splits)

lemma selectorFields_nonempty [simp]: "selectorFields source ts \<noteq> []"
  by (auto simp: selectorFields_def ipFields_def split: option.splits)

lemma rule_text:
  assumes "TrafficRuleProtoToString (Some r) = Inr s"
  shows "\<exists>encap\<in>{[], [''encap_proto:noencap'']}. s = stringsJoin (CHR '','')
    ((''prio:'' @ FormatUint (qr_Priority r))
     # (case qr_Source r of None \<Rightarrow> [] | Some ts \<Rightarrow> selectorFields True ts)
     @ (case qr_Destination r of None \<Rightarrow> [] | Some ts \<Rightarrow> selectorFields False ts) @ encap)"
proof -
  have add: "\<exists>ys. t = stringsJoin (CHR '','') (xs @ ys) \<and> ys = (case ts of None \<Rightarrow> [] | Some p \<Rightarrow> selectorFields source p)"
    if "addSelector (stringsJoin (CHR '','') xs) m ts source = Inr t" "xs \<noteq> []" for xs m ts source t
    using that
    by (cases ts) (auto simp: addSelector_def wrapE_def tryE_def join_append dest!: selector_text split: sum.splits)
  let ?p = "[''prio:'' @ FormatUint (qr_Priority r)]"
  obtain s1 s2 where s: "addSelector (stringsJoin (CHR '','') ?p) ''failed to convert Source traffic selector to string'' (qr_Source r) True = Inr s1"
    "addSelector s1 ''failed to convert Destination traffic selector to string'' (qr_Destination r) False = Inr s2"
    "s = s2 \<or> s = s2 @ '',encap_proto:noencap''"
    using assms by (auto simp: TrafficRuleProtoToString_def tryE_def split: sum.splits if_splits)
  from add [OF s(1)] have s1: "s1 = stringsJoin (CHR '','') (?p @ (case qr_Source r of None \<Rightarrow> [] | Some p \<Rightarrow> selectorFields True p))"
    by simp
  from add [OF s(2) [unfolded s1]] have s2: "s2 = stringsJoin (CHR '','') (?p @ (case qr_Source r of None \<Rightarrow> [] | Some p \<Rightarrow> selectorFields True p)
      @ (case qr_Destination r of None \<Rightarrow> [] | Some p \<Rightarrow> selectorFields False p))"
    by simp
  have "s2 @ '',encap_proto:noencap'' = stringsJoin (CHR '','') ((?p @ (case qr_Source r of None \<Rightarrow> [] | Some p \<Rightarrow> selectorFields True p)
      @ (case qr_Destination r of None \<Rightarrow> [] | Some p \<Rightarrow> selectorFields False p)) @ [''encap_proto:noencap''])"
    unfolding s2 by (subst (2) join_append) simp_all
  with s(3) s2 show ?thesis by auto
qed

lemma field_parts:
  "CHR '':'' \<notin> set x \<Longrightarrow> stringsSplit (CHR '':'') (''prio:'' @ x) = [''prio'', x]"
  "CHR '':'' \<notin> set x \<Longrightarrow> stringsSplit (CHR '':'') (''ue_ip:'' @ x) = [''ue_ip'', x]"
  "CHR '':'' \<notin> set x \<Longrightarrow> stringsSplit (CHR '':'') (''srv_ip:'' @ x) = [''srv_ip'', x]"
  "CHR '':'' \<notin> set x \<Longrightarrow> stringsSplit (CHR '':'') (''enb_ip:'' @ x) = [''enb_ip'', x]"
  "CHR '':'' \<notin> set x \<Longrightarrow> stringsSplit (CHR '':'') (''epc_ip:'' @ x) = [''epc_ip'', x]"
  "CHR '':'' \<notin> set x \<Longrightarrow> stringsSplit (CHR '':'') (''ue_port:'' @ x) = [''ue_port'', x]"
  "CHR '':'' \<notin> set x \<Longrightarrow> stringsSplit (CHR '':'') (''srv_port:'' @ x) = [''srv_port'', x]"
  by (simp_all add: stringsSplit_noc)

lemma parsers_get [simp]:
  "gm_get parsers ''prio'' = Some setPriority" "gm_get parsers ''ue_ip'' = Some setUEIP"
  "gm_get parsers ''srv_ip'' = Some setSrvIP" "gm_get parsers ''enb_ip'' = Some setEnbIP"
  "gm_get parsers ''epc_ip'' = Some setEpcIP" "gm_get parsers ''ue_port'' = Some setUEPort"
  "gm_get parsers ''srv_port'' = Some setSrvPort" "gm_get parsers ''encap_proto'' = Some encapNoop"
  by (simp_all add: parsers_def)

lemma addr_mask_parts:
  assumes "plainAddr a"
  shows "setIPAddrMask (a @ ''/'' @ FormatUint m) ip = Inr (ip\<lparr>qi_Address := a, qi_Mask := m\<rparr>)"
    and "parseGTPFilter (a @ ''/'' @ FormatUint m) = Inr \<lparr>qg_Address = a, qg_Mask = m, qg_Imsis = []\<rparr>"
  using assms by (simp_all add: plainAddr_def setIPAddrMask_def parseGTPFilter_def stringsSplit_app stringsSplit_noc)

lemma port_parts:
  "setIPPorts (FormatUint b @ ''-'' @ FormatUint e) ip = Inr (ip\<lparr>qi_BeginPort := b, qi_EndPort := e\<rparr>)"
  by (simp add: setIPPorts_def stringsSplit_app stringsSplit_noc)

lemma parse_prio: "parseFields tr ((''prio:'' @ FormatUint p) # fs) = parseFields (tr\<lparr>qr_Priority := p\<rparr>) fs"
  by (simp add: field_parts(1) setPriority_def del: append.simps)

definition selOf :: "PBTrafficSelector option \<Rightarrow> PBTrafficSelector" where
  "selOf p = (case p of None \<Rightarrow> noSelector | Some t \<Rightarrow> t)"

lemma parse_gtp:
  assumes a: "plainAddr (qg_Address g)"
  defines "g' \<equiv> g\<lparr>qg_Imsis := []\<rparr>"
  shows "parseFields tr (gtpField True g # fs) =
      parseFields (tr\<lparr>qr_Source := Some ((selOf (qr_Source tr))\<lparr>qs_Gtp := Some g'\<rparr>)\<rparr>) fs"
    and "parseFields tr (gtpField False g # fs) =
      parseFields (tr\<lparr>qr_Destination := Some ((selOf (qr_Destination tr))\<lparr>qs_Gtp := Some g'\<rparr>)\<rparr>) fs"
proof -
  let ?v = "qg_Address g @ ''/'' @ FormatUint (qg_Mask g)"
  have v: "CHR '':'' \<notin> set ?v" "?v \<noteq> []" using a by (auto simp: plainAddr_def)
  have t: "gtpField True g = ''enb_ip:'' @ ?v" "gtpField False g = ''epc_ip:'' @ ?v" by (simp_all add: gtpField_def)
  have g: "\<lparr>qg_Address = qg_Address g, qg_Mask = qg_Mask g, qg_Imsis = []\<rparr> = g'" by (simp add: g'_def)
  note defs = emptyErr_def addr_mask_parts [OF a] g selOf_def
  show "parseFields tr (gtpField True g # fs) =
      parseFields (tr\<lparr>qr_Source := Some ((selOf (qr_Source tr))\<lparr>qs_Gtp := Some g'\<rparr>)\<rparr>) fs"
    unfolding t parseFields.simps field_parts(4) [OF v(1)]
    by (cases "qr_Source tr") (simp_all add: setEnbIP_def createSourceSelectorIfNil_def defs del: append.simps)
  show "parseFields tr (gtpField False g # fs) =
      parseFields (tr\<lparr>qr_Destination := Some ((selOf (qr_Destination tr))\<lparr>qs_Gtp := Some g'\<rparr>)\<rparr>) fs"
    unfolding t parseFields.simps field_parts(5) [OF v(1)]
    by (cases "qr_Destination tr") (simp_all add: setEpcIP_def createDestinationSelectorIfNil_def defs del: append.simps)
qed

lemma onSourceIP_sel:
  "onSourceIP h tr = tryE (h (case qs_Ip (selOf (qr_Source tr)) of None \<Rightarrow> noIPFilter | Some ip \<Rightarrow> ip))
     (\<lambda>ip. Inr (tr\<lparr>qr_Source := Some ((selOf (qr_Source tr))\<lparr>qs_Ip := Some ip\<rparr>)\<rparr>))"
  by (cases "qr_Source tr")
    (auto simp: onSourceIP_def createSourceSelectorAndIPFilterIfNil_def createSourceSelectorIfNil_def createIPFilterIfNil_def
      onIPFilter_def selOf_def noSelector_def tryE_def split: option.splits sum.splits)

lemma onDestinationIP_sel:
  "onDestinationIP h tr = tryE (h (case qs_Ip (selOf (qr_Destination tr)) of None \<Rightarrow> noIPFilter | Some ip \<Rightarrow> ip))
     (\<lambda>ip. Inr (tr\<lparr>qr_Destination := Some ((selOf (qr_Destination tr))\<lparr>qs_Ip := Some ip\<rparr>)\<rparr>))"
  by (cases "qr_Destination tr")
    (auto simp: onDestinationIP_def createDestinationSelectorAndIPFilterIfNil_def createDestinationSelectorIfNil_def
      createIPFilterIfNil_def onIPFilter_def selOf_def noSelector_def tryE_def split: option.splits sum.splits)

lemma parse_ipField:
  assumes a: "plainAddr (qi_Address f)"
  defines "upd \<equiv> \<lambda>ts. Some (ts\<lparr>qs_Ip := Some ((case qs_Ip ts of None \<Rightarrow> noIPFilter | Some ip \<Rightarrow> ip)
      \<lparr>qi_Address := qi_Address f, qi_Mask := qi_Mask f\<rparr>)\<rparr>)"
  shows "parseFields tr (ipField True f # fs) = parseFields (tr\<lparr>qr_Source := upd (selOf (qr_Source tr))\<rparr>) fs"
    and "parseFields tr (ipField False f # fs) = parseFields (tr\<lparr>qr_Destination := upd (selOf (qr_Destination tr))\<rparr>) fs"
proof -
  let ?v = "qi_Address f @ ''/'' @ FormatUint (qi_Mask f)"
  have v: "CHR '':'' \<notin> set ?v" "?v \<noteq> []" using a by (auto simp: plainAddr_def)
  have t: "ipField True f = ''ue_ip:'' @ ?v" "ipField False f = ''srv_ip:'' @ ?v" by (simp_all add: ipField_def)
  note defs = emptyErr_def addr_mask_parts [OF a] upd_def
  show "parseFields tr (ipField True f # fs) = parseFields (tr\<lparr>qr_Source := upd (selOf (qr_Source tr))\<rparr>) fs"
    unfolding t parseFields.simps field_parts(2) [OF v(1)] by (simp add: setUEIP_def onSourceIP_sel defs del: append.simps)
  show "parseFields tr (ipField False f # fs) = parseFields (tr\<lparr>qr_Destination := upd (selOf (qr_Destination tr))\<rparr>) fs"
    unfolding t parseFields.simps field_parts(3) [OF v(1)] by (simp add: setSrvIP_def onDestinationIP_sel defs del: append.simps)
qed

lemma parse_portField:
  fixes f :: PBIPFilter
  defines "upd \<equiv> \<lambda>ts. Some (ts\<lparr>qs_Ip := Some ((case qs_Ip ts of None \<Rightarrow> noIPFilter | Some ip \<Rightarrow> ip)
      \<lparr>qi_BeginPort := qi_BeginPort f, qi_EndPort := qi_EndPort f\<rparr>)\<rparr>)"
  shows "parseFields tr (portField True f # fs) = parseFields (tr\<lparr>qr_Source := upd (selOf (qr_Source tr))\<rparr>) fs"
    and "parseFields tr (portField False f # fs) = parseFields (tr\<lparr>qr_Destination := upd (selOf (qr_Destination tr))\<rparr>) fs"
proof -
  let ?w = "FormatUint (qi_BeginPort f) @ ''-'' @ FormatUint (qi_EndPort f)"
  have w: "CHR '':'' \<notin> set ?w" "?w \<noteq> []" by auto
  have t: "portField True f = ''ue_port:'' @ ?w" "portField False f = ''srv_port:'' @ ?w" by (simp_all add: portField_def)
  note defs = emptyErr_def port_parts upd_def
  show "parseFields tr (portField True f # fs) = parseFields (tr\<lparr>qr_Source := upd (selOf (qr_Source tr))\<rparr>) fs"
    unfolding t parseFields.simps field_parts(6) [OF w(1)] by (simp add: setUEPort_def onSourceIP_sel defs del: append.simps)
  show "parseFields tr (portField False f # fs) = parseFields (tr\<lparr>qr_Destination := upd (selOf (qr_Destination tr))\<rparr>) fs"
    unfolding t parseFields.simps field_parts(7) [OF w(1)] by (simp add: setSrvPort_def onDestinationIP_sel defs del: append.simps)
qed

lemma selOf_simps [simp]: "selOf (Some x) = x" "selOf None = noSelector"
  by (simp_all add: selOf_def)

lemma parse_ip:
  assumes a: "plainAddr (qi_Address f)"
  defines "f' \<equiv> f\<lparr>qi_Protocol := []\<rparr>"
  shows "qs_Ip (selOf (qr_Source tr)) = None \<Longrightarrow> parseFields tr (ipFields True f @ fs) =
      parseFields (tr\<lparr>qr_Source := Some ((selOf (qr_Source tr))\<lparr>qs_Ip := Some f'\<rparr>)\<rparr>) fs"
    and "qs_Ip (selOf (qr_Destination tr)) = None \<Longrightarrow> parseFields tr (ipFields False f @ fs) =
      parseFields (tr\<lparr>qr_Destination := Some ((selOf (qr_Destination tr))\<lparr>qs_Ip := Some f'\<rparr>)\<rparr>) fs"
  using a by (cases f; simp add: ipFields_def parse_ipField parse_portField noIPFilter_def f'_def del: parseFields.simps)+

lemma nil_selectors [simp]:
  "qr_Source tr = None \<Longrightarrow> tr\<lparr>qr_Source := None\<rparr> = (tr :: PBTrafficRule)"
  "qr_Destination tr = None \<Longrightarrow> tr\<lparr>qr_Destination := None\<rparr> = (tr :: PBTrafficRule)"
  by (cases tr; simp)+

lemma parse_empty [simp]: "parseFields tr ([] # fs) = parseFields tr fs"
  by simp

lemma parse_selector:
  assumes "plainSelector ts"
  shows "qr_Source tr = None \<Longrightarrow>
      parseFields tr (selectorFields True ts @ fs) = parseFields (tr\<lparr>qr_Source := routedSelector ts\<rparr>) fs"
    and "qr_Destination tr = None \<Longrightarrow>
      parseFields tr (selectorFields False ts @ fs) = parseFields (tr\<lparr>qr_Destination := routedSelector ts\<rparr>) fs"
  using assms
  by (cases "qs_Gtp ts"; cases "qs_Ip ts"; simp add: plainSelector_def selectorFields_def routedSelector_def parse_gtp parse_ip
      noSelector_def del: parseFields.simps(2))+

lemma field_chars:
  assumes "plainSelector ts" "x \<in> set (selectorFields source ts)"
  shows "CHR '','' \<notin> set x"
  using assms
  by (cases "qs_Gtp ts"; cases "qs_Ip ts"; auto simp: plainSelector_def plainAddr_def selectorFields_def gtpField_def
      ipFields_def ipField_def portField_def split: if_splits)

lemma rule_round_trip:
  assumes t: "TrafficRuleProtoToString (Some r) = Inr s" and plain: "plainRule r"
  shows "TrafficRuleStringToProto s = Inr (routed r)"
proof -
  let ?src = "case qr_Source r of None \<Rightarrow> [] | Some ts \<Rightarrow> selectorFields True ts"
  let ?dst = "case qr_Destination r of None \<Rightarrow> [] | Some ts \<Rightarrow> selectorFields False ts"
  obtain encap where e: "encap \<in> {[], [''encap_proto:noencap'']}"
    and s: "s = stringsJoin (CHR '','') ((''prio:'' @ FormatUint (qr_Priority r)) # ?src @ ?dst @ encap)"
    using rule_text [OF t] by blast
  have "\<forall>x\<in>set ((''prio:'' @ FormatUint (qr_Priority r)) # ?src @ ?dst @ encap). CHR '','' \<notin> set x"
    using e plain by (cases "qr_Source r"; cases "qr_Destination r"; auto simp: plainRule_def dest: field_chars)
  then have split: "stringsSplit (CHR '','') s = (''prio:'' @ FormatUint (qr_Priority r)) # ?src @ ?dst @ encap"
    unfolding s by (rule stringsSplit_join) simp
  have enc: "parseFields tr encap = Inr tr" for tr using e by (auto simp: encapNoop_def)
  have src: "parseFields tr (?src @ fs) = parseFields (tr\<lparr>qr_Source := Option.bind (qr_Source r) routedSelector\<rparr>) fs"
    if "qr_Source tr = None" for tr fs
    using plain that by (cases "qr_Source r") (simp_all add: plainRule_def parse_selector)
  have dst: "parseFields tr (?dst @ fs) = parseFields (tr\<lparr>qr_Destination := Option.bind (qr_Destination r) routedSelector\<rparr>) fs"
    if "qr_Destination tr = None" for tr fs
    using plain that by (cases "qr_Destination r") (simp_all add: plainRule_def parse_selector)
  show ?thesis
    unfolding TrafficRuleStringToProto_def split parse_prio
    by (simp add: src dst enc noRule_def routed_def)
qed

section \<open>Verified rules\<close>

lemma numLoop_prefix: "numLoop dig b n s = Some (m, r) \<Longrightarrow> \<exists>p. s = p @ r \<and> (\<forall>c\<in>set p. dig c \<noteq> None)"
proof (induction dig b n s arbitrary: m r rule: numLoop.induct)
  case (2 dig b n c cs)
  show ?case
  proof (cases "dig c")
    case None
    with "2.prems" show ?thesis by auto
  next
    case (Some d)
    with "2.prems" have "numLoop dig b (n * b + int d) cs = Some (m, r)" "\<not> n * b + int d \<ge> 16777215"
      by (auto simp: Let_def split: if_splits)
    with "2.IH" [OF Some refl] obtain p where "cs = p @ r" "\<forall>c\<in>set p. dig c \<noteq> None" by blast
    with Some show ?thesis by (intro exI [of _ "c # p"]) auto
  qed
qed simp

lemma dtoi_prefix: "dtoi s = Some (m, r) \<Longrightarrow> \<exists>p. s = p @ r \<and> (\<forall>c\<in>set p. digitOf c \<noteq> None)"
  using numLoop_prefix [of digitOf 10 0 s m r] by (auto simp: dtoi_def prefixNum_def simp del: numLoop.simps split: list.splits if_splits)

lemma parseOctets_prefix:
  "parseOctets k f s = Some (ns, r) \<Longrightarrow> \<exists>p. s = p @ r \<and> (\<forall>c\<in>set p. digitOf c \<noteq> None \<or> c = CHR ''.'')"
proof (induction k arbitrary: f s ns)
  case (Suc k)
  obtain t n rest ns' where t: "s = t \<or> s = CHR ''.'' # t" and d: "dtoi t = Some (n, rest)"
    and o: "parseOctets k False rest = Some (ns', r)"
    using Suc.prems by (auto split: if_splits list.splits option.splits prod.splits)
  obtain p where p: "t = p @ rest" "\<forall>c\<in>set p. digitOf c \<noteq> None" using dtoi_prefix [OF d] by blast
  obtain q where q: "rest = q @ r" "\<forall>c\<in>set q. digitOf c \<noteq> None \<or> c = CHR ''.''" using Suc.IH [OF o] by blast
  have "t = (p @ q) @ r" "CHR ''.'' # t = (CHR ''.'' # p @ q) @ r" using p q by simp_all
  with t p(2) q(2) show ?case
    by (elim disjE) (rule exI [of _ "p @ q"], force, rule exI [of _ "CHR ''.'' # p @ q"], force)
qed simp

lemma v4_plain:
  assumes "netParseIP a = Some ip" "CHR '':'' \<notin> set a"
  shows "plainAddr a"
proof -
  have "parseIPv4 a \<noteq> None"
    using assms by (auto simp: netParseIP_def filter_eq_Cons_iff split: list.splits if_splits)
  then obtain ns where "parseOctets 4 True a = Some (ns, [])"
    by (auto simp: parseIPv4_def split: option.splits prod.splits list.splits)
  from parseOctets_prefix [OF this] show ?thesis
    by (auto simp: plainAddr_def digitOf_def)
qed

lemma prefixErr_None [simp]: "prefixErr p e k = None \<longleftrightarrow> e = None \<and> k = None"
  by (simp add: prefixErr_def split: option.split)

lemma ifSet_None [simp]: "ifSet p m f k = None \<longleftrightarrow> pred_option (\<lambda>x. f x = None) p \<and> k = None"
  by (simp add: ifSet_def split: option.split)

lemma VerifyAddressMask_None:
  "VerifyAddressMask a m = None \<longleftrightarrow>
     (if m = 0 then a \<in> {[], ''0.0.0.0''} else ipTo4 (netParseIP a) \<noteq> None \<and> m \<le> 32)"
  by (auto simp: VerifyAddressMask_def ipTo4_def netParseIP_def split: if_splits)

lemma VerifyTrafficSelector_None:
  "VerifyTrafficSelector ts = None \<longleftrightarrow> qs_Macs ts = None \<and> (qs_Ip ts \<noteq> None \<or> qs_Gtp ts \<noteq> None)
     \<and> pred_option (\<lambda>f. VerifyIPFilter f = None) (qs_Ip ts) \<and> pred_option (\<lambda>g. VerifyGTPFilter g = None) (qs_Gtp ts)"
  by (auto simp: VerifyTrafficSelector_def)

lemma VerifyTrafficRule_None:
  "VerifyTrafficRule tr = None \<longleftrightarrow> (qr_Source tr \<noteq> None \<or> qr_Destination tr \<noteq> None)
     \<and> pred_option (\<lambda>s. VerifyTrafficSelector s = None) (qr_Source tr)
     \<and> pred_option (\<lambda>s. VerifyTrafficSelector s = None) (qr_Destination tr) \<and> VerifyTrafficTarget (qr_Target tr) = None"
  by (auto simp: VerifyTrafficRule_def)

lemma verifyRules_None: "verifyRules i trs = None \<longleftrightarrow> (\<forall>tr\<in>set trs. VerifyTrafficRule tr = None)"
  by (induction trs arbitrary: i) (auto split: option.split)

text \<open>The addresses of a rule.\<close>

definition selectorAddresses :: "PBTrafficSelector option \<Rightarrow> string list" where
  "selectorAddresses ts =
     (case ts of
        None \<Rightarrow> []
      | Some t \<Rightarrow> (case qs_Ip t of None \<Rightarrow> [] | Some f \<Rightarrow> [qi_Address f]) @ (case qs_Gtp t of None \<Rightarrow> [] | Some g \<Rightarrow> [qg_Address g]))"

definition ruleAddresses :: "PBTrafficRule \<Rightarrow> string list" where
  "ruleAddresses r = selectorAddresses (qr_Source r) @ selectorAddresses (qr_Destination r)"

lemma verified_address_plain: "VerifyAddressMask a m = None \<Longrightarrow> CHR '':'' \<notin> set a \<Longrightarrow> plainAddr a"
  by (auto simp: VerifyAddressMask_None ipTo4_def split: if_splits option.splits intro: v4_plain) (simp_all add: plainAddr_def)

lemma verified_selector_plain:
  "VerifyTrafficSelector ts = None \<Longrightarrow> \<forall>a\<in>set (selectorAddresses (Some ts)). CHR '':'' \<notin> set a \<Longrightarrow> plainSelector ts"
  by (cases "qs_Ip ts"; cases "qs_Gtp ts")
    (auto simp: VerifyTrafficSelector_None plainSelector_def selectorAddresses_def VerifyIPFilter_def VerifyGTPFilter_def
      intro: verified_address_plain)

lemma verified_plain:
  assumes "VerifyTrafficRule r = None" "\<forall>a\<in>set (ruleAddresses r). CHR '':'' \<notin> set a"
  shows "plainRule r"
  using assms by (cases "qr_Source r"; cases "qr_Destination r")
    (auto simp: VerifyTrafficRule_None plainRule_def ruleAddresses_def intro!: verified_selector_plain)

lemma verified_selector_text: "VerifyTrafficSelector ts = None \<Longrightarrow> \<exists>s. trafficSelectorToString (Some ts) source = Inr s"
  by (cases "qs_Ip ts"; cases "qs_Gtp ts")
    (auto simp: VerifyTrafficSelector_None VerifyIPFilter_def trafficSelectorToString_def gtpFilterToString_def ip_text
      split: if_splits)

lemma verified_text: "VerifyTrafficRule r = None \<Longrightarrow> \<exists>s. TrafficRuleProtoToString (Some r) = Inr s"
proof -
  have add: "\<exists>t. addSelector s m ts source = Inr t" if "pred_option (\<lambda>x. VerifyTrafficSelector x = None) ts" for s m ts source
    using that verified_selector_text [of "the ts" source] by (cases ts) (auto simp: addSelector_def)
  assume "VerifyTrafficRule r = None"
  then have v: "pred_option (\<lambda>x. VerifyTrafficSelector x = None) (qr_Source r)"
    "pred_option (\<lambda>x. VerifyTrafficSelector x = None) (qr_Destination r)"
    by (simp_all add: VerifyTrafficRule_None)
  obtain s1 where s1: "addSelector (''prio:'' @ FormatUint (qr_Priority r))
      ''failed to convert Source traffic selector to string'' (qr_Source r) True = Inr s1"
    using add [OF v(1)] by blast
  obtain s2 where "addSelector s1 ''failed to convert Destination traffic selector to string'' (qr_Destination r) False = Inr s2"
    using add [OF v(2)] by blast
  with s1 show ?thesis by (simp add: TrafficRuleProtoToString_def)
qed

end
