(* ===== verification/Ela_Ports.thy ===== *)
theory Ela_Ports
  imports Ela_Rules
begin

text \<open>
  The configuration file of the network transport service (\<open>edgenode/pkg/ela/ini/nts_config.go\<close>): ports made
  from interfaces and policies, the resolution of fallback interfaces to port numbers, and the file. The
  ini library is a third-party package: the text it writes and what it reads are parameters.
\<close>

record KNI =
  kn_Max :: int

record VMCommon =
  vm_Max :: int
  vm_Number :: int
  vm_VHostDev :: string

record NtsServer =
  nt_ControlSocket :: string

record ini_Port =
  po_Name :: string
  po_Description :: string
  po_PciAddress :: string
  po_TrafficType :: string
  po_TrafficDirection :: string
  po_EgressPort :: int
  po_EgressPortID :: string
  po_MAC :: string
  po_LBPMAC :: string
  po_MTU :: int
  po_Routes :: "string list"

record NtsConfig =
  nx_VMCommon :: VMCommon
  nx_NtsServer :: NtsServer
  nx_KNI :: KNI
  nx_Ports :: "ini_Port list"

section \<open>The file\<close>

text \<open>\<open>strings.Replace(s, old, new, -1)\<close> for a text \<open>old\<close> that is not empty.\<close>

function stringsReplaceAll :: "string \<Rightarrow> string \<Rightarrow> string \<Rightarrow> string" where
  "stringsReplaceAll old new s =
     (if old = [] \<or> s = [] then s
      else if hasPrefix s old then new @ stringsReplaceAll old new (drop (length old) s)
      else hd s # stringsReplaceAll old new (tl s))"
  by pat_completeness auto
termination by (relation "measure (\<lambda>(old, new, s). length s)") auto

declare stringsReplaceAll.simps [simp del]

definition WriteToBuffer :: "(NtsConfig \<Rightarrow> string + string) \<Rightarrow> NtsConfig \<Rightarrow> string + string" where
  "WriteToBuffer iniText nts =
     tryE (iniText nts) (\<lambda>buf.
       let output = stringsReplaceAll ''|'' (newline @ ''route = '') buf
       in Inr (stringsReplaceAll (''route = '' @ newline) [] output))"

text \<open>The sections of a file that was loaded: the name of each, and the port that it maps to.\<close>

fun portsOf :: "(string \<times> (string + ini_Port)) list \<Rightarrow> ini_Port list \<Rightarrow> string + ini_Port list" where
  "portsOf [] ps = Inr ps"
| "portsOf ((name, r) # secs) ps =
     (if stringsContains name ''PORT'' then
        (case r of
           Inl e \<Rightarrow> Inl (''Failed to Map port from section '' @ name @ '': '' @ e)
         | Inr p \<Rightarrow> portsOf secs (ps @ [p]))
      else portsOf secs ps)"

text \<open>The loop that turns port numbers into addresses; an index out of range panics.\<close>

fun resolveEgress :: "nat \<Rightarrow> ini_Port list \<Rightarrow> ini_Port list \<Rightarrow> (unit, string + ini_Port list) go" where
  "resolveEgress i [] ports = Ret () (Inr ports)"
| "resolveEgress i (p # ps) ports =
     (if po_EgressPort p > int (length ports) then
        Ret () (Inl (''EgressPort '' @ Itoa (word_of_int (po_EgressPort p)) @ '' greater than amount of Ports''))
      else if po_EgressPort p < 0 \<or> po_EgressPort p \<ge> int (length ports) then Panic ()
      else resolveEgress (Suc i) ps
             (ports[i := (ports ! i)\<lparr>po_EgressPortID := po_PciAddress (ports ! nat (po_EgressPort p))\<rparr>]))"

definition NtsConfigFromFile ::
  "(string + (NtsConfig \<times> (string \<times> (string + ini_Port)) list)) \<Rightarrow> (string \<Rightarrow> goerr) \<Rightarrow> string \<Rightarrow> (unit, string + NtsConfig) go" where
  "NtsConfigFromFile shadowLoad mapTo filePath =
     (case shadowLoad of
        Inl e \<Rightarrow> Ret () (Inl (''Failed to ShadowLoad file '' @ filePath @ '': '' @ e))
      | Inr (c, sections) \<Rightarrow>
          (case mapTo filePath of
             Some e \<Rightarrow> Ret () (Inl (''Failed to Map file '' @ filePath @ '': '' @ e))
           | None \<Rightarrow>
               (case portsOf sections [] of
                  Inl e \<Rightarrow> Ret () (Inl e)
                | Inr ps \<Rightarrow>
                    (case resolveEgress 0 ps ps of
                       Panic u \<Rightarrow> Panic u
                     | Ret u (Inl e) \<Rightarrow> Ret u (Inl e)
                     | Ret u (Inr ps') \<Rightarrow> Ret u (Inr (c\<lparr>nx_Ports := ps'\<rparr>))))))"

section \<open>Ports\<close>

definition AddNewPort :: "ini_Port \<Rightarrow> NtsConfig \<Rightarrow> NtsConfig" where
  "AddNewPort port nts = nts\<lparr>nx_Ports := nx_Ports nts @ [port]\<rparr>"

fun removeFirst :: "string \<Rightarrow> ini_Port list \<Rightarrow> ini_Port list" where
  "removeFirst pci [] = []"
| "removeFirst pci (p # ps) = (if po_PciAddress p = pci then ps else p # removeFirst pci ps)"

definition RemovePort :: "string \<Rightarrow> NtsConfig \<Rightarrow> NtsConfig" where
  "RemovePort pci nts = nts\<lparr>nx_Ports := removeFirst pci (nx_Ports nts)\<rparr>"

definition TrafficDirectionFromInterfaceType :: "int \<Rightarrow> string \<times> goerr" where
  "TrafficDirectionFromInterfaceType t =
     (if t = 1 then (''upstream'', None)
      else if t = 2 then (''downstream'', None)
      else if t = 3 then (''both'', None)
      else if t = 4 then (''lbp'', None)
      else (''unknown'', Some (''Network interface type '' @ (if t = 0 then ''NONE'' else Itoa (word_of_int t)) @ '' is not supported'')))"

definition InterfaceTypeFromTrafficDirection :: "string \<Rightarrow> int \<times> goerr" where
  "InterfaceTypeFromTrafficDirection t =
     (if t = ''upstream'' then (1, None)
      else if t = ''downstream'' then (2, None)
      else if t = ''both'' then (3, None)
      else if t = ''lbp'' then (4, None)
      else (0, Some (''Unknown TrafficDirection: '' @ t)))"

text \<open>\<open>Update\<close>: the egress port is the last port whose address is the fallback interface.\<close>

fun egressIndex :: "string \<Rightarrow> nat \<Rightarrow> ini_Port list \<Rightarrow> int \<Rightarrow> int" where
  "egressIndex pci idx2 [] cur = cur"
| "egressIndex pci idx2 (p2 # ps) cur = egressIndex pci (Suc idx2) ps (if pci = po_PciAddress p2 then int idx2 else cur)"

definition updatePort :: "ini_Port list \<Rightarrow> ini_Port \<Rightarrow> ini_Port" where
  "updatePort ports p =
     p\<lparr>po_LBPMAC := (if po_TrafficDirection p \<noteq> ''lbp'' then [] else po_LBPMAC p),
       po_EgressPort := egressIndex (po_EgressPortID p) 0 ports (po_EgressPort p)\<rparr>"

definition Nts_Update :: "NtsConfig \<Rightarrow> NtsConfig" where
  "Nts_Update nts = nts\<lparr>nx_Ports := map (updatePort (nx_Ports nts)) (nx_Ports nts)\<rparr>"

definition GetNetworkInterface :: "ini_Port \<Rightarrow> string + PBNetworkInterface" where
  "GetNetworkInterface p =
     (case InterfaceTypeFromTrafficDirection (po_TrafficDirection p) of
        (_, Some e) \<Rightarrow> Inl (''failed to convert traffic direction to interface type: '' @ e)
      | (t, None) \<Rightarrow>
          Inr \<lparr>pi_Id = po_Name p, pi_Description = po_Description p, pi_Driver = 0, pi_Type = t,
               pi_MacAddress = po_MAC p, pi_Vlan = 0, pi_Zones = [], pi_FallbackInterface = po_EgressPortID p\<rparr>)"

definition mismatched :: "string \<Rightarrow> ini_Port \<Rightarrow> string \<Rightarrow> goerr" where
  "mismatched what p i =
     (if po_PciAddress p \<noteq> [] \<and> po_PciAddress p \<noteq> i
      then Some (''PciAddress mismatched, Port: '' @ po_PciAddress p @ '', '' @ what @ '': '' @ i) else None)"

definition UpdateFromNetworkInterface :: "PBNetworkInterface \<Rightarrow> ini_Port \<Rightarrow> ini_Port \<times> goerr" where
  "UpdateFromNetworkInterface n p =
     (case mismatched ''NetworkInterface'' p (pi_Id n) of
        Some e \<Rightarrow> (p, Some e)
      | None \<Rightarrow>
          (let p1 = p\<lparr>po_Name := pi_Id n, po_PciAddress := pi_Id n\<rparr>
           in case TrafficDirectionFromInterfaceType (pi_Type n) of
                (_, Some e) \<Rightarrow> (p1, Some (''failed to convert interface type to traffic direction: '' @ e))
              | (direction, None) \<Rightarrow>
                  (p1\<lparr>po_TrafficDirection := direction, po_EgressPortID := pi_FallbackInterface n,
                      po_Description := pi_Description n, po_MAC := pi_MacAddress n\<rparr>, None)))"

definition setTrafficType :: "bool \<Rightarrow> bool \<Rightarrow> ini_Port \<Rightarrow> ini_Port" where
  "setTrafficType gtpTraffic ipTraffic p =
     p\<lparr>po_TrafficType := (if gtpTraffic \<and> ipTraffic then ''mixed'' else if gtpTraffic then ''LTE'' else ''IP'')\<rparr>"

definition setLBPMAC :: "PBTrafficRule \<Rightarrow> ini_Port \<Rightarrow> ini_Port" where
  "setLBPMAC tr p =
     (case Option.bind (qr_Target tr) qt_Mac of
        None \<Rightarrow> p
      | Some mac \<Rightarrow> if po_LBPMAC p = [] \<and> mac \<noteq> [] then p\<lparr>po_LBPMAC := mac\<rparr> else p)"

definition gtpFilterPresent :: "PBTrafficRule \<Rightarrow> bool" where
  "gtpFilterPresent tr \<longleftrightarrow>
     Option.bind (qr_Source tr) qs_Gtp \<noteq> None \<or> Option.bind (qr_Destination tr) qs_Gtp \<noteq> None"

fun addRoutes :: "PBTrafficRule list \<Rightarrow> bool \<Rightarrow> bool \<Rightarrow> ini_Port \<Rightarrow> ini_Port" where
  "addRoutes [] gtpTraffic ipTraffic p = setTrafficType gtpTraffic ipTraffic p"
| "addRoutes (tr # trs) gtpTraffic ipTraffic p =
     (let p1 = (case TrafficRuleProtoToString (Some tr) of
                  Inr route \<Rightarrow> if route \<noteq> [] then p\<lparr>po_Routes := po_Routes p @ [route]\<rparr> else p
                | Inl _ \<Rightarrow> p);
          p2 = setLBPMAC tr p1
      in if gtpFilterPresent tr then addRoutes trs True ipTraffic p2 else addRoutes trs gtpTraffic True p2)"

definition UpdateFromTrafficPolicy :: "PBTrafficPolicy \<Rightarrow> ini_Port \<Rightarrow> ini_Port \<times> goerr" where
  "UpdateFromTrafficPolicy tp p =
     (case mismatched ''TrafficPolicy'' p (qp_Id tp) of
        Some e \<Rightarrow> (p, Some e)
      | None \<Rightarrow> (addRoutes (qp_TrafficRules tp) False False (p\<lparr>po_Name := qp_Id tp, po_PciAddress := qp_Id tp\<rparr>), None))"

section \<open>Egress ports\<close>

lemma egressIndex_app: "egressIndex pci i (ps @ qs) cur = egressIndex pci (i + length ps) qs (egressIndex pci i ps cur)"
  by (induction ps arbitrary: i cur) auto

lemma egressIndex_absent: "pci \<notin> po_PciAddress ` set ps \<Longrightarrow> egressIndex pci i ps cur = cur"
  by (induction ps arbitrary: i) auto

lemma egressIndex_present:
  assumes "pci \<in> po_PciAddress ` set ps"
  shows "\<exists>k < length ps. egressIndex pci i ps cur = int (i + k) \<and> po_PciAddress (ps ! k) = pci"
  using assms
proof (induction ps rule: rev_induct)
  case (snoc p ps)
  show ?case
  proof (cases "po_PciAddress p = pci")
    case True
    then show ?thesis by (intro exI [of _ "length ps"]) (simp add: egressIndex_app)
  next
    case False
    then obtain k where "k < length ps" "egressIndex pci i ps cur = int (i + k)" "po_PciAddress (ps ! k) = pci"
      using snoc by auto
    then show ?thesis using False by (intro exI [of _ k]) (auto simp: egressIndex_app nth_append)
  qed
qed simp

lemma updatePort_addr [simp]: "po_PciAddress (updatePort ports p) = po_PciAddress p"
  by (simp add: updatePort_def)

definition resolved :: "ini_Port list \<Rightarrow> ini_Port \<Rightarrow> ini_Port" where
  "resolved ports p = p\<lparr>po_EgressPortID := po_PciAddress (ports ! nat (po_EgressPort p))\<rparr>"

text \<open>The addresses do not change while the loop of the reader runs, so each round is independent.\<close>

lemma resolveEgress_ok:
  assumes "\<forall>p \<in> set qs. 0 \<le> po_EgressPort p \<and> po_EgressPort p < int (length ports)"
    and "ports = pre @ qs"
  shows "resolveEgress (length pre) qs ports = Ret () (Inr (pre @ map (resolved ports) qs))"
  using assms
proof (induction qs arbitrary: pre ports)
  case (Cons q qs)
  let ?r = "resolved ports q" and ?n = "nat (po_EgressPort q)"
  let ?ports = "(pre @ [?r]) @ qs"
  have step: "resolveEgress (length pre) (q # qs) ports = resolveEgress (length (pre @ [?r])) qs ?ports"
    using Cons.prems by (simp add: resolved_def nth_append)
  have addrs: "map po_PciAddress ?ports = map po_PciAddress ports" using Cons.prems by (simp add: resolved_def)
  have same: "resolved ?ports p = resolved ports p" if "p \<in> set qs" for p
  proof -
    have "nat (po_EgressPort p) < length ports" using that Cons.prems by auto
    moreover from this have "nat (po_EgressPort p) < length ?ports" using Cons.prems by simp
    ultimately have "po_PciAddress (?ports ! nat (po_EgressPort p)) = po_PciAddress (ports ! nat (po_EgressPort p))"
      using addrs by (metis nth_map)
    then show ?thesis by (simp add: resolved_def)
  qed
  have "\<forall>p \<in> set qs. 0 \<le> po_EgressPort p \<and> po_EgressPort p < int (length ?ports)" using Cons.prems by auto
  from Cons.IH [OF this refl] show ?case unfolding step using same by simp
qed simp

text \<open>Writing the ports and reading them gives each fallback interface that is a port back.\<close>

definition erased :: "ini_Port \<Rightarrow> ini_Port" where
  "erased p = p\<lparr>po_EgressPortID := []\<rparr>"

lemma Update_resolves:
  assumes "\<forall>p \<in> set ports. po_EgressPortID p \<in> po_PciAddress ` set ports"
  shows "resolveEgress 0 (map (erased \<circ> updatePort ports) ports) (map (erased \<circ> updatePort ports) ports) =
    Ret () (Inr (map (updatePort ports) ports))"
proof -
  let ?qs = "map (erased \<circ> updatePort ports) ports"
  have res: "\<exists>k < length ports. po_EgressPort (updatePort ports p) = int k \<and> po_PciAddress (ports ! k) = po_EgressPortID p"
    if "p \<in> set ports" for p
    using egressIndex_present [of "po_EgressPortID p" ports 0 "po_EgressPort p"] assms that by (auto simp: updatePort_def)
  then have "\<forall>q \<in> set ?qs. 0 \<le> po_EgressPort q \<and> po_EgressPort q < int (length ?qs)"
    by (fastforce simp: erased_def)
  from resolveEgress_ok [OF this, of "[]"] have "resolveEgress 0 ?qs ?qs = Ret () (Inr (map (resolved ?qs) ?qs))"
    by simp
  moreover have "resolved ?qs (erased (updatePort ports p)) = updatePort ports p" if "p \<in> set ports" for p
    using res [OF that] by (auto simp: resolved_def erased_def updatePort_def)
  ultimately show ?thesis by simp
qed

section \<open>Interfaces and ports\<close>

lemma direction_round_trip:
  "TrafficDirectionFromInterfaceType t = (d, None) \<Longrightarrow> InterfaceTypeFromTrafficDirection d = (t, None)"
  by (auto simp: TrafficDirectionFromInterfaceType_def InterfaceTypeFromTrafficDirection_def split: if_splits)

lemma UpdateFromNetworkInterface_ok:
  assumes "UpdateFromNetworkInterface n p = (p', None)"
  obtains d where "TrafficDirectionFromInterfaceType (pi_Type n) = (d, None)"
    "p' = p\<lparr>po_Name := pi_Id n, po_PciAddress := pi_Id n, po_TrafficDirection := d,
            po_EgressPortID := pi_FallbackInterface n, po_Description := pi_Description n, po_MAC := pi_MacAddress n\<rparr>"
  using assms by (auto simp: UpdateFromNetworkInterface_def Let_def split: option.splits prod.splits)

lemma port_round_trip:
  "UpdateFromNetworkInterface n p = (p', None) \<Longrightarrow>
   GetNetworkInterface p' = Inr (n\<lparr>pi_Driver := 0, pi_Vlan := 0, pi_Zones := []\<rparr>)"
  by (erule UpdateFromNetworkInterface_ok) (simp add: GetNetworkInterface_def direction_round_trip)

lemma setLBPMAC_keeps [simp]:
  "po_Routes (setLBPMAC tr p) = po_Routes p" "po_PciAddress (setLBPMAC tr p) = po_PciAddress p"
  by (auto simp: setLBPMAC_def split: option.splits)

definition routesOf :: "PBTrafficRule list \<Rightarrow> string list" where
  "routesOf trs = concat (map (\<lambda>tr. case TrafficRuleProtoToString (Some tr) of Inr r \<Rightarrow> [r] | Inl _ \<Rightarrow> []) trs)"

lemma rule_text_nonempty: "TrafficRuleProtoToString (Some r) = Inr s \<Longrightarrow> s \<noteq> []"
  by (auto simp: TrafficRuleProtoToString_def addSelector_def tryE_def wrapE_def split: sum.splits if_splits)

lemma addRoutes_routes:
  "po_Routes (addRoutes trs g i p) = po_Routes p @ routesOf trs
   \<and> po_PciAddress (addRoutes trs g i p) = po_PciAddress p"
  by (induction trs g i p rule: addRoutes.induct)
    (auto simp: routesOf_def setTrafficType_def Let_def rule_text_nonempty split: sum.splits)

lemma addRoutes_type:
  "po_TrafficType (addRoutes trs g i p) =
     (let gtp = g \<or> list_ex gtpFilterPresent trs; ip = i \<or> list_ex (\<lambda>tr. \<not> gtpFilterPresent tr) trs
      in if gtp \<and> ip then ''mixed'' else if gtp then ''LTE'' else ''IP'')"
  by (induction trs arbitrary: g i p) (auto simp: setTrafficType_def Let_def)

end
