(* ===== verification/Eda.thy ===== *)
theory Eda
  imports Ela_Rules "HOL-Library.Multiset"
begin

text \<open>
  The dataplane agent (\<open>edgenode/pkg/eda\<close>): it keeps the routes that it has added for each application and
  replaces them when a new policy arrives. The connection to the network transport service (NTS) is a
  Go interface; \<open>edgenode/pkg/edants\<close> implements it by calls of a C library, whose results are a
  parameter and which are logged.
\<close>

section \<open>Errors with a code\<close>

datatype codes = OK_code | Unknown_code | InvalidArgument_code | NotFound_code | AlreadyExists_code
  | FailedPrecondition_code | Unimplemented_code | Internal_code

fun codes_String :: "codes \<Rightarrow> string" where
  "codes_String OK_code = ''OK''"
| "codes_String Unknown_code = ''Unknown''"
| "codes_String InvalidArgument_code = ''InvalidArgument''"
| "codes_String NotFound_code = ''NotFound''"
| "codes_String AlreadyExists_code = ''AlreadyExists''"
| "codes_String FailedPrecondition_code = ''FailedPrecondition''"
| "codes_String Unimplemented_code = ''Unimplemented''"
| "codes_String Internal_code = ''Internal''"

text \<open>An error is a status with its code and message, or another error, whose code is \<open>Unknown\<close>.\<close>

datatype rpcError = StatusError codes string | PlainError string

fun errorCode :: "rpcError \<Rightarrow> codes" where
  "errorCode (StatusError c m) = c"
| "errorCode (PlainError m) = Unknown_code"

fun errorString :: "rpcError \<Rightarrow> string" where
  "errorString (StatusError c m) = ''rpc error: code = '' @ codes_String c @ '' desc = '' @ m"
| "errorString (PlainError m) = m"

section \<open>The connection\<close>

datatype nts_call = NesConnInit | NesConnClose | NesRouteAdd "int list" string | NesRouteRemove string

type_synonym nts = "(nts_call \<times> bool) list"

record NtsConnectionInt =
  nc_RouteRemove :: "string \<Rightarrow> nts \<Rightarrow> nts \<times> goerr"
  nc_RouteAdd :: "int list \<Rightarrow> string \<Rightarrow> nts \<Rightarrow> (nts, goerr) go"
  nc_Disconnect :: "nts \<Rightarrow> nts \<times> goerr"

text \<open>A call of the C library: the result of the n-th call is \<open>res n\<close>, and 0 is success.\<close>

definition nesCall :: "(nat \<Rightarrow> int) \<Rightarrow> nts_call \<Rightarrow> string \<Rightarrow> nts \<Rightarrow> nts \<times> goerr" where
  "nesCall res c msg n = (let ok = (res (length n) = 0) in (n @ [(c, ok)], if ok then None else Some msg))"

definition Disconnect :: "(nat \<Rightarrow> int) \<Rightarrow> nts \<Rightarrow> nts \<times> goerr" where
  "Disconnect res n = nesCall res NesConnClose ''Unable to disconnect'' n"

text \<open>The first six bytes of the address are copied; a shorter slice is out of range.\<close>

definition RouteAdd :: "(nat \<Rightarrow> int) \<Rightarrow> int list \<Rightarrow> string \<Rightarrow> nts \<Rightarrow> (nts, goerr) go" where
  "RouteAdd res macAddr lookupKeys n =
     (if length macAddr < 6 then Panic n
      else (case nesCall res (NesRouteAdd (take 6 macAddr) lookupKeys) ''Unable to add the route'' n of (n', e) \<Rightarrow> Ret n' e))"

definition RouteRemove :: "(nat \<Rightarrow> int) \<Rightarrow> string \<Rightarrow> nts \<Rightarrow> nts \<times> goerr" where
  "RouteRemove res lookupKeys n = nesCall res (NesRouteRemove lookupKeys) ''Unable to remove the route'' n"

definition NewNtsConnection :: "(nat \<Rightarrow> int) \<Rightarrow> nts \<Rightarrow> nts \<times> (string + NtsConnectionInt)" where
  "NewNtsConnection res n =
     (case nesCall res NesConnInit ''Connection failed'' n of
        (n', Some e) \<Rightarrow> (n', Inl e)
      | (n', None) \<Rightarrow>
          (n', Inr \<lparr>nc_RouteRemove = RouteRemove res, nc_RouteAdd = RouteAdd res, nc_Disconnect = Disconnect res\<rparr>))"

section \<open>The agent\<close>

record TrafficRuleParsed =
  pr_LookupKeys :: string
  pr_Mac :: "int list"

record AppTrafficPolicy =
  at_Policy :: PBTrafficPolicy
  at_NtsTrafficRules :: "TrafficRuleParsed list"

record eda_state =
  ed_AppTrafficPolicies :: "(string, AppTrafficPolicy) gomap"
  ed_nts :: nts

definition noParsed :: TrafficRuleParsed where
  "noParsed = \<lparr>pr_LookupKeys = [], pr_Mac = []\<rparr>"

text \<open>One round of the loop on the rules: the first is replaced by the last, and the last is cut off.\<close>

definition dropFirst :: "TrafficRuleParsed list \<Rightarrow> TrafficRuleParsed list" where
  "dropFirst rules =
     (let r1 = rules[0 := rules ! (length rules - 1)]; r2 = r1[length r1 - 1 := noParsed] in take (length r2 - 1) r2)"

fun removeRules_loop :: "nat \<Rightarrow> string \<Rightarrow> NtsConnectionInt \<Rightarrow> eda_state \<Rightarrow> (eda_state, unit) go" where
  "removeRules_loop 0 appID conn s = Ret s ()"
| "removeRules_loop (Suc k) appID conn s =
     (case gm_get (ed_AppTrafficPolicies s) appID of
        None \<Rightarrow> Panic s
      | Some p \<Rightarrow>
          if at_NtsTrafficRules p = [] then Panic s
          else
            (case nc_RouteRemove conn (pr_LookupKeys (at_NtsTrafficRules p ! 0)) (ed_nts s) of
               (n, _) \<Rightarrow>
                 removeRules_loop k appID conn
                   (s\<lparr>ed_nts := n,
                      ed_AppTrafficPolicies := gm_put appID (p\<lparr>at_NtsTrafficRules := dropFirst (at_NtsTrafficRules p)\<rparr>)
                        (ed_AppTrafficPolicies s)\<rparr>)))"

definition RemoveRules :: "string \<Rightarrow> NtsConnectionInt option \<Rightarrow> eda_state \<Rightarrow> (eda_state, rpcError option) go" where
  "RemoveRules appID conn s =
     (case gm_get (ed_AppTrafficPolicies s) appID of
        None \<Rightarrow> Ret s None
      | Some p \<Rightarrow>
          (case conn of
             None \<Rightarrow> Ret s (Some (StatusError Internal_code ''Not connected to NTS''))
           | Some c \<Rightarrow>
               (case removeRules_loop (length (at_NtsTrafficRules p)) appID c s of
                  Panic s' \<Rightarrow> Panic s'
                | Ret s' _ \<Rightarrow> Ret (s'\<lparr>ed_AppTrafficPolicies := gm_del appID (ed_AppTrafficPolicies s')\<rparr>) None)))"

definition DisconnectNTS :: "NtsConnectionInt \<Rightarrow> eda_state \<Rightarrow> eda_state" where
  "DisconnectNTS conn s = (case nc_Disconnect conn (ed_nts s) of (n, _) \<Rightarrow> s\<lparr>ed_nts := n\<rparr>)"

fun validateRules_loop :: "PBTrafficRule list \<Rightarrow> TrafficRuleParsed list \<Rightarrow> rpcError + TrafficRuleParsed list" where
  "validateRules_loop [] acc = Inr acc"
| "validateRules_loop (rule # rules) acc =
     (case TrafficRuleProtoToString (Some rule) of
        Inl err \<Rightarrow> Inl (StatusError Internal_code (''Error while parsing traffic rule to string '' @ err))
      | Inr trString \<Rightarrow>
          (case Option.bind (qr_Target rule) qt_Mac of
             None \<Rightarrow> Inl (StatusError InvalidArgument_code (''Failed to retrieve mac address for rule '' @ trString))
           | Some mac \<Rightarrow>
               (case netParseMAC mac of
                  None \<Rightarrow> Inl (StatusError InvalidArgument_code (''Error while parsing mac address: '' @ macError mac))
                | Some netMacAddr \<Rightarrow>
                    validateRules_loop rules (acc @ [\<lparr>pr_LookupKeys = trString, pr_Mac = netMacAddr\<rparr>]))))"

definition ValidateTrafficRules :: "PBTrafficPolicy \<Rightarrow> rpcError + TrafficRuleParsed list" where
  "ValidateTrafficRules tp = validateRules_loop (qp_TrafficRules tp) []"

definition hexDigit :: "nat \<Rightarrow> char" where
  "hexDigit d = char_of (if d < 10 then 48 + d else 87 + d)"

definition macString :: "int list \<Rightarrow> string" where
  "macString mac = stringsJoin (CHR '':'') (map (\<lambda>b. [hexDigit (nat b div 16), hexDigit (nat b mod 16)]) mac)"

fun addRules_loop ::
  "NtsConnectionInt \<Rightarrow> string \<Rightarrow> TrafficRuleParsed list \<Rightarrow> eda_state \<Rightarrow> (eda_state, rpcError option) go" where
  "addRules_loop conn i [] s = Ret s None"
| "addRules_loop conn i (rule # rules) s =
     (case nc_RouteAdd conn (pr_Mac rule) (pr_LookupKeys rule) (ed_nts s) of
        Panic n \<Rightarrow> Panic (s\<lparr>ed_nts := n\<rparr>)
      | Ret n (Some _) \<Rightarrow>
          (case RemoveRules i (Some conn) (s\<lparr>ed_nts := n\<rparr>) of
             Panic s' \<Rightarrow> Panic s'
           | Ret s' (Some e) \<Rightarrow>
               Ret s' (Some (StatusError Unknown_code
                 (''Failed to clean traffic rules on error in RouteAdd(). Error: '' @ errorString e)))
           | Ret s' None \<Rightarrow>
               Ret s' (Some (StatusError Unknown_code
                 (''Failed to add traffic rule: '' @ pr_LookupKeys rule @ '' for mac addr: '' @ macString (pr_Mac rule) @ ''.''))))
      | Ret n None \<Rightarrow>
          addRules_loop conn i rules
            (s\<lparr>ed_nts := n,
               ed_AppTrafficPolicies :=
                 (case gm_get (ed_AppTrafficPolicies s) i of
                    None \<Rightarrow> ed_AppTrafficPolicies s
                  | Some p \<Rightarrow> gm_put i (p\<lparr>at_NtsTrafficRules := at_NtsTrafficRules p @ [rule]\<rparr>) (ed_AppTrafficPolicies s))\<rparr>))"

definition AddRequest :: "NtsConnectionInt \<Rightarrow> PBTrafficPolicy \<Rightarrow> eda_state \<Rightarrow> (eda_state, rpcError option) go" where
  "AddRequest conn tp s =
     (case ValidateTrafficRules tp of
        Inl err \<Rightarrow>
          Ret s (Some (StatusError (errorCode err) (''Validation of traffic rules finished with error: '' @ errorString err)))
      | Inr rules \<Rightarrow>
          addRules_loop conn (qp_Id tp) rules
            (s\<lparr>ed_AppTrafficPolicies :=
                gm_put (qp_Id tp) \<lparr>at_Policy = tp, at_NtsTrafficRules = []\<rparr> (ed_AppTrafficPolicies s)\<rparr>))"

text \<open>\<open>defer DisconnectNTS(conn)\<close>, also when the call panics.\<close>

definition disconnecting :: "NtsConnectionInt \<Rightarrow> (eda_state, 'a) go \<Rightarrow> (eda_state, 'a) go" where
  "disconnecting conn r = (case r of Panic s \<Rightarrow> Panic (DisconnectNTS conn s) | Ret s a \<Rightarrow> Ret (DisconnectNTS conn s) a)"

definition eda_Set ::
  "(nts \<Rightarrow> nts \<times> (string + NtsConnectionInt)) \<Rightarrow> PBTrafficPolicy \<Rightarrow> eda_state \<Rightarrow> (eda_state, rpcError option) go" where
  "eda_Set newConn tp s =
     (if qp_Id tp = [] then Ret s (Some (PlainError ''Application traffic policy ID is empty''))
      else
        (case newConn (ed_nts s) of
           (n, Inl err) \<Rightarrow> Ret (s\<lparr>ed_nts := n\<rparr>) (Some (PlainError err))
         | (n, Inr conn) \<Rightarrow>
             disconnecting conn
               (case RemoveRules (qp_Id tp) (Some conn) (s\<lparr>ed_nts := n\<rparr>) of
                  Panic s' \<Rightarrow> Panic s'
                | Ret s' (Some err) \<Rightarrow>
                    Ret s' (Some (StatusError (errorCode err)
                      (''Attempt to remove traffic rules for traffic policy ID '' @ qp_Id tp @ '' finished with error: '' @ errorString err)))
                | Ret s' None \<Rightarrow> if qp_TrafficRules tp \<noteq> [] then AddRequest conn tp s' else Ret s' None)))"

end
