(* ===== verification/Ela.thy ===== *)
theory Ela
  imports Ela_Ports Eda
begin

text \<open>
  The lifecycle agent (\<open>edgenode/pkg/ela\<close>): the services through which the controller sets the policies
  of interfaces and applications and the interfaces themselves, and the reconfiguration of the transport
  service. Docker, libvirt, the commands that are run and the files that are read are parameters; calls
  that change something outside of the agent are logged, and the n-th of them has the result
  \<open>en_call n\<close>. The dataplane agent that it dials is the one of the theory \<open>Eda\<close>.
\<close>

section \<open>State and environment\<close>

record InterfacesData =
  id_TrafficPolicies :: "(string, PBTrafficPolicy) gomap"
  id_NetworkInterfaces :: "PBNetworkInterface list option"

record interfaceData =
  if_TrafficPolicy :: PBTrafficPolicy
  if_NetworkInterface :: PBNetworkInterface

datatype ela_call = SaveConfig NtsConfig | UpdateContainer string | StartContainer string | StopContainer string
  | InspectContainer string | DevBind "string list" | DialEDA PBTrafficPolicy

record ela_state =
  el_InterfaceConfigurationData :: InterfacesData
  el_eda :: eda_state
  el_calls :: "ela_call list"
  el_ticks :: nat

record ela_Configuration =
  ec_EDAEndpoint :: string
  ec_NtsConfigPath :: string
  ec_DNSIP :: string
  ec_PCIBlacklist :: "string list"
  ec_InterfaceMTU :: int

datatype ueventFile = UeventMissing | UeventError string | UeventContent string

datatype statResult = StatFound | StatNotExist | StatError string

record vmInterface =
  vi_Source :: "string option option"
  vi_MAC :: "string option"

record dockerContainer =
  dc_Names :: "string list"
  dc_Inspect :: "string + (string \<times> (string, string) gomap option)"

record ela_env =
  en_Config :: ela_Configuration
  en_call :: "nat \<Rightarrow> goerr"
  en_clientErr :: goerr
  en_closeErr :: goerr
  en_inspect :: "nat \<Rightarrow> bool \<times> string"
  en_nts :: "nat \<Rightarrow> int"
  en_dialErr :: goerr
  en_lost :: rpcError
  en_range :: "(string \<times> interfaceData) list \<Rightarrow> (string \<times> interfaceData) list"
  en_iniText :: "NtsConfig \<Rightarrow> string + string"
  en_shadowLoad :: "string + (NtsConfig \<times> (string \<times> (string + ini_Port)) list)"
  en_mapTo :: "string \<Rightarrow> goerr"
  en_lspciMissing :: bool
  en_lspci :: "string + string list list"
  en_nsEnter :: goerr
  en_netInterfaces :: "string + (string \<times> int list \<times> ueventFile) list"
  en_ctxErr :: "nat \<Rightarrow> goerr"
  en_stat :: "nat \<Rightarrow> statResult"
  en_vm :: "string \<Rightarrow> string + vmInterface list"
  en_containers :: "nat \<Rightarrow> string + dockerContainer list"
  en_command :: "nat \<Rightarrow> string \<Rightarrow> string + string"

text \<open>A computation: it may not return, it may panic, or it gives an error or a result.\<close>

type_synonym 'a ela = "ela_state \<Rightarrow> (ela_state, string + 'a) go option"

definition retL :: "'a \<Rightarrow> 'a ela" where
  "retL x s = Some (Ret s (Inr x))"

definition failL :: "string \<Rightarrow> 'a ela" where
  "failL e s = Some (Ret s (Inl e))"

definition bindL :: "'a ela \<Rightarrow> ('a \<Rightarrow> 'b ela) \<Rightarrow> 'b ela" where
  "bindL m f s =
     (case m s of
        None \<Rightarrow> None
      | Some (Panic s') \<Rightarrow> Some (Panic s')
      | Some (Ret s' (Inl e)) \<Rightarrow> Some (Ret s' (Inl e))
      | Some (Ret s' (Inr x)) \<Rightarrow> f x s')"

text \<open>\<open>errors.Wrap\<close> of the error of a computation.\<close>

definition wrapL :: "string \<Rightarrow> 'a ela \<Rightarrow> 'a ela" where
  "wrapL msg m s =
     (case m s of
        None \<Rightarrow> None
      | Some (Panic s') \<Rightarrow> Some (Panic s')
      | Some (Ret s' (Inl e)) \<Rightarrow> Some (Ret s' (Inl (msg @ '': '' @ e)))
      | Some (Ret s' (Inr x)) \<Rightarrow> Some (Ret s' (Inr x)))"

definition pureL :: "(unit, string + 'a) go \<Rightarrow> 'a ela" where
  "pureL r s = (case r of Panic _ \<Rightarrow> Some (Panic s) | Ret _ x \<Rightarrow> Some (Ret s x))"

text \<open>A logged call and its result.\<close>

definition logL :: "ela_env \<Rightarrow> ela_call \<Rightarrow> goerr ela" where
  "logL env c s = Some (Ret (s\<lparr>el_calls := el_calls s @ [c]\<rparr>) (Inr (en_call env (length (el_calls s)))))"

definition callL :: "ela_env \<Rightarrow> ela_call \<Rightarrow> unit ela" where
  "callL env c = bindL (logL env c) (\<lambda>e. case e of Some e \<Rightarrow> failL e | None \<Rightarrow> retL ())"

section \<open>Interface data\<close>

definition InterfacesData_validate :: "InterfacesData \<Rightarrow> goerr" where
  "InterfacesData_validate d = (if id_NetworkInterfaces d = None then Some ''network interfaces are nil'' else None)"

definition netIfs :: "InterfacesData \<Rightarrow> PBNetworkInterface list" where
  "netIfs d = (case id_NetworkInterfaces d of None \<Rightarrow> [] | Some ns \<Rightarrow> ns)"

fun toMap_loop ::
  "(string, PBTrafficPolicy) gomap \<Rightarrow> PBNetworkInterface list \<Rightarrow> (string, interfaceData) gomap \<Rightarrow> (string, interfaceData) gomap" where
  "toMap_loop pols [] d = d"
| "toMap_loop pols (netIf # ns) d =
     (if pi_Driver netIf = 0 then toMap_loop pols ns d
      else
        toMap_loop pols ns
          (gm_put (pi_Id netIf)
            \<lparr>if_TrafficPolicy =
               (case gm_get pols (pi_Id netIf) of
                  Some policy \<Rightarrow> policy
                | None \<Rightarrow> \<lparr>qp_Id = pi_Id netIf, qp_TrafficRules = []\<rparr>),
             if_NetworkInterface = netIf\<rparr> d))"

definition toMap :: "InterfacesData \<Rightarrow> (string, interfaceData) gomap" where
  "toMap d = toMap_loop (id_TrafficPolicies d) (netIfs d) []"

definition getDevicesToUnbind :: "PBNetworkInterface list \<Rightarrow> InterfacesData \<Rightarrow> string list" where
  "getDevicesToUnbind nis d =
     concat (map (\<lambda>ifaceUpdate.
       concat (map (\<lambda>ifaceCurrent.
         if pi_Id ifaceUpdate = pi_Id ifaceCurrent \<and> pi_Driver ifaceUpdate = 0 \<and> pi_Driver ifaceCurrent = 1
         then [pi_Id ifaceUpdate] else []) nis)) (netIfs d))"

definition getDevicesToBind :: "InterfacesData \<Rightarrow> string list" where
  "getDevicesToBind d = map pi_Id (filter (\<lambda>i. pi_Driver i = 1) (netIfs d))"

section \<open>Network devices\<close>

record NetworkDevice =
  nd_PCI :: string
  nd_Name :: string
  nd_Manufacturer :: string
  nd_MAC :: string
  nd_Description :: string
  nd_FallbackInterface :: string
  nd_Driver :: int
  nd_Direction :: int

text \<open>The output of \<open>lspci\<close> as the CSV reader splits it.\<close>

definition GetNetworkPCIs :: "bool \<Rightarrow> string + string list list \<Rightarrow> string + NetworkDevice list" where
  "GetNetworkPCIs missing recs =
     (if missing then Inl (''command `lspci` is not available'')
      else
        tryE recs (\<lambda>records.
          if records = [] then Inl ''No entries in CSV output from lspci''
          else
            Inr (map (\<lambda>r. \<lparr>nd_PCI = r ! 0, nd_Name = [], nd_Manufacturer = r ! 2, nd_MAC = [], nd_Description = r ! 3,
                   nd_FallbackInterface = [], nd_Driver = 0, nd_Direction = 0\<rparr>)
                 (filter (\<lambda>r. length r \<ge> 4) records))))"

definition fillFromPort :: "ini_Port \<Rightarrow> NetworkDevice \<Rightarrow> NetworkDevice" where
  "fillFromPort port dev =
     (if nd_PCI dev = po_PciAddress port
      then dev\<lparr>nd_MAC := po_MAC port, nd_Description := po_Description port, nd_FallbackInterface := po_EgressPortID port,
               nd_Direction := fst (InterfaceTypeFromTrafficDirection (po_TrafficDirection port)), nd_Driver := 1\<rparr>
      else dev)"

definition fillMACAddrForDPDKDevs ::
  "(unit, string + NtsConfig) go \<Rightarrow> NetworkDevice list \<Rightarrow> (unit, string + NetworkDevice list) go" where
  "fillMACAddrForDPDKDevs loaded devs =
     (case loaded of
        Panic u \<Rightarrow> Panic u
      | Ret u (Inl e) \<Rightarrow> Ret u (Inl (''failed to read NTS config: '' @ e))
      | Ret u (Inr ntsCfg) \<Rightarrow> Ret u (Inr (foldl (\<lambda>ds port. map (fillFromPort port) ds) devs (nx_Ports ntsCfg))))"

text \<open>The leftmost match of the expression for a PCI address.\<close>

definition isHexLower :: "char \<Rightarrow> bool" where
  "isHexLower c \<longleftrightarrow> (let n = (of_char c :: nat) in (48 \<le> n \<and> n < 58) \<or> (97 \<le> n \<and> n < 103))"

definition pciAt :: "string \<Rightarrow> string option" where
  "pciAt s =
     (let d = takeWhile (\<lambda>c. digitOf c \<noteq> None) s; r = drop (length d) s
      in if length d \<le> 4 \<and> length r \<ge> 8 \<and> r ! 0 = CHR '':'' \<and> isHexLower (r ! 1) \<and> isHexLower (r ! 2) \<and> r ! 3 = CHR '':''
            \<and> isHexLower (r ! 4) \<and> isHexLower (r ! 5) \<and> r ! 6 = CHR ''.'' \<and> isHexLower (r ! 7)
         then Some (d @ take 8 r) else None)"

fun findPCI :: "string \<Rightarrow> string" where
  "findPCI [] = []"
| "findPCI (c # cs) = (case pciAt (c # cs) of Some m \<Rightarrow> m | None \<Rightarrow> findPCI cs)"

definition fillFromKernel :: "string \<Rightarrow> string \<Rightarrow> int list \<Rightarrow> NetworkDevice \<Rightarrow> NetworkDevice" where
  "fillFromKernel pci name hw dev =
     (if nd_PCI dev = pci
      then dev\<lparr>nd_MAC := macString hw, nd_Name := name, nd_Description := ''['' @ name @ ''] '' @ nd_Description dev,
               nd_Driver := 0\<rparr>
      else dev)"

fun fillKernel_loop :: "(string \<times> int list \<times> ueventFile) list \<Rightarrow> NetworkDevice list \<Rightarrow> string + NetworkDevice list" where
  "fillKernel_loop [] devs = Inr devs"
| "fillKernel_loop ((name, hw, f) # ifs) devs =
     (case f of
        UeventMissing \<Rightarrow> fillKernel_loop ifs devs
      | UeventError e \<Rightarrow>
          Inl (''Failed to load uevent file: /var/host_net_devices/'' @ name @ ''/device/uevent: '' @ e)
      | UeventContent content \<Rightarrow> fillKernel_loop ifs (map (fillFromKernel (findPCI content) name hw) devs))"

definition FillMACAddrForKernelDevs ::
  "goerr \<Rightarrow> string + (string \<times> int list \<times> ueventFile) list \<Rightarrow> NetworkDevice list \<Rightarrow> string + NetworkDevice list" where
  "FillMACAddrForKernelDevs nsErr netIfaces devs =
     (case nsErr of
        Some e \<Rightarrow> Inl (''failed to enter namespace: '' @ e)
      | None \<Rightarrow>
          (case netIfaces of
             Inl e \<Rightarrow> Inl (''failed to obtain interfaces: '' @ e)
           | Inr ifs \<Rightarrow> fillKernel_loop ifs devs))"

definition ToNetworkInterface :: "NetworkDevice \<Rightarrow> PBNetworkInterface" where
  "ToNetworkInterface dev =
     \<lparr>pi_Id = nd_PCI dev, pi_Description = nd_Description dev, pi_Driver = nd_Driver dev, pi_Type = nd_Direction dev,
      pi_MacAddress = nd_MAC dev, pi_Vlan = 0, pi_Zones = [], pi_FallbackInterface = nd_FallbackInterface dev\<rparr>"

definition ToNetworkInterfaces :: "NetworkDevice list \<Rightarrow> PBNetworkInterface list" where
  "ToNetworkInterfaces devs = map ToNetworkInterface devs"

definition IsPCIportBlacklisted :: "ela_Configuration \<Rightarrow> string \<Rightarrow> bool" where
  "IsPCIportBlacklisted cfg pci \<longleftrightarrow> pci \<in> set (ec_PCIBlacklist cfg)"

definition getNetworkDevices :: "ela_env \<Rightarrow> (unit, string + NetworkDevice list) go" where
  "getNetworkDevices env =
     (case GetNetworkPCIs (en_lspciMissing env) (en_lspci env) of
        Inl e \<Rightarrow> Ret () (Inl e)
      | Inr devs \<Rightarrow>
          (case fillMACAddrForDPDKDevs
                  (NtsConfigFromFile (en_shadowLoad env) (en_mapTo env) (ec_NtsConfigPath (en_Config env))) devs of
             Panic u \<Rightarrow> Panic u
           | Ret u (Inl e) \<Rightarrow> Ret u (Inl e)
           | Ret u (Inr devs') \<Rightarrow> Ret u (FillMACAddrForKernelDevs (en_nsEnter env) (en_netInterfaces env) devs')))"

definition getNetworkInterfaces :: "ela_env \<Rightarrow> (unit, string + PBNetworkInterface list) go" where
  "getNetworkInterfaces env =
     (case getNetworkDevices env of
        Panic u \<Rightarrow> Panic u
      | Ret u (Inl e) \<Rightarrow> Ret u (Inl (''failed to obtain network devices: '' @ e))
      | Ret u (Inr devs) \<Rightarrow>
          Ret u (Inr (ToNetworkInterfaces (filter (\<lambda>dev. \<not> IsPCIportBlacklisted (en_Config env) (nd_PCI dev)) devs))))"

section \<open>MAC addresses of applications\<close>

definition ntsContainerName :: string where
  "ntsContainerName = ''nts''"

definition ntsVhostFile :: string where
  "ntsVhostFile = ''/var/lib/appliance/nts/qemu/usvhost-1''"

definition dnsContainerName :: string where
  "dnsContainerName = ''mec-app-edgednssvr''"

text \<open>The interfaces of the domain of an application, with the socket of a vhost-user source.\<close>

fun vhostMAC :: "vmInterface list \<Rightarrow> (unit, string + string) go" where
  "vhostMAC [] = Ret () (Inl ''Interface not found'')"
| "vhostMAC (iface # ifaces) =
     (case vi_Source iface of
        None \<Rightarrow> Panic ()
      | Some src \<Rightarrow>
          if src = Some ntsVhostFile
          then (case vi_MAC iface of None \<Rightarrow> Panic () | Some mac \<Rightarrow> Ret () (Inr mac))
          else vhostMAC ifaces)"

definition getMACForVMvhostuser :: "ela_env \<Rightarrow> string \<Rightarrow> (unit, string + string) go" where
  "getMACForVMvhostuser env appID = (case en_vm env appID of Inl e \<Rightarrow> Ret () (Inl e) | Inr ifaces \<Rightarrow> vhostMAC ifaces)"

fun findContainer :: "string \<Rightarrow> dockerContainer list \<Rightarrow> (unit, string + string) go" where
  "findContainer appName [] = Ret () (Inl ''Container not found'')"
| "findContainer appName (c # cs) =
     (case dc_Names c of
        [] \<Rightarrow> findContainer appName cs
      | nm # _ \<Rightarrow>
          (case dc_Inspect c of
             Inl _ \<Rightarrow> findContainer appName cs
           | Inr (sandboxKey, labels) \<Rightarrow>
               if nm = [] then Panic ()
               else if tl nm = appName then Ret () (Inr sandboxKey)
               else if Option.bind labels (\<lambda>ls. gm_get ls ''app-id'') = Some appName then Ret () (Inr sandboxKey)
               else findContainer appName cs))"

definition getNetNamespaceForContainer :: "ela_env \<Rightarrow> nat \<Rightarrow> string \<Rightarrow> (unit, string + string) go" where
  "getNetNamespaceForContainer env k appName =
     (case en_clientErr env of
        Some e \<Rightarrow> Ret () (Inl e)
      | None \<Rightarrow> (case en_containers env k of Inl e \<Rightarrow> Ret () (Inl e) | Inr cs \<Rightarrow> findContainer appName cs))"

definition trimNewlines :: "string \<Rightarrow> string" where
  "trimNewlines s = rev (dropWhile (\<lambda>c. [c] = newline) (rev (dropWhile (\<lambda>c. [c] = newline) s)))"

definition getMACForContainerKNI :: "ela_env \<Rightarrow> nat \<Rightarrow> string \<Rightarrow> (unit, string + string) go" where
  "getMACForContainerKNI env k appID =
     (case getNetNamespaceForContainer env k appID of
        Panic u \<Rightarrow> Panic u
      | Ret u (Inl e) \<Rightarrow> Ret u (Inl e)
      | Ret u (Inr nsPath) \<Rightarrow>
          (case en_command env k nsPath of
             Inl e \<Rightarrow> Ret u (Inl (''failed to obtain mac: '' @ e))
           | Inr out \<Rightarrow>
               (let mac = trimNewlines out
                in if mac = [] then Ret u (Inl ''vEth interface not found'') else Ret u (Inr mac))))"

definition GetMacAddress :: "ela_env \<Rightarrow> nat \<Rightarrow> string \<Rightarrow> (unit, string + string) go" where
  "GetMacAddress env k appID =
     (case getMACForVMvhostuser env appID of
        Panic u \<Rightarrow> Panic u
      | Ret u (Inr mac) \<Rightarrow> Ret u (Inr mac)
      | Ret u (Inl _) \<Rightarrow>
          (case getMACForContainerKNI env k appID of
             Panic u \<Rightarrow> Panic u
           | Ret u (Inr mac) \<Rightarrow> Ret u (Inr mac)
           | Ret u (Inl _) \<Rightarrow> Ret u (Inl (''MAC address not found for: '' @ appID))))"

section \<open>The dataplane agent and the containers\<close>

text \<open>The error of a handler as the client of the call gets it.\<close>

fun overWire :: "rpcError \<Rightarrow> rpcError" where
  "overWire (PlainError m) = StatusError Unknown_code m"
| "overWire (StatusError c m) = StatusError c m"

definition DialEDASet :: "ela_env \<Rightarrow> PBTrafficPolicy \<Rightarrow> ela_state \<Rightarrow> ela_state \<times> rpcError option" where
  "DialEDASet env policy s =
     (case en_dialErr env of
        Some e \<Rightarrow> (s, Some (PlainError (''Failed to create a connection to '' @ ec_EDAEndpoint (en_Config env) @ '': '' @ e)))
      | None \<Rightarrow>
          (let s1 = s\<lparr>el_calls := el_calls s @ [DialEDA policy]\<rparr>
           in case eda_Set (NewNtsConnection (en_nts env)) policy (el_eda s) of
                Panic d \<Rightarrow> (s1\<lparr>el_eda := d\<rparr>, Some (en_lost env))
              | Ret d r \<Rightarrow> (s1\<lparr>el_eda := d\<rparr>, map_option overWire r)))"

definition dialL :: "ela_env \<Rightarrow> PBTrafficPolicy \<Rightarrow> unit ela" where
  "dialL env policy s =
     (case DialEDASet env policy s of
        (s', Some e) \<Rightarrow> Some (Ret s' (Inl (errorString e)))
      | (s', None) \<Rightarrow> Some (Ret s' (Inr ())))"

definition dockerL :: "ela_env \<Rightarrow> ela_call \<Rightarrow> unit ela" where
  "dockerL env c = (case en_clientErr env of Some e \<Rightarrow> failL e | None \<Rightarrow> callL env c)"

definition updateContainer :: "ela_env \<Rightarrow> string \<Rightarrow> unit ela" where
  "updateContainer env containerName = dockerL env (UpdateContainer containerName)"

definition startContainer :: "ela_env \<Rightarrow> string \<Rightarrow> unit ela" where
  "startContainer env containerName = dockerL env (StartContainer containerName)"

definition stopContainer :: "ela_env \<Rightarrow> string \<Rightarrow> unit ela" where
  "stopContainer env containerName = dockerL env (StopContainer containerName)"

text \<open>
  Without a client the code closes the nil client, which panics. The wrapped error of a failed close
  is nil when the container is running.
\<close>

definition isNTSrunning :: "ela_env \<Rightarrow> ela_state \<Rightarrow> (ela_state, goerr) go" where
  "isNTSrunning env s =
     (if en_clientErr env \<noteq> None then Panic s
      else
        (let n = length (el_calls s); s' = s\<lparr>el_calls := el_calls s @ [InspectContainer ntsContainerName]\<rparr>
         in case en_call env n of
              Some err \<Rightarrow> Ret s' (case en_closeErr env of Some c \<Rightarrow> Some (c @ '': '' @ err) | None \<Rightarrow> Some err)
            | None \<Rightarrow>
                if fst (en_inspect env n) then Ret s' None
                else
                  (case en_closeErr env of
                     Some c \<Rightarrow> Ret s' (Some c)
                   | None \<Rightarrow> Ret s' (Some (''NTS container is not running, status: '' @ snd (en_inspect env n))))))"

definition isAnyAppRunning :: bool where
  "isAnyAppRunning = False"

section \<open>Reconfiguration\<close>

definition ntsConfigTemplate :: NtsConfig where
  "ntsConfigTemplate =
     \<lparr>nx_VMCommon = \<lparr>vm_Max = 32, vm_Number = 2, vm_VHostDev = ntsVhostFile\<rparr>,
      nx_NtsServer = \<lparr>nt_ControlSocket = ''/var/lib/appliance/nts/control-socket''\<rparr>,
      nx_KNI = \<lparr>kn_Max = 32\<rparr>, nx_Ports = []\<rparr>"

definition newPort :: "int \<Rightarrow> ini_Port" where
  "newPort mtu = \<lparr>po_Name = [], po_Description = [], po_PciAddress = [], po_TrafficType = [], po_TrafficDirection = [],
     po_EgressPort = 0, po_EgressPortID = [], po_MAC = [], po_LBPMAC = [], po_MTU = mtu, po_Routes = []\<rparr>"

text \<open>The loop over the map of interfaces, in the order in which the map is iterated.\<close>

fun makePorts :: "int \<Rightarrow> (string \<times> interfaceData) list \<Rightarrow> NtsConfig \<Rightarrow> string + NtsConfig" where
  "makePorts mtu [] cfg = Inr cfg"
| "makePorts mtu ((pci, d) # ds) cfg =
     (case UpdateFromTrafficPolicy (if_TrafficPolicy d) (newPort mtu) of
        (_, Some e) \<Rightarrow> Inl (''failed to create port from traffic policy (pci: '' @ pci @ ''): '' @ e)
      | (port, None) \<Rightarrow>
          (case UpdateFromNetworkInterface (if_NetworkInterface d) port of
             (_, Some e) \<Rightarrow> Inl (''failed to create port from network interface (pci: '' @ pci @ ''): '' @ e)
           | (port', None) \<Rightarrow> makePorts mtu ds (AddNewPort port' cfg)))"

definition SaveToFile :: "ela_env \<Rightarrow> NtsConfig \<Rightarrow> unit ela" where
  "SaveToFile env nts =
     (case WriteToBuffer (en_iniText env) nts of Inl e \<Rightarrow> failL e | Inr buf \<Rightarrow> callL env (SaveConfig nts))"

definition makeAndSaveNtsConfig :: "ela_env \<Rightarrow> (string, interfaceData) gomap \<Rightarrow> unit ela" where
  "makeAndSaveNtsConfig env data =
     (case makePorts (ec_InterfaceMTU (en_Config env)) (en_range env data) ntsConfigTemplate of
        Inl e \<Rightarrow> failL e
      | Inr cfg \<Rightarrow> SaveToFile env (Nts_Update cfg))"

definition rebindDevices :: "ela_env \<Rightarrow> string list \<Rightarrow> int \<Rightarrow> unit ela" where
  "rebindDevices env pcis driver =
     (let bindParams = [''-b'', if driver = 0 then ''none'' else ''igb_uio''] @ pcis
      in if length bindParams = 2 then retL () else wrapL ''devices bind failure'' (callL env (DevBind bindParams)))"

definition stopDNSAndRemoveRules :: "ela_env \<Rightarrow> unit ela" where
  "stopDNSAndRemoveRules env =
     bindL (wrapL ''failed to stop Edge DNS'' (stopContainer env dnsContainerName)) (\<lambda>_ s.
       case isNTSrunning env s of
         Panic s' \<Rightarrow> Some (Panic s')
       | Ret s' (Some _) \<Rightarrow> Some (Ret s' (Inr ()))
       | Ret s' None \<Rightarrow>
           wrapL ''failed to remove TrafficRules for Edge DNS''
             (dialL env \<lparr>qp_Id = dnsContainerName, qp_TrafficRules = []\<rparr>) s')"

text \<open>Both loops wait for the next tick; they leave only by a result, an error or the end of the context.\<close>

partial_function (option) waitKNI :: "ela_env \<Rightarrow> ela_state \<Rightarrow> (ela_state, string + string) go option" where
  "waitKNI env s =
     (let k = el_ticks s; s1 = s\<lparr>el_ticks := Suc k\<rparr>
      in case en_ctxErr env k of
           Some e \<Rightarrow> Some (Ret s1 (Inl (''context error while waiting for Edge DNS KNI: '' @ e)))
         | None \<Rightarrow>
             (case isNTSrunning env s1 of
                Panic s' \<Rightarrow> Some (Panic s')
              | Ret s' r \<Rightarrow>
                  (case r of
                     Some e \<Rightarrow> Some (Ret s' (Inl (''NTS failed to start: '' @ e)))
                   | None \<Rightarrow>
                       (case getMACForContainerKNI env k dnsContainerName of
                          Panic _ \<Rightarrow> Some (Panic s')
                        | Ret _ m \<Rightarrow> (case m of Inr mac \<Rightarrow> Some (Ret s' (Inr mac)) | Inl _ \<Rightarrow> waitKNI env s')))))"

partial_function (option) waitForNTS :: "ela_env \<Rightarrow> ela_state \<Rightarrow> (ela_state, string + unit) go option" where
  "waitForNTS env s =
     (let k = el_ticks s; s1 = s\<lparr>el_ticks := Suc k\<rparr>
      in case en_ctxErr env k of
           Some e \<Rightarrow> Some (Ret s1 (Inl e))
         | None \<Rightarrow>
             (case isNTSrunning env s1 of
                Panic s' \<Rightarrow> Some (Panic s')
              | Ret s' r \<Rightarrow>
                  (case r of
                     Some e \<Rightarrow> Some (Ret s' (Inl (''NTS failed to start: '' @ e)))
                   | None \<Rightarrow>
                       (case en_stat env k of
                          StatFound \<Rightarrow> Some (Ret s' (Inr ()))
                        | StatError e \<Rightarrow> Some (Ret s' (Inl (''failed to stat NTS' usvhost file: '' @ e)))
                        | StatNotExist \<Rightarrow> waitForNTS env s'))))"

declare waitKNI.simps [code] waitForNTS.simps [code]

definition dnsRule :: "ela_Configuration \<Rightarrow> string \<Rightarrow> PBTrafficSelector option \<Rightarrow> string \<Rightarrow> PBTrafficRule" where
  "dnsRule cfg desc src mac =
     \<lparr>qr_Description = desc, qr_Priority = 5, qr_Source = src,
      qr_Destination = Some (noSelector\<lparr>qs_Ip := Some (noIPFilter\<lparr>qi_Address := ec_DNSIP cfg, qi_Mask := 32\<rparr>)\<rparr>),
      qr_Target = Some \<lparr>qt_Description = [], qt_Action = ACCEPT, qt_Mac = Some mac, qt_Ip = None\<rparr>\<rparr>"

definition dnsPolicy :: "ela_Configuration \<Rightarrow> string \<Rightarrow> PBTrafficPolicy" where
  "dnsPolicy cfg mac =
     \<lparr>qp_Id = dnsContainerName,
      qp_TrafficRules =
        [dnsRule cfg ''Edge DNS svr - IP traffic'' None mac,
         dnsRule cfg ''Edge DNS svr - LTE traffic''
           (Some (noSelector\<lparr>qs_Gtp := Some \<lparr>qg_Address = ''0.0.0.0'', qg_Mask = 0, qg_Imsis = []\<rparr>\<rparr>)) mac]\<rparr>"

definition restartDNSAndSetRules :: "ela_env \<Rightarrow> unit ela" where
  "restartDNSAndSetRules env =
     bindL (wrapL ''failed to update Edge DNS container'' (updateContainer env dnsContainerName)) (\<lambda>_.
     bindL (wrapL ''failed to start Edge DNS'' (startContainer env dnsContainerName)) (\<lambda>_.
     bindL (waitKNI env) (\<lambda>dnsKNImac.
     wrapL ''failed to set TrafficRules for Edge DNS'' (dialL env (dnsPolicy (en_Config env) dnsKNImac)))))"

definition forgetInterfaces :: "unit ela" where
  "forgetInterfaces s =
     Some (Ret (s\<lparr>el_InterfaceConfigurationData := (el_InterfaceConfigurationData s)\<lparr>id_NetworkInterfaces := None\<rparr>\<rparr>) (Inr ()))"

definition startNTSandDNS :: "ela_env \<Rightarrow> unit ela" where
  "startNTSandDNS env =
     bindL (wrapL ''failed to update NTS container'' (updateContainer env ntsContainerName)) (\<lambda>_.
     bindL (wrapL ''failed to start NTS'' (startContainer env ntsContainerName)) (\<lambda>_.
     bindL forgetInterfaces (\<lambda>_.
     bindL (wrapL ''NTS did not start fully'' (waitForNTS env)) (\<lambda>_.
     restartDNSAndSetRules env))))"

definition showList :: "string list \<Rightarrow> string" where
  "showList xs = ''['' @ stringsJoin (CHR '' '') xs @ '']''"

text \<open>The steps of \<open>configureNTS\<close> after the check of the data.\<close>

definition reconfigure :: "ela_env \<Rightarrow> InterfacesData \<Rightarrow> unit ela" where
  "reconfigure env d =
     bindL (wrapL ''failed to get list of devices to unbind'' (pureL (getNetworkInterfaces env))) (\<lambda>nis.
     let devsToUnbind = getDevicesToUnbind nis d; devsToBind = getDevicesToBind d
     in if isAnyAppRunning then failL (''there'' @ [CHR 0x27] @ ''s at least 1 app currently running'')
        else
          bindL (wrapL ''failed to make new NTS config'' (makeAndSaveNtsConfig env (toMap d))) (\<lambda>_.
          bindL (wrapL ''failed to stop Edge DNS'' (stopDNSAndRemoveRules env)) (\<lambda>_.
          bindL (wrapL ''failed to stop NTS'' (stopContainer env ntsContainerName)) (\<lambda>_.
          bindL (wrapL (''failed to unbind devices: '' @ showList devsToUnbind) (rebindDevices env devsToUnbind 0)) (\<lambda>_.
          bindL (wrapL (''failed to bind devices to DPDK driver: '' @ showList devsToBind) (rebindDevices env devsToBind 1)) (\<lambda>_.
          startNTSandDNS env))))))"

definition configureNTS :: "ela_env \<Rightarrow> unit ela" where
  "configureNTS env s =
     (case InterfacesData_validate (el_InterfaceConfigurationData s) of
        Some e \<Rightarrow> failL (''invalid configuration data: '' @ e) s
      | None \<Rightarrow> reconfigure env (el_InterfaceConfigurationData s) s)"

section \<open>The services\<close>

definition Ela_Update :: "PBNetworkInterface \<Rightarrow> rpcError option" where
  "Ela_Update n = Some (StatusError Unimplemented_code ''not implemented'')"

definition Ela_BulkUpdate :: "ela_env \<Rightarrow> PBNetworkInterface list \<Rightarrow> unit ela" where
  "Ela_BulkUpdate env networkInterfaces s =
     (case ValidateNetworkInterfaces (Some networkInterfaces) of
        Some e \<Rightarrow> failL e s
      | None \<Rightarrow>
          wrapL ''failed to configure NTS'' (configureNTS env)
            (s\<lparr>el_InterfaceConfigurationData :=
                (el_InterfaceConfigurationData s)\<lparr>id_NetworkInterfaces := Some networkInterfaces\<rparr>\<rparr>))"

definition Ela_GetAll :: "ela_env \<Rightarrow> (unit, rpcError + PBNetworkInterface list) go" where
  "Ela_GetAll env =
     (case getNetworkInterfaces env of
        Panic u \<Rightarrow> Panic u
      | Ret u (Inl e) \<Rightarrow> Ret u (Inl (PlainError (''failed to obtain network interfaces: '' @ e)))
      | Ret u (Inr nis) \<Rightarrow> Ret u (Inr nis))"

definition Ela_Get :: "ela_env \<Rightarrow> string \<Rightarrow> (unit, rpcError + PBNetworkInterface) go" where
  "Ela_Get env i =
     (if i = [] then Ret () (Inl (StatusError InvalidArgument_code ''empty id''))
      else
        (case getNetworkInterfaces env of
           Panic u \<Rightarrow> Panic u
         | Ret u (Inl e) \<Rightarrow> Ret u (Inl (PlainError (''failed to obtain network interfaces: '' @ e)))
         | Ret u (Inr nis) \<Rightarrow>
             (case find (\<lambda>n. pi_Id n = i) nis of
                Some n \<Rightarrow> Ret u (Inr n)
              | None \<Rightarrow> Ret u (Inl (StatusError NotFound_code ''interface not found'')))))"

definition Ela_IfacePolicy_Set :: "PBTrafficPolicy \<Rightarrow> ela_state \<Rightarrow> ela_state \<times> rpcError option" where
  "Ela_IfacePolicy_Set tp s =
     (case VerifyTrafficPolicy (Some tp) of
        Some e \<Rightarrow> (s, Some (PlainError e))
      | None \<Rightarrow>
          (let d = el_InterfaceConfigurationData s
           in (s\<lparr>el_InterfaceConfigurationData := d\<lparr>id_TrafficPolicies := gm_put (qp_Id tp) tp (id_TrafficPolicies d)\<rparr>\<rparr>, None)))"

definition withMAC :: "string \<Rightarrow> PBTrafficRule \<Rightarrow> PBTrafficRule" where
  "withMAC mac r = r\<lparr>qr_Target := map_option (\<lambda>t. t\<lparr>qt_Mac := Some mac\<rparr>) (qr_Target r)\<rparr>"

text \<open>The text of the first error is passed as a format; texts without \<open>%\<close> come out unchanged.\<close>

definition Ela_AppPolicy_Set :: "ela_env \<Rightarrow> PBTrafficPolicy \<Rightarrow> ela_state \<Rightarrow> (ela_state, rpcError option) go" where
  "Ela_AppPolicy_Set env tp s =
     (case VerifyTrafficPolicy (Some tp) of
        Some e \<Rightarrow> Ret s (Some (StatusError InvalidArgument_code e))
      | None \<Rightarrow>
          (case GetMacAddress env (el_ticks s) (qp_Id tp) of
             Panic _ \<Rightarrow> Panic s
           | Ret _ (Inl e) \<Rightarrow>
               Ret s (Some (StatusError NotFound_code
                 (''ApplicationPolicyService Set: MAC not found for '' @ quoted (qp_Id tp) @ '' because: '' @ e)))
           | Ret _ (Inr mac) \<Rightarrow>
               (case VerifyMACAddress mac of
                  Some e \<Rightarrow>
                    Ret s (Some (StatusError NotFound_code
                      (''ApplicationPolicyService Set: MAC '' @ quoted mac @ '' format is incorrect because: '' @ e)))
                | None \<Rightarrow>
                    (case DialEDASet env (tp\<lparr>qp_TrafficRules := map (withMAC mac) (qp_TrafficRules tp)\<rparr>) s of
                       (s', r) \<Rightarrow> Ret s' r))))"

end
