(* ===== verification/Eda_Facts.thy ===== *)
theory Eda_Facts
  imports Eda
begin

text \<open>
  What the dataplane agent does with the routes: every route that the transport service accepted is
  in the memory of the agent or was handed to the removal exactly once.
\<close>

section \<open>Accounting\<close>

fun addedKeys :: "nts_call \<times> bool \<Rightarrow> string list" where
  "addedKeys (NesRouteAdd m k, True) = [k]"
| "addedKeys _ = []"

fun removedKeys :: "nts_call \<times> bool \<Rightarrow> string list" where
  "removedKeys (NesRouteRemove k, _) = [k]"
| "removedKeys _ = []"

definition added :: "nts \<Rightarrow> string multiset" where
  "added n = mset (concat (map addedKeys n))"

definition removals :: "nts \<Rightarrow> string multiset" where
  "removals n = mset (concat (map removedKeys n))"

definition ruleKeys :: "AppTrafficPolicy \<Rightarrow> string list" where
  "ruleKeys p = map pr_LookupKeys (at_NtsTrafficRules p)"

definition keysOf :: "(string, AppTrafficPolicy) gomap \<Rightarrow> string \<Rightarrow> string list" where
  "keysOf m i = (case gm_get m i of None \<Rightarrow> [] | Some p \<Rightarrow> ruleKeys p)"

definition held :: "(string, AppTrafficPolicy) gomap \<Rightarrow> string multiset" where
  "held m = mset (concat (map (ruleKeys \<circ> snd) m))"

definition accounted :: "eda_state \<Rightarrow> bool" where
  "accounted s \<longleftrightarrow>
     gm_ok (ed_AppTrafficPolicies s) \<and> added (ed_nts s) = removals (ed_nts s) + held (ed_AppTrafficPolicies s)"

abbreviation addCall :: "TrafficRuleParsed \<Rightarrow> nts_call" where
  "addCall r \<equiv> NesRouteAdd (take 6 (pr_Mac r)) (pr_LookupKeys r)"

lemma added_append [simp]: "added (n @ n') = added n + added n'"
  by (simp add: added_def)

lemma removals_append [simp]: "removals (n @ n') = removals n + removals n'"
  by (simp add: removals_def)

lemma calls_simps [simp]:
  "added [] = {#}" "removals [] = {#}"
  "added ((NesConnInit, b) # n) = added n" "removals ((NesConnInit, b) # n) = removals n"
  "added ((NesConnClose, b) # n) = added n" "removals ((NesConnClose, b) # n) = removals n"
  "added ((NesRouteAdd m k, b) # n) = (if b then {#k#} else {#}) + added n"
  "removals ((NesRouteAdd m k, b) # n) = removals n"
  "added ((NesRouteRemove k, b) # n) = added n"
  "removals ((NesRouteRemove k, b) # n) = {#k#} + removals n"
  by (cases b; simp add: added_def removals_def)+

lemma added_adds [simp]:
  "added (map (\<lambda>r. (addCall r, True)) rs) = mset (map pr_LookupKeys rs)"
  "removals (map (\<lambda>r. (addCall r, True)) rs) = {#}"
  by (induction rs) auto

text \<open>Both counts depend only on the collection of calls, not on their order.\<close>

lemma removed_calls:
  assumes "mset (map fst cs) = mset (map NesRouteRemove ks)"
  shows "added cs = {#}" "removals cs = mset ks"
proof -
  have rem: "\<exists>k. c = NesRouteRemove k" if "(c, b) \<in> set cs" for c b
  proof -
    have "set (map fst cs) = set (map NesRouteRemove ks)" using assms by (metis set_mset_mset)
    moreover have "c \<in> set (map fst cs)" using that by force
    ultimately show ?thesis by auto
  qed
  then have "added cs = {#} \<and> image_mset NesRouteRemove (removals cs) = mset (map fst cs)"
    by (induction cs) (fastforce simp: added_def removals_def)+
  then have "added cs = {#}" and eq: "image_mset NesRouteRemove (removals cs) = image_mset NesRouteRemove (mset ks)"
    using assms by auto
  moreover have "inj NesRouteRemove" by (simp add: inj_def)
  ultimately show "added cs = {#}" "removals cs = mset ks"
    using multiset.inj_map injD by metis+
qed

declare gm_del_put [simp]

lemma keysOf_simps [simp]:
  "keysOf (gm_put i p m) j = (if j = i then ruleKeys p else keysOf m j)"
  "keysOf (gm_del i m) j = (if j = i then [] else keysOf m j)"
  by (simp_all add: keysOf_def)

lemma held_put: "gm_ok m \<Longrightarrow> held (gm_put i p m) + mset (keysOf m i) = held m + mset (ruleKeys p)"
  by (induction m) (auto simp: held_def keysOf_def gm_put_id ac_simps)

lemma held_del: "gm_ok m \<Longrightarrow> held (gm_del i m) + mset (keysOf m i) = held m"
  by (induction m) (auto simp: held_def keysOf_def gm_del_absent ac_simps)

lemma mset_dropFirst: "mset (dropFirst (x # xs)) = mset xs"
proof (cases xs rule: rev_cases)
  case (snoc ys y)
  then show ?thesis by (simp add: dropFirst_def Let_def nth_append list_update_append)
qed (simp add: dropFirst_def Let_def)

lemma length_dropFirst: "length (dropFirst (x # xs)) = length xs"
  using mset_dropFirst by (metis size_mset)

section \<open>The agent on any connection that keeps the log\<close>

locale nts_connection =
  fixes conn :: NtsConnectionInt
  assumes remove_logged: "nc_RouteRemove conn k n = (n', e) \<Longrightarrow> n' = n @ [(NesRouteRemove k, e = None)]"
    and add_logged: "6 \<le> length mac \<Longrightarrow>
      \<exists>e. nc_RouteAdd conn mac k n = Ret (n @ [(NesRouteAdd (take 6 mac) k, e = None)]) e"
    and close_logged: "nc_Disconnect conn n = (n', e) \<Longrightarrow> n' = n @ [(NesConnClose, e = None)]"
begin

lemma loop_removes:
  assumes "gm_get (ed_AppTrafficPolicies s) i = Some p" "k = length (at_NtsTrafficRules p)"
  shows "\<exists>cs. removeRules_loop k i conn s =
      Ret (s\<lparr>ed_nts := ed_nts s @ cs,
             ed_AppTrafficPolicies := gm_put i (p\<lparr>at_NtsTrafficRules := []\<rparr>) (ed_AppTrafficPolicies s)\<rparr>) ()
      \<and> mset (map fst cs) = mset (map NesRouteRemove (ruleKeys p))"
  using assms
proof (induction k arbitrary: s p)
  case 0
  then have "p\<lparr>at_NtsTrafficRules := []\<rparr> = p" by simp
  then show ?case using 0 by (intro exI [of _ "[]"]) (simp add: gm_put_id ruleKeys_def)
next
  case (Suc k)
  then obtain r rs where rs: "at_NtsTrafficRules p = r # rs" by (cases "at_NtsTrafficRules p") auto
  obtain n e where n: "nc_RouteRemove conn (pr_LookupKeys r) (ed_nts s) = (n, e)" by fastforce
  then have n': "n = ed_nts s @ [(NesRouteRemove (pr_LookupKeys r), e = None)]" by (rule remove_logged)
  let ?p = "p\<lparr>at_NtsTrafficRules := dropFirst (r # rs)\<rparr>"
  let ?s = "s\<lparr>ed_nts := n, ed_AppTrafficPolicies := gm_put i ?p (ed_AppTrafficPolicies s)\<rparr>"
  have "gm_get (ed_AppTrafficPolicies ?s) i = Some ?p" "k = length (at_NtsTrafficRules ?p)"
    using Suc.prems rs by (simp_all add: length_dropFirst)
  from Suc.IH [OF this] obtain cs where cs: "removeRules_loop k i conn ?s =
      Ret (?s\<lparr>ed_nts := ed_nts ?s @ cs,
              ed_AppTrafficPolicies := gm_put i (?p\<lparr>at_NtsTrafficRules := []\<rparr>) (ed_AppTrafficPolicies ?s)\<rparr>) ()"
    "mset (map fst cs) = mset (map NesRouteRemove (ruleKeys ?p))" by blast
  have "mset (ruleKeys ?p) = mset (map pr_LookupKeys rs)" by (simp add: ruleKeys_def mset_dropFirst)
  then have "mset (map NesRouteRemove (ruleKeys ?p)) = mset (map NesRouteRemove (map pr_LookupKeys rs))"
    by (simp only: mset_map)
  then show ?case using Suc.prems(1) rs n n' cs
    by (intro exI [of _ "(NesRouteRemove (pr_LookupKeys r), e = None) # cs"]) (simp add: ruleKeys_def)
qed

lemma RemoveRules_effect:
  "\<exists>cs. RemoveRules i (Some conn) s =
      Ret (s\<lparr>ed_nts := ed_nts s @ cs, ed_AppTrafficPolicies := gm_del i (ed_AppTrafficPolicies s)\<rparr>) None
    \<and> mset (map fst cs) = mset (map NesRouteRemove (keysOf (ed_AppTrafficPolicies s) i))"
proof (cases "gm_get (ed_AppTrafficPolicies s) i")
  case None
  then show ?thesis by (intro exI [of _ "[]"]) (simp add: RemoveRules_def keysOf_def gm_del_absent)
next
  case (Some p)
  from loop_removes [OF Some refl] show ?thesis
    by (elim exE conjE) (auto simp: RemoveRules_def Some keysOf_def)
qed

text \<open>The loop that adds: all the routes were accepted, or one was refused and the earlier ones are removed.\<close>

lemma addRules_effect:
  assumes "\<forall>r \<in> set rs. 6 \<le> length (pr_Mac r)" "gm_get (ed_AppTrafficPolicies s) i = Some p"
  shows "addRules_loop conn i rs s =
      Ret (s\<lparr>ed_nts := ed_nts s @ map (\<lambda>r. (addCall r, True)) rs,
             ed_AppTrafficPolicies :=
               gm_put i (p\<lparr>at_NtsTrafficRules := at_NtsTrafficRules p @ rs\<rparr>) (ed_AppTrafficPolicies s)\<rparr>) None
    \<or> (\<exists>k cs e. k < length rs \<and> addRules_loop conn i rs s =
        Ret (s\<lparr>ed_nts := ed_nts s @ map (\<lambda>r. (addCall r, True)) (take k rs) @ (addCall (rs ! k), False) # cs,
               ed_AppTrafficPolicies := gm_del i (ed_AppTrafficPolicies s)\<rparr>) (Some e)
        \<and> errorCode e = Unknown_code
        \<and> mset (map fst cs) = mset (map NesRouteRemove (ruleKeys p @ map pr_LookupKeys (take k rs))))"
  using assms
proof (induction rs arbitrary: s p)
  case Nil
  then show ?case by (simp add: gm_put_id)
next
  case (Cons r rs)
  from Cons.prems(1) add_logged [of "pr_Mac r" "pr_LookupKeys r" "ed_nts s"]
  obtain e where e: "nc_RouteAdd conn (pr_Mac r) (pr_LookupKeys r) (ed_nts s) =
      Ret (ed_nts s @ [(addCall r, e = None)]) e" by auto
  show ?case
  proof (cases e)
    case (Some x)
    from RemoveRules_effect [of i "s\<lparr>ed_nts := ed_nts s @ [(addCall r, False)]\<rparr>"] obtain cs where
      "RemoveRules i (Some conn) (s\<lparr>ed_nts := ed_nts s @ [(addCall r, False)]\<rparr>) =
        Ret (s\<lparr>ed_nts := ed_nts s @ (addCall r, False) # cs,
               ed_AppTrafficPolicies := gm_del i (ed_AppTrafficPolicies s)\<rparr>) None"
      "mset (map fst cs) = mset (map NesRouteRemove (ruleKeys p))"
      using Cons.prems(2) by (auto simp: keysOf_def)
    then show ?thesis using e Some by (intro disjI2 exI [of _ 0] exI [of _ cs]) auto
  next
    case None
    let ?p = "p\<lparr>at_NtsTrafficRules := at_NtsTrafficRules p @ [r]\<rparr>"
    let ?s = "s\<lparr>ed_nts := ed_nts s @ [(addCall r, True)],
                ed_AppTrafficPolicies := gm_put i ?p (ed_AppTrafficPolicies s)\<rparr>"
    have step: "addRules_loop conn i (r # rs) s = addRules_loop conn i rs ?s"
      using e None Cons.prems(2) by simp
    have "\<forall>r \<in> set rs. 6 \<le> length (pr_Mac r)" "gm_get (ed_AppTrafficPolicies ?s) i = Some ?p"
      using Cons.prems(1) by simp_all
    from Cons.IH [OF this] show ?thesis
    proof (elim disjE exE conjE)
      fix k cs x
      assume "k < length rs" and "errorCode x = Unknown_code" and "mset (map fst cs) = mset (map NesRouteRemove (ruleKeys ?p @ map pr_LookupKeys (take k rs)))"
        and "addRules_loop conn i rs ?s =
          Ret (?s\<lparr>ed_nts := ed_nts ?s @ map (\<lambda>r. (addCall r, True)) (take k rs) @ (addCall (rs ! k), False) # cs,
                  ed_AppTrafficPolicies := gm_del i (ed_AppTrafficPolicies ?s)\<rparr>) (Some x)"
      then show ?thesis using step
        by (intro disjI2 exI [of _ "Suc k"] exI [of _ cs] exI [of _ x]) (simp add: ruleKeys_def)
    qed (simp add: e None Cons.prems(2))
  qed
qed

end

section \<open>The handler on any connector\<close>

lemma macBytes_length: "macBytes n sep s = Some bs \<Longrightarrow> length bs = n"
  by (induction n sep s arbitrary: bs rule: macBytes.induct) (auto split: option.splits if_splits)

lemma macPairs_length: "macPairs n s = Some bs \<Longrightarrow> length bs = 2 * n"
  by (induction n s arbitrary: bs rule: macPairs.induct) (auto split: option.splits if_splits)

lemma ParseMAC_length: "netParseMAC s = Some bs \<Longrightarrow> 6 \<le> length bs"
  by (auto simp: netParseMAC_def Let_def split: if_splits dest!: macBytes_length macPairs_length)

lemma validated_macs:
  "validateRules_loop rules acc = Inr rs \<Longrightarrow> \<forall>r \<in> set acc. 6 \<le> length (pr_Mac r) \<Longrightarrow>
   \<forall>r \<in> set rs. 6 \<le> length (pr_Mac r)"
proof (induction rules acc rule: validateRules_loop.induct)
  case (2 rule rules acc)
  then show ?case by (auto simp: ParseMAC_length split: sum.splits option.splits)
qed simp

lemma Validate_macs: "ValidateTrafficRules tp = Inr rs \<Longrightarrow> \<forall>r \<in> set rs. 6 \<le> length (pr_Mac r)"
  using validated_macs [of "qp_TrafficRules tp" "[]" rs] by (simp add: ValidateTrafficRules_def)

text \<open>What a call that got a connection leaves: nothing of the application, or exactly the rules of the policy.\<close>

definition clearedBy :: "PBTrafficPolicy \<Rightarrow> eda_state \<Rightarrow> eda_state \<Rightarrow> bool" where
  "clearedBy tp s s' \<longleftrightarrow> ed_AppTrafficPolicies s' = gm_del (qp_Id tp) (ed_AppTrafficPolicies s)"

definition installedBy :: "PBTrafficPolicy \<Rightarrow> TrafficRuleParsed list \<Rightarrow> eda_state \<Rightarrow> eda_state \<Rightarrow> bool" where
  "installedBy tp rs s s' \<longleftrightarrow>
     ed_AppTrafficPolicies s' =
       gm_put (qp_Id tp) \<lparr>at_Policy = tp, at_NtsTrafficRules = rs\<rparr> (gm_del (qp_Id tp) (ed_AppTrafficPolicies s))"

text \<open>The calls of one request, and whether a route was refused.\<close>

definition setCalls :: "eda_state \<Rightarrow> eda_state \<Rightarrow> nts" where
  "setCalls s s' = drop (length (ed_nts s)) (ed_nts s')"

fun refusedAdd :: "nts_call \<times> bool \<Rightarrow> bool" where
  "refusedAdd (NesRouteAdd m k, False) = True"
| "refusedAdd _ = False"

definition outcome :: "PBTrafficPolicy \<Rightarrow> eda_state \<Rightarrow> eda_state \<Rightarrow> rpcError option \<Rightarrow> bool" where
  "outcome tp s s' e \<longleftrightarrow>
     (if qp_TrafficRules tp = [] then e = None \<and> clearedBy tp s s'
      else (case ValidateTrafficRules tp of
              Inl err \<Rightarrow> map_option errorCode e = Some (errorCode err) \<and> clearedBy tp s s'
            | Inr rs \<Rightarrow>
                (if list_ex refusedAdd (setCalls s s') then map_option errorCode e = Some Unknown_code \<and> clearedBy tp s s'
                 else e = None \<and> installedBy tp rs s s')))"

lemma accounted_log [simp]:
  "added cs = {#} \<Longrightarrow> removals cs = {#} \<Longrightarrow> accounted (s\<lparr>ed_nts := ed_nts s @ cs\<rparr>) = accounted s"
  by (simp add: accounted_def)

lemma accounted_remove:
  assumes "accounted s" "mset (map fst cs) = mset (map NesRouteRemove (keysOf (ed_AppTrafficPolicies s) i))"
  shows "accounted (s\<lparr>ed_nts := ed_nts s @ cs, ed_AppTrafficPolicies := gm_del i (ed_AppTrafficPolicies s)\<rparr>)"
  using assms held_del [of "ed_AppTrafficPolicies s" i] removed_calls [OF assms(2)]
  by (auto simp: accounted_def ac_simps)

lemma accounted_add:
  assumes "accounted s" "keysOf (ed_AppTrafficPolicies s) i = []"
  shows "accounted (s\<lparr>ed_nts := ed_nts s @ map (\<lambda>r. (addCall r, True)) rs,
    ed_AppTrafficPolicies := gm_put i \<lparr>at_Policy = tp, at_NtsTrafficRules = rs\<rparr> (ed_AppTrafficPolicies s)\<rparr>)"
  using assms held_put [of "ed_AppTrafficPolicies s" i "\<lparr>at_Policy = tp, at_NtsTrafficRules = rs\<rparr>"]
  by (auto simp: accounted_def ruleKeys_def ac_simps)

lemma accounted_rollback:
  assumes "accounted s" "mset (map fst cs) = mset (map NesRouteRemove (map pr_LookupKeys rs))"
  shows "accounted (s\<lparr>ed_nts := ed_nts s @ map (\<lambda>r. (addCall r, True)) rs @ (addCall r, False) # cs\<rparr>)"
  using assms(1) removed_calls [OF assms(2)] by (simp add: accounted_def)

lemma removal_calls:
  assumes "mset (map fst cs) = mset (map NesRouteRemove ks)"
  shows "\<not> list_ex refusedAdd cs"
proof -
  have "set (map fst cs) = set (map NesRouteRemove ks)" using assms by (metis set_mset_mset)
  then have "fst c \<in> NesRouteRemove ` UNIV" if "c \<in> set cs" for c using that by auto
  then have "\<not> refusedAdd c" if "c \<in> set cs" for c using that by (cases c) fastforce
  then show ?thesis by (simp add: list_ex_iff)
qed

context nts_connection
begin

lemma Disconnect_effect: "\<exists>b. DisconnectNTS conn s = s\<lparr>ed_nts := ed_nts s @ [(NesConnClose, b)]\<rparr>"
  using close_logged [of "ed_nts s"] by (auto simp: DisconnectNTS_def split: prod.splits)

text \<open>Adding the rules of a policy for an application that has none.\<close>

lemma AddRequest_effect:
  assumes "gm_get (ed_AppTrafficPolicies s) (qp_Id tp) = None" "ValidateTrafficRules tp = Inr rs"
  shows "AddRequest conn tp s =
      Ret (s\<lparr>ed_nts := ed_nts s @ map (\<lambda>r. (addCall r, True)) rs,
             ed_AppTrafficPolicies :=
               gm_put (qp_Id tp) \<lparr>at_Policy = tp, at_NtsTrafficRules = rs\<rparr> (ed_AppTrafficPolicies s)\<rparr>) None
    \<or> (\<exists>k cs e. AddRequest conn tp s =
        Ret (s\<lparr>ed_nts := ed_nts s @ map (\<lambda>r. (addCall r, True)) (take k rs) @ (addCall (rs ! k), False) # cs\<rparr>) (Some e)
        \<and> errorCode e = Unknown_code
        \<and> mset (map fst cs) = mset (map NesRouteRemove (map pr_LookupKeys (take k rs))))"
proof -
  let ?p = "\<lparr>at_Policy = tp, at_NtsTrafficRules = []\<rparr>"
  let ?s = "s\<lparr>ed_AppTrafficPolicies := gm_put (qp_Id tp) ?p (ed_AppTrafficPolicies s)\<rparr>"
  have "AddRequest conn tp s = addRules_loop conn (qp_Id tp) rs ?s" by (simp add: AddRequest_def assms(2))
  moreover have "gm_get (ed_AppTrafficPolicies ?s) (qp_Id tp) = Some ?p" by simp
  ultimately show ?thesis
    using addRules_effect [OF Validate_macs [OF assms(2)], of ?s "qp_Id tp" ?p] assms(1)
    by (auto simp: ruleKeys_def gm_del_absent)
qed

end

locale nts_connector =
  fixes newConn :: "nts \<Rightarrow> nts \<times> (string + NtsConnectionInt)"
  assumes refused_logged: "newConn n = (n', Inl e) \<Longrightarrow> n' = n @ [(NesConnInit, False)]"
    and connected_logged: "newConn n = (n', Inr c) \<Longrightarrow> n' = n @ [(NesConnInit, True)]"
    and connection: "newConn n = (n', Inr c) \<Longrightarrow> nts_connection c"
begin

text \<open>After the old rules are gone the rest of the handler runs on \<open>s1\<close>, and the connection is closed.\<close>

lemma Set_clears:
  assumes "newConn (ed_nts s) = (n, Inr conn)" "qp_Id tp \<noteq> []"
  obtains cs s1 where
    "s1 = s\<lparr>ed_nts := ed_nts s @ (NesConnInit, True) # cs,
            ed_AppTrafficPolicies := gm_del (qp_Id tp) (ed_AppTrafficPolicies s)\<rparr>"
    "\<not> list_ex refusedAdd cs" "accounted s \<longrightarrow> accounted s1"
    "\<And>t e. (if qp_TrafficRules tp \<noteq> [] then AddRequest conn tp s1 else Ret s1 None) = Ret t e \<Longrightarrow>
       \<exists>b. eda_Set newConn tp s = Ret (t\<lparr>ed_nts := ed_nts t @ [(NesConnClose, b)]\<rparr>) e"
proof -
  note c = connection [OF assms(1)]
  have n: "n = ed_nts s @ [(NesConnInit, True)]" by (rule connected_logged [OF assms(1)])
  let ?i = "qp_Id tp" and ?m = "ed_AppTrafficPolicies s"
  from nts_connection.RemoveRules_effect [OF c, of ?i "s\<lparr>ed_nts := n\<rparr>"] obtain cs where
    rem: "RemoveRules ?i (Some conn) (s\<lparr>ed_nts := n\<rparr>) = Ret (s\<lparr>ed_nts := n @ cs, ed_AppTrafficPolicies := gm_del ?i ?m\<rparr>) None"
    and cs: "mset (map fst cs) = mset (map NesRouteRemove (keysOf ?m ?i))" by auto
  show thesis
  proof (rule that [OF refl removal_calls [OF cs]], goal_cases)
    case 1
    then show ?case using accounted_remove [of "s\<lparr>ed_nts := n\<rparr>" cs ?i] cs by (simp add: n)
  next
    case (2 t e)
    from nts_connection.Disconnect_effect [OF c, of t] 2 rem show ?case
      by (auto simp: eda_Set_def assms disconnecting_def n)
  qed
qed

lemma Set_connected:
  assumes "newConn (ed_nts s) = (n, Inr conn)" "qp_Id tp \<noteq> []"
  shows "\<exists>s' e. eda_Set newConn tp s = Ret s' e \<and> outcome tp s s' e \<and> (accounted s \<longrightarrow> accounted s')"
proof (rule Set_clears [OF assms])
  fix cs s1
  assume s1: "s1 = s\<lparr>ed_nts := ed_nts s @ (NesConnInit, True) # cs,
            ed_AppTrafficPolicies := gm_del (qp_Id tp) (ed_AppTrafficPolicies s)\<rparr>"
    and cs: "\<not> list_ex refusedAdd cs" and acc: "accounted s \<longrightarrow> accounted s1"
    and rest: "\<And>t e. (if qp_TrafficRules tp \<noteq> [] then AddRequest conn tp s1 else Ret s1 None) = Ret t e \<Longrightarrow>
       \<exists>b. eda_Set newConn tp s = Ret (t\<lparr>ed_nts := ed_nts t @ [(NesConnClose, b)]\<rparr>) e"
  have fin: ?thesis if "(if qp_TrafficRules tp \<noteq> [] then AddRequest conn tp s1 else Ret s1 None) = Ret t e"
    "accounted s1 \<Longrightarrow> accounted t" "\<And>b. outcome tp s (t\<lparr>ed_nts := ed_nts t @ [(NesConnClose, b)]\<rparr>) e" for t e
    using rest [OF that(1)] acc that(2,3) by auto
  have adds: "\<not> list_ex refusedAdd (map (\<lambda>r. (addCall r, True)) rs)" for rs by (simp add: list_ex_iff)
  show ?thesis
  proof (cases "qp_TrafficRules tp = []")
    case True
    then show ?thesis by (intro fin [of s1 None]) (simp_all add: outcome_def clearedBy_def s1)
  next
    case rules: False
    show ?thesis
    proof (cases "ValidateTrafficRules tp")
      case (Inl err)
      then obtain m where "AddRequest conn tp s1 = Ret s1 (Some (StatusError (errorCode err) m))"
        by (simp add: AddRequest_def)
      then show ?thesis using rules Inl
        by (intro fin [of s1 "Some (StatusError (errorCode err) m)"]) (simp_all add: outcome_def clearedBy_def s1)
    next
      case (Inr rs)
      have none: "gm_get (ed_AppTrafficPolicies s1) (qp_Id tp) = None" by (simp add: s1)
      from nts_connection.AddRequest_effect [OF connection [OF assms(1)] none Inr] show ?thesis
      proof (elim disjE exE conjE, goal_cases)
        case 1
        show ?case
          using rules Inr cs adds [of rs] none
          by (intro fin [OF trans [OF if_P [OF rules] 1]] accounted_add)
            (simp_all add: keysOf_def outcome_def installedBy_def setCalls_def s1)
      next
        case (2 k ds e)
        show ?case using rules Inr 2(2,3)
          by (intro fin [OF trans [OF if_P [OF rules] 2(1)]] accounted_rollback)
            (simp_all add: outcome_def clearedBy_def setCalls_def s1)
      qed
    qed
  qed
qed

end

lemma newConn_ok: "nts_connection \<lparr>nc_RouteRemove = RouteRemove res, nc_RouteAdd = RouteAdd res, nc_Disconnect = Disconnect res\<rparr>"
  by unfold_locales (auto simp: RouteRemove_def RouteAdd_def Disconnect_def nesCall_def Let_def split: if_splits)

interpretation edants: nts_connection
  "\<lparr>nc_RouteRemove = RouteRemove res, nc_RouteAdd = RouteAdd res, nc_Disconnect = Disconnect res\<rparr>" for res
  by (rule newConn_ok)

interpretation ntsconn: nts_connector "NewNtsConnection res" for res
proof (rule nts_connector.intro)
  show "nts_connection c" if "NewNtsConnection res n = (n', Inr c)" for n n' c
    using that newConn_ok [of res] by (auto simp: NewNtsConnection_def nesCall_def Let_def split: if_splits)
qed (auto simp: NewNtsConnection_def nesCall_def Let_def split: if_splits)

section \<open>All requests\<close>

inductive eda_reach :: "(nat \<Rightarrow> int) \<Rightarrow> eda_state \<Rightarrow> bool" for res where
  start: "eda_reach res \<lparr>ed_AppTrafficPolicies = [], ed_nts = []\<rparr>"
| set: "eda_reach res s \<Longrightarrow> eda_Set (NewNtsConnection res) tp s = Ret s' e \<Longrightarrow> eda_reach res s'"

lemma NewNts_refused: "res (length n) \<noteq> 0 \<Longrightarrow> NewNtsConnection res n = (n @ [(NesConnInit, False)], Inl ''Connection failed'')"
  by (simp add: NewNtsConnection_def nesCall_def)

lemma NewNts_connected: "res (length n) = 0 \<Longrightarrow> \<exists>n' conn. NewNtsConnection res n = (n', Inr conn)"
  by (simp add: NewNtsConnection_def nesCall_def)

lemma Set_outcome:
  "\<exists>s' e. eda_Set (NewNtsConnection res) tp s = Ret s' e
     \<and> (if qp_Id tp = [] \<or> res (length (ed_nts s)) \<noteq> 0
        then map_option errorCode e = Some Unknown_code \<and> ed_AppTrafficPolicies s' = ed_AppTrafficPolicies s
        else outcome tp s s' e)
     \<and> (accounted s \<longrightarrow> accounted s')"
proof (cases "qp_Id tp = [] \<or> res (length (ed_nts s)) \<noteq> 0")
  case True
  then show ?thesis by (auto simp: eda_Set_def NewNts_refused)
next
  case False
  then obtain n conn where "NewNtsConnection res (ed_nts s) = (n, Inr conn)" using NewNts_connected by blast
  with ntsconn.Set_connected [of res s n conn tp] False show ?thesis by simp
qed

lemma eda_reach_accounted: "eda_reach res s \<Longrightarrow> accounted s"
proof (induction rule: eda_reach.induct)
  case start
  show ?case by (simp add: accounted_def held_def)
next
  case (set s tp s' e)
  then show ?case using Set_outcome [of res tp s] by auto
qed

end
