(* ===== verification/Ela_Facts.thy ===== *)
theory Ela_Facts
  imports Ela Eda_Facts "HOL-Library.Sublist"
begin

text \<open>
  The reconfiguration of the transport service: it returns when its context ends, what a success leaves,
  and how a policy of an application becomes routes.
\<close>

section \<open>Waiting\<close>

lemma isNTSrunning_keeps:
  "isNTSrunning env s = Ret s' r \<Longrightarrow>
     el_ticks s' = el_ticks s \<and> el_eda s' = el_eda s
     \<and> el_InterfaceConfigurationData s' = el_InterfaceConfigurationData s
     \<and> el_calls s' = el_calls s @ [InspectContainer ntsContainerName]"
  by (auto simp: isNTSrunning_def Let_def split: if_splits option.splits)

text \<open>A context that ends: from some tick on, its error is set.\<close>

definition ctxEnds :: "ela_env \<Rightarrow> bool" where
  "ctxEnds env \<longleftrightarrow> (\<exists>k. \<forall>n \<ge> k. en_ctxErr env n \<noteq> None)"

lemma ctx_measure:
  assumes "ctxEnds env" and step: "\<And>s. (\<And>s'. el_ticks s' = Suc (el_ticks s) \<Longrightarrow> P s') \<Longrightarrow> P s"
    and last: "\<And>s. en_ctxErr env (el_ticks s) \<noteq> None \<Longrightarrow> P s"
  shows "P (s :: ela_state)"
proof -
  obtain k where k: "\<forall>n \<ge> k. en_ctxErr env n \<noteq> None" using assms(1) by (auto simp: ctxEnds_def)
  show ?thesis
  proof (induction "k - el_ticks s" arbitrary: s)
    case 0
    then show ?case using k by (intro last) auto
  next
    case (Suc d)
    show ?case
    proof (rule step)
      fix s' :: ela_state
      assume "el_ticks s' = Suc (el_ticks s)"
      then show "P s'" using Suc by (intro Suc.hyps) auto
    qed
  qed
qed

lemma waitForNTS_returns: "ctxEnds env \<Longrightarrow> waitForNTS env s \<noteq> None"
proof (erule ctx_measure, goal_cases)
  case (1 s)
  then show ?case by (subst waitForNTS.simps) (auto simp: Let_def dest!: isNTSrunning_keeps split: option.splits go.splits statResult.splits)
next
  case (2 s)
  then show ?case by (subst waitForNTS.simps) (auto simp: Let_def)
qed

lemma waitKNI_returns: "ctxEnds env \<Longrightarrow> waitKNI env s \<noteq> None"
proof (erule ctx_measure, goal_cases)
  case (1 s)
  then show ?case by (subst waitKNI.simps) (auto simp: Let_def dest!: isNTSrunning_keeps split: option.splits go.splits sum.splits)
next
  case (2 s)
  then show ?case by (subst waitKNI.simps) (auto simp: Let_def)
qed

definition returns :: "'a ela \<Rightarrow> bool" where
  "returns m \<longleftrightarrow> (\<forall>s. m s \<noteq> None)"

lemma returns_bind [intro]: "returns m \<Longrightarrow> (\<And>x. returns (f x)) \<Longrightarrow> returns (bindL m f)"
  by (auto simp: returns_def bindL_def split: option.splits go.splits sum.splits)

lemma returns_basic [intro, simp]:
  "returns (retL x)" "returns (failL e)" "returns (pureL r)" "returns (logL env c)" "returns (dialL env p)"
  "returns forgetInterfaces"
  by (auto simp: returns_def retL_def failL_def pureL_def logL_def dialL_def forgetInterfaces_def
      split: go.splits prod.splits option.splits)

lemma returns_wrap [intro, simp]: "returns m \<Longrightarrow> returns (wrapL msg m)"
  by (auto simp: returns_def wrapL_def split: option.splits go.splits sum.splits)

lemma returns_call [intro, simp]: "returns (callL env c)" "returns (dockerL env c)"
  by (auto simp: callL_def dockerL_def split: option.splits)

lemma returns_docker [intro, simp]:
  "returns (updateContainer env c)" "returns (startContainer env c)" "returns (stopContainer env c)"
  "returns (makeAndSaveNtsConfig env d)" "returns (rebindDevices env ps dr)"
  by (auto simp: updateContainer_def startContainer_def stopContainer_def makeAndSaveNtsConfig_def SaveToFile_def
      rebindDevices_def Let_def split: sum.splits)

lemma returns_ifNTS [intro, simp]:
  "returns (\<lambda>s. case isNTSrunning env s of
         Panic s' \<Rightarrow> Some (Panic s')
       | Ret s' (Some _) \<Rightarrow> Some (Ret s' (Inr ()))
       | Ret s' None \<Rightarrow> wrapL m (dialL env p) s')"
  using returns_wrap [OF returns_basic(5)] by (auto simp: returns_def split: go.splits option.splits)

lemma returns_stopDNS [intro, simp]: "returns (stopDNSAndRemoveRules env)"
  unfolding stopDNSAndRemoveRules_def by (intro returns_bind returns_wrap returns_docker returns_ifNTS)

lemma returns_waits: "ctxEnds env \<Longrightarrow> returns (waitForNTS env)" "ctxEnds env \<Longrightarrow> returns (waitKNI env)"
  by (simp_all add: returns_def waitForNTS_returns waitKNI_returns)

lemma returns_start: "ctxEnds env \<Longrightarrow> returns (startNTSandDNS env)"
  unfolding startNTSandDNS_def restartDNSAndSetRules_def
  by (intro returns_bind returns_wrap returns_docker returns_basic returns_waits)

lemma returns_configure: "ctxEnds env \<Longrightarrow> returns (configureNTS env)"
proof -
  assume "ctxEnds env"
  then have "returns (reconfigure env d)" for d
    unfolding reconfigure_def Let_def if_distrib
    by (auto intro!: returns_bind returns_start)
  then show ?thesis by (auto simp: configureNTS_def returns_def failL_def split: option.splits)
qed

section \<open>Frames\<close>

definition stays :: "(ela_state \<Rightarrow> ela_state \<Rightarrow> bool) \<Rightarrow> 'a ela \<Rightarrow> bool" where
  "stays R m \<longleftrightarrow> (\<forall>s s' r. m s = Some (Ret s' r) \<longrightarrow> R s s')"

text \<open>A relation that every elementary effect of the agent stays in holds of the whole reconfiguration.\<close>

locale ela_frame =
  fixes R :: "ela_state \<Rightarrow> ela_state \<Rightarrow> bool"
  assumes refl: "R s s" and trans: "R s t \<Longrightarrow> R t u \<Longrightarrow> R s u"
    and calls: "R s (s\<lparr>el_calls := el_calls s @ [c]\<rparr>)" and eda: "R s (s\<lparr>el_eda := d\<rparr>)"
    and ticks: "R s (s\<lparr>el_ticks := k\<rparr>)"
    and forget: "R s (s\<lparr>el_InterfaceConfigurationData := (el_InterfaceConfigurationData s)\<lparr>id_NetworkInterfaces := None\<rparr>\<rparr>)"
begin

lemmas effects = refl calls eda ticks forget

lemma stays_bind: "stays R m \<Longrightarrow> (\<And>x. stays R (f x)) \<Longrightarrow> stays R (bindL m f)"
  unfolding stays_def bindL_def by (fastforce split: option.splits go.splits sum.splits intro: trans)

lemma stays_wrap: "stays R m \<Longrightarrow> stays R (wrapL msg m)"
  unfolding stays_def wrapL_def by (auto simp: effects split: option.splits go.splits sum.splits)

lemma stays_basic:
  "stays R (retL x)" "stays R (failL e)" "stays R (pureL r)" "stays R (logL env c)" "stays R forgetInterfaces"
  by (auto simp: effects stays_def retL_def failL_def pureL_def logL_def forgetInterfaces_def split: go.splits)

lemma stays_dial: "stays R (dialL env p)"
proof -
  have "R s (s\<lparr>el_calls := el_calls s @ [c], el_eda := d\<rparr>)" for s c d
    using trans [OF calls eda] by simp
  then show ?thesis
    by (auto simp: effects stays_def dialL_def DialEDASet_def Let_def split: option.splits go.splits prod.splits)
qed

lemma stays_docker:
  "stays R (callL env c)" "stays R (dockerL env c)"
  by (auto simp: callL_def dockerL_def intro!: stays_bind stays_basic split: option.splits)

lemma stays_containers:
  "stays R (updateContainer env n)" "stays R (startContainer env n)"
  "stays R (stopContainer env n)" "stays R (rebindDevices env ps dr)" "stays R (makeAndSaveNtsConfig env d)"
  by (auto simp: updateContainer_def startContainer_def stopContainer_def rebindDevices_def
      makeAndSaveNtsConfig_def SaveToFile_def Let_def stays_basic stays_docker stays_wrap split: sum.splits)

lemma NTSrunning_stays: "isNTSrunning env s = Ret s' r \<Longrightarrow> R s s'"
  by (auto simp: effects isNTSrunning_def Let_def split: if_splits option.splits)

lemma stays_ifNTS:
  "stays R (\<lambda>s. case isNTSrunning env s of
         Panic s' \<Rightarrow> Some (Panic s')
       | Ret s' (Some _) \<Rightarrow> Some (Ret s' (Inr ()))
       | Ret s' None \<Rightarrow> wrapL m (dialL env p) s')"
  using stays_wrap [OF stays_dial, of m env p]
  by (auto simp: effects stays_def dest: NTSrunning_stays intro: trans split: go.splits option.splits)

lemma stays_stopDNS: "stays R (stopDNSAndRemoveRules env)"
  unfolding stopDNSAndRemoveRules_def by (intro stays_bind stays_wrap stays_containers stays_ifNTS)

lemma waitForNTS_stays: "waitForNTS env s = Some y \<Longrightarrow> \<forall>s' r. y = Ret s' r \<longrightarrow> R s s'"
proof (rule waitForNTS.raw_induct [where P = "\<lambda>env s y. \<forall>s' r. y = Ret s' r \<longrightarrow> R s s'"], goal_cases)
  case (1 f env s y)
  let ?s = "s\<lparr>el_ticks := Suc (el_ticks s)\<rparr>"
  have run: "isNTSrunning env ?s = Ret t x \<Longrightarrow> R s t" for t x using trans [OF ticks NTSrunning_stays] .
  then show ?case using 1 trans
    by (fastforce simp: effects Let_def split: option.splits go.splits statResult.splits)
qed

lemma waitKNI_stays: "waitKNI env s = Some y \<Longrightarrow> \<forall>s' r. y = Ret s' r \<longrightarrow> R s s'"
proof (rule waitKNI.raw_induct [where P = "\<lambda>env s y. \<forall>s' r. y = Ret s' r \<longrightarrow> R s s'"], goal_cases)
  case (1 f env s y)
  let ?s = "s\<lparr>el_ticks := Suc (el_ticks s)\<rparr>"
  have run: "isNTSrunning env ?s = Ret t x \<Longrightarrow> R s t" for t x using trans [OF ticks NTSrunning_stays] .
  then show ?case using 1 trans
    by (fastforce simp: effects Let_def split: option.splits go.splits sum.splits)
qed

lemma stays_waits: "stays R (waitForNTS env)" "stays R (waitKNI env)"
  by (auto simp: stays_def dest: waitForNTS_stays waitKNI_stays)

lemma stays_restart: "stays R (restartDNSAndSetRules env)"
  unfolding restartDNSAndSetRules_def by (intro stays_bind stays_wrap stays_containers stays_dial stays_waits)

lemma stays_start: "stays R (startNTSandDNS env)"
  unfolding startNTSandDNS_def by (intro stays_bind stays_wrap stays_containers stays_basic stays_waits stays_restart)

lemma stays_configure: "stays R (configureNTS env)"
proof -
  have "stays R (reconfigure env d)" for d
    unfolding reconfigure_def Let_def if_distrib
    by (auto intro!: stays_bind stays_wrap stays_basic stays_containers stays_stopDNS stays_start)
  then show ?thesis by (auto simp: effects configureNTS_def stays_def failL_def split: option.splits)
qed

end

interpretation pols: ela_frame
  "\<lambda>s t. id_TrafficPolicies (el_InterfaceConfigurationData t) = id_TrafficPolicies (el_InterfaceConfigurationData s)"
  by unfold_locales auto

interpretation ifsNone: ela_frame
  "\<lambda>s t. id_NetworkInterfaces (el_InterfaceConfigurationData s) = None \<longrightarrow>
         id_NetworkInterfaces (el_InterfaceConfigurationData t) = None"
  by unfold_locales auto

interpretation grows: ela_frame "\<lambda>s t. prefix (el_calls s) (el_calls t)"
  by unfold_locales auto

end
