(* ===== verification/Ela_Nts.thy ===== *)
theory Ela_Nts
  imports Ela_Facts
begin

text \<open>
  A reconfiguration that succeeds: the order of its calls, the ports that it writes, and the routes of a
  policy of an application.
\<close>

section \<open>The calls of a reconfiguration that succeeds\<close>

definition performs :: "ela_call list \<Rightarrow> 'a ela \<Rightarrow> bool" where
  "performs cs m \<longleftrightarrow>
     (\<forall>s s' x. m s = Some (Ret s' (Inr x)) \<longrightarrow> (\<exists>new. el_calls s' = el_calls s @ new \<and> subseq cs new))"

lemma bindL_Inr:
  assumes "bindL m f s = Some (Ret s' (Inr y))"
  obtains t x where "m s = Some (Ret t (Inr x))" "f x t = Some (Ret s' (Inr y))"
proof (cases "m s")
  case (Some r)
  show ?thesis
  proof (cases r)
    case (Ret t v)
    then show ?thesis using assms that Some by (cases v) (simp_all add: bindL_def)
  qed (use assms Some in \<open>simp add: bindL_def\<close>)
qed (use assms in \<open>simp add: bindL_def\<close>)

lemma performs_bind:
  assumes "performs cs m" "\<And>x. performs ds (f x)"
  shows "performs (cs @ ds) (bindL m f)"
  unfolding performs_def
proof (intro allI impI)
  fix s s' y
  assume "bindL m f s = Some (Ret s' (Inr y))"
  then obtain t x where m: "m s = Some (Ret t (Inr x))" and f: "f x t = Some (Ret s' (Inr y))" by (rule bindL_Inr)
  from assms(1) m obtain a where "el_calls t = el_calls s @ a" "subseq cs a" unfolding performs_def by blast
  moreover from assms(2) [of x] f obtain b where "el_calls s' = el_calls t @ b" "subseq ds b"
    unfolding performs_def by blast
  ultimately show "\<exists>new. el_calls s' = el_calls s @ new \<and> subseq (cs @ ds) new"
    by (intro exI [of _ "a @ b"]) (simp add: list_emb_append_mono)
qed

lemma performs_nil: "stays (\<lambda>s t. prefix (el_calls s) (el_calls t)) m \<Longrightarrow> performs [] m"
  unfolding performs_def stays_def prefix_def by (metis list_emb_Nil)

lemma performs_skip: "stays (\<lambda>s t. prefix (el_calls s) (el_calls t)) m \<Longrightarrow> (\<And>x. performs ds (f x)) \<Longrightarrow> performs ds (bindL m f)"
  using performs_bind [OF performs_nil, of m ds f] by simp

lemma performs_wrap: "performs cs m \<Longrightarrow> performs cs (wrapL msg m)"
  unfolding performs_def wrapL_def by (auto split: option.splits go.splits sum.splits)

lemma performs_call: "performs [c] (callL env c)" "performs [c] (dockerL env c)"
  by (auto simp: performs_def callL_def dockerL_def logL_def bindL_def failL_def retL_def split: option.splits)

lemma performs_stopDNS: "performs [StopContainer dnsContainerName] (stopDNSAndRemoveRules env)"
  using performs_bind [OF performs_wrap [OF performs_call(2)] performs_nil [OF grows.stays_ifNTS]]
  unfolding stopDNSAndRemoveRules_def stopContainer_def by simp

lemma performs_start: "performs [StartContainer ntsContainerName, StartContainer dnsContainerName] (startNTSandDNS env)"
proof -
  have "performs ([StartContainer dnsContainerName] @ []) (restartDNSAndSetRules env)"
    unfolding restartDNSAndSetRules_def startContainer_def
    by (intro performs_skip performs_bind performs_wrap performs_call performs_nil grows.stays_wrap grows.stays_containers
        grows.stays_waits grows.stays_bind grows.stays_dial)
  then have "performs ([StartContainer ntsContainerName] @ [StartContainer dnsContainerName]) (startNTSandDNS env)"
    unfolding startNTSandDNS_def startContainer_def
    by (intro performs_skip performs_bind performs_wrap performs_call grows.stays_wrap grows.stays_containers grows.stays_basic
        grows.stays_waits) simp
  then show ?thesis by simp
qed

definition orderedCalls :: "NtsConfig \<Rightarrow> ela_call list" where
  "orderedCalls cfg =
     [SaveConfig cfg, StopContainer dnsContainerName, StopContainer ntsContainerName,
      StartContainer ntsContainerName, StartContainer dnsContainerName]"

lemma performs_reconfigure:
  assumes "makePorts (ec_InterfaceMTU (en_Config env)) (en_range env (toMap d)) ntsConfigTemplate = Inr cfg"
  shows "performs (orderedCalls (Nts_Update cfg)) (reconfigure env d)"
proof -
  have save: "performs [SaveConfig (Nts_Update cfg)] (makeAndSaveNtsConfig env (toMap d))"
    using assms by (auto simp: makeAndSaveNtsConfig_def SaveToFile_def performs_call split: sum.splits)
      (simp add: performs_def failL_def)
  have "performs ([SaveConfig (Nts_Update cfg)] @ [StopContainer dnsContainerName] @ [StopContainer ntsContainerName] @
      [StartContainer ntsContainerName, StartContainer dnsContainerName]) (reconfigure env d)"
    unfolding reconfigure_def Let_def isAnyAppRunning_def if_False stopContainer_def
    by (intro performs_skip performs_bind performs_wrap save performs_stopDNS performs_call performs_start
        grows.stays_wrap grows.stays_basic grows.stays_containers)
  then show ?thesis by (simp add: orderedCalls_def)
qed

lemma reconfigure_ports:
  assumes "reconfigure env d s = Some (Ret s' (Inr ()))"
  shows "\<exists>cfg. makePorts (ec_InterfaceMTU (en_Config env)) (en_range env (toMap d)) ntsConfigTemplate = Inr cfg"
proof -
  from assms obtain nis t where "bindL (wrapL ''failed to make new NTS config'' (makeAndSaveNtsConfig env (toMap d)))
      (\<lambda>_. bindL (wrapL ''failed to stop Edge DNS'' (stopDNSAndRemoveRules env)) (\<lambda>_.
          bindL (wrapL ''failed to stop NTS'' (stopContainer env ntsContainerName)) (\<lambda>_.
          bindL (wrapL (''failed to unbind devices: '' @ showList (getDevicesToUnbind nis d))
            (rebindDevices env (getDevicesToUnbind nis d) 0)) (\<lambda>_.
          bindL (wrapL (''failed to bind devices to DPDK driver: '' @ showList (getDevicesToBind d))
            (rebindDevices env (getDevicesToBind d) 1)) (\<lambda>_. startNTSandDNS env))))) t = Some (Ret s' (Inr ()))"
    unfolding reconfigure_def isAnyAppRunning_def Let_def if_False by (rule bindL_Inr)
  then obtain u where "wrapL ''failed to make new NTS config'' (makeAndSaveNtsConfig env (toMap d)) t = Some (Ret u (Inr ()))"
    by (rule bindL_Inr) simp
  then show ?thesis
    by (simp add: makeAndSaveNtsConfig_def failL_def wrapL_def split: sum.splits)
qed

section \<open>The ports\<close>

definition portFor :: "int \<Rightarrow> interfaceData \<Rightarrow> ini_Port \<Rightarrow> bool" where
  "portFor mtu d p \<longleftrightarrow>
     po_PciAddress p = pi_Id (if_NetworkInterface d)
     \<and> po_Routes p = routesOf (qp_TrafficRules (if_TrafficPolicy d))
     \<and> po_EgressPortID p = pi_FallbackInterface (if_NetworkInterface d)
     \<and> po_MAC p = pi_MacAddress (if_NetworkInterface d)
     \<and> InterfaceTypeFromTrafficDirection (po_TrafficDirection p) = (pi_Type (if_NetworkInterface d), None)"

lemma UpdateFromTrafficPolicy_new:
  assumes "UpdateFromTrafficPolicy (if_TrafficPolicy d) (newPort mtu) = (port, None)"
    "UpdateFromNetworkInterface (if_NetworkInterface d) port = (port', None)"
  shows "portFor mtu d port'"
proof -
  have "po_Routes port = routesOf (qp_TrafficRules (if_TrafficPolicy d))"
    using assms(1) by (auto simp: UpdateFromTrafficPolicy_def addRoutes_routes newPort_def split: option.splits)
  then show ?thesis using assms(2)
    by (elim UpdateFromNetworkInterface_ok) (simp add: portFor_def direction_round_trip)
qed

lemma makePorts_ok:
  "makePorts mtu ds cfg = Inr cfg' \<Longrightarrow>
   \<exists>ps. nx_Ports cfg' = nx_Ports cfg @ ps \<and> list_all2 (\<lambda>(pci, d) p. portFor mtu d p) ds ps"
proof (induction mtu ds cfg rule: makePorts.induct)
  case (2 mtu pci d ds cfg)
  obtain port r where port: "UpdateFromTrafficPolicy (if_TrafficPolicy d) (newPort mtu) = (port, r)" by fastforce
  obtain port' r' where port': "UpdateFromNetworkInterface (if_NetworkInterface d) port = (port', r')" by fastforce
  have "r = None" "r' = None" and rest: "makePorts mtu ds (AddNewPort port' cfg) = Inr cfg'"
    using 2(2) port port' by (auto split: option.splits)
  then have "portFor mtu d port'" using UpdateFromTrafficPolicy_new port port' by simp
  moreover obtain ps where "nx_Ports cfg' = nx_Ports (AddNewPort port' cfg) @ ps"
    "list_all2 (\<lambda>(pci, d) p. portFor mtu d p) ds ps"
    using 2(1) [of port None port' None] port port' rest \<open>r = None\<close> \<open>r' = None\<close> by auto
  ultimately show ?case by (intro exI [of _ "port' # ps"]) (simp add: AddNewPort_def)
qed simp

text \<open>The map of the interfaces that the transport service drives.\<close>

definition policyOf :: "(string, PBTrafficPolicy) gomap \<Rightarrow> string \<Rightarrow> PBTrafficRule list" where
  "policyOf pols i = (case gm_get pols i of None \<Rightarrow> [] | Some p \<Rightarrow> qp_TrafficRules p)"

definition mapInv :: "(string, PBTrafficPolicy) gomap \<Rightarrow> PBNetworkInterface list \<Rightarrow> (string, interfaceData) gomap \<Rightarrow> bool" where
  "mapInv pols ns m \<longleftrightarrow>
     gm_ok m \<and> dom (gm_get m) = pi_Id ` {n \<in> set ns. pi_Driver n \<noteq> 0}
     \<and> (\<forall>i d. gm_get m i = Some d \<longrightarrow>
           pi_Id (if_NetworkInterface d) = i \<and> if_NetworkInterface d \<in> set ns
           \<and> qp_TrafficRules (if_TrafficPolicy d) = policyOf pols i)"

lemma toMap_inv:
  "mapInv pols pre m \<Longrightarrow> mapInv pols (pre @ ns) (toMap_loop pols ns m)"
proof (induction ns arbitrary: pre m)
  case (Cons n ns)
  let ?d = "\<lparr>if_TrafficPolicy = (case gm_get pols (pi_Id n) of Some policy \<Rightarrow> policy
      | None \<Rightarrow> \<lparr>qp_Id = pi_Id n, qp_TrafficRules = []\<rparr>), if_NetworkInterface = n\<rparr>"
  have "mapInv pols (pre @ [n]) (if pi_Driver n = 0 then m else gm_put (pi_Id n) ?d m)"
  proof (cases "pi_Driver n = 0")
    case True
    have "{x. (x = n \<or> x \<in> set pre) \<and> pi_Driver x \<noteq> 0} = {x \<in> set pre. pi_Driver x \<noteq> 0}" using True by auto
    then show ?thesis using Cons.prems True by (auto simp: mapInv_def)
  next
    case False
    have "dom (gm_get (gm_put (pi_Id n) ?d m)) = insert (pi_Id n) (dom (gm_get m))" by (auto simp: dom_def)
    moreover have "{x. (x = n \<or> x \<in> set pre) \<and> pi_Driver x \<noteq> 0} = insert n {x \<in> set pre. pi_Driver x \<noteq> 0}"
      using False by auto
    ultimately show ?thesis using Cons.prems False by (auto simp: mapInv_def policyOf_def split: option.splits)
  qed
  from Cons.IH [OF this] show ?case by (simp split: if_splits)
qed simp

lemma toMap_ok: "mapInv (id_TrafficPolicies d) (netIfs d) (toMap d)"
proof -
  have "mapInv (id_TrafficPolicies d) [] []" by (auto simp: mapInv_def)
  from toMap_inv [OF this, of "netIfs d"] show ?thesis by (simp add: toMap_def)
qed

text \<open>The ports of a configuration that was saved.\<close>

definition portsFor :: "(string, PBTrafficPolicy) gomap \<Rightarrow> PBNetworkInterface list \<Rightarrow> ini_Port list \<Rightarrow> bool" where
  "portsFor pols nis ps \<longleftrightarrow>
     distinct (map po_PciAddress ps)
     \<and> po_PciAddress ` set ps = pi_Id ` {n \<in> set nis. pi_Driver n \<noteq> 0}
     \<and> (\<forall>p \<in> set ps. po_Routes p = routesOf (policyOf pols (po_PciAddress p))
          \<and> (\<exists>n \<in> set nis. pi_Id n = po_PciAddress p \<and> pi_FallbackInterface n = po_EgressPortID p
                \<and> InterfaceTypeFromTrafficDirection (po_TrafficDirection p) = (pi_Type n, None))
          \<and> (po_EgressPortID p \<in> po_PciAddress ` set ps \<longrightarrow>
               po_PciAddress (ps ! nat (po_EgressPort p)) = po_EgressPortID p))"

lemma ports_addresses:
  assumes "list_all2 (\<lambda>(pci, d) p. portFor mtu d p) ds ps" "set ds \<subseteq> set m" "mapInv pols nis m"
  shows "map po_PciAddress ps = map fst ds \<and> (\<forall>p \<in> set ps. \<exists>d. gm_get m (po_PciAddress p) = Some d \<and> portFor mtu d p)"
  using assms(1,2)
proof (induction rule: list_all2_induct)
  case (Cons x xs y ys)
  obtain pci d where x: "x = (pci, d)" by fastforce
  have m: "gm_get m pci = Some d" using Cons.prems x assms(3) by (simp add: mapInv_def gm_mem_get)
  then have "po_PciAddress y = pci" using Cons.hyps x assms(3) by (simp add: portFor_def mapInv_def)
  moreover have "map po_PciAddress ys = map fst xs \<and> (\<forall>p \<in> set ys. \<exists>d. gm_get m (po_PciAddress p) = Some d \<and> portFor mtu d p)"
    using Cons.IH Cons.prems by simp
  ultimately show ?case using Cons.hyps m x by auto
qed simp

lemma updated_ports:
  assumes "list_all2 (\<lambda>(pci, d) p. portFor mtu d p) ds ps" "mset ds = mset m" "mapInv pols nis m"
  shows "portsFor pols nis (map (updatePort ps) ps)"
proof -
  have sets: "set ds = set m" using assms(2) by (metis set_mset_mset)
  then have sub: "set ds \<subseteq> set m" by simp
  note conj = ports_addresses [OF assms(1) sub assms(3)]
  note fsts = conj [THEN conjunct1] and each = conj [THEN conjunct2, rule_format]
  have addrs: "map po_PciAddress (map (updatePort ps) ps) = map fst ds" using fsts by (simp add: comp_def)
  have img: "po_PciAddress ` set (map (updatePort ps) ps) = po_PciAddress ` set ps" by (simp add: image_image)
  have "mset (map fst ds) = mset (map fst m)" using assms(2) by simp
  then have "distinct (map fst ds)" using assms(3) mset_eq_imp_distinct_iff [of "map fst ds" "map fst m"]
    by (simp add: mapInv_def gm_ok_def)
  moreover have "po_PciAddress ` set (map (updatePort ps) ps) = pi_Id ` {n \<in> set nis. pi_Driver n \<noteq> 0}"
  proof -
    have "po_PciAddress ` set (map (updatePort ps) ps) = set (map fst ds)" using addrs by (metis set_map)
    then show ?thesis using assms(3) sets dom_gm_get [of m] by (simp add: mapInv_def)
  qed
  moreover have "po_Routes (updatePort ps p) = routesOf (policyOf pols (po_PciAddress p))
      \<and> (\<exists>n \<in> set nis. pi_Id n = po_PciAddress p \<and> pi_FallbackInterface n = po_EgressPortID (updatePort ps p)
           \<and> InterfaceTypeFromTrafficDirection (po_TrafficDirection (updatePort ps p)) = (pi_Type n, None))"
    if "p \<in> set ps" for p
  proof -
    from each [OF that] obtain d where d: "gm_get m (po_PciAddress p) = Some d" and p: "portFor mtu d p" by blast
    have "pi_Id (if_NetworkInterface d) = po_PciAddress p" "if_NetworkInterface d \<in> set nis"
      "qp_TrafficRules (if_TrafficPolicy d) = policyOf pols (po_PciAddress p)"
      using d assms(3) by (simp_all add: mapInv_def)
    then show ?thesis using p by (auto simp: portFor_def updatePort_def)
  qed
  moreover have "po_PciAddress (map (updatePort ps) ps ! nat (po_EgressPort (updatePort ps p))) = po_EgressPortID p"
    if "po_EgressPortID p \<in> po_PciAddress ` set ps" for p
    using egressIndex_present [OF that, of 0 "po_EgressPort p"] by (auto simp: updatePort_def)
  moreover have "po_EgressPortID (updatePort ps p) = po_EgressPortID p" for p by (simp add: updatePort_def)
  ultimately show ?thesis unfolding portsFor_def addrs img
    by (intro conjI ballI impI) (auto simp del: nth_map)
qed

lemma wrapL_Inr [simp]: "wrapL msg m s = Some (Ret s' (Inr x)) \<longleftrightarrow> m s = Some (Ret s' (Inr x))"
  unfolding wrapL_def by (auto split: option.splits go.splits sum.splits)

lemma forgets:
  assumes "startNTSandDNS env s = Some (Ret s' (Inr ()))"
  shows "id_NetworkInterfaces (el_InterfaceConfigurationData s') = None"
proof -
  from assms obtain t u v where "forgetInterfaces t = Some (Ret u (Inr ()))"
    and wait: "waitForNTS env u = Some (Ret v (Inr ()))" and restart: "restartDNSAndSetRules env v = Some (Ret s' (Inr ()))"
    unfolding startNTSandDNS_def by (elim bindL_Inr) simp
  then have "id_NetworkInterfaces (el_InterfaceConfigurationData u) = None" by (auto simp: forgetInterfaces_def)
  then have "id_NetworkInterfaces (el_InterfaceConfigurationData v) = None"
    using wait ifsNone.stays_waits(1) [of env] unfolding stays_def by blast
  then show ?thesis using restart ifsNone.stays_restart [of env] unfolding stays_def by blast
qed

lemma reconfigure_forgets:
  assumes "reconfigure env d s = Some (Ret s' (Inr ()))"
  shows "id_NetworkInterfaces (el_InterfaceConfigurationData s') = None"
  using assms unfolding reconfigure_def isAnyAppRunning_def Let_def if_False
  by (elim bindL_Inr) (rule forgets)

lemma Ela_BulkUpdate_ok:
  assumes "Ela_BulkUpdate env nis s = Some (Ret s' (Inr ()))" "\<forall>m. mset (en_range env m) = mset m"
  shows "\<exists>cfg new. el_calls s' = el_calls s @ new \<and> subseq (orderedCalls cfg) new
    \<and> portsFor (id_TrafficPolicies (el_InterfaceConfigurationData s)) nis (nx_Ports cfg)
    \<and> id_TrafficPolicies (el_InterfaceConfigurationData s') = id_TrafficPolicies (el_InterfaceConfigurationData s)
    \<and> id_NetworkInterfaces (el_InterfaceConfigurationData s') = None"
proof -
  let ?d = "(el_InterfaceConfigurationData s)\<lparr>id_NetworkInterfaces := Some nis\<rparr>"
  let ?s = "s\<lparr>el_InterfaceConfigurationData := ?d\<rparr>"
  from assms(1) have conf: "configureNTS env ?s = Some (Ret s' (Inr ()))"
    by (simp add: Ela_BulkUpdate_def failL_def split: option.splits)
  then have rec: "reconfigure env ?d ?s = Some (Ret s' (Inr ()))"
    by (simp add: configureNTS_def InterfacesData_validate_def)
  from reconfigure_ports [OF this] obtain cfg where
    cfg: "makePorts (ec_InterfaceMTU (en_Config env)) (en_range env (toMap ?d)) ntsConfigTemplate = Inr cfg" ..
  from performs_reconfigure [OF cfg] rec obtain new where new: "el_calls s' = el_calls s @ new" "subseq (orderedCalls (Nts_Update cfg)) new"
    unfolding performs_def by fastforce
  from makePorts_ok [OF cfg] obtain ps where ps: "nx_Ports cfg = ps"
    "list_all2 (\<lambda>(pci, d) p. portFor (ec_InterfaceMTU (en_Config env)) d p) (en_range env (toMap ?d)) ps"
    by (auto simp: ntsConfigTemplate_def)
  have "mapInv (id_TrafficPolicies ?d) (netIfs ?d) (toMap ?d)" by (rule toMap_ok)
  then have "portsFor (id_TrafficPolicies (el_InterfaceConfigurationData s)) nis (nx_Ports (Nts_Update cfg))"
    using updated_ports [OF ps(2) assms(2) [rule_format]] ps(1) by (simp add: netIfs_def Nts_Update_def)
  moreover have "id_TrafficPolicies (el_InterfaceConfigurationData s') = id_TrafficPolicies (el_InterfaceConfigurationData ?s)"
    using pols.stays_configure [of env] conf unfolding stays_def by blast
  ultimately show ?thesis using new reconfigure_forgets [OF rec] by auto
qed

section \<open>Policies of applications\<close>

lemma withMAC_text [simp]: "TrafficRuleProtoToString (Some (withMAC mac r)) = TrafficRuleProtoToString (Some r)"
  by (simp add: TrafficRuleProtoToString_def withMAC_def)

definition parsedRule :: "int list \<Rightarrow> PBTrafficRule \<Rightarrow> TrafficRuleParsed" where
  "parsedRule bs r = \<lparr>pr_LookupKeys = projr (TrafficRuleProtoToString (Some r)), pr_Mac = bs\<rparr>"

lemma validate_loop_verified:
  assumes "netParseMAC mac = Some bs" "\<forall>r \<in> set rules. VerifyTrafficRule r = None"
  shows "validateRules_loop (map (withMAC mac) rules) acc = Inr (acc @ map (parsedRule bs) rules)"
  using assms(2)
proof (induction rules arbitrary: acc)
  case (Cons r rules)
  obtain s where s: "TrafficRuleProtoToString (Some r) = Inr s" using verified_text Cons.prems by fastforce
  have "VerifyTrafficTarget (qr_Target r) = None" using Cons.prems by (simp add: VerifyTrafficRule_None)
  then have "\<exists>t. qr_Target r = Some t" by (simp add: VerifyTrafficTarget_def split: option.splits)
  then have "Option.bind (qr_Target (withMAC mac r)) qt_Mac = Some mac" by (auto simp: withMAC_def)
  then show ?case using Cons s assms(1) by (simp add: parsedRule_def)
qed simp

lemma Validate_verified:
  assumes "netParseMAC mac = Some bs" "VerifyTrafficPolicy (Some tp) = None"
  shows "ValidateTrafficRules (tp\<lparr>qp_TrafficRules := map (withMAC mac) (qp_TrafficRules tp)\<rparr>) =
    Inr (map (parsedRule bs) (qp_TrafficRules tp))"
  using validate_loop_verified [OF assms(1), of "qp_TrafficRules tp" "[]"] assms(2)
  by (auto simp: ValidateTrafficRules_def VerifyTrafficPolicy_def verifyRules_None split: if_splits)

text \<open>Nothing is refused by a transport service whose calls succeed.\<close>

lemma accepted_adds:
  assumes "\<forall>n. res n = 0" "\<forall>r \<in> set rs. 6 \<le> length (pr_Mac r)"
  shows "\<exists>s'. addRules_loop \<lparr>nc_RouteRemove = RouteRemove res, nc_RouteAdd = RouteAdd res, nc_Disconnect = Disconnect res\<rparr> i rs s
    = Ret s' None"
  using assms(2) by (induction rs arbitrary: s) (simp_all add: RouteAdd_def nesCall_def assms(1))

lemma accepted_set:
  assumes "\<forall>n. res n = 0" "qp_Id tp \<noteq> []" "ValidateTrafficRules tp = Inr rs"
  shows "\<exists>s'. eda_Set (NewNtsConnection res) tp s = Ret s' None"
proof -
  let ?c = "\<lparr>nc_RouteRemove = RouteRemove res, nc_RouteAdd = RouteAdd res, nc_Disconnect = Disconnect res\<rparr>"
  let ?s = "s\<lparr>ed_nts := ed_nts s @ [(NesConnInit, True)]\<rparr>"
  have new: "NewNtsConnection res (ed_nts s) = (ed_nts ?s, Inr ?c)"
    by (simp add: NewNtsConnection_def nesCall_def assms(1))
  from edants.RemoveRules_effect [of "qp_Id tp" res ?s] obtain t where t: "RemoveRules (qp_Id tp) (Some ?c) ?s = Ret t None"
    by blast
  have "\<exists>u. (if qp_TrafficRules tp \<noteq> [] then AddRequest ?c tp t else Ret t None) = Ret u None"
    using accepted_adds [OF assms(1) Validate_macs [OF assms(3)]] by (simp add: AddRequest_def assms(3))
  then show ?thesis using new t assms(2) by (auto simp: eda_Set_def disconnecting_def)
qed

end
