(* ===== verification/Ela_Accept.thy ===== *)
theory Ela_Accept
  imports Ela_Nts
begin

text \<open>
  Which policies of the controller a node accepts: the validation of the controller
  (\<open>edgecontroller/traffic_policy.go\<close>) allows more than the verification of the lifecycle agent.
\<close>

definition nodeAddress :: "string \<Rightarrow> int \<Rightarrow> bool" where
  "nodeAddress a m \<longleftrightarrow> (if m = 0 then a = ''0.0.0.0'' else ipTo4 (netParseIP a) \<noteq> None \<and> m \<le> 32)"

definition nodeSelector :: "TrafficSelector \<Rightarrow> bool" where
  "nodeSelector ts \<longleftrightarrow>
     ts_MACs ts = None
     \<and> pred_option (\<lambda>f. nodeAddress (if_Address f) (if_Mask f) \<and> if_Protocol f = ''all'') (ts_IP ts)
     \<and> pred_option (\<lambda>g. nodeAddress (gf_Address g) (gf_Mask g) \<and> gf_IMSIs g = []) (ts_GTP ts)"

definition nodeTarget :: "TrafficTarget \<Rightarrow> bool" where
  "nodeTarget t \<longleftrightarrow> tt_Action t = ''accept'' \<and> tt_IP t = None"

definition nodeRule :: "TrafficRule \<Rightarrow> bool" where
  "nodeRule r \<longleftrightarrow>
     pred_option nodeSelector (tr_Source r) \<and> pred_option nodeSelector (tr_Destination r)
     \<and> pred_option nodeTarget (tr_Target r)"

lemma toUint32_le:
  assumes "0 \<le> i" "i < 2 ^ 32" "0 \<le> j" "j < 2 ^ 32"
  shows "toUint32 i \<le> toUint32 j \<longleftrightarrow> i \<le> j"
  using toUint32_uint [OF assms(1,2)] toUint32_uint [OF assms(3,4)] by (simp add: word_le_def)

lemma netParseIP_empty [simp]: "netParseIP [] = None"
  by code_simp

lemma accept_address:
  assumes "netParseIP a \<noteq> None" "0 \<le> m" "m \<le> 128"
  shows "VerifyAddressMask a (toUint32 m) = None \<longleftrightarrow> nodeAddress a m"
proof -
  have "toUint32 m = 0 \<longleftrightarrow> m = 0" "toUint32 m \<le> 32 \<longleftrightarrow> m \<le> 32"
    using toUint32_uint [of m] assms toUint32_le [of m 32] by (auto simp: toUint32_def)
  moreover have "a \<noteq> []" using assms(1) by auto
  ultimately show ?thesis by (auto simp: VerifyAddressMask_None nodeAddress_def)
qed

lemma accept_ip:
  assumes "IPFilter_Validate f = VOk" "toPBIPFilter (Some f) = Some q"
  shows "VerifyIPFilter q = None \<longleftrightarrow> nodeAddress (if_Address f) (if_Mask f) \<and> if_Protocol f = ''all''"
proof -
  have "toUint32 (if_BeginPort f) \<le> toUint32 (if_EndPort f)"
    using assms(1) by (subst toUint32_le) (auto simp: IPFilter_Validate_def)
  moreover have "withoutAll (if_Protocol f) = [] \<longleftrightarrow> if_Protocol f = ''all''"
    using assms(1) by (auto simp: IPFilter_Validate_def withoutAll_def)
  moreover have "VerifyAddressMask (if_Address f) (toUint32 (if_Mask f)) = None \<longleftrightarrow> nodeAddress (if_Address f) (if_Mask f)"
    using assms(1) by (intro accept_address) (auto simp: IPFilter_Validate_def)
  ultimately show ?thesis using assms(2) by (auto simp: toPBIPFilter_def VerifyIPFilter_def not_less split: if_splits)
qed

lemma accept_gtp:
  assumes "GTPFilter_Validate g = VOk" "toPBGTPFilter (Some g) = Some q"
  shows "VerifyGTPFilter q = None \<longleftrightarrow> nodeAddress (gf_Address g) (gf_Mask g) \<and> gf_IMSIs g = []"
proof -
  have "VerifyAddressMask (gf_Address g) (toUint32 (gf_Mask g)) = None \<longleftrightarrow> nodeAddress (gf_Address g) (gf_Mask g)"
    using assms(1) by (intro accept_address) (auto simp: GTPFilter_Validate_def)
  then show ?thesis using assms(2) by (auto simp: toPBGTPFilter_def VerifyGTPFilter_def split: if_splits)
qed

lemma accept_selector:
  assumes "TrafficSelector_Validate ts = VOk" "toPBTrafficSelector (Some ts) = Some q"
  shows "VerifyTrafficSelector q = None \<longleftrightarrow> nodeSelector ts"
proof -
  have some: "ts_MACs ts \<noteq> None \<or> ts_IP ts \<noteq> None \<or> ts_GTP ts \<noteq> None"
    and ip: "pred_option (\<lambda>f. IPFilter_Validate f = VOk) (ts_IP ts)"
    and gtp: "pred_option (\<lambda>f. GTPFilter_Validate f = VOk) (ts_GTP ts)"
    using assms(1) by (auto simp: TrafficSelector_Validate_def vOpt_def Option.is_none_def split: option.splits)
  have q: "q = \<lparr>qs_Description = ts_Description ts, qs_Macs = toPBMACFilter (ts_MACs ts), qs_Ip = toPBIPFilter (ts_IP ts),
      qs_Gtp = toPBGTPFilter (ts_GTP ts)\<rparr>" using assms(2) by (simp add: toPBTrafficSelector_def)
  have "pred_option (\<lambda>f. VerifyIPFilter f = None) (toPBIPFilter (ts_IP ts)) \<longleftrightarrow>
      pred_option (\<lambda>f. nodeAddress (if_Address f) (if_Mask f) \<and> if_Protocol f = ''all'') (ts_IP ts)"
    using ip accept_ip by (cases "ts_IP ts") (auto simp: toPBIPFilter_def)
  moreover have "pred_option (\<lambda>f. VerifyGTPFilter f = None) (toPBGTPFilter (ts_GTP ts)) \<longleftrightarrow>
      pred_option (\<lambda>g. nodeAddress (gf_Address g) (gf_Mask g) \<and> gf_IMSIs g = []) (ts_GTP ts)"
    using gtp accept_gtp by (cases "ts_GTP ts") (auto simp: toPBGTPFilter_def)
  moreover have "toPBMACFilter (ts_MACs ts) = None \<longleftrightarrow> ts_MACs ts = None"
    "toPBIPFilter (ts_IP ts) = None \<longleftrightarrow> ts_IP ts = None" "toPBGTPFilter (ts_GTP ts) = None \<longleftrightarrow> ts_GTP ts = None"
    by (simp_all add: toPBMACFilter_def toPBIPFilter_def toPBGTPFilter_def)
  ultimately show ?thesis using some by (auto simp: VerifyTrafficSelector_None nodeSelector_def q)
qed

lemma accept_target:
  assumes "TrafficTarget_Validate t = VOk" "toPBTrafficTarget (Some t) = Some q"
  shows "VerifyTrafficTarget q = None \<longleftrightarrow> nodeTarget t"
  using assms
  by (auto simp: TrafficTarget_Validate_def toPBTrafficTarget_def toPBTargetAction_def VerifyTrafficTarget_def nodeTarget_def
      toPBIPModifier_def split: if_splits)

lemma accept_rule:
  assumes "TrafficRule_Validate r = VOk" "toPBTrafficRule r = Some q"
  shows "VerifyTrafficRule q = None \<longleftrightarrow> nodeRule r"
proof -
  obtain t where t: "tr_Target r = Some t" "TrafficTarget_Validate t = VOk"
    using assms(1) by (cases "tr_Target r") (auto simp: TrafficRule_Validate_def)
  have ends: "tr_Source r \<noteq> None \<or> tr_Destination r \<noteq> None"
    and src: "pred_option (\<lambda>s. TrafficSelector_Validate s = VOk) (tr_Source r)"
    and dst: "pred_option (\<lambda>s. TrafficSelector_Validate s = VOk) (tr_Destination r)"
    using assms(1) by (auto simp: TrafficRule_Validate_def vOpt_def Option.is_none_def split: option.splits)
  obtain g where g: "toPBTrafficTarget (Some t) = Some g"
    "q = \<lparr>qr_Description = tr_Description r, qr_Priority = toUint32 (tr_Priority r),
        qr_Source = toPBTrafficSelector (tr_Source r), qr_Destination = toPBTrafficSelector (tr_Destination r),
        qr_Target = g\<rparr>" using assms(2) t by (auto simp: toPBTrafficRule_def)
  have sel: "pred_option (\<lambda>s. VerifyTrafficSelector s = None) (toPBTrafficSelector p) \<longleftrightarrow> pred_option nodeSelector p"
    if "pred_option (\<lambda>s. TrafficSelector_Validate s = VOk) p" for p
    using that accept_selector by (cases p) (auto simp: toPBTrafficSelector_def)
  have "toPBTrafficSelector p = None \<longleftrightarrow> p = None" for p by (simp add: toPBTrafficSelector_def)
  then show ?thesis
    using ends sel [OF src] sel [OF dst] accept_target [OF t(2) g(1)] t(1)
    by (simp add: VerifyTrafficRule_None nodeRule_def g(2))
qed

lemma eachPtr_each: "eachPtr f xs = Some ys \<Longrightarrow> (\<forall>y \<in> set ys. P y) \<longleftrightarrow> (\<forall>x. Some x \<in> set xs \<longrightarrow> P (the (f x)))"
proof (induction xs arbitrary: ys)
  case (Cons p xs)
  then obtain x y zs where "p = Some x" "f x = Some y" "eachPtr f xs = Some zs" "ys = y # zs"
    by (cases p) (auto simp: Option.bind_eq_Some_conv)
  then show ?case using Cons.IH by auto
qed simp

lemma accept_policy:
  assumes "TrafficPolicy_Validate lib p = VOk" "i \<noteq> []"
  shows "\<exists>q. toPBTrafficPolicy i (Some p) = Some q
    \<and> (VerifyTrafficPolicy (Some q) = None \<longleftrightarrow> (\<forall>r. Some r \<in> set (tp_Rules p) \<longrightarrow> nodeRule r))"
proof -
  from validated_policy_PB [OF assms(1), of i] obtain q where q: "toPBTrafficPolicy i (Some p) = Some q" by blast
  then have rules: "eachPtr toPBTrafficRule (tp_Rules p) = Some (qp_TrafficRules q)" and "qp_Id q = i"
    by (auto simp: toPBTrafficPolicy_def)
  have valid: "TrafficRule_Validate r = VOk" if "Some r \<in> set (tp_Rules p)" for r
    using assms(1) that by (auto simp: TrafficPolicy_Validate_def vPtr_ok dest!: vEach_ok_mem)
  have "VerifyTrafficRule (the (toPBTrafficRule r)) = None \<longleftrightarrow> nodeRule r" if "Some r \<in> set (tp_Rules p)" for r
    using accept_rule [OF valid [OF that]] validated_rule_PB [OF valid [OF that]] by auto
  then have "verifyRules 0 (qp_TrafficRules q) = None \<longleftrightarrow> (\<forall>r. Some r \<in> set (tp_Rules p) \<longrightarrow> nodeRule r)"
    unfolding verifyRules_None using eachPtr_each [OF rules, of "\<lambda>r. VerifyTrafficRule r = None"] by auto
  then show ?thesis using q \<open>qp_Id q = i\<close> assms(2) by (auto simp: VerifyTrafficPolicy_def)
qed

end
