(* ===== verification/Edge_Dns.thy ===== *)
theory Edge_Dns
  imports Eda
begin

text \<open>
  The DNS responder of the node (\<open>edgenode/pkg/edgedns\<close>): the record store, the control server through
  which records are set and deleted, the handler of queries, and the DNS service of the lifecycle agent
  that feeds it (\<open>edgenode/pkg/ela/dns_service.go\<close>). The database bbolt is a third-party package: the
  result of its transactions is a parameter, and a bucket is a map from names to record sets (the sets
  are stored in the \<open>gob\<close> encoding, which decoding reverses). The message type of the DNS library is
  not modelled; a reply is described by how the handler builds it.
\<close>

section \<open>The record store\<close>

record rrSet =
  rs_Rrtype :: int
  rs_Answers :: "int list list"

datatype boltInstance = NoInstance | Opened | Closed

record BoltDB =
  bd_instance :: boltInstance
  bd_ADDR4 :: "(string, rrSet) gomap option"

definition TypeA :: int where
  "TypeA = 1"

definition TTL :: int where
  "TTL = 10"

text \<open>\<open>bkts[Master][rrtype]\<close>: there is one bucket, for the type A.\<close>

definition bktOf :: "int \<Rightarrow> BoltDB \<Rightarrow> (string, rrSet) gomap option" where
  "bktOf rrtype db = (if rrtype = TypeA then bd_ADDR4 db else None)"

text \<open>
  An update transaction: it fails on a database that is closed, or when the function or the commit
  fails, and then nothing is written.
\<close>

definition boltUpdate ::
  "goerr \<Rightarrow> ((string, rrSet) gomap option \<Rightarrow> string + (string, rrSet) gomap) \<Rightarrow> int \<Rightarrow> BoltDB \<Rightarrow> (BoltDB, goerr) go" where
  "boltUpdate txErr f rrtype db =
     (case bd_instance db of
        NoInstance \<Rightarrow> Panic db
      | Closed \<Rightarrow> Ret db (Some ''database not open'')
      | Opened \<Rightarrow>
          (case f (bktOf rrtype db) of
             Inl e \<Rightarrow> Ret db (Some e)
           | Inr b \<Rightarrow> (case txErr of Some e \<Rightarrow> Ret db (Some e) | None \<Rightarrow> Ret (db\<lparr>bd_ADDR4 := Some b\<rparr>) None)))"

definition Bolt_Start :: "goerr \<Rightarrow> goerr \<Rightarrow> BoltDB \<Rightarrow> BoltDB \<times> goerr" where
  "Bolt_Start openErr createErr db =
     (case openErr of
        Some e \<Rightarrow> (db\<lparr>bd_instance := NoInstance\<rparr>, Some e)
      | None \<Rightarrow>
          (case createErr of
             Some e \<Rightarrow> (db\<lparr>bd_instance := Opened\<rparr>, Some (''Bucket initialization error: '' @ e))
           | None \<Rightarrow>
               (db\<lparr>bd_instance := Opened, bd_ADDR4 := (case bd_ADDR4 db of None \<Rightarrow> Some [] | Some b \<Rightarrow> Some b)\<rparr>, None)))"

definition Bolt_Stop :: "goerr \<Rightarrow> BoltDB \<Rightarrow> BoltDB \<times> goerr" where
  "Bolt_Stop closeErr db =
     (if bd_instance db \<noteq> NoInstance
      then (case closeErr of Some e \<Rightarrow> (db, Some e) | None \<Rightarrow> (db\<lparr>bd_instance := Closed\<rparr>, None))
      else (db, Some ''DB already stopped''))"

definition qualify :: "string \<Rightarrow> string" where
  "qualify fqdn = (if fqdn \<noteq> [] \<and> last fqdn = CHR ''.'' then fqdn else fqdn @ ''.'')"

definition SetHostRRSet ::
  "(int \<Rightarrow> string) \<Rightarrow> goerr \<Rightarrow> int \<Rightarrow> string \<Rightarrow> int list list \<Rightarrow> BoltDB \<Rightarrow> (BoltDB, goerr) go" where
  "SetHostRRSet typeToString txErr rrtype fqdn addrs db =
     (if rrtype \<noteq> TypeA
      then Ret db (Some (''Invalid resource record type ('' @ typeToString rrtype @ ''),only type A supported''))
      else
        boltUpdate txErr
          (\<lambda>b. case b of
             None \<Rightarrow> Inl ''Unable to find bucket for ADDR4''
           | Some m \<Rightarrow> Inr (gm_put (qualify fqdn) \<lparr>rs_Rrtype = rrtype, rs_Answers = addrs\<rparr> m))
          rrtype db)"

definition DelRRSet :: "(int \<Rightarrow> string) \<Rightarrow> goerr \<Rightarrow> int \<Rightarrow> string \<Rightarrow> BoltDB \<Rightarrow> (BoltDB, goerr) go" where
  "DelRRSet typeToString txErr rrtype fqdn db =
     (if rrtype = TypeA then
        (case boltUpdate txErr
            (\<lambda>b. case b of
               None \<Rightarrow> Inl ''Unable to find bucket for ADDR4''
             | Some m \<Rightarrow> Inr (gm_del (qualify fqdn) m)) rrtype db of
           Panic db' \<Rightarrow> Panic db'
         | Ret db' (Some e) \<Rightarrow> Ret db' (Some (''Delete '' @ qualify fqdn @ '': '' @ e))
         | Ret db' None \<Rightarrow> Ret db' None)
      else Ret db (Some (''Invalid query type: '' @ typeToString rrtype)))"

definition getAuthoritative :: "string \<Rightarrow> int \<Rightarrow> BoltDB \<Rightarrow> (BoltDB, string + rrSet) go" where
  "getAuthoritative name rrtype db =
     (if bd_instance db = NoInstance then Panic db
      else
        (case (if bd_instance db = Opened then Option.bind (bktOf rrtype db) (\<lambda>m. gm_get m name) else None) of
           None \<Rightarrow> Ret db (Inl ''No authoritative records found'')
         | Some rrs \<Rightarrow> Ret db (Inr rrs)))"

record dnsRR =
  rr_Name :: string
  rr_Rrtype :: int
  rr_Ttl :: int
  rr_A :: "int list"

definition rrForType :: "string \<Rightarrow> int \<Rightarrow> int list \<Rightarrow> string + dnsRR" where
  "rrForType name rrtype ans =
     (if rrtype = TypeA then Inr \<lparr>rr_Name = name, rr_Rrtype = rrtype, rr_Ttl = TTL, rr_A = ans\<rparr>
      else Inl (''Uknown resource for Query type: '' @ Itoa (word_of_int rrtype)))"

fun rrs_loop :: "string \<Rightarrow> int \<Rightarrow> int list list \<Rightarrow> dnsRR list \<Rightarrow> string + dnsRR list" where
  "rrs_loop name rrtype [] rrs = Inr rrs"
| "rrs_loop name rrtype (i # as) rrs =
     (case rrForType name rrtype i of Inl e \<Rightarrow> Inl e | Inr rr \<Rightarrow> rrs_loop name rrtype as (rrs @ [rr]))"

definition GetRRSet :: "string \<Rightarrow> int \<Rightarrow> BoltDB \<Rightarrow> (BoltDB, string + dnsRR list) go" where
  "GetRRSet name rrtype db =
     (case getAuthoritative name rrtype db of
        Panic db' \<Rightarrow> Panic db'
      | Ret db' (Inr ans) \<Rightarrow> Ret db' (rrs_loop name rrtype (rs_Answers ans) [])
      | Ret db' (Inl _) \<Rightarrow> Ret db' (Inl ''No records found''))"

section \<open>The control server\<close>

record HostRecordSet =
  hr_RecordType :: int
  hr_Fqdn :: string
  hr_Addresses :: "int list list"

record RecordSet =
  rc_RecordType :: int
  rc_Fqdn :: string

definition SetAuthoritativeHost ::
  "(int \<Rightarrow> string) \<Rightarrow> goerr \<Rightarrow> HostRecordSet \<Rightarrow> BoltDB \<Rightarrow> (BoltDB, rpcError option) go" where
  "SetAuthoritativeHost typeToString txErr rr db =
     (if hr_RecordType rr \<noteq> 1 then Ret db (Some (StatusError Unimplemented_code ''only A records are supported''))
      else
        (case SetHostRRSet typeToString txErr (hr_RecordType rr mod 65536) (hr_Fqdn rr) (hr_Addresses rr) db of
           Panic db' \<Rightarrow> Panic db'
         | Ret db' (Some _) \<Rightarrow> Ret db' (Some (StatusError Internal_code ''unknown internal DB error occurred''))
         | Ret db' None \<Rightarrow> Ret db' None))"

definition DeleteAuthoritative ::
  "(int \<Rightarrow> string) \<Rightarrow> goerr \<Rightarrow> RecordSet \<Rightarrow> BoltDB \<Rightarrow> (BoltDB, rpcError option) go" where
  "DeleteAuthoritative typeToString txErr rr db =
     (if rc_RecordType rr = 0 then Ret db (Some (StatusError InvalidArgument_code ''you must specify a record type''))
      else
        (case DelRRSet typeToString txErr (rc_RecordType rr mod 65536) (rc_Fqdn rr) db of
           Panic db' \<Rightarrow> Panic db'
         | Ret db' (Some _) \<Rightarrow> Ret db' (Some (StatusError Internal_code ''unknown internal DB error occurred''))
         | Ret db' None \<Rightarrow> Ret db' None))"

section \<open>Queries\<close>

record dnsQuestion =
  dq_Name :: string
  dq_Qtype :: int

record dnsQuery =
  dm_Opcode :: int
  dm_Question :: "dnsQuestion list"

datatype 'm dnsReply = AuthoritativeReply "dnsRR list" | ForwardedReply 'm | RcodeReply int

definition OpcodeQuery :: int where
  "OpcodeQuery = 0"

definition RcodeServerFailure :: int where
  "RcodeServerFailure = 2"

definition RcodeRefused :: int where
  "RcodeRefused = 5"

definition swap :: "nat \<Rightarrow> nat \<Rightarrow> 'a list \<Rightarrow> 'a list" where
  "swap i j xs = xs[i := xs ! j, j := xs ! i]"

text \<open>\<open>r.Intn(n)\<close> is a number below n; \<open>rnd\<close> is the stream of the generator.\<close>

fun shuffle :: "(nat \<Rightarrow> nat) \<Rightarrow> nat \<Rightarrow> 'a list \<Rightarrow> 'a list" where
  "shuffle rnd 0 rrs = rrs"
| "shuffle rnd (Suc n) rrs = (if n = 0 then rrs else shuffle rnd n (swap n (rnd (Suc n) mod Suc n) rrs))"

definition forwardRequest :: "(dnsQuery \<Rightarrow> string \<Rightarrow> string + 'm) \<Rightarrow> dnsQuery \<Rightarrow> string \<Rightarrow> (unit, string + 'm) go" where
  "forwardRequest exchange q ns =
     (if ns = [] then Ret () (Inl ''Missing forwarder address'')
      else
        (case dm_Question q of
           [] \<Rightarrow> Panic ()
         | qn # _ \<Rightarrow>
             (case exchange q (ns @ '':53'') of
                Inl e \<Rightarrow> Ret () (Inl (ns @ '' unable to resolve: '' @ dq_Name qn @ '': '' @ e))
              | Inr m \<Rightarrow> Ret () (Inr m))))"

definition handleDNSRequest ::
  "(nat \<Rightarrow> nat) \<Rightarrow> (dnsQuery \<Rightarrow> string \<Rightarrow> string + 'm) \<Rightarrow> string \<Rightarrow> dnsQuery \<Rightarrow> BoltDB \<Rightarrow> (BoltDB, 'm dnsReply) go" where
  "handleDNSRequest rnd exchange forwarder q db =
     (if dm_Opcode q \<noteq> OpcodeQuery then Ret db (RcodeReply RcodeRefused)
      else
        (case dm_Question q of
           [] \<Rightarrow> Panic db
         | qn # _ \<Rightarrow>
             (case GetRRSet (dq_Name qn) (dq_Qtype qn) db of
                Panic db' \<Rightarrow> Panic db'
              | Ret db' (Inr rrs) \<Rightarrow> Ret db' (AuthoritativeReply (shuffle rnd (length rrs) rrs))
              | Ret db' (Inl _) \<Rightarrow>
                  (case forwardRequest exchange q forwarder of
                     Panic _ \<Rightarrow> Panic db'
                   | Ret _ (Inr m) \<Rightarrow> Ret db' (ForwardedReply m)
                   | Ret _ (Inl _) \<Rightarrow> Ret db' (RcodeReply RcodeServerFailure)))))"

section \<open>The DNS service of the lifecycle agent\<close>

record DNSARecordSet =
  as_Name :: string
  as_Values :: "string list"

fun parseIPs :: "string list \<Rightarrow> int list list \<Rightarrow> string + int list list" where
  "parseIPs [] out = Inr out"
| "parseIPs (ipString # ips) out =
     (case netParseIP ipString of
        None \<Rightarrow> Inl ''wrong IP address provided''
      | Some ip \<Rightarrow> parseIPs ips (out @ [ip]))"

definition transform2HostRecord :: "DNSARecordSet \<Rightarrow> string + HostRecordSet" where
  "transform2HostRecord inputRecord =
     (case parseIPs (as_Values inputRecord) [] of
        Inl e \<Rightarrow> Inl e
      | Inr addrs \<Rightarrow> Inr \<lparr>hr_RecordType = 1, hr_Fqdn = as_Name inputRecord, hr_Addresses = addrs\<rparr>)"

definition transform2Record :: "DNSARecordSet \<Rightarrow> RecordSet" where
  "transform2Record inputRecord = \<lparr>rc_RecordType = 1, rc_Fqdn = as_Name inputRecord\<rparr>"

definition EdgeDNSSocket :: string where
  "EdgeDNSSocket = ''/run/edgedns.sock''"

text \<open>\<open>startClient\<close>: whether the socket is there, and what dialling it returns.\<close>

definition startClient :: "bool \<Rightarrow> goerr \<Rightarrow> rpcError option" where
  "startClient isSocket dialErr =
     (if \<not> isSocket then Some (StatusError FailedPrecondition_code (''Invalid API socket: '' @ EdgeDNSSocket))
      else
        (case dialErr of
           Some e \<Rightarrow> Some (StatusError FailedPrecondition_code (''Failed to connect to server: '' @ e))
         | None \<Rightarrow> None))"

text \<open>
  A call of the control server. A panic of its handler ends the responder; the client then gets an error
  of the transport, which is \<open>lost\<close>.
\<close>

definition throughClient ::
  "bool \<Rightarrow> goerr \<Rightarrow> rpcError \<Rightarrow> string \<Rightarrow> (BoltDB \<Rightarrow> (BoltDB, rpcError option) go) \<Rightarrow> BoltDB \<Rightarrow> BoltDB \<times> rpcError option" where
  "throughClient isSocket dialErr lost msg call db =
     (case startClient isSocket dialErr of
        Some e \<Rightarrow> (db, Some e)
      | None \<Rightarrow>
          (case call db of
             Panic db' \<Rightarrow> (db', Some (StatusError FailedPrecondition_code (msg @ errorString lost)))
           | Ret db' (Some e) \<Rightarrow> (db', Some (StatusError FailedPrecondition_code (msg @ errorString e)))
           | Ret db' None \<Rightarrow> (db', None)))"

definition dns_set ::
  "bool \<Rightarrow> goerr \<Rightarrow> rpcError \<Rightarrow> (int \<Rightarrow> string) \<Rightarrow> goerr \<Rightarrow> HostRecordSet \<Rightarrow> BoltDB \<Rightarrow> BoltDB \<times> rpcError option" where
  "dns_set isSocket dialErr lost typeToString txErr hr db =
     throughClient isSocket dialErr lost ''Failed to register host record: '' (SetAuthoritativeHost typeToString txErr hr) db"

definition dns_del ::
  "bool \<Rightarrow> goerr \<Rightarrow> rpcError \<Rightarrow> (int \<Rightarrow> string) \<Rightarrow> goerr \<Rightarrow> RecordSet \<Rightarrow> BoltDB \<Rightarrow> BoltDB \<times> rpcError option" where
  "dns_del isSocket dialErr lost typeToString txErr rr db =
     throughClient isSocket dialErr lost ''Failed to delete host record: '' (DeleteAuthoritative typeToString txErr rr) db"

definition Srv_SetA ::
  "bool \<Rightarrow> goerr \<Rightarrow> rpcError \<Rightarrow> (int \<Rightarrow> string) \<Rightarrow> goerr \<Rightarrow> DNSARecordSet \<Rightarrow> BoltDB \<Rightarrow> BoltDB \<times> rpcError option" where
  "Srv_SetA isSocket dialErr lost typeToString txErr input db =
     (case transform2HostRecord input of
        Inl e \<Rightarrow> (db, Some (PlainError e))
      | Inr hr \<Rightarrow> dns_set isSocket dialErr lost typeToString txErr hr db)"

definition Srv_DeleteA ::
  "bool \<Rightarrow> goerr \<Rightarrow> rpcError \<Rightarrow> (int \<Rightarrow> string) \<Rightarrow> goerr \<Rightarrow> DNSARecordSet \<Rightarrow> BoltDB \<Rightarrow> BoltDB \<times> rpcError option" where
  "Srv_DeleteA isSocket dialErr lost typeToString txErr input db =
     dns_del isSocket dialErr lost typeToString txErr (transform2Record input) db"

definition Srv_SetForwarders :: "string list \<Rightarrow> rpcError option" where
  "Srv_SetForwarders input = Some (StatusError Unimplemented_code ''not implemented'')"

definition Srv_DeleteForwarders :: "string list \<Rightarrow> rpcError option" where
  "Srv_DeleteForwarders input = Some (StatusError Unimplemented_code ''not implemented'')"

section \<open>The store as a map\<close>

definition zone :: "BoltDB \<Rightarrow> string \<Rightarrow> int list list option" where
  "zone db name =
     (if bd_instance db = Opened
      then Option.bind (bd_ADDR4 db) (\<lambda>m. map_option rs_Answers (gm_get m name)) else None)"

text \<open>A request that changes the records, and a sequence of them; the error is that of the transaction.\<close>

datatype zoneRequest = SetReq goerr string "int list list" | DelReq goerr string

fun specRequest :: "zoneRequest \<Rightarrow> bool \<Rightarrow> (string \<Rightarrow> int list list option) \<Rightarrow> string \<Rightarrow> int list list option" where
  "specRequest (SetReq e n as) ok z = (if ok then z(qualify n \<mapsto> as) else z)"
| "specRequest (DelReq e n) ok z = (if ok then z(qualify n := None) else z)"

text \<open>
  The contract of \<open>Storage\<close> as its callers use it: the records are a map from qualified names, a request
  that succeeds updates it and one that fails leaves it.
\<close>

locale dns_storage =
  fixes records :: "'s \<Rightarrow> string \<Rightarrow> int list list option"
    and setRR :: "goerr \<Rightarrow> string \<Rightarrow> int list list \<Rightarrow> 's \<Rightarrow> ('s, goerr) go"
    and delRR :: "goerr \<Rightarrow> string \<Rightarrow> 's \<Rightarrow> ('s, goerr) go"
  assumes set_ok: "setRR e n as s = Ret s' None \<Longrightarrow> records s' = (records s)(qualify n \<mapsto> as)"
    and set_err: "setRR e n as s = Ret s' (Some x) \<Longrightarrow> s' = s"
    and del_ok: "delRR e n s = Ret s' None \<Longrightarrow> records s' = (records s)(qualify n := None)"
    and del_err: "delRR e n s = Ret s' (Some x) \<Longrightarrow> s' = s"
begin

lemma request_refines:
  "(case r of SetReq e n as \<Rightarrow> setRR e n as s | DelReq e n \<Rightarrow> delRR e n s) = Ret s' x \<Longrightarrow>
   records s' = specRequest r (x = None) (records s)"
  by (cases r; cases x) (auto dest: set_ok set_err del_ok del_err)

lemma set_then_found: "setRR e n as s = Ret s' None \<Longrightarrow> records s' (qualify n) = Some as"
  by (simp add: set_ok)

lemma del_then_gone: "delRR e n s = Ret s' None \<Longrightarrow> records s' (qualify n) = None"
  by (simp add: del_ok)

lemma others_kept:
  "setRR e n as s = Ret s' x \<Longrightarrow> m \<noteq> qualify n \<Longrightarrow> records s' m = records s m"
  "delRR e n s = Ret s' x \<Longrightarrow> m \<noteq> qualify n \<Longrightarrow> records s' m = records s m"
  by (cases x; auto dest: set_ok set_err del_ok del_err)+

end

lemma bolt_cases [consumes 1]:
  assumes "boltUpdate txErr f rrtype db = Ret db' x"
  obtains (fails) e where "x = Some e" "db' = db"
  | (commits) b where "x = None" "bd_instance db = Opened" "f (bktOf rrtype db) = Inr b" "db' = db\<lparr>bd_ADDR4 := Some b\<rparr>"
  using assms by (auto simp: boltUpdate_def split: boltInstance.splits sum.splits option.splits)

interpretation bolt: dns_storage zone
    "\<lambda>e. SetHostRRSet typeToString e TypeA" "\<lambda>e. DelRRSet typeToString e TypeA" for typeToString
proof (unfold_locales, goal_cases)
  case (1 e n as s s')
  then show ?case unfolding SetHostRRSet_def
    by (auto elim!: bolt_cases simp: zone_def fun_eq_iff bktOf_def split: option.splits)
next
  case (2 e n as s s' x)
  then show ?case unfolding SetHostRRSet_def by (auto elim!: bolt_cases)
next
  case (3 e n s s')
  then show ?case unfolding DelRRSet_def
    by (auto elim!: bolt_cases simp: zone_def fun_eq_iff bktOf_def split: option.splits go.splits)
next
  case (4 e n s s' x)
  then show ?case unfolding DelRRSet_def
    by (auto elim!: bolt_cases split: option.splits go.splits)
qed

section \<open>Answers\<close>

lemma mset_swapped: "i < length xs \<Longrightarrow> j < length xs \<Longrightarrow> mset (swap i j xs) = mset xs"
  unfolding swap_def by (metis mset_swap)

lemma mset_shuffle: "n \<le> length xs \<Longrightarrow> mset (shuffle rnd n xs) = mset xs"
proof (induction n arbitrary: xs)
  case (Suc n)
  have "rnd (Suc n) mod Suc n < Suc n" by (rule mod_less_divisor) simp
  then have "rnd (Suc n) mod Suc n < length xs" using Suc.prems by linarith
  then have "mset (swap n (rnd (Suc n) mod Suc n) xs) = mset xs" using Suc.prems by (intro mset_swapped) auto
  moreover have "length (swap n (rnd (Suc n) mod Suc n) xs) = length xs" by (simp add: swap_def)
  ultimately show ?case using Suc by simp
qed simp

definition answersOf :: "string \<Rightarrow> int list list \<Rightarrow> dnsRR list" where
  "answersOf name as = map (\<lambda>a. \<lparr>rr_Name = name, rr_Rrtype = TypeA, rr_Ttl = TTL, rr_A = a\<rparr>) as"

lemma rrs_loop_A: "rrs_loop name TypeA as rrs = Inr (rrs @ answersOf name as)"
  by (induction as arbitrary: rrs) (simp_all add: rrForType_def answersOf_def)

lemma GetRRSet_zone:
  assumes "bd_instance db \<noteq> NoInstance"
  shows "GetRRSet name rrtype db =
     Ret db (case if rrtype = TypeA then zone db name else None of
               Some as \<Rightarrow> Inr (answersOf name as) | None \<Rightarrow> Inl ''No records found'')"
  using assms
  by (cases "bd_ADDR4 db")
    (auto simp: GetRRSet_def getAuthoritative_def zone_def bktOf_def rrs_loop_A split: option.splits)

lemma handle_zone:
  assumes "bd_instance db \<noteq> NoInstance" "dm_Opcode q = OpcodeQuery" "dm_Question q = qn # qs"
  shows "handleDNSRequest rnd exchange forwarder q db =
     Ret db (case if dq_Qtype qn = TypeA then zone db (dq_Name qn) else None of
               Some as \<Rightarrow> AuthoritativeReply (shuffle rnd (length as) (answersOf (dq_Name qn) as))
             | None \<Rightarrow> if forwarder = [] then RcodeReply RcodeServerFailure
                       else (case exchange q (forwarder @ '':53'') of
                               Inr m \<Rightarrow> ForwardedReply m | Inl _ \<Rightarrow> RcodeReply RcodeServerFailure))"
  using assms
  by (auto simp: handleDNSRequest_def GetRRSet_zone forwardRequest_def answersOf_def split: option.splits sum.splits)

section \<open>Records set through the lifecycle agent\<close>

lemma parseIPs_Inr: "parseIPs ips out = Inr as \<longleftrightarrow> (\<exists>bs. as = out @ bs \<and> map netParseIP ips = map Some bs)"
proof (induction ips arbitrary: out)
  case (Cons ip ips)
  show ?case
  proof (cases "netParseIP ip")
    case (Some b)
    then have "parseIPs (ip # ips) out = Inr as \<longleftrightarrow> (\<exists>bs. as = (out @ [b]) @ bs \<and> map netParseIP ips = map Some bs)"
      using Cons.IH by simp
    then show ?thesis using Some by (auto simp: Cons_eq_map_conv)
  qed (auto simp: Cons_eq_map_conv)
qed auto

lemma SetA_ok:
  assumes "Srv_SetA isSocket dialErr lost typeToString txErr input db = (db', None)"
  obtains as where "map netParseIP (as_Values input) = map Some as"
    "SetHostRRSet typeToString txErr TypeA (as_Name input) as db = Ret db' None"
  using assms
  by (auto simp: Srv_SetA_def transform2HostRecord_def dns_set_def throughClient_def SetAuthoritativeHost_def parseIPs_Inr
      TypeA_def split: sum.splits option.splits go.splits)

lemma SetA_error:
  "Srv_SetA isSocket dialErr lost typeToString txErr input db = (db', Some e) \<Longrightarrow> db' = db"
  by (auto simp: Srv_SetA_def transform2HostRecord_def dns_set_def throughClient_def SetAuthoritativeHost_def
      SetHostRRSet_def boltUpdate_def split: sum.splits option.splits go.splits if_splits boltInstance.splits)

lemma DeleteA_ok:
  "Srv_DeleteA isSocket dialErr lost typeToString txErr input db = (db', None) \<Longrightarrow>
   DelRRSet typeToString txErr TypeA (as_Name input) db = Ret db' None"
  by (auto simp: Srv_DeleteA_def transform2Record_def dns_del_def throughClient_def DeleteAuthoritative_def TypeA_def
      split: option.splits go.splits)

lemma SetHost_opened: "SetHostRRSet typeToString txErr TypeA n as db = Ret db' None \<Longrightarrow> bd_instance db' = Opened"
  by (auto simp: SetHostRRSet_def elim!: bolt_cases)

lemma DelRRSet_opened: "DelRRSet typeToString txErr TypeA n db = Ret db' None \<Longrightarrow> bd_instance db' = Opened"
  by (auto simp: DelRRSet_def elim!: bolt_cases split: go.splits option.splits)

end
