(* ===== verification/Ela_Properties.thy ===== *)
theory Ela_Properties
  imports Ela_Accept Edge_Dns
begin

text \<open>
  The properties of the lifecycle agent, the dataplane agent and the DNS responder of a node, with
  examples that apply them.
\<close>

section \<open>Examples\<close>

definition exSelector :: "string \<Rightarrow> 32 word \<Rightarrow> PBTrafficSelector" where
  "exSelector a m = noSelector\<lparr>qs_Ip := Some (noIPFilter\<lparr>qi_Address := a, qi_Mask := m, qi_BeginPort := 80, qi_EndPort := 90\<rparr>)\<rparr>"

definition exRule :: PBTrafficRule where
  "exRule = noRule\<lparr>qr_Priority := 7, qr_Source := Some (exSelector ''10.0.0.1'' 24),
     qr_Destination := Some (noSelector\<lparr>qs_Gtp := Some \<lparr>qg_Address = ''192.168.1.2'', qg_Mask = 32, qg_Imsis = []\<rparr>\<rparr>),
     qr_Target := Some \<lparr>qt_Description = [], qt_Action = ACCEPT, qt_Mac = None, qt_Ip = None\<rparr>\<rparr>"

definition exPolicy :: PBTrafficPolicy where
  "exPolicy = \<lparr>qp_Id = ''app-1'', qp_TrafficRules = [exRule]\<rparr>"

definition exMac :: string where
  "exMac = ''02:00:00:00:00:1f''"

definition exEnv :: ela_env where
  "exEnv =
     \<lparr>en_Config = \<lparr>ec_EDAEndpoint = ''eda'', ec_NtsConfigPath = ''nts.cfg'', ec_DNSIP = ''10.16.0.1'',
        ec_PCIBlacklist = [], ec_InterfaceMTU = 1500\<rparr>,
      en_call = (\<lambda>_. None), en_clientErr = None, en_closeErr = None, en_inspect = (\<lambda>_. (True, ''running'')),
      en_nts = (\<lambda>_. 0), en_dialErr = None, en_lost = PlainError ''transport is closing'', en_range = (\<lambda>m. m),
      en_iniText = (\<lambda>_. Inr ''route = a|b''), en_shadowLoad = Inr (ntsConfigTemplate, []), en_mapTo = (\<lambda>_. None),
      en_lspciMissing = False, en_lspci = Inr [[''0000:00:05.0'', ''Ethernet'', ''Intel'', ''I350'']], en_nsEnter = None,
      en_netInterfaces = Inr [], en_ctxErr = (\<lambda>k. if k < 5 then None else Some ''context deadline exceeded''),
      en_stat = (\<lambda>k. if k = 0 then StatNotExist else StatFound), en_vm = (\<lambda>_. Inl ''Domain not found''),
      en_containers = (\<lambda>_. Inr [\<lparr>dc_Names = [''/app-1''], dc_Inspect = Inr (''/run/ns/1'', None)\<rparr>,
        \<lparr>dc_Names = [''/mec-app-edgednssvr''], dc_Inspect = Inr (''/run/ns/2'', None)\<rparr>]),
      en_command = (\<lambda>_ _. Inr (exMac @ newline))\<rparr>"

definition exEla :: ela_state where
  "exEla =
     \<lparr>el_InterfaceConfigurationData =
        \<lparr>id_TrafficPolicies = [(''0000:00:05.0'', exPolicy\<lparr>qp_Id := ''0000:00:05.0''\<rparr>)], id_NetworkInterfaces = None\<rparr>,
      el_eda = \<lparr>ed_AppTrafficPolicies = [], ed_nts = []\<rparr>, el_calls = [], el_ticks = 0\<rparr>"

definition exIfaces :: "PBNetworkInterface list" where
  "exIfaces =
     [\<lparr>pi_Id = ''0000:00:05.0'', pi_Description = ''up'', pi_Driver = 1, pi_Type = 1, pi_MacAddress = [], pi_Vlan = 0,
       pi_Zones = [], pi_FallbackInterface = ''0000:00:06.0''\<rparr>,
      \<lparr>pi_Id = ''0000:00:06.0'', pi_Description = ''down'', pi_Driver = 1, pi_Type = 2, pi_MacAddress = [], pi_Vlan = 0,
       pi_Zones = [], pi_FallbackInterface = ''0000:00:05.0''\<rparr>,
      \<lparr>pi_Id = ''0000:00:07.0'', pi_Description = [], pi_Driver = 0, pi_Type = 0, pi_MacAddress = [], pi_Vlan = 0,
       pi_Zones = [], pi_FallbackInterface = []\<rparr>]"

section \<open>Routes\<close>

text \<open>
  (C37) The text of a route says what the rule says: a rule that the lifecycle agent has verified, with
  addresses in dotted notation, has a text, and parsing that text gives back its priority and its
  selectors (the fields that a route has; \<open>routed\<close> drops descriptions and the target).
\<close>

theorem route_round_trip:
  assumes "VerifyTrafficRule r = None" "\<forall>a \<in> set (ruleAddresses r). CHR '':'' \<notin> set a"
  shows "\<exists>s. TrafficRuleProtoToString (Some r) = Inr s \<and> TrafficRuleStringToProto s = Inr (routed r)"
  using verified_text [OF assms(1)] rule_round_trip verified_plain [OF assms] by blast

theorem route_round_trip_witness:
  "VerifyTrafficRule exRule = None \<and> TrafficRuleStringToProto (projr (TrafficRuleProtoToString (Some exRule))) = Inr (routed exRule)"
proof -
  have "VerifyTrafficRule exRule = None" "\<forall>a \<in> set (ruleAddresses exRule). CHR '':'' \<notin> set a" by code_simp+
  with route_round_trip [OF this] show ?thesis by auto
qed

text \<open>
  (C36) A policy of the controller that passes its validation is converted for the node, and the node
  accepts it exactly if all its rules have the action accept and no modifier of the IP address, filter
  by IPv4 addresses with masks up to 32 (0 only for 0.0.0.0) and by no MAC address, protocol or IMSI.
  The two validations thus differ, and a policy outside of this set is stored by the controller and
  refused by every node.
\<close>

theorem policy_acceptance:
  assumes "TrafficPolicy_Validate lib p = VOk" "i \<noteq> []"
  shows "\<exists>q. toPBTrafficPolicy i (Some p) = Some q
    \<and> (VerifyTrafficPolicy (Some q) = None \<longleftrightarrow> (\<forall>r. Some r \<in> set (tp_Rules p) \<longrightarrow> nodeRule r))"
  using assms by (rule accept_policy)

definition exCcePolicy :: "string \<Rightarrow> TrafficPolicy" where
  "exCcePolicy action =
     \<lparr>tp_ID = ''id'', tp_Name = ''web'',
      tp_Rules = [Some \<lparr>tr_Description = [], tr_Priority = 1, tr_Source = None,
        tr_Destination = Some \<lparr>ts_Description = [], ts_MACs = None,
          ts_IP = Some \<lparr>if_Address = ''10.0.0.1'', if_Mask = 32, if_BeginPort = 1, if_EndPort = 2, if_Protocol = ''all''\<rparr>,
          ts_GTP = None\<rparr>,
        tr_Target = Some \<lparr>tt_Description = [], tt_Action = action, tt_MAC = None, tt_IP = None\<rparr>\<rparr>]\<rparr>"

definition exLib :: cce_lib where
  "exLib = \<lparr>uuidOk = (\<lambda>_. True), parseRequestURI = (\<lambda>_. True)\<rparr>"

theorem policy_acceptance_witness:
  "(\<exists>q. toPBTrafficPolicy ''n'' (Some (exCcePolicy ''accept'')) = Some q \<and> VerifyTrafficPolicy (Some q) = None)
   \<and> (\<exists>q. toPBTrafficPolicy ''n'' (Some (exCcePolicy ''drop'')) = Some q \<and> VerifyTrafficPolicy (Some q) \<noteq> None)"
proof -
  have valid: "TrafficPolicy_Validate exLib (exCcePolicy ''accept'') = VOk"
    "TrafficPolicy_Validate exLib (exCcePolicy ''drop'') = VOk" by code_simp+
  have "ipTo4 (netParseIP ''10.0.0.1'') \<noteq> None" by code_simp
  then have "\<forall>r. Some r \<in> set (tp_Rules (exCcePolicy ''accept'')) \<longrightarrow> nodeRule r"
    by (simp add: exCcePolicy_def nodeRule_def nodeSelector_def nodeTarget_def nodeAddress_def)
  moreover have "\<exists>r. Some r \<in> set (tp_Rules (exCcePolicy ''drop'')) \<and> \<not> nodeRule r"
    by (simp add: exCcePolicy_def nodeRule_def nodeTarget_def)
  ultimately show ?thesis
    using policy_acceptance [OF valid(1), of "''n''"] policy_acceptance [OF valid(2), of "''n''"] by auto
qed

text \<open>
  (C32) A policy of an application arrives at the transport service as it was sent: if the policy is
  verified and its addresses hold no colon, the MAC address of the application is found and valid, and the
  connection to the transport service and its calls succeed, then the agents answer with success, the
  routes in force for the application are those of the policy, in order and to the address of the
  application, and each parses back to its rule; the routes of other applications stay as they are.
\<close>

theorem policy_reaches_nts:
  assumes "VerifyTrafficPolicy (Some tp) = None" "GetMacAddress env (el_ticks s) (qp_Id tp) = Ret () (Inr mac)"
    and "VerifyMACAddress mac = None" "en_dialErr env = None" "\<forall>n. en_nts env n = 0"
    and "\<forall>r \<in> set (qp_TrafficRules tp). \<forall>a \<in> set (ruleAddresses r). CHR '':'' \<notin> set a"
  shows "\<exists>s' rs. Ela_AppPolicy_Set env tp s = Ret s' None
    \<and> map_option at_NtsTrafficRules (gm_get (ed_AppTrafficPolicies (el_eda s')) (qp_Id tp)) =
        (if qp_TrafficRules tp = [] then None else Some rs)
    \<and> map (\<lambda>r. TrafficRuleStringToProto (pr_LookupKeys r)) rs = map (\<lambda>r. Inr (routed r)) (qp_TrafficRules tp)
    \<and> (\<forall>r \<in> set rs. Some (pr_Mac r) = netParseMAC mac)
    \<and> (\<forall>i. i \<noteq> qp_Id tp \<longrightarrow>
          gm_get (ed_AppTrafficPolicies (el_eda s')) i = gm_get (ed_AppTrafficPolicies (el_eda s)) i)"
proof -
  obtain bs where bs: "netParseMAC mac = Some bs" using assms(3) by (auto simp: VerifyMACAddress_def split: option.splits)
  let ?tp = "tp\<lparr>qp_TrafficRules := map (withMAC mac) (qp_TrafficRules tp)\<rparr>"
  let ?rs = "map (parsedRule bs) (qp_TrafficRules tp)"
  have i: "qp_Id ?tp \<noteq> []" and rules: "\<forall>r \<in> set (qp_TrafficRules tp). VerifyTrafficRule r = None"
    using assms(1) by (auto simp: VerifyTrafficPolicy_def verifyRules_None split: if_splits)
  note valid = Validate_verified [OF bs assms(1)]
  from accepted_set [OF assms(5) i valid] obtain d where d: "eda_Set (NewNtsConnection (en_nts env)) ?tp (el_eda s) = Ret d None"
    by blast
  with Set_outcome [of "en_nts env" ?tp "el_eda s"] have out: "outcome ?tp (el_eda s) d None" using i assms(5) by auto
  have set: "Ela_AppPolicy_Set env tp s = Ret (s\<lparr>el_calls := el_calls s @ [DialEDA ?tp], el_eda := d\<rparr>) None"
    by (simp add: Ela_AppPolicy_Set_def assms(1-4) DialEDASet_def d)
  have "TrafficRuleStringToProto (pr_LookupKeys (parsedRule bs r)) = Inr (routed r)" if "r \<in> set (qp_TrafficRules tp)" for r
    using verified_text [of r] rule_round_trip verified_plain [of r] rules that assms(6) by (auto simp: parsedRule_def)
  then have "map (\<lambda>r. TrafficRuleStringToProto (pr_LookupKeys r)) ?rs = map (\<lambda>r. Inr (routed r)) (qp_TrafficRules tp)"
    by simp
  moreover have "\<forall>r \<in> set ?rs. Some (pr_Mac r) = netParseMAC mac" by (auto simp: parsedRule_def bs)
  moreover have "ed_AppTrafficPolicies d = (let m = gm_del (qp_Id tp) (ed_AppTrafficPolicies (el_eda s)) in
      if qp_TrafficRules tp = [] then m else gm_put (qp_Id tp) \<lparr>at_Policy = ?tp, at_NtsTrafficRules = ?rs\<rparr> m)"
    using out by (auto simp: outcome_def valid clearedBy_def installedBy_def split: if_splits)
  ultimately show ?thesis using set by (intro exI conjI) (auto simp: Let_def)
qed

theorem policy_reaches_nts_witness:
  "\<exists>s' rs. Ela_AppPolicy_Set exEnv exPolicy exEla = Ret s' None
    \<and> map_option at_NtsTrafficRules (gm_get (ed_AppTrafficPolicies (el_eda s')) ''app-1'') = Some rs
    \<and> map (\<lambda>r. TrafficRuleStringToProto (pr_LookupKeys r)) rs = [Inr (routed exRule)]"
proof -
  have "VerifyTrafficPolicy (Some exPolicy) = None"
    "GetMacAddress exEnv (el_ticks exEla) (qp_Id exPolicy) = Ret () (Inr exMac)" "VerifyMACAddress exMac = None"
    "en_dialErr exEnv = None"
    "\<forall>r \<in> set (qp_TrafficRules exPolicy). \<forall>a \<in> set (ruleAddresses r). CHR '':'' \<notin> set a" by code_simp+
  moreover have "\<forall>n. en_nts exEnv n = 0" by (simp add: exEnv_def)
  ultimately show ?thesis using policy_reaches_nts [of exPolicy exEnv exEla exMac]
    by (auto simp: exPolicy_def)
qed

section \<open>The dataplane agent\<close>

text \<open>
  (C33) No route is forgotten: whatever policies arrive and whichever calls of the transport service
  fail, every route that the service accepted is either in the memory of the dataplane agent or was
  handed to removal, and each was handed to removal once.
\<close>

theorem routes_accounted:
  "eda_reach res s \<Longrightarrow> added (ed_nts s) = removals (ed_nts s) + held (ed_AppTrafficPolicies s)"
  using eda_reach_accounted by (simp add: accounted_def)

text \<open>A state after two requests, with a service that refuses the last route of the second.\<close>

definition exRes :: "nat \<Rightarrow> int" where
  "exRes n = (if n = 5 then 1 else 0)"

definition exMacPolicy :: "PBTrafficRule list \<Rightarrow> PBTrafficPolicy" where
  "exMacPolicy rules = \<lparr>qp_Id = ''app-1'', qp_TrafficRules = map (withMAC exMac) rules\<rparr>"

definition exEda :: eda_state where
  "exEda = (case eda_Set (NewNtsConnection exRes) (exMacPolicy [exRule]) \<lparr>ed_AppTrafficPolicies = [], ed_nts = []\<rparr> of
     Ret s _ \<Rightarrow> s | Panic s \<Rightarrow> s)"

theorem routes_accounted_witness:
  "length (ed_AppTrafficPolicies exEda) = 1 \<and> added (ed_nts exEda) = removals (ed_nts exEda) + held (ed_AppTrafficPolicies exEda)"
proof -
  obtain s' e where s': "eda_Set (NewNtsConnection exRes) (exMacPolicy [exRule]) \<lparr>ed_AppTrafficPolicies = [], ed_nts = []\<rparr> = Ret s' e"
    using Set_outcome by blast
  then have "eda_reach exRes exEda" using eda_reach.set [OF eda_reach.start s'] by (simp add: exEda_def)
  moreover have "length (ed_AppTrafficPolicies exEda) = 1" by code_simp
  ultimately show ?thesis using routes_accounted [of exRes exEda] by simp
qed

text \<open>
  (C38) What a request to the dataplane agent leaves. The handler always returns. Without an identifier or
  a connection nothing changes and the error has the code Unknown. Otherwise the old routes of the
  application are gone; a policy without rules leaves none and succeeds; a policy with a rule that is
  not valid leaves none and answers with the code of the rule; else the routes of the policy are in
  force if the service refused none of them, and none are in force, with an error, if it refused one.
\<close>

theorem eda_set_outcome:
  "\<exists>s' e. eda_Set (NewNtsConnection res) tp s = Ret s' e
     \<and> (if qp_Id tp = [] \<or> res (length (ed_nts s)) \<noteq> 0
        then map_option errorCode e = Some Unknown_code \<and> ed_AppTrafficPolicies s' = ed_AppTrafficPolicies s
        else outcome tp s s' e)"
  using Set_outcome [of res tp s] by blast

theorem eda_set_outcome_witness:
  "\<exists>s' e. eda_Set (NewNtsConnection exRes) (exMacPolicy [exRule]) exEda = Ret s' e
     \<and> outcome (exMacPolicy [exRule]) exEda s' e"
proof -
  have "\<not> (qp_Id (exMacPolicy [exRule]) = [] \<or> exRes (length (ed_nts exEda)) \<noteq> 0)" by code_simp
  then show ?thesis using eda_set_outcome [of exRes "exMacPolicy [exRule]" exEda] by simp
qed

section \<open>Interfaces\<close>

text \<open>
  (C34) A bulk update that succeeds has configured the transport service for exactly the interfaces that
  are driven from user space: one port for each, with the routes of the policy in force for it and with
  the number of the port that is its fallback interface; the configuration was saved before the DNS
  responder and the service were stopped, and they were stopped before they were started again. The
  policies stay, and the interfaces are forgotten. The iteration over a Go map visits each entry once.
\<close>

theorem bulk_update_configures:
  assumes "Ela_BulkUpdate env nis s = Some (Ret s' (Inr ()))" "\<forall>m. mset (en_range env m) = mset m"
  shows "\<exists>cfg new. el_calls s' = el_calls s @ new \<and> subseq (orderedCalls cfg) new
    \<and> portsFor (id_TrafficPolicies (el_InterfaceConfigurationData s)) nis (nx_Ports cfg)
    \<and> id_TrafficPolicies (el_InterfaceConfigurationData s') = id_TrafficPolicies (el_InterfaceConfigurationData s)
    \<and> id_NetworkInterfaces (el_InterfaceConfigurationData s') = None"
  using assms by (rule Ela_BulkUpdate_ok)

lemma exUpdate_ok: "\<exists>s'. Ela_BulkUpdate exEnv exIfaces exEla = Some (Ret s' (Inr ()))"
proof -
  have "case Ela_BulkUpdate exEnv exIfaces exEla of Some (Ret s' (Inr ())) \<Rightarrow> True | _ \<Rightarrow> False" by code_simp
  then show ?thesis by (auto split: option.splits go.splits sum.splits)
qed

theorem bulk_update_configures_witness:
  "\<exists>s' cfg new. Ela_BulkUpdate exEnv exIfaces exEla = Some (Ret s' (Inr ()))
    \<and> el_calls s' = new \<and> subseq (orderedCalls cfg) new
    \<and> po_PciAddress ` set (nx_Ports cfg) = {''0000:00:05.0'', ''0000:00:06.0''}"
proof -
  obtain s' where s': "Ela_BulkUpdate exEnv exIfaces exEla = Some (Ret s' (Inr ()))" using exUpdate_ok ..
  have "\<forall>m. mset (en_range exEnv m) = mset m" by (simp add: exEnv_def)
  from bulk_update_configures [OF s' this] obtain cfg new where cfg: "el_calls s' = el_calls exEla @ new"
    "subseq (orderedCalls cfg) new"
    "portsFor (id_TrafficPolicies (el_InterfaceConfigurationData exEla)) exIfaces (nx_Ports cfg)" by blast
  have "pi_Id ` {n \<in> set exIfaces. pi_Driver n \<noteq> 0} = set (map pi_Id (filter (\<lambda>n. pi_Driver n \<noteq> 0) exIfaces))" by auto
  also have "map pi_Id (filter (\<lambda>n. pi_Driver n \<noteq> 0) exIfaces) = [''0000:00:05.0'', ''0000:00:06.0'']" by code_simp
  finally have "po_PciAddress ` set (nx_Ports cfg) = {''0000:00:05.0'', ''0000:00:06.0''}"
    using cfg(3) by (simp add: portsFor_def)
  moreover have "el_calls s' = new" using cfg(1) by (simp add: exEla_def)
  ultimately show ?thesis using s' cfg(2) by blast
qed

text \<open>
  (C39) A bulk update ends: when the context of the call ends, the agent stops waiting for the transport
  service and for the interface of the DNS responder, and the call returns.
\<close>

theorem bulk_update_returns:
  assumes "\<exists>k. \<forall>n \<ge> k. en_ctxErr env n \<noteq> None"
  shows "\<exists>r. Ela_BulkUpdate env nis s = Some r"
proof -
  have "returns (configureNTS env)" using assms by (intro returns_configure) (simp add: ctxEnds_def)
  then have "returns (wrapL ''failed to configure NTS'' (configureNTS env))" by simp
  then show ?thesis by (auto simp: Ela_BulkUpdate_def returns_def failL_def split: option.splits)
qed

theorem bulk_update_returns_witness:
  "\<exists>r. Ela_BulkUpdate (exEnv\<lparr>en_stat := (\<lambda>_. StatNotExist)\<rparr>) exIfaces exEla = Some r"
  by (rule bulk_update_returns) (auto simp: exEnv_def intro!: exI [of _ 5])

text \<open>
  (C40) The numbers of the egress ports that are written to the configuration file are read back as the
  fallback interfaces they stand for, and reading does not fail or panic, when every fallback interface
  is one of the ports and the sections of the file decode to the ports that were written (the file holds
  all fields of a port but the address of its fallback).
\<close>

theorem egress_round_trip:
  assumes "\<forall>p \<in> set (nx_Ports cfg). po_EgressPortID p \<in> po_PciAddress ` set (nx_Ports cfg)"
    and "portsOf sections [] = Inr (map (\<lambda>p. p\<lparr>po_EgressPortID := []\<rparr>) (nx_Ports (Nts_Update cfg)))"
  shows "NtsConfigFromFile (Inr (c, sections)) (\<lambda>_. None) path = Ret () (Inr (c\<lparr>nx_Ports := nx_Ports (Nts_Update cfg)\<rparr>))"
  using assms(2) Update_resolves [OF assms(1)]
  by (simp add: NtsConfigFromFile_def Nts_Update_def erased_def [abs_def] comp_def)

definition exPorts :: NtsConfig where
  "exPorts = ntsConfigTemplate\<lparr>nx_Ports :=
     [(newPort 1500)\<lparr>po_PciAddress := ''a'', po_EgressPortID := ''b''\<rparr>, (newPort 1500)\<lparr>po_PciAddress := ''b'', po_EgressPortID := ''a''\<rparr>]\<rparr>"

theorem egress_round_trip_witness:
  "\<exists>sections. NtsConfigFromFile (Inr (ntsConfigTemplate, sections)) (\<lambda>_. None) ''nts.cfg'' =
     Ret () (Inr (ntsConfigTemplate\<lparr>nx_Ports := nx_Ports (Nts_Update exPorts)\<rparr>))
   \<and> map po_EgressPort (nx_Ports (Nts_Update exPorts)) = [1, 0]"
proof -
  let ?secs = "zip [''PORT0'', ''PORT1''] (map (\<lambda>p. Inr (p\<lparr>po_EgressPortID := []\<rparr>)) (nx_Ports (Nts_Update exPorts)))"
  have "\<forall>p \<in> set (nx_Ports exPorts). po_EgressPortID p \<in> po_PciAddress ` set (nx_Ports exPorts)"
    "map po_EgressPort (nx_Ports (Nts_Update exPorts)) = [1, 0]" by code_simp+
  moreover have "portsOf ?secs [] = Inr (map (\<lambda>p. p\<lparr>po_EgressPortID := []\<rparr>) (nx_Ports (Nts_Update exPorts)))"
    by code_simp
  ultimately show ?thesis
    using egress_round_trip [of exPorts ?secs ntsConfigTemplate "''nts.cfg''"] by (intro exI [of _ ?secs] conjI)
qed

section \<open>Names\<close>

definition askA :: "string \<Rightarrow> dnsQuery" where
  "askA n = \<lparr>dm_Opcode = OpcodeQuery, dm_Question = [\<lparr>dq_Name = n, dq_Qtype = TypeA\<rparr>]\<rparr>"

lemma handle_ask:
  assumes "bd_instance db = Opened"
  shows "handleDNSRequest rnd exchange forwarder (askA n) db =
     Ret db (case zone db n of
               Some as \<Rightarrow> AuthoritativeReply (shuffle rnd (length as) (answersOf n as))
             | None \<Rightarrow> if forwarder = [] then RcodeReply RcodeServerFailure
                       else (case exchange (askA n) (forwarder @ '':53'') of
                               Inr m \<Rightarrow> ForwardedReply m | Inl _ \<Rightarrow> RcodeReply RcodeServerFailure))"
proof -
  let ?qn = "\<lparr>dq_Name = n, dq_Qtype = TypeA\<rparr>"
  have "bd_instance db \<noteq> NoInstance" "dm_Opcode (askA n) = OpcodeQuery" "dm_Question (askA n) = [?qn]"
    using assms by (simp_all add: askA_def)
  from handle_zone [OF this, of rnd exchange forwarder] show ?thesis by (cases "zone db n") simp_all
qed

lemma SetA_served:
  assumes "Srv_SetA isSocket dialErr lost types txErr input db = (db', None)"
  shows "\<exists>as rrs. map netParseIP (as_Values input) = map Some as
    \<and> handleDNSRequest rnd exchange forwarder (askA (qualify (as_Name input))) db' = Ret db' (AuthoritativeReply rrs)
    \<and> mset (map rr_A rrs) = mset as \<and> (\<forall>rr \<in> set rrs. rr_Name rr = qualify (as_Name input) \<and> rr_Ttl rr = 10)"
proof -
  let ?n = "qualify (as_Name input)"
  from assms obtain as where as: "map netParseIP (as_Values input) = map Some as"
    and set: "SetHostRRSet types txErr TypeA (as_Name input) as db = Ret db' None" by (rule SetA_ok)
  let ?rrs = "shuffle rnd (length as) (answersOf ?n as)"
  have mset: "mset ?rrs = mset (answersOf ?n as)" by (intro mset_shuffle) (simp add: answersOf_def)
  have "handleDNSRequest rnd exchange forwarder (askA ?n) db' = Ret db' (AuthoritativeReply ?rrs)"
    using SetHost_opened [OF set] bolt.set_then_found [OF set] by (simp add: handle_ask)
  moreover have "mset (map rr_A ?rrs) = mset as"
  proof -
    have "mset (map rr_A ?rrs) = mset (map rr_A (answersOf ?n as))" using mset by (metis mset_map)
    then show ?thesis by (simp add: answersOf_def comp_def)
  qed
  moreover have "set ?rrs = set (answersOf ?n as)" using mset by (metis set_mset_mset)
  ultimately show ?thesis using as by (intro exI [of _ as] exI [of _ ?rrs]) (auto simp: answersOf_def TTL_def)
qed

text \<open>
  (C35) A record that the controller sets on a node is served. After \<open>SetA\<close> succeeded, a query for the
  qualified name and the type A gets an authoritative reply whose addresses are those of the record, in
  some order and each with a time to live of ten seconds. After \<open>DeleteA\<close> succeeded, a query for that
  name gets no authoritative reply. The records of other names stay.
\<close>

theorem dns_record_served:
  assumes "Srv_SetA isSocket dialErr lost types txErr input db = (db1, None)"
    and "Srv_DeleteA isSocket' dialErr' lost' types txErr' gone db1 = (db2, None)"
  shows "(\<exists>as rrs. map netParseIP (as_Values input) = map Some as
      \<and> handleDNSRequest rnd exchange forwarder (askA (qualify (as_Name input))) db1 = Ret db1 (AuthoritativeReply rrs)
      \<and> mset (map rr_A rrs) = mset as \<and> (\<forall>rr \<in> set rrs. rr_Name rr = qualify (as_Name input) \<and> rr_Ttl rr = 10))
    \<and> (\<exists>rep. handleDNSRequest rnd exchange forwarder (askA (qualify (as_Name gone))) db2 = Ret db2 rep
        \<and> (\<forall>rrs. rep \<noteq> AuthoritativeReply rrs))
    \<and> (\<forall>n. n \<noteq> qualify (as_Name input) \<longrightarrow> zone db1 n = zone db n)
    \<and> (\<forall>n. n \<noteq> qualify (as_Name gone) \<longrightarrow> zone db2 n = zone db1 n)"
proof -
  obtain as where set: "SetHostRRSet types txErr TypeA (as_Name input) as db = Ret db1 None" using assms(1) by (rule SetA_ok)
  have del: "DelRRSet types txErr' TypeA (as_Name gone) db1 = Ret db2 None" using assms(2) by (rule DeleteA_ok)
  have "\<exists>rep. handleDNSRequest rnd exchange forwarder (askA (qualify (as_Name gone))) db2 = Ret db2 rep
      \<and> (\<forall>rrs. rep \<noteq> AuthoritativeReply rrs)"
    using DelRRSet_opened [OF del] bolt.del_then_gone [OF del] by (simp add: handle_ask split: sum.splits)
  then show ?thesis using SetA_served [OF assms(1)] bolt.others_kept(1) [OF set] bolt.others_kept(2) [OF del] by blast
qed

definition exDb :: BoltDB where
  "exDb = \<lparr>bd_instance = Opened, bd_ADDR4 = Some []\<rparr>"

definition exA :: DNSARecordSet where
  "exA = \<lparr>as_Name = ''app.example'', as_Values = [''10.0.0.1'', ''10.0.0.2'']\<rparr>"

definition exDb1 :: BoltDB where
  "exDb1 = fst (Srv_SetA True None (PlainError ''lost'') (\<lambda>_. ''A'') None exA exDb)"

theorem dns_record_served_witness:
  "\<exists>rrs. handleDNSRequest (\<lambda>_. 0) (\<lambda>_ _. Inr ()) ''8.8.8.8'' (askA (qualify (as_Name exA))) exDb1 =
      Ret exDb1 (AuthoritativeReply rrs) \<and> length rrs = 2"
proof -
  have "Srv_SetA True None (PlainError ''lost'') (\<lambda>_. ''A'') None exA exDb = (exDb1, None)"
    "Srv_DeleteA True None (PlainError ''lost'') (\<lambda>_. ''A'') None exA exDb1 = (exDb, None)" by code_simp+
  note served = dns_record_served [OF this, of "\<lambda>_. 0" "\<lambda>_ _. Inr ()" "''8.8.8.8''", THEN conjunct1]
  then obtain as rrs where as: "map netParseIP (as_Values exA) = map Some as"
    and rrs: "handleDNSRequest (\<lambda>_. 0) (\<lambda>_ _. Inr ()) ''8.8.8.8'' (askA (qualify (as_Name exA))) exDb1 =
      Ret exDb1 (AuthoritativeReply rrs)" and mset: "mset (map rr_A rrs) = mset as" by (elim exE conjE)
  have "length (as_Values exA) = 2" by code_simp
  then have "length as = 2" using arg_cong [OF as, of length] by simp
  then have "length rrs = 2" using arg_cong [OF mset, of size] by simp
  with rrs show ?thesis by (intro exI conjI)
qed

end
