(* ===== verification/Spec2Isabelle.thy ===== *)
theory Spec2Isabelle
  imports Nef_Properties Nef_PfdProperties Eaa_Credentials Cce_Properties Ela_Properties
begin

text \<open>
  Verification of \<open>native-on-prem\<close>, an edge computing platform: the controller
  (\<open>src/edgecontroller\<close>); of an edge node the enrolment (\<open>src/edgenode/pkg/auth\<close>), the application agent
  (\<open>pkg/eaa\<close>), the lifecycle agent (\<open>pkg/ela\<close>), the dataplane agent (\<open>pkg/eda\<close>) and the DNS responder
  (\<open>pkg/edgedns\<close>); and the network exposure function of the 5G core (\<open>src/epcforedge/ngc/pkg/nef\<close>).

  \<^bold>\<open>The program.\<close>
  \<^item> The controller keeps nodes, applications, policies and DNS configurations in a MySQL database
    (\<open>mysql/\<close>), serves them to the operator over REST (\<open>gorilla/\<close>, guarded by tokens of \<open>jose/\<close>), and
    brings what is recorded to the nodes over gRPC (\<open>grpc/clients/\<close>) and to a Kubernetes cluster
    (\<open>k8s/\<close>). Nodes enrol with it: it signs their certificates (\<open>grpc/server.go\<close>, \<open>pki/\<close>). A node
    reports its hardware features to it (\<open>nfd-master/\<close>).
  \<^item> A node makes its key, obtains credentials from the controller and keeps them in files
    (\<open>auth/\<close>). Its application agent (EAA) lets applications offer services, subscribe to
    notifications and receive them over websockets, and signs the certificates of applications. Its
    lifecycle agent (ELA) takes policies, interfaces and DNS records from the controller: it writes the
    configuration of the network transport service (NTS) and restarts it, hands the policies of
    applications to the dataplane agent (EDA), which turns them into routes of the NTS, and the records
    to the DNS responder.
  \<^item> The NEF serves traffic influence subscriptions (\<open>nef_nb_ti_handler.go\<close>) and packet flow
    descriptions (\<open>nef_nb_pfd_handler.go\<close>) to application functions (AFs). Both work on one table of
    AFs (\<open>nef_hdlr.go\<close>), forward what they store to the PCF or to the UDR (\<open>nef_pcf_pa_client.go\<close>,
    \<open>nef_udr_id_client.go\<close>, \<open>nef_udr_pfd_client.go\<close>), and are dispatched by a router with an optional
    OAuth2 check (\<open>nef_router.go\<close>, \<open>pkg/oauth2\<close>). The SMF notifies events, which the NEF passes on.

  \<^bold>\<open>The language.\<close> \<open>Go_Prelude\<close>, \<open>Go_Strconv\<close>, \<open>Go_Strings\<close>, \<open>Go_Net\<close> and \<open>Go_Http\<close> hold what the code
  uses of Go and its library: maps as association lists with distinct keys (locale \<open>go_map\<close>), \<open>int\<close> as
  64-bit words, calls that may panic, \<open>strconv\<close>, \<open>strings\<close>, \<open>filepath\<close>, the parsers of \<open>net\<close> for
  addresses, and the \<open>ResponseWriter\<close> with its order of effects.

  \<^bold>\<open>The controller.\<close> One definition per function, named as in the source.
  \<^item> \<open>Cce_Entities\<close>, \<open>Cce_Policies\<close>: the entities and their \<open>Validate\<close>, with the nil pointers on which it
    panics; the conversion of Kubernetes policies.
  \<^item> \<open>Cce_Db\<close>: the tables with the constraints of \<open>schema.sql\<close>, the statements of
    \<open>persistence_service.go\<close>, and the locale \<open>db_invariant\<close> of predicates that valid statements keep. It
    is interpreted with the integrity of the database and with the validity of its rows.
  \<^item> \<open>Cce_Control\<close>: computations of a handler over the state of the controller (the database, the log
    of remote calls, the number of identifiers drawn), where any statement and any call may fail.
  \<^item> \<open>Cce_Messages\<close>, \<open>Cce_Clients\<close>: the messages to the nodes and the clients that send them, and the
    Kubernetes client. \<open>Cce_Lossless\<close>: how the messages are read, and that validated entities are read as
    they were written.
  \<^item> \<open>Cce_Handlers\<close>, \<open>Cce_Api\<close>: the checks and remote operations, and the handlers of \<open>swagger.go\<close>.
  \<^item> \<open>Cce_Pki\<close>, \<open>Cce_Serve\<close>, \<open>Cce_Grpc\<close>: the certificate authority; tokens, routes and middlewares; the
    gRPC services for nodes, and the runs of the controller (\<open>cce_reach\<close>).
  \<^item> \<open>Cce_Wp\<close>, \<open>Cce_Facts\<close>, \<open>Cce_Properties\<close>: weakest preconditions of the computations, what the
    handlers do in every case, and the properties with an evaluated run.

  \<^bold>\<open>The node.\<close>
  \<^item> \<open>Auth_Pki\<close>, \<open>Auth_Enroll\<close>: key and certificate files on a model of the file system; enrolment.
  \<^item> \<open>Eaa\<close>, \<open>Eaa_Subscriptions\<close>, \<open>Eaa_Spec\<close>, \<open>Eaa_Properties\<close>: the agent, its subscriber lists, its
    specification as tables of services and subscriptions with the refinement, and the properties.
  \<^item> \<open>Eaa_Pki\<close>, \<open>Eaa_Credentials\<close>: the certificate authority of the agent and the credentials it gives.
  \<^item> \<open>Ela_Rules\<close>, \<open>Ela_Ports\<close>: the verification of policies and the text of a rule with its parser
    (\<open>ela/helpers\<close>, \<open>ela/ini\<close>), and the configuration file of the NTS.
  \<^item> \<open>Ela\<close>, \<open>Ela_Facts\<close>, \<open>Ela_Nts\<close>: the services of the lifecycle agent over its state and the log of its
    calls; the locale \<open>ela_frame\<close> of relations that its steps keep, with three interpretations; the
    reconfiguration of the NTS. \<open>Ela_Accept\<close>: which policies of the controller a node accepts.
  \<^item> \<open>Eda\<close>, \<open>Eda_Facts\<close>: the dataplane agent; the Go interface of a connection to the NTS is the locale
    \<open>nts_connection\<close>, extended by \<open>nts_connector\<close>, interpreted on the connection of \<open>eda/pkg\<close>.
  \<^item> \<open>Edge_Dns\<close>: the record store, the control server and the responder; the Go interface of the store is
    the locale \<open>dns_storage\<close>, interpreted on it.
  \<^item> \<open>Ela_Properties\<close>: the properties of these three programs.

  \<^bold>\<open>The NEF.\<close>
  \<^item> \<open>Nef_Model\<close>: the structs of the \<open>model_nef_*.go\<close> files, as records with the same fields.
  \<^item> \<open>Nef_Southbound\<close>: the three southbound clients; the Go interfaces they implement are the locales
    \<open>pcf_policy_authorization\<close> and \<open>udr_keyed_store\<close>, interpreted on them.
  \<^item> \<open>Nef_State\<close>: configuration, NEF context, table of AFs, error responses. A state is a
    \<open>nefContext\<close>; a pointer to an AF is its key in the table.
  \<^item> \<open>Nef_TrafficInfluence\<close>, \<open>Nef_Pfd\<close>, \<open>Nef_Router\<close>: one definition per function of the handler
    files and of the router; a handler maps the route variables, the decoded body, the state and the
    response writer to the new state and the response, or to a panic.
  \<^item> \<open>Nef_AfTable\<close>, \<open>Nef_Subscriptions\<close>, \<open>Nef_Transactions\<close>: the state seen as maps from an AF and an
    identifier to a subscription or a transaction, the effect of every operation on these maps in
    every branch, and the invariants.
  \<^item> \<open>Nef_Reach\<close>: the locale \<open>request_system\<close> of servers that keep an invariant, interpreted on the NEF.
  \<^item> \<open>Nef_Spec\<close>: the specification of the traffic influence API and its refinement.
  \<^item> \<open>Nef_Examples\<close>, \<open>Nef_Properties\<close>, \<open>Nef_PfdProperties\<close>: an evaluated run, and the properties.

  \<^bold>\<open>What is shown.\<close>
  \<^item> Controller: what is posted is what is served; what is stored reaches nodes and Kubernetes with every
    field; an application is recorded on a node only after its deployment there and in the cluster; the
    answers of deletion; tokens guard the interface up to a minute after their expiry; enrolment gives a
    node credentials that pass the verification of the node, and records its address; a node changes only
    its own labels; the authority is always found or made. The integrity of the database
    (\<open>integrity.reach_keeps\<close>) is a lemma: the constraints of \<open>schema.sql\<close> are enforced by MySQL.
  \<^item> Node: enrolment is done once; the agent refines its specification, delivers a notification to
    exactly its subscribers, and gives credentials only to applications that run on the node. A verified
    policy becomes the routes of its application, each of which parses back to its rule, and every route
    that the NTS accepted is accounted for; a bulk update of interfaces returns, and one that succeeds has
    written the ports before the restart; a DNS record is served until it is deleted.
  \<^item> NEF: limits, well-formedness, the one-to-one correspondence of PCF sessions and subscriptions,
    uniqueness of correlation identifiers and of PFD applications; the answer and the effect of each
    handler in each case; the refinement of the API specification; that OAuth2 guards every route.
  \<^item> The places where the code does not do what it means to: PFD transactions lost with the last
    subscription, UDR entries shared or left behind, a reachable panic, PATCH as PUT, headers set too
    late, a root certificate whose mismatch goes unnoticed, overlapping websocket requests, a
    notification to a websocket that vanishes, policies that the controller stores and every node refuses.

  \<^bold>\<open>Bounds.\<close> Identifiers of the NEF are drawn from 64-bit counters that wrap around, so the statements
  that need fresh identifiers speak of the first \<open>2 ^ 64\<close> requests. The loops that may not end (loading
  certificates, initializing the authority, waiting for the NTS) are partial functions, and that they
  return is a theorem.
  No definition uses fuel.

  \<^bold>\<open>Parameters.\<close> gorilla/mux, the JWT and JOSE libraries, X.509 and PEM, UUID generation, the Kubernetes
  API server, Docker, libvirt, the C library of the NTS, the INI reader, the clocks and the outcome of every
  statement and remote call are fields of the environments (\<open>nef_env\<close>, \<open>pki_env\<close>, \<open>cce_env\<close>, \<open>jose_lib\<close>,
  \<open>grpc_server\<close>, \<open>ela_env\<close>). What is relied upon is stated as \<open>pki_lawful\<close> (encoding and decoding of PEM),
  \<open>x509_lawful\<close> (a certificate that was created parses, has the key, the name and the usage of its template,
  and verifies against a parent with the signing key that may sign), \<open>csr_lawful\<close> (a request carries the
  key it was made with) and \<open>jose_lawful\<close> (a signed token gives its claims back, expiries are whole seconds,
  and validation allows a leeway of a minute), and the examples satisfy them. MySQL enforces the widths,
  unique keys and foreign keys that \<open>schema.sql\<close> declares: \<open>sqlInsert\<close>, \<open>sqlUpdate\<close> and \<open>sqlDelete\<close> write out
  these constraints. The decoding of a body is its outcome, an \<open>rbody\<close>.

  \<^bold>\<open>Not modelled.\<close> Requests are served one at a time: the handlers of the NEF and of the EAA share
  their state without locks, and their interleaving is modelled only for the upgrade of websockets and
  for the second read of a websocket by a notification. Logging, JSON encoding, TLS, listeners, timeouts
  and shutdown are I/O. Of the other packages, the virtualization agent of the node with its application
  metadata and network plugins, the AF and OAM of the 5G core, the telemetry of the controller, the proxy
  and the logger are not modelled; generated code, mocks, the user interface and the sample applications
  are not part of the platform's logic.
\<close>

text \<open>
  An error response that is written to a fresh response writer has one of the statuses 400, 404,
  411, 415, 500 and 503, holds exactly one problem document, and carries the JSON content type.
\<close>

theorem error_response_sent:
  assumes "rw_status w = None" and "rw_body w = []"
  shows "(\<exists>c\<in>{400, 404, 411, 415, 500, 503}. rw_status (sendErrorResponseToAF w rsp) = Some c) \<and>
    (\<exists>p. rw_body (sendErrorResponseToAF w rsp) = [BProblem p]) \<and>
    gm_get (rw_sent (sendErrorResponseToAF w rsp)) ''Content-Type'' = Some jsonCT"
  using createErrorJSON_status [of rsp] sendError_sel [OF assms(1), of rsp] assms(2) by simp

theorem error_response_sent_witness:
  "rw_status (rw_new :: nef_writer) = None \<and>
   gm_get (rw_sent (sendErrorResponseToAF rw_new rsp_zero)) ''Content-Type'' = Some jsonCT"
  using error_response_sent [of rw_new rsp_zero] by simp

text \<open>
  (C3) Enrolment across the two programs. The controller has initialized its authority at some earlier time,
  from files that hold no certificate that is not a valid authority. When it then answers the request
  that a node makes with its key, the node accepts the answer: the certificate it takes carries its key,
  passes its verification and names an approved node whose serial is that of the key. The controller has
  stored that certificate under the node, and the host of the peer's address as the address of the node.
\<close>

theorem enrolment_verifies:
  fixes g p env s key der pub spki creds s'
  defines "e \<equiv> gs_pki g"
  assumes law: "pki_lawful e" "x509_lawful e" "csr_lawful g"
    and start: "caInitRootCA (e\<lparr>timeNow := t0\<rparr>) d fs = Some (Ret fs' (Inr (gs_ca g)))"
    and stored: "\<And>c. LoadCertificate e (caCertFile d) fs = Inr c \<Longrightarrow> may_sign c"
    and key: "CreateCertificateRequest e key = Inr der" "signerPublic e key = Some pub" "MarshalPKIXPublicKey e pub = Inr spki"
    and ok: "db_ok (ct_db s)"
    and call: "intercept p enrollmentMethod (Server_RequestCredentials g p
        (EncodeToMemory e \<lparr>pem_Type = ''CERTIFICATE REQUEST'', pem_Bytes = der\<rparr>)) env s = Ret s' (Inr creds)"
  shows "\<exists>c cert n pe host port i. requestCredentials e key (nodeClient g p env s) = Inr c \<and> verify e c = None
    \<and> cr_cert c = Some cert \<and> x_RawSubjectPublicKeyInfo cert = spki \<and> pn_CommonName (x_Subject cert) = node_ID n
    \<and> gm_get (ct_db s) (T_nodes, node_ID n) = Some (ENode n) \<and> node_Serial n = gs_serial g spki
    \<and> gm_get (ct_db s') (T_credentials, node_ID n) = Some (ECreds \<lparr>cr_ID = node_ID n, cr_Certificate = certPEM e cert\<rparr>)
    \<and> p = Some pe \<and> netSplitHostPort (pe_Addr pe) = Inr (host, port) \<and> host \<noteq> []
    \<and> gm_get (ct_db s') (T_node_grpc_targets, i) = Some (ETarget \<lparr>ng_ID = i, ng_NodeID = node_ID n, ng_GRPCTarget = host\<rparr>)"
proof -
  note ca = started_authority [OF law(1,2) start stored]
  let ?b = "\<lparr>pem_Type = ''CERTIFICATE REQUEST'', pem_Bytes = der\<rparr>"
  have b: "pem_Type ?b \<in> pem_types" by (simp add: pem_types_def)
  obtain d where d: "pem_Encode e ?b = Some d" using lawful_pem [OF law(1) b] by blast
  have dec: "pem_Decode e d = (Some ?b, [])" by (rule pem_round_trip [OF law(1) b d])
  have call': "intercept p enrollmentMethod (Server_RequestCredentials g p d) env s = Ret s' (Inr creds)"
    using call by (simp add: EncodeToMemory_def d)
  have "fst (pem_Decode (gs_pki g) d) = Some ?b" using dec by (simp add: e_def)
  from intercept_ok [OF call' Server_RequestCredentials_wp [OF this]] obtain n cert
    where en: "enrolled g p (ct_db s) der creds n cert (ct_db s')" by auto
  have spki: "gs_SPKI g der = spki" using law(3) key unfolding csr_lawful_def e_def by blast
  note node = enrolled_node [OF ok en, unfolded spki]
  have sign: "RootCA_SignCSR e (gs_ca g) der \<lparr>pn_CommonName = node_ID n, pn_Organization = []\<rparr> = Inr cert"
    and creds: "creds = \<lparr>pbc_Certificate = certPEM e cert, pbc_CaChain = [certPEM e (ca_Cert (gs_ca g))],
      pbc_CaPool = [certPEM e (ca_Cert (gs_ca g))]\<rparr>"
    using en by (simp_all add: enrolled_def e_def)
  note f = signed_facts [OF law(1,2) ca(1,2) key sign]
  let ?c = "\<lparr>cr_key = Some key, cr_cert = Some cert, cr_caChain = [ca_Cert (gs_ca g)], cr_caPoolCerts = [ca_Cert (gs_ca g)]\<rparr>"
  have ver: "verify e ?c = None" using f key by (simp add: verify_def x509Equal_def)
  have "nodeClient g p env s d = Inr creds" by (simp add: nodeClient_def call')
  then have "requestCredentials e key (nodeClient g p env s) = Inr ?c"
    using decode_credentials [OF law(1,2) _ ca(3), of cert] f ver key(1)
    by (simp add: requestCredentials_def d creds tryE_def wrapE_def)
  then show ?thesis using ver node en f by (auto simp: enrolled_def e_def intro!: exI [of _ ?c])
qed

text \<open>The files of an authority with the key 2 and no certificate, and the authority that is made from them.\<close>

definition ex_caFiles :: filesystem where
  "ex_caFiles = fst (StoreKey ca_pki 2 (caKeyFile ''d'') \<lparr>fs_files = [], fs_dirs = []\<rparr>)"

theorem enrolment_verifies_witness:
  "\<exists>c cert (n :: Node) i. requestCredentials ca_pki 3 (nodeClient ca_grpc ex_peer ex_env ex_s2) = Inr c \<and> verify ca_pki c = None
     \<and> cr_cert c = Some cert \<and> pn_CommonName (x_Subject cert) = node_ID n \<and> node_Serial n = ''xxx''
     \<and> gm_get (ct_db ex_s3) (T_node_grpc_targets, i) = Some (ETarget \<lparr>ng_ID = i, ng_NodeID = node_ID n, ng_GRPCTarget = ''10.0.0.1''\<rparr>)"
proof -
  have g: "gs_pki ca_grpc = ca_pki" "gs_serial ca_grpc = (\<lambda>s. s)" by (simp_all add: ca_grpc_def)
  have "case ex_enrol of Ret s' (Inr creds) \<Rightarrow> True | _ \<Rightarrow> False" by code_simp
  then obtain s' creds where r: "ex_enrol = Ret s' (Inr creds)" by (auto split: go.splits sum.splits)
  have "case caInitRootCA (ca_pki\<lparr>timeNow := 1\<rparr>) ''d'' ex_caFiles of Some (Ret _ (Inr ca)) \<Rightarrow> ca = gs_ca ca_grpc | _ \<Rightarrow> False"
    by code_simp
  then obtain fs' where start: "caInitRootCA (ca_pki\<lparr>timeNow := 1\<rparr>) ''d'' ex_caFiles = Some (Ret fs' (Inr (gs_ca ca_grpc)))"
    by (auto split: option.splits go.splits sum.splits)
  have "case LoadCertificate ca_pki (caCertFile ''d'') ex_caFiles of Inl _ \<Rightarrow> True | Inr _ \<Rightarrow> False" by code_simp
  then have none: "LoadCertificate ca_pki (caCertFile ''d'') ex_caFiles \<noteq> Inr c" for c by auto
  have key: "CreateCertificateRequest ca_pki 3 = Inr ''rrr''" "MarshalPKIXPublicKey ca_pki 3 = Inr ''xxx''"
    by (simp_all add: ca_pki_sel numeral_3_eq_3)
  have "netSplitHostPort (pe_Addr (the ex_peer)) = Inr (''10.0.0.1'', ''5000'')" by code_simp
  then have host: "h = ''10.0.0.1''" if "ex_peer = Some pe" "netSplitHostPort (pe_Addr pe) = Inr (h, pt)" for pe h pt
    using that by (metis option.sel sum.inject(2) prod.inject)
  have s': "ex_s3 = s'" by (simp add: ex_s3_def r)
  show ?thesis
    using enrolment_verifies [of ca_grpc 1 "''d''" ex_caFiles fs' 3 "''rrr''" 3 "''xxx''" ex_s2 ex_peer ex_env s' creds, unfolded g,
        OF ca_pki_lawful ca_pki_x509 ca_grpc_lawful start _ key(1) ca_pki_sel(13) key(2)
          integrity.reach_keeps [OF ex_s2_reach]] none r host
    unfolding ex_enrol_def ex_csr_def s' by blast
qed

end
